(* ===== verification/Prelude.thy ===== *)
theory Prelude
  imports Main "HOL-Library.Finite_Map" "HOL-Library.Char_ord" "HOL-Library.List_Lexorder"
begin

text \<open>
  Shared vocabulary of the development.

  \<^item> A Go \<open>map[K]V\<close> is a finite map \<open>('k, 'v) gomap\<close>; the order in which a
    \<open>for ... range\<close> loop visits it is not fixed by the language, so every operation whose
    result could depend on that order takes the visiting order as an explicit key list, and
    \<open>enum ks m\<close> says that \<open>ks\<close> is one possible visiting order of \<open>m\<close>.
  \<^item> A run-time fault of the program (a nil dereference, a write to a nil map, an index out of
    range, unbounded recursion) is a value of \<open>go_fault\<close>; a computation that may fault has type
    \<open>'a go\<close>, and \<open>foldM\<close> runs a loop body until the first fault.
  \<^item> A Go \<open>string\<close> is a byte sequence, here \<open>string\<close> (a list of 8-bit characters) ordered
    bytewise, as Go's \<open><\<close> does.
\<close>

named_theorems map_facts \<open>lookups and domains of the finite maps that model Go maps\<close>
named_theorems inv_intros \<open>preservation of the component invariants\<close>

section \<open>Faults and fallible computations\<close>

datatype go_fault = NilDeref | NilMapWrite | IndexOutOfRange | TypeAssertion | StackOverflow | CloseOfClosedChannel | ReflectKind

type_synonym 'a go = "go_fault + 'a"

fun go_bind :: "'a go \<Rightarrow> ('a \<Rightarrow> 'b go) \<Rightarrow> 'b go" where
  "go_bind (Inl e) f = Inl e"
| "go_bind (Inr x) f = f x"

fun foldM :: "('s \<Rightarrow> 'x \<Rightarrow> 's go) \<Rightarrow> 's \<Rightarrow> 'x list \<Rightarrow> 's go" where
  "foldM f s [] = Inr s"
| "foldM f s (x # xs) = go_bind (f s x) (\<lambda>s'. foldM f s' xs)"

lemma go_bind_Inr [simp]: "go_bind x f = Inr z \<longleftrightarrow> (\<exists>y. x = Inr y \<and> f y = Inr z)"
  by (cases x) auto

lemma go_bind_cong [fundef_cong]:
  "x = y \<Longrightarrow> (\<And>a. y = Inr a \<Longrightarrow> f a = g a) \<Longrightarrow> go_bind x f = go_bind y g"
  by (cases y) auto

lemma foldM_append: "foldM f s (xs @ ys) = go_bind (foldM f s xs) (\<lambda>s'. foldM f s' ys)"
proof (induction xs arbitrary: s)
  case (Cons x xs)
  then show ?case by (cases "f s x") auto
qed simp

text \<open>
  The loop rule: a body that keeps an invariant indexed by what remains to be visited does not
  fault, and the invariant holds for the empty remainder afterwards.
\<close>

lemma foldM_rule:
  assumes "I xs s"
    and "\<And>x rest s. I (x # rest) s \<Longrightarrow> \<exists>s'. f s x = Inr s' \<and> I rest s'"
  shows "\<exists>s'. foldM f s xs = Inr s' \<and> I [] s'"
  using assms(1)
proof (induction xs arbitrary: s)
  case (Cons x xs)
  from assms(2) [OF Cons.prems] obtain s' where "f s x = Inr s'" "I xs s'" by blast
  with Cons.IH [of s'] show ?case by simp
qed simp

section \<open>Go maps\<close>

type_synonym ('k, 'v) gomap = "('k, 'v) fmap"

definition enum :: "'k list \<Rightarrow> ('k, 'v) gomap \<Rightarrow> bool" where
  "enum ks m \<longleftrightarrow> distinct ks \<and> set ks = fmdom' m"

definition gomap_len :: "('k, 'v) gomap \<Rightarrow> nat" where
  "gomap_len m = fcard (fmdom m)"

lemma gomap_len_0 [simp]: "gomap_len m = 0 \<longleftrightarrow> m = fmempty"
  by (metis fcard_0_eq fmdom_empty fmrestrict_fset_dom fmrestrict_fset_null gomap_len_def)

lemma enum_len: "enum ks m \<Longrightarrow> gomap_len m = length ks"
  by (metis distinct_card enum_def fcard.rep_eq fmdom'_alt_def gomap_len_def)

lemma enumD [dest]: "enum ks m \<Longrightarrow> k \<in> set ks \<Longrightarrow> \<exists>v. fmlookup m k = Some v"
  by (auto simp: enum_def fmlookup_dom'_iff)

lemma enum_mem: "enum ks m \<Longrightarrow> k \<in> set ks \<longleftrightarrow> fmlookup m k \<noteq> None"
  by (auto simp: enum_def fmlookup_dom'_iff)

lemma mem_fmdom': "k \<in> fmdom' m \<longleftrightarrow> fmlookup m k \<noteq> None"
  by (auto simp: fmlookup_dom'_iff)

lemma enum_exists: "\<exists>ks. enum ks m"
  unfolding enum_def using finite_distinct_list [OF finite_fmdom'] by metis

lemma enum_empty [simp]: "enum ks fmempty \<longleftrightarrow> ks = []"
  by (auto simp: enum_def)

lemma fmempty_iff: "m = fmempty \<longleftrightarrow> (\<forall>k. fmlookup m k = None)"
  by (metis fmap_ext fmempty_lookup)

lemma not_fmempty_iff: "m \<noteq> fmempty \<longleftrightarrow> (\<exists>k v. fmlookup m k = Some v)"
  by (auto simp: fmempty_iff)

text \<open>Reading a map: a missing key yields the zero value of the element type.\<close>

definition get0 :: "'v \<Rightarrow> ('k, 'v) gomap \<Rightarrow> 'k \<Rightarrow> 'v" where
  "get0 z m k = (case fmlookup m k of None \<Rightarrow> z | Some v \<Rightarrow> v)"

lemma get0_simps [simp]:
  "fmlookup m k = Some v \<Longrightarrow> get0 z m k = v"
  "fmlookup m k = None \<Longrightarrow> get0 z m k = z"
  by (simp_all add: get0_def)

lemma find_SomeD: "find P xs = Some x \<Longrightarrow> x \<in> set xs \<and> P x"
  by (induction xs) (auto split: if_splits)

section \<open>Filtering a slice in place\<close>

text \<open>
  The idiom of a loop that writes what it keeps back into the slice it reads: \<open>compact_body f\<close> is one round, with the
  write index next to the slice. The read index never falls behind the write index, so the loop is a filter.
\<close>

definition compact_body :: "('a \<Rightarrow> 'a option) \<Rightarrow> 'a list \<times> nat \<Rightarrow> nat \<Rightarrow> 'a list \<times> nat" where
  "compact_body f = (\<lambda>(xs, w) i. case f (xs ! i) of None \<Rightarrow> (xs, w) | Some x \<Rightarrow> (xs[w := x], w + 1))"

lemma compact_loop:
  assumes "n \<le> length ts"
  shows "\<exists>arr. foldl (compact_body f) (ts, 0) [0..<n] = (arr, length (List.map_filter f (take n ts))) \<and>
    length arr = length ts \<and> length (List.map_filter f (take n ts)) \<le> n \<and>
    take (length (List.map_filter f (take n ts))) arr = List.map_filter f (take n ts) \<and> drop n arr = drop n ts"
  using assms
proof (induction n)
  case 0
  then show ?case by (simp add: List.map_filter_simps)
next
  case (Suc n)
  let ?k = "length (List.map_filter f (take n ts))"
  from Suc obtain arr where arr: "foldl (compact_body f) (ts, 0) [0..<n] = (arr, ?k)" "length arr = length ts" "?k \<le> n"
    "take ?k arr = List.map_filter f (take n ts)" "drop n arr = drop n ts" by auto
  have n: "n < length ts" using Suc.prems by simp
  have cur: "arr ! n = ts ! n" using arr(2,5) n by (metis nth_via_drop Cons_nth_drop_Suc)
  have tail: "drop (Suc n) arr = drop (Suc n) ts" using arr(5) by (metis drop_Suc tl_drop)
  have split: "take (Suc n) ts = take n ts @ [ts ! n]" using n by (rule take_Suc_conv_app_nth)
  show ?case
  proof (cases "f (ts ! n)")
    case None
    then have "List.map_filter f (take (Suc n) ts) = List.map_filter f (take n ts)"
      by (simp add: split List.map_filter_def)
    with None arr cur tail show ?thesis by (auto simp: compact_body_def)
  next
    case (Some x)
    then have mf: "List.map_filter f (take (Suc n) ts) = List.map_filter f (take n ts) @ [x]"
      by (simp add: split List.map_filter_def)
    have "take (Suc ?k) (arr[?k := x]) = take ?k arr @ [x]"
      using arr(2,3) n by (simp add: take_Suc_conv_app_nth)
    with Some arr cur tail mf show ?thesis by (auto simp: compact_body_def)
  qed
qed

lemma compact_filters:
  "(case foldl (compact_body f) (ts, 0) [0..<length ts] of (arr, n) \<Rightarrow> take n arr) = List.map_filter f ts"
  using compact_loop [of "length ts" ts f] by auto

end
