(* ===== verification/Diff.thy ===== *)
theory Diff
  imports Prelude
begin

text \<open>
  The map difference of \<open>otel-allocator/internal/diff/diff.go\<close>. \<open>Maps\<close> compares two maps
  keyed by \<open>K\<close> whose values carry a \<open>Hash() K\<close>; the hash function of the element type is the
  argument \<open>H\<close>. The two loops of the source insert only under their own loop key, so the result
  does not depend on the visiting order: \<open>Maps\<close> is written pointwise, \<open>Maps_loop\<close> is the
  literal pair of loops, and \<open>Maps_loop_reconciles\<close> shows that they agree for every order.
\<close>

record ('k, 'v) Changes =
  additions :: "('k, 'v) gomap"
  removals :: "('k, 'v) gomap"

definition NewChanges :: "('k, 'v) gomap \<Rightarrow> ('k, 'v) gomap \<Rightarrow> ('k, 'v) Changes" where
  "NewChanges a r = \<lparr>additions = a, removals = r\<rparr>"

fun Maps_body :: "('v \<Rightarrow> 'k) \<Rightarrow> ('k, 'v) gomap \<Rightarrow> ('k, 'v) gomap \<Rightarrow> ('k, 'v) Changes \<Rightarrow> 'k \<Rightarrow> ('k, 'v) Changes" where
  "Maps_body H current m ch key =
     (case fmlookup m key of
        None \<Rightarrow> ch
      | Some newValue \<Rightarrow>
          (case fmlookup current key of
             None \<Rightarrow> ch\<lparr>additions := fmupd key newValue (additions ch)\<rparr>
           | Some currentValue \<Rightarrow>
               (if H currentValue \<noteq> H newValue
                then ch\<lparr>additions := fmupd key newValue (additions ch),
                        removals := fmupd key currentValue (removals ch)\<rparr>
                else ch)))"

fun Maps_body2 :: "('k, 'v) gomap \<Rightarrow> ('k, 'v) gomap \<Rightarrow> ('k, 'v) Changes \<Rightarrow> 'k \<Rightarrow> ('k, 'v) Changes" where
  "Maps_body2 current m ch key =
     (case (fmlookup current key, fmlookup m key) of
        (Some value, None) \<Rightarrow> ch\<lparr>removals := fmupd key value (removals ch)\<rparr>
      | _ \<Rightarrow> ch)"

definition Maps_loop :: "('v \<Rightarrow> 'k) \<Rightarrow> 'k list \<Rightarrow> 'k list \<Rightarrow> ('k, 'v) gomap \<Rightarrow> ('k, 'v) gomap \<Rightarrow> ('k, 'v) Changes" where
  "Maps_loop H ks1 ks2 current m =
     foldl (Maps_body2 current m) (foldl (Maps_body H current m) (NewChanges fmempty fmempty) ks1) ks2"

definition Maps :: "('v \<Rightarrow> 'k) \<Rightarrow> ('k, 'v) gomap \<Rightarrow> ('k, 'v) gomap \<Rightarrow> ('k, 'v) Changes" where
  "Maps H current m = \<lparr>
     additions = fmfilter (\<lambda>k. case (fmlookup current k, fmlookup m k) of
                     (None, _) \<Rightarrow> True
                   | (Some c, Some n) \<Rightarrow> H c \<noteq> H n
                   | (Some c, None) \<Rightarrow> True) m,
     removals = fmfilter (\<lambda>k. case (fmlookup current k, fmlookup m k) of
                     (_, None) \<Rightarrow> True
                   | (Some c, Some n) \<Rightarrow> H c \<noteq> H n
                   | (None, Some n) \<Rightarrow> True) current\<rparr>"

subsection \<open>What the difference contains\<close>

lemma Maps_additions [map_facts]:
  "fmlookup (additions (Maps H current m)) k = Some v \<longleftrightarrow>
     fmlookup m k = Some v \<and> (\<forall>c. fmlookup current k = Some c \<longrightarrow> H c \<noteq> H v)"
  by (auto simp: Maps_def split: option.splits)

lemma Maps_removals [map_facts]:
  "fmlookup (removals (Maps H current m)) k = Some v \<longleftrightarrow>
     fmlookup current k = Some v \<and> (\<forall>n. fmlookup m k = Some n \<longrightarrow> H v \<noteq> H n)"
  by (auto simp: Maps_def split: option.splits)

lemma loop1_additions:
  "fmlookup (additions (foldl (Maps_body H current m) ch ks)) k =
     (if k \<in> set ks \<and> fmlookup m k \<noteq> None \<and>
         (\<forall>c n. fmlookup current k = Some c \<longrightarrow> fmlookup m k = Some n \<longrightarrow> H c \<noteq> H n)
      then fmlookup m k else fmlookup (additions ch) k)"
  by (induction ks arbitrary: ch) (auto split: option.splits)

lemma loop1_removals:
  "fmlookup (removals (foldl (Maps_body H current m) ch ks)) k =
     (if k \<in> set ks \<and> (\<exists>c n. fmlookup current k = Some c \<and> fmlookup m k = Some n \<and> H c \<noteq> H n)
      then fmlookup current k else fmlookup (removals ch) k)"
  by (induction ks arbitrary: ch) (auto split: option.splits)

lemma loop2_additions: "additions (foldl (Maps_body2 current m) ch ks) = additions ch"
  by (induction ks arbitrary: ch) (auto split: option.splits)

lemma loop2_removals:
  "fmlookup (removals (foldl (Maps_body2 current m) ch ks)) k =
     (if k \<in> set ks \<and> fmlookup current k \<noteq> None \<and> fmlookup m k = None
      then fmlookup current k else fmlookup (removals ch) k)"
  by (induction ks arbitrary: ch) (auto split: option.splits)

lemma Maps_loop_additions:
  assumes "enum ks1 m"
  shows "additions (Maps_loop H ks1 ks2 current m) = additions (Maps H current m)"
proof (rule fmap_ext)
  fix k
  show "fmlookup (additions (Maps_loop H ks1 ks2 current m)) k = fmlookup (additions (Maps H current m)) k"
    using enum_mem [OF assms, of k]
    by (cases "fmlookup m k"; cases "fmlookup current k")
      (auto simp: Maps_loop_def NewChanges_def loop1_additions loop2_additions Maps_def)
qed

lemma Maps_loop_removals:
  assumes "enum ks1 m" "enum ks2 current"
  shows "removals (Maps_loop H ks1 ks2 current m) = removals (Maps H current m)"
proof (rule fmap_ext)
  fix k
  show "fmlookup (removals (Maps_loop H ks1 ks2 current m)) k = fmlookup (removals (Maps H current m)) k"
    using enum_mem [OF assms(1), of k] enum_mem [OF assms(2), of k]
    by (cases "fmlookup m k"; cases "fmlookup current k")
      (auto simp: Maps_loop_def NewChanges_def loop1_removals loop2_removals Maps_def)
qed

subsection \<open>The difference is the reconciliation step\<close>

text \<open>For maps keyed by the hash of their values, as both users of \<open>Maps\<close> have them.\<close>

definition keyed :: "('v \<Rightarrow> 'k) \<Rightarrow> ('k, 'v) gomap \<Rightarrow> bool" where
  "keyed H m \<longleftrightarrow> (\<forall>k v. fmlookup m k = Some v \<longrightarrow> H v = k)"

lemma keyedD: "keyed H m \<Longrightarrow> fmlookup m k = Some v \<Longrightarrow> H v = k"
  by (simp add: keyed_def)

lemma keyed_additions:
  "keyed H current \<Longrightarrow> keyed H m \<Longrightarrow>
     fmlookup (additions (Maps H current m)) k = (if fmlookup current k = None then fmlookup m k else None)"
  by (auto simp: Maps_def keyed_def split: option.splits)

lemma keyed_removals:
  "keyed H current \<Longrightarrow> keyed H m \<Longrightarrow>
     fmlookup (removals (Maps H current m)) k = (if fmlookup m k = None then fmlookup current k else None)"
  by (auto simp: Maps_def keyed_def split: option.splits)

subsection \<open>Properties\<close>

text \<open>
  C11: The two loops of \<open>Maps\<close> compute the same difference in every visiting order, and applying
  it turns the current map into the new one up to equal hashes: dropping the removals and then
  entering the additions gives a map with the keys of the new map, in which every value is the new
  value or a current value with the same hash.
\<close>

theorem Maps_loop_reconciles:
  assumes "enum ks1 m" "enum ks2 current"
  shows "Maps_loop H ks1 ks2 current m = Maps H current m \<and>
    (let ch = Maps_loop H ks1 ks2 current m;
         r = fmadd (fmdrop_fset (fmdom (removals ch)) current) (additions ch)
     in fmdom' r = fmdom' m \<and>
        (\<forall>k v. fmlookup r k = Some v \<longrightarrow> (\<exists>n. fmlookup m k = Some n \<and> (v = n \<or> fmlookup current k = Some v \<and> H v = H n))))"
proof -
  have eq: "Maps_loop H ks1 ks2 current m = Maps H current m"
    using Maps_loop_additions [OF assms(1), of H ks2 current] Maps_loop_removals [OF assms, of H]
    by (cases "Maps_loop H ks1 ks2 current m"; cases "Maps H current m") simp
  define r where "r = fmadd (fmdrop_fset (fmdom (removals (Maps H current m))) current) (additions (Maps H current m))"
  have r: "fmlookup r k = (case fmlookup m k of None \<Rightarrow> None
      | Some n \<Rightarrow> (case fmlookup current k of None \<Rightarrow> Some n | Some c \<Rightarrow> if H c = H n then Some c else Some n))" for k
    by (auto simp: r_def Maps_def fmlookup_dom_iff split: option.splits)
  have "fmdom' r = fmdom' m" by (auto simp: mem_fmdom' r split: option.splits)
  moreover have "\<exists>n. fmlookup m k = Some n \<and> (v = n \<or> fmlookup current k = Some v \<and> H v = H n)" if "fmlookup r k = Some v" for k v
    using that by (auto simp: r split: option.splits if_splits)
  ultimately show ?thesis unfolding eq r_def Let_def by blast
qed

theorem Maps_loop_reconciles_witness:
  "Maps_loop id [1, 2] [2, 3 :: int] (fmupd 2 2 (fmupd 3 3 fmempty)) (fmupd 1 1 (fmupd 2 5 fmempty)) =
   Maps id (fmupd 2 2 (fmupd 3 3 fmempty)) (fmupd 1 1 (fmupd 2 5 fmempty))"
  using Maps_loop_reconciles [of "[1, 2]" "fmupd 1 1 (fmupd 2 5 fmempty)" "[2, 3 :: int]" "fmupd 2 2 (fmupd 3 3 fmempty)" id]
  by (simp add: enum_def insert_commute)

end
