(* ===== verification/Target.thy ===== *)
theory Target
  imports Diff "HOL-Library.Word"
begin

text \<open>
  Scrape targets: \<open>otel-allocator/internal/target/target.go\<close>.

  The label set of a target is a list of name/value pairs. The operations on it belong to the
  Prometheus \<open>labels\<close> package and the digest to \<open>xxhash\<close>; neither is part of the
  repository, so they are the fields of the parameter \<open>labels_lib\<close>. What the code relies on
  is named by \<open>labels_lib_ok\<close>.
\<close>

type_synonym labels = "(string \<times> string) list"
type_synonym ItemHash = "64 word"

record labels_lib =
  labels_Get :: "labels \<Rightarrow> string \<Rightarrow> string"
  labels_MatchLabels :: "labels \<Rightarrow> bool \<Rightarrow> string list \<Rightarrow> labels"
  labels_Hash :: "labels \<Rightarrow> 64 word"
  xxhash_Sum64 :: "string \<Rightarrow> 64 word"
  MetaLabelPrefix :: string
  AddressLabel :: string

text \<open>
  Documented behaviour of \<open>Labels.Get\<close> and \<open>Labels.MatchLabels\<close>: with \<open>on = true\<close> the
  latter keeps exactly the labels with a listed name, and \<open>Get\<close> of a missing label is empty.
\<close>

definition labels_lib_ok :: "labels_lib \<Rightarrow> bool" where
  "labels_lib_ok L \<longleftrightarrow>
     (\<forall>ls names n. labels_Get L (labels_MatchLabels L ls True names) n =
        (if n \<in> set names then labels_Get L ls n else ''''))"

section \<open>Items and their hash\<close>

record Item =
  JobName :: string
  TargetURL :: string
  Labels :: labels
  CollectorName :: string
  item_hash :: ItemHash

definition nodeLabels :: "string list" where
  "nodeLabels = [''__meta_kubernetes_pod_node_name'', ''__meta_kubernetes_node_name'',
     ''__meta_kubernetes_endpoint_node_name'']"

definition endpointSliceTargetKindLabel :: string where
  "endpointSliceTargetKindLabel = ''__meta_kubernetes_endpointslice_address_target_kind''"

definition endpointSliceTargetNameLabel :: string where
  "endpointSliceTargetNameLabel = ''__meta_kubernetes_endpointslice_address_target_name''"

definition endpointSliceName :: string where
  "endpointSliceName = ''__meta_kubernetes_endpointslice_name''"

definition relevantLabelNames :: "string list" where
  "relevantLabelNames = nodeLabels @ [endpointSliceTargetKindLabel, endpointSliceTargetNameLabel]"

text \<open>\<open>strconv.FormatUint(h, 10)\<close>: the decimal digits, most significant first.\<close>

fun format_uint :: "nat \<Rightarrow> string" where
  "format_uint n = (if n < 10 then [char_of (48 + n)] else format_uint (n div 10) @ [char_of (48 + n mod 10)])"

declare format_uint.simps [simp del]

definition ItemHash_String :: "ItemHash \<Rightarrow> string" where
  "ItemHash_String h = format_uint (unat h)"

definition WithHash :: "ItemHash \<Rightarrow> Item \<Rightarrow> Item" where
  "WithHash h i = i\<lparr>item_hash := h\<rparr>"

definition NewItem :: "string \<Rightarrow> string \<Rightarrow> labels \<Rightarrow> string \<Rightarrow> (Item \<Rightarrow> Item) list \<Rightarrow> Item" where
  "NewItem job url ls col opts =
     foldl (\<lambda>i opt. opt i)
       \<lparr>JobName = job, TargetURL = url, Labels = ls, CollectorName = col, item_hash = 0\<rparr> opts"

text \<open>\<open>binary.LittleEndian.PutUint64\<close> into an array of eight bytes.\<close>

definition put_uint64 :: "64 word \<Rightarrow> string" where
  "put_uint64 w = map (\<lambda>i. char_of (unat w div 256 ^ i)) [0..<8]"

definition LabelsHashWithJobName :: "labels_lib \<Rightarrow> labels \<Rightarrow> string \<Rightarrow> 64 word" where
  "LabelsHashWithJobName L ls jobName = xxhash_Sum64 L (put_uint64 (labels_Hash L ls) @ jobName)"

definition Hash :: "labels_lib \<Rightarrow> Item \<Rightarrow> ItemHash" where
  "Hash L t = (if item_hash t = 0 then LabelsHashWithJobName L (Labels t) (JobName t) else item_hash t)"

text \<open>\<open>Hash()\<close> also stores what it computed in the item.\<close>

definition cacheHash :: "labels_lib \<Rightarrow> Item \<Rightarrow> Item" where
  "cacheHash L t = t\<lparr>item_hash := Hash L t\<rparr>"

definition sep :: string where
  "sep = [CHR 0xFF]"

definition hash_input :: "labels_lib \<Rightarrow> labels \<Rightarrow> string" where
  "hash_input L ls = concat (map (\<lambda>(n, v). n @ sep @ v @ sep)
     (filter (\<lambda>(n, v). take (length (MetaLabelPrefix L)) n \<noteq> MetaLabelPrefix L) ls))"

definition HashFromBuilder :: "labels_lib \<Rightarrow> labels \<Rightarrow> string \<Rightarrow> ItemHash" where
  "HashFromBuilder L builder jobName = xxhash_Sum64 L (hash_input L builder @ jobName)"

section \<open>The node of a target\<close>

fun first_nonempty :: "(string \<Rightarrow> string) \<Rightarrow> string list \<Rightarrow> string option" where
  "first_nonempty g [] = None"
| "first_nonempty g (l # ls) = (if g l \<noteq> '''' then Some (g l) else first_nonempty g ls)"

definition GetNodeName :: "labels_lib \<Rightarrow> Item \<Rightarrow> string" where
  "GetNodeName L t =
     (let relevantLabels = labels_MatchLabels L (Labels t) True relevantLabelNames
      in case first_nonempty (labels_Get L relevantLabels) nodeLabels of
           Some val \<Rightarrow> val
         | None \<Rightarrow>
             (if labels_Get L relevantLabels endpointSliceTargetKindLabel \<noteq> ''Node'' then ''''
              else labels_Get L relevantLabels endpointSliceTargetNameLabel))"

definition GetEndpointSliceName :: "labels_lib \<Rightarrow> Item \<Rightarrow> string" where
  "GetEndpointSliceName L t = labels_Get L (Labels t) endpointSliceName"

section \<open>Facts\<close>

lemma CollectorName_same: "CollectorName t = x \<Longrightarrow> t\<lparr>CollectorName := x\<rparr> = t"
  by simp

lemma Hash_CollectorName [simp]: "Hash L (t\<lparr>CollectorName := c\<rparr>) = Hash L t"
  by (simp add: Hash_def)

lemma GetNodeName_CollectorName [simp]: "GetNodeName L (t\<lparr>CollectorName := c\<rparr>) = GetNodeName L t"
  by (simp add: GetNodeName_def)

lemma Hash_cacheHash [simp]: "Hash L (cacheHash L t) = Hash L t"
  by (simp add: cacheHash_def Hash_def)

lemma cacheHash_fields [simp]:
  "JobName (cacheHash L t) = JobName t" "TargetURL (cacheHash L t) = TargetURL t"
  "Labels (cacheHash L t) = Labels t" "CollectorName (cacheHash L t) = CollectorName t"
  by (simp_all add: cacheHash_def)

lemma NewItem_fields [simp]:
  "JobName (NewItem j u ls c []) = j" "TargetURL (NewItem j u ls c []) = u"
  "Labels (NewItem j u ls c []) = ls" "CollectorName (NewItem j u ls c []) = c"
  "item_hash (NewItem j u ls c []) = 0"
  by (simp_all add: NewItem_def)

lemma NewItem_WithHash [simp]:
  "NewItem j u ls c [WithHash h] = (NewItem j u ls c [])\<lparr>item_hash := h\<rparr>"
  by (simp add: NewItem_def WithHash_def)

lemma first_nonempty_cong:
  "(\<And>l. l \<in> set ls \<Longrightarrow> g l = h l) \<Longrightarrow> first_nonempty g ls = first_nonempty h ls"
  by (induction ls) auto

text \<open>Digits and their value: formatting a 64-bit hash and reading it back.\<close>

lemma of_char_digit: "d < 10 \<Longrightarrow> (of_char (char_of (48 + d :: nat)) :: nat) = 48 + d"
  by (simp add: of_char_of)

lemma format_uint_induct [case_names small step]:
  assumes "\<And>n. n < 10 \<Longrightarrow> P n [char_of (48 + n)]"
    and "\<And>n. \<not> n < 10 \<Longrightarrow> P (n div 10) (format_uint (n div 10)) \<Longrightarrow>
           P n (format_uint (n div 10) @ [char_of (48 + n mod 10)])"
  shows "P n (format_uint n)"
proof (induction n rule: format_uint.induct)
  case (1 n)
  then show ?case using assms by (cases "n < 10") (simp_all add: format_uint.simps [of n])
qed

lemma put_uint64_length [simp]: "length (put_uint64 w) = 8"
  by (simp add: put_uint64_def)

end
