(* ===== verification/Strategy.thy ===== *)
theory Strategy
  imports Target
begin

text \<open>
  The collector record and the \<open>Strategy\<close> interface of
  \<open>otel-allocator/internal/allocation/strategy.go\<close>.

  The interface is a record of its two methods that touch state (\<open>strategy_ops\<close>); a method
  that ranges over the collector map takes the visiting order as a key list. What the allocator
  relies on is the locale \<open>strategy_contract\<close>: \<open>ok st cs\<close> says that the strategy state
  was last synchronised with the collector map \<open>cs\<close>, and \<open>elig st node it\<close> that a collector
  on \<open>node\<close> may hold the target \<open>it\<close>.
\<close>

record Collector =
  Name :: string
  NodeName :: string
  NumTargets :: int
  TargetsPerJob :: "(string, int) gomap"

definition Collector_Hash :: "Collector \<Rightarrow> string" where
  "Collector_Hash c = Name c"

definition Collector_String :: "Collector \<Rightarrow> string" where
  "Collector_String c = Name c"

definition NewCollector :: "string \<Rightarrow> string \<Rightarrow> Collector" where
  "NewCollector name node = \<lparr>Name = name, NodeName = node, NumTargets = 0, TargetsPerJob = fmempty\<rparr>"

type_synonym collectors = "(string, Collector) gomap"

datatype strategy_error = UnknownCollector string | NoCollectorForNode string

text \<open>
  \<open>GetCollectorForTarget\<close> returns a collector pointer and an error: \<open>Inl\<close> is the error,
  \<open>Inr None\<close> the nil pointer. Both methods may fault.
\<close>

record 'st strategy_ops =
  op_GetCollectorForTarget :: "'st \<Rightarrow> string list \<Rightarrow> collectors \<Rightarrow> Item \<Rightarrow> (strategy_error + Collector option) go"
  op_SetCollectors :: "'st \<Rightarrow> string list \<Rightarrow> collectors \<Rightarrow> 'st go"

definition cols_wf :: "collectors \<Rightarrow> bool" where
  "cols_wf cs \<longleftrightarrow> (\<forall>n c. fmlookup cs n = Some c \<longrightarrow> Name c = n \<and> n \<noteq> '''')"

lemma cols_wfD:
  "cols_wf cs \<Longrightarrow> fmlookup cs n = Some c \<Longrightarrow> Name c = n"
  "cols_wf cs \<Longrightarrow> fmlookup cs n = Some c \<Longrightarrow> n \<noteq> ''''"
  unfolding cols_wf_def by blast+

text \<open>The part of a collector that never changes after its creation.\<close>

definition static :: "Collector \<Rightarrow> string \<times> string" where
  "static c = (Name c, NodeName c)"

definition same_cols :: "collectors \<Rightarrow> collectors \<Rightarrow> bool" where
  "same_cols cs cs' \<longleftrightarrow> (\<forall>n. map_option static (fmlookup cs n) = map_option static (fmlookup cs' n))"

lemma same_cols_refl [simp]: "same_cols cs cs"
  by (simp add: same_cols_def)

lemma same_cols_trans: "same_cols a b \<Longrightarrow> same_cols b c \<Longrightarrow> same_cols a c"
  by (simp add: same_cols_def)

lemma same_cols_upd: "fmlookup cs n = Some c \<Longrightarrow> static c' = static c \<Longrightarrow> same_cols cs (fmupd n c' cs)"
  by (simp add: same_cols_def)

lemma same_cols_None: "same_cols cs cs' \<Longrightarrow> fmlookup cs' n = None \<longleftrightarrow> fmlookup cs n = None"
  by (metis same_cols_def option.map_disc_iff)

lemma same_cols_dom: "same_cols cs cs' \<Longrightarrow> fmdom' cs' = fmdom' cs"
  using same_cols_None [of cs cs'] by (auto simp: mem_fmdom')

lemma same_cols_empty: "same_cols cs cs' \<Longrightarrow> cs' = fmempty \<longleftrightarrow> cs = fmempty"
  using same_cols_None [of cs cs'] by (simp add: fmempty_iff)

lemma same_cols_enum: "same_cols cs cs' \<Longrightarrow> enum ks cs \<Longrightarrow> enum ks cs'"
  by (simp add: enum_def same_cols_dom)

lemma same_colsD:
  assumes "same_cols cs cs'" "fmlookup cs n = Some c"
  shows "\<exists>c'. fmlookup cs' n = Some c' \<and> Name c' = Name c \<and> NodeName c' = NodeName c"
proof -
  from assms(1) have "map_option static (fmlookup cs n) = map_option static (fmlookup cs' n)"
    by (simp add: same_cols_def)
  with assms(2) show ?thesis by (cases "fmlookup cs' n") (auto simp: static_def)
qed

lemma same_cols_sym: "same_cols cs cs' \<Longrightarrow> same_cols cs' cs"
  by (simp add: same_cols_def)

lemma same_cols_wf:
  assumes "same_cols cs cs'" "cols_wf cs"
  shows "cols_wf cs'"
proof -
  have "Name c = n \<and> n \<noteq> ''''" if "fmlookup cs' n = Some c" for n c
    using same_colsD [OF same_cols_sym [OF assms(1)] that] assms(2) unfolding cols_wf_def by fastforce
  then show ?thesis by (simp add: cols_wf_def)
qed

locale strategy_contract =
  fixes ops :: "'st strategy_ops"
    and ok :: "'st \<Rightarrow> collectors \<Rightarrow> bool"
    and elig :: "'st \<Rightarrow> string \<Rightarrow> Item \<Rightarrow> bool"
  assumes get_result: "ok st cs \<Longrightarrow> cols_wf cs \<Longrightarrow> cs \<noteq> fmempty \<Longrightarrow> enum ks cs \<Longrightarrow>
      (\<exists>e. op_GetCollectorForTarget ops st ks cs it = Inr (Inl e)) \<or>
      (\<exists>c. op_GetCollectorForTarget ops st ks cs it = Inr (Inr (Some c)) \<and>
           fmlookup cs (Name c) = Some c \<and> elig st (NodeName c) it)"
    and get_sticky: "ok st cs \<Longrightarrow> cols_wf cs \<Longrightarrow> enum ks cs \<Longrightarrow> fmlookup cs n = Some c \<Longrightarrow>
      elig st (NodeName c) it \<Longrightarrow> op_GetCollectorForTarget ops st ks cs it \<noteq> Inr (Inl e)"
    and set_result: "ok st cs0 \<Longrightarrow> cols_wf cs \<Longrightarrow> enum ks cs \<Longrightarrow>
      \<exists>st'. op_SetCollectors ops st ks cs = Inr st' \<and> ok st' cs \<and> elig st' = elig st"
    and ok_same: "ok st cs \<Longrightarrow> same_cols cs cs' \<Longrightarrow> ok st cs'"
    and elig_CollectorName: "elig st node (it\<lparr>CollectorName := x\<rparr>) = elig st node it"

text \<open>A strategy that never leaves a target unassigned while there is a collector.\<close>

locale total_strategy = strategy_contract +
  assumes get_total: "ok st cs \<Longrightarrow> cols_wf cs \<Longrightarrow> cs \<noteq> fmempty \<Longrightarrow> enum ks cs \<Longrightarrow>
      op_GetCollectorForTarget ops st ks cs it \<noteq> Inr (Inl e)"

end
