(* ===== verification/Allocator.thy ===== *)
theory Allocator
  imports Strategy
begin

text \<open>
  The allocator of \<open>otel-allocator/internal/allocation/allocator.go\<close>: the collector table, the
  table of tracked targets and the index from collector and job to target hashes.

  Target items are shared by pointer between \<open>targetItems\<close> and the code that mutates
  \<open>CollectorName\<close>. The pointee of a tracked item lives in \<open>targetItems\<close> under its hash;
  \<open>put_item\<close> writes a changed item back there, which is the effect of the pointer write.
  Logging and the meters are left out. Each operation takes the visiting orders of the maps it
  ranges over. The operations of the strategy are the argument \<open>ops\<close>.
\<close>

record 'st allocator =
  strategy :: 'st
  collectors :: "(string, Collector) gomap"
  targetItems :: "(ItemHash, Item) gomap"
  targetItemsPerJobPerCollector :: "(string, (string, (ItemHash, bool) gomap) gomap) gomap"
  filter_hook :: "(Item list \<Rightarrow> Item list) option"

definition newAllocator :: "'st \<Rightarrow> 'st allocator" where
  "newAllocator st = \<lparr>strategy = st, collectors = fmempty, targetItems = fmempty,
     targetItemsPerJobPerCollector = fmempty, filter_hook = None\<rparr>"

definition SetFilter :: "'st allocator \<Rightarrow> (Item list \<Rightarrow> Item list) option \<Rightarrow> 'st allocator" where
  "SetFilter a f = a\<lparr>filter_hook := f\<rparr>"

definition put_item :: "labels_lib \<Rightarrow> 'st allocator \<Rightarrow> Item \<Rightarrow> 'st allocator" where
  "put_item L a it =
     (case fmlookup (targetItems a) (Hash L it) of
        None \<Rightarrow> a
      | Some _ \<Rightarrow> a\<lparr>targetItems := fmupd (Hash L it) it (targetItems a)\<rparr>)"

definition put_collector :: "'st allocator \<Rightarrow> string \<Rightarrow> Collector \<Rightarrow> 'st allocator" where
  "put_collector a n c = a\<lparr>collectors := fmupd n c (collectors a)\<rparr>"

section \<open>Assigning and unassigning one target\<close>

text \<open>
  \<open>delete\<close> on a nil map does nothing, so an index without an entry for the collector stays as
  it is.
\<close>

definition drop_mapping :: "(string, (string, (ItemHash, bool) gomap) gomap) gomap \<Rightarrow> string \<Rightarrow> string \<Rightarrow> ItemHash
    \<Rightarrow> (string, (string, (ItemHash, bool) gomap) gomap) gomap" where
  "drop_mapping per c j h =
     (case fmlookup per c of
        None \<Rightarrow> per
      | Some jobs \<Rightarrow>
          (let hs = fmdrop h (get0 fmempty jobs j)
           in fmupd c (if gomap_len hs = 0 then fmdrop j jobs else fmupd j hs jobs) per))"

definition uncount :: "Collector \<Rightarrow> string \<Rightarrow> Collector" where
  "uncount c job =
     (let n = get0 0 (TargetsPerJob c) job - 1
      in c\<lparr>NumTargets := NumTargets c - 1,
           TargetsPerJob := (if n = 0 then fmdrop job (TargetsPerJob c) else fmupd job n (TargetsPerJob c))\<rparr>)"

definition unassignTargetItem :: "labels_lib \<Rightarrow> 'st allocator \<Rightarrow> Item \<Rightarrow> 'st allocator \<times> Item" where
  "unassignTargetItem L a item =
     (let collectorName = CollectorName item
      in if collectorName = '''' then (a, item)
         else case fmlookup (collectors a) collectorName of
                None \<Rightarrow> (a, item)
              | Some c \<Rightarrow>
                  (let a = put_collector a collectorName (uncount c (JobName item));
                       a = a\<lparr>targetItemsPerJobPerCollector :=
                             drop_mapping (targetItemsPerJobPerCollector a) collectorName (JobName item) (Hash L item)\<rparr>;
                       item = item\<lparr>CollectorName := ''''\<rparr>
                   in (put_item L a item, item)))"

definition addCollectorTargetItemMapping :: "labels_lib \<Rightarrow> 'st allocator \<Rightarrow> Item \<Rightarrow> 'st allocator" where
  "addCollectorTargetItemMapping L a tg =
     (let per = targetItemsPerJobPerCollector a;
          jobs = get0 fmempty per (CollectorName tg);
          hs = get0 fmempty jobs (JobName tg)
      in a\<lparr>targetItemsPerJobPerCollector :=
            fmupd (CollectorName tg) (fmupd (JobName tg) (fmupd (Hash L tg) True hs) jobs) per\<rparr>)"

definition recount :: "Collector \<Rightarrow> string \<Rightarrow> Collector" where
  "recount c job =
     c\<lparr>NumTargets := NumTargets c + 1,
       TargetsPerJob := fmupd job (get0 0 (TargetsPerJob c) job + 1) (TargetsPerJob c)\<rparr>"

text \<open>
  The part of \<open>addTargetToTargetItems\<close> after the strategy has chosen the owner: a target that
  is still assigned is unassigned first, then the new assignment is entered in all three tables.
\<close>

definition assignTo :: "labels_lib \<Rightarrow> 'st allocator \<Rightarrow> Item \<Rightarrow> Collector \<Rightarrow> 'st allocator go" where
  "assignTo L a tg colOwner =
     (let (a, tg) = (if fmlookup (collectors a) (CollectorName tg) \<noteq> None \<and> CollectorName tg \<noteq> ''''
                     then unassignTargetItem L a tg else (a, tg));
          tg = tg\<lparr>CollectorName := Name colOwner\<rparr>;
          a = put_item L a tg;
          a = addCollectorTargetItemMapping L a tg
      in case fmlookup (collectors a) (Name colOwner) of
           None \<Rightarrow> Inl NilDeref
         | Some c \<Rightarrow> Inr (put_collector a (Name colOwner) (recount c (JobName tg))))"

definition addTargetToTargetItems ::
    "labels_lib \<Rightarrow> 'st strategy_ops \<Rightarrow> string list \<Rightarrow> 'st allocator \<Rightarrow> Item \<Rightarrow> ('st allocator \<times> strategy_error option) go" where
  "addTargetToTargetItems L ops cord a tg =
     (let a = a\<lparr>targetItems := fmupd (Hash L tg) tg (targetItems a)\<rparr>
      in if gomap_len (collectors a) = 0 then Inr (a, None)
         else go_bind (op_GetCollectorForTarget ops (strategy a) cord (collectors a) tg)
           (\<lambda>r. case r of
                  Inl err \<Rightarrow> Inr (a, Some err)
                | Inr None \<Rightarrow> Inl NilDeref
                | Inr (Some colOwner) \<Rightarrow> go_bind (assignTo L a tg colOwner) (\<lambda>a. Inr (a, None))))"

definition removeTargetItem :: "labels_lib \<Rightarrow> 'st allocator \<Rightarrow> Item \<Rightarrow> 'st allocator" where
  "removeTargetItem L a item =
     (let (a, item) = unassignTargetItem L a item
      in a\<lparr>targetItems := fmdrop (Hash L item) (targetItems a)\<rparr>)"

section \<open>Reconciling targets\<close>

definition removal_body :: "labels_lib \<Rightarrow> (ItemHash, Item) Changes \<Rightarrow> 'st allocator \<Rightarrow> ItemHash \<Rightarrow> 'st allocator" where
  "removal_body L d a k =
     (case fmlookup (targetItems a) k of
        None \<Rightarrow> a
      | Some item \<Rightarrow> (if fmlookup (removals d) k \<noteq> None then removeTargetItem L a item else a))"

definition addition_body ::
    "labels_lib \<Rightarrow> 'st strategy_ops \<Rightarrow> string list \<Rightarrow> (ItemHash, Item) Changes
     \<Rightarrow> 'st allocator \<times> strategy_error list \<Rightarrow> ItemHash \<Rightarrow> ('st allocator \<times> strategy_error list) go" where
  "addition_body L ops cord d = (\<lambda>(a, errs) k.
     case fmlookup (additions d) k of
       None \<Rightarrow> Inr (a, errs)
     | Some item \<Rightarrow>
         (if fmlookup (targetItems a) k \<noteq> None then Inr (a, errs)
          else go_bind (addTargetToTargetItems L ops cord a (item\<lparr>CollectorName := ''''\<rparr>))
                 (\<lambda>(a, e). Inr (a, case e of None \<Rightarrow> errs | Some err \<Rightarrow> errs @ [err]))))"

text \<open>The second component is the joined assignment error that the source logs.\<close>

definition handleTargets ::
    "labels_lib \<Rightarrow> 'st strategy_ops \<Rightarrow> ItemHash list \<Rightarrow> ItemHash list \<Rightarrow> string list
     \<Rightarrow> 'st allocator \<Rightarrow> (ItemHash, Item) Changes \<Rightarrow> ('st allocator \<times> strategy_error list) go" where
  "handleTargets L ops rord aord cord a d =
     foldM (addition_body L ops cord d) (foldl (removal_body L d) a rord, []) aord"

function chunk :: "nat \<Rightarrow> 'a list \<Rightarrow> 'a list list" where
  "chunk n xs = (if xs = [] \<or> n = 0 then [] else take n xs # chunk n (drop n xs))"
  by pat_completeness auto
termination
  by (relation "measure (\<lambda>(n, xs). length xs)") (auto simp: length_greater_0_conv [symmetric] simp del: length_greater_0_conv)

declare chunk.simps [simp del]

definition minChunkSize :: nat where
  "minChunkSize = 100"

text \<open>
  The goroutines of \<open>buildTargetMap\<close> each hash the items of their own chunk, so their joint
  effect is that every item carries its hash; the map is then built in list order.
  \<open>concurrency\<close> is twice the number of CPUs and so positive.
\<close>

definition buildTargetMap :: "labels_lib \<Rightarrow> Item list \<Rightarrow> nat \<Rightarrow> (ItemHash, Item) gomap" where
  "buildTargetMap L targets concurrency =
     (let chunkSize = max (length targets div concurrency) minChunkSize;
          hashed = concat (map (map (cacheHash L)) (chunk chunkSize targets))
      in foldl (\<lambda>m item. fmupd (Hash L item) item m) fmempty hashed)"

definition SetTargets ::
    "labels_lib \<Rightarrow> 'st strategy_ops \<Rightarrow> nat \<Rightarrow> ItemHash list \<Rightarrow> ItemHash list \<Rightarrow> string list
     \<Rightarrow> 'st allocator \<Rightarrow> Item list \<Rightarrow> ('st allocator \<times> strategy_error list) go" where
  "SetTargets L ops concurrency rord aord cord a targets =
     (let targets = (case filter_hook a of None \<Rightarrow> targets | Some f \<Rightarrow> f targets);
          targetMap = buildTargetMap L targets concurrency;
          d = Maps (Hash L) (targetItems a) targetMap
      in if gomap_len (additions d) \<noteq> 0 \<or> gomap_len (removals d) \<noteq> 0
         then handleTargets L ops rord aord cord a d else Inr (a, []))"

section \<open>Reconciling collectors\<close>

definition index_hashes :: "'st allocator \<Rightarrow> string \<Rightarrow> ItemHash fset" where
  "index_hashes a n = ffUnion (fmdom |`| fmran (get0 fmempty (targetItemsPerJobPerCollector a) n))"

definition removeCollector :: "'st allocator \<Rightarrow> Collector \<Rightarrow> 'st allocator go" where
  "removeCollector a c =
     (let a = a\<lparr>collectors := fmdrop (Name c) (collectors a)\<rparr>;
          hs = index_hashes a (Name c)
      in if \<not> (hs |\<subseteq>| fmdom (targetItems a)) then Inl NilDeref
         else Inr (a\<lparr>targetItems := fmmap_keys (\<lambda>h it. if h |\<in>| hs then it\<lparr>CollectorName := ''''\<rparr> else it) (targetItems a),
                    targetItemsPerJobPerCollector := fmdrop (Name c) (targetItemsPerJobPerCollector a)\<rparr>))"

definition colremoval_body :: "(string, Collector) Changes \<Rightarrow> 'st allocator \<Rightarrow> string \<Rightarrow> 'st allocator go" where
  "colremoval_body d a k = (case fmlookup (removals d) k of None \<Rightarrow> Inr a | Some c \<Rightarrow> removeCollector a c)"

definition coladdition_body :: "(string, Collector) Changes \<Rightarrow> 'st allocator \<Rightarrow> string \<Rightarrow> 'st allocator" where
  "coladdition_body d a k =
     (case fmlookup (additions d) k of
        None \<Rightarrow> a
      | Some i \<Rightarrow> put_collector a (Name i) (NewCollector (Name i) (NodeName i)))"

definition realloc_body ::
    "labels_lib \<Rightarrow> 'st strategy_ops \<Rightarrow> string list
     \<Rightarrow> 'st allocator \<times> strategy_error list \<Rightarrow> ItemHash \<Rightarrow> ('st allocator \<times> strategy_error list) go" where
  "realloc_body L ops cord = (\<lambda>(a, errs) k.
     case fmlookup (targetItems a) k of
       None \<Rightarrow> Inr (a, errs)
     | Some item \<Rightarrow>
         go_bind (addTargetToTargetItems L ops cord a item)
           (\<lambda>(a, e). case e of
                       None \<Rightarrow> Inr (a, errs)
                     | Some err \<Rightarrow> Inr (put_item L a (item\<lparr>CollectorName := ''''\<rparr>), errs @ [err])))"

definition handleCollectors ::
    "labels_lib \<Rightarrow> 'st strategy_ops \<Rightarrow> string list \<Rightarrow> string list \<Rightarrow> string list \<Rightarrow> ItemHash list
     \<Rightarrow> 'st allocator \<Rightarrow> (string, Collector) Changes \<Rightarrow> ('st allocator \<times> strategy_error list) go" where
  "handleCollectors L ops rord aord cord iord a d =
     go_bind (foldM (colremoval_body d) a rord) (\<lambda>a.
       let a = foldl (coladdition_body d) a aord
       in go_bind (op_SetCollectors ops (strategy a) cord (collectors a)) (\<lambda>st.
            foldM (realloc_body L ops cord) (a\<lparr>strategy := st\<rparr>, []) iord))"

definition SetCollectors ::
    "labels_lib \<Rightarrow> 'st strategy_ops \<Rightarrow> string list \<Rightarrow> string list \<Rightarrow> string list \<Rightarrow> ItemHash list
     \<Rightarrow> 'st allocator \<Rightarrow> (string, Collector) gomap \<Rightarrow> ('st allocator \<times> strategy_error list) go" where
  "SetCollectors L ops rord aord cord iord a cs =
     (let d = Maps Collector_Hash (collectors a) cs
      in if gomap_len (additions d) \<noteq> 0 \<or> gomap_len (removals d) \<noteq> 0
         then handleCollectors L ops rord aord cord iord a d else Inr (a, []))"

section \<open>Queries\<close>

text \<open>
  The slice holds pointers: \<open>None\<close> is a nil entry. \<open>hord\<close> is the visiting order of the hash
  set that the index holds for the collector and the job.
\<close>

definition job_hashes :: "'st allocator \<Rightarrow> string \<Rightarrow> string \<Rightarrow> (ItemHash, bool) gomap" where
  "job_hashes a collector job = get0 fmempty (get0 fmempty (targetItemsPerJobPerCollector a) collector) job"

definition GetTargetsForCollectorAndJob :: "'st allocator \<Rightarrow> ItemHash list \<Rightarrow> string \<Rightarrow> string \<Rightarrow> Item option list" where
  "GetTargetsForCollectorAndJob a hord collector job =
     (case fmlookup (targetItemsPerJobPerCollector a) collector of
        None \<Rightarrow> []
      | Some jobs \<Rightarrow>
          (case fmlookup jobs job of
             None \<Rightarrow> []
           | Some hs \<Rightarrow> map (fmlookup (targetItems a)) hord))"

definition TargetItems :: "'st allocator \<Rightarrow> (ItemHash, Item) gomap" where
  "TargetItems a = targetItems a"

definition Collectors :: "'st allocator \<Rightarrow> (string, Collector) gomap" where
  "Collectors a = collectors a"

end
