(* ===== verification/AllocatorInv.thy ===== *)
theory AllocatorInv
  imports Allocator
begin

text \<open>
  The invariant of the allocator: the per-collector counters, the per-job counters and the index
  from collector and job to target hashes are all functions of the \<open>CollectorName\<close> fields of
  the tracked targets, and every assigned target is on a live collector. The invariant is stated
  table by table, so that each table's update is one lemma.
\<close>

section \<open>The tables as functions of the assignment\<close>

type_synonym item_table = "(ItemHash, Item) gomap"
type_synonym index = "(string, (string, (ItemHash, bool) gomap) gomap) gomap"

definition items_of :: "item_table \<Rightarrow> string \<Rightarrow> ItemHash set" where
  "items_of TI n = {h. \<exists>it. fmlookup TI h = Some it \<and> CollectorName it = n}"

definition job_items :: "item_table \<Rightarrow> string \<Rightarrow> string \<Rightarrow> ItemHash set" where
  "job_items TI n j = {h. \<exists>it. fmlookup TI h = Some it \<and> CollectorName it = n \<and> JobName it = j}"

definition indexed :: "index \<Rightarrow> string \<Rightarrow> string \<Rightarrow> ItemHash set" where
  "indexed per n j =
     (case fmlookup per n of None \<Rightarrow> {}
      | Some jobs \<Rightarrow> (case fmlookup jobs j of None \<Rightarrow> {} | Some hs \<Rightarrow> fmdom' hs))"

definition count_opt :: "nat \<Rightarrow> int option" where
  "count_opt k = (if k = 0 then None else Some (int k))"

definition live :: "item_table \<Rightarrow> collectors \<Rightarrow> bool" where
  "live TI C \<longleftrightarrow> (\<forall>h it. fmlookup TI h = Some it \<longrightarrow> CollectorName it \<noteq> '''' \<longrightarrow> CollectorName it \<in> fmdom' C)"

definition idx :: "item_table \<Rightarrow> index \<Rightarrow> bool" where
  "idx TI per \<longleftrightarrow> (\<forall>n j. indexed per n j = (if n = '''' then {} else job_items TI n j))"

definition idx_wf :: "index \<Rightarrow> collectors \<Rightarrow> bool" where
  "idx_wf per C \<longleftrightarrow> (\<forall>n jobs. fmlookup per n = Some jobs \<longrightarrow>
     n \<in> fmdom' C \<and> (\<forall>j hs. fmlookup jobs j = Some hs \<longrightarrow> hs \<noteq> fmempty))"

definition counts :: "item_table \<Rightarrow> collectors \<Rightarrow> bool" where
  "counts TI C \<longleftrightarrow> (\<forall>n c. fmlookup C n = Some c \<longrightarrow>
     NumTargets c = int (card (items_of TI n)) \<and>
     (\<forall>j. fmlookup (TargetsPerJob c) j = count_opt (card (job_items TI n j))))"

definition core_inv :: "labels_lib \<Rightarrow> 'st allocator \<Rightarrow> bool" where
  "core_inv L a \<longleftrightarrow>
     keyed (Hash L) (targetItems a) \<and> cols_wf (collectors a) \<and>
     live (targetItems a) (collectors a) \<and>
     idx (targetItems a) (targetItemsPerJobPerCollector a) \<and>
     idx_wf (targetItemsPerJobPerCollector a) (collectors a) \<and>
     counts (targetItems a) (collectors a)"

subsection \<open>Counting sets\<close>

lemma finite_items_of [simp]: "finite (items_of TI n)"
  by (rule finite_subset [OF _ finite_fmdom' [of TI]]) (auto simp: items_of_def mem_fmdom')

lemma finite_job_items [simp]: "finite (job_items TI n j)"
  by (rule finite_subset [OF _ finite_fmdom' [of TI]]) (auto simp: job_items_def mem_fmdom')

lemma items_of_upd:
  "items_of (fmupd h it TI) n = (if CollectorName it = n then insert h (items_of TI n) else items_of TI n - {h})"
  by (auto simp: items_of_def)

lemma job_items_upd:
  "job_items (fmupd h it TI) n j =
     (if CollectorName it = n \<and> JobName it = j then insert h (job_items TI n j) else job_items TI n j - {h})"
  by (auto simp: job_items_def)

lemma items_of_drop: "items_of (fmdrop h TI) n = items_of TI n - {h}"
  by (auto simp: items_of_def)

lemma job_items_drop: "job_items (fmdrop h TI) n j = job_items TI n j - {h}"
  by (auto simp: job_items_def)

lemma mem_items_of: "fmlookup TI h = Some it \<Longrightarrow> h \<in> items_of TI n \<longleftrightarrow> CollectorName it = n"
  by (auto simp: items_of_def)

lemma mem_job_items: "fmlookup TI h = Some it \<Longrightarrow> h \<in> job_items TI n j \<longleftrightarrow> CollectorName it = n \<and> JobName it = j"
  by (auto simp: job_items_def)

lemma not_mem_items_of: "fmlookup TI h = None \<Longrightarrow> h \<notin> items_of TI n" "fmlookup TI h = None \<Longrightarrow> h \<notin> job_items TI n j"
  by (auto simp: items_of_def job_items_def)

lemmas item_sets = items_of_upd job_items_upd items_of_drop job_items_drop
lemmas item_mems = mem_items_of mem_job_items not_mem_items_of

lemma card_job_items_Suc: "h \<in> job_items TI n j \<Longrightarrow> \<exists>k. card (job_items TI n j) = Suc k"
  by (metis card_0_eq empty_iff finite_job_items not0_implies_Suc)

lemma card_items_of_Suc: "h \<in> items_of TI n \<Longrightarrow> \<exists>k. card (items_of TI n) = Suc k"
  by (metis card_0_eq empty_iff finite_items_of not0_implies_Suc)

subsection \<open>One table at a time\<close>

lemma countsD:
  assumes "counts TI C" "fmlookup C n = Some c"
  shows "NumTargets c = int (card (items_of TI n))"
    and "fmlookup (TargetsPerJob c) j = count_opt (card (job_items TI n j))"
  using assms by (auto simp: counts_def)

lemma counts_updI:
  assumes "counts TI C"
    and "\<And>m j. m \<noteq> n \<Longrightarrow> m \<in> fmdom' C \<Longrightarrow> items_of TI' m = items_of TI m \<and> job_items TI' m j = job_items TI m j"
    and "NumTargets c = int (card (items_of TI' n))"
    and "\<And>j. fmlookup (TargetsPerJob c) j = count_opt (card (job_items TI' n j))"
  shows "counts TI' (fmupd n c C)"
proof -
  have "NumTargets d = int (card (items_of TI' m)) \<and>
      (\<forall>j. fmlookup (TargetsPerJob d) j = count_opt (card (job_items TI' m j)))"
    if "fmlookup (fmupd n c C) m = Some d" for m d
  proof (cases "m = n")
    case True
    with that assms(3,4) show ?thesis by auto
  next
    case False
    with that have "fmlookup C m = Some d" by (simp split: if_splits)
    with False assms(1) assms(2) [of m] show ?thesis by (auto simp: counts_def mem_fmdom')
  qed
  then show ?thesis by (simp add: counts_def)
qed

lemma counts_unassign:
  assumes "counts TI C" "cols_wf C" "fmlookup TI h = Some it" "CollectorName it = n" "fmlookup C n = Some c"
  shows "counts (fmupd h (it\<lparr>CollectorName := ''''\<rparr>) TI) (fmupd n (uncount c (JobName it)) C)"
proof (rule counts_updI [OF assms(1)])
  have n: "n \<noteq> ''''" using assms by (auto simp: cols_wf_def)
  have mem: "h \<in> items_of TI n" "h \<in> job_items TI n (JobName it)"
    using assms by (auto simp: item_mems)
  show "items_of (fmupd h (it\<lparr>CollectorName := ''''\<rparr>) TI) m = items_of TI m \<and>
      job_items (fmupd h (it\<lparr>CollectorName := ''''\<rparr>) TI) m j = job_items TI m j"
    if "m \<noteq> n" "m \<in> fmdom' C" for m j
    using that assms by (auto simp: item_sets item_mems mem_fmdom' cols_wf_def)
  show "NumTargets (uncount c (JobName it)) = int (card (items_of (fmupd h (it\<lparr>CollectorName := ''''\<rparr>) TI) n))"
    using mem(1) n countsD(1) [OF assms(1,5)] card_items_of_Suc [OF mem(1)]
    by (auto simp: uncount_def Let_def item_sets card_Diff_singleton)
  show "fmlookup (TargetsPerJob (uncount c (JobName it))) j =
      count_opt (card (job_items (fmupd h (it\<lparr>CollectorName := ''''\<rparr>) TI) n j))" for j
  proof (cases "j = JobName it")
    case True
    obtain k where k: "card (job_items TI n (JobName it)) = Suc k"
      using card_job_items_Suc [OF mem(2)] by blast
    then have "get0 0 (TargetsPerJob c) (JobName it) = int (Suc k)"
      using countsD(2) [OF assms(1,5), of "JobName it"] by (simp add: count_opt_def)
    with True n mem(2) k show ?thesis
      by (auto simp: uncount_def Let_def item_sets card_Diff_singleton count_opt_def)
  next
    case False
    with n countsD(2) [OF assms(1,5), of j] assms(3) show ?thesis
      by (auto simp: uncount_def Let_def item_sets item_mems)
  qed
qed

lemma counts_assign:
  assumes "counts TI C" "cols_wf C" "CollectorName it = n" "fmlookup C n = Some c"
    and "\<And>it0. fmlookup TI h = Some it0 \<Longrightarrow> CollectorName it0 = ''''"
  shows "counts (fmupd h it TI) (fmupd n (recount c (JobName it)) C)"
proof (rule counts_updI [OF assms(1)])
  have n: "n \<noteq> ''''" using assms by (auto simp: cols_wf_def)
  have fresh: "h \<notin> items_of TI m" "h \<notin> job_items TI m j" if "m \<noteq> ''''" for m j
    using assms(5) that by (auto simp: items_of_def job_items_def)
  show "items_of (fmupd h it TI) m = items_of TI m \<and> job_items (fmupd h it TI) m j = job_items TI m j"
    if "m \<noteq> n" "m \<in> fmdom' C" for m j
  proof -
    have "m \<noteq> ''''" using that assms(2) by (auto simp: mem_fmdom' cols_wf_def)
    with that assms(3) fresh(1) [of m] fresh(2) [of m j] show ?thesis by (auto simp: item_sets)
  qed
  show "NumTargets (recount c (JobName it)) = int (card (items_of (fmupd h it TI) n))"
    using n fresh countsD(1) [OF assms(1,4)] assms(3) by (simp add: recount_def item_sets)
  show "fmlookup (TargetsPerJob (recount c (JobName it))) j = count_opt (card (job_items (fmupd h it TI) n j))" for j
    using n fresh countsD(2) [OF assms(1,4), of j] assms(3)
    by (auto simp: recount_def item_sets count_opt_def get0_def)
qed

lemma counts_drop:
  assumes "counts TI C" "cols_wf C" "\<And>it. fmlookup TI h = Some it \<Longrightarrow> CollectorName it = ''''"
  shows "counts (fmdrop h TI) C"
proof -
  have "items_of (fmdrop h TI) n = items_of TI n \<and> job_items (fmdrop h TI) n j = job_items TI n j"
    if "n \<in> fmdom' C" for n j
  proof -
    have "n \<noteq> ''''" using that assms(2) by (auto simp: mem_fmdom' cols_wf_def)
    with assms(3) show ?thesis by (auto simp: items_of_def job_items_def)
  qed
  with assms(1) show ?thesis by (auto simp: counts_def mem_fmdom')
qed

lemma indexed_drop_mapping:
  "indexed (drop_mapping per n j h) m i = (if m = n \<and> i = j then indexed per m i - {h} else indexed per m i)"
proof (cases "fmlookup per n")
  case (Some jobs)
  let ?hs = "get0 fmempty jobs j"
  have "fmdom' (fmdrop h ?hs) = fmdom' ?hs - {h}" by simp
  then have "fmdrop h ?hs = fmempty \<Longrightarrow> fmdom' ?hs - {h} = {}" by (metis fmdom'_empty)
  with Some show ?thesis
    by (auto simp: drop_mapping_def indexed_def Let_def get0_def split: option.splits)
qed (simp add: drop_mapping_def indexed_def)

lemma indexed_add:
  "indexed (fmupd n (fmupd j (fmupd h b (get0 fmempty (get0 fmempty per n) j)) (get0 fmempty per n)) per) m i =
     (if m = n \<and> i = j then insert h (indexed per m i) else indexed per m i)"
  by (auto simp: indexed_def get0_def split: option.splits)

lemma idx_unassign:
  assumes "idx TI per" "fmlookup TI h = Some it" "CollectorName it \<noteq> ''''"
  shows "idx (fmupd h (it\<lparr>CollectorName := ''''\<rparr>) TI) (drop_mapping per (CollectorName it) (JobName it) h)"
  using assms by (auto simp: idx_def indexed_drop_mapping item_sets item_mems)

lemma idx_assign:
  assumes "idx TI per" "CollectorName it \<noteq> ''''"
    and "\<And>it0. fmlookup TI h = Some it0 \<Longrightarrow> CollectorName it0 = ''''"
  shows "idx (fmupd h it TI) (fmupd (CollectorName it) (fmupd (JobName it)
      (fmupd h True (get0 fmempty (get0 fmempty per (CollectorName it)) (JobName it)))
      (get0 fmempty per (CollectorName it))) per)"
proof -
  have "h \<notin> job_items TI m j" if "m \<noteq> ''''" for m j
    using assms(3) that by (auto simp: job_items_def)
  with assms(1,2) show ?thesis by (auto simp: idx_def indexed_add item_sets)
qed

lemma idx_drop:
  assumes "idx TI per" "\<And>it. fmlookup TI h = Some it \<Longrightarrow> CollectorName it = ''''"
  shows "idx (fmdrop h TI) per"
proof -
  have "h \<notin> job_items TI m j" if "m \<noteq> ''''" for m j
    using assms(2) that by (auto simp: job_items_def)
  with assms(1) show ?thesis by (auto simp: idx_def item_sets)
qed

lemma idx_wf_unassign:
  assumes "idx_wf per C"
  shows "idx_wf (drop_mapping per n j h) C"
  using assms unfolding idx_wf_def drop_mapping_def Let_def
  by (fastforce split: option.splits if_splits)

lemma idx_wf_assign:
  assumes "idx_wf per C" "n \<in> fmdom' C"
  shows "idx_wf (fmupd n (fmupd j (fmupd h True (get0 fmempty (get0 fmempty per n) j)) (get0 fmempty per n)) per) C"
  using assms unfolding idx_wf_def
  by (auto simp: get0_def fmempty_iff split: option.splits if_splits)

lemma live_upd: "live TI C \<Longrightarrow> (CollectorName it \<noteq> '''' \<Longrightarrow> CollectorName it \<in> fmdom' C) \<Longrightarrow> live (fmupd h it TI) C"
  by (auto simp: live_def)

lemma live_same_dom: "fmdom' C' = fmdom' C \<Longrightarrow> live TI C' = live TI C"
  by (simp add: live_def)

lemma idx_wf_same_dom: "fmdom' C' = fmdom' C \<Longrightarrow> idx_wf per C' = idx_wf per C"
  by (simp add: idx_wf_def)

lemma keyed_upd: "keyed H TI \<Longrightarrow> H it = h \<Longrightarrow> keyed H (fmupd h it TI)"
  by (auto simp: keyed_def)

lemma cols_wf_upd: "cols_wf C \<Longrightarrow> fmlookup C n = Some c \<Longrightarrow> Name c' = Name c \<Longrightarrow> cols_wf (fmupd n c' C)"
  by (auto simp: cols_wf_def)

lemma uncount_static [simp]: "static (uncount c j) = static c" "Name (uncount c j) = Name c"
  by (simp_all add: uncount_def static_def Let_def)

lemma recount_static [simp]: "static (recount c j) = static c" "Name (recount c j) = Name c"
  by (simp_all add: recount_def static_def)

section \<open>The invariant through one assignment\<close>

lemma core_invD:
  assumes "core_inv L a"
  shows "keyed (Hash L) (targetItems a)" "cols_wf (collectors a)" "live (targetItems a) (collectors a)"
    "idx (targetItems a) (targetItemsPerJobPerCollector a)"
    "idx_wf (targetItemsPerJobPerCollector a) (collectors a)" "counts (targetItems a) (collectors a)"
  using assms by (auto simp: core_inv_def)

lemma core_hash: "core_inv L a \<Longrightarrow> fmlookup (targetItems a) h = Some it \<Longrightarrow> Hash L it = h"
  by (auto dest: core_invD(1) keyedD)

text \<open>
  What unassigning a tracked, assigned target does: the item loses its collector, all other items
  keep theirs, the collectors keep their identity, and the invariant holds again.
\<close>

lemma unassign_spec:
  assumes inv: "core_inv L a" and it: "fmlookup (targetItems a) (Hash L it) = Some it"
    and c: "CollectorName it \<noteq> ''''"
  obtains a' where "unassignTargetItem L a it = (a', it\<lparr>CollectorName := ''''\<rparr>)" "core_inv L a'"
    "targetItems a' = fmupd (Hash L it) (it\<lparr>CollectorName := ''''\<rparr>) (targetItems a)"
    "same_cols (collectors a) (collectors a')" "strategy a' = strategy a" "filter_hook a' = filter_hook a"
proof -
  let ?n = "CollectorName it" and ?it = "it\<lparr>CollectorName := ''''\<rparr>"
  let ?per = "drop_mapping (targetItemsPerJobPerCollector a) ?n (JobName it) (Hash L it)"
  note i = core_invD [OF inv]
  from i(3) it c have dom: "?n \<in> fmdom' (collectors a)" by (auto simp: live_def)
  then obtain d where d: "fmlookup (collectors a) ?n = Some d" by (auto simp: mem_fmdom')
  let ?C = "fmupd ?n (uncount d (JobName it)) (collectors a)"
  let ?a = "a\<lparr>collectors := ?C, targetItemsPerJobPerCollector := ?per,
      targetItems := fmupd (Hash L it) ?it (targetItems a)\<rparr>"
  have domC: "fmdom' ?C = fmdom' (collectors a)" using dom by auto
  have "live (targetItems ?a) (collectors ?a)"
    using live_upd [OF i(3), of ?it] live_same_dom [OF domC] by simp
  moreover have "idx_wf (targetItemsPerJobPerCollector ?a) (collectors ?a)"
    using idx_wf_unassign [OF i(5)] idx_wf_same_dom [OF domC] by simp
  ultimately have "core_inv L ?a"
    using i(1) cols_wf_upd [OF i(2) d] idx_unassign [OF i(4) it c] counts_unassign [OF i(6,2) it refl d]
    by (simp add: core_inv_def keyed_upd)
  moreover have "unassignTargetItem L a it = (?a, ?it)"
    using c d it by (simp add: unassignTargetItem_def put_collector_def put_item_def Let_def)
  ultimately show ?thesis
    using that [of ?a] same_cols_upd [OF d, of "uncount d (JobName it)"] by simp
qed

text \<open>
  What entering a new assignment does to a tracked target that has none.
\<close>

lemma assign_fresh_spec:
  assumes inv: "core_inv L a" and it0: "fmlookup (targetItems a) (Hash L it) = Some it0" "CollectorName it0 = ''''"
    and d: "fmlookup (collectors a) (CollectorName it) = Some d"
  shows "core_inv L (put_collector (addCollectorTargetItemMapping L (put_item L a it) it)
      (CollectorName it) (recount d (JobName it)))"
proof -
  let ?a = "put_collector (addCollectorTargetItemMapping L (put_item L a it) it)
      (CollectorName it) (recount d (JobName it))"
  note i = core_invD [OF inv]
  have C: "collectors ?a = fmupd (CollectorName it) (recount d (JobName it)) (collectors a)"
    and TI: "targetItems ?a = fmupd (Hash L it) it (targetItems a)"
    using it0 by (simp_all add: put_collector_def addCollectorTargetItemMapping_def put_item_def Let_def)
  have dom: "CollectorName it \<in> fmdom' (collectors a)" using d by (auto simp: mem_fmdom')
  have n: "CollectorName it \<noteq> ''''" using d i(2) by (auto simp: cols_wf_def)
  have domC: "fmdom' (collectors ?a) = fmdom' (collectors a)" using dom C by auto
  have fresh: "\<And>x. fmlookup (targetItems a) (Hash L it) = Some x \<Longrightarrow> CollectorName x = ''''"
    using it0 by simp
  have "live (targetItems ?a) (collectors ?a)"
    using live_upd [OF i(3) dom] live_same_dom [OF domC] TI by simp
  moreover have "idx_wf (targetItemsPerJobPerCollector ?a) (collectors ?a)"
    using idx_wf_assign [OF i(5) dom] idx_wf_same_dom [OF domC] it0
    by (simp add: put_collector_def addCollectorTargetItemMapping_def put_item_def Let_def)
  moreover have "idx (targetItems ?a) (targetItemsPerJobPerCollector ?a)"
    using idx_assign [OF i(4) n fresh, of "Hash L it"] it0
    by (simp add: put_collector_def addCollectorTargetItemMapping_def put_item_def Let_def)
  moreover have "counts (targetItems ?a) (collectors ?a)"
    using counts_assign [OF i(6,2) refl d fresh, of "Hash L it"] TI C by simp
  ultimately show ?thesis
    using keyed_upd [OF i(1) refl] cols_wf_upd [OF i(2) d] TI C by (simp add: core_inv_def)
qed

lemma core_track:
  assumes inv: "core_inv L a" and new: "fmlookup (targetItems a) (Hash L tg) = None" "CollectorName tg = ''''"
  shows "core_inv L (a\<lparr>targetItems := fmupd (Hash L tg) tg (targetItems a)\<rparr>)"
proof -
  note i = core_invD [OF inv]
  have same: "items_of (fmupd (Hash L tg) tg (targetItems a)) m = items_of (targetItems a) m"
    "job_items (fmupd (Hash L tg) tg (targetItems a)) m j = job_items (targetItems a) m j" if "m \<noteq> ''''" for m j
    using that new by (auto simp: item_sets item_mems)
  have "counts (fmupd (Hash L tg) tg (targetItems a)) (collectors a)"
    using i(2,6) same by (auto simp: counts_def cols_wf_def)
  moreover have "idx (fmupd (Hash L tg) tg (targetItems a)) (targetItemsPerJobPerCollector a)"
    using i(4) same by (simp add: idx_def)
  moreover have "live (fmupd (Hash L tg) tg (targetItems a)) (collectors a)"
    using i(3) new by (auto intro: live_upd)
  ultimately show ?thesis using i keyed_upd [OF i(1) refl] by (simp add: core_inv_def)
qed

lemma core_untrack:
  assumes inv: "core_inv L a" and un: "\<And>it. fmlookup (targetItems a) h = Some it \<Longrightarrow> CollectorName it = ''''"
  shows "core_inv L (a\<lparr>targetItems := fmdrop h (targetItems a)\<rparr>)"
proof -
  note i = core_invD [OF inv]
  have "live (fmdrop h (targetItems a)) (collectors a)" using i(3) by (auto simp: live_def)
  moreover have "keyed (Hash L) (fmdrop h (targetItems a))" using i(1) by (auto simp: keyed_def)
  ultimately show ?thesis
    using i counts_drop [OF i(6,2) un] idx_drop [OF i(4) un] by (simp add: core_inv_def)
qed

lemma assignTo_spec:
  assumes inv: "core_inv L a" and it: "fmlookup (targetItems a) (Hash L tg) = Some tg"
    and d: "fmlookup (collectors a) (Name d) = Some d"
  obtains a' where "assignTo L a tg d = Inr a'" "core_inv L a'"
    "targetItems a' = fmupd (Hash L tg) (tg\<lparr>CollectorName := Name d\<rparr>) (targetItems a)"
    "same_cols (collectors a) (collectors a')" "strategy a' = strategy a" "filter_hook a' = filter_hook a"
proof -
  define p where "p = (if fmlookup (collectors a) (CollectorName tg) \<noteq> None \<and> CollectorName tg \<noteq> ''''
      then unassignTargetItem L a tg else (a, tg))"
  obtain b where b: "p = (b, tg\<lparr>CollectorName := ''''\<rparr>)" "core_inv L b"
    "fmlookup (targetItems b) (Hash L tg) = Some (tg\<lparr>CollectorName := ''''\<rparr>)"
    "fmupd (Hash L tg) x (targetItems b) = fmupd (Hash L tg) x (targetItems a)"
    "same_cols (collectors a) (collectors b)" "strategy b = strategy a" "filter_hook b = filter_hook a" for x
  proof (cases "CollectorName tg = ''''")
    case True
    then have "tg\<lparr>CollectorName := ''''\<rparr> = tg" by simp
    with True it inv that [of a] show ?thesis by (simp add: p_def)
  next
    case False
    have "fmlookup (collectors a) (CollectorName tg) \<noteq> None"
      using core_invD(3) [OF inv] it False by (auto simp: live_def mem_fmdom')
    with False have "p = unassignTargetItem L a tg" by (simp add: p_def)
    with unassign_spec [OF inv it False] that show ?thesis by (metis fmupd_idem fmupd_lookup)
  qed
  obtain e where e: "fmlookup (collectors b) (Name d) = Some e" "static e = static d"
    using same_colsD [OF b(5) d] by (auto simp: static_def)
  let ?t = "tg\<lparr>CollectorName := Name d\<rparr>"
  let ?a = "put_collector (addCollectorTargetItemMapping L (put_item L b ?t) ?t) (Name d) (recount e (JobName ?t))"
  have "core_inv L ?a"
    using assign_fresh_spec [OF b(2), of ?t "tg\<lparr>CollectorName := ''''\<rparr>" e] b(3) e(1) by simp
  moreover have "assignTo L a tg d = Inr ?a"
    unfolding assignTo_def p_def [symmetric] b(1) using b(3) e(1)
    by (simp add: Let_def put_item_def addCollectorTargetItemMapping_def)
  moreover have "same_cols (collectors a) (collectors ?a)"
    using b(3) same_cols_trans [OF b(5) same_cols_upd [OF e(1), of "recount e (JobName tg)"]]
    by (simp add: put_collector_def put_item_def addCollectorTargetItemMapping_def Let_def)
  ultimately show ?thesis
    using that [of ?a] b(3,4,6,7)
    by (simp add: put_collector_def put_item_def addCollectorTargetItemMapping_def Let_def)
qed

end
