(* ===== verification/AllocatorOps.thy ===== *)
theory AllocatorOps
  imports AllocatorInv
begin

text \<open>
  The allocator over any strategy that meets \<open>strategy_contract\<close>: no operation faults, every
  operation keeps the invariant, and each operation's effect on the tracked targets and the
  collectors. The facts proved in the locale reach the model's strategies through the
  interpretations of the theory \<open>Strategies\<close>.
\<close>

definition placed :: "('st \<Rightarrow> string \<Rightarrow> Item \<Rightarrow> bool) \<Rightarrow> 'st allocator \<Rightarrow> bool" where
  "placed elig a \<longleftrightarrow> (\<forall>h it c. fmlookup (targetItems a) h = Some it \<longrightarrow>
     fmlookup (collectors a) (CollectorName it) = Some c \<longrightarrow> elig (strategy a) (NodeName c) it)"

definition alloc_inv :: "labels_lib \<Rightarrow> ('st \<Rightarrow> collectors \<Rightarrow> bool) \<Rightarrow> ('st \<Rightarrow> string \<Rightarrow> Item \<Rightarrow> bool) \<Rightarrow> 'st allocator \<Rightarrow> bool" where
  "alloc_inv L ok elig a \<longleftrightarrow> core_inv L a \<and> ok (strategy a) (collectors a) \<and> placed elig a"

definition all_assigned :: "'st allocator \<Rightarrow> bool" where
  "all_assigned a \<longleftrightarrow> collectors a = fmempty \<or>
     (\<forall>h it. fmlookup (targetItems a) h = Some it \<longrightarrow> CollectorName it \<noteq> '''')"

lemma fmupd_same: "fmlookup m k = Some v \<Longrightarrow> fmupd k v m = m"
  by (rule fmap_ext) auto

lemma placed_upd:
  assumes "placed elig a" "targetItems a' = fmupd h it (targetItems a)" "same_cols (collectors a) (collectors a')"
    "strategy a' = strategy a"
    and "\<And>c. fmlookup (collectors a) (CollectorName it) = Some c \<Longrightarrow> elig (strategy a) (NodeName c) it"
  shows "placed elig a'"
proof -
  have "elig (strategy a') (NodeName c) x"
    if x: "fmlookup (targetItems a') k = Some x" and c: "fmlookup (collectors a') (CollectorName x) = Some c" for k x c
  proof -
    obtain d where d: "fmlookup (collectors a) (CollectorName x) = Some d" "NodeName d = NodeName c"
      using same_colsD [OF same_cols_sym [OF assms(3)] c] by auto
    show ?thesis
    proof (cases "k = h")
      case True
      with x assms(2) have "x = it" by simp
      with d assms(4,5) show ?thesis by auto
    next
      case False
      with x assms(2) have "fmlookup (targetItems a) k = Some x" by simp
      with assms(1,4) d show ?thesis unfolding placed_def by metis
    qed
  qed
  then show ?thesis by (simp add: placed_def)
qed

section \<open>Operations that do not consult the strategy\<close>

lemma remove_spec:
  assumes inv: "core_inv L a" and it: "fmlookup (targetItems a) h = Some it"
  shows "core_inv L (removeTargetItem L a it)"
    and "targetItems (removeTargetItem L a it) = fmdrop h (targetItems a)"
    and "same_cols (collectors a) (collectors (removeTargetItem L a it))"
    and "strategy (removeTargetItem L a it) = strategy a"
    and "filter_hook (removeTargetItem L a it) = filter_hook a"
proof -
  have h: "Hash L it = h" using core_hash [OF inv it] .
  obtain b where b: "unassignTargetItem L a it = (b, it\<lparr>CollectorName := ''''\<rparr>)" "core_inv L b"
    "fmlookup (targetItems b) h = Some (it\<lparr>CollectorName := ''''\<rparr>)"
    "fmdrop h (targetItems b) = fmdrop h (targetItems a)"
    "same_cols (collectors a) (collectors b)" "strategy b = strategy a" "filter_hook b = filter_hook a"
  proof (cases "CollectorName it = ''''")
    case True
    then have "it\<lparr>CollectorName := ''''\<rparr> = it" by simp
    with True it inv that [of a] show ?thesis by (simp add: unassignTargetItem_def)
  next
    case False
    with it h have "fmlookup (targetItems a) (Hash L it) = Some it" by simp
    from unassign_spec [OF inv this False] obtain b where
      "unassignTargetItem L a it = (b, it\<lparr>CollectorName := ''''\<rparr>)" "core_inv L b"
      "targetItems b = fmupd (Hash L it) (it\<lparr>CollectorName := ''''\<rparr>) (targetItems a)"
      "same_cols (collectors a) (collectors b)" "strategy b = strategy a" "filter_hook b = filter_hook a" by metis
    with that [of b] h show ?thesis by (simp add: fmdrop_fmupd_same)
  qed
  have r: "removeTargetItem L a it = b\<lparr>targetItems := fmdrop h (targetItems b)\<rparr>"
    using b(1) h by (simp add: removeTargetItem_def)
  show "core_inv L (removeTargetItem L a it)"
    unfolding r by (rule core_untrack [OF b(2)]) (use b(3) in simp)
  show "targetItems (removeTargetItem L a it) = fmdrop h (targetItems a)"
    and "same_cols (collectors a) (collectors (removeTargetItem L a it))"
    and "strategy (removeTargetItem L a it) = strategy a"
    and "filter_hook (removeTargetItem L a it) = filter_hook a"
    using r b by simp_all
qed

lemma index_hashes_items:
  assumes "core_inv L a" "n \<noteq> ''''"
  shows "fset (index_hashes a n) = items_of (targetItems a) n"
proof -
  have "h \<in> fset (index_hashes a n) \<longleftrightarrow> (\<exists>j. h \<in> indexed (targetItemsPerJobPerCollector a) n j)" for h
  proof (cases "fmlookup (targetItemsPerJobPerCollector a) n")
    case (Some jobs)
    have "h \<in> fset (index_hashes a n) \<longleftrightarrow> (\<exists>hs. hs |\<in>| fmran jobs \<and> h |\<in>| fmdom hs)"
      using Some by (auto simp: index_hashes_def ffUnion.rep_eq)
    also have "\<dots> \<longleftrightarrow> (\<exists>j hs. fmlookup jobs j = Some hs \<and> h \<in> fmdom' hs)"
      by (auto simp: fmlookup_ran_iff fmdom'_alt_def)
    also have "\<dots> \<longleftrightarrow> (\<exists>j. h \<in> indexed (targetItemsPerJobPerCollector a) n j)"
      using Some by (auto simp: indexed_def split: option.splits)
    finally show ?thesis .
  qed (simp add: index_hashes_def indexed_def)
  then have "h \<in> fset (index_hashes a n) \<longleftrightarrow> (\<exists>j. h \<in> job_items (targetItems a) n j)" for h
    using core_invD(4) [OF assms(1)] assms(2) by (simp add: idx_def)
  then show ?thesis by (auto simp: job_items_def items_of_def)
qed

text \<open>The targets of a removed collector become unassigned; nothing else changes.\<close>

definition release :: "string \<Rightarrow> Item \<Rightarrow> Item" where
  "release n it = (if CollectorName it = n then it\<lparr>CollectorName := ''''\<rparr> else it)"

lemma release_fields [simp]:
  "Hash L (release n it) = Hash L it" "JobName (release n it) = JobName it"
  "CollectorName (release n it) = (if CollectorName it = n then '''' else CollectorName it)"
  by (simp_all add: release_def)

lemma core_release:
  assumes inv: "core_inv L a" and n: "n \<noteq> ''''" and TI: "\<And>h. fmlookup TI h = map_option (release n) (fmlookup (targetItems a) h)"
  shows "core_inv L (a\<lparr>collectors := fmdrop n (collectors a), targetItems := TI,
     targetItemsPerJobPerCollector := fmdrop n (targetItemsPerJobPerCollector a)\<rparr>)"
proof -
  note i = core_invD [OF inv]
  have items: "items_of TI m = (if m = n then {} else items_of (targetItems a) m)"
    "job_items TI m j = (if m = n then {} else job_items (targetItems a) m j)" if "m \<noteq> ''''" for m j
    using that n by (force simp: items_of_def job_items_def TI release_def)+
  have "keyed (Hash L) TI" using i(1) by (auto simp: keyed_def TI)
  moreover have "cols_wf (fmdrop n (collectors a))" using i(2) by (auto simp: cols_wf_def)
  moreover have "live TI (fmdrop n (collectors a))" using i(3) by (auto simp: live_def TI split: if_splits)
  moreover have "idx TI (fmdrop n (targetItemsPerJobPerCollector a))"
    using i(4) items n by (auto simp: idx_def indexed_def split: option.splits if_splits)
  moreover have "idx_wf (fmdrop n (targetItemsPerJobPerCollector a)) (fmdrop n (collectors a))"
    using i(5) by (auto simp: idx_wf_def)
  moreover have "counts TI (fmdrop n (collectors a))"
    using i(2,6) items by (auto simp: counts_def cols_wf_def)
  ultimately show ?thesis by (simp add: core_inv_def)
qed

lemma removeCollector_spec:
  assumes inv: "core_inv L a" and n: "Name c \<noteq> ''''"
  obtains a' where "removeCollector a c = Inr a'" "core_inv L a'"
    "collectors a' = fmdrop (Name c) (collectors a)"
    "\<And>h. fmlookup (targetItems a') h = map_option (release (Name c)) (fmlookup (targetItems a) h)"
    "strategy a' = strategy a" "filter_hook a' = filter_hook a"
proof -
  let ?hs = "index_hashes a (Name c)"
  let ?TI = "fmmap_keys (\<lambda>h it. if h |\<in>| ?hs then it\<lparr>CollectorName := ''''\<rparr> else it) (targetItems a)"
  have hs: "h |\<in>| ?hs \<longleftrightarrow> h \<in> items_of (targetItems a) (Name c)" for h
    using index_hashes_items [OF inv n] by simp
  have TI: "fmlookup ?TI h = map_option (release (Name c)) (fmlookup (targetItems a) h)" for h
    by (cases "fmlookup (targetItems a) h") (auto simp: hs release_def item_mems)
  have "?hs |\<subseteq>| fmdom (targetItems a)"
    by (auto simp: hs items_of_def fmlookup_dom_iff)
  then show ?thesis
    using that [OF _ core_release [OF inv n TI]] TI by (simp add: removeCollector_def index_hashes_def)
qed

lemma core_new_collector:
  assumes inv: "core_inv L a" and n: "fmlookup (collectors a) n = None" "n \<noteq> ''''"
  shows "core_inv L (put_collector a n (NewCollector n node))"
proof -
  note i = core_invD [OF inv]
  have none: "items_of (targetItems a) n = {}" "job_items (targetItems a) n j = {}" for j
    using i(3) n unfolding items_of_def job_items_def live_def mem_fmdom' by force+
  have "counts (targetItems a) (fmupd n (NewCollector n node) (collectors a))"
    by (rule counts_updI [OF i(6)]) (simp_all add: none NewCollector_def count_opt_def)
  moreover have "cols_wf (fmupd n (NewCollector n node) (collectors a))"
    using i(2) n by (auto simp: cols_wf_def NewCollector_def)
  ultimately show ?thesis
    using i by (auto simp: core_inv_def put_collector_def live_def idx_wf_def)
qed

subsection \<open>The target map and the removal loop\<close>

lemma concat_chunk: "n \<noteq> 0 \<Longrightarrow> concat (chunk n xs) = xs"
proof (induction n xs rule: chunk.induct)
  case (1 n xs)
  then show ?case by (subst chunk.simps) auto
qed

lemma foldl_fmupd_lookup:
  "fmlookup (foldl (\<lambda>m x. fmupd (f x) x m) m xs) h =
     (case find (\<lambda>x. f x = h) (rev xs) of None \<Rightarrow> fmlookup m h | Some x \<Rightarrow> Some x)"
proof (induction xs rule: rev_induct)
  case (snoc x xs)
  then show ?case by auto
qed simp

text \<open>The map holds the last target of each hash, whatever the chunking.\<close>

lemma buildTargetMap_lookup:
  "fmlookup (buildTargetMap L targets conc) h = find (\<lambda>x. Hash L x = h) (rev (map (cacheHash L) targets))"
proof -
  have "max (length targets div conc) minChunkSize \<noteq> 0" by (simp add: minChunkSize_def)
  then have "concat (map (map (cacheHash L)) (chunk (max (length targets div conc) minChunkSize) targets))
      = map (cacheHash L) targets"
    by (simp add: map_concat [symmetric] concat_chunk)
  then show ?thesis
    by (simp add: buildTargetMap_def Let_def foldl_fmupd_lookup split: option.splits)
qed

lemma buildTargetMap_keyed: "keyed (Hash L) (buildTargetMap L targets conc)"
  by (auto simp: keyed_def buildTargetMap_lookup find_Some_iff)

lemma buildTargetMap_dom: "fmdom' (buildTargetMap L targets conc) = Hash L ` set targets"
  by (auto simp: mem_fmdom' buildTargetMap_lookup find_None_iff)

lemma removal_loop:
  assumes "core_inv L a" "a' = foldl (removal_body L d) a ks"
  shows "core_inv L a' \<and> same_cols (collectors a) (collectors a') \<and> strategy a' = strategy a \<and>
    filter_hook a' = filter_hook a \<and>
    (\<forall>h. fmlookup (targetItems a') h =
       (if h \<in> set ks \<and> fmlookup (removals d) h \<noteq> None then None else fmlookup (targetItems a) h))"
  using assms
proof (induction ks arbitrary: a)
  case (Cons k ks)
  let ?b = "removal_body L d a k"
  have b: "core_inv L ?b \<and> same_cols (collectors a) (collectors ?b) \<and> strategy ?b = strategy a \<and>
      filter_hook ?b = filter_hook a \<and>
      (\<forall>h. fmlookup (targetItems ?b) h =
         (if h = k \<and> fmlookup (removals d) h \<noteq> None then None else fmlookup (targetItems a) h))"
  proof (cases "fmlookup (targetItems a) k")
    case None
    then show ?thesis using Cons.prems(1) by (auto simp: removal_body_def)
  next
    case (Some it)
    then show ?thesis using Cons.prems(1) remove_spec [OF Cons.prems(1) Some] by (auto simp: removal_body_def)
  qed
  with Cons.IH [of ?b] Cons.prems(2) show ?case by (auto intro: same_cols_trans)
qed simp

lemma placed_restrict:
  assumes "placed elig a" "same_cols (collectors a) (collectors a')" "strategy a' = strategy a"
    and "\<And>h it. fmlookup (targetItems a') h = Some it \<Longrightarrow> fmlookup (targetItems a) h = Some it"
  shows "placed elig a'"
proof -
  have "elig (strategy a') (NodeName c) x"
    if x: "fmlookup (targetItems a') k = Some x" and c: "fmlookup (collectors a') (CollectorName x) = Some c" for k x c
  proof -
    obtain d where "fmlookup (collectors a) (CollectorName x) = Some d" "NodeName d = NodeName c"
      using same_colsD [OF same_cols_sym [OF assms(2)] c] by auto
    with assms(1,3) assms(4) [OF x] show ?thesis unfolding placed_def by metis
  qed
  then show ?thesis by (simp add: placed_def)
qed

section \<open>Operations over a strategy\<close>

text \<open>An error that the strategy really returned for some synchronised collector map.\<close>

definition reported :: "'st strategy_ops \<Rightarrow> ('st \<Rightarrow> collectors \<Rightarrow> bool) \<Rightarrow> strategy_error \<Rightarrow> bool" where
  "reported ops ok err \<longleftrightarrow> (\<exists>st cs ks it. ok st cs \<and> cols_wf cs \<and> cs \<noteq> fmempty \<and> enum ks cs \<and>
     op_GetCollectorForTarget ops st ks cs it = Inr (Inl err))"

text \<open>
  What every run of an operation guarantees: the invariant, the same collectors, the same
  configuration, only errors that the strategy returned, and no target left over without one.
\<close>

definition effect :: "labels_lib \<Rightarrow> 'st strategy_ops \<Rightarrow> ('st \<Rightarrow> collectors \<Rightarrow> bool) \<Rightarrow> ('st \<Rightarrow> string \<Rightarrow> Item \<Rightarrow> bool)
    \<Rightarrow> 'st allocator \<Rightarrow> 'st allocator \<Rightarrow> strategy_error list \<Rightarrow> bool" where
  "effect L ops ok elig a a' errs \<longleftrightarrow>
     alloc_inv L ok elig a' \<and> same_cols (collectors a) (collectors a') \<and> strategy a' = strategy a \<and>
     filter_hook a' = filter_hook a \<and> (\<forall>err \<in> set errs. reported ops ok err) \<and>
     (errs = [] \<longrightarrow> all_assigned a \<longrightarrow> all_assigned a')"

lemma effectI:
  assumes "alloc_inv L ok elig a'" "same_cols (collectors a) (collectors a')" "strategy a' = strategy a"
    "filter_hook a' = filter_hook a" "\<And>err. err \<in> set errs \<Longrightarrow> reported ops ok err"
    "errs = [] \<Longrightarrow> all_assigned a \<Longrightarrow> all_assigned a'"
  shows "effect L ops ok elig a a' errs"
  using assms by (simp add: effect_def)

lemma effect_refl: "alloc_inv L ok elig a \<Longrightarrow> effect L ops ok elig a a []"
  by (simp add: effect_def)

lemma effect_trans:
  "effect L ops ok elig a b e1 \<Longrightarrow> effect L ops ok elig b c e2 \<Longrightarrow> effect L ops ok elig a c (e1 @ e2)"
  by (auto simp: effect_def intro: same_cols_trans)

text \<open>
  What one call of \<open>addTargetToTargetItems\<close> does: \<open>x\<close> is the new collector name of the target.
\<close>

definition added :: "labels_lib \<Rightarrow> 'st strategy_ops \<Rightarrow> ('st \<Rightarrow> collectors \<Rightarrow> bool) \<Rightarrow> ('st \<Rightarrow> string \<Rightarrow> Item \<Rightarrow> bool)
    \<Rightarrow> string list \<Rightarrow> 'st allocator \<Rightarrow> Item \<Rightarrow> 'st allocator \<Rightarrow> strategy_error option \<Rightarrow> string \<Rightarrow> bool" where
  "added L ops ok elig ks a tg a' e x \<longleftrightarrow>
     alloc_inv L ok elig a' \<and> same_cols (collectors a) (collectors a') \<and> strategy a' = strategy a \<and>
     filter_hook a' = filter_hook a \<and>
     targetItems a' = fmupd (Hash L tg) (tg\<lparr>CollectorName := x\<rparr>) (targetItems a) \<and>
     (case e of
        None \<Rightarrow> (if collectors a = fmempty then x = ''''
                 else \<exists>c. op_GetCollectorForTarget ops (strategy a) ks (collectors a) tg = Inr (Inr (Some c)) \<and>
                          x = Name c \<and> fmlookup (collectors a) x = Some c)
      | Some err \<Rightarrow> collectors a \<noteq> fmempty \<and> CollectorName tg = '''' \<and> x = '''' \<and>
                    op_GetCollectorForTarget ops (strategy a) ks (collectors a) tg = Inr (Inl err))"

definition err_list :: "strategy_error option \<Rightarrow> strategy_error list" where
  "err_list e = (case e of None \<Rightarrow> [] | Some err \<Rightarrow> [err])"

text \<open>
  How the strategy decided about a target during a loop: \<open>C'\<close> is the collector map (with the
  counters of that moment) it was asked with.
\<close>

inductive decided :: "'st strategy_ops \<Rightarrow> 'st \<Rightarrow> string list \<Rightarrow> collectors \<Rightarrow> strategy_error list \<Rightarrow> Item \<Rightarrow> Item \<Rightarrow> bool"
  for ops st ks C errs it where
  no_collectors: "C = fmempty \<Longrightarrow> decided ops st ks C errs it (it\<lparr>CollectorName := ''''\<rparr>)"
| chosen: "same_cols C C' \<Longrightarrow> C' \<noteq> fmempty \<Longrightarrow> op_GetCollectorForTarget ops st ks C' it = Inr (Inr (Some c)) \<Longrightarrow>
     fmlookup C' (Name c) = Some c \<Longrightarrow> decided ops st ks C errs it (it\<lparr>CollectorName := Name c\<rparr>)"
| failed: "same_cols C C' \<Longrightarrow> C' \<noteq> fmempty \<Longrightarrow> op_GetCollectorForTarget ops st ks C' it = Inr (Inl err) \<Longrightarrow>
     err \<in> set errs \<Longrightarrow> CollectorName it = '''' \<Longrightarrow> decided ops st ks C errs it it"

lemma decided_mono:
  "decided ops st ks C errs it it' \<Longrightarrow> set errs \<subseteq> set errs' \<Longrightarrow> decided ops st ks C errs' it it'"
  by (induction rule: decided.induct) (auto intro: decided.intros)

lemma decided_same: "decided ops st ks C' errs it it' \<Longrightarrow> same_cols C C' \<Longrightarrow> decided ops st ks C errs it it'"
  by (induction rule: decided.induct)
    (auto intro: decided.intros same_cols_trans dest: same_cols_empty)

lemma decided_assigned:
  assumes "decided ops st ks C errs it it'" "errs = []" "C \<noteq> fmempty" "cols_wf C"
  shows "CollectorName it' \<in> fmdom' C \<and> CollectorName it' \<noteq> ''''"
  using assms(1)
proof cases
  case (chosen C' c)
  then have "Name c \<in> fmdom' C" using same_cols_dom [OF chosen(2)] by (auto simp: mem_fmdom')
  moreover have "Name c \<noteq> ''''" using cols_wfD(2) [OF same_cols_wf [OF chosen(2) assms(4)]] chosen by blast
  ultimately show ?thesis using chosen by simp
qed (use assms in simp_all)

lemma decided_target: "decided ops st ks C errs it it' \<Longrightarrow> it'\<lparr>CollectorName := y\<rparr> = it\<lparr>CollectorName := y\<rparr>"
  by (induction rule: decided.induct) simp_all

lemma added_decided:
  assumes "added L ops ok elig ks a tg a' e x"
  shows "decided ops (strategy a) ks (collectors a) (err_list e) tg (tg\<lparr>CollectorName := x\<rparr>)"
proof (cases e)
  case None
  with assms show ?thesis
    by (auto simp: added_def intro: no_collectors chosen [OF same_cols_refl] split: if_splits)
next
  case (Some err)
  with assms have "decided ops (strategy a) ks (collectors a) (err_list e) tg tg"
    by (auto simp: added_def err_list_def intro: failed [OF same_cols_refl])
  with Some assms show ?thesis by (simp add: added_def CollectorName_same)
qed

lemma added_assigned:
  assumes "added L ops ok elig ks a tg a' None x" "core_inv L a" "collectors a \<noteq> fmempty"
  shows "x \<noteq> ''''"
  using assms by (auto simp: added_def core_inv_def cols_wf_def)

lemma added_effect:
  assumes ad: "added L ops ok elig ks a tg a' e x" and inv: "alloc_inv L ok elig a" and ks: "enum ks (collectors a)"
  shows "effect L ops ok elig a a' (err_list e)"
proof (rule effectI)
  show "alloc_inv L ok elig a'" "same_cols (collectors a) (collectors a')" "strategy a' = strategy a"
    "filter_hook a' = filter_hook a" using ad by (auto simp: added_def)
  show "reported ops ok err" if "err \<in> set (err_list e)" for err
  proof -
    have "e = Some err" using that by (cases e) (auto simp: err_list_def)
    with ad inv ks show ?thesis unfolding reported_def added_def alloc_inv_def core_inv_def by fastforce
  qed
  show "all_assigned a'" if "err_list e = []" "all_assigned a"
  proof (cases "collectors a = fmempty")
    case True
    with ad same_cols_empty [of "collectors a" "collectors a'"] show ?thesis
      by (simp add: added_def all_assigned_def)
  next
    case False
    have "e = None" using that(1) by (cases e) (auto simp: err_list_def)
    with added_assigned [of L ops ok elig ks a tg a' x] ad False inv have "x \<noteq> ''''"
      by (simp add: alloc_inv_def)
    with that(2) False ad show ?thesis by (auto simp: all_assigned_def added_def)
  qed
qed

context strategy_contract
begin

text \<open>Adding or re-adding one target.\<close>

lemma add_spec:
  assumes inv: "alloc_inv L ok elig a" and ks: "enum ks (collectors a)"
    and tg: "fmlookup (targetItems a) (Hash L tg) = Some tg \<or>
             fmlookup (targetItems a) (Hash L tg) = None \<and> CollectorName tg = ''''"
  shows "\<exists>a' e x. addTargetToTargetItems L ops ks a tg = Inr (a', e) \<and> added L ops ok elig ks a tg a' e x"
proof -
  let ?a = "a\<lparr>targetItems := fmupd (Hash L tg) tg (targetItems a)\<rparr>"
  from inv have core: "core_inv L a" and okk: "ok (strategy a) (collectors a)" and pl: "placed elig a"
    by (auto simp: alloc_inv_def)
  note wf = core_invD(2) [OF core]
  have elig0: "elig (strategy a) (NodeName c) tg"
    if "fmlookup (collectors a) (CollectorName tg) = Some c" for c
  proof -
    have "CollectorName tg \<noteq> ''''" using that wf by (auto simp: cols_wf_def)
    with tg have "fmlookup (targetItems a) (Hash L tg) = Some tg" by simp
    with that pl show ?thesis by (auto simp: placed_def)
  qed
  have core1: "core_inv L ?a"
    using tg core core_track [OF core, of tg] by (auto simp: fmupd_same)
  have pl1: "placed elig ?a" by (rule placed_upd [OF pl _ _ _ elig0]) simp_all
  have inv1: "alloc_inv L ok elig ?a" using core1 okk pl1 by (simp add: alloc_inv_def)
  show ?thesis
  proof (cases "collectors a = fmempty")
    case True
    then have "CollectorName tg = ''''"
      using tg core_invD(3) [OF core] by (auto simp: live_def)
    with True inv1 show ?thesis by (intro exI [of _ ?a] exI [of _ None] exI [of _ "CollectorName tg"])
        (simp add: addTargetToTargetItems_def added_def CollectorName_same)
  next
    case False
    note res = get_result [OF okk wf False ks, of tg]
    show ?thesis
    proof (cases "\<exists>e. op_GetCollectorForTarget ops (strategy a) ks (collectors a) tg = Inr (Inl e)")
      case True
      then obtain e where e: "op_GetCollectorForTarget ops (strategy a) ks (collectors a) tg = Inr (Inl e)" ..
      have un: "CollectorName tg = ''''"
      proof (rule ccontr)
        assume n: "CollectorName tg \<noteq> ''''"
        with tg have "CollectorName tg \<in> fmdom' (collectors a)"
          using core_invD(3) [OF core] by (auto simp: live_def)
        then obtain c where "fmlookup (collectors a) (CollectorName tg) = Some c" by (auto simp: mem_fmdom')
        with get_sticky [OF okk wf ks this elig0 [OF this], of e] e show False by simp
      qed
      with un False e inv1 show ?thesis
        by (intro exI [of _ ?a] exI [of _ "Some e"] exI [of _ "CollectorName tg"])
          (simp add: addTargetToTargetItems_def added_def CollectorName_same)
    next
      case noerr: False
      with res obtain c where c: "op_GetCollectorForTarget ops (strategy a) ks (collectors a) tg = Inr (Inr (Some c))"
        "fmlookup (collectors a) (Name c) = Some c" "elig (strategy a) (NodeName c) tg" by blast
      obtain a' where a': "assignTo L ?a tg c = Inr a'" "core_inv L a'"
        "targetItems a' = fmupd (Hash L tg) (tg\<lparr>CollectorName := Name c\<rparr>) (targetItems ?a)"
        "same_cols (collectors ?a) (collectors a')" "strategy a' = strategy ?a" "filter_hook a' = filter_hook ?a"
        by (rule assignTo_spec [OF core1, of tg c]) (use c in auto)
      have "placed elig a'"
        by (rule placed_upd [OF pl1 a'(3-5)]) (use c in \<open>simp add: elig_CollectorName\<close>)
      moreover have "ok (strategy a') (collectors a')"
        using ok_same [OF okk] a'(4,5) by simp
      ultimately have "alloc_inv L ok elig a'" using a'(2) by (simp add: alloc_inv_def)
      with a' c False show ?thesis
        by (intro exI [of _ a'] exI [of _ None] exI [of _ "Name c"])
          (simp add: addTargetToTargetItems_def added_def CollectorName_same)
    qed
  qed
qed

text \<open>Reconciling targets: the addition loop, then the whole operation.\<close>

lemma addition_step:
  assumes inv: "alloc_inv L ok elig a" and ks: "enum ks (collectors a)" and d: "keyed (Hash L) (additions d)"
  obtains b errs where "addition_body L ops ks d (a, errs0) k = Inr (b, errs0 @ errs)"
    "effect L ops ok elig a b errs"
    "\<And>h. h \<noteq> k \<or> fmlookup (targetItems a) h \<noteq> None \<or> fmlookup (additions d) h = None \<Longrightarrow>
       fmlookup (targetItems b) h = fmlookup (targetItems a) h"
    "\<And>it. fmlookup (targetItems a) k = None \<Longrightarrow> fmlookup (additions d) k = Some it \<Longrightarrow>
       \<exists>it'. fmlookup (targetItems b) k = Some it' \<and>
         decided ops (strategy a) ks (collectors a) errs (it\<lparr>CollectorName := ''''\<rparr>) it'"
proof (cases "fmlookup (additions d) k = None \<or> fmlookup (targetItems a) k \<noteq> None")
  case True
  then show ?thesis using that [of a "[]"] effect_refl [OF inv] by (auto simp: addition_body_def split: option.splits)
next
  case False
  then obtain it where it: "fmlookup (additions d) k = Some it" and new: "fmlookup (targetItems a) k = None" by auto
  let ?tg = "it\<lparr>CollectorName := ''''\<rparr>"
  have h: "Hash L ?tg = k" using keyedD [OF d it] by simp
  from add_spec [OF inv ks, of ?tg] new h obtain b e x
    where b: "addTargetToTargetItems L ops ks a ?tg = Inr (b, e)" "added L ops ok elig ks a ?tg b e x" by auto
  have TI: "targetItems b = fmupd k (it\<lparr>CollectorName := x\<rparr>) (targetItems a)"
    using b(2) h by (simp add: added_def)
  have "addition_body L ops ks d (a, errs0) k = Inr (b, errs0 @ err_list e)"
    using it new b(1) by (simp add: addition_body_def err_list_def split: option.splits)
  with added_effect [OF b(2) inv ks] added_decided [OF b(2)] TI it new show ?thesis
    using that [of b "err_list e"] by auto
qed

lemma addition_loop:
  assumes "alloc_inv L ok elig a" "enum ks (collectors a)" "keyed (Hash L) (additions d)" "distinct aord"
  shows "\<exists>a' errs. foldM (addition_body L ops ks d) (a, errs0) aord = Inr (a', errs0 @ errs) \<and>
     effect L ops ok elig a a' errs \<and>
     (\<forall>h. h \<notin> set aord \<or> fmlookup (targetItems a) h \<noteq> None \<or> fmlookup (additions d) h = None \<longrightarrow>
        fmlookup (targetItems a') h = fmlookup (targetItems a) h) \<and>
     (\<forall>h it. h \<in> set aord \<longrightarrow> fmlookup (targetItems a) h = None \<longrightarrow> fmlookup (additions d) h = Some it \<longrightarrow>
        (\<exists>it'. fmlookup (targetItems a') h = Some it' \<and>
           decided ops (strategy a) ks (collectors a) errs (it\<lparr>CollectorName := ''''\<rparr>) it'))"
  using assms
proof (induction aord arbitrary: a errs0)
  case Nil
  then show ?case using effect_refl by fastforce
next
  case (Cons k rest)
  obtain b e1 where b: "addition_body L ops ks d (a, errs0) k = Inr (b, errs0 @ e1)"
    "effect L ops ok elig a b e1"
    "\<And>h. h \<noteq> k \<or> fmlookup (targetItems a) h \<noteq> None \<or> fmlookup (additions d) h = None \<Longrightarrow>
       fmlookup (targetItems b) h = fmlookup (targetItems a) h"
    "\<And>it. fmlookup (targetItems a) k = None \<Longrightarrow> fmlookup (additions d) k = Some it \<Longrightarrow>
       \<exists>it'. fmlookup (targetItems b) k = Some it' \<and>
         decided ops (strategy a) ks (collectors a) e1 (it\<lparr>CollectorName := ''''\<rparr>) it'"
    by (rule addition_step [OF Cons.prems(1-3), of errs0 k]) blast
  have "alloc_inv L ok elig b" "enum ks (collectors b)"
    using b(2) same_cols_enum [OF _ Cons.prems(2)] by (auto simp: effect_def)
  from Cons.IH [OF this Cons.prems(3), of "errs0 @ e1"] Cons.prems(4)
  obtain a' e2 where a': "foldM (addition_body L ops ks d) (b, errs0 @ e1) rest = Inr (a', (errs0 @ e1) @ e2)"
    "effect L ops ok elig b a' e2"
    "\<And>h. h \<notin> set rest \<or> fmlookup (targetItems b) h \<noteq> None \<or> fmlookup (additions d) h = None \<Longrightarrow>
        fmlookup (targetItems a') h = fmlookup (targetItems b) h"
    "\<And>h it. h \<in> set rest \<Longrightarrow> fmlookup (targetItems b) h = None \<Longrightarrow> fmlookup (additions d) h = Some it \<Longrightarrow>
        (\<exists>it'. fmlookup (targetItems a') h = Some it' \<and>
           decided ops (strategy b) ks (collectors b) e2 (it\<lparr>CollectorName := ''''\<rparr>) it')" by auto
  have "foldM (addition_body L ops ks d) (a, errs0) (k # rest) = Inr (a', errs0 @ (e1 @ e2))"
    using b(1) a'(1) by simp
  moreover have "effect L ops ok elig a a' (e1 @ e2)" by (rule effect_trans [OF b(2) a'(2)])
  moreover have "fmlookup (targetItems a') h = fmlookup (targetItems a) h"
    if "h \<notin> set (k # rest) \<or> fmlookup (targetItems a) h \<noteq> None \<or> fmlookup (additions d) h = None" for h
    using that a'(3) [of h] b(3) [of h] by fastforce
  moreover have "\<exists>it'. fmlookup (targetItems a') h = Some it' \<and>
      decided ops (strategy a) ks (collectors a) (e1 @ e2) (it\<lparr>CollectorName := ''''\<rparr>) it'"
    if "h \<in> set (k # rest)" "fmlookup (targetItems a) h = None" "fmlookup (additions d) h = Some it" for h it
  proof (cases "h = k")
    case True
    with that b(4) obtain it' where "fmlookup (targetItems b) k = Some it'"
      "decided ops (strategy a) ks (collectors a) e1 (it\<lparr>CollectorName := ''''\<rparr>) it'" by blast
    with True a'(3) [of k] show ?thesis by (auto intro: decided_mono)
  next
    case False
    with that a'(4) [of h it] b(3) [of h] obtain it' where "fmlookup (targetItems a') h = Some it'"
      "decided ops (strategy b) ks (collectors b) e2 (it\<lparr>CollectorName := ''''\<rparr>) it'" by auto
    with b(2) show ?thesis by (auto simp: effect_def intro: decided_mono [OF decided_same])
  qed
  ultimately show ?case by blast
qed

end

end
