(* ===== verification/AllocatorSpec.thy ===== *)
theory AllocatorSpec
  imports AllocatorOps
begin

text \<open>
  The two reconciliation operations of the allocator as a whole, over any strategy that meets
  the contract: what \<open>SetTargets\<close> and \<open>SetCollectors\<close> leave in the tables.
\<close>

definition filtered :: "'st allocator \<Rightarrow> Item list \<Rightarrow> Item list" where
  "filtered a targets = (case filter_hook a of None \<Rightarrow> targets | Some f \<Rightarrow> f targets)"

text \<open>
  After \<open>SetTargets\<close> the tracked targets are exactly the discovered ones; those tracked before
  are untouched, the new ones are as the strategy decided.
\<close>

definition targets_set :: "labels_lib \<Rightarrow> 'st strategy_ops \<Rightarrow> nat \<Rightarrow> string list \<Rightarrow> 'st allocator \<Rightarrow> Item list
    \<Rightarrow> 'st allocator \<Rightarrow> strategy_error list \<Rightarrow> bool" where
  "targets_set L ops conc ks a targets a' errs \<longleftrightarrow>
     fmdom' (targetItems a') = Hash L ` set (filtered a targets) \<and>
     (\<forall>h it. fmlookup (targetItems a) h = Some it \<longrightarrow> h \<in> fmdom' (targetItems a') \<longrightarrow>
        fmlookup (targetItems a') h = Some it) \<and>
     (\<forall>h it'. fmlookup (targetItems a) h = None \<longrightarrow> fmlookup (targetItems a') h = Some it' \<longrightarrow>
        (\<exists>it. fmlookup (buildTargetMap L (filtered a targets) conc) h = Some it \<and>
           decided ops (strategy a) ks (collectors a) errs (it\<lparr>CollectorName := ''''\<rparr>) it'))"

lemma no_changes:
  assumes "keyed H cur" "keyed H m" "additions (Maps H cur m) = fmempty" "removals (Maps H cur m) = fmempty"
  shows "fmdom' cur = fmdom' m"
proof -
  have "fmlookup cur k = None \<longleftrightarrow> fmlookup m k = None" for k
    using keyed_additions [OF assms(1,2), of k] keyed_removals [OF assms(1,2), of k] assms(3,4)
    by (auto split: if_splits)
  then show ?thesis by (auto simp: mem_fmdom')
qed

context strategy_contract
begin

lemma removal_effect:
  assumes inv: "alloc_inv L ok elig a"
  shows "effect L ops ok elig a (foldl (removal_body L d) a rord) []"
proof -
  let ?b = "foldl (removal_body L d) a rord"
  have b: "core_inv L ?b" "same_cols (collectors a) (collectors ?b)" "strategy ?b = strategy a"
    "filter_hook ?b = filter_hook a"
    "\<And>h. fmlookup (targetItems ?b) h =
       (if h \<in> set rord \<and> fmlookup (removals d) h \<noteq> None then None else fmlookup (targetItems a) h)"
    using removal_loop [of L a ?b d rord] inv by (auto simp: alloc_inv_def)
  have "placed elig ?b"
    by (rule placed_restrict [OF _ b(2,3)]) (use inv b(5) in \<open>auto simp: alloc_inv_def split: if_splits\<close>)
  moreover have "ok (strategy ?b) (collectors ?b)"
    using inv ok_same [OF _ b(2)] b(3) by (simp add: alloc_inv_def)
  moreover have "all_assigned ?b" if "all_assigned a"
    using that b(5) same_cols_empty [OF b(2)] by (auto simp: all_assigned_def split: if_splits)
  ultimately show ?thesis using b by (simp add: effect_def alloc_inv_def)
qed

lemma SetTargets_spec:
  assumes inv: "alloc_inv L ok elig a" and rord: "enum rord (targetItems a)"
    and aord: "enum aord (additions (Maps (Hash L) (targetItems a) (buildTargetMap L (filtered a targets) conc)))"
    and ks: "enum ks (collectors a)"
  shows "\<exists>a' errs. SetTargets L ops conc rord aord ks a targets = Inr (a', errs) \<and>
    effect L ops ok elig a a' errs \<and> targets_set L ops conc ks a targets a' errs"
proof -
  let ?tm = "buildTargetMap L (filtered a targets) conc"
  let ?d = "Maps (Hash L) (targetItems a) ?tm"
  have key: "keyed (Hash L) (targetItems a)" "keyed (Hash L) ?tm"
    using inv by (auto simp: alloc_inv_def core_inv_def buildTargetMap_keyed)
  show ?thesis
  proof (cases "additions ?d = fmempty \<and> removals ?d = fmempty")
    case True
    then have "SetTargets L ops conc rord aord ks a targets = Inr (a, [])"
      by (simp add: SetTargets_def filtered_def Let_def)
    moreover have "targets_set L ops conc ks a targets a []"
      using no_changes [OF key] True by (auto simp: targets_set_def buildTargetMap_dom)
    ultimately show ?thesis using effect_refl [OF inv] by blast
  next
    case False
    let ?b = "foldl (removal_body L ?d) a rord"
    have b: "effect L ops ok elig a ?b []" by (rule removal_effect [OF inv])
    then have inv_b: "alloc_inv L ok elig ?b" and ks_b: "enum ks (collectors ?b)"
      and sb: "strategy ?b = strategy a" "same_cols (collectors a) (collectors ?b)"
      using same_cols_enum [OF _ ks] by (auto simp: effect_def)
    have TI: "fmlookup (targetItems ?b) h = (if fmlookup ?tm h = None then None else fmlookup (targetItems a) h)" for h
      using removal_loop [of L a ?b ?d rord] inv keyed_removals [OF key, of h] enum_mem [OF rord, of h]
      by (auto simp: alloc_inv_def)
    have add: "fmlookup (additions ?d) h = (if fmlookup (targetItems a) h = None then fmlookup ?tm h else None)" for h
      by (rule keyed_additions [OF key])
    have "keyed (Hash L) (additions ?d)" using key(2) by (auto simp: keyed_def add split: if_splits)
    from addition_loop [OF inv_b ks_b this, of aord "[]"] aord
    obtain a' errs where a': "foldM (addition_body L ops ks ?d) (?b, []) aord = Inr (a', errs)"
      "effect L ops ok elig ?b a' errs"
      "\<And>h. h \<notin> set aord \<or> fmlookup (targetItems ?b) h \<noteq> None \<or> fmlookup (additions ?d) h = None \<Longrightarrow>
        fmlookup (targetItems a') h = fmlookup (targetItems ?b) h"
      "\<And>h it. h \<in> set aord \<Longrightarrow> fmlookup (targetItems ?b) h = None \<Longrightarrow> fmlookup (additions ?d) h = Some it \<Longrightarrow>
        (\<exists>it'. fmlookup (targetItems a') h = Some it' \<and>
           decided ops (strategy ?b) ks (collectors ?b) errs (it\<lparr>CollectorName := ''''\<rparr>) it')"
      by (auto simp: enum_def)
    have run: "SetTargets L ops conc rord aord ks a targets = Inr (a', errs)"
      using False a'(1) by (auto simp: SetTargets_def filtered_def Let_def handleTargets_def)
    have old: "fmlookup (targetItems a') h = Some it"
      if "fmlookup (targetItems a) h = Some it" "fmlookup ?tm h \<noteq> None" for h it
      using a'(3) [of h] TI [of h] that by auto
    have gone: "fmlookup (targetItems a') h = None" if "fmlookup ?tm h = None" for h
      using a'(3) [of h] TI [of h] add [of h] that by auto
    have new: "\<exists>it'. fmlookup (targetItems a') h = Some it' \<and>
        decided ops (strategy a) ks (collectors a) errs (it\<lparr>CollectorName := ''''\<rparr>) it'"
      if "fmlookup (targetItems a) h = None" "fmlookup ?tm h = Some it" for h it
      using a'(4) [of h it] TI [of h] add [of h] enum_mem [OF aord, of h] that sb
      by (auto intro: decided_same)
    have same: "fmlookup (targetItems a') h = None \<longleftrightarrow> fmlookup ?tm h = None" for h
      using old [of h] gone [of h] new [of h] by (cases "fmlookup (targetItems a) h"; cases "fmlookup ?tm h") auto
    have "\<exists>it. fmlookup ?tm h = Some it \<and>
        decided ops (strategy a) ks (collectors a) errs (it\<lparr>CollectorName := ''''\<rparr>) it'"
      if "fmlookup (targetItems a) h = None" "fmlookup (targetItems a') h = Some it'" for h it'
      using new [of h] same [of h] that by (cases "fmlookup ?tm h") auto
    moreover have "fmdom' (targetItems a') = Hash L ` set (filtered a targets)"
      using same buildTargetMap_dom [of L "filtered a targets" conc] by (auto simp: mem_fmdom')
    moreover have "fmlookup (targetItems a') h = Some it"
      if "fmlookup (targetItems a) h = Some it" "h \<in> fmdom' (targetItems a')" for h it
      using old [of h it] same [of h] that by (auto simp: mem_fmdom')
    ultimately have "targets_set L ops conc ks a targets a' errs"
      unfolding targets_set_def by blast
    with run effect_trans [OF b a'(2)] show ?thesis by auto
  qed
qed

end

section \<open>Reconciling collectors\<close>

text \<open>A target whose collector is not in the new set loses it; the others keep theirs.\<close>

definition released :: "string set \<Rightarrow> Item \<Rightarrow> Item" where
  "released S it = (if CollectorName it \<in> S then it\<lparr>CollectorName := ''''\<rparr> else it)"

lemma released_empty: "released {} it = it"
  by (simp add: released_def)

lemma release_released: "n \<noteq> '''' \<Longrightarrow> '''' \<notin> S \<Longrightarrow> released S (release n it) = released (insert n S) it"
  by (auto simp: released_def release_def)

lemma colremoval_loop:
  assumes "core_inv L a" "\<And>k c. k \<in> set rord \<Longrightarrow> fmlookup (removals d) k = Some c \<Longrightarrow> Name c = k \<and> k \<noteq> ''''"
  shows "\<exists>b. foldM (colremoval_body d) a rord = Inr b \<and> core_inv L b \<and>
    (\<forall>n. fmlookup (collectors b) n =
       (if n \<in> set rord \<and> fmlookup (removals d) n \<noteq> None then None else fmlookup (collectors a) n)) \<and>
    (\<forall>h. fmlookup (targetItems b) h =
       map_option (released {n \<in> set rord. fmlookup (removals d) n \<noteq> None}) (fmlookup (targetItems a) h)) \<and>
    strategy b = strategy a \<and> filter_hook b = filter_hook a"
  using assms
proof (induction rord arbitrary: a)
  case Nil
  then show ?case by (auto simp: released_empty option.map_ident [unfolded id_def] cong: option.map_cong)
next
  case (Cons k rest)
  let ?S = "{n \<in> set rest. fmlookup (removals d) n \<noteq> None}"
  have S: "'''' \<notin> ?S" using Cons.prems(2) by fastforce
  show ?case
  proof (cases "fmlookup (removals d) k")
    case None
    have eq: "{n \<in> set (k # rest). fmlookup (removals d) n \<noteq> None} = ?S" using None by auto
    from Cons.IH [OF Cons.prems(1)] Cons.prems(2) None show ?thesis
      unfolding eq by (auto simp: colremoval_body_def)
  next
    case (Some c)
    then have c: "Name c = k" "k \<noteq> ''''" using Cons.prems(2) [of k c] by auto
    obtain a1 where a1: "removeCollector a c = Inr a1" "core_inv L a1" "collectors a1 = fmdrop k (collectors a)"
      "\<And>h. fmlookup (targetItems a1) h = map_option (release k) (fmlookup (targetItems a) h)"
      "strategy a1 = strategy a" "filter_hook a1 = filter_hook a"
      using removeCollector_spec [OF Cons.prems(1), of c] c by metis
    from Cons.IH [OF a1(2)] Cons.prems(2) obtain b where b: "foldM (colremoval_body d) a1 rest = Inr b" "core_inv L b"
      "\<And>n. fmlookup (collectors b) n =
         (if n \<in> set rest \<and> fmlookup (removals d) n \<noteq> None then None else fmlookup (collectors a1) n)"
      "\<And>h. fmlookup (targetItems b) h = map_option (released ?S) (fmlookup (targetItems a1) h)"
      "strategy b = strategy a1" "filter_hook b = filter_hook a1" by auto
    have eq: "{n \<in> set (k # rest). fmlookup (removals d) n \<noteq> None} = insert k ?S" using Some by auto
    have "fmlookup (targetItems b) h = map_option (released (insert k ?S)) (fmlookup (targetItems a) h)" for h
      using b(4) [of h] a1(4) [of h] release_released [OF c(2) S]
      by (cases "fmlookup (targetItems a) h") auto
    moreover have "foldM (colremoval_body d) a (k # rest) = Inr b"
      using Some a1(1) b(1) by (simp add: colremoval_body_def)
    ultimately show ?thesis
      unfolding eq using b a1 Some by auto
  qed
qed

lemma coladdition_loop:
  assumes "core_inv L a" "distinct aord"
    and "\<And>k i. k \<in> set aord \<Longrightarrow> fmlookup (additions d) k = Some i \<Longrightarrow>
      Name i = k \<and> k \<noteq> '''' \<and> fmlookup (collectors a) k = None"
    and "b = foldl (coladdition_body d) a aord"
  shows "core_inv L b \<and> targetItems b = targetItems a \<and> strategy b = strategy a \<and> filter_hook b = filter_hook a \<and>
    (\<forall>n. fmlookup (collectors b) n =
      (if n \<in> set aord \<and> fmlookup (additions d) n \<noteq> None
       then map_option (\<lambda>i. NewCollector n (NodeName i)) (fmlookup (additions d) n) else fmlookup (collectors a) n))"
  using assms
proof (induction aord arbitrary: a)
  case (Cons k rest)
  let ?a = "coladdition_body d a k"
  have "core_inv L ?a \<and> targetItems ?a = targetItems a \<and> strategy ?a = strategy a \<and> filter_hook ?a = filter_hook a \<and>
    (\<forall>n. fmlookup (collectors ?a) n = (if n = k \<and> fmlookup (additions d) n \<noteq> None
       then map_option (\<lambda>i. NewCollector n (NodeName i)) (fmlookup (additions d) n) else fmlookup (collectors a) n))"
  proof (cases "fmlookup (additions d) k")
    case (Some i)
    with Cons.prems(3) [of k i] have "Name i = k" "k \<noteq> ''''" "fmlookup (collectors a) k = None" by auto
    with Some core_new_collector [OF Cons.prems(1), of k "NodeName i"] show ?thesis
      by (auto simp: coladdition_body_def put_collector_def)
  qed (use Cons.prems(1) in \<open>auto simp: coladdition_body_def\<close>)
  moreover have "fmlookup (collectors ?a) k' = None" if "k' \<in> set rest" "fmlookup (additions d) k' = Some i" for k' i
    using calculation Cons.prems(2) Cons.prems(3) [of k' i] that by auto
  ultimately show ?case
    using Cons.IH [of ?a] Cons.prems(2,3,4) by (auto split: if_splits)
qed simp

text \<open>
  After \<open>SetCollectors\<close> with a changed set the collectors are exactly the new ones, a surviving
  collector keeps the node it was created with, and every tracked target is as the strategy
  decided, with the target released first if its collector is gone.
\<close>

definition collectors_set :: "'st strategy_ops \<Rightarrow> string list \<Rightarrow> 'st allocator \<Rightarrow> collectors
    \<Rightarrow> 'st allocator \<Rightarrow> strategy_error list \<Rightarrow> bool" where
  "collectors_set ops ks a cs a' errs \<longleftrightarrow>
     fmdom' (collectors a') = fmdom' cs \<and>
     (\<forall>n c'. fmlookup (collectors a') n = Some c' \<longrightarrow>
        (case fmlookup (collectors a) n of
           Some c \<Rightarrow> NodeName c' = NodeName c
         | None \<Rightarrow> (\<exists>i. fmlookup cs n = Some i \<and> NodeName c' = NodeName i))) \<and>
     (\<forall>h. fmlookup (targetItems a) h = None \<longleftrightarrow> fmlookup (targetItems a') h = None) \<and>
     (\<forall>h it it'. fmlookup (targetItems a) h = Some it \<longrightarrow> fmlookup (targetItems a') h = Some it' \<longrightarrow>
        decided ops (strategy a') ks (collectors a') errs (released (- fmdom' cs) it) it')"

context strategy_contract
begin

lemma realloc_step:
  assumes inv: "alloc_inv L ok elig a" and ks: "enum ks (collectors a)"
  obtains b errs where "realloc_body L ops ks (a, errs0) k = Inr (b, errs0 @ errs)"
    "effect L ops ok elig a b errs"
    "\<And>h. h \<noteq> k \<Longrightarrow> fmlookup (targetItems b) h = fmlookup (targetItems a) h"
    "\<And>it. fmlookup (targetItems a) k = Some it \<Longrightarrow>
       \<exists>it'. fmlookup (targetItems b) k = Some it' \<and> decided ops (strategy a) ks (collectors a) errs it it'"
    "fmlookup (targetItems a) k = None \<Longrightarrow> fmlookup (targetItems b) k = None"
proof (cases "fmlookup (targetItems a) k")
  case None
  then show ?thesis using that [of a "[]"] effect_refl [OF inv] by (auto simp: realloc_body_def)
next
  case (Some it)
  have h: "Hash L it = k" using core_hash [OF _ Some] inv by (auto simp: alloc_inv_def)
  from add_spec [OF inv ks, of it] Some h obtain b e x
    where b: "addTargetToTargetItems L ops ks a it = Inr (b, e)" "added L ops ok elig ks a it b e x" by auto
  have TI: "targetItems b = fmupd k (it\<lparr>CollectorName := x\<rparr>) (targetItems a)"
    using b(2) h by (simp add: added_def)
  have "put_item L b (it\<lparr>CollectorName := ''''\<rparr>) = b" if "e \<noteq> None"
  proof -
    have "x = ''''" using b(2) that by (auto simp: added_def)
    with TI h show ?thesis by (simp add: put_item_def)
  qed
  then have "realloc_body L ops ks (a, errs0) k = Inr (b, errs0 @ err_list e)"
    using Some b(1) by (auto simp: realloc_body_def err_list_def split: option.splits)
  with added_effect [OF b(2) inv ks] added_decided [OF b(2)] TI Some show ?thesis
    using that [of b "err_list e"] by auto
qed

lemma realloc_loop:
  assumes "alloc_inv L ok elig a" "enum ks (collectors a)" "distinct iord"
  shows "\<exists>a' errs. foldM (realloc_body L ops ks) (a, errs0) iord = Inr (a', errs0 @ errs) \<and>
     effect L ops ok elig a a' errs \<and>
     (\<forall>h. h \<notin> set iord \<longrightarrow> fmlookup (targetItems a') h = fmlookup (targetItems a) h) \<and>
     (\<forall>h. fmlookup (targetItems a) h = None \<longrightarrow> fmlookup (targetItems a') h = None) \<and>
     (\<forall>h it. h \<in> set iord \<longrightarrow> fmlookup (targetItems a) h = Some it \<longrightarrow>
        (\<exists>it'. fmlookup (targetItems a') h = Some it' \<and> decided ops (strategy a) ks (collectors a) errs it it'))"
  using assms
proof (induction iord arbitrary: a errs0)
  case Nil
  then show ?case using effect_refl by fastforce
next
  case (Cons k rest)
  obtain b e1 where b: "realloc_body L ops ks (a, errs0) k = Inr (b, errs0 @ e1)"
    "effect L ops ok elig a b e1"
    "\<And>h. h \<noteq> k \<Longrightarrow> fmlookup (targetItems b) h = fmlookup (targetItems a) h"
    "\<And>it. fmlookup (targetItems a) k = Some it \<Longrightarrow>
       \<exists>it'. fmlookup (targetItems b) k = Some it' \<and> decided ops (strategy a) ks (collectors a) e1 it it'"
    "fmlookup (targetItems a) k = None \<Longrightarrow> fmlookup (targetItems b) k = None"
    by (rule realloc_step [OF Cons.prems(1,2), of errs0 k]) (rule that, assumption+)
  have "alloc_inv L ok elig b" "enum ks (collectors b)" "distinct rest"
    using b(2) same_cols_enum [OF _ Cons.prems(2)] Cons.prems(3) by (auto simp: effect_def)
  from Cons.IH [OF this, of "errs0 @ e1"]
  obtain a' e2 where a': "foldM (realloc_body L ops ks) (b, errs0 @ e1) rest = Inr (a', (errs0 @ e1) @ e2)"
    "effect L ops ok elig b a' e2"
    "\<And>h. h \<notin> set rest \<Longrightarrow> fmlookup (targetItems a') h = fmlookup (targetItems b) h"
    "\<And>h. fmlookup (targetItems b) h = None \<Longrightarrow> fmlookup (targetItems a') h = None"
    "\<And>h it. h \<in> set rest \<Longrightarrow> fmlookup (targetItems b) h = Some it \<Longrightarrow>
        (\<exists>it'. fmlookup (targetItems a') h = Some it' \<and> decided ops (strategy b) ks (collectors b) e2 it it')" by auto
  have sb: "strategy b = strategy a" "same_cols (collectors a) (collectors b)" using b(2) by (auto simp: effect_def)
  have "foldM (realloc_body L ops ks) (a, errs0) (k # rest) = Inr (a', errs0 @ (e1 @ e2))"
    using b(1) a'(1) by simp
  moreover have "effect L ops ok elig a a' (e1 @ e2)" by (rule effect_trans [OF b(2) a'(2)])
  moreover have "fmlookup (targetItems a') h = fmlookup (targetItems a) h" if "h \<notin> set (k # rest)" for h
    using that a'(3) [of h] b(3) [of h] by simp
  moreover have "fmlookup (targetItems a') h = None" if "fmlookup (targetItems a) h = None" for h
    using that a'(4) [of h] b(3) [of h] b(5) by (cases "h = k") auto
  moreover have "\<exists>it'. fmlookup (targetItems a') h = Some it' \<and>
      decided ops (strategy a) ks (collectors a) (e1 @ e2) it it'"
    if "h \<in> set (k # rest)" "fmlookup (targetItems a) h = Some it" for h it
  proof (cases "h = k")
    case True
    with that b(4) [of it] obtain it' where "fmlookup (targetItems b) k = Some it'"
      "decided ops (strategy a) ks (collectors a) e1 it it'" by blast
    with True a'(3) [of k] Cons.prems(3) show ?thesis by (auto intro: decided_mono)
  next
    case False
    with that a'(5) [of h it] b(3) [of h] obtain it' where "fmlookup (targetItems a') h = Some it'"
      "decided ops (strategy b) ks (collectors b) e2 it it'" by auto
    with sb show ?thesis by (auto intro: decided_mono [OF decided_same])
  qed
  ultimately show ?case by blast
qed

text \<open>The state in which the re-allocation loop of \<open>handleCollectors\<close> starts.\<close>

lemma SetCollectors_prepare:
  assumes inv: "alloc_inv L ok elig a" and cs: "cols_wf cs"
    and rord: "enum rord (removals (Maps Collector_Hash (collectors a) cs))"
    and aord: "enum aord (additions (Maps Collector_Hash (collectors a) cs))"
    and ks: "enum ks cs"
  obtains b st where
    "handleCollectors L ops rord aord ks iord a (Maps Collector_Hash (collectors a) cs) =
       foldM (realloc_body L ops ks) (b\<lparr>strategy := st\<rparr>, []) iord"
    "alloc_inv L ok elig (b\<lparr>strategy := st\<rparr>)" "elig st = elig (strategy a)"
    "fmdom' (collectors b) = fmdom' cs" "filter_hook b = filter_hook a"
    "\<And>n. fmlookup (collectors b) n = (if fmlookup cs n = None then None else
       (case fmlookup (collectors a) n of Some c \<Rightarrow> Some c
        | None \<Rightarrow> map_option (\<lambda>i. NewCollector n (NodeName i)) (fmlookup cs n)))"
    "\<And>h. fmlookup (targetItems b) h = map_option (released (- fmdom' cs)) (fmlookup (targetItems a) h)"
proof -
  let ?d = "Maps Collector_Hash (collectors a) cs"
  have core: "core_inv L a" and okk: "ok (strategy a) (collectors a)" and pl: "placed elig a"
    using inv by (auto simp: alloc_inv_def)
  note wf = core_invD(2) [OF core]
  have key: "keyed Collector_Hash (collectors a)" "keyed Collector_Hash cs"
    using wf cs unfolding keyed_def Collector_Hash_def by (blast dest: cols_wfD)+
  note add = keyed_additions [OF key] and rem = keyed_removals [OF key]
  obtain a1 where a1: "foldM (colremoval_body ?d) a rord = Inr a1" "core_inv L a1"
    "\<And>n. fmlookup (collectors a1) n =
       (if n \<in> set rord \<and> fmlookup (removals ?d) n \<noteq> None then None else fmlookup (collectors a) n)"
    "\<And>h. fmlookup (targetItems a1) h =
       map_option (released {n \<in> set rord. fmlookup (removals ?d) n \<noteq> None}) (fmlookup (targetItems a) h)"
    "strategy a1 = strategy a" "filter_hook a1 = filter_hook a"
    using colremoval_loop [OF core, of rord ?d] wf rem
    by (fastforce dest: cols_wfD split: if_splits)
  have C1: "fmlookup (collectors a1) n = (if fmlookup cs n = None then None else fmlookup (collectors a) n)" for n
    using a1(3) [of n] rem [of n] enum_mem [OF rord, of n] by auto
  define b where "b = foldl (coladdition_body ?d) a1 aord"
  have new: "Name i = k \<and> k \<noteq> '''' \<and> fmlookup (collectors a1) k = None"
    if "k \<in> set aord" "fmlookup (additions ?d) k = Some i" for k i
    using that(2) add [of k] C1 [of k] cols_wfD [OF cs, of k i] by (simp split: if_splits)
  have b: "core_inv L b" "targetItems b = targetItems a1" "strategy b = strategy a1" "filter_hook b = filter_hook a1"
    "\<And>n. fmlookup (collectors b) n = (if n \<in> set aord \<and> fmlookup (additions ?d) n \<noteq> None
       then map_option (\<lambda>i. NewCollector n (NodeName i)) (fmlookup (additions ?d) n) else fmlookup (collectors a1) n)"
    using coladdition_loop [OF a1(2) _ new b_def] aord by (auto simp: enum_def)
  have C: "fmlookup (collectors b) n = (if fmlookup cs n = None then None else
       (case fmlookup (collectors a) n of Some c \<Rightarrow> Some c
        | None \<Rightarrow> map_option (\<lambda>i. NewCollector n (NodeName i)) (fmlookup cs n)))" for n
    using b(5) [of n] C1 [of n] add [of n] enum_mem [OF aord, of n] by (auto split: option.splits)
  have rel: "released {n \<in> set rord. fmlookup (removals ?d) n \<noteq> None} it = released (- fmdom' cs) it"
    if "fmlookup (targetItems a) h = Some it" for h it
  proof (cases "CollectorName it = ''''")
    case False
    with that core_invD(3) [OF core] have "fmlookup (collectors a) (CollectorName it) \<noteq> None"
      by (auto simp: live_def mem_fmdom')
    then show ?thesis
      using rem [of "CollectorName it"] enum_mem [OF rord, of "CollectorName it"]
      by (auto simp: released_def mem_fmdom')
  qed (simp add: released_def CollectorName_same)
  have TI: "fmlookup (targetItems b) h = map_option (released (- fmdom' cs)) (fmlookup (targetItems a) h)" for h
    using a1(4) [of h] b(2) rel [of h] by (cases "fmlookup (targetItems a) h") auto
  have dom: "fmdom' (collectors b) = fmdom' cs"
    using C by (auto simp: mem_fmdom' split: option.splits if_splits)
  have "enum ks (collectors b)" using ks dom by (simp add: enum_def)
  from set_result [OF okk core_invD(2) [OF b(1)] this]
  obtain st where st: "op_SetCollectors ops (strategy a) ks (collectors b) = Inr st" "ok st (collectors b)"
    "elig st = elig (strategy a)" by blast
  have "elig (strategy a) (NodeName c) x"
    if x: "fmlookup (targetItems b) h = Some x" and c: "fmlookup (collectors b) (CollectorName x) = Some c" for h x c
  proof -
    obtain it where it: "fmlookup (targetItems a) h = Some it" "x = released (- fmdom' cs) it"
      using TI [of h] x by (cases "fmlookup (targetItems a) h") auto
    have ne: "CollectorName x \<noteq> ''''" using cols_wfD(2) [OF core_invD(2) [OF b(1)] c] .
    with it(2) have "x = it" by (auto simp: released_def split: if_splits)
    with it(1) ne core_invD(3) [OF core] obtain c0 where c0: "fmlookup (collectors a) (CollectorName x) = Some c0"
      by (auto simp: live_def mem_fmdom')
    with c C [of "CollectorName x"] have "c = c0" by (simp split: if_splits)
    with c0 it(1) \<open>x = it\<close> pl show ?thesis by (auto simp: placed_def)
  qed
  then have "placed elig (b\<lparr>strategy := st\<rparr>)" using st(3) by (simp add: placed_def)
  moreover have "core_inv L (b\<lparr>strategy := st\<rparr>)" using b(1) by (simp add: core_inv_def)
  ultimately have "alloc_inv L ok elig (b\<lparr>strategy := st\<rparr>)" using st(2) by (simp add: alloc_inv_def)
  moreover have "handleCollectors L ops rord aord ks iord a ?d =
      foldM (realloc_body L ops ks) (b\<lparr>strategy := st\<rparr>, []) iord"
    using a1(1,5) b(3) st(1) by (simp add: handleCollectors_def b_def)
  ultimately show ?thesis using that C TI dom st(3) b(4) a1(6) by simp
qed

lemma SetCollectors_spec:
  assumes inv: "alloc_inv L ok elig a" and cs: "cols_wf cs"
    and rord: "enum rord (removals (Maps Collector_Hash (collectors a) cs))"
    and aord: "enum aord (additions (Maps Collector_Hash (collectors a) cs))"
    and ks: "enum ks cs" and iord: "enum iord (targetItems a)"
  shows "\<exists>a' errs. SetCollectors L ops rord aord ks iord a cs = Inr (a', errs) \<and>
    alloc_inv L ok elig a' \<and> elig (strategy a') = elig (strategy a) \<and> filter_hook a' = filter_hook a \<and>
    (\<forall>err \<in> set errs. reported ops ok err) \<and>
    (if fmdom' cs = fmdom' (collectors a) then a' = a \<and> errs = []
     else collectors_set ops ks a cs a' errs \<and> (errs = [] \<longrightarrow> all_assigned a'))"
proof -
  let ?d = "Maps Collector_Hash (collectors a) cs"
  have wf: "cols_wf (collectors a)" using inv by (auto simp: alloc_inv_def core_inv_def)
  have key: "keyed Collector_Hash (collectors a)" "keyed Collector_Hash cs"
    using wf cs unfolding keyed_def Collector_Hash_def by (blast dest: cols_wfD)+
  have same: "additions ?d = fmempty \<and> removals ?d = fmempty \<longleftrightarrow> fmdom' cs = fmdom' (collectors a)"
  proof
    assume "fmdom' cs = fmdom' (collectors a)"
    then have "fmlookup cs k = None \<longleftrightarrow> fmlookup (collectors a) k = None" for k
      by (metis mem_fmdom')
    then show "additions ?d = fmempty \<and> removals ?d = fmempty"
      by (simp add: fmempty_iff keyed_additions [OF key] keyed_removals [OF key])
  qed (use no_changes [OF key] in simp)
  show ?thesis
  proof (cases "fmdom' cs = fmdom' (collectors a)")
    case True
    with same inv show ?thesis by (auto simp: SetCollectors_def)
  next
    case False
    obtain b st where b: "handleCollectors L ops rord aord ks iord a ?d =
         foldM (realloc_body L ops ks) (b\<lparr>strategy := st\<rparr>, []) iord"
      "alloc_inv L ok elig (b\<lparr>strategy := st\<rparr>)" "elig st = elig (strategy a)"
      "fmdom' (collectors b) = fmdom' cs" "filter_hook b = filter_hook a"
      "\<And>n. fmlookup (collectors b) n = (if fmlookup cs n = None then None else
         (case fmlookup (collectors a) n of Some c \<Rightarrow> Some c
          | None \<Rightarrow> map_option (\<lambda>i. NewCollector n (NodeName i)) (fmlookup cs n)))"
      "\<And>h. fmlookup (targetItems b) h = map_option (released (- fmdom' cs)) (fmlookup (targetItems a) h)"
      by (rule SetCollectors_prepare [OF inv cs rord aord ks, of iord]) blast
    let ?b = "b\<lparr>strategy := st\<rparr>"
    have ks_b: "enum ks (collectors ?b)" using ks b(4) by (simp add: enum_def)
    have i: "distinct iord" "\<And>h. h \<in> set iord \<longleftrightarrow> fmlookup (targetItems a) h \<noteq> None"
      using iord enum_mem [OF iord] by (auto simp: enum_def)
    from realloc_loop [OF b(2) ks_b i(1), of "[]"]
    obtain a' errs where a': "foldM (realloc_body L ops ks) (?b, []) iord = Inr (a', errs)"
      "effect L ops ok elig ?b a' errs"
      "\<And>h. fmlookup (targetItems b) h = None \<Longrightarrow> fmlookup (targetItems a') h = None"
      "\<And>h it. h \<in> set iord \<Longrightarrow> fmlookup (targetItems b) h = Some it \<Longrightarrow>
        \<exists>it'. fmlookup (targetItems a') h = Some it' \<and> decided ops st ks (collectors b) errs it it'"
      by auto
    have run: "SetCollectors L ops rord aord ks iord a cs = Inr (a', errs)"
      using a'(1) b(1) False same by (auto simp: SetCollectors_def)
    have e: "alloc_inv L ok elig a'" "same_cols (collectors b) (collectors a')" "strategy a' = st"
      "filter_hook a' = filter_hook a" "\<forall>err \<in> set errs. reported ops ok err"
      using a'(2) b(5) by (auto simp: effect_def)
    have dom: "fmdom' (collectors a') = fmdom' cs" using same_cols_dom [OF e(2)] b(4) by simp
    have dec: "decided ops st ks (collectors a') errs (released (- fmdom' cs) it) it'"
      if "fmlookup (targetItems a) h = Some it" "fmlookup (targetItems a') h = Some it'" for h it it'
      using a'(4) [of h "released (- fmdom' cs) it"] i(2) [of h] b(7) [of h] that
        decided_same [OF _ same_cols_sym [OF e(2)]] by auto
    have tracked: "fmlookup (targetItems a) h = None \<longleftrightarrow> fmlookup (targetItems a') h = None" for h
      using a'(3) [of h] a'(4) [of h] i(2) [of h] b(7) [of h] by (cases "fmlookup (targetItems a) h") auto
    have node: "case fmlookup (collectors a) n of Some c \<Rightarrow> NodeName c' = NodeName c
         | None \<Rightarrow> (\<exists>i. fmlookup cs n = Some i \<and> NodeName c' = NodeName i)"
      if "fmlookup (collectors a') n = Some c'" for n c'
      using same_colsD [OF same_cols_sym [OF e(2)] that] b(6) [of n]
      by (auto simp: NewCollector_def split: option.splits if_splits)
    have "collectors_set ops ks a cs a' errs"
      unfolding collectors_set_def using dom node tracked dec e(3) by blast
    moreover have "all_assigned a'" if "errs = []"
    proof (cases "collectors a' = fmempty")
      case False
      have "CollectorName it' \<noteq> ''''" if it': "fmlookup (targetItems a') h = Some it'" for h it'
      proof -
        obtain it where "fmlookup (targetItems a) h = Some it" using tracked [of h] it' by auto
        from decided_assigned [OF dec [OF this it'] \<open>errs = []\<close> False] e(1) show ?thesis
          by (simp add: alloc_inv_def core_inv_def)
      qed
      then show ?thesis by (auto simp: all_assigned_def)
    qed (simp add: all_assigned_def)
    ultimately show ?thesis using run e b(3) False by auto
  qed
qed

end

context total_strategy
begin

text \<open>A total strategy reports no error.\<close>

lemma no_reported: "\<not> reported ops ok err"
  using get_total by (auto simp: reported_def)

end

end
