(* ===== verification/Strategies.thy ===== *)
theory Strategies
  imports AllocatorSpec "HOL-Library.Product_Lexorder"
begin

text \<open>
  The three allocation strategies of \<open>otel-allocator/internal/allocation\<close>:
  \<open>least_weighted.go\<close>, \<open>consistent_hashing.go\<close> and \<open>per_node.go\<close>, with the registry and
  the constructor of \<open>strategy.go\<close>.

  The strategies are singletons kept in a package variable, so their state is one record
  \<open>registry\<close>; a strategy value is an identifier into it. The consistent hash ring of
  \<open>github.com/buraksezer/consistent\<close> is the parameter \<open>locate\<close>: \<open>locate members key\<close> is the
  member that \<open>consistent.New(members).LocateKey(key)\<close> returns, \<open>None\<close> being the nil member of
  an empty ring. The per-node strategy delegates to its fallback strategy through the interface,
  so the two dispatching methods are \<open>partial_function\<close>s: \<open>None\<close> is a call that never returns,
  which Go turns into a fatal stack overflow.
\<close>

datatype strategy_id = LeastWeighted | ConsistentHashing | PerNode

record registry =
  ch_members :: "string list"
  pn_byNode :: "(string, Collector) gomap"
  pn_fallback :: "strategy_id option"

definition initial_registry :: registry where
  "initial_registry = \<lparr>ch_members = [], pn_byNode = fmempty, pn_fallback = None\<rparr>"

fun GetName :: "strategy_id \<Rightarrow> string" where
  "GetName LeastWeighted = ''least-weighted''"
| "GetName ConsistentHashing = ''consistent-hashing''"
| "GetName PerNode = ''per-node''"

definition strategies :: "string \<Rightarrow> strategy_id option" where
  "strategies = map_of [(''least-weighted'', LeastWeighted), (''consistent-hashing'', ConsistentHashing),
                        (''per-node'', PerNode)]"

definition GetRegisteredAllocatorNames :: "string list" where
  "GetRegisteredAllocatorNames = [''least-weighted'', ''consistent-hashing'', ''per-node'']"

section \<open>Least weighted\<close>

definition lw_body :: "string \<Rightarrow> Collector option \<Rightarrow> Collector \<Rightarrow> Collector option" where
  "lw_body jobName col v =
     (case col of
        None \<Rightarrow> Some v
      | Some c \<Rightarrow>
          (if NumTargets v < NumTargets c then Some v
           else if NumTargets v = NumTargets c then
             (let vPerJob = get0 0 (TargetsPerJob v) jobName; colPerJob = get0 0 (TargetsPerJob c) jobName
              in if vPerJob < colPerJob \<or> vPerJob = colPerJob \<and> Name v < Name c then Some v else col)
           else col))"

definition lw_loop :: "collectors \<Rightarrow> string \<Rightarrow> Collector option \<Rightarrow> string list \<Rightarrow> Collector option" where
  "lw_loop cs jobName = foldl (\<lambda>col k. case fmlookup cs k of None \<Rightarrow> col | Some v \<Rightarrow> lw_body jobName col v)"

definition lw_GetCollectorForTarget :: "string list \<Rightarrow> collectors \<Rightarrow> Item \<Rightarrow> (strategy_error + Collector option) go" where
  "lw_GetCollectorForTarget ks cs item =
     (case (if CollectorName item \<noteq> '''' then fmlookup cs (CollectorName item) else None) of
        Some col \<Rightarrow> Inr (Inr (Some col))
      | None \<Rightarrow> Inr (Inr (lw_loop cs (JobName item) None ks)))"

section \<open>Consistent hashing\<close>

type_synonym locate_fn = "string list \<Rightarrow> string \<Rightarrow> string option"

definition ch_GetCollectorForTarget :: "locate_fn \<Rightarrow> registry \<Rightarrow> collectors \<Rightarrow> Item \<Rightarrow> (strategy_error + Collector option) go" where
  "ch_GetCollectorForTarget locate st cs item =
     (case locate (ch_members st) (TargetURL item) of
        None \<Rightarrow> Inl NilDeref
      | Some collectorName \<Rightarrow>
          (case fmlookup cs collectorName of
             None \<Rightarrow> Inr (Inl (UnknownCollector collectorName))
           | Some collector \<Rightarrow> Inr (Inr (Some collector))))"

definition ch_SetCollectors :: "registry \<Rightarrow> string list \<Rightarrow> collectors \<Rightarrow> registry" where
  "ch_SetCollectors st ks cs =
     st\<lparr>ch_members := (if gomap_len cs > 0 then List.map_filter (\<lambda>k. map_option Collector_String (fmlookup cs k)) ks else [])\<rparr>"

section \<open>Per node, and the dispatch through the interface\<close>

definition pn_local :: "labels_lib \<Rightarrow> registry \<Rightarrow> collectors \<Rightarrow> Item \<Rightarrow> (strategy_error + Collector option) go" where
  "pn_local L st cs item =
     (let targetNodeName = GetNodeName L item
      in case fmlookup (pn_byNode st) targetNodeName of
           None \<Rightarrow> Inr (Inl (NoCollectorForNode targetNodeName))
         | Some collector \<Rightarrow> Inr (Inr (fmlookup cs (Name collector))))"

definition fill_body :: "collectors \<Rightarrow> (string, Collector) gomap \<Rightarrow> string \<Rightarrow> (string, Collector) gomap" where
  "fill_body cs m k = (case fmlookup cs k of
      None \<Rightarrow> m | Some c \<Rightarrow> (if NodeName c \<noteq> '''' then fmupd (NodeName c) c m else m))"

definition pn_clear_and_fill :: "registry \<Rightarrow> string list \<Rightarrow> collectors \<Rightarrow> registry" where
  "pn_clear_and_fill st ks cs = st\<lparr>pn_byNode := foldl (fill_body cs) fmempty ks\<rparr>"

partial_function (option) GetCollectorForTarget ::
    "labels_lib \<Rightarrow> locate_fn \<Rightarrow> strategy_id \<Rightarrow> registry \<Rightarrow> string list \<Rightarrow> collectors \<Rightarrow> Item
     \<Rightarrow> (strategy_error + Collector option) go option" where
  "GetCollectorForTarget L locate s st ks cs item =
     (case s of
        LeastWeighted \<Rightarrow> Some (lw_GetCollectorForTarget ks cs item)
      | ConsistentHashing \<Rightarrow> Some (ch_GetCollectorForTarget locate st cs item)
      | PerNode \<Rightarrow>
          (case pn_fallback st of
             None \<Rightarrow> Some (pn_local L st cs item)
           | Some f \<Rightarrow>
               (if GetNodeName L item = '''' then GetCollectorForTarget L locate f st ks cs item
                else Some (pn_local L st cs item))))"

partial_function (option) strategy_SetCollectors ::
    "strategy_id \<Rightarrow> registry \<Rightarrow> string list \<Rightarrow> collectors \<Rightarrow> registry option" where
  "strategy_SetCollectors s st ks cs =
     (case s of
        LeastWeighted \<Rightarrow> Some st
      | ConsistentHashing \<Rightarrow> Some (ch_SetCollectors st ks cs)
      | PerNode \<Rightarrow>
          (case pn_fallback (pn_clear_and_fill st ks cs) of
             None \<Rightarrow> Some (pn_clear_and_fill st ks cs)
           | Some f \<Rightarrow> strategy_SetCollectors f (pn_clear_and_fill st ks cs) ks cs))"

definition or_overflow :: "'a go option \<Rightarrow> 'a go" where
  "or_overflow x = (case x of None \<Rightarrow> Inl StackOverflow | Some r \<Rightarrow> r)"

definition ops_of :: "labels_lib \<Rightarrow> locate_fn \<Rightarrow> strategy_id \<Rightarrow> registry strategy_ops" where
  "ops_of L locate s = \<lparr>
     op_GetCollectorForTarget = (\<lambda>st ks cs item. or_overflow (GetCollectorForTarget L locate s st ks cs item)),
     op_SetCollectors = (\<lambda>st ks cs. or_overflow (map_option Inr (strategy_SetCollectors s st ks cs)))\<rparr>"

fun SetFallbackStrategy :: "strategy_id \<Rightarrow> registry \<Rightarrow> strategy_id option \<Rightarrow> registry" where
  "SetFallbackStrategy LeastWeighted st f = st"
| "SetFallbackStrategy ConsistentHashing st f = st"
| "SetFallbackStrategy PerNode st f = st\<lparr>pn_fallback := f\<rparr>"

section \<open>Construction\<close>

datatype alloc_option = WithFilter "(Item list \<Rightarrow> Item list) option" | WithFallback "strategy_id option"

text \<open>\<open>Inl\<close> is the message of the panic.\<close>

definition WithFallbackStrategy :: "string \<Rightarrow> string + alloc_option" where
  "WithFallbackStrategy fallbackStrategy =
     (case strategies fallbackStrategy of
        None \<Rightarrow> (if fallbackStrategy \<noteq> '''' then Inl (''unregistered strategy used as fallback: '' @ fallbackStrategy)
                 else Inr (WithFallback None))
      | Some s \<Rightarrow> Inr (WithFallback (Some s)))"

fun apply_option :: "strategy_id \<Rightarrow> registry allocator \<Rightarrow> alloc_option \<Rightarrow> registry allocator" where
  "apply_option s a (WithFilter f) = SetFilter a f"
| "apply_option s a (WithFallback f) = a\<lparr>strategy := SetFallbackStrategy s (strategy a) f\<rparr>"

definition New :: "string \<Rightarrow> registry \<Rightarrow> alloc_option list \<Rightarrow> string + strategy_id \<times> registry allocator" where
  "New name reg opts =
     (case strategies name of
        None \<Rightarrow> Inl (''unregistered strategy: '' @ name)
      | Some s \<Rightarrow> Inr (s, foldl (apply_option s) (newAllocator reg) opts))"

section \<open>Facts about the strategies\<close>

lemma Get_simps [simp]:
  "GetCollectorForTarget L locate LeastWeighted st ks cs item = Some (lw_GetCollectorForTarget ks cs item)"
  "GetCollectorForTarget L locate ConsistentHashing st ks cs item = Some (ch_GetCollectorForTarget locate st cs item)"
  "pn_fallback st = None \<or> GetNodeName L item \<noteq> '''' \<Longrightarrow>
     GetCollectorForTarget L locate PerNode st ks cs item = Some (pn_local L st cs item)"
  "pn_fallback st = Some f \<Longrightarrow> f \<noteq> PerNode \<Longrightarrow> GetNodeName L item = '''' \<Longrightarrow>
     GetCollectorForTarget L locate PerNode st ks cs item = GetCollectorForTarget L locate f st ks cs item"
  by (subst GetCollectorForTarget.simps; auto split: option.splits)+

lemma fill_fallback [simp]:
  "pn_fallback (pn_clear_and_fill st ks cs) = pn_fallback st" "ch_members (pn_clear_and_fill st ks cs) = ch_members st"
  by (simp_all add: pn_clear_and_fill_def)

lemma Set_simps [simp]:
  "strategy_SetCollectors LeastWeighted st ks cs = Some st"
  "strategy_SetCollectors ConsistentHashing st ks cs = Some (ch_SetCollectors st ks cs)"
  "pn_fallback st = None \<Longrightarrow> strategy_SetCollectors PerNode st ks cs = Some (pn_clear_and_fill st ks cs)"
  "pn_fallback st = Some f \<Longrightarrow> f \<noteq> PerNode \<Longrightarrow>
     strategy_SetCollectors PerNode st ks cs = strategy_SetCollectors f (pn_clear_and_fill st ks cs) ks cs"
  by (subst strategy_SetCollectors.simps; auto split: option.splits)+

text \<open>The order in which the least-weighted loop ranks collectors.\<close>

definition lw_key :: "string \<Rightarrow> Collector \<Rightarrow> int \<times> int \<times> string" where
  "lw_key job c = (NumTargets c, get0 0 (TargetsPerJob c) job, Name c)"

lemma lw_body_min: "lw_body job (Some c) v = (if lw_key job v < lw_key job c then Some v else Some c)"
  by (auto simp: lw_body_def lw_key_def less_prod_def less_le Let_def)

lemma lw_loop_step:
  "lw_loop cs job col (k # ks) = lw_loop cs job (case fmlookup cs k of None \<Rightarrow> col | Some v \<Rightarrow> lw_body job col v) ks"
  by (simp add: lw_loop_def)

lemma lw_loop_Some:
  "\<exists>c. lw_loop cs job (Some c0) ks = Some c \<and> (c = c0 \<or> (\<exists>k \<in> set ks. fmlookup cs k = Some c)) \<and>
     lw_key job c \<le> lw_key job c0 \<and> (\<forall>k \<in> set ks. \<forall>v. fmlookup cs k = Some v \<longrightarrow> lw_key job c \<le> lw_key job v)"
proof (induction ks arbitrary: c0)
  case (Cons k ks)
  show ?case
  proof (cases "fmlookup cs k")
    case None
    with Cons.IH [of c0] show ?thesis by (auto simp: lw_loop_step)
  next
    case (Some v)
    define c1 where "c1 = (if lw_key job v < lw_key job c0 then v else c0)"
    from Cons.IH [of c1] obtain c where c: "lw_loop cs job (Some c1) ks = Some c"
      "c = c1 \<or> (\<exists>k \<in> set ks. fmlookup cs k = Some c)" "lw_key job c \<le> lw_key job c1"
      "\<forall>k \<in> set ks. \<forall>v. fmlookup cs k = Some v \<longrightarrow> lw_key job c \<le> lw_key job v" by blast
    have "lw_key job c1 \<le> lw_key job v" "lw_key job c1 \<le> lw_key job c0" by (auto simp: c1_def)
    moreover have "lw_loop cs job (Some c0) (k # ks) = Some c"
      using c(1) Some by (simp add: lw_loop_step lw_body_min c1_def if_distrib [of Some])
    moreover have "c = c0 \<or> (\<exists>k' \<in> set (k # ks). fmlookup cs k' = Some c)"
      using c(2) Some by (auto simp: c1_def)
    ultimately show ?thesis using c(3,4) Some by auto
  qed
qed (simp add: lw_loop_def)

lemma lw_loop_min:
  assumes "enum ks cs" "cs \<noteq> fmempty" "cols_wf cs"
  shows "\<exists>c. lw_loop cs job None ks = Some c \<and> fmlookup cs (Name c) = Some c \<and>
    (\<forall>k v. fmlookup cs k = Some v \<longrightarrow> lw_key job c \<le> lw_key job v)"
proof (cases ks)
  case Nil
  with assms show ?thesis by (auto simp: enum_def fmempty_iff mem_fmdom' set_eq_iff)
next
  case (Cons k rest)
  then obtain v where v: "fmlookup cs k = Some v" using enum_mem [OF assms(1), of k] by auto
  have all: "fmlookup cs k' \<noteq> None \<longleftrightarrow> k' = k \<or> k' \<in> set rest" for k'
    using enum_mem [OF assms(1), of k'] Cons by auto
  obtain c where c: "lw_loop cs job (Some v) rest = Some c" "c = v \<or> (\<exists>k \<in> set rest. fmlookup cs k = Some c)"
    "lw_key job c \<le> lw_key job v" "\<forall>k \<in> set rest. \<forall>v. fmlookup cs k = Some v \<longrightarrow> lw_key job c \<le> lw_key job v"
    using lw_loop_Some [of cs job v rest] by blast
  have "lw_loop cs job None ks = Some c" using Cons v c(1) by (simp add: lw_loop_step lw_body_def)
  moreover have "fmlookup cs (Name c) = Some c" using c(2) v cols_wfD(1) [OF assms(3)] by metis
  moreover have "lw_key job c \<le> lw_key job w" if "fmlookup cs k' = Some w" for k' w
    using that all [of k'] c(3,4) v by auto
  ultimately show ?thesis by blast
qed

lemma lw_get:
  assumes "enum ks cs" "cs \<noteq> fmempty" "cols_wf cs"
  shows "\<exists>c. lw_GetCollectorForTarget ks cs it = Inr (Inr (Some c)) \<and> fmlookup cs (Name c) = Some c"
proof (cases "if CollectorName it \<noteq> '''' then fmlookup cs (CollectorName it) else None")
  case None
  with lw_loop_min [OF assms, of "JobName it"] show ?thesis by (auto simp: lw_GetCollectorForTarget_def)
next
  case (Some c)
  then have "fmlookup cs (CollectorName it) = Some c" by (simp split: if_splits)
  with cols_wfD(1) [OF assms(3)] Some show ?thesis by (auto simp: lw_GetCollectorForTarget_def)
qed

text \<open>What the allocator relies on of the hash ring: a ring with members answers with a member.\<close>

definition locate_ok :: "locate_fn \<Rightarrow> bool" where
  "locate_ok locate \<longleftrightarrow> (\<forall>members key. members \<noteq> [] \<longrightarrow> (\<exists>m \<in> set members. locate members key = Some m))"

definition ch_ok :: "locate_fn \<Rightarrow> registry \<Rightarrow> collectors \<Rightarrow> bool" where
  "ch_ok locate st cs \<longleftrightarrow> locate_ok locate \<and> set (ch_members st) = fmdom' cs"

lemma ch_get:
  assumes "ch_ok locate st cs" "cols_wf cs" "cs \<noteq> fmempty"
  shows "\<exists>c. ch_GetCollectorForTarget locate st cs it = Inr (Inr (Some c)) \<and> fmlookup cs (Name c) = Some c"
proof -
  have "ch_members st \<noteq> []" using assms(1,3) by (auto simp: ch_ok_def fmempty_iff mem_fmdom' set_eq_iff)
  then obtain m where m: "m \<in> fmdom' cs" "locate (ch_members st) (TargetURL it) = Some m"
    using assms(1) unfolding ch_ok_def locate_ok_def by metis
  then obtain c where "fmlookup cs m = Some c" by (auto simp: mem_fmdom')
  with m cols_wfD(1) [OF assms(2)] show ?thesis by (auto simp: ch_GetCollectorForTarget_def)
qed

lemma ch_set_members:
  assumes "enum ks cs" "cols_wf cs"
  shows "set (ch_members (ch_SetCollectors st ks cs)) = fmdom' cs"
proof (cases "cs = fmempty")
  case False
  have "k \<in> set (List.map_filter (\<lambda>k. map_option Collector_String (fmlookup cs k)) ks) \<longleftrightarrow> k \<in> fmdom' cs" for k
    using enum_mem [OF assms(1)] cols_wfD(1) [OF assms(2)]
    by (fastforce simp: List.map_filter_def Collector_String_def mem_fmdom' image_iff)
  moreover have "gomap_len cs > 0" using False gomap_len_0 [of cs] by (metis gr0I)
  ultimately show ?thesis by (auto simp: ch_SetCollectors_def)
qed (simp add: ch_SetCollectors_def)

text \<open>The node index of the per-node strategy names exactly the nodes that have a collector.\<close>

definition by_node_ok :: "registry \<Rightarrow> collectors \<Rightarrow> bool" where
  "by_node_ok st cs \<longleftrightarrow> (\<forall>node.
     (case fmlookup (pn_byNode st) node of
        Some c \<Rightarrow> node \<noteq> '''' \<and> (\<exists>c'. fmlookup cs (Name c) = Some c' \<and> NodeName c' = node)
      | None \<Rightarrow> node = '''' \<or> (\<forall>n c. fmlookup cs n = Some c \<longrightarrow> NodeName c \<noteq> node)))"

lemma fill_body_lookup:
  "fmlookup (fill_body cs m k) node = (case fmlookup cs k of None \<Rightarrow> fmlookup m node
     | Some c \<Rightarrow> (if NodeName c = node \<and> node \<noteq> '''' then Some c else fmlookup m node))"
  by (auto simp: fill_body_def split: option.splits)

lemma fill_loop_Some:
  "fmlookup (foldl (fill_body cs) m ks) node = Some c \<Longrightarrow>
     fmlookup m node = Some c \<or> node \<noteq> '''' \<and> (\<exists>k \<in> set ks. fmlookup cs k = Some c \<and> NodeName c = node)"
proof (induction ks arbitrary: m)
  case (Cons k ks)
  then have "fmlookup (foldl (fill_body cs) (fill_body cs m k) ks) node = Some c" by simp
  from Cons.IH [OF this] show ?case
    by (auto simp: fill_body_lookup split: option.splits if_splits)
qed simp

lemma fill_loop_None:
  "fmlookup (foldl (fill_body cs) m ks) node = None \<Longrightarrow>
     fmlookup m node = None \<and> (\<forall>k \<in> set ks. \<forall>c. fmlookup cs k = Some c \<longrightarrow> NodeName c = node \<longrightarrow> node = '''')"
proof (induction ks arbitrary: m)
  case (Cons k ks)
  then have "fmlookup (foldl (fill_body cs) (fill_body cs m k) ks) node = None" by simp
  from Cons.IH [OF this] show ?case
    by (auto simp: fill_body_lookup split: option.splits if_splits)
qed simp

lemma fill_ok:
  assumes "enum ks cs" "cols_wf cs"
  shows "by_node_ok (pn_clear_and_fill st ks cs) cs"
proof -
  have "case fmlookup (pn_byNode (pn_clear_and_fill st ks cs)) node of
        Some c \<Rightarrow> node \<noteq> '''' \<and> (\<exists>c'. fmlookup cs (Name c) = Some c' \<and> NodeName c' = node)
      | None \<Rightarrow> node = '''' \<or> (\<forall>n c. fmlookup cs n = Some c \<longrightarrow> NodeName c \<noteq> node)" for node
  proof (cases "fmlookup (pn_byNode (pn_clear_and_fill st ks cs)) node")
    case None
    then have "\<forall>k \<in> set ks. \<forall>c. fmlookup cs k = Some c \<longrightarrow> NodeName c = node \<longrightarrow> node = ''''"
      using fill_loop_None [of cs fmempty ks node] by (simp add: pn_clear_and_fill_def)
    then have "node = '''' \<or> (\<forall>n c. fmlookup cs n = Some c \<longrightarrow> NodeName c \<noteq> node)"
      using enum_mem [OF assms(1)] by fastforce
    with None show ?thesis by simp
  next
    case (Some c)
    with fill_loop_Some [of cs fmempty ks node c]
    obtain k where "node \<noteq> ''''" "fmlookup cs k = Some c" "NodeName c = node"
      by (auto simp: pn_clear_and_fill_def)
    with cols_wfD(1) [OF assms(2)] Some show ?thesis by auto
  qed
  then show ?thesis by (simp add: by_node_ok_def)
qed

lemma by_node_same:
  assumes "by_node_ok st cs" "same_cols cs cs'"
  shows "by_node_ok st cs'"
proof -
  have "case fmlookup (pn_byNode st) node of
        Some c \<Rightarrow> node \<noteq> '''' \<and> (\<exists>c'. fmlookup cs' (Name c) = Some c' \<and> NodeName c' = node)
      | None \<Rightarrow> node = '''' \<or> (\<forall>n c. fmlookup cs' n = Some c \<longrightarrow> NodeName c \<noteq> node)" for node
  proof (cases "fmlookup (pn_byNode st) node")
    case None
    with spec [OF assms(1) [unfolded by_node_ok_def], of node] same_colsD [OF same_cols_sym [OF assms(2)]]
    show ?thesis by simp metis
  next
    case (Some c)
    with spec [OF assms(1) [unfolded by_node_ok_def], of node] same_colsD [OF assms(2), of "Name c"]
    show ?thesis by auto
  qed
  then show ?thesis by (simp add: by_node_ok_def)
qed

section \<open>The strategies meet the contract\<close>

fun ok_base :: "locate_fn \<Rightarrow> strategy_id \<Rightarrow> registry \<Rightarrow> collectors \<Rightarrow> bool" where
  "ok_base locate LeastWeighted st cs = True"
| "ok_base locate ConsistentHashing st cs = ch_ok locate st cs"
| "ok_base locate PerNode st cs = False"

fun ok_of :: "locate_fn \<Rightarrow> strategy_id \<Rightarrow> registry \<Rightarrow> collectors \<Rightarrow> bool" where
  "ok_of locate PerNode st cs \<longleftrightarrow>
     by_node_ok st cs \<and> (\<forall>f. pn_fallback st = Some f \<longrightarrow> ok_base locate f st cs)"
| "ok_of locate s st cs = ok_base locate s st cs"

fun elig_of :: "labels_lib \<Rightarrow> strategy_id \<Rightarrow> registry \<Rightarrow> string \<Rightarrow> Item \<Rightarrow> bool" where
  "elig_of L PerNode st node it =
     (if GetNodeName L it = '''' then pn_fallback st \<noteq> None else node = GetNodeName L it)"
| "elig_of L s st node it = True"

definition gets_live :: "(strategy_error + Collector option) go option \<Rightarrow> collectors \<Rightarrow> bool" where
  "gets_live r cs \<longleftrightarrow> (\<exists>c. r = Some (Inr (Inr (Some c))) \<and> fmlookup cs (Name c) = Some c)"

lemma base_get:
  assumes "ok_base locate s st cs" "cols_wf cs" "cs \<noteq> fmempty" "enum ks cs"
  shows "gets_live (GetCollectorForTarget L locate s st ks cs it) cs"
  using assms lw_get [OF assms(4,3,2)] ch_get [OF _ assms(2,3)]
  by (cases s) (auto simp: gets_live_def)

lemma base_same: "ok_base locate s st cs \<Longrightarrow> same_cols cs cs' \<Longrightarrow> ok_base locate s st cs'"
  by (cases s) (auto simp: ch_ok_def dest: same_cols_dom)

lemma base_set:
  assumes "ok_base locate s st cs0" "cols_wf cs" "enum ks cs"
  shows "\<exists>st'. strategy_SetCollectors s st ks cs = Some st' \<and> ok_base locate s st' cs \<and>
    pn_fallback st' = pn_fallback st \<and> pn_byNode st' = pn_byNode st"
  using assms ch_set_members [OF assms(3,2), of st]
  by (cases s) (auto simp: ch_ok_def ch_SetCollectors_def)

lemma base_fill: "ok_base locate s (pn_clear_and_fill st ks cs) cs' = ok_base locate s st cs'"
  by (cases s) (auto simp: ch_ok_def)

lemma pn_local_result:
  assumes "by_node_ok st cs" "cols_wf cs"
  shows "(pn_local L st cs it = Inr (Inl (NoCollectorForNode (GetNodeName L it))) \<and>
            (GetNodeName L it = '''' \<or> (\<forall>n c. fmlookup cs n = Some c \<longrightarrow> NodeName c \<noteq> GetNodeName L it))) \<or>
         (\<exists>c. pn_local L st cs it = Inr (Inr (Some c)) \<and> fmlookup cs (Name c) = Some c \<and>
            NodeName c = GetNodeName L it \<and> GetNodeName L it \<noteq> '''')"
  using spec [OF assms(1) [unfolded by_node_ok_def], of "GetNodeName L it"] cols_wfD(1) [OF assms(2)]
  by (auto simp: pn_local_def Let_def split: option.splits)

lemma pn_get:
  assumes "ok_of locate PerNode st cs" "cols_wf cs" "cs \<noteq> fmempty" "enum ks cs"
  shows "(\<exists>e. GetCollectorForTarget L locate PerNode st ks cs it = Some (Inr (Inl e)) \<and>
            (GetNodeName L it = '''' \<and> pn_fallback st = None \<or>
             GetNodeName L it \<noteq> '''' \<and> (\<forall>n c. fmlookup cs n = Some c \<longrightarrow> NodeName c \<noteq> GetNodeName L it))) \<or>
         (\<exists>c. GetCollectorForTarget L locate PerNode st ks cs it = Some (Inr (Inr (Some c))) \<and>
            fmlookup cs (Name c) = Some c \<and> elig_of L PerNode st (NodeName c) it)"
proof (cases "pn_fallback st")
  case None
  with assms pn_local_result [of st cs L it] show ?thesis by auto
next
  case (Some f)
  with assms(1) have f: "ok_base locate f st cs" "f \<noteq> PerNode" by auto
  show ?thesis
  proof (cases "GetNodeName L it = ''''")
    case True
    with Some f base_get [OF f(1) assms(2-4), of L it] show ?thesis by (auto simp: gets_live_def)
  next
    case False
    with assms pn_local_result [of st cs L it] show ?thesis by auto
  qed
qed

lemma elig_CollectorName_of: "elig_of L s st node (it\<lparr>CollectorName := x\<rparr>) = elig_of L s st node it"
  by (cases s) (simp_all add: GetNodeName_def)

lemma ok_of_same: "ok_of locate s st cs \<Longrightarrow> same_cols cs cs' \<Longrightarrow> ok_of locate s st cs'"
  by (cases s) (auto intro: by_node_same base_same simp del: ok_base.simps simp add: ok_base.simps(1) ch_ok_def dest: same_cols_dom)

lemma ops_of_Get: "op_GetCollectorForTarget (ops_of L locate s) st ks cs it =
    or_overflow (GetCollectorForTarget L locate s st ks cs it)"
  by (simp add: ops_of_def)

lemma set_of:
  assumes "ok_of locate s st cs0" "cols_wf cs" "enum ks cs"
  shows "\<exists>st'. op_SetCollectors (ops_of L locate s) st ks cs = Inr st' \<and> ok_of locate s st' cs \<and>
    elig_of L s st' = elig_of L s st"
proof (cases s)
  case PerNode
  let ?st = "pn_clear_and_fill st ks cs"
  note fill = fill_ok [OF assms(3,2), of st]
  show ?thesis
  proof (cases "pn_fallback st")
    case None
    with PerNode fill show ?thesis by (auto simp: ops_of_def or_overflow_def fun_eq_iff)
  next
    case (Some f)
    with assms(1) PerNode have f: "ok_base locate f ?st cs0" "f \<noteq> PerNode" by (auto simp: base_fill)
    from base_set [OF f(1) assms(2,3)] Some PerNode f(2) fill show ?thesis
      by (auto simp: ops_of_def or_overflow_def fun_eq_iff by_node_ok_def)
  qed
next
  case LeastWeighted
  then show ?thesis by (simp add: ops_of_def or_overflow_def fun_eq_iff)
next
  case ConsistentHashing
  with assms base_set [of locate ConsistentHashing st cs0 cs ks] show ?thesis
    by (auto simp: ops_of_def or_overflow_def fun_eq_iff)
qed

lemma get_of:
  assumes "ok_of locate s st cs" "cols_wf cs" "cs \<noteq> fmempty" "enum ks cs"
  shows "(\<exists>e. op_GetCollectorForTarget (ops_of L locate s) st ks cs it = Inr (Inl e)) \<or>
    (\<exists>c. op_GetCollectorForTarget (ops_of L locate s) st ks cs it = Inr (Inr (Some c)) \<and>
      fmlookup cs (Name c) = Some c \<and> elig_of L s st (NodeName c) it)"
proof (cases s)
  case PerNode
  with assms pn_get [of locate st cs ks L it] show ?thesis by (auto simp: ops_of_Get or_overflow_def)
next
  case LeastWeighted
  with lw_get [OF assms(4,3,2), of it] show ?thesis by (auto simp: ops_of_Get or_overflow_def)
next
  case ConsistentHashing
  with assms ch_get [of locate st cs it] show ?thesis by (auto simp: ops_of_Get or_overflow_def)
qed

lemma sticky_of:
  assumes "ok_of locate s st cs" "cols_wf cs" "enum ks cs" "fmlookup cs n = Some c" "elig_of L s st (NodeName c) it"
  shows "op_GetCollectorForTarget (ops_of L locate s) st ks cs it \<noteq> Inr (Inl e)"
proof -
  have ne: "cs \<noteq> fmempty" using assms(4) by auto
  show ?thesis
  proof (cases s)
    case PerNode
    with assms pn_get [OF _ assms(2) ne assms(3), of locate st L it] show ?thesis
      by (auto simp: ops_of_Get or_overflow_def split: if_splits)
  next
    case LeastWeighted
    with lw_get [OF assms(3) ne assms(2), of it] show ?thesis by (auto simp: ops_of_Get or_overflow_def)
  next
    case ConsistentHashing
    with assms ch_get [OF _ assms(2) ne, of locate st it] show ?thesis by (auto simp: ops_of_Get or_overflow_def)
  qed
qed

interpretation st: strategy_contract "ops_of L locate s" "ok_of locate s" "elig_of L s" for L locate s
  by (unfold_locales; rule get_of sticky_of set_of ok_of_same elig_CollectorName_of; assumption)

interpretation lw: total_strategy "ops_of L locate LeastWeighted" "ok_of locate LeastWeighted" "elig_of L LeastWeighted"
  for L locate
proof unfold_locales
  fix st cs ks it e
  assume "cols_wf cs" "cs \<noteq> fmempty" "enum ks cs"
  with lw_get [of ks cs it] show "op_GetCollectorForTarget (ops_of L locate LeastWeighted) st ks cs it \<noteq> Inr (Inl e)"
    by (auto simp: ops_of_Get or_overflow_def)
qed

interpretation ch: total_strategy "ops_of L locate ConsistentHashing" "ok_of locate ConsistentHashing"
  "elig_of L ConsistentHashing" for L locate
proof unfold_locales
  fix st cs ks it e
  assume "ok_of locate ConsistentHashing st cs" "cols_wf cs" "cs \<noteq> fmempty"
  with ch_get [of locate st cs it] show "op_GetCollectorForTarget (ops_of L locate ConsistentHashing) st ks cs it \<noteq> Inr (Inl e)"
    by (auto simp: ops_of_Get or_overflow_def)
qed

end
