(* ===== verification/AllocatorRuns.thy ===== *)
theory AllocatorRuns
  imports Strategies
begin

text \<open>
  Runs of the allocator: any sequence of \<open>SetTargets\<close>, \<open>SetCollectors\<close> and \<open>SetFilter\<close>
  calls, with any visiting orders of the maps. The write lock that both methods take makes the
  calls of concurrent goroutines such a sequence.
\<close>

inductive alloc_step :: "labels_lib \<Rightarrow> 'st strategy_ops \<Rightarrow> 'st allocator \<Rightarrow> 'st allocator \<Rightarrow> bool" for L ops where
  set_targets: "enum rord (targetItems a) \<Longrightarrow>
     enum aord (additions (Maps (Hash L) (targetItems a) (buildTargetMap L (filtered a ts) conc))) \<Longrightarrow>
     enum ks (collectors a) \<Longrightarrow> SetTargets L ops conc rord aord ks a ts = Inr (a', errs) \<Longrightarrow> alloc_step L ops a a'"
| set_collectors: "cols_wf cs \<Longrightarrow> enum rord (removals (Maps Collector_Hash (collectors a) cs)) \<Longrightarrow>
     enum aord (additions (Maps Collector_Hash (collectors a) cs)) \<Longrightarrow> enum ks cs \<Longrightarrow> enum iord (targetItems a) \<Longrightarrow>
     SetCollectors L ops rord aord ks iord a cs = Inr (a', errs) \<Longrightarrow> alloc_step L ops a a'"
| set_filter: "alloc_step L ops a (SetFilter a f)"

inductive reachable :: "labels_lib \<Rightarrow> 'st strategy_ops \<Rightarrow> 'st allocator \<Rightarrow> 'st allocator \<Rightarrow> bool" for L ops a0 where
  reach_init: "reachable L ops a0 a0"
| reach_step: "reachable L ops a0 a \<Longrightarrow> alloc_step L ops a a' \<Longrightarrow> reachable L ops a0 a'"

text \<open>
  A target without a collector is one that no collector may hold.
\<close>

definition served :: "('st \<Rightarrow> string \<Rightarrow> Item \<Rightarrow> bool) \<Rightarrow> 'st allocator \<Rightarrow> bool" where
  "served elig a \<longleftrightarrow> (\<forall>h it n c. fmlookup (targetItems a) h = Some it \<longrightarrow> CollectorName it = '''' \<longrightarrow>
     fmlookup (collectors a) n = Some c \<longrightarrow> \<not> elig (strategy a) (NodeName c) it)"

lemma servedD:
  "served elig a \<Longrightarrow> fmlookup (targetItems a) h = Some it \<Longrightarrow> CollectorName it = '''' \<Longrightarrow>
     fmlookup (collectors a) n = Some c \<Longrightarrow> \<not> elig (strategy a) (NodeName c) it"
  by (auto simp: served_def)

lemma targets_set_old:
  assumes "targets_set L ops conc ks a ts a' errs" "fmlookup (targetItems a') h = Some it'"
    "fmlookup (targetItems a) h = Some it"
  shows "it' = it"
proof -
  have "h \<in> fmdom' (targetItems a')" using assms(2) by (simp add: mem_fmdom')
  with assms show ?thesis unfolding targets_set_def by (metis option.inject)
qed

lemma targets_set_new:
  assumes "targets_set L ops conc ks a ts a' errs" "fmlookup (targetItems a) h = None"
    "fmlookup (targetItems a') h = Some it'"
  shows "\<exists>it. fmlookup (buildTargetMap L (filtered a ts) conc) h = Some it \<and>
    decided ops (strategy a) ks (collectors a) errs (it\<lparr>CollectorName := ''''\<rparr>) it'"
  using assms unfolding targets_set_def by blast

lemma collectors_set_decided:
  assumes "collectors_set ops ks a cs a' errs" "fmlookup (targetItems a) h = Some it" "fmlookup (targetItems a') h = Some it'"
  shows "decided ops (strategy a') ks (collectors a') errs (released (- fmdom' cs) it) it'"
  using assms unfolding collectors_set_def by blast

context strategy_contract
begin

lemma decided_served:
  assumes "decided ops st ks C errs it it'" "CollectorName it' = ''''" "fmlookup C n = Some c"
    and "ok st C" "cols_wf C" "enum ks C"
  shows "\<not> elig st (NodeName c) it'"
  using assms(1)
proof cases
  case (chosen C' d)
  then have "Name d \<noteq> ''''" using cols_wfD(2) [OF same_cols_wf [OF chosen(2) assms(5)]] by blast
  with chosen assms(2) show ?thesis by simp
next
  case (failed C' err)
  obtain c' where c': "fmlookup C' n = Some c'" "NodeName c' = NodeName c" using same_colsD [OF failed(2) assms(3)] by auto
  from get_sticky [OF ok_same [OF assms(4) failed(2)] same_cols_wf [OF failed(2) assms(5)]
      same_cols_enum [OF failed(2) assms(6)] c'(1)] failed c'(2)
  show ?thesis by metis
qed (use assms in simp)

lemma SetTargets_served:
  assumes "alloc_inv L ok elig a" "enum ks (collectors a)" "effect L ops ok elig a a' errs"
    "targets_set L ops conc ks a ts a' errs" "served elig a"
  shows "served elig a'"
  unfolding served_def
proof (intro allI impI)
  fix h it' n c'
  assume it': "fmlookup (targetItems a') h = Some it'" "CollectorName it' = ''''" and c': "fmlookup (collectors a') n = Some c'"
  have e: "same_cols (collectors a) (collectors a')" "strategy a' = strategy a" using assms(3) by (auto simp: effect_def)
  obtain c where c: "fmlookup (collectors a) n = Some c" "NodeName c = NodeName c'"
    using same_colsD [OF same_cols_sym [OF e(1)] c'] by auto
  show "\<not> elig (strategy a') (NodeName c') it'"
  proof (cases "fmlookup (targetItems a) h")
    case None
    from targets_set_new [OF assms(4) None it'(1)]
    obtain it where "decided ops (strategy a) ks (collectors a) errs (it\<lparr>CollectorName := ''''\<rparr>) it'" by blast
    from decided_served [OF this it'(2) c(1)] assms(1,2) e(2) c(2) show ?thesis
      by (simp add: alloc_inv_def core_inv_def)
  next
    case (Some it)
    with targets_set_old [OF assms(4) it'(1)] have "fmlookup (targetItems a) h = Some it'" by simp
    with servedD [OF assms(5) this it'(2) c(1)] e(2) c(2) show ?thesis by simp
  qed
qed

lemma SetCollectors_served:
  assumes "alloc_inv L ok elig a'" "enum ks cs" "collectors_set ops ks a cs a' errs"
  shows "served elig a'"
  unfolding served_def
proof (intro allI impI)
  fix h it' n c'
  assume it': "fmlookup (targetItems a') h = Some it'" "CollectorName it' = ''''" and c': "fmlookup (collectors a') n = Some c'"
  obtain it where "fmlookup (targetItems a) h = Some it" using assms(3) it' by (fastforce simp: collectors_set_def)
  with assms(3) it' have "decided ops (strategy a') ks (collectors a') errs (released (- fmdom' cs) it) it'"
    by (auto simp: collectors_set_def)
  moreover have "enum ks (collectors a')" using assms(2,3) by (simp add: collectors_set_def enum_def)
  ultimately show "\<not> elig (strategy a') (NodeName c') it'"
    using decided_served [OF _ it'(2) c'] assms(1) by (simp add: alloc_inv_def core_inv_def)
qed

lemma step_inv:
  assumes "alloc_step L ops a a'" "alloc_inv L ok elig a \<and> served elig a"
  shows "(alloc_inv L ok elig a' \<and> served elig a') \<and> elig (strategy a') = elig (strategy a)"
  using assms(1)
proof cases
  case (set_targets rord aord ts conc ks errs)
  from SetTargets_spec [OF conjunct1 [OF assms(2)] set_targets(1-3)] set_targets(4)
  have "effect L ops ok elig a a' errs" "targets_set L ops conc ks a ts a' errs" by auto
  with SetTargets_served [OF _ set_targets(3) this] assms(2) show ?thesis by (auto simp: effect_def)
next
  case (set_collectors cs rord aord ks iord errs)
  from SetCollectors_spec [OF conjunct1 [OF assms(2)] set_collectors(1-5)] set_collectors(6)
  have r: "alloc_inv L ok elig a'" "elig (strategy a') = elig (strategy a)"
    "if fmdom' cs = fmdom' (collectors a) then a' = a \<and> errs = [] else collectors_set ops ks a cs a' errs" by (auto split: if_splits)
  with SetCollectors_served [OF r(1) set_collectors(4)] assms(2) show ?thesis by (auto split: if_splits)
next
  case (set_filter f)
  with assms(2) show ?thesis
    by (simp add: SetFilter_def alloc_inv_def core_inv_def placed_def served_def)
qed

lemma reachable_inv:
  assumes "reachable L ops a0 a" "alloc_inv L ok elig a0 \<and> served elig a0"
  shows "(alloc_inv L ok elig a \<and> served elig a) \<and> elig (strategy a) = elig (strategy a0)"
  using assms
proof (induction rule: reachable.induct)
  case (reach_step a a')
  with step_inv [OF reach_step.hyps(2)] show ?case by simp
qed simp

end

section \<open>Runs of a freshly constructed allocator\<close>

definition started :: "string \<Rightarrow> alloc_option list \<Rightarrow> strategy_id \<Rightarrow> registry allocator \<Rightarrow> bool" where
  "started name opts s a0 \<longleftrightarrow> New name initial_registry opts = Inr (s, a0) \<and> pn_fallback (strategy a0) \<noteq> Some PerNode"

lemma options_fields:
  "collectors (foldl (apply_option s) a opts) = collectors a \<and> targetItems (foldl (apply_option s) a opts) = targetItems a \<and>
   targetItemsPerJobPerCollector (foldl (apply_option s) a opts) = targetItemsPerJobPerCollector a \<and>
   ch_members (strategy (foldl (apply_option s) a opts)) = ch_members (strategy a) \<and>
   pn_byNode (strategy (foldl (apply_option s) a opts)) = pn_byNode (strategy a)"
proof (induction opts arbitrary: a)
  case (Cons x opts)
  have "collectors (apply_option s a x) = collectors a \<and> targetItems (apply_option s a x) = targetItems a \<and>
    targetItemsPerJobPerCollector (apply_option s a x) = targetItemsPerJobPerCollector a \<and>
    ch_members (strategy (apply_option s a x)) = ch_members (strategy a) \<and>
    pn_byNode (strategy (apply_option s a x)) = pn_byNode (strategy a)"
    by (cases x; cases s) (simp_all add: SetFilter_def)
  with Cons.IH [of "apply_option s a x"] show ?case by simp
qed simp

lemma started_fields:
  assumes "started name opts s a0"
  shows "collectors a0 = fmempty" "targetItems a0 = fmempty" "targetItemsPerJobPerCollector a0 = fmempty"
    "ch_members (strategy a0) = []" "pn_byNode (strategy a0) = fmempty" "pn_fallback (strategy a0) \<noteq> Some PerNode"
    "strategies name = Some s"
  using assms options_fields [of s "newAllocator initial_registry" opts]
  by (auto simp: started_def New_def newAllocator_def initial_registry_def split: option.splits)

lemma started_inv:
  assumes "started name opts s a0" "locate_ok locate"
  shows "alloc_inv L (ok_of locate s) (elig_of L s) a0 \<and> served (elig_of L s) a0"
proof -
  note f = started_fields [OF assms(1)]
  have base: "ok_base locate s' (strategy a0) fmempty" if "s' \<noteq> PerNode" for s'
    using that f(4) assms(2) by (cases s') (simp_all add: ch_ok_def)
  have "ok_of locate s (strategy a0) fmempty"
    using base f(5,6) assms(2) f(4) by (cases s) (auto simp: by_node_ok_def ch_ok_def)
  moreover have "core_inv L a0"
    using f(1-3) by (simp add: core_inv_def keyed_def cols_wf_def live_def idx_def indexed_def job_items_def idx_wf_def counts_def)
  ultimately show ?thesis
    using f(1,2) by (simp add: alloc_inv_def placed_def served_def)
qed

lemma run_inv:
  assumes "started name opts s a0" "locate_ok locate" "reachable L (ops_of L locate s) a0 a"
  shows "alloc_inv L (ok_of locate s) (elig_of L s) a" "served (elig_of L s) a"
    "elig_of L s (strategy a) = elig_of L s (strategy a0)"
  using st.reachable_inv [OF assms(3) started_inv [OF assms(1,2), of L]] by auto

end
