(* ===== verification/Demo.thy ===== *)
theory Demo
  imports AllocatorRuns
begin

text \<open>
  One concrete run of the allocator under each strategy: a fresh allocator gets one collector,
  then one target. The witnesses of the allocator's properties evaluate on it.
\<close>

definition demo_lib :: labels_lib where
  "demo_lib = \<lparr>
     labels_Get = (\<lambda>ls n. case map_of ls n of None \<Rightarrow> '''' | Some v \<Rightarrow> v),
     labels_MatchLabels = (\<lambda>ls on names. filter (\<lambda>(n, v). (n \<in> set names) = on) ls),
     labels_Hash = (\<lambda>ls. of_nat (length ls)),
     xxhash_Sum64 = (\<lambda>s. of_nat (length s)),
     MetaLabelPrefix = ''__meta_'', AddressLabel = ''__address__''\<rparr>"

definition demo_locate :: locate_fn where
  "demo_locate members key = (case members of [] \<Rightarrow> None | m # _ \<Rightarrow> Some m)"

lemma demo_locate_ok: "locate_ok demo_locate"
  by (auto simp: locate_ok_def demo_locate_def neq_Nil_conv)

definition demo_cs :: collectors where
  "demo_cs = fmupd ''c1'' (NewCollector ''c1'' ''n1'') fmempty"

definition demo_item :: Item where
  "demo_item = NewItem ''job'' ''10.0.0.1:80'' [(''__meta_kubernetes_pod_node_name'', ''n1'')] '''' [WithHash 7]"

definition demo_a0 :: "registry allocator" where
  "demo_a0 = newAllocator initial_registry"

definition demo_a1 :: "strategy_id \<Rightarrow> registry allocator" where
  "demo_a1 s = demo_a0\<lparr>collectors := demo_cs, strategy := 
     (case s of LeastWeighted \<Rightarrow> initial_registry
      | ConsistentHashing \<Rightarrow> initial_registry\<lparr>ch_members := [''c1'']\<rparr>
      | PerNode \<Rightarrow> initial_registry\<lparr>pn_byNode := fmupd ''n1'' (NewCollector ''c1'' ''n1'') fmempty\<rparr>)\<rparr>"

lemma demo_wf: "cols_wf demo_cs" "enum [''c1''] demo_cs"
  by (auto simp: cols_wf_def demo_cs_def NewCollector_def enum_def)

lemma demo_cs_ne: "demo_cs \<noteq> fmempty"
  by (simp add: demo_cs_def)

lemma demo_started: "started (GetName s) [] s demo_a0"
  by (cases s) (simp_all add: started_def New_def strategies_def demo_a0_def newAllocator_def initial_registry_def)

lemma Maps_fresh: "Maps H fmempty m = NewChanges m fmempty"
  by (simp add: Maps_def NewChanges_def)

lemma demo_set_collectors:
  "SetCollectors demo_lib (ops_of demo_lib demo_locate s) [] [''c1''] [''c1''] [] demo_a0 demo_cs = Inr (demo_a1 s, [])"
  by (cases s) (simp_all add: SetCollectors_def handleCollectors_def demo_a0_def newAllocator_def Maps_fresh NewChanges_def
     coladdition_body_def demo_cs_def put_collector_def NewCollector_def ops_of_def or_overflow_def initial_registry_def
    demo_a1_def ch_SetCollectors_def pn_clear_and_fill_def fill_body_def List.map_filter_simps Collector_String_def
    neq0_conv [symmetric] del: neq0_conv)

definition demo_a2 :: "strategy_id \<Rightarrow> registry allocator" where
  "demo_a2 s = (demo_a1 s)\<lparr>
     targetItems := fmupd 7 (demo_item\<lparr>CollectorName := ''c1''\<rparr>) fmempty,
     collectors := fmupd ''c1'' (recount (NewCollector ''c1'' ''n1'') ''job'') fmempty,
     targetItemsPerJobPerCollector := fmupd ''c1'' (fmupd ''job'' (fmupd 7 True fmempty) fmempty) fmempty\<rparr>"

lemma demo_hash: "Hash demo_lib demo_item = 7" "JobName demo_item = ''job''" "CollectorName demo_item = ''''" 
  "cacheHash demo_lib demo_item = demo_item"
  by (simp_all add: demo_item_def Hash_def cacheHash_def)

lemma demo_map: "buildTargetMap demo_lib [demo_item] 2 = fmupd 7 demo_item fmempty"
  by (simp add: buildTargetMap_def minChunkSize_def chunk.simps demo_hash)

lemma demo_node: "GetNodeName demo_lib demo_item = ''n1''"
  by (simp add: GetNodeName_def demo_lib_def demo_item_def relevantLabelNames_def nodeLabels_def)

lemma demo_get: "op_GetCollectorForTarget (ops_of demo_lib demo_locate s) (strategy (demo_a1 s)) [''c1''] demo_cs demo_item = Inr (Inr (Some (NewCollector ''c1'' ''n1'')))"
  by (cases s) (simp_all add: ops_of_Get or_overflow_def lw_GetCollectorForTarget_def ch_GetCollectorForTarget_def pn_local_def
    demo_node demo_hash demo_a1_def demo_locate_def demo_cs_def lw_loop_def lw_body_def initial_registry_def NewCollector_def)

lemma demo_a1_fields: "targetItems (demo_a1 s) = fmempty" "collectors (demo_a1 s) = demo_cs" "filter_hook (demo_a1 s) = None"
   "targetItemsPerJobPerCollector (demo_a1 s) = fmempty"
  by (simp_all add: demo_a1_def demo_a0_def newAllocator_def)

lemma demo_set_targets:
  "SetTargets demo_lib (ops_of demo_lib demo_locate s) 2 [] [7] [''c1''] (demo_a1 s) [demo_item] = Inr (demo_a2 s, [])"
proof -
  let ?a = "(demo_a1 s)\<lparr>targetItems := fmupd 7 demo_item fmempty\<rparr>"
  have "assignTo demo_lib ?a demo_item (NewCollector ''c1'' ''n1'') = Inr (demo_a2 s)"
    by (simp add: assignTo_def put_item_def addCollectorTargetItemMapping_def put_collector_def demo_a2_def demo_hash
      demo_a1_fields demo_cs_def NewCollector_def get0_def)
  then have "addTargetToTargetItems demo_lib (ops_of demo_lib demo_locate s) [''c1''] (demo_a1 s) demo_item = Inr (demo_a2 s, None)"
    by (simp add: addTargetToTargetItems_def demo_hash demo_a1_fields demo_get Let_def demo_cs_ne)
  then show ?thesis
    by (simp add: SetTargets_def demo_a1_fields demo_map Maps_fresh NewChanges_def handleTargets_def
      addition_body_def demo_hash CollectorName_same Let_def)
qed

lemma demo_reachable1: "reachable demo_lib (ops_of demo_lib demo_locate s) demo_a0 (demo_a1 s)"
proof (rule reach_step [OF reach_init], rule set_collectors)
  show "cols_wf demo_cs" "enum [''c1''] demo_cs" by (rule demo_wf)+
  show "SetCollectors demo_lib (ops_of demo_lib demo_locate s) [] [''c1''] [''c1''] [] demo_a0 demo_cs = Inr (demo_a1 s, [])"
    by (rule demo_set_collectors)
qed (simp_all add: demo_a0_def newAllocator_def Maps_fresh NewChanges_def demo_wf)

lemma demo_orders:
  "enum [] (targetItems (demo_a1 s))" "enum [''c1''] (collectors (demo_a1 s))"
  "enum [7] (additions (Maps (Hash demo_lib) (targetItems (demo_a1 s)) (buildTargetMap demo_lib (filtered (demo_a1 s) [demo_item]) 2)))"
  by (simp_all add: demo_a1_fields demo_wf filtered_def demo_map Maps_fresh NewChanges_def enum_def demo_cs_def)

lemma demo_reachable: "reachable demo_lib (ops_of demo_lib demo_locate s) demo_a0 (demo_a2 s)"
  by (rule reach_step [OF demo_reachable1 set_targets [OF demo_orders(1,3,2) demo_set_targets]])

lemma demo_a2_fields:
  "targetItems (demo_a2 s) = fmupd 7 (demo_item\<lparr>CollectorName := ''c1''\<rparr>) fmempty"
  "collectors (demo_a2 s) = fmupd ''c1'' (recount (NewCollector ''c1'' ''n1'') ''job'') fmempty"
  "targetItemsPerJobPerCollector (demo_a2 s) = fmupd ''c1'' (fmupd ''job'' (fmupd 7 True fmempty) fmempty) fmempty"
  by (simp_all add: demo_a2_def)

end
