(* ===== verification/AllocatorProps.thy ===== *)
theory AllocatorProps
  imports Demo
begin

text \<open>
  The properties of the target allocator: what holds in every state that a freshly constructed
  allocator reaches, what each reconciliation does, and what each strategy adds to it. The
  facts of the locale \<open>strategy_contract\<close> arrive here through its interpretation \<open>st\<close> on the
  three strategies of the program.
\<close>

section \<open>Lemmas\<close>

lemma index_items:
  assumes "core_inv L a" "n \<noteq> ''''"
  shows "fmdom' (job_hashes a n j) = job_items (targetItems a) n j"
proof -
  have "fmdom' (job_hashes a n j) = indexed (targetItemsPerJobPerCollector a) n j"
    by (auto simp: job_hashes_def indexed_def get0_def split: option.splits)
  with assms show ?thesis by (auto simp: core_inv_def idx_def)
qed

lemma query_map:
  assumes "enum hord (job_hashes a n j)"
  shows "GetTargetsForCollectorAndJob a hord n j = map (fmlookup (targetItems a)) hord"
  using assms by (auto simp: GetTargetsForCollectorAndJob_def job_hashes_def get0_def split: option.splits)

lemma lookups_Some:
  assumes "\<And>h. h \<in> set hs \<Longrightarrow> fmlookup m h \<noteq> None"
  shows "map (fmlookup m) hs = map Some (map (\<lambda>h. the (fmlookup m h)) hs)"
  using assms by (auto simp: map_idI)

lemma query_spec:
  assumes core: "core_inv L a" and n: "n \<noteq> ''''" and hord: "enum hord (job_hashes a n j)"
  shows "\<exists>items. GetTargetsForCollectorAndJob a hord n j = map Some items \<and> distinct items \<and>
    set items = {it. (\<exists>h. fmlookup (targetItems a) h = Some it) \<and> CollectorName it = n \<and> JobName it = j}"
proof (intro exI conjI)
  let ?items = "map (\<lambda>h. the (fmlookup (targetItems a) h)) hord"
  have mem: "h \<in> set hord \<longleftrightarrow> h \<in> job_items (targetItems a) n j" for h
    using hord index_items [OF core n, of j] by (simp add: enum_def)
  then have look: "h \<in> set hord \<Longrightarrow> \<exists>it. fmlookup (targetItems a) h = Some it \<and> CollectorName it = n \<and> JobName it = j" for h
    by (auto simp: job_items_def)
  show "GetTargetsForCollectorAndJob a hord n j = map Some ?items"
    using look by (subst query_map [OF hord], intro lookups_Some) fastforce
  have "inj_on (\<lambda>h. the (fmlookup (targetItems a) h)) (set hord)"
  proof (rule inj_onI)
    fix x y
    assume xy: "x \<in> set hord" "y \<in> set hord" "the (fmlookup (targetItems a) x) = the (fmlookup (targetItems a) y)"
    obtain i i' where i: "fmlookup (targetItems a) x = Some i" "fmlookup (targetItems a) y = Some i'"
      using look [OF xy(1)] look [OF xy(2)] by blast
    with xy(3) have "i = i'" by simp
    with core_hash [OF core i(1)] core_hash [OF core i(2)] show "x = y" by simp
  qed
  with hord show "distinct ?items" by (simp add: enum_def distinct_map)
  show "set ?items = {it. (\<exists>h. fmlookup (targetItems a) h = Some it) \<and> CollectorName it = n \<and> JobName it = j}"
  proof (intro equalityI subsetI)
    fix it
    assume "it \<in> {it. (\<exists>h. fmlookup (targetItems a) h = Some it) \<and> CollectorName it = n \<and> JobName it = j}"
    then obtain h where h: "fmlookup (targetItems a) h = Some it" "CollectorName it = n" "JobName it = j" by blast
    then have "h \<in> set hord" by (auto simp: mem job_items_def)
    with h show "it \<in> set ?items" by (force simp: image_iff)
  qed (use look in fastforce)
qed

lemma released_survivor: "CollectorName it \<in> S \<Longrightarrow> released (- S) it = it"
  by (simp add: released_def)

lemma lw_decided_sticky:
  assumes "decided (ops_of L locate LeastWeighted) st ks C errs it it'" "fmlookup C (CollectorName it) = Some c" "cols_wf C"
  shows "it' = it"
  using assms(1)
proof cases
  case (chosen C' d)
  obtain c' where c': "fmlookup C' (CollectorName it) = Some c'" using same_colsD [OF chosen(2) assms(2)] by auto
  have "CollectorName it \<noteq> ''''" using cols_wfD(2) [OF assms(3,2)] .
  with chosen c' have "d = c'" by (simp add: ops_of_Get or_overflow_def lw_GetCollectorForTarget_def)
  with c' cols_wfD(1) [OF same_cols_wf [OF chosen(2) assms(3)]] have "Name d = CollectorName it" by blast
  with chosen show ?thesis by simp
qed (use assms in auto)

lemma ch_decided:
  assumes "decided (ops_of L locate ConsistentHashing) st ks C errs it it'" "C \<noteq> fmempty" "ch_ok locate st C" "cols_wf C"
  shows "locate (ch_members st) (TargetURL it') = Some (CollectorName it')"
  using assms(1)
proof cases
  case (chosen C' d)
  then obtain m where m: "locate (ch_members st) (TargetURL it) = Some m" "fmlookup C' m = Some d"
    by (auto simp: ops_of_Get or_overflow_def ch_GetCollectorForTarget_def split: option.splits)
  with cols_wfD(1) [OF same_cols_wf [OF chosen(2) assms(4)] m(2)] chosen(1) show ?thesis by simp
next
  case (failed C' err)
  have "ch_ok locate st C'" using assms(3) same_cols_dom [OF failed(2)] by (simp add: ch_ok_def)
  with failed ch_get [OF this same_cols_wf [OF failed(2) assms(4)] failed(3), of it] show ?thesis
    by (auto simp: ops_of_Get or_overflow_def)
qed (use assms in simp)

text \<open>Every target sits where the ring puts it.\<close>

definition on_ring :: "locate_fn \<Rightarrow> registry allocator \<Rightarrow> bool" where
  "on_ring locate a \<longleftrightarrow> (collectors a \<noteq> fmempty \<longrightarrow> (\<forall>h it. fmlookup (targetItems a) h = Some it \<longrightarrow>
     locate (ch_members (strategy a)) (TargetURL it) = Some (CollectorName it)))"

lemma on_ring_step:
  assumes "alloc_step L (ops_of L locate ConsistentHashing) a a'"
    "alloc_inv L (ok_of locate ConsistentHashing) (elig_of L ConsistentHashing) a" "on_ring locate a"
  shows "on_ring locate a'"
  using assms(1)
proof cases
  case (set_targets rord aord ts conc ks errs)
  let ?ops = "ops_of L locate ConsistentHashing"
  from st.SetTargets_spec [OF assms(2) set_targets(1-3)] set_targets(4)
  have e: "same_cols (collectors a) (collectors a')" "strategy a' = strategy a"
    and t: "targets_set L ?ops conc ks a ts a' errs" by (auto simp: effect_def)
  have ok: "ch_ok locate (strategy a) (collectors a)" "cols_wf (collectors a)"
    using assms(2) by (auto simp: alloc_inv_def core_inv_def)
  have "locate (ch_members (strategy a)) (TargetURL it') = Some (CollectorName it')"
    if "collectors a \<noteq> fmempty" and it': "fmlookup (targetItems a') h = Some it'" for h it'
  proof (cases "fmlookup (targetItems a) h")
    case None
    from targets_set_new [OF t None it'] ch_decided [OF _ that(1) ok] show ?thesis by blast
  next
    case (Some it)
    with targets_set_old [OF t it' Some] that assms(3) show ?thesis by (auto simp: on_ring_def)
  qed
  with e same_cols_empty [OF e(1)] show ?thesis by (simp add: on_ring_def)
next
  case (set_collectors cs rord aord ks iord errs)
  let ?ops = "ops_of L locate ConsistentHashing"
  from st.SetCollectors_spec [OF assms(2) set_collectors(1-5)] set_collectors(6)
  have r: "alloc_inv L (ok_of locate ConsistentHashing) (elig_of L ConsistentHashing) a'"
    "a' = a \<or> collectors_set ?ops ks a cs a' errs" by (auto split: if_splits)
  have "locate (ch_members (strategy a')) (TargetURL it') = Some (CollectorName it')"
    if c: "collectors_set ?ops ks a cs a' errs" "collectors a' \<noteq> fmempty" and it': "fmlookup (targetItems a') h = Some it'" for h it'
  proof -
    obtain it where "fmlookup (targetItems a) h = Some it" using c(1) it' by (fastforce simp: collectors_set_def)
    with c(1) it' have "decided ?ops (strategy a') ks (collectors a') errs (released (- fmdom' cs) it) it'"
      by (auto simp: collectors_set_def)
    from ch_decided [OF this c(2)] r(1) show ?thesis by (auto simp: alloc_inv_def core_inv_def)
  qed
  with r(2) assms(3) show ?thesis by (auto simp: on_ring_def)
next
  case (set_filter f)
  with assms(3) show ?thesis by (simp add: on_ring_def SetFilter_def)
qed

lemma on_ring_reachable:
  assumes "reachable L (ops_of L locate ConsistentHashing) a0 a" "started name opts ConsistentHashing a0" "locate_ok locate"
  shows "on_ring locate a"
  using assms(1)
proof (induction rule: reachable.induct)
  case reach_init
  then show ?case using started_fields(1) [OF assms(2)] by (simp add: on_ring_def)
next
  case (reach_step a a')
  then show ?case using on_ring_step run_inv(1) [OF assms(2,3)] by blast
qed

section \<open>Balance under the least-weighted strategy\<close>

definition balanced :: "collectors \<Rightarrow> bool" where
  "balanced cs \<longleftrightarrow> (\<forall>n c m d. fmlookup cs n = Some c \<longrightarrow> fmlookup cs m = Some d \<longrightarrow> NumTargets c \<le> NumTargets d + 1)"

lemma fresh_counts:
  assumes "core_inv L a" "core_inv L a'" "same_cols (collectors a) (collectors a')"
    and "targetItems a' = fmupd h it (targetItems a)" "fmlookup (targetItems a) h = None" "CollectorName it = x"
    and c': "fmlookup (collectors a') n = Some c'"
  shows "\<exists>c. fmlookup (collectors a) n = Some c \<and> NumTargets c' = NumTargets c + (if n = x then 1 else 0)"
proof -
  obtain c where c: "fmlookup (collectors a) n = Some c"
    using same_colsD [OF same_cols_sym [OF assms(3)] c'] by blast
  have "NumTargets c = int (card (items_of (targetItems a) n))" "NumTargets c' = int (card (items_of (targetItems a') n))"
    using countsD(1) [OF core_invD(6) [OF assms(1)] c] countsD(1) [OF core_invD(6) [OF assms(2)] c'] .
  moreover have "h \<notin> items_of (targetItems a) n" using assms(5) by (simp add: item_mems)
  ultimately show ?thesis using c assms(4,6) by (auto simp: item_sets)
qed

lemma lw_add_balanced:
  assumes ad: "added L (ops_of L locate LeastWeighted) ok elig ks a tg a' e x" and inv: "core_inv L a" "core_inv L a'"
    and tg: "fmlookup (targetItems a) (Hash L tg) = None" "CollectorName tg = ''''" and ks: "enum ks (collectors a)"
    and bal: "balanced (collectors a)"
  shows "balanced (collectors a')"
proof (cases "collectors a = fmempty")
  case True
  then show ?thesis using ad same_cols_empty [of "collectors a" "collectors a'"] by (simp add: added_def balanced_def)
next
  case False
  note wf = core_invD(2) [OF inv(1)]
  note counts = fresh_counts [OF inv, of "Hash L tg" "tg\<lparr>CollectorName := x\<rparr>" x]
  obtain c where c: "lw_loop (collectors a) (JobName tg) None ks = Some c" "fmlookup (collectors a) (Name c) = Some c"
    "\<And>k v. fmlookup (collectors a) k = Some v \<Longrightarrow> lw_key (JobName tg) c \<le> lw_key (JobName tg) v"
    using lw_loop_min [OF ks False wf] by blast
  then have "op_GetCollectorForTarget (ops_of L locate LeastWeighted) (strategy a) ks (collectors a) tg = Inr (Inr (Some c))"
    using tg(2) by (simp add: ops_of_Get or_overflow_def lw_GetCollectorForTarget_def)
  with ad False have x: "x = Name c" by (auto simp: added_def split: option.splits)
  have min: "NumTargets c \<le> NumTargets v" if "fmlookup (collectors a) k = Some v" for k v
    using c(3) [OF that] by (auto simp: lw_key_def less_eq_prod_def)
  show ?thesis
    unfolding balanced_def
  proof (intro allI impI)
    fix n c1' m d'
    assume 1: "fmlookup (collectors a') n = Some c1'" and 2: "fmlookup (collectors a') m = Some d'"
    obtain c1 d where n: "fmlookup (collectors a) n = Some c1" "NumTargets c1' = NumTargets c1 + (if n = x then 1 else 0)"
      and m: "fmlookup (collectors a) m = Some d" "NumTargets d' = NumTargets d + (if m = x then 1 else 0)"
      using counts [OF _ _ tg(1) _ 1] counts [OF _ _ tg(1) _ 2] ad by (auto simp: added_def)
    show "NumTargets c1' \<le> NumTargets d' + 1"
    proof (cases "n = x")
      case True
      with n(1) c(2) x have "c1 = c" by simp
      with True n(2) m(2) min [OF m(1)] show ?thesis by auto
    next
      case False
      with n m bal show ?thesis by (fastforce simp: balanced_def)
    qed
  qed
qed

lemma no_removals: "removals d = fmempty \<Longrightarrow> foldl (removal_body L d) a rord = a"
  by (induction rord) (auto simp: removal_body_def split: option.splits)

lemma lw_additions_balanced:
  assumes "alloc_inv L (ok_of locate LeastWeighted) (elig_of L LeastWeighted) a" "enum ks (collectors a)"
    "keyed (Hash L) (additions d)" "balanced (collectors a)"
    "foldM (addition_body L (ops_of L locate LeastWeighted) ks d) (a, errs0) aord = Inr (a', errs)"
  shows "balanced (collectors a')"
proof -
  let ?ops = "ops_of L locate LeastWeighted" and ?inv = "alloc_inv L (ok_of locate LeastWeighted) (elig_of L LeastWeighted)"
  let ?I = "\<lambda>(rest :: ItemHash list) (b, es :: strategy_error list). ?inv b \<and> enum ks (collectors b) \<and> balanced (collectors b)"
  have "\<exists>s'. addition_body L ?ops ks d s k = Inr s' \<and> ?I rest s'" if I: "?I (k # rest) s" for k rest s
  proof -
    obtain b es where s: "s = (b, es)" by (cases s) simp
    with I have b: "?inv b" "enum ks (collectors b)" "balanced (collectors b)" by auto
    show ?thesis
    proof (cases "fmlookup (additions d) k = None \<or> fmlookup (targetItems b) k \<noteq> None")
      case True
      with s b show ?thesis by (auto simp: addition_body_def split: option.splits)
    next
      case False
      then obtain it where it: "fmlookup (additions d) k = Some it" "fmlookup (targetItems b) k = None" by auto
      let ?it = "it\<lparr>CollectorName := ''''\<rparr>"
      have h: "Hash L ?it = k" using keyedD [OF assms(3) it(1)] by simp
      obtain b' e x where b': "addTargetToTargetItems L ?ops ks b ?it = Inr (b', e)"
        "added L ?ops (ok_of locate LeastWeighted) (elig_of L LeastWeighted) ks b ?it b' e x"
        using st.add_spec [OF b(1,2), of ?it] h it(2) by auto
      have i': "?inv b'" "enum ks (collectors b')" using b'(2) same_cols_enum [OF _ b(2)] by (auto simp: added_def)
      have "balanced (collectors b')"
        using lw_add_balanced [OF b'(2) _ _ _ _ b(2,3)] b(1) i'(1) h it(2) by (simp add: alloc_inv_def)
      with s it b'(1) i' show ?thesis by (auto simp: addition_body_def)
    qed
  qed
  from foldM_rule [of ?I aord "(a, errs0)" "addition_body L ?ops ks d", OF _ this] assms show ?thesis by auto
qed

section \<open>A fallback that never returns\<close>

lemma self_fallback_get:
  assumes "GetCollectorForTarget L locate s st ks cs it = Some r"
  shows "s = PerNode \<longrightarrow> pn_fallback st = Some PerNode \<longrightarrow> GetNodeName L it \<noteq> ''''"
  by (rule GetCollectorForTarget.raw_induct [OF _ assms]) (auto split: strategy_id.splits option.splits if_splits)

lemma self_fallback_set:
  assumes "strategy_SetCollectors s st ks cs = Some r"
  shows "s = PerNode \<longrightarrow> pn_fallback st \<noteq> Some PerNode"
  by (rule strategy_SetCollectors.raw_induct [OF _ assms]) (fastforce split: strategy_id.splits option.splits if_splits)

section \<open>Properties\<close>

text \<open>
  C1: In every state that a freshly constructed allocator reaches through any calls of
  \<open>SetTargets\<close>, \<open>SetCollectors\<close> and \<open>SetFilter\<close>, whatever the map iteration orders, the
  tables agree: an assigned target is on a live collector, \<open>NumTargets\<close> and \<open>TargetsPerJob\<close> of
  every collector are the numbers of targets assigned to it (a job with no target has no entry),
  the index holds for a collector and a job exactly the hashes of its targets, and no collector
  outside the table has an index entry.
\<close>

theorem allocator_tables_agree:
  assumes "started name opts s a0" "locate_ok locate" "reachable L (ops_of L locate s) a0 a"
  shows "(\<forall>h it. fmlookup (targetItems a) h = Some it \<longrightarrow> Hash L it = h \<and>
      (CollectorName it = '''' \<or> CollectorName it \<in> fmdom' (collectors a))) \<and>
    (\<forall>n c. fmlookup (collectors a) n = Some c \<longrightarrow> Name c = n \<and>
      NumTargets c = int (card (items_of (targetItems a) n)) \<and>
      (\<forall>j. fmlookup (TargetsPerJob c) j = count_opt (card (job_items (targetItems a) n j)))) \<and>
    (\<forall>n j. n \<noteq> '''' \<longrightarrow> fmdom' (job_hashes a n j) = job_items (targetItems a) n j) \<and>
    fmdom' (targetItemsPerJobPerCollector a) \<subseteq> fmdom' (collectors a)"
proof (intro conjI)
  have core: "core_inv L a" using run_inv(1) [OF assms] by (simp add: alloc_inv_def)
  note i = core_invD [OF core]
  show "\<forall>h it. fmlookup (targetItems a) h = Some it \<longrightarrow> Hash L it = h \<and>
      (CollectorName it = '''' \<or> CollectorName it \<in> fmdom' (collectors a))"
    using core_hash [OF core] i(3) by (auto simp: live_def)
  show "\<forall>n c. fmlookup (collectors a) n = Some c \<longrightarrow> Name c = n \<and>
      NumTargets c = int (card (items_of (targetItems a) n)) \<and>
      (\<forall>j. fmlookup (TargetsPerJob c) j = count_opt (card (job_items (targetItems a) n j)))"
    using countsD [OF i(6)] cols_wfD(1) [OF i(2)] by blast
  show "\<forall>n j. n \<noteq> '''' \<longrightarrow> fmdom' (job_hashes a n j) = job_items (targetItems a) n j"
    using index_items [OF core] by blast
  show "fmdom' (targetItemsPerJobPerCollector a) \<subseteq> fmdom' (collectors a)"
    using i(5) by (auto simp: idx_wf_def mem_fmdom')
qed

theorem allocator_tables_agree_witness:
  "reachable demo_lib (ops_of demo_lib demo_locate LeastWeighted) demo_a0 (demo_a2 LeastWeighted) \<and>
   fmdom' (job_hashes (demo_a2 LeastWeighted) ''c1'' ''job'') = job_items (targetItems (demo_a2 LeastWeighted)) ''c1'' ''job''"
  using allocator_tables_agree [OF demo_started demo_locate_ok demo_reachable, of LeastWeighted] demo_reachable by blast

text \<open>
  C2: \<open>SetTargets\<close> on a reachable allocator never faults, whatever targets are discovered and
  whatever the iteration orders: afterwards the tracked targets are exactly the discovered ones
  that pass the filter (by hash), every target tracked before keeps its item and its collector,
  the collectors are the same, and the new state is again reachable (so the tables agree).
\<close>

theorem SetTargets_reconciles:
  assumes "started name opts s a0" "locate_ok locate" "reachable L (ops_of L locate s) a0 a"
    and "enum rord (targetItems a)" "enum ks (collectors a)"
    and "enum aord (additions (Maps (Hash L) (targetItems a) (buildTargetMap L (filtered a targets) conc)))"
  shows "\<exists>a' errs. SetTargets L (ops_of L locate s) conc rord aord ks a targets = Inr (a', errs) \<and>
    reachable L (ops_of L locate s) a0 a' \<and>
    fmdom' (targetItems a') = Hash L ` set (filtered a targets) \<and>
    (\<forall>h it. fmlookup (targetItems a) h = Some it \<longrightarrow> h \<in> Hash L ` set (filtered a targets) \<longrightarrow>
       fmlookup (targetItems a') h = Some it) \<and>
    fmdom' (collectors a') = fmdom' (collectors a)"
proof -
  from st.SetTargets_spec [OF run_inv(1) [OF assms(1-3)] assms(4,6,5)]
  obtain a' errs where a': "SetTargets L (ops_of L locate s) conc rord aord ks a targets = Inr (a', errs)"
    "effect L (ops_of L locate s) (ok_of locate s) (elig_of L s) a a' errs"
    "targets_set L (ops_of L locate s) conc ks a targets a' errs" by blast
  have "reachable L (ops_of L locate s) a0 a'"
    by (rule reach_step [OF assms(3) set_targets [OF assms(4,6,5) a'(1)]])
  with a' show ?thesis by (auto simp: targets_set_def effect_def dest: same_cols_dom)
qed

theorem SetTargets_reconciles_witness:
  "\<exists>a' errs. SetTargets demo_lib (ops_of demo_lib demo_locate PerNode) 2 [] [7] [''c1''] (demo_a1 PerNode) [demo_item] = Inr (a', errs) \<and>
     fmdom' (targetItems a') = {7}"
  using SetTargets_reconciles [OF demo_started demo_locate_ok demo_reachable1 demo_orders(1,2,3), of PerNode]
  by (auto simp: filtered_def demo_a1_fields demo_hash)

text \<open>
  C3: \<open>SetCollectors\<close> on a reachable allocator never faults. If the names are the ones it has,
  nothing changes. Otherwise the collectors are afterwards exactly the new ones, a collector that
  was there before keeps the node it was created with and a new one has its own, no target is lost
  or added, and without an assignment error every target has a collector (if there is one).
\<close>

theorem SetCollectors_reconciles:
  assumes "started name opts s a0" "locate_ok locate" "reachable L (ops_of L locate s) a0 a" "cols_wf cs"
    and "enum rord (removals (Maps Collector_Hash (collectors a) cs))"
    and "enum aord (additions (Maps Collector_Hash (collectors a) cs))" "enum ks cs" "enum iord (targetItems a)"
  shows "\<exists>a' errs. SetCollectors L (ops_of L locate s) rord aord ks iord a cs = Inr (a', errs) \<and>
    reachable L (ops_of L locate s) a0 a' \<and>
    (if fmdom' cs = fmdom' (collectors a) then a' = a
     else fmdom' (collectors a') = fmdom' cs \<and> fmdom' (targetItems a') = fmdom' (targetItems a) \<and>
       (\<forall>n c'. fmlookup (collectors a') n = Some c' \<longrightarrow>
          (case fmlookup (collectors a) n of Some c \<Rightarrow> NodeName c' = NodeName c
           | None \<Rightarrow> (\<exists>i. fmlookup cs n = Some i \<and> NodeName c' = NodeName i))) \<and>
       (errs = [] \<longrightarrow> cs \<noteq> fmempty \<longrightarrow> (\<forall>h it. fmlookup (targetItems a') h = Some it \<longrightarrow> CollectorName it \<in> fmdom' cs)))"
proof -
  from st.SetCollectors_spec [OF run_inv(1) [OF assms(1-3)] assms(4-8)]
  obtain a' errs where a': "SetCollectors L (ops_of L locate s) rord aord ks iord a cs = Inr (a', errs)"
    "alloc_inv L (ok_of locate s) (elig_of L s) a'"
    "if fmdom' cs = fmdom' (collectors a) then a' = a \<and> errs = []
     else collectors_set (ops_of L locate s) ks a cs a' errs \<and> (errs = [] \<longrightarrow> all_assigned a')" by blast
  have r: "reachable L (ops_of L locate s) a0 a'"
    by (rule reach_step [OF assms(3) set_collectors [OF assms(4-8) a'(1)]])
  show ?thesis
  proof (cases "fmdom' cs = fmdom' (collectors a)")
    case True
    with a' r show ?thesis by auto
  next
    case False
    with a'(3) have c: "collectors_set (ops_of L locate s) ks a cs a' errs" "errs = [] \<Longrightarrow> all_assigned a'" by auto
    have "fmdom' (targetItems a') = fmdom' (targetItems a)"
      using c(1) by (auto simp: collectors_set_def mem_fmdom')
    moreover have "CollectorName it \<in> fmdom' cs"
      if "errs = []" "cs \<noteq> fmempty" "fmlookup (targetItems a') h = Some it" for h it
    proof -
      have dom: "fmdom' (collectors a') = fmdom' cs" using c(1) by (simp add: collectors_set_def)
      have ne: "collectors a' \<noteq> fmempty" using dom that(2) by (metis fmdom'_empty fmempty_iff mem_fmdom' empty_iff)
      have "CollectorName it \<noteq> ''''" using c(2) [OF that(1)] ne that(3) by (auto simp: all_assigned_def)
      with a'(2) that(3) dom show ?thesis by (auto simp: alloc_inv_def core_inv_def live_def)
    qed
    ultimately show ?thesis using a'(1) r c(1) False by (auto simp: collectors_set_def)
  qed
qed

theorem SetCollectors_reconciles_witness:
  "\<exists>a' errs. SetCollectors demo_lib (ops_of demo_lib demo_locate ConsistentHashing) [''c1''] [] [] [7] (demo_a2 ConsistentHashing) fmempty = Inr (a', errs) \<and>
     fmdom' (collectors a') = {} \<and> fmdom' (targetItems a') = {7}"
proof -
  have "cols_wf (fmempty :: collectors)" "enum [] (fmempty :: collectors)" by (simp_all add: cols_wf_def)
  moreover have "enum [''c1''] (removals (Maps Collector_Hash (collectors (demo_a2 ConsistentHashing)) fmempty))"
    "enum [] (additions (Maps Collector_Hash (collectors (demo_a2 ConsistentHashing)) fmempty))"
    "enum [7] (targetItems (demo_a2 ConsistentHashing))"
    by (simp_all add: demo_a2_fields Maps_def enum_def fmfilter_alt_defs)
  ultimately show ?thesis
    using SetCollectors_reconciles [OF demo_started demo_locate_ok demo_reachable] by (fastforce simp: demo_a2_fields)
qed

text \<open>
  C4: On a reachable allocator \<open>GetTargetsForCollectorAndJob\<close> returns, for a collector name and
  a job, exactly the tracked targets of that job assigned to that collector, each once and with
  no nil entry, in whatever order the hash set is visited; so a target is handed out for one
  collector and one job only.
\<close>

theorem GetTargets_partition:
  assumes "started name opts s a0" "locate_ok locate" "reachable L (ops_of L locate s) a0 a"
    and "n \<noteq> ''''" "enum hord (job_hashes a n j)"
  shows "\<exists>items. GetTargetsForCollectorAndJob a hord n j = map Some items \<and> distinct items \<and>
    set items = {it. (\<exists>h. fmlookup (TargetItems a) h = Some it) \<and> CollectorName it = n \<and> JobName it = j}"
  using query_spec [OF _ assms(4,5), of L] run_inv(1) [OF assms(1-3)] by (simp add: alloc_inv_def TargetItems_def)

theorem GetTargets_partition_witness:
  "\<exists>items. GetTargetsForCollectorAndJob (demo_a2 LeastWeighted) [7] ''c1'' ''job'' = map Some items \<and>
     set items = {demo_item\<lparr>CollectorName := ''c1''\<rparr>}"
proof -
  have o: "enum [7] (job_hashes (demo_a2 LeastWeighted) ''c1'' ''job'')"
    by (simp add: job_hashes_def demo_a2_fields enum_def get0_def)
  from GetTargets_partition [OF demo_started demo_locate_ok demo_reachable _ o] show ?thesis
    by (auto simp: TargetItems_def demo_a2_fields demo_hash)
qed

text \<open>
  C5: A target that is left without a collector while there are collectors is one that no
  collector may hold: under least-weighted and consistent-hashing every target of a reachable
  allocator with a collector is assigned; under per-node an unassigned target either names a node
  on which there is no collector, or names no node and there is no fallback strategy; and a target
  that names a node is only ever assigned to a collector of that node.
\<close>

theorem placement:
  assumes "started name opts s a0" "locate_ok locate" "reachable L (ops_of L locate s) a0 a"
    and it: "fmlookup (targetItems a) h = Some it" and ne: "collectors a \<noteq> fmempty"
  shows "case s of
      PerNode \<Rightarrow>
        (if CollectorName it = ''''
         then (if GetNodeName L it = '''' then pn_fallback (strategy a) = None
               else \<forall>n c. fmlookup (collectors a) n = Some c \<longrightarrow> NodeName c \<noteq> GetNodeName L it)
         else \<exists>c. fmlookup (collectors a) (CollectorName it) = Some c \<and>
                (if GetNodeName L it = '''' then pn_fallback (strategy a) \<noteq> None else NodeName c = GetNodeName L it))
    | _ \<Rightarrow> CollectorName it \<in> fmdom' (collectors a)"
proof -
  note inv = run_inv(1) [OF assms(1-3)] and serv = run_inv(2) [OF assms(1-3)]
  have assigned: "\<exists>c. fmlookup (collectors a) (CollectorName it) = Some c \<and> elig_of L s (strategy a) (NodeName c) it"
    if "CollectorName it \<noteq> ''''"
    using that inv it by (fastforce simp: alloc_inv_def core_inv_def live_def mem_fmdom' placed_def)
  obtain n c where c: "fmlookup (collectors a) n = Some c" using ne by (auto simp: not_fmempty_iff)
  show ?thesis
  proof (cases "CollectorName it = ''''")
    case True
    with servedD [OF serv it True] c show ?thesis by (cases s) (auto split: if_splits)
  next
    case False
    with assigned show ?thesis by (cases s) (auto simp: mem_fmdom' split: if_splits)
  qed
qed

theorem placement_witness:
  "\<exists>c. fmlookup (collectors (demo_a2 PerNode)) ''c1'' = Some c \<and> NodeName c = GetNodeName demo_lib demo_item"
  using placement [OF demo_started demo_locate_ok demo_reachable, of PerNode 7 "demo_item\<lparr>CollectorName := ''c1''\<rparr>"]
  by (simp add: demo_a2_fields demo_node)

text \<open>
  C6: The least-weighted choice for a target without a collector is the collector with the
  fewest targets, then the fewest targets of the same job, then the least name; it is strictly
  below every other collector in that order, so it does not depend on the order in which the map is
  visited.
\<close>

theorem least_weighted_choice:
  assumes "cols_wf cs" "cs \<noteq> fmempty" "CollectorName it = ''''"
  shows "\<exists>c. fmlookup cs (Name c) = Some c \<and>
    (\<forall>ks. enum ks cs \<longrightarrow> GetCollectorForTarget L locate LeastWeighted st ks cs it = Some (Inr (Inr (Some c)))) \<and>
    (\<forall>n d. fmlookup cs n = Some d \<longrightarrow> d \<noteq> c \<longrightarrow>
       (NumTargets c, get0 0 (TargetsPerJob c) (JobName it), Name c) <
       (NumTargets d, get0 0 (TargetsPerJob d) (JobName it), Name d))"
proof -
  let ?key = "lw_key (JobName it)"
  obtain ks0 where "enum ks0 cs" using enum_exists [of cs] by (elim exE)
  from lw_loop_min [OF this assms(2,1), of "JobName it"]
  obtain c where c: "fmlookup cs (Name c) = Some c" "\<And>k v. fmlookup cs k = Some v \<Longrightarrow> ?key c \<le> ?key v" by metis
  have strict: "?key c < ?key d" if "fmlookup cs n = Some d" "d \<noteq> c" for n d
  proof -
    have "?key c \<noteq> ?key d"
    proof
      assume "?key c = ?key d"
      then have "Name c = n" using cols_wfD(1) [OF assms(1) that(1)] by (simp add: lw_key_def)
      with c(1) that show False by simp
    qed
    with c(2) [OF that(1)] show ?thesis by simp
  qed
  have "GetCollectorForTarget L locate LeastWeighted st ks cs it = Some (Inr (Inr (Some c)))" if ks: "enum ks cs" for ks
  proof -
    obtain c' where c': "lw_loop cs (JobName it) None ks = Some c'" "fmlookup cs (Name c') = Some c'"
      "\<And>k v. fmlookup cs k = Some v \<Longrightarrow> ?key c' \<le> ?key v"
      using lw_loop_min [OF ks assms(2,1), of "JobName it"] by blast
    then have "c' = c" using strict [of "Name c'" c'] c'(3) [OF c(1)] by fastforce
    with c'(1) assms(3) show ?thesis by (simp add: lw_GetCollectorForTarget_def)
  qed
  with c(1) strict show ?thesis unfolding lw_key_def by blast
qed

theorem least_weighted_choice_witness:
  "\<exists>c. fmlookup demo_cs (Name c) = Some c \<and>
    GetCollectorForTarget demo_lib demo_locate LeastWeighted initial_registry [''c1''] demo_cs demo_item = Some (Inr (Inr (Some c)))"
  using least_weighted_choice [OF demo_wf(1) demo_cs_ne demo_hash(3), of demo_lib demo_locate initial_registry] demo_wf(2) by blast

text \<open>
  C7: The least-weighted strategy does not move targets: when the collectors change, every target
  whose collector is still there keeps it, and the targets of removed collectors are spread over
  the rest (none is left unassigned while there is a collector).
\<close>

theorem least_weighted_sticky:
  assumes "started name opts LeastWeighted a0" "locate_ok locate" "reachable L (ops_of L locate LeastWeighted) a0 a"
    and "cols_wf cs" "enum rord (removals (Maps Collector_Hash (collectors a) cs))"
    and "enum aord (additions (Maps Collector_Hash (collectors a) cs))" "enum ks cs" "enum iord (targetItems a)"
    and "SetCollectors L (ops_of L locate LeastWeighted) rord aord ks iord a cs = Inr (a', errs)"
    and "fmlookup (targetItems a) h = Some it"
  shows "if CollectorName it \<in> fmdom' cs then fmlookup (targetItems a') h = Some it
    else \<exists>it'. fmlookup (targetItems a') h = Some it' \<and> (cs \<noteq> fmempty \<longrightarrow> CollectorName it' \<in> fmdom' cs)"
proof -
  let ?ops = "ops_of L locate LeastWeighted"
  from st.SetCollectors_spec [OF run_inv(1) [OF assms(1-3)] assms(4-8)] assms(9)
  have a': "alloc_inv L (ok_of locate LeastWeighted) (elig_of L LeastWeighted) a'" "\<forall>err \<in> set errs. reported ?ops (ok_of locate LeastWeighted) err"
    "if fmdom' cs = fmdom' (collectors a) then a' = a \<and> errs = [] else collectors_set ?ops ks a cs a' errs" by (auto split: if_splits)
  have r': "reachable L ?ops a0 a'" by (rule reach_step [OF assms(3) set_collectors [OF assms(4-9)]])
  have errs: "errs = []" using a'(2) lw.no_reported by (cases errs) auto
  have wf: "cols_wf (collectors a')" and dom: "fmdom' (collectors a') = fmdom' cs"
    using a'(1,3) by (auto simp: alloc_inv_def core_inv_def collectors_set_def split: if_splits)
  obtain it' where it': "fmlookup (targetItems a') h = Some it'"
  proof (cases "fmdom' cs = fmdom' (collectors a)")
    case True
    with a'(3) assms(10) that show ?thesis by auto
  next
    case False
    with a'(3) have "fmlookup (targetItems a) h = None \<longleftrightarrow> fmlookup (targetItems a') h = None"
      by (simp add: collectors_set_def)
    with assms(10) that show ?thesis by auto
  qed
  have "it' = it" if c: "CollectorName it \<in> fmdom' cs"
  proof (cases "fmdom' cs = fmdom' (collectors a)")
    case True
    with a'(3) it' assms(10) show ?thesis by simp
  next
    case False
    with a'(3) have "collectors_set ?ops ks a cs a' errs" by simp
    from collectors_set_decided [OF this assms(10) it'] have "decided ?ops (strategy a') ks (collectors a') errs it it'"
      by (simp add: released_survivor [OF c])
    with lw_decided_sticky [OF this _ wf] c dom show ?thesis by (metis mem_fmdom' not_None_eq)
  qed
  moreover have "CollectorName it' \<in> fmdom' cs" if "cs \<noteq> fmempty"
  proof -
    have "collectors a' \<noteq> fmempty" using that dom by (metis fmdom'_empty fmempty_iff mem_fmdom' empty_iff)
    then obtain n c where "fmlookup (collectors a') n = Some c" by (auto simp: not_fmempty_iff)
    with servedD [OF run_inv(2) [OF assms(1,2) r'] it'] have "CollectorName it' \<noteq> ''''" by auto
    with a'(1) it' dom show ?thesis by (auto simp: alloc_inv_def core_inv_def live_def)
  qed
  ultimately show ?thesis using it' by auto
qed

theorem least_weighted_sticky_witness:
  "\<exists>a' errs. SetCollectors demo_lib (ops_of demo_lib demo_locate LeastWeighted) [] [''c2''] [''c1'', ''c2''] [7]
      (demo_a2 LeastWeighted) (fmupd ''c2'' (NewCollector ''c2'' ''n2'') demo_cs) = Inr (a', errs) \<and>
    fmlookup (targetItems a') 7 = Some (demo_item\<lparr>CollectorName := ''c1''\<rparr>)"
proof -
  let ?cs = "fmupd ''c2'' (NewCollector ''c2'' ''n2'') demo_cs" and ?a = "demo_a2 LeastWeighted"
  have wf: "cols_wf ?cs" "enum [''c1'', ''c2''] ?cs"
    by (auto simp: cols_wf_def demo_cs_def NewCollector_def enum_def split: if_splits)
  have o: "enum [] (removals (Maps Collector_Hash (collectors ?a) ?cs))"
    "enum [''c2''] (additions (Maps Collector_Hash (collectors ?a) ?cs))" "enum [7] (targetItems ?a)"
    by (simp_all add: demo_a2_fields Maps_def enum_def demo_cs_def recount_def NewCollector_def Collector_Hash_def
      fmfilter_alt_defs)
  obtain a' errs where run: "SetCollectors demo_lib (ops_of demo_lib demo_locate LeastWeighted) [] [''c2''] [''c1'', ''c2''] [7] ?a ?cs = Inr (a', errs)"
    using st.SetCollectors_spec [OF run_inv(1) [OF demo_started demo_locate_ok demo_reachable] wf(1) o(1,2) wf(2) o(3)] by blast
  from least_weighted_sticky [OF demo_started demo_locate_ok demo_reachable wf(1) o(1,2) wf(2) o(3) run,
      of 7 "demo_item\<lparr>CollectorName := ''c1''\<rparr>"] run
  show ?thesis by (auto simp: demo_a2_fields demo_cs_def)
qed

text \<open>
  C8: Under consistent hashing every target of a reachable allocator with a collector is on the
  member that the ring returns for its URL, and the ring was built from exactly the current
  collectors; so two targets with the same URL are always on the same collector, whatever the
  history of the allocator.
\<close>

theorem consistent_hashing_by_url:
  assumes "started name opts ConsistentHashing a0" "locate_ok locate" "reachable L (ops_of L locate ConsistentHashing) a0 a"
    and "collectors a \<noteq> fmempty" "fmlookup (targetItems a) h = Some it"
  shows "set (ch_members (strategy a)) = fmdom' (collectors a) \<and>
    locate (ch_members (strategy a)) (TargetURL it) = Some (CollectorName it)"
  using run_inv(1) [OF assms(1-3)] on_ring_reachable [OF assms(3,1,2)] assms(4,5)
  by (auto simp: alloc_inv_def ch_ok_def on_ring_def)

theorem consistent_hashing_by_url_witness:
  "demo_locate (ch_members (strategy (demo_a2 ConsistentHashing))) ''10.0.0.1:80'' = Some ''c1''"
  using consistent_hashing_by_url [OF demo_started demo_locate_ok demo_reachable, of 7 "demo_item\<lparr>CollectorName := ''c1''\<rparr>"]
  by (simp add: demo_a2_fields demo_item_def)

text \<open>
  C9: Adding targets under least-weighted keeps the load balanced: if the target counts of any
  two collectors differ by at most one and no tracked target disappears, they still differ by at
  most one after \<open>SetTargets\<close>, however many targets are added.
\<close>

theorem least_weighted_balanced:
  assumes "started name opts LeastWeighted a0" "locate_ok locate" "reachable L (ops_of L locate LeastWeighted) a0 a"
    and "enum rord (targetItems a)" "enum ks (collectors a)"
    and "enum aord (additions (Maps (Hash L) (targetItems a) (buildTargetMap L (filtered a targets) conc)))"
    and "fmdom' (targetItems a) \<subseteq> Hash L ` set (filtered a targets)" "balanced (collectors a)"
    and "SetTargets L (ops_of L locate LeastWeighted) conc rord aord ks a targets = Inr (a', errs)"
  shows "balanced (collectors a')"
proof -
  let ?tm = "buildTargetMap L (filtered a targets) conc"
  let ?d = "Maps (Hash L) (targetItems a) ?tm"
  note inv = run_inv(1) [OF assms(1-3)]
  have key: "keyed (Hash L) (targetItems a)" "keyed (Hash L) ?tm"
    using inv by (auto simp: alloc_inv_def core_inv_def buildTargetMap_keyed)
  have "fmlookup ?tm k = None \<Longrightarrow> fmlookup (targetItems a) k = None" for k
    using assms(7) unfolding buildTargetMap_dom [of L "filtered a targets" conc, symmetric]
    by (metis mem_fmdom' subset_iff)
  then have rem: "removals ?d = fmempty" by (simp add: fmempty_iff keyed_removals [OF key])
  have "keyed (Hash L) (additions ?d)" using key(2) by (auto simp: keyed_def keyed_additions [OF key] split: if_splits)
  note loop = lw_additions_balanced [OF inv assms(5) this assms(8)]
  have "a' = a \<or> foldM (addition_body L (ops_of L locate LeastWeighted) ks ?d) (a, []) aord = Inr (a', errs)"
    using assms(9) no_removals [OF rem, of L a rord]
    by (auto simp: SetTargets_def Let_def handleTargets_def filtered_def split: if_splits)
  with loop assms(8) show ?thesis by blast
qed

theorem least_weighted_balanced_witness:
  "balanced (collectors (demo_a2 LeastWeighted))"
  by (rule least_weighted_balanced [OF demo_started demo_locate_ok demo_reachable1 demo_orders(1,2,3) _ _ demo_set_targets])
    (simp_all add: demo_a1_fields balanced_def demo_cs_def)

text \<open>
  C10: The configuration accepts \<open>per-node\<close> as the fallback of \<open>per-node\<close>, and such an
  allocator cannot work: \<open>SetCollectors\<close> on any changed collector set never returns (the
  strategy calls itself without end, a fatal stack overflow in Go), and so does the choice of a
  collector for a target that names no node.
\<close>

theorem per_node_self_fallback_overflows:
  "\<exists>opt a0. WithFallbackStrategy ''per-node'' = Inr opt \<and> New ''per-node'' initial_registry [opt] = Inr (PerNode, a0) \<and>
     (\<forall>ks cs. op_SetCollectors (ops_of L locate PerNode) (strategy a0) ks cs = Inl StackOverflow) \<and>
     (\<forall>ks cs it. GetNodeName L it = '''' \<longrightarrow>
        op_GetCollectorForTarget (ops_of L locate PerNode) (strategy a0) ks cs it = Inl StackOverflow)"
proof (intro exI conjI allI impI)
  let ?st = "initial_registry\<lparr>pn_fallback := Some PerNode\<rparr>"
  show "WithFallbackStrategy ''per-node'' = Inr (WithFallback (Some PerNode))"
    by (simp add: WithFallbackStrategy_def strategies_def)
  show "New ''per-node'' initial_registry [WithFallback (Some PerNode)] = Inr (PerNode, newAllocator ?st)"
    by (simp add: New_def strategies_def newAllocator_def)
  show "op_SetCollectors (ops_of L locate PerNode) (strategy (newAllocator ?st)) ks cs = Inl StackOverflow" for ks cs
    using self_fallback_set [of PerNode ?st ks cs]
    by (cases "strategy_SetCollectors PerNode ?st ks cs") (auto simp: ops_of_def or_overflow_def newAllocator_def)
  show "op_GetCollectorForTarget (ops_of L locate PerNode) (strategy (newAllocator ?st)) ks cs it = Inl StackOverflow"
    if "GetNodeName L it = ''''" for ks cs it
    using self_fallback_get [of L locate PerNode ?st ks cs it] that
    by (cases "GetCollectorForTarget L locate PerNode ?st ks cs it") (auto simp: ops_of_Get or_overflow_def newAllocator_def)
qed

theorem per_node_self_fallback_overflows_witness:
  "\<exists>opt a0. WithFallbackStrategy ''per-node'' = Inr opt \<and> New ''per-node'' initial_registry [opt] = Inr (PerNode, a0) \<and>
     op_SetCollectors (ops_of demo_lib demo_locate PerNode) (strategy a0) [''c1''] demo_cs = Inl StackOverflow \<and>
     op_GetCollectorForTarget (ops_of demo_lib demo_locate PerNode) (strategy a0) [''c1''] demo_cs (demo_item\<lparr>Labels := []\<rparr>) = Inl StackOverflow"
proof -
  have "GetNodeName demo_lib (demo_item\<lparr>Labels := []\<rparr>) = ''''" by (simp add: GetNodeName_def demo_lib_def nodeLabels_def)
  with per_node_self_fallback_overflows [of demo_lib demo_locate] show ?thesis by blast
qed

text \<open>
  The registry is complete: \<open>New\<close> succeeds exactly for the registered names, with empty
  tables and the strategy of that name, and fails with an error that names the strategy otherwise;
  a fallback option is accepted exactly for the registered names and for the empty name, which
  means no fallback.
\<close>

theorem New_registered:
  "(name \<in> set GetRegisteredAllocatorNames \<longleftrightarrow> (\<exists>s a. New name reg opts = Inr (s, a) \<and> GetName s = name \<and>
      collectors a = fmempty \<and> targetItems a = fmempty \<and> targetItemsPerJobPerCollector a = fmempty)) \<and>
   (name \<notin> set GetRegisteredAllocatorNames \<longleftrightarrow> New name reg opts = Inl (''unregistered strategy: '' @ name)) \<and>
   (name \<in> insert '''' (set GetRegisteredAllocatorNames) \<longleftrightarrow> (\<exists>opt. WithFallbackStrategy name = Inr opt))"
proof -
  have reg: "name \<in> set GetRegisteredAllocatorNames \<longleftrightarrow> strategies name \<noteq> None"
    by (auto simp: GetRegisteredAllocatorNames_def strategies_def)
  have nm: "strategies name = Some s \<Longrightarrow> GetName s = name" for s
    by (auto simp: strategies_def split: if_splits)
  show ?thesis
    using reg nm options_fields [of _ "newAllocator reg" opts]
    by (auto simp: New_def WithFallbackStrategy_def newAllocator_def split: option.splits)
qed

end
