(* ===== verification/Prehook.thy ===== *)
theory Prehook
  imports AllocatorProps
begin

text \<open>
  The relabelling filter that runs before allocation:
  \<open>otel-allocator/internal/prehook/prehook.go\<close> and \<open>relabel.go\<close>.

  Relabelling itself is \<open>relabel.ProcessBuilder\<close> of Prometheus: the parameter \<open>relabel_lib\<close>
  gives the labels left in the builder and whether the target is kept, and the default relabel
  configuration that the code copies. A Go slice is filtered in place: \<open>Apply_loop\<close> works on the
  array by index, as the source does.
\<close>

record relabel_config =
  SourceLabels :: "string list"
  Separator :: string
  Regex :: string
  Modulus :: "64 word"
  TargetLabel :: string
  Replacement :: string
  Action :: string

record relabel_lib =
  ProcessBuilder :: "labels \<Rightarrow> relabel_config list \<Rightarrow> labels \<times> bool"
  DefaultRelabelConfig :: relabel_config
  LabelDrop :: string

record relabelConfigTargetFilter =
  relabelCfg :: "(string, relabel_config list) gomap"

definition relabelConfigTargetFilterName :: string where
  "relabelConfigTargetFilterName = ''relabel-config''"

definition disableShardingLabelName :: string where
  "disableShardingLabelName = ''__tmp_disable_sharding''"

definition newRelabelConfigTargetFilter :: relabelConfigTargetFilter where
  "newRelabelConfigTargetFilter = \<lparr>relabelCfg = fmempty\<rparr>"

definition prehook_New :: "string \<Rightarrow> relabelConfigTargetFilter option" where
  "prehook_New name = (if name = relabelConfigTargetFilterName then Some newRelabelConfigTargetFilter else None)"

definition addNoShardingConfig :: "relabel_lib \<Rightarrow> relabel_config list \<Rightarrow> relabel_config list" where
  "addNoShardingConfig R cfg =
     (let noShardingRelabelConfig = (DefaultRelabelConfig R)\<lparr>Replacement := ''true'', TargetLabel := disableShardingLabelName\<rparr>;
          dropTmpLabelConfig = (DefaultRelabelConfig R)\<lparr>Action := LabelDrop R, Regex := disableShardingLabelName\<rparr>
      in ([noShardingRelabelConfig] @ cfg) @ [dropTmpLabelConfig])"

definition SetConfig :: "relabel_lib \<Rightarrow> relabelConfigTargetFilter \<Rightarrow> (string, relabel_config list) gomap \<Rightarrow> relabelConfigTargetFilter" where
  "SetConfig R tf cfgs = tf\<lparr>relabelCfg := fmmap (addNoShardingConfig R) cfgs\<rparr>"

definition GetConfig :: "relabelConfigTargetFilter \<Rightarrow> (string, relabel_config list) gomap" where
  "GetConfig tf = relabelCfg tf"

text \<open>The loop body: the item at the read index is kept or skipped, and written at the write index.\<close>

definition Apply_body :: "labels_lib \<Rightarrow> relabel_lib \<Rightarrow> relabelConfigTargetFilter \<Rightarrow> Item list \<times> nat \<Rightarrow> nat \<Rightarrow> Item list \<times> nat" where
  "Apply_body L R tf = (\<lambda>(targets, writeIndex) i.
     let tItem = targets ! i;
         (builder, keepTarget) = ProcessBuilder R (Labels tItem) (get0 [] (relabelCfg tf) (JobName tItem))
     in if keepTarget
        then (targets[writeIndex := NewItem (JobName tItem) (TargetURL tItem) (Labels tItem) (CollectorName tItem)
                                      [WithHash (HashFromBuilder L builder (JobName tItem))]], writeIndex + 1)
        else (targets, writeIndex))"

definition Apply :: "labels_lib \<Rightarrow> relabel_lib \<Rightarrow> relabelConfigTargetFilter \<Rightarrow> Item list \<Rightarrow> Item list" where
  "Apply L R tf targets =
     (if gomap_len (relabelCfg tf) = 0 then targets
      else let (targets, writeIndex) = foldl (Apply_body L R tf) (targets, 0) [0..<length targets]
           in take writeIndex targets)"

section \<open>The in-place filter is a filter\<close>

definition relabelled :: "labels_lib \<Rightarrow> relabel_lib \<Rightarrow> relabelConfigTargetFilter \<Rightarrow> Item \<Rightarrow> Item option" where
  "relabelled L R tf t =
     (let (builder, keep) = ProcessBuilder R (Labels t) (get0 [] (relabelCfg tf) (JobName t))
      in if keep then Some (NewItem (JobName t) (TargetURL t) (Labels t) (CollectorName t) [WithHash (HashFromBuilder L builder (JobName t))])
         else None)"

lemma Apply_body_relabelled: "Apply_body L R tf = compact_body (relabelled L R tf)"
  by (intro ext) (auto simp: Apply_body_def compact_body_def relabelled_def Let_def split: prod.splits)

lemma Apply_eq:
  "Apply L R tf targets =
     (if relabelCfg tf = fmempty then targets else List.map_filter (relabelled L R tf) targets)"
  using compact_filters [of "relabelled L R tf" targets] by (simp add: Apply_def Apply_body_relabelled)

section \<open>Properties\<close>

text \<open>
  C12: Before a relabel configuration is set every target passes unchanged. Afterwards the
  in-place compaction keeps, in order, exactly the targets that relabelling keeps; a kept target
  has the job, URL, original labels and collector of the target it stands for, and its identity is
  the hash of the relabelled labels without the meta labels and of the job.
\<close>

theorem Apply_filters_in_place:
  "(relabelCfg tf = fmempty \<longrightarrow> Apply L R tf targets = targets) \<and>
   (relabelCfg tf \<noteq> fmempty \<longrightarrow>
     (let kept = filter (\<lambda>t. snd (ProcessBuilder R (Labels t) (get0 [] (GetConfig tf) (JobName t)))) targets
      in length (Apply L R tf targets) = length kept \<and>
         (\<forall>i < length kept. (Apply L R tf targets ! i)\<lparr>item_hash := item_hash (kept ! i)\<rparr> = kept ! i \<and>
            item_hash (Apply L R tf targets ! i) =
              HashFromBuilder L (fst (ProcessBuilder R (Labels (kept ! i)) (get0 [] (GetConfig tf) (JobName (kept ! i))))) (JobName (kept ! i)))))"
proof -
  let ?P = "\<lambda>t. ProcessBuilder R (Labels t) (get0 [] (relabelCfg tf) (JobName t))"
  let ?g = "\<lambda>t. t\<lparr>item_hash := HashFromBuilder L (fst (?P t)) (JobName t)\<rparr>"
  have "relabelled L R tf t = (if snd (?P t) then Some (?g t) else None)" for t
    by (auto simp: relabelled_def NewItem_def WithHash_def Let_def split: prod.splits)
  then have "List.map_filter (relabelled L R tf) targets = map ?g (filter (\<lambda>t. snd (?P t)) targets)"
    by (induction targets) (auto simp: List.map_filter_def)
  then show ?thesis by (simp add: Apply_eq GetConfig_def)
qed

definition demo_relabel :: relabel_lib where
  "demo_relabel = \<lparr>
     ProcessBuilder = (\<lambda>ls cfgs. (ls, cfgs \<noteq> [])),
     DefaultRelabelConfig = \<lparr>SourceLabels = [], Separator = '';'', Regex = ''(.*)'', Modulus = 0, TargetLabel = '''',
        Replacement = ''$1'', Action = ''replace''\<rparr>,
     LabelDrop = ''labeldrop''\<rparr>"

definition demo_filter :: relabelConfigTargetFilter where
  "demo_filter = SetConfig demo_relabel newRelabelConfigTargetFilter (fmupd ''job'' [] fmempty)"

lemma demo_filter_cfg:
  "relabelCfg demo_filter \<noteq> fmempty"
  "snd (ProcessBuilder demo_relabel ls (get0 [] (GetConfig demo_filter) job)) \<longleftrightarrow> job = ''job''"
  by (auto simp: demo_filter_def SetConfig_def GetConfig_def newRelabelConfigTargetFilter_def fmempty_iff get0_def
      demo_relabel_def addNoShardingConfig_def Let_def split: option.splits if_splits)

theorem Apply_filters_in_place_witness:
  "length (Apply demo_lib demo_relabel demo_filter [demo_item\<lparr>JobName := ''other''\<rparr>, demo_item]) = 1"
  using Apply_filters_in_place [of demo_filter demo_lib demo_relabel "[demo_item\<lparr>JobName := ''other''\<rparr>, demo_item]"] demo_filter_cfg
  by (simp add: Let_def demo_hash)

text \<open>
  \<open>SetConfig\<close> replaces the configuration: exactly the given jobs have one, and the rules of
  a job run between a rule that sets the temporary label that switches sharding off and one that
  drops it again.
\<close>

theorem SetConfig_wraps:
  "fmdom' (GetConfig (SetConfig R tf cfgs)) = fmdom' cfgs \<and>
   (\<forall>job rules. fmlookup cfgs job = Some rules \<longrightarrow>
      (\<exists>first last. fmlookup (GetConfig (SetConfig R tf cfgs)) job = Some (first # rules @ [last]) \<and>
         TargetLabel first = disableShardingLabelName \<and> Replacement first = ''true'' \<and> Action first = Action (DefaultRelabelConfig R) \<and>
         Action last = LabelDrop R \<and> Regex last = disableShardingLabelName))"
  by (auto simp: SetConfig_def GetConfig_def addNoShardingConfig_def Let_def)

theorem SetConfig_wraps_witness:
  "\<exists>first last. fmlookup (GetConfig demo_filter) ''job'' = Some (first # [] @ [last])"
proof -
  have "fmlookup (fmupd ''job'' [] fmempty) ''job'' = Some ([] :: relabel_config list)" by simp
  with SetConfig_wraps [of demo_relabel newRelabelConfigTargetFilter "fmupd ''job'' [] fmempty"] show ?thesis
    unfolding demo_filter_def by blast
qed

end
