(* ===== verification/Coalesce.thy ===== *)
theory Coalesce
  imports Prelude
begin

text \<open>
  The update pattern that the collector watcher and the target discoverer share: a producer
  stores new data and then sends on a channel of capacity one without blocking, a consumer wakes
  up on a timer, takes the notification and handles the data it finds. The locale states what one
  step of such a component may do; its lemma is that no update is lost: once no notification is
  under way, the data handled last is the current data.
\<close>

locale guarded_coalescer =
  fixes step :: "'s \<Rightarrow> 's \<Rightarrow> bool"
    and inv :: "'s \<Rightarrow> bool"
    and current :: "'s \<Rightarrow> 'd"
    and pending :: "'s \<Rightarrow> bool"
    and handled :: "'s \<Rightarrow> 'd list"
  assumes inv_step: "inv s \<Longrightarrow> step s s' \<Longrightarrow> inv s'"
    and guarded_cases: "inv s \<Longrightarrow> step s s' \<Longrightarrow>
      (handled s' = handled s \<and> (pending s' \<or> current s' = current s \<and> \<not> pending s)) \<or>
      (\<exists>d. handled s' = handled s @ [d] \<and> (pending s' \<or> d = current s'))"
begin

lemma reachable_inv: "step\<^sup>*\<^sup>* s0 s \<Longrightarrow> inv s0 \<Longrightarrow> inv s"
  by (induction rule: rtranclp_induct) (auto intro: inv_step)

lemma quiet_current:
  assumes "step\<^sup>*\<^sup>* s0 s" "inv s0" "handled s0 = []" "\<not> pending s0"
  shows "pending s \<or> last (current s0 # handled s) = current s"
  using assms(1)
proof (induction rule: rtranclp_induct)
  case (step s s')
  then show ?case using guarded_cases [OF reachable_inv [OF step.hyps(1) assms(2)] step.hyps(2)] by auto
qed (use assms in simp)

end

text \<open>
  The simple case, in which the consumer handles the data in one step, is the one without an invariant.
\<close>

locale coalescer =
  fixes step :: "'s \<Rightarrow> 's \<Rightarrow> bool"
    and current :: "'s \<Rightarrow> 'd"
    and pending :: "'s \<Rightarrow> bool"
    and handled :: "'s \<Rightarrow> 'd list"
  assumes step_cases: "step s s' \<Longrightarrow>
      (handled s' = handled s \<and> (pending s' \<or> current s' = current s \<and> \<not> pending s)) \<or>
      (handled s' = handled s @ [current s] \<and> current s' = current s)"
begin

lemma handled_extends:
  assumes "step\<^sup>*\<^sup>* s0 s"
  shows "\<exists>more. handled s = handled s0 @ more"
  using assms
proof (induction rule: rtranclp_induct)
  case (step s s')
  then show ?case using step_cases [OF step.hyps(2)] by auto
qed simp

end

sublocale coalescer < guarded: guarded_coalescer step "\<lambda>_. True" current pending handled
proof unfold_locales
  show "(handled s' = handled s \<and> (pending s' \<or> current s' = current s \<and> \<not> pending s)) \<or>
      (\<exists>d. handled s' = handled s @ [d] \<and> (pending s' \<or> d = current s'))" if "step s s'" for s s'
    using step_cases [OF that] by auto
qed simp

context coalescer
begin

lemma no_lost_update:
  assumes "step\<^sup>*\<^sup>* s0 s" "handled s0 = []" "\<not> pending s0"
  shows "pending s \<or> last (current s0 # handled s) = current s"
  by (rule guarded.quiet_current) (use assms in simp_all)

end

section \<open>Progress\<close>

text \<open>
  For runs that go on for ever: a quantity that never grows, and that shrinks sooner or later as long as it is positive, is zero
  from some point on; and the rule of weak fairness, by which an action that stays possible until it is taken is taken.
\<close>

lemma eventually_zero:
  fixes f :: "nat \<Rightarrow> nat"
  assumes "\<And>n. n \<ge> N \<Longrightarrow> f (Suc n) \<le> f n" and "\<And>n. n \<ge> N \<Longrightarrow> f n > 0 \<Longrightarrow> \<exists>m \<ge> n. f (Suc m) < f m"
  shows "\<exists>M \<ge> N. \<forall>m \<ge> M. f m = 0"
proof -
  have mono: "f m \<le> f n" if "n \<ge> N" "m \<ge> n" for m n
    using that(2)
  proof (induction rule: dec_induct)
    case (step m)
    with assms(1) [of m] that(1) show ?case by simp
  qed simp
  have "\<exists>M \<ge> n. f M = 0" if "n \<ge> N" for n
    using that
  proof (induction "f n" arbitrary: n rule: less_induct)
    case less
    show ?case
    proof (cases "f n = 0")
      case False
      with assms(2) [OF less.prems] obtain m where m: "m \<ge> n" "f (Suc m) < f m" by auto
      moreover have "f m \<le> f n" using mono [OF less.prems m(1)] .
      ultimately have "f (Suc m) < f n" "Suc m \<ge> N" using less.prems by simp_all
      from less.hyps [OF this] obtain M where "M \<ge> Suc m" "f M = 0" by auto
      with m(1) show ?thesis by (intro exI [of _ M]) simp
    qed auto
  qed
  from this [of N] obtain M where "M \<ge> N" "f M = 0" by auto
  with mono [of M] show ?thesis by (intro exI [of _ M]) auto
qed

lemma weak_fairness:
  fixes lab :: "nat \<Rightarrow> 'l"
  assumes fair: "(\<forall>m \<ge> n. enabled (\<sigma> m)) \<longrightarrow> (\<exists>m \<ge> n. lab m = l)"
    and start: "P (\<sigma> n)" and enabled: "\<And>s. P s \<Longrightarrow> enabled s"
    and stays: "\<And>m. m \<ge> n \<Longrightarrow> P (\<sigma> m) \<Longrightarrow> lab m \<noteq> l \<Longrightarrow> P (\<sigma> (Suc m))"
  shows "\<exists>m \<ge> n. lab m = l \<and> P (\<sigma> m)"
proof (rule ccontr)
  assume never: "\<not> ?thesis"
  have "P (\<sigma> m)" if "m \<ge> n" for m
    using that
  proof (induction rule: dec_induct)
    case (step m)
    with never have "lab m \<noteq> l" by auto
    with stays [of m] step show ?case by simp
  qed (rule start)
  with enabled fair never show False by blast
qed

end
