(* ===== verification/CollectorWatcher.thy ===== *)
theory CollectorWatcher
  imports Prehook Coalesce
begin

text \<open>
  The collector watcher of \<open>otel-allocator/internal/collector/collector.go\<close>: which pods become
  collectors, and the rate-limited handler that passes them on.

  A pod is what the code reads of \<open>v1.Pod\<close>; the constants of the Kubernetes API are the
  parameter \<open>k8s_api\<close>. Times and durations are nanoseconds; \<open>time.Time.Sub\<close> saturates at the
  limits of a 64-bit duration. \<open>clock\<close> gives the time at which a pod is looked at.
\<close>

record k8s_api =
  PodRunning :: string
  PodReady :: string
  ConditionTrue :: string

record PodCondition =
  Cond_Type :: string
  Cond_Status :: string
  LastTransitionTime :: int

record Pod =
  Pod_Name :: string
  Pod_NodeName :: string
  Phase :: string
  StartTime :: "int option"
  Conditions :: "PodCondition list"

definition defaultMinUpdateInterval :: int where
  "defaultMinUpdateInterval = 5 * 10 ^ 9"

definition time_sub :: "int \<Rightarrow> int \<Rightarrow> int" where
  "time_sub t u = max (- (2 ^ 63)) (min (2 ^ 63 - 1) (t - u))"

definition isPodUnhealthy :: "k8s_api \<Rightarrow> int \<Rightarrow> Pod \<Rightarrow> int \<Rightarrow> bool" where
  "isPodUnhealthy K timeNow pod grace =
     (if grace = 0 then False
      else
        let unhealthy = (Phase pod \<noteq> PodRunning K \<and>
              (case StartTime pod of None \<Rightarrow> False | Some t \<Rightarrow> time_sub timeNow t > grace))
        in foldl (\<lambda>u c. if Cond_Type c = PodReady K \<and> Cond_Status c \<noteq> ConditionTrue K \<and>
                            time_sub timeNow (LastTransitionTime c) > grace then True else u)
             unhealthy (Conditions pod))"

definition runOnCollectors_body :: "k8s_api \<Rightarrow> (Pod \<Rightarrow> int) \<Rightarrow> int \<Rightarrow> collectors \<Rightarrow> Pod \<Rightarrow> collectors" where
  "runOnCollectors_body K clock grace m pod =
     (if Pod_NodeName pod = '''' then m
      else if isPodUnhealthy K (clock pod) pod grace then m
      else fmupd (Pod_Name pod) (NewCollector (Pod_Name pod) (Pod_NodeName pod)) m)"

definition runOnCollectors :: "k8s_api \<Rightarrow> (Pod \<Rightarrow> int) \<Rightarrow> int \<Rightarrow> Pod list \<Rightarrow> collectors" where
  "runOnCollectors K clock grace objects = foldl (runOnCollectors_body K clock grace) fmempty objects"

section \<open>The rate-limited handler\<close>








section \<open>Lemmas\<close>

lemma isPodUnhealthy_iff:
  "isPodUnhealthy K now pod grace \<longleftrightarrow> grace \<noteq> 0 \<and>
     ((Phase pod \<noteq> PodRunning K \<and> (\<exists>t. StartTime pod = Some t \<and> time_sub now t > grace)) \<or>
      (\<exists>c \<in> set (Conditions pod). Cond_Type c = PodReady K \<and> Cond_Status c \<noteq> ConditionTrue K \<and>
         time_sub now (LastTransitionTime c) > grace))"
proof -
  have "foldl (\<lambda>u c. if P c then True else u) u cs \<longleftrightarrow> u \<or> (\<exists>c \<in> set cs. P c)" for u cs and P :: "PodCondition \<Rightarrow> bool"
    by (induction cs arbitrary: u) auto
  then show ?thesis by (auto simp: isPodUnhealthy_def Let_def split: option.splits)
qed

definition usable :: "k8s_api \<Rightarrow> (Pod \<Rightarrow> int) \<Rightarrow> int \<Rightarrow> Pod \<Rightarrow> bool" where
  "usable K clock grace pod \<longleftrightarrow> Pod_NodeName pod \<noteq> '''' \<and> \<not> isPodUnhealthy K (clock pod) pod grace"

lemma runOnCollectors_loop:
  "fmlookup (foldl (runOnCollectors_body K clock grace) m pods) n =
     (case find (\<lambda>p. usable K clock grace p \<and> Pod_Name p = n) (rev pods) of
        Some p \<Rightarrow> Some (NewCollector n (Pod_NodeName p)) | None \<Rightarrow> fmlookup m n)"
proof (induction pods rule: rev_induct)
  case (snoc p pods)
  then show ?case by (auto simp: runOnCollectors_body_def usable_def)
qed simp

lemma runOnCollectors_lookup:
  assumes "fmlookup (runOnCollectors K clock grace pods) n = Some c"
  shows "\<exists>p \<in> set pods. usable K clock grace p \<and> Pod_Name p = n \<and> c = NewCollector n (Pod_NodeName p)"
proof (cases "find (\<lambda>p. usable K clock grace p \<and> Pod_Name p = n) (rev pods)")
  case None
  with assms show ?thesis by (simp add: runOnCollectors_def runOnCollectors_loop)
next
  case (Some p)
  with assms find_SomeD [OF Some] show ?thesis by (auto simp: runOnCollectors_def runOnCollectors_loop)
qed

lemma runOnCollectors_dom:
  "n \<in> fmdom' (runOnCollectors K clock grace pods) \<longleftrightarrow> (\<exists>p \<in> set pods. usable K clock grace p \<and> Pod_Name p = n)"
proof
  assume "n \<in> fmdom' (runOnCollectors K clock grace pods)"
  then obtain c where "fmlookup (runOnCollectors K clock grace pods) n = Some c" by (auto simp: mem_fmdom')
  from runOnCollectors_lookup [OF this] show "\<exists>p \<in> set pods. usable K clock grace p \<and> Pod_Name p = n" by blast
next
  assume "\<exists>p \<in> set pods. usable K clock grace p \<and> Pod_Name p = n"
  then have "find (\<lambda>p. usable K clock grace p \<and> Pod_Name p = n) (rev pods) \<noteq> None" unfolding find_None_iff by auto
  then show "n \<in> fmdom' (runOnCollectors K clock grace pods)"
    by (auto simp: mem_fmdom' runOnCollectors_def runOnCollectors_loop)
qed

section \<open>Properties\<close>

text \<open>
  The collectors passed on are exactly the pods that are scheduled to a node and not
  unhealthy, each under its own name, on its own node and with zero counters; so the table meets
  what \<open>SetCollectors\<close> of the allocator relies on. A pod is unhealthy only when a grace period is
  set and it has not been running, or not been ready, for longer than that.
\<close>

theorem runOnCollectors_exact:
  assumes "\<forall>p \<in> set pods. Pod_Name p \<noteq> ''''"
  shows "cols_wf (runOnCollectors K clock grace pods) \<and>
    fmdom' (runOnCollectors K clock grace pods) =
      {Pod_Name p | p. p \<in> set pods \<and> Pod_NodeName p \<noteq> '''' \<and> \<not> (grace \<noteq> 0 \<and>
        ((Phase p \<noteq> PodRunning K \<and> (\<exists>t. StartTime p = Some t \<and> time_sub (clock p) t > grace)) \<or>
         (\<exists>c \<in> set (Conditions p). Cond_Type c = PodReady K \<and> Cond_Status c \<noteq> ConditionTrue K \<and>
            time_sub (clock p) (LastTransitionTime c) > grace)))} \<and>
    (\<forall>n c. fmlookup (runOnCollectors K clock grace pods) n = Some c \<longrightarrow>
       (\<exists>p \<in> set pods. Pod_Name p = n \<and> c = NewCollector n (Pod_NodeName p)))"
proof (intro conjI)
  show "cols_wf (runOnCollectors K clock grace pods)"
    using assms runOnCollectors_lookup [of K clock grace pods] unfolding cols_wf_def NewCollector_def by fastforce
qed (use runOnCollectors_lookup [of K clock grace pods] in \<open>auto simp: runOnCollectors_dom usable_def isPodUnhealthy_iff\<close>)

definition demo_pod :: Pod where
  "demo_pod = \<lparr>Pod_Name = ''c1'', Pod_NodeName = ''n1'', Phase = ''Pending'', StartTime = Some 0, Conditions = []\<rparr>"

definition demo_api :: k8s_api where
  "demo_api = \<lparr>PodRunning = ''Running'', PodReady = ''Ready'', ConditionTrue = ''True''\<rparr>"

theorem runOnCollectors_exact_witness:
  "fmdom' (runOnCollectors demo_api (\<lambda>_. 7) 0 [demo_pod]) = {''c1''} \<and>
   fmdom' (runOnCollectors demo_api (\<lambda>_. 7) 3 [demo_pod]) = {}"
  using runOnCollectors_exact [of "[demo_pod]" demo_api "\<lambda>_. 7" 0] runOnCollectors_exact [of "[demo_pod]" demo_api "\<lambda>_. 7" 3]
  by (auto simp: demo_pod_def demo_api_def time_sub_def)



end
