(* ===== verification/Discovery.thy ===== *)
theory Discovery
  imports CollectorWatcher "HOL-Library.Multiset"
begin

text \<open>
  Target discovery: \<open>otel-allocator/internal/target/discovery.go\<close>.

  The Prometheus discovery manager, the YAML encoder and the label builder are not part of the
  repository. A scrape configuration is what the code reads of \<open>promconfig.ScrapeConfig\<close>
  (\<open>'sd\<close> and \<open>'rest\<close> are the parts it only passes on). The builder is the parameter
  \<open>builder_lib\<close>: \<open>builder_ok\<close> states its documented behaviour, that \<open>Add\<close> appends a pair and
  \<open>Sort\<close> orders the pairs by name.
\<close>

record ('sd, 'rest) ScrapeConfig =
  sc_JobName :: string
  ServiceDiscoveryConfigs :: 'sd
  RelabelConfigs :: "relabel_config list"
  sc_rest :: 'rest

record builder_lib =
  sb_Add :: "labels \<Rightarrow> string \<Rightarrow> string \<Rightarrow> labels"
  sb_Sort :: "labels \<Rightarrow> labels"

definition builder_ok :: "builder_lib \<Rightarrow> bool" where
  "builder_ok B \<longleftrightarrow> (\<forall>b n v. sb_Add B b n v = b @ [(n, v)]) \<and>
     (\<forall>b. set (sb_Sort B b) = set b \<and> length (sb_Sort B b) = length b \<and> sorted (map fst (sb_Sort B b)))"

section \<open>Merging group and target labels\<close>

text \<open>The loop of \<open>mergeLabels\<close> on what is left of the group slice and of the target names.\<close>

fun mergeLabels_loop :: "builder_lib \<Rightarrow> labels \<Rightarrow> labels \<Rightarrow> (string, string) gomap \<Rightarrow> string list \<Rightarrow> labels" where
  "mergeLabels_loop B builder ((gn, gv) # gs) targetLabels (tn # ts) =
     (if gn < tn then mergeLabels_loop B (sb_Add B builder gn gv) gs targetLabels (tn # ts)
      else if gn > tn then mergeLabels_loop B (sb_Add B builder tn (get0 '''' targetLabels tn)) ((gn, gv) # gs) targetLabels ts
      else mergeLabels_loop B (sb_Add B builder tn (get0 '''' targetLabels tn)) gs targetLabels ts)"
| "mergeLabels_loop B builder ((gn, gv) # gs) targetLabels [] = mergeLabels_loop B (sb_Add B builder gn gv) gs targetLabels []"
| "mergeLabels_loop B builder [] targetLabels (tn # ts) = mergeLabels_loop B (sb_Add B builder tn (get0 '''' targetLabels tn)) [] targetLabels ts"
| "mergeLabels_loop B builder [] targetLabels [] = builder"

text \<open>\<open>names\<close> is the order in which the target's label set is visited.\<close>

definition mergeLabels :: "builder_lib \<Rightarrow> labels \<Rightarrow> labels \<Rightarrow> (string, string) gomap \<Rightarrow> string list \<Rightarrow> labels" where
  "mergeLabels B builder groupSlice targetLabels names = mergeLabels_loop B builder groupSlice targetLabels (sort names)"

section \<open>Target groups\<close>

record Group =
  group_Targets :: "(string, string) gomap list"
  group_Labels :: "(string, string) gomap"

text \<open>
  \<open>gord\<close> and \<open>tord\<close> are the visiting orders of the group's and of a target's label set. The
  result is the sequence of slice writes, index first.
\<close>

definition group_slice :: "builder_lib \<Rightarrow> ((string, string) gomap \<Rightarrow> string list) \<Rightarrow> Group \<Rightarrow> labels" where
  "group_slice B ord tg = sb_Sort B (foldl (\<lambda>b ln. sb_Add B b ln (get0 '''' (group_Labels tg) ln)) [] (ord (group_Labels tg)))"

definition target_item :: "labels_lib \<Rightarrow> builder_lib \<Rightarrow> ((string, string) gomap \<Rightarrow> string list) \<Rightarrow> string \<Rightarrow> labels \<Rightarrow> (string, string) gomap \<Rightarrow> Item" where
  "target_item L B ord jobName groupSlice t =
     NewItem jobName (get0 '''' t (AddressLabel L)) (mergeLabels B [] groupSlice t (ord t)) '''' []"

fun group_writes :: "labels_lib \<Rightarrow> builder_lib \<Rightarrow> ((string, string) gomap \<Rightarrow> string list) \<Rightarrow> string \<Rightarrow> labels \<Rightarrow> nat
    \<Rightarrow> (string, string) gomap list \<Rightarrow> (nat \<times> Item) list" where
  "group_writes L B ord jobName groupSlice index [] = []"
| "group_writes L B ord jobName groupSlice index (t # ts) =
     (index, target_item L B ord jobName groupSlice t) # group_writes L B ord jobName groupSlice (index + 1) ts"

fun processTargetGroups :: "labels_lib \<Rightarrow> builder_lib \<Rightarrow> ((string, string) gomap \<Rightarrow> string list) \<Rightarrow> string \<Rightarrow> nat \<Rightarrow> Group list
    \<Rightarrow> (nat \<times> Item) list" where
  "processTargetGroups L B ord jobName index [] = []"
| "processTargetGroups L B ord jobName index (tg # groups) =
     group_writes L B ord jobName (group_slice B ord tg) index (group_Targets tg) @
     processTargetGroups L B ord jobName (index + length (group_Targets tg)) groups"

type_synonym target_sets = "(string, Group list) gomap"

definition count_targets :: "Group list \<Rightarrow> nat" where
  "count_targets groups = sum_list (map (\<lambda>g. length (group_Targets g)) groups)"

text \<open>
  The goroutines that \<open>Reload\<close> starts, one per job, each with the offset of its segment; they run
  concurrently, so \<open>Reload\<close> performs their writes in an order \<open>schedule\<close> chooses.
\<close>

fun Reload_writes :: "labels_lib \<Rightarrow> builder_lib \<Rightarrow> ((string, string) gomap \<Rightarrow> string list) \<Rightarrow> target_sets \<Rightarrow> nat \<Rightarrow> string list
    \<Rightarrow> (nat \<times> Item) list" where
  "Reload_writes L B ord sets assigned [] = []"
| "Reload_writes L B ord sets assigned (jobName # jobs) =
     (let groups = get0 [] sets jobName
      in processTargetGroups L B ord jobName assigned groups @ Reload_writes L B ord sets (assigned + count_targets groups) jobs)"

definition write_target :: "Item option list \<Rightarrow> nat \<times> Item \<Rightarrow> Item option list go" where
  "write_target arr = (\<lambda>(i, it). if i < length arr then Inr (arr[i := Some it]) else Inl IndexOutOfRange)"

definition Reload :: "(nat \<times> Item) list \<Rightarrow> target_sets \<Rightarrow> string list \<Rightarrow> Item option list go" where
  "Reload schedule sets jobs =
     (let targetCount = sum_list (map (\<lambda>j. count_targets (get0 [] sets j)) jobs)
      in foldM write_target (replicate targetCount None) schedule)"

section \<open>Applying a configuration\<close>

text \<open>
  What \<open>ApplyConfig\<close> does to the outside, in order. \<open>scrapeConfigsHash\<close> holds a pointer: the
  source compares the hash objects, not the digests, and \<open>fnv.New64\<close> returns a new object on
  every call. \<open>hash_objects\<close> counts the objects made so far, so its successor is a fresh address.
\<close>

datatype ('sd, 'rest) discovery_effect =
    UpdateScrapeConfigResponse "(string, ('sd, 'rest) ScrapeConfig) gomap"
  | HookSetConfig "(string, relabel_config list) gomap"
  | ManagerApplyConfig "(string, 'sd) gomap"

record ('src, 'sd, 'rest) Discoverer =
  configsMap :: "('src, ('sd, 'rest) ScrapeConfig list) gomap"
  has_hook :: bool
  has_updater :: bool
  scrapeConfigsHash :: "nat option"
  hash_objects :: nat

record ('sd, 'rest) jobs_acc =
  jobToScrapeConfig :: "(string, ('sd, 'rest) ScrapeConfig) gomap"
  discoveryCfg :: "(string, 'sd) gomap"
  acc_relabelCfg :: "(string, relabel_config list) gomap"

definition add_job :: "('sd, 'rest) jobs_acc \<Rightarrow> ('sd, 'rest) ScrapeConfig \<Rightarrow> ('sd, 'rest) jobs_acc" where
  "add_job acc sc = acc\<lparr>
     jobToScrapeConfig := fmupd (sc_JobName sc) sc (jobToScrapeConfig acc),
     discoveryCfg := fmupd (sc_JobName sc) (ServiceDiscoveryConfigs sc) (discoveryCfg acc),
     acc_relabelCfg := fmupd (sc_JobName sc) (RelabelConfigs sc) (acc_relabelCfg acc)\<rparr>"

definition collect_jobs :: "('src, ('sd, 'rest) ScrapeConfig list) gomap \<Rightarrow> 'src list \<Rightarrow> ('sd, 'rest) jobs_acc" where
  "collect_jobs cfgs sources =
     foldl add_job \<lparr>jobToScrapeConfig = fmempty, discoveryCfg = fmempty, acc_relabelCfg = fmempty\<rparr>
       (concat (map (\<lambda>s. get0 [] cfgs s) sources))"

text \<open>
  \<open>encode\<close> is the YAML encoder (an error or nothing), \<open>update\<close> the response updater of the
  server and \<open>apply_manager\<close> the discovery manager; each returns its error, if any.
\<close>

definition getScrapeConfigHash :: "(('sd, 'rest) ScrapeConfig \<Rightarrow> string option) \<Rightarrow> string list
    \<Rightarrow> (string, ('sd, 'rest) ScrapeConfig) gomap \<Rightarrow> nat \<Rightarrow> string + nat" where
  "getScrapeConfigHash encode jobs m objects =
     (case List.map_filter (\<lambda>j. Option.bind (fmlookup m j) encode) jobs of
        [] \<Rightarrow> Inr objects
      | e # _ \<Rightarrow> Inl e)"

definition ApplyConfig ::
    "(('sd, 'rest) ScrapeConfig \<Rightarrow> string option) \<Rightarrow> ((string, ('sd, 'rest) ScrapeConfig) gomap \<Rightarrow> string option)
     \<Rightarrow> ((string, 'sd) gomap \<Rightarrow> string option) \<Rightarrow> 'src list \<Rightarrow> string list
     \<Rightarrow> ('src, 'sd, 'rest) Discoverer \<Rightarrow> 'src \<Rightarrow> ('sd, 'rest) ScrapeConfig list
     \<Rightarrow> ('src, 'sd, 'rest) Discoverer \<times> ('sd, 'rest) discovery_effect list \<times> string option" where
  "ApplyConfig encode update apply_manager sources jobs m source scrapeConfigs =
     (let m = m\<lparr>configsMap := fmupd source scrapeConfigs (configsMap m)\<rparr>;
          acc = collect_jobs (configsMap m) sources
      in case getScrapeConfigHash encode jobs (jobToScrapeConfig acc) (hash_objects m) of
           Inl err \<Rightarrow> (m\<lparr>hash_objects := Suc (hash_objects m)\<rparr>, [], Some err)
         | Inr hash \<Rightarrow>
             (let m' = m\<lparr>hash_objects := Suc (hash_objects m)\<rparr>;
                  changed = (has_updater m \<and> scrapeConfigsHash m \<noteq> Some hash);
                  effs1 = (if changed then [UpdateScrapeConfigResponse (jobToScrapeConfig acc)] else []);
                  effs2 = (if has_hook m then [HookSetConfig (acc_relabelCfg acc)] else [])
              in case (if changed then update (jobToScrapeConfig acc) else None) of
                   Some err \<Rightarrow> (m', effs1, Some err)
                 | None \<Rightarrow>
                     (if changed then m'\<lparr>scrapeConfigsHash := Some hash\<rparr> else m',
                      effs1 @ effs2 @ [ManagerApplyConfig (discoveryCfg acc)],
                      apply_manager (discoveryCfg acc))))"

definition NewDiscoverer :: "bool \<Rightarrow> bool \<Rightarrow> ('src, 'sd, 'rest) Discoverer" where
  "NewDiscoverer hook updater = \<lparr>configsMap = fmempty, has_hook = hook, has_updater = updater,
     scrapeConfigsHash = None, hash_objects = 0\<rparr>"

section \<open>The reload loop\<close>

text \<open>
  \<open>run\<close> stores a new target set and then sends on \<open>triggerReload\<close> without blocking;
  \<open>d_updated\<close> marks the moment between the two. \<open>reloader\<close> waits for a tick and then for the
  trigger. \<open>d_handled\<close> is the sequence of target sets that \<open>Reload\<close> processed.
\<close>

record disc_loop =
  d_sets :: target_sets
  d_updated :: bool
  d_trigger :: bool
  d_ticked :: bool
  d_run_active :: bool
  d_reloader_active :: bool
  d_closed :: bool
  d_handled :: "target_sets list"

definition disc_init :: disc_loop where
  "disc_init = \<lparr>d_sets = fmempty, d_updated = False, d_trigger = False, d_ticked = False, d_run_active = True,
     d_reloader_active = True, d_closed = False, d_handled = []\<rparr>"

definition UpdateTsets :: "disc_loop \<Rightarrow> target_sets \<Rightarrow> disc_loop" where
  "UpdateTsets d ts = d\<lparr>d_sets := ts\<rparr>"

definition reload_now :: "disc_loop \<Rightarrow> disc_loop" where
  "reload_now d = d\<lparr>d_trigger := False, d_ticked := False, d_handled := d_handled d @ [d_sets d]\<rparr>"

definition Discoverer_Close :: "disc_loop \<Rightarrow> disc_loop go" where
  "Discoverer_Close d = (if d_closed d then Inl CloseOfClosedChannel else Inr (d\<lparr>d_closed := True\<rparr>))"

inductive disc_step :: "disc_loop \<Rightarrow> disc_loop \<Rightarrow> bool" where
  receive: "d_run_active d \<Longrightarrow> \<not> d_updated d \<Longrightarrow> disc_step d ((UpdateTsets d ts)\<lparr>d_updated := True\<rparr>)"
| send_trigger: "d_run_active d \<Longrightarrow> d_updated d \<Longrightarrow> disc_step d (d\<lparr>d_updated := False, d_trigger := True\<rparr>)"
| ticker: "d_reloader_active d \<Longrightarrow> \<not> d_ticked d \<Longrightarrow> disc_step d (d\<lparr>d_ticked := True\<rparr>)"
| reload: "d_reloader_active d \<Longrightarrow> d_ticked d \<Longrightarrow> d_trigger d \<Longrightarrow> disc_step d (reload_now d)"
| reloader_return: "d_closed d \<Longrightarrow> disc_step d (d\<lparr>d_reloader_active := False\<rparr>)"
| run_return: "d_closed d \<Longrightarrow> \<not> d_updated d \<Longrightarrow> disc_step d (d\<lparr>d_run_active := False\<rparr>)"
| disc_close: "Discoverer_Close d = Inr d' \<Longrightarrow> disc_step d d'"

interpretation disc: coalescer disc_step d_sets "\<lambda>d. d_updated d \<or> d_trigger d" d_handled
proof
  show "(d_handled s' = d_handled s \<and> ((d_updated s' \<or> d_trigger s') \<or> d_sets s' = d_sets s \<and> \<not> (d_updated s \<or> d_trigger s))) \<or>
      (d_handled s' = d_handled s @ [d_sets s] \<and> d_sets s' = d_sets s)" if "disc_step s s'" for s s'
    using that by cases (auto simp: UpdateTsets_def reload_now_def Discoverer_Close_def split: if_splits)
qed

section \<open>Lemmas\<close>

lemma builder_Add: "builder_ok B \<Longrightarrow> sb_Add B b n v = b @ [(n, v)]"
  by (simp add: builder_ok_def)

definition overlay :: "labels \<Rightarrow> (string, string) gomap \<Rightarrow> string list \<Rightarrow> string \<Rightarrow> string option" where
  "overlay gs t ts n = (if n \<in> set ts then Some (get0 '''' t n) else map_of gs n)"

definition merged :: "labels \<Rightarrow> (string, string) gomap \<Rightarrow> string list \<Rightarrow> labels \<Rightarrow> bool" where
  "merged gs t ts r \<longleftrightarrow> sorted_wrt (<) (map fst r) \<and> set (map fst r) = set (map fst gs) \<union> set ts \<and> map_of r = overlay gs t ts"

lemma merged_cons:
  assumes "merged gs' t ts' r" "\<forall>x \<in> set (map fst gs') \<union> set ts'. n < x"
    "set (map fst gs) \<union> set ts = insert n (set (map fst gs') \<union> set ts')"
    "overlay gs t ts = (overlay gs' t ts')(n \<mapsto> v)"
  shows "merged gs t ts ((n, v) # r)"
proof -
  have "\<forall>x \<in> set (map fst r). n < x" using assms(1,2) unfolding merged_def by simp
  with assms show ?thesis unfolding merged_def by auto
qed

lemma merge_loop_spec:
  assumes "builder_ok B" "sorted_wrt (<) (map fst gs)" "sorted_wrt (<) ts"
  shows "\<exists>r. mergeLabels_loop B b gs t ts = b @ r \<and> merged gs t ts r"
  using assms
proof (induction B b gs t ts rule: mergeLabels_loop.induct)
  case (1 B b gn gv gs t tn ts)
  note add = builder_Add [OF "1.prems"(1)]
  consider "gn < tn" | "tn < gn" | "gn = tn" by fastforce
  then show ?case
  proof cases
    case 1
    with "1.IH"(1) "1.prems" add obtain r where r: "mergeLabels_loop B (b @ [(gn, gv)]) gs t (tn # ts) = (b @ [(gn, gv)]) @ r"
      "merged gs t (tn # ts) r" by auto
    have "merged ((gn, gv) # gs) t (tn # ts) ((gn, gv) # r)"
      by (rule merged_cons [OF r(2)]) (use 1 "1.prems" in \<open>auto simp: overlay_def fun_eq_iff\<close>)
    with r(1) 1 add show ?thesis by simp
  next
    case 2
    let ?v = "get0 '''' t tn"
    have "\<not> gn < tn" using 2 by simp
    with 2 "1.IH"(2) "1.prems" add obtain r where r: "mergeLabels_loop B (b @ [(tn, ?v)]) ((gn, gv) # gs) t ts = (b @ [(tn, ?v)]) @ r"
      "merged ((gn, gv) # gs) t ts r" by auto
    have "merged ((gn, gv) # gs) t (tn # ts) ((tn, ?v) # r)"
      by (rule merged_cons [OF r(2)]) (use 2 "1.prems" in \<open>auto simp: overlay_def fun_eq_iff\<close>)
    with r(1) 2 \<open>\<not> gn < tn\<close> add show ?thesis by simp
  next
    case 3
    let ?v = "get0 '''' t tn"
    from 3 "1.IH"(3) "1.prems" add obtain r where r: "mergeLabels_loop B (b @ [(tn, ?v)]) gs t ts = (b @ [(tn, ?v)]) @ r"
      "merged gs t ts r" by auto
    have "merged ((gn, gv) # gs) t (tn # ts) ((tn, ?v) # r)"
      by (rule merged_cons [OF r(2)]) (use 3 "1.prems" in \<open>auto simp: overlay_def fun_eq_iff\<close>)
    with r(1) 3 add show ?thesis by simp
  qed
next
  case (2 B b gn gv gs t)
  note add = builder_Add [OF "2.prems"(1)]
  from 2 add obtain r where r: "mergeLabels_loop B (b @ [(gn, gv)]) gs t [] = (b @ [(gn, gv)]) @ r" "merged gs t [] r" by auto
  have "merged ((gn, gv) # gs) t [] ((gn, gv) # r)"
    by (rule merged_cons [OF r(2)]) (use "2.prems" in \<open>auto simp: overlay_def fun_eq_iff\<close>)
  with r(1) add show ?case by simp
next
  case (3 B b t tn ts)
  let ?v = "get0 '''' t tn"
  note add = builder_Add [OF "3.prems"(1)]
  from 3 add obtain r where r: "mergeLabels_loop B (b @ [(tn, ?v)]) [] t ts = (b @ [(tn, ?v)]) @ r" "merged [] t ts r" by auto
  have "merged [] t (tn # ts) ((tn, ?v) # r)"
    by (rule merged_cons [OF r(2)]) (use "3.prems" in \<open>auto simp: overlay_def fun_eq_iff\<close>)
  with r(1) add show ?case by simp
next
  case (4 B b t)
  then show ?case by (auto simp: overlay_def merged_def fun_eq_iff)
qed

lemma upt_join: "[k..<k + a] @ [k + a..<k + (a + b)] = [k..<k + (a + b)]"
  using upt_add_eq_append [of k "k + a" b] by (simp add: add.assoc)

lemma group_writes_index: "map fst (group_writes L B ord job gs k ts) = [k..<k + length ts]"
  by (induction ts arbitrary: k) (auto simp: upt_rec)

lemma groups_writes_index: "map fst (processTargetGroups L B ord job k gs) = [k..<k + count_targets gs]"
proof (induction gs arbitrary: k)
  case (Cons g gs)
  then show ?case
    by (simp add: group_writes_index count_targets_def add.assoc upt_join)
qed (simp add: count_targets_def)

lemma Reload_writes_index:
  "map fst (Reload_writes L B ord sets k jobs) = [k..<k + sum_list (map (\<lambda>j. count_targets (get0 [] sets j)) jobs)]"
proof (induction jobs arbitrary: k)
  case (Cons j jobs)
  then show ?case
    by (simp add: groups_writes_index Let_def add.assoc upt_join)
qed simp

lemma writes_any_order:
  assumes "distinct (map fst ws)" "\<forall>w \<in> set ws. fst w < length arr"
  shows "\<exists>arr'. foldM write_target arr ws = Inr arr' \<and> length arr' = length arr \<and>
    (\<forall>i < length arr. arr' ! i = (case map_of ws i of None \<Rightarrow> arr ! i | Some it \<Rightarrow> Some it))"
  using assms
proof (induction ws arbitrary: arr)
  case (Cons w ws)
  obtain i it where w: "w = (i, it)" by (cases w)
  have i: "i < length arr" using Cons.prems(2) w by auto
  from Cons.IH [of "arr[i := Some it]"] Cons.prems i
  obtain arr' where arr': "foldM write_target (arr[i := Some it]) ws = Inr arr'" "length arr' = length arr"
    "\<forall>j < length arr. arr' ! j = (case map_of ws j of None \<Rightarrow> arr[i := Some it] ! j | Some it \<Rightarrow> Some it)" by auto
  have "map_of ws i = None" using Cons.prems(1) w by (simp add: map_of_eq_None_iff)
  then have "\<forall>j < length arr. arr' ! j = (case map_of ((i, it) # ws) j of None \<Rightarrow> arr ! j | Some it \<Rightarrow> Some it)"
    using arr'(3) i by (auto simp: nth_list_update split: option.splits)
  moreover have "foldM write_target arr (w # ws) = Inr arr'"
    using arr'(1) i w by (simp add: write_target_def [of arr])
  ultimately show ?case using arr'(2) w by blast
qed simp

lemma map_of_writes:
  assumes "mset schedule = mset ws" "map fst ws = [0..<n]"
  shows "distinct (map fst schedule)" "set schedule = set ws" "i < n \<Longrightarrow> map_of schedule i = Some (snd (ws ! i))"
proof -
  have "mset (map fst schedule) = mset (map fst ws)" using assms(1) by simp
  then show d: "distinct (map fst schedule)" using assms(2) by (metis distinct_upt mset_eq_imp_distinct_iff)
  show st: "set schedule = set ws" using assms(1) by (rule mset_eq_setD)
  assume i: "i < n"
  have len: "length ws = n" using assms(2) by (metis length_map length_upt diff_zero)
  then have "fst (ws ! i) = i" using i assms(2) by (metis nth_map nth_upt add_0)
  with i len st have "(i, snd (ws ! i)) \<in> set schedule" by (metis nth_mem prod.collapse)
  with d show "map_of schedule i = Some (snd (ws ! i))" by simp
qed

lemma Reload_spec:
  assumes "mset schedule = mset (Reload_writes L B ord sets 0 jobs)"
  shows "Reload schedule sets jobs = Inr (map (\<lambda>w. Some (snd w)) (Reload_writes L B ord sets 0 jobs))"
proof -
  let ?ws = "Reload_writes L B ord sets 0 jobs" and ?n = "sum_list (map (\<lambda>j. count_targets (get0 [] sets j)) jobs)"
  have ix: "map fst ?ws = [0..<?n]" using Reload_writes_index [of L B ord sets 0 jobs] by simp
  then have len: "length ?ws = ?n" by (metis length_map length_upt diff_zero)
  have lt: "\<forall>w \<in> set schedule. fst w < length (replicate ?n (None :: Item option))"
  proof
    fix w assume "w \<in> set schedule"
    then have "fst w \<in> set (map fst ?ws)" using map_of_writes(2) [OF assms ix] by auto
    with ix show "fst w < length (replicate ?n (None :: Item option))" by simp
  qed
  from writes_any_order [OF map_of_writes(1) [OF assms ix] lt] obtain arr'
    where arr': "foldM write_target (replicate ?n None) schedule = Inr arr'" "length arr' = ?n"
      "\<forall>i < ?n. arr' ! i = (case map_of schedule i of None \<Rightarrow> replicate ?n None ! i | Some it \<Rightarrow> Some it)" by auto
  have "arr' = map (\<lambda>w. Some (snd w)) ?ws"
    by (rule nth_equalityI) (use arr'(2,3) len map_of_writes(3) [OF assms ix] in auto)
  with arr'(1) show ?thesis by (simp add: Reload_def Let_def)
qed

section \<open>Properties\<close>

text \<open>
  Merging the labels of a target group with those of a target gives a label list that is
  strictly ordered by name and has for every name the target's value if the target has the
  label, and the group's value otherwise; the order in which the target's labels are visited does
  not matter.
\<close>

theorem mergeLabels_overrides:
  assumes "builder_ok B" "sorted_wrt (<) (map fst groupSlice)" "enum names targetLabels"
  shows "\<exists>r. mergeLabels B [] groupSlice targetLabels names = r \<and> sorted_wrt (<) (map fst r) \<and>
    (\<forall>n. map_of r n = (case fmlookup targetLabels n of Some v \<Rightarrow> Some v | None \<Rightarrow> map_of groupSlice n))"
proof -
  have "sorted_wrt (<) (sort names)" using assms(3) by (simp add: enum_def strict_sorted_iff)
  from merge_loop_spec [OF assms(1,2) this, of "[]" targetLabels] obtain r
    where r: "mergeLabels B [] groupSlice targetLabels names = r" "merged groupSlice targetLabels (sort names) r"
    by (auto simp: mergeLabels_def)
  have "map_of r n = (case fmlookup targetLabels n of Some v \<Rightarrow> Some v | None \<Rightarrow> map_of groupSlice n)" for n
    using r(2) enum_mem [OF assms(3), of n] by (auto simp: merged_def overlay_def split: option.splits)
  with r show ?thesis by (auto simp: merged_def)
qed

definition demo_builder :: builder_lib where
  "demo_builder = \<lparr>sb_Add = (\<lambda>b n v. b @ [(n, v)]), sb_Sort = sort_key fst\<rparr>"

lemma demo_builder_ok: "builder_ok demo_builder"
  by (simp add: builder_ok_def demo_builder_def)

theorem mergeLabels_overrides_witness:
  "\<exists>r. mergeLabels demo_builder [] [(''a'', ''1''), (''b'', ''2'')] (fmupd ''b'' ''3'' fmempty) [''b''] = r \<and> map_of r ''b'' = Some ''3'' \<and> map_of r ''a'' = Some ''1''"
  using mergeLabels_overrides [OF demo_builder_ok, of "[(''a'', ''1''), (''b'', ''2'')]" "[''b'']" "fmupd ''b'' ''3'' fmempty"]
  by (simp add: enum_def less_char_def)

text \<open>
  C14: However the goroutines of \<open>Reload\<close> are scheduled, no write is out of range, no entry of the
  target slice stays nil, and the slice is the concatenation of the targets of all jobs, groups
  and targets in order: every discovered target is handed on exactly once.
\<close>

theorem Reload_complete:
  assumes "mset schedule = mset (Reload_writes L B ord sets 0 jobs)"
  shows "Reload schedule sets jobs = Inr (map Some (concat (map (\<lambda>job. concat (map (\<lambda>tg.
    map (target_item L B ord job (group_slice B ord tg)) (group_Targets tg)) (get0 [] sets job))) jobs)))"
proof -
  have g: "map snd (group_writes L B ord job gsl k ts) = map (target_item L B ord job gsl) ts" for job gsl k ts
    by (induction ts arbitrary: k) auto
  have p: "map snd (processTargetGroups L B ord job k gs) =
      concat (map (\<lambda>tg. map (target_item L B ord job (group_slice B ord tg)) (group_Targets tg)) gs)" for job k gs
    by (induction gs arbitrary: k) (auto simp: g)
  have r: "map snd (Reload_writes L B ord sets k jobs) = concat (map (\<lambda>job. concat (map (\<lambda>tg.
      map (target_item L B ord job (group_slice B ord tg)) (group_Targets tg)) (get0 [] sets job))) jobs)" for k
    by (induction jobs arbitrary: k) (auto simp: p Let_def)
  have "map (\<lambda>w. Some (snd w)) ws = map Some (map snd ws)" for ws :: "(nat \<times> Item) list" by simp
  then show ?thesis unfolding Reload_spec [OF assms] r [of 0, symmetric] by simp
qed

theorem Reload_complete_witness:
  "Reload (rev (Reload_writes demo_lib demo_builder (\<lambda>_. []) (fmupd ''j'' [\<lparr>group_Targets = [fmempty, fmempty], group_Labels = fmempty\<rparr>] fmempty) 0 [''j'']))
     (fmupd ''j'' [\<lparr>group_Targets = [fmempty, fmempty], group_Labels = fmempty\<rparr>] fmempty) [''j''] =
   Inr [Some (NewItem ''j'' '''' [] '''' []), Some (NewItem ''j'' '''' [] '''' [])]"
  by (subst Reload_complete [of _ demo_lib demo_builder "\<lambda>_. []"])
    (simp_all add: target_item_def mergeLabels_def group_slice_def demo_builder_def demo_lib_def del: Reload_writes.simps)

subsection \<open>Applying configurations\<close>

definition acc_ok :: "('sd, 'rest) jobs_acc \<Rightarrow> bool" where
  "acc_ok acc \<longleftrightarrow> discoveryCfg acc = fmmap ServiceDiscoveryConfigs (jobToScrapeConfig acc) \<and>
     acc_relabelCfg acc = fmmap RelabelConfigs (jobToScrapeConfig acc)"

lemma acc_ok_loop: "acc_ok acc \<Longrightarrow> acc_ok (foldl add_job acc scs)"
proof (induction scs arbitrary: acc)
  case (Cons sc scs)
  then have "acc_ok (add_job acc sc)" by (auto simp: acc_ok_def add_job_def intro!: fmap_ext)
  with Cons.IH show ?case by simp
qed simp

lemma collect_loop:
  "fmlookup (jobToScrapeConfig (foldl add_job acc scs)) j =
     (case find (\<lambda>sc. sc_JobName sc = j) (rev scs) of Some sc \<Rightarrow> Some sc | None \<Rightarrow> fmlookup (jobToScrapeConfig acc) j)"
  by (induction scs rule: rev_induct) (auto simp: add_job_def)

text \<open>The configurations of all sources, and that no job is configured twice.\<close>

definition all_configs :: "('src, ('sd, 'rest) ScrapeConfig list) gomap \<Rightarrow> ('sd, 'rest) ScrapeConfig set" where
  "all_configs cfgs = {sc. \<exists>s scs. fmlookup cfgs s = Some scs \<and> sc \<in> set scs}"

lemma collect_jobs_unique:
  assumes "enum sources cfgs" "inj_on sc_JobName (all_configs cfgs)"
  shows "fmlookup (jobToScrapeConfig (collect_jobs cfgs sources)) j = Some sc \<longleftrightarrow> sc \<in> all_configs cfgs \<and> sc_JobName sc = j"
proof -
  let ?scs = "concat (map (\<lambda>s. get0 [] cfgs s) sources)"
  have all: "set ?scs = all_configs cfgs"
  proof (intro equalityI subsetI)
    fix sc assume "sc \<in> set ?scs"
    then obtain s where s: "sc \<in> set (get0 [] cfgs s)" by auto
    then show "sc \<in> all_configs cfgs" by (cases "fmlookup cfgs s") (auto simp: all_configs_def)
  next
    fix sc assume "sc \<in> all_configs cfgs"
    then obtain s scs where s: "fmlookup cfgs s = Some scs" "sc \<in> set scs" by (auto simp: all_configs_def)
    then have "s \<in> set sources" using enum_mem [OF assms(1), of s] by simp
    with s show "sc \<in> set ?scs" by (auto intro!: bexI [of _ s])
  qed
  have look: "fmlookup (jobToScrapeConfig (collect_jobs cfgs sources)) j = find (\<lambda>sc. sc_JobName sc = j) (rev ?scs)"
    by (simp add: collect_jobs_def collect_loop split: option.splits)
  show ?thesis
  proof
    assume "fmlookup (jobToScrapeConfig (collect_jobs cfgs sources)) j = Some sc"
    with look have "find (\<lambda>sc. sc_JobName sc = j) (rev ?scs) = Some sc" by simp
    from find_SomeD [OF this] show "sc \<in> all_configs cfgs \<and> sc_JobName sc = j" using all by auto
  next
    assume sc: "sc \<in> all_configs cfgs \<and> sc_JobName sc = j"
    then have "find (\<lambda>sc. sc_JobName sc = j) (rev ?scs) \<noteq> None" using all unfolding find_None_iff by auto
    then obtain sc' where sc': "find (\<lambda>sc. sc_JobName sc = j) (rev ?scs) = Some sc'" by auto
    from find_SomeD [OF this] have "sc' \<in> all_configs cfgs" "sc_JobName sc' = j" using all by auto
    with sc inj_onD [OF assms(2), of sc' sc] have "sc' = sc" by simp
    with sc' look show "fmlookup (jobToScrapeConfig (collect_jobs cfgs sources)) j = Some sc" by simp
  qed
qed

inductive configured :: "('src, 'sd, 'rest) Discoverer \<Rightarrow> bool" where
  fresh_discoverer: "configured (NewDiscoverer hook updater)"
| config_applied: "configured m \<Longrightarrow> ApplyConfig encode update apply_manager sources jobs m source scs = (m', effs, err) \<Longrightarrow> configured m'"

lemma ApplyConfig_state:
  assumes "ApplyConfig encode update apply_manager sources jobs m source scs = (m', effs, err)"
  shows "hash_objects m' = Suc (hash_objects m) \<and> (scrapeConfigsHash m' = scrapeConfigsHash m \<or> scrapeConfigsHash m' = Some (hash_objects m)) \<and>
    configsMap m' = fmupd source scs (configsMap m) \<and> has_hook m' = has_hook m \<and> has_updater m' = has_updater m"
  using assms by (auto simp: ApplyConfig_def Let_def getScrapeConfigHash_def split: sum.splits option.splits list.splits if_splits)

lemma stored_hash_old:
  assumes "configured m" "scrapeConfigsHash m = Some h"
  shows "h < hash_objects m"
  using assms
proof (induction arbitrary: h rule: configured.induct)
  case (config_applied m encode update apply_manager sources jobs source scs m' effs err)
  from ApplyConfig_state [OF config_applied.hyps(2)] config_applied show ?case by fastforce
qed (simp add: NewDiscoverer_def)

text \<open>
  When the encoder and the updater report no error, every \<open>ApplyConfig\<close> of a discoverer with
  a hook and an updater sends the response update, then the relabel rules, then the service
  discovery configuration, in this order and even when nothing changed: the stored hash object is
  never the one of the present call. If no job is configured twice, what is sent is exactly the
  configuration of all sources together, whatever the order of the sources.
\<close>

theorem ApplyConfig_always_sends:
  assumes "configured m" "has_updater m" "has_hook m" "\<And>sc. encode sc = None" "\<And>j. update j = None"
    and "enum sources (fmupd source scs (configsMap m))"
    and "inj_on sc_JobName (all_configs (fmupd source scs (configsMap m)))"
  shows "\<exists>m' J. ApplyConfig encode update apply_manager sources jobs m source scs =
      (m', [UpdateScrapeConfigResponse J, HookSetConfig (fmmap RelabelConfigs J), ManagerApplyConfig (fmmap ServiceDiscoveryConfigs J)],
       apply_manager (fmmap ServiceDiscoveryConfigs J)) \<and>
    configured m' \<and>
    (\<forall>job sc. fmlookup J job = Some sc \<longleftrightarrow> sc \<in> all_configs (fmupd source scs (configsMap m)) \<and> sc_JobName sc = job)"
proof -
  let ?acc = "collect_jobs (fmupd source scs (configsMap m)) sources" and ?J = "jobToScrapeConfig (collect_jobs (fmupd source scs (configsMap m)) sources)"
  have enc: "getScrapeConfigHash encode jobs ?J (hash_objects m) = Inr (hash_objects m)"
  proof -
    have "Option.bind x encode = None" for x using assms(4) by (cases x) auto
    then show ?thesis by (simp add: getScrapeConfigHash_def List.map_filter_def)
  qed
  have ne: "scrapeConfigsHash m \<noteq> Some (hash_objects m)" using stored_hash_old [OF assms(1)] by fastforce
  have "acc_ok ?acc" unfolding collect_jobs_def by (rule acc_ok_loop) (simp add: acc_ok_def)
  then have run: "ApplyConfig encode update apply_manager sources jobs m source scs =
      (m\<lparr>configsMap := fmupd source scs (configsMap m), hash_objects := Suc (hash_objects m), scrapeConfigsHash := Some (hash_objects m)\<rparr>,
       [UpdateScrapeConfigResponse ?J, HookSetConfig (fmmap RelabelConfigs ?J), ManagerApplyConfig (fmmap ServiceDiscoveryConfigs ?J)],
       apply_manager (fmmap ServiceDiscoveryConfigs ?J))"
    using enc ne assms(2,3,5) by (simp add: ApplyConfig_def Let_def acc_ok_def)
  show ?thesis
    using run config_applied [OF assms(1) run] collect_jobs_unique [OF assms(6,7)] by blast
qed

theorem ApplyConfig_always_sends_witness:
  "\<exists>(m' :: (bool, unit, unit) Discoverer) J. ApplyConfig (\<lambda>_. None) (\<lambda>_. None) (\<lambda>_. None :: string option) [True] [''j'']
      (NewDiscoverer True True) True [\<lparr>sc_JobName = ''j'', ServiceDiscoveryConfigs = (), RelabelConfigs = [], sc_rest = ()\<rparr>] =
      (m', [UpdateScrapeConfigResponse J, HookSetConfig (fmmap RelabelConfigs J), ManagerApplyConfig (fmmap ServiceDiscoveryConfigs J)], None) \<and>
    fmlookup J ''j'' \<noteq> None"
proof -
  let ?sc = "\<lparr>sc_JobName = ''j'', ServiceDiscoveryConfigs = (), RelabelConfigs = [], sc_rest = ()\<rparr>"
  let ?m = "NewDiscoverer True True :: (bool, unit, unit) Discoverer"
  have all: "all_configs (fmupd True [?sc] (configsMap ?m)) = {?sc}" by (auto simp: all_configs_def NewDiscoverer_def)
  then have "inj_on sc_JobName (all_configs (fmupd True [?sc] (configsMap ?m)))" by simp
  from ApplyConfig_always_sends [OF fresh_discoverer _ _ _ _ _ this, of "\<lambda>_. None" "\<lambda>_. None" "[True]" "\<lambda>_. None :: string option" "[''j'']"] all
  show ?thesis by (auto simp: NewDiscoverer_def enum_def)
qed

text \<open>
  The discoverer loses no update of service discovery: in every reachable state of its two
  goroutines, if no update is being stored and no reload is triggered, the target sets that were
  processed last are the current ones; and a triggered reload processes the current sets.
\<close>

theorem discoverer_no_lost_update:
  assumes "disc_step\<^sup>*\<^sup>* disc_init d"
  shows "(\<not> d_updated d \<and> \<not> d_trigger d \<longrightarrow> last (fmempty # d_handled d) = d_sets d) \<and>
    (d_trigger d \<and> d_ticked d \<and> d_reloader_active d \<longrightarrow>
      (\<exists>d'. disc_step d d' \<and> last (d_handled d') = d_sets d \<and> \<not> d_trigger d'))"
proof (intro conjI impI)
  assume "\<not> d_updated d \<and> \<not> d_trigger d"
  with disc.no_lost_update [OF assms] show "last (fmempty # d_handled d) = d_sets d" by (simp add: disc_init_def)
next
  assume "d_trigger d \<and> d_ticked d \<and> d_reloader_active d"
  with reload [of d] show "\<exists>d'. disc_step d d' \<and> last (d_handled d') = d_sets d \<and> \<not> d_trigger d'"
    by (intro exI [of _ "reload_now d"]) (simp add: reload_now_def)
qed

theorem discoverer_no_lost_update_witness:
  "\<exists>d. disc_step\<^sup>*\<^sup>* disc_init d \<and> last (fmempty # d_handled d) = fmupd ''j'' [] fmempty"
proof -
  let ?ts = "fmupd ''j'' [] fmempty :: target_sets"
  let ?d1 = "(UpdateTsets disc_init ?ts)\<lparr>d_updated := True\<rparr>"
  let ?d2 = "?d1\<lparr>d_updated := False, d_trigger := True\<rparr>"
  let ?d3 = "?d2\<lparr>d_ticked := True\<rparr>"
  have 1: "disc_step disc_init ?d1" by (rule receive) (simp_all add: disc_init_def)
  have 2: "disc_step ?d1 ?d2" by (rule send_trigger) (simp_all add: disc_init_def UpdateTsets_def)
  have 3: "disc_step ?d2 ?d3" by (rule ticker) (simp_all add: disc_init_def UpdateTsets_def)
  have 4: "disc_step ?d3 (reload_now ?d3)" by (rule reload) (simp_all add: disc_init_def UpdateTsets_def)
  have r: "disc_step\<^sup>*\<^sup>* disc_init (reload_now ?d3)"
    using r_into_rtranclp [of disc_step, OF 1] r_into_rtranclp [of disc_step, OF 2] r_into_rtranclp [of disc_step, OF 3]
      r_into_rtranclp [of disc_step, OF 4] by (blast intro: rtranclp_trans)
  from discoverer_no_lost_update [OF r] r show ?thesis
    by (intro exI [of _ "reload_now ?d3"]) (simp add: reload_now_def UpdateTsets_def)
qed

end
