(* ===== verification/Url.thy ===== *)
theory Url
  imports Target
begin

text \<open>
  The functions of Go's standard library that the server's links rest on: \<open>url.QueryEscape\<close>,
  \<open>url.QueryUnescape\<close> and \<open>strconv.ParseUint\<close> with base 10 and 64 bits.
\<close>

section \<open>Percent encoding\<close>

definition unreserved :: "char \<Rightarrow> bool" where
  "unreserved c \<longleftrightarrow> (let n = of_char c :: nat in
     (97 \<le> n \<and> n \<le> 122) \<or> (65 \<le> n \<and> n \<le> 90) \<or> (48 \<le> n \<and> n \<le> 57) \<or> n \<in> {45, 95, 46, 126})"

definition upperhex :: "nat \<Rightarrow> char" where
  "upperhex d = (if d < 10 then char_of (48 + d) else char_of (55 + d))"

definition unhex :: "char \<Rightarrow> nat option" where
  "unhex c = (let n = of_char c :: nat in
     if 48 \<le> n \<and> n \<le> 57 then Some (n - 48)
     else if 97 \<le> n \<and> n \<le> 102 then Some (n - 87)
     else if 65 \<le> n \<and> n \<le> 70 then Some (n - 55) else None)"

definition escape_char :: "char \<Rightarrow> string" where
  "escape_char c = (if unreserved c then [c] else if c = CHR '' '' then ''+''
     else [CHR ''%'', upperhex (of_char c div 16), upperhex (of_char c mod 16)])"

definition QueryEscape :: "string \<Rightarrow> string" where
  "QueryEscape s = concat (map escape_char s)"

datatype escape_error = EscapeError string

fun QueryUnescape :: "string \<Rightarrow> escape_error + string" where
  "QueryUnescape [] = Inr []"
| "QueryUnescape (c # cs) =
     (if c = CHR ''%'' then
        (case cs of
           a # b # rest \<Rightarrow>
             (case (unhex a, unhex b) of
                (Some x, Some y) \<Rightarrow> map_sum id ((#) (char_of (16 * x + y))) (QueryUnescape rest)
              | _ \<Rightarrow> Inl (EscapeError [c, a, b]))
         | _ \<Rightarrow> Inl (EscapeError (c # cs)))
      else map_sum id ((#) (if c = CHR ''+'' then CHR '' '' else c)) (QueryUnescape cs))"

lemma unhex_upperhex: "d < 16 \<Longrightarrow> unhex (upperhex d) = Some d"
  by (auto simp: unhex_def upperhex_def Let_def)

lemma unreserved_plain: "unreserved c \<Longrightarrow> c \<noteq> CHR ''%'' \<and> c \<noteq> CHR ''+''"
  by (auto simp: unreserved_def)

lemma Unescape_escape_char: "QueryUnescape (escape_char c @ s) = map_sum id ((#) c) (QueryUnescape s)"
proof -
  have "(of_char c div 16 :: nat) < 16" using nat_of_char_less_256 [of c] by (simp add: less_mult_imp_div_less)
  moreover have "16 * (of_char c div 16) + of_char c mod 16 = (of_char c :: nat)" by simp
  ultimately show ?thesis
    using unreserved_plain [of c] by (auto simp: escape_char_def unhex_upperhex)
qed

lemma QueryEscape_inverse: "QueryUnescape (QueryEscape s) = Inr s"
proof (induction s)
  case (Cons c s)
  then show ?case by (simp add: QueryEscape_def Unescape_escape_char)
qed (simp add: QueryEscape_def)

section \<open>Reading a hash\<close>

text \<open>\<open>ParseUint\<close> returns a value also when it fails: 0 on a syntax error, the largest value when out of range.\<close>

datatype num_error = ErrSyntax | ErrRange

fun parse_digits :: "nat \<Rightarrow> string \<Rightarrow> nat \<times> num_error option" where
  "parse_digits n [] = (n, None)"
| "parse_digits n (c # cs) =
     (let d = of_char c :: nat
      in if 48 \<le> d \<and> d \<le> 57
         then (if 10 * n + (d - 48) < 2 ^ 64 then parse_digits (10 * n + (d - 48)) cs else (2 ^ 64 - 1, Some ErrRange))
         else (0, Some ErrSyntax))"

definition ParseUint :: "string \<Rightarrow> 64 word \<times> num_error option" where
  "ParseUint s = (case (if s = '''' then (0, Some ErrSyntax) else parse_digits 0 s) of (n, e) \<Rightarrow> (of_nat n, e))"

lemma parse_digits_snoc:
  assumes "parse_digits n s = (m, None)" "10 * m + d < 2 ^ 64" "d < 10"
  shows "parse_digits n (s @ [char_of (48 + d)]) = (10 * m + d, None)"
  using assms
proof (induction s arbitrary: n)
  case Nil
  then show ?case by (simp add: Let_def)
next
  case (Cons c s)
  then show ?case by (auto simp: Let_def split: if_splits)
qed

lemma parse_format: "n < 2 ^ 64 \<Longrightarrow> parse_digits 0 (format_uint n) = (n, None)"
proof (induction n rule: format_uint.induct)
  case (1 n)
  show ?case
  proof (cases "n < 10")
    case True
    then show ?thesis by (simp add: format_uint.simps [of n] Let_def)
  next
    case False
    have "n div 10 < 2 ^ 64" using "1.prems" by simp
    with False "1.IH" have "parse_digits 0 (format_uint (n div 10)) = (n div 10, None)" by simp
    from parse_digits_snoc [OF this, of "n mod 10"] "1.prems" False show ?thesis
      by (simp add: format_uint.simps [of n])
  qed
qed

lemma format_uint_ne: "format_uint n \<noteq> ''''"
  by (simp add: format_uint.simps [of n])

lemma ParseUint_String: "ParseUint (ItemHash_String h) = (h, None)"
proof -
  have "unat h < 2 ^ 64" using unsigned_less [of h, where 'a = nat] by simp
  then show ?thesis by (simp add: ParseUint_def ItemHash_String_def parse_format format_uint_ne)
qed

lemma char_of_48: "char_of (48 :: nat) = CHR ''0''"
  by (rule of_char_eqI [where ?'a = nat]) simp

lemma format_zero: "format_uint n = ''0'' \<longleftrightarrow> n = 0"
proof
  assume a: "format_uint n = ''0''"
  show "n = 0"
  proof (cases "n < 10")
    case True
    then have "[char_of (48 + n)] = ''0''" using a by (simp add: format_uint.simps [of n])
    then have "of_char (char_of (48 + n)) = (of_char (CHR ''0'') :: nat)" by simp
    then show ?thesis using True by simp
  next
    case False
    then have "length (format_uint n) = length (format_uint (n div 10)) + 1" by (simp add: format_uint.simps [of n])
    with a format_uint_ne [of "n div 10"] show ?thesis by simp
  qed
qed (simp add: format_uint.simps char_of_48)

end
