(* ===== verification/AnyValue.thy ===== *)
theory AnyValue
  imports Prelude
begin

text \<open>
  Values of Go's type \<open>any\<close> as the JSON and YAML decoders produce them: \<open>map[string]any\<close> is a
  finite map, so its key order is not part of the value. A type assertion without the comma form
  faults when the dynamic type differs.
\<close>

datatype any =
    ANil
  | ABool bool
  | ANum int
  | AStr string
  | AList "any list"
  | AMap "(string, any) fmap"

fun as_map :: "any \<Rightarrow> (string, any) gomap go" where
  "as_map (AMap m) = Inr m"
| "as_map _ = Inl TypeAssertion"

fun as_list :: "any \<Rightarrow> any list go" where
  "as_list (AList xs) = Inr xs"
| "as_list _ = Inl TypeAssertion"

text \<open>Reading a \<open>map[string]any\<close>: a missing key is the nil interface.\<close>

definition any_get :: "(string, any) gomap \<Rightarrow> string \<Rightarrow> any" where
  "any_get m k = get0 ANil m k"

fun mapM_go :: "('a \<Rightarrow> 'b go) \<Rightarrow> 'a list \<Rightarrow> 'b list go" where
  "mapM_go f [] = Inr []"
| "mapM_go f (x # xs) = go_bind (f x) (\<lambda>y. go_bind (mapM_go f xs) (\<lambda>ys. Inr (y # ys)))"

lemma mapM_go_all: "(\<And>x. x \<in> set xs \<Longrightarrow> f x = Inr (g x)) \<Longrightarrow> mapM_go f xs = Inr (map g xs)"
  by (induction xs) auto

lemma mapM_go_Inr: "mapM_go f xs = Inr ys \<Longrightarrow> list_all2 (\<lambda>x y. f x = Inr y) xs ys"
  by (induction xs arbitrary: ys) auto

end
