(* ===== verification/Server.thy ===== *)
theory Server
  imports Discovery Url AnyValue
begin

text \<open>
  The HTTP server of the target allocator: \<open>otel-allocator/internal/server/server.go\<close>.

  A handler maps the request and the state to the sequence of writes it performs on the
  response. The router, the templates and the JSON and YAML libraries are not modelled: a page is
  the data handed to its template, and the encoders are the parameter \<open>codec\<close>. The handlers
  read the allocator through \<open>TargetItems\<close>, \<open>Collectors\<close> and \<open>GetTargetsForCollectorAndJob\<close>;
  where they range over a map, the visiting order is an argument.
\<close>

section \<open>Responses\<close>

record Cell =
  Link :: string
  Text :: string
  Preformatted :: bool

definition NewCell :: "string \<Rightarrow> Cell" where
  "NewCell text = \<lparr>Link = '''', Text = text, Preformatted = False\<rparr>"

record targetJSON =
  tj_TargetURL :: "string list"
  tj_Labels :: labels

record collectorJSON =
  cj_Link :: string
  cj_Jobs :: "targetJSON list"

datatype json_body =
    JobLinks "(string, string) gomap"
  | CollectorTargets "(string, collectorJSON) gomap"
  | TargetList "targetJSON list"
  | ErrorBody string

datatype response_write =
    SetHeader string string
  | Status nat
  | PageHeader string
  | PropertiesTable "string list" "Cell list list"
  | PageFooter
  | BadRequestPage string string
  | NotFoundPage string string
  | JSONBody json_body
  | RawBody string

definition StatusOK :: nat where "StatusOK = 200"
definition StatusBadRequest :: nat where "StatusBadRequest = 400"
definition StatusNotFound :: nat where "StatusNotFound = 404"
definition StatusInternalServerError :: nat where "StatusInternalServerError = 500"
definition StatusServiceUnavailable :: nat where "StatusServiceUnavailable = 503"

definition itoa :: "nat \<Rightarrow> string" where
  "itoa n = format_uint n"

definition jsonHandler :: "json_body \<Rightarrow> response_write list" where
  "jsonHandler data = [SetHeader ''Content-Type'' ''application/json'', JSONBody data]"

definition errorHandler :: "string \<Rightarrow> response_write list" where
  "errorHandler err = [Status StatusInternalServerError] @ jsonHandler (ErrorBody err)"

definition html_headers :: "response_write list" where
  "html_headers = [SetHeader ''X-Content-Type-Options'' ''nosniff'', SetHeader ''Content-Type'' ''text/html; charset=utf-8'']"

section \<open>Links\<close>

definition scrapeConfigAnchorLink :: Cell where
  "scrapeConfigAnchorLink = \<lparr>Link = ''/scrape_configs'', Text = ''Scrape Configs'', Preformatted = False\<rparr>"

definition jobsAnchorLink :: Cell where
  "jobsAnchorLink = \<lparr>Link = ''/debug/jobs'', Text = ''Jobs'', Preformatted = False\<rparr>"

definition targetsAnchorLink :: Cell where
  "targetsAnchorLink = \<lparr>Link = ''/debug/targets'', Text = ''Targets'', Preformatted = False\<rparr>"

definition jobAnchorLink :: "string \<Rightarrow> Cell" where
  "jobAnchorLink jobId = \<lparr>Link = ''/debug/job?job_id='' @ QueryEscape jobId, Text = jobId, Preformatted = False\<rparr>"

definition collectorAnchorLink :: "string \<Rightarrow> Cell" where
  "collectorAnchorLink collectorId =
     \<lparr>Link = ''/debug/collector?collector_id='' @ QueryEscape collectorId, Text = collectorId, Preformatted = False\<rparr>"

definition targetAnchorLink :: "labels_lib \<Rightarrow> Item \<Rightarrow> Cell" where
  "targetAnchorLink L t = \<lparr>Link = ''/debug/target?target_hash='' @ ItemHash_String (Hash L t), Text = TargetURL t, Preformatted = False\<rparr>"

section \<open>The scrape configuration response\<close>

text \<open>Removing the regex of the \<open>keepequal\<close> and \<open>dropequal\<close> rules, on the decoded JSON.\<close>

definition drop_regex :: "any \<Rightarrow> any go" where
  "drop_regex rc = go_bind (as_map rc) (\<lambda>m.
     Inr (AMap (if any_get m ''action'' = AStr ''keepequal'' \<or> any_get m ''action'' = AStr ''dropequal''
                then fmdrop ''regex'' m else m)))"

definition drop_regex_in :: "string \<Rightarrow> (string, any) gomap \<Rightarrow> (string, any) gomap go" where
  "drop_regex_in key sc =
     (if any_get sc key = ANil then Inr sc
      else go_bind (as_list (any_get sc key)) (\<lambda>xs.
           go_bind (mapM_go drop_regex xs) (\<lambda>ys. Inr (fmupd key (AList ys) sc))))"

definition drop_regex_job :: "(string, any) gomap \<Rightarrow> string \<Rightarrow> (string, any) gomap go" where
  "drop_regex_job jobs job =
     (case fmlookup jobs job of
        None \<Rightarrow> Inr jobs
      | Some scrapeConfig \<Rightarrow>
          go_bind (as_map scrapeConfig) (\<lambda>sc.
          go_bind (drop_regex_in ''relabel_configs'' sc) (\<lambda>sc.
          go_bind (drop_regex_in ''metric_relabel_configs'' sc) (\<lambda>sc. Inr (fmupd job (AMap sc) jobs)))))"

text \<open>
  \<open>'cfg\<close> is the type of the configuration map. \<open>yaml_Marshal\<close> takes the package variable
  \<open>MarshalSecretValue\<close> that decides whether secrets are written out.
\<close>

record 'cfg codec =
  yaml_Marshal :: "bool \<Rightarrow> 'cfg \<Rightarrow> string + string"
  YAMLToJSON :: "string \<Rightarrow> string + string"
  json_Unmarshal :: "string \<Rightarrow> string + (string, any) gomap"
  json_Marshal :: "(string, any) gomap \<Rightarrow> string + string"
  json_MarshalIndent :: "any \<Rightarrow> string + string"

definition RemoveRegexFromRelabelAction :: "'cfg codec \<Rightarrow> string list \<Rightarrow> string \<Rightarrow> (string + string) go" where
  "RemoveRegexFromRelabelAction C jobs jsonConfig =
     (case json_Unmarshal C jsonConfig of
        Inl err \<Rightarrow> Inr (Inl err)
      | Inr m \<Rightarrow> go_bind (foldM drop_regex_job m jobs) (\<lambda>m. Inr (json_Marshal C m)))"

record Server =
  scrapeConfigResponse :: "string option"
  ScrapeConfigMarshalledSecretResponse :: "string option"
  allowInsecureAuthSecrets :: bool

definition NewServer :: "bool \<Rightarrow> Server" where
  "NewServer allowInsecure = \<lparr>scrapeConfigResponse = None, ScrapeConfigMarshalledSecretResponse = None,
     allowInsecureAuthSecrets = allowInsecure\<rparr>"

text \<open>\<open>jobs\<close> gives the visiting order of the decoded configuration.\<close>

definition MarshalScrapeConfig :: "'cfg codec \<Rightarrow> (string \<Rightarrow> string list) \<Rightarrow> Server \<Rightarrow> 'cfg \<Rightarrow> bool \<Rightarrow> (Server \<times> string option) go" where
  "MarshalScrapeConfig C jobs s configs marshalSecretValue =
     (case yaml_Marshal C marshalSecretValue configs of
        Inl err \<Rightarrow> Inr (s, Some err)
      | Inr configBytes \<Rightarrow>
          (case YAMLToJSON C configBytes of
             Inl err \<Rightarrow> Inr (s, Some err)
           | Inr jsonConfig \<Rightarrow>
               go_bind (RemoveRegexFromRelabelAction C (jobs jsonConfig) jsonConfig) (\<lambda>r.
                 case r of
                   Inl err \<Rightarrow> Inr (s, Some err)
                 | Inr jsonConfigNew \<Rightarrow>
                     Inr (if marshalSecretValue then s\<lparr>ScrapeConfigMarshalledSecretResponse := Some jsonConfigNew\<rparr>
                          else s\<lparr>scrapeConfigResponse := Some jsonConfigNew\<rparr>, None))))"

definition Server_UpdateScrapeConfigResponse :: "'cfg codec \<Rightarrow> (string \<Rightarrow> string list) \<Rightarrow> Server \<Rightarrow> 'cfg \<Rightarrow> (Server \<times> string option) go" where
  "Server_UpdateScrapeConfigResponse C jobs s configs =
     go_bind (MarshalScrapeConfig C jobs s configs False) (\<lambda>(s, err).
       case err of
         Some e \<Rightarrow> Inr (s, Some e)
       | None \<Rightarrow> MarshalScrapeConfig C jobs s configs True)"

fun contains :: "string \<Rightarrow> string \<Rightarrow> bool" where
  "contains [] sub = (sub = [])"
| "contains (c # cs) sub = (take (length sub) (c # cs) = sub \<or> contains cs sub)"

record Request =
  Accept :: string
  TLS :: bool
  query_values :: "string \<Rightarrow> string list"
  job_id_param :: string

definition ReadinessProbeHandler :: "Server \<Rightarrow> response_write list" where
  "ReadinessProbeHandler s = [Status (if scrapeConfigResponse s \<noteq> None then StatusOK else StatusServiceUnavailable)]"

definition LivenessProbeHandler :: "response_write list" where
  "LivenessProbeHandler = [Status StatusOK]"

text \<open>A nil byte slice is written, and unmarshalled, as the empty string.\<close>

definition bytes_of :: "string option \<Rightarrow> string" where
  "bytes_of b = (case b of None \<Rightarrow> '''' | Some s \<Rightarrow> s)"

fun config_rows :: "'cfg codec \<Rightarrow> (string, any) gomap \<Rightarrow> string list \<Rightarrow> Cell list list \<Rightarrow> string + Cell list list" where
  "config_rows C m [] rows = Inr rows"
| "config_rows C m (job # jobs) rows =
     (case json_MarshalIndent C (any_get m job) of
        Inl err \<Rightarrow> Inl err
      | Inr txt \<Rightarrow> config_rows C m jobs (rows @ [[jobAnchorLink job, \<lparr>Link = '''', Text = txt, Preformatted = True\<rparr>]]))"

definition ScrapeConfigsHTMLHandler :: "'cfg codec \<Rightarrow> (string \<Rightarrow> string list) \<Rightarrow> Server \<Rightarrow> response_write list" where
  "ScrapeConfigsHTMLHandler C jobs s =
     html_headers @ [PageHeader ''OpenTelemetry Target Allocator - Scrape Configs''] @
     (case json_Unmarshal C (bytes_of (scrapeConfigResponse s)) of
        Inl err \<Rightarrow> errorHandler err
      | Inr scrapeConfigs \<Rightarrow>
          (case config_rows C scrapeConfigs (jobs (bytes_of (scrapeConfigResponse s))) [] of
             Inl err \<Rightarrow> errorHandler err @ [PropertiesTable [''Job'', ''Scrape Config''] [], PageFooter]
           | Inr rows \<Rightarrow> [PropertiesTable [''Job'', ''Scrape Config''] rows, PageFooter]))"

definition ScrapeConfigsHandler :: "'cfg codec \<Rightarrow> (string \<Rightarrow> string list) \<Rightarrow> Server \<Rightarrow> Request \<Rightarrow> response_write list" where
  "ScrapeConfigsHandler C jobs s r =
     (if contains (Accept r) ''text/html'' then ScrapeConfigsHTMLHandler C jobs s
      else let result = (if TLS r \<or> allowInsecureAuthSecrets s then ScrapeConfigMarshalledSecretResponse s else scrapeConfigResponse s)
           in [SetHeader ''Content-Type'' ''application/json'', RawBody (bytes_of result)])"

section \<open>Counting\<close>

text \<open>\<open>ord\<close> is the visiting order of the tracked targets, \<open>cord\<close> of the collectors.\<close>

definition tracked :: "'st allocator \<Rightarrow> ItemHash list \<Rightarrow> Item list" where
  "tracked a ord = List.map_filter (fmlookup (TargetItems a)) ord"

definition sortedTargetItems :: "labels_lib \<Rightarrow> 'st allocator \<Rightarrow> ItemHash list \<Rightarrow> Item list" where
  "sortedTargetItems L a ord = sort_key (Hash L) (tracked a ord)"

definition getScrapeConfigCount :: "'cfg codec \<Rightarrow> Server \<Rightarrow> nat" where
  "getScrapeConfigCount C s =
     (case json_Unmarshal C (bytes_of (scrapeConfigResponse s)) of Inl _ \<Rightarrow> 0 | Inr m \<Rightarrow> gomap_len m)"

definition getJobCount :: "'st allocator \<Rightarrow> ItemHash list \<Rightarrow> nat" where
  "getJobCount a ord = gomap_len (foldl (\<lambda>jobs v. fmupd (JobName v) () jobs) fmempty (tracked a ord))"

definition getJobCountForCollector :: "'st allocator \<Rightarrow> ItemHash list \<Rightarrow> string \<Rightarrow> nat" where
  "getJobCountForCollector a ord collector =
     gomap_len (foldl (\<lambda>jobs v. if CollectorName v = collector then fmupd (JobName v) () jobs else jobs) fmempty (tracked a ord))"

definition getTargetCountForCollector :: "'st allocator \<Rightarrow> ItemHash list \<Rightarrow> string \<Rightarrow> nat" where
  "getTargetCountForCollector a ord collector =
     foldl (\<lambda>count v. if CollectorName v = collector then count + 1 else count) 0 (tracked a ord)"

section \<open>Targets as JSON\<close>

definition targetJsonFromTargetItem :: "Item option \<Rightarrow> targetJSON go" where
  "targetJsonFromTargetItem item =
     (case item of None \<Rightarrow> Inl NilDeref | Some it \<Rightarrow> Inr \<lparr>tj_TargetURL = [TargetURL it], tj_Labels = Labels it\<rparr>)"

text \<open>\<open>hord\<close> gives the visiting order of the hash set of a collector and a job.\<close>

definition GetAllTargetsByCollectorAndJob :: "'st allocator \<Rightarrow> (string \<Rightarrow> string \<Rightarrow> ItemHash list) \<Rightarrow> string \<Rightarrow> string \<Rightarrow> targetJSON list go" where
  "GetAllTargetsByCollectorAndJob a hord collectorName jobName =
     mapM_go targetJsonFromTargetItem (GetTargetsForCollectorAndJob a (hord collectorName jobName) collectorName jobName)"

definition by_job_body :: "'st allocator \<Rightarrow> (string \<Rightarrow> string \<Rightarrow> ItemHash list) \<Rightarrow> string \<Rightarrow> (string, collectorJSON) gomap \<Rightarrow> string
    \<Rightarrow> (string, collectorJSON) gomap go" where
  "by_job_body a hord job displayData k =
     (case fmlookup (Collectors a) k of
        None \<Rightarrow> Inr displayData
      | Some col \<Rightarrow>
          go_bind (GetAllTargetsByCollectorAndJob a hord (Name col) job) (\<lambda>targets.
            Inr (fmupd (Name col) \<lparr>cj_Link = ''/debug/jobs/'' @ QueryEscape job @ ''/targets?collector_id='' @ Name col, cj_Jobs = targets\<rparr> displayData)))"

definition GetAllTargetsByJob :: "'st allocator \<Rightarrow> (string \<Rightarrow> string \<Rightarrow> ItemHash list) \<Rightarrow> string list \<Rightarrow> string \<Rightarrow> (string, collectorJSON) gomap go" where
  "GetAllTargetsByJob a hord cord job = foldM (by_job_body a hord job) fmempty cord"

fun escape_message :: "escape_error \<Rightarrow> string" where
  "escape_message (EscapeError s) = ''invalid URL escape '' @ s"

definition TargetsHandler :: "'st allocator \<Rightarrow> (string \<Rightarrow> string \<Rightarrow> ItemHash list) \<Rightarrow> string list \<Rightarrow> Request \<Rightarrow> response_write list go" where
  "TargetsHandler a hord cord r =
     (let q = query_values r ''collector_id''
      in case QueryUnescape (job_id_param r) of
           Inl err \<Rightarrow> Inr (errorHandler (escape_message err))
         | Inr jobId \<Rightarrow>
             (if q = [] then go_bind (GetAllTargetsByJob a hord cord jobId) (\<lambda>d. Inr (jsonHandler (CollectorTargets d)))
              else go_bind (GetAllTargetsByCollectorAndJob a hord (hd q) jobId) (\<lambda>targets. Inr (jsonHandler (TargetList targets)))))"

section \<open>Pages\<close>

definition JobsHTMLHandler :: "'st allocator \<Rightarrow> ItemHash list \<Rightarrow> response_write list" where
  "JobsHTMLHandler a ord =
     (let jobs = foldl (\<lambda>jobs v. fmupd (JobName v) (get0 0 jobs (JobName v) + 1) jobs) fmempty (tracked a ord);
          jobNames = sorted_list_of_set (fmdom' jobs)
      in html_headers @
         [PageHeader ''OpenTelemetry Target Allocator - Jobs'',
          PropertiesTable [''Job'', ''Target Count''] (map (\<lambda>j. [jobAnchorLink j, NewCell (itoa (get0 0 jobs j))]) jobNames),
          PageFooter])"

definition JobsHandler :: "'st allocator \<Rightarrow> ItemHash list \<Rightarrow> Request \<Rightarrow> response_write list" where
  "JobsHandler a ord r =
     (let displayData = foldl (\<lambda>d v. fmupd (JobName v) (''/jobs/'' @ QueryEscape (JobName v) @ ''/targets'') d) fmempty (tracked a ord)
      in if contains (Accept r) ''text/html'' then JobsHTMLHandler a ord else jsonHandler (JobLinks displayData))"

definition IndexHandler :: "'cfg codec \<Rightarrow> Server \<Rightarrow> 'st allocator \<Rightarrow> ItemHash list \<Rightarrow> string list \<Rightarrow> response_write list" where
  "IndexHandler C s a ord cord =
     [SetHeader ''Content-Type'' ''text/html'', PageHeader ''OpenTelemetry Target Allocator'',
      PropertiesTable [''Category'', ''Count'']
        [[scrapeConfigAnchorLink, NewCell (itoa (getScrapeConfigCount C s))],
         [jobsAnchorLink, NewCell (itoa (getJobCount a ord))],
         [targetsAnchorLink, NewCell (itoa (gomap_len (TargetItems a)))]],
      PropertiesTable [''Collector'', ''Job Count'', ''Target Count'']
        (map (\<lambda>colName. [collectorAnchorLink colName, NewCell (itoa (getJobCountForCollector a ord colName)),
                          NewCell (itoa (getTargetCountForCollector a ord colName))]) (sort cord)),
      PageFooter]"

definition TargetsHTMLHandler :: "labels_lib \<Rightarrow> 'st allocator \<Rightarrow> ItemHash list \<Rightarrow> response_write list" where
  "TargetsHTMLHandler L a ord =
     html_headers @
     [PageHeader ''OpenTelemetry Target Allocator - Targets'',
      PropertiesTable [''Job'', ''Target'', ''Collector'', ''Endpoint Slice'']
        (map (\<lambda>v. [jobAnchorLink (JobName v), targetAnchorLink L v, collectorAnchorLink (CollectorName v), NewCell (GetEndpointSliceName L v)])
          (sortedTargetItems L a ord)),
      PageFooter]"

definition target_rows :: "labels_lib \<Rightarrow> Item \<Rightarrow> Cell list list" where
  "target_rows L t =
     [[NewCell ''Collector'', collectorAnchorLink (CollectorName t)],
      [NewCell ''Job'', jobAnchorLink (JobName t)],
      [NewCell ''Namespace'', NewCell (labels_Get L (Labels t) ''__meta_kubernetes_namespace'')],
      [NewCell ''Service Name'', NewCell (labels_Get L (Labels t) ''__meta_kubernetes_service_name'')],
      [NewCell ''Service Port'', NewCell (labels_Get L (Labels t) ''__meta_kubernetes_service_port'')],
      [NewCell ''Pod Name'', NewCell (labels_Get L (Labels t) ''__meta_kubernetes_pod_name'')],
      [NewCell ''Container Name'', NewCell (labels_Get L (Labels t) ''__meta_kubernetes_pod_container_name'')],
      [NewCell ''Container Port Name'', NewCell (labels_Get L (Labels t) ''__meta_kubernetes_pod_container_port_name'')],
      [NewCell ''Node Name'', NewCell (GetNodeName L t)],
      [NewCell ''Endpoint Slice Name'', NewCell (GetEndpointSliceName L t)]]"

definition target_page :: "labels_lib \<Rightarrow> Item \<Rightarrow> response_write list" where
  "target_page L t =
     [PageHeader (''Target: '' @ TargetURL t), PropertiesTable ['''', ''''] (target_rows L t),
      PropertiesTable [''Label'', ''Value''] (map (\<lambda>(n, v). [NewCell n, NewCell v]) (Labels t)),
      PageFooter]"

definition first_value :: "string list \<Rightarrow> string" where
  "first_value vs = (case vs of [] \<Rightarrow> '''' | v # _ \<Rightarrow> v)"

text \<open>The branch for a hash that is not a number does not return.\<close>

definition TargetHTMLHandler :: "labels_lib \<Rightarrow> 'st allocator \<Rightarrow> Request \<Rightarrow> response_write list" where
  "TargetHTMLHandler L a r =
     (let targetHashStr = first_value (query_values r ''target_hash'')
      in html_headers @
         (if targetHashStr = '''' \<or> targetHashStr = ''0''
          then [Status StatusBadRequest, BadRequestPage ''Expected target_hash in the query string'' ''/debug/target?target_hash=my-target-42'']
          else
            let (targetHash, err) = ParseUint targetHashStr
            in (if err \<noteq> None
                then [Status StatusBadRequest, BadRequestPage ''Expected target_hash to be a number'' ''/debug/target?target_hash=42'']
                else []) @
               (case fmlookup (TargetItems a) targetHash of
                  None \<Rightarrow> [Status StatusNotFound, NotFoundPage ''Target'' targetHashStr]
                | Some t \<Rightarrow> target_page L t)))"

definition JobHTMLHandler :: "'st allocator \<Rightarrow> ItemHash list \<Rightarrow> string list \<Rightarrow> Request \<Rightarrow> response_write list" where
  "JobHTMLHandler a ord cord r =
     html_headers @
     (case query_values r ''job_id'' of
        [jobId] \<Rightarrow>
          (let targets = filter (\<lambda>v. JobName v = jobId) (tracked a ord);
               collectorNames = sort (List.map_filter (\<lambda>k. map_option Name (fmlookup (Collectors a) k)) cord)
           in [PageHeader (''Job: '' @ jobId),
               PropertiesTable [''Collector'', ''Target Count'']
                 (map (\<lambda>colName. [collectorAnchorLink colName,
                    NewCell (itoa (length (filter (\<lambda>t. CollectorName t = colName) targets)))]) collectorNames),
               PageFooter])
      | _ \<Rightarrow> [Status StatusBadRequest])"

definition CollectorHTMLHandler :: "labels_lib \<Rightarrow> 'st allocator \<Rightarrow> ItemHash list \<Rightarrow> string list \<Rightarrow> Request \<Rightarrow> response_write list" where
  "CollectorHTMLHandler L a ord cord r =
     (let collectorId = (case query_values r ''collector_id'' of [c] \<Rightarrow> c | _ \<Rightarrow> '''')
      in html_headers @
         (if collectorId = '''' then
            [Status StatusBadRequest, BadRequestPage ''Expected collector_id in the query string'' ''/debug/collector?collector_id=my-collector-42'']
          else if \<not> (\<exists>k \<in> set cord. map_option Name (fmlookup (Collectors a) k) = Some collectorId) then
            [Status StatusNotFound, NotFoundPage ''Collector'' collectorId]
          else
            [PageHeader (''Collector: '' @ collectorId),
             PropertiesTable [''Job'', ''Target'', ''Endpoint Slice'']
               (map (\<lambda>v. [jobAnchorLink (JobName v), targetAnchorLink L v, NewCell (GetEndpointSliceName L v)])
                 (filter (\<lambda>v. CollectorName v = collectorId) (sortedTargetItems L a ord))),
             PageFooter]))"

end
