(* ===== verification/ServerProps.thy ===== *)
theory ServerProps
  imports Server
begin

text \<open>
  Properties of the HTTP server: what it hands to the collectors, which secrets it gives away,
  and that the links of its pages lead where they say.
\<close>

section \<open>Lemmas\<close>

lemma tracked_items:
  assumes "enum ord (targetItems a)"
  shows "set (tracked a ord) = {it. \<exists>h. fmlookup (targetItems a) h = Some it}"
proof -
  have "it \<in> set (tracked a ord) \<longleftrightarrow> (\<exists>h. fmlookup (targetItems a) h = Some it)" for it
    using enum_mem [OF assms] unfolding tracked_def TargetItems_def List.map_filter_def
    by (force simp: image_iff)
  then show ?thesis by auto
qed

lemma tracked_distinct:
  assumes "enum ord (targetItems a)" "core_inv L a"
  shows "distinct (tracked a ord)"
proof -
  have "inj_on (\<lambda>h. the (fmlookup (targetItems a) h)) (set ord)"
  proof (rule inj_onI)
    fix x y
    assume "x \<in> set ord" "y \<in> set ord" and eq: "the (fmlookup (targetItems a) x) = the (fmlookup (targetItems a) y)"
    then obtain i j where ij: "fmlookup (targetItems a) x = Some i" "fmlookup (targetItems a) y = Some j"
      using enum_mem [OF assms(1)] by auto
    with eq have "i = j" by simp
    with core_hash [OF assms(2) ij(1)] core_hash [OF assms(2) ij(2)] show "x = y" by simp
  qed
  moreover have "tracked a ord = map (\<lambda>h. the (fmlookup (targetItems a) h)) ord"
    using enum_mem [OF assms(1)] unfolding tracked_def TargetItems_def List.map_filter_def
    by (simp add: o_def filter_id_conv)
  ultimately show ?thesis using assms(1) by (simp add: enum_def distinct_map)
qed

lemma count_foldl: "foldl (\<lambda>count v. if P v then count + 1 else count) (n :: nat) xs = n + length (filter P xs)"
  by (induction xs arbitrary: n) auto

lemma keys_foldl: "fmdom' (foldl (\<lambda>m v. if P v then fmupd (f v) () m else m) m xs) = fmdom' m \<union> f ` {v \<in> set xs. P v}"
  by (induction xs arbitrary: m) auto

lemma gomap_len_card: "gomap_len m = card (fmdom' m)"
  by (simp add: gomap_len_def fcard.rep_eq fmdom'_alt_def)

lemma collector_hashes:
  assumes "core_inv L a"
  shows "card {it. (\<exists>h. fmlookup (targetItems a) h = Some it) \<and> CollectorName it = n} = card (items_of (targetItems a) n)"
proof (rule bij_betw_same_card [of "Hash L"], rule bij_betwI')
  fix x y
  assume "x \<in> {it. (\<exists>h. fmlookup (targetItems a) h = Some it) \<and> CollectorName it = n}"
    "y \<in> {it. (\<exists>h. fmlookup (targetItems a) h = Some it) \<and> CollectorName it = n}"
  then obtain h k where "fmlookup (targetItems a) h = Some x" "fmlookup (targetItems a) k = Some y" by blast
  with core_hash [OF assms] show "(Hash L x = Hash L y) = (x = y)" by (metis option.inject)
next
  fix x
  assume "x \<in> {it. (\<exists>h. fmlookup (targetItems a) h = Some it) \<and> CollectorName it = n}"
  then obtain h where "fmlookup (targetItems a) h = Some x" "CollectorName x = n" by blast
  with core_hash [OF assms] show "Hash L x \<in> items_of (targetItems a) n" by (auto simp: items_of_def)
next
  fix h
  assume "h \<in> items_of (targetItems a) n"
  then obtain it where "fmlookup (targetItems a) h = Some it" "CollectorName it = n" by (auto simp: items_of_def)
  with core_hash [OF assms] show "\<exists>x \<in> {it. (\<exists>h. fmlookup (targetItems a) h = Some it) \<and> CollectorName it = n}. h = Hash L x" by blast
qed


subsection \<open>Regex removal\<close>

definition equal_action :: "(string, any) gomap \<Rightarrow> bool" where
  "equal_action m \<longleftrightarrow> any_get m ''action'' = AStr ''keepequal'' \<or> any_get m ''action'' = AStr ''dropequal''"

fun clean_rule :: "any \<Rightarrow> any" where
  "clean_rule (AMap m) = AMap (if equal_action m then fmdrop ''regex'' m else m)"
| "clean_rule v = v"

text \<open>The shape of a configuration that Prometheus marshals: lists of rule objects, or no list.\<close>

definition rules_typed :: "(string, any) gomap \<Rightarrow> string \<Rightarrow> bool" where
  "rules_typed sc key \<longleftrightarrow> any_get sc key = ANil \<or> (\<exists>ms. any_get sc key = AList (map AMap ms))"

definition config_typed :: "(string, any) gomap \<Rightarrow> bool" where
  "config_typed m \<longleftrightarrow> (\<forall>job v. fmlookup m job = Some v \<longrightarrow>
     (\<exists>sc. v = AMap sc \<and> rules_typed sc ''relabel_configs'' \<and> rules_typed sc ''metric_relabel_configs''))"

definition clean_key :: "string \<Rightarrow> (string, any) gomap \<Rightarrow> (string, any) gomap" where
  "clean_key key sc = (case any_get sc key of AList xs \<Rightarrow> fmupd key (AList (map clean_rule xs)) sc | _ \<Rightarrow> sc)"

definition clean_config :: "(string, any) gomap \<Rightarrow> (string, any) gomap" where
  "clean_config sc = clean_key ''metric_relabel_configs'' (clean_key ''relabel_configs'' sc)"

lemma drop_regex_in_typed: "rules_typed sc key \<Longrightarrow> drop_regex_in key sc = Inr (clean_key key sc)"
proof -
  assume t: "rules_typed sc key"
  have "mapM_go drop_regex (map AMap ms) = Inr (map clean_rule (map AMap ms))" for ms
    by (rule mapM_go_all) (auto simp: drop_regex_def equal_action_def)
  with t show ?thesis by (auto simp: rules_typed_def drop_regex_in_def clean_key_def)
qed

lemma rules_typed_clean: "key \<noteq> key' \<Longrightarrow> rules_typed sc key \<Longrightarrow> rules_typed (clean_key key' sc) key"
  by (auto simp: rules_typed_def clean_key_def any_get_def get0_def split: any.splits)

definition clean_job :: "any \<Rightarrow> any" where
  "clean_job v = (case v of AMap sc \<Rightarrow> AMap (clean_config sc) | _ \<Rightarrow> v)"

lemma drop_regex_jobs:
  assumes "config_typed m" "distinct jobs"
  shows "\<exists>m'. foldM drop_regex_job m jobs = Inr m' \<and>
    (\<forall>job. fmlookup m' job = (if job \<in> set jobs then map_option clean_job (fmlookup m job) else fmlookup m job))"
  using assms
proof (induction jobs rule: rev_induct)
  case (snoc j jobs)
  then obtain m1 where m1: "foldM drop_regex_job m jobs = Inr m1"
    "\<And>job. fmlookup m1 job = (if job \<in> set jobs then map_option clean_job (fmlookup m job) else fmlookup m job)" by auto
  have j: "fmlookup m1 j = fmlookup m j" using m1(2) [of j] snoc.prems(2) by simp
  obtain m2 where m2: "drop_regex_job m1 j = Inr m2"
    "\<And>job. fmlookup m2 job = (if job = j then map_option clean_job (fmlookup m job) else fmlookup m1 job)"
  proof (cases "fmlookup m j")
    case None
    then show ?thesis using that [of m1] j by (simp add: drop_regex_job_def)
  next
    case (Some v)
    with snoc.prems(1) obtain sc where sc: "v = AMap sc" "rules_typed sc ''relabel_configs''" "rules_typed sc ''metric_relabel_configs''"
      by (auto simp: config_typed_def)
    have "drop_regex_job m1 j = Inr (fmupd j (AMap (clean_config sc)) m1)"
      using Some j sc drop_regex_in_typed [OF sc(2)]
        drop_regex_in_typed [OF rules_typed_clean [OF _ sc(3), of "''relabel_configs''"]]
      by (simp add: drop_regex_job_def clean_config_def)
    then show ?thesis by (rule that) (use Some sc(1) in \<open>simp add: clean_job_def\<close>)
  qed
  have "foldM drop_regex_job m (jobs @ [j]) = Inr m2" using m1(1) m2(1) by (simp add: foldM_append)
  moreover have "fmlookup m2 job = (if job \<in> set (jobs @ [j]) then map_option clean_job (fmlookup m job) else fmlookup m job)" for job
    using m1(2) [of job] m2(2) [of job] by simp
  ultimately show ?case by blast
qed simp

lemma clean_key_other: "k \<noteq> key \<Longrightarrow> fmlookup (clean_key key sc) k = fmlookup sc k"
  by (auto simp: clean_key_def split: any.splits)

lemma clean_key_rules: "fmlookup (clean_key key sc) key = Some (AList ys) \<Longrightarrow>
    \<exists>xs. fmlookup sc key = Some (AList xs) \<and> ys = map clean_rule xs"
  by (auto simp: clean_key_def any_get_def get0_def split: any.splits option.splits)

lemma clean_config_rules:
  assumes "key \<in> {''relabel_configs'', ''metric_relabel_configs''}" "fmlookup (clean_config sc) key = Some (AList ys)"
  shows "\<exists>xs. fmlookup sc key = Some (AList xs) \<and> ys = map clean_rule xs"
proof (cases "key = ''relabel_configs''")
  case True
  with assms(2) have "fmlookup (clean_key key sc) key = Some (AList ys)" by (simp add: clean_config_def clean_key_other)
  from clean_key_rules [OF this] show ?thesis .
next
  case False
  with assms have "fmlookup (clean_key key (clean_key ''relabel_configs'' sc)) key = Some (AList ys)" by (simp add: clean_config_def)
  from clean_key_rules [OF this] False show ?thesis by (simp add: clean_key_other)
qed

lemma clean_rule_equal: "clean_rule x = AMap m \<Longrightarrow> equal_action m \<Longrightarrow> fmlookup m ''regex'' = None"
  by (cases x) (auto simp: equal_action_def any_get_def get0_def split: if_splits)

subsection \<open>Runs of the response updater\<close>







section \<open>Properties\<close>




text \<open>
  The counts that the index page shows are those of the allocator: on a reachable
  allocator the target count of a collector is its \<open>NumTargets\<close> and its job count the number of
  jobs in its \<open>TargetsPerJob\<close>, in whatever order the targets are visited.
\<close>

theorem index_counts_agree:
  assumes "started name opts s a0" "locate_ok locate" "reachable L (ops_of L locate s) a0 a"
    and "enum ord (TargetItems a)" "fmlookup (Collectors a) n = Some c"
  shows "int (getTargetCountForCollector a ord n) = NumTargets c \<and>
    getJobCountForCollector a ord n = gomap_len (TargetsPerJob c)"
proof
  have core: "core_inv L a" using run_inv(1) [OF assms(1-3)] by (simp add: alloc_inv_def)
  have ord: "enum ord (targetItems a)" and c: "fmlookup (collectors a) n = Some c"
    using assms(4,5) by (simp_all add: TargetItems_def Collectors_def)
  note cnt = countsD [OF core_invD(6) [OF core] c]
  have items: "set (filter (\<lambda>v. CollectorName v = n) (tracked a ord)) = {it. (\<exists>h. fmlookup (targetItems a) h = Some it) \<and> CollectorName it = n}"
    using tracked_items [OF ord] by auto
  have "getTargetCountForCollector a ord n = length (filter (\<lambda>v. CollectorName v = n) (tracked a ord))"
    by (simp add: getTargetCountForCollector_def count_foldl)
  also have "\<dots> = card (set (filter (\<lambda>v. CollectorName v = n) (tracked a ord)))"
    by (rule distinct_card [symmetric]) (simp add: tracked_distinct [OF ord core])
  also have "\<dots> = card (items_of (targetItems a) n)" unfolding items by (rule collector_hashes [OF core])
  finally show "int (getTargetCountForCollector a ord n) = NumTargets c" using cnt(1) by simp
  have "fmdom' (TargetsPerJob c) = JobName ` {v \<in> set (tracked a ord). CollectorName v = n}"
  proof (intro equalityI subsetI)
    fix j assume "j \<in> fmdom' (TargetsPerJob c)"
    then have "job_items (targetItems a) n j \<noteq> {}" using cnt(2) [of j] by (auto simp: mem_fmdom' count_opt_def split: if_splits)
    then obtain it h where "fmlookup (targetItems a) h = Some it" "CollectorName it = n" "JobName it = j" by (auto simp: job_items_def)
    then show "j \<in> JobName ` {v \<in> set (tracked a ord). CollectorName v = n}" using tracked_items [OF ord] by force
  next
    fix j assume "j \<in> JobName ` {v \<in> set (tracked a ord). CollectorName v = n}"
    then obtain it h where "fmlookup (targetItems a) h = Some it" "CollectorName it = n" "JobName it = j"
      using tracked_items [OF ord] by auto
    then have "h \<in> job_items (targetItems a) n j" by (auto simp: job_items_def)
    then have "card (job_items (targetItems a) n j) \<noteq> 0" by auto
    then show "j \<in> fmdom' (TargetsPerJob c)" using cnt(2) [of j] by (simp add: mem_fmdom' count_opt_def)
  qed
  then show "getJobCountForCollector a ord n = gomap_len (TargetsPerJob c)"
    using keys_foldl [of "\<lambda>v. CollectorName v = n" JobName fmempty "tracked a ord"]
    by (simp add: getJobCountForCollector_def gomap_len_card)
qed

theorem index_counts_agree_witness:
  "int (getTargetCountForCollector (demo_a2 PerNode) [7] ''c1'') = 1"
  using index_counts_agree [OF demo_started demo_locate_ok demo_reachable, of "[7]" PerNode "''c1''"]
  by (simp add: TargetItems_def Collectors_def demo_a2_fields enum_def recount_def NewCollector_def)

text \<open>
  The link of a target's cell leads to the page of that target: the hash printed in decimal is
  read back as the same 64-bit number, and on a reachable allocator the page shown is the one of the
  target, unless its hash is 0, which the page rejects. A hash that is not a number is answered
  twice: the bad-request page is followed by the page or the not-found page of the number that
  \<open>ParseUint\<close> returns with its error.
\<close>

theorem target_link:
  assumes "started name opts s a0" "locate_ok locate" "reachable L (ops_of L locate s) a0 a"
    and "fmlookup (TargetItems a) h = Some t"
  shows "Link (targetAnchorLink L t) = ''/debug/target?target_hash='' @ ItemHash_String h \<and>
    (query_values r ''target_hash'' = [ItemHash_String h] \<longrightarrow>
      TargetHTMLHandler L a r =
        html_headers @ (if h = 0 then [Status 400, BadRequestPage ''Expected target_hash in the query string'' ''/debug/target?target_hash=my-target-42'']
                        else target_page L t)) \<and>
    (\<forall>str others n e. query_values r ''target_hash'' = str # others \<longrightarrow> str \<noteq> '''' \<longrightarrow> ParseUint str = (n, Some e) \<longrightarrow>
      (\<exists>rest. TargetHTMLHandler L a r =
        html_headers @ [Status 400, BadRequestPage ''Expected target_hash to be a number'' ''/debug/target?target_hash=42''] @ rest \<and>
        rest = (case fmlookup (TargetItems a) n of None \<Rightarrow> [Status 404, NotFoundPage ''Target'' str] | Some t' \<Rightarrow> target_page L t')))"
proof (intro conjI impI allI)
  have "core_inv L a" using run_inv(1) [OF assms(1-3)] by (simp add: alloc_inv_def)
  then have hash: "Hash L t = h" using core_hash assms(4) by (simp add: TargetItems_def)
  then show "Link (targetAnchorLink L t) = ''/debug/target?target_hash='' @ ItemHash_String h"
    by (simp add: targetAnchorLink_def)
  have zero: "ItemHash_String h = ''0'' \<longleftrightarrow> h = 0" by (simp add: ItemHash_String_def format_zero unat_eq_0)
  show "TargetHTMLHandler L a r = html_headers @ (if h = 0 then [Status 400, BadRequestPage ''Expected target_hash in the query string'' ''/debug/target?target_hash=my-target-42'']
                        else target_page L t)" if "query_values r ''target_hash'' = [ItemHash_String h]"
    using that assms(4) zero format_uint_ne [of "unat h"]
    by (simp add: TargetHTMLHandler_def first_value_def ParseUint_String StatusBadRequest_def ItemHash_String_def [of h, symmetric])
next
  fix str others n e
  assume a: "query_values r ''target_hash'' = str # others" "str \<noteq> ''''" "ParseUint str = (n, Some e)"
  have "ParseUint ''0'' = (0, None)" by (simp add: ParseUint_def)
  with a have "str \<noteq> ''0''" by auto
  with a show "\<exists>rest. TargetHTMLHandler L a r =
        html_headers @ [Status 400, BadRequestPage ''Expected target_hash to be a number'' ''/debug/target?target_hash=42''] @ rest \<and>
        rest = (case fmlookup (TargetItems a) n of None \<Rightarrow> [Status 404, NotFoundPage ''Target'' str] | Some t' \<Rightarrow> target_page L t')"
    by (simp add: TargetHTMLHandler_def first_value_def StatusBadRequest_def StatusNotFound_def split: option.split)
qed

theorem target_link_witness:
  "TargetHTMLHandler demo_lib (demo_a2 PerNode) \<lparr>Accept = '''', TLS = False, query_values = (\<lambda>_. [ItemHash_String 7]), job_id_param = ''''\<rparr> =
     html_headers @ target_page demo_lib (demo_item\<lparr>CollectorName := ''c1''\<rparr>)"
  using target_link [OF demo_started demo_locate_ok demo_reachable, of PerNode 7 "demo_item\<lparr>CollectorName := ''c1''\<rparr>"
      "\<lparr>Accept = '''', TLS = False, query_values = (\<lambda>_. [ItemHash_String 7]), job_id_param = ''''\<rparr>"]
  by (simp add: TargetItems_def demo_a2_fields)

text \<open>
  On a configuration of the shape that Prometheus marshals, the regex removal does not fault
  in any visiting order: every job is still there, in both rule lists exactly the \<open>regex\<close> entries
  of \<open>keepequal\<close> and \<open>dropequal\<close> rules are gone, the other rules and all other settings
  are unchanged.
\<close>

theorem regex_removed:
  assumes "config_typed m" "enum jobs m"
  shows "\<exists>m'. foldM drop_regex_job m jobs = Inr m' \<and> fmdom' m' = fmdom' m \<and>
    (\<forall>job sc'. fmlookup m' job = Some (AMap sc') \<longrightarrow> (\<exists>sc. fmlookup m job = Some (AMap sc) \<and>
       (\<forall>key. key \<notin> {''relabel_configs'', ''metric_relabel_configs''} \<longrightarrow> fmlookup sc' key = fmlookup sc key) \<and>
       (\<forall>key ys. key \<in> {''relabel_configs'', ''metric_relabel_configs''} \<longrightarrow> fmlookup sc' key = Some (AList ys) \<longrightarrow>
          (\<exists>xs. fmlookup sc key = Some (AList xs) \<and> ys = map clean_rule xs \<and>
            (\<forall>r. AMap r \<in> set ys \<longrightarrow> equal_action r \<longrightarrow> fmlookup r ''regex'' = None)))))"
proof -
  have d: "distinct jobs" using assms(2) by (simp add: enum_def)
  from drop_regex_jobs [OF assms(1) d] obtain m' where m': "foldM drop_regex_job m jobs = Inr m'"
    "\<And>job. fmlookup m' job = (if job \<in> set jobs then map_option clean_job (fmlookup m job) else fmlookup m job)" by blast
  have look: "fmlookup m' job = map_option clean_job (fmlookup m job)" for job
    using m'(2) [of job] enum_mem [OF assms(2), of job] by auto
  have dom: "fmdom' m' = fmdom' m" by (auto simp: mem_fmdom' look)
  have orig: "\<exists>sc. fmlookup m job = Some (AMap sc) \<and> sc' = clean_config sc" if r: "fmlookup m' job = Some (AMap sc')" for job sc'
  proof -
    obtain v where v: "fmlookup m job = Some v" "clean_job v = AMap sc'"
      using r unfolding look by (cases "fmlookup m job") auto
    then show ?thesis by (cases v) (auto simp: clean_job_def)
  qed
  have other: "fmlookup (clean_config sc) key = fmlookup sc key" if "key \<notin> {''relabel_configs'', ''metric_relabel_configs''}" for key sc
    using that by (simp add: clean_config_def clean_key_other)
  have rules: "\<exists>xs. fmlookup sc key = Some (AList xs) \<and> ys = map clean_rule xs \<and>
      (\<forall>r. AMap r \<in> set ys \<longrightarrow> equal_action r \<longrightarrow> fmlookup r ''regex'' = None)"
    if "key \<in> {''relabel_configs'', ''metric_relabel_configs''}" "fmlookup (clean_config sc) key = Some (AList ys)" for key ys sc
  proof -
    from clean_config_rules [OF that] obtain xs where xs: "fmlookup sc key = Some (AList xs)" "ys = map clean_rule xs" by blast
    have "fmlookup r ''regex'' = None" if r: "AMap r \<in> set ys" "equal_action r" for r
    proof -
      obtain x where "clean_rule x = AMap r" using r(1) xs(2) by auto
      from clean_rule_equal [OF this r(2)] show ?thesis .
    qed
    with xs show ?thesis by blast
  qed
  have "\<exists>sc. fmlookup m job = Some (AMap sc) \<and>
       (\<forall>key. key \<notin> {''relabel_configs'', ''metric_relabel_configs''} \<longrightarrow> fmlookup sc' key = fmlookup sc key) \<and>
       (\<forall>key ys. key \<in> {''relabel_configs'', ''metric_relabel_configs''} \<longrightarrow> fmlookup sc' key = Some (AList ys) \<longrightarrow>
          (\<exists>xs. fmlookup sc key = Some (AList xs) \<and> ys = map clean_rule xs \<and>
            (\<forall>r. AMap r \<in> set ys \<longrightarrow> equal_action r \<longrightarrow> fmlookup r ''regex'' = None)))"
    if "fmlookup m' job = Some (AMap sc')" for job sc'
  proof -
    from orig [OF that] obtain sc where sc: "fmlookup m job = Some (AMap sc)" "sc' = clean_config sc" by blast
    show ?thesis unfolding sc(2) using sc(1) other rules by (intro exI [of _ sc] conjI allI impI)
  qed
  with m'(1) dom show ?thesis by blast
qed

definition demo_rule :: "(string, any) gomap" where
  "demo_rule = fmupd ''action'' (AStr ''keepequal'') (fmupd ''regex'' (AStr ''(.*)'') fmempty)"

definition demo_config :: "(string, any) gomap" where
  "demo_config = fmupd ''job'' (AMap (fmupd ''relabel_configs'' (AList [AMap demo_rule]) fmempty)) fmempty"

theorem regex_removed_witness:
  "\<exists>m'. foldM drop_regex_job demo_config [''job''] = Inr m' \<and> fmdom' m' = {''job''}"
proof -
  have "rules_typed (fmupd ''relabel_configs'' (AList [AMap demo_rule]) fmempty) ''relabel_configs''"
    by (simp add: rules_typed_def any_get_def get0_def) (metis list.simps(8,9))
  then have "config_typed demo_config"
    by (simp add: config_typed_def demo_config_def rules_typed_def any_get_def get0_def)
  moreover have "enum [''job''] demo_config" by (simp add: enum_def demo_config_def)
  ultimately show ?thesis using regex_removed [of demo_config "[''job'']"] by (auto simp: demo_config_def)
qed





end
