(* ===== verification/TAConfig.thy ===== *)
theory TAConfig
  imports ServerProps
begin

text \<open>
  Configuration of the target allocator: \<open>otel-allocator/internal/config/config.go\<close>,
  \<open>flags.go\<close> and \<open>ca_reloader.go\<close>.

  The flag library, the Kubernetes client configuration, the YAML decoder with its mapstructure
  hooks and the X.509 library are parameters. \<open>'sc\<close> is the type of a scrape configuration of the
  file, \<open>'sel\<close> of a label selector, \<open>'cl\<close> of a cluster configuration.
\<close>

section \<open>Flags\<close>

record flag_set =
  flag_Changed :: "string \<Rightarrow> bool"
  flag_GetString :: "string \<Rightarrow> string + string"
  flag_GetBool :: "string \<Rightarrow> string + bool"

definition configFilePathFlagName :: string where "configFilePathFlagName = ''config-file''"
definition listenAddrFlagName :: string where "listenAddrFlagName = ''listen-addr''"
definition prometheusCREnabledFlagName :: string where "prometheusCREnabledFlagName = ''enable-prometheus-cr-watcher''"
definition kubeConfigPathFlagName :: string where "kubeConfigPathFlagName = ''kubeconfig-path''"
definition httpsEnabledFlagName :: string where "httpsEnabledFlagName = ''enable-https-server''"
definition listenAddrHttpsFlagName :: string where "listenAddrHttpsFlagName = ''listen-addr-https''"
definition httpsCAFilePathFlagName :: string where "httpsCAFilePathFlagName = ''https-ca-file''"
definition httpsTLSCertFilePathFlagName :: string where "httpsTLSCertFilePathFlagName = ''https-tls-cert-file''"
definition httpsTLSKeyFilePathFlagName :: string where "httpsTLSKeyFilePathFlagName = ''https-tls-key-file''"
definition allowInsecureAuthSecretsFlagName :: string where "allowInsecureAuthSecretsFlagName = ''allow-insecure-auth-secrets''"

text \<open>The value and whether the flag was given, or the error.\<close>

definition getFlagValueAndChangedString :: "flag_set \<Rightarrow> string \<Rightarrow> string + string \<times> bool" where
  "getFlagValueAndChangedString fs flagName =
     (if \<not> flag_Changed fs flagName then Inr ('''', False)
      else map_sum id (\<lambda>v. (v, True)) (flag_GetString fs flagName))"

definition getFlagValueAndChangedBool :: "flag_set \<Rightarrow> string \<Rightarrow> string + bool \<times> bool" where
  "getFlagValueAndChangedBool fs flagName =
     (if \<not> flag_Changed fs flagName then Inr (False, False)
      else map_sum id (\<lambda>v. (v, True)) (flag_GetBool fs flagName))"

definition getConfigFilePath :: "flag_set \<Rightarrow> string + string" where
  "getConfigFilePath fs = flag_GetString fs configFilePathFlagName"

definition getKubeConfigFilePath :: "flag_set \<Rightarrow> string + string \<times> bool" where
  "getKubeConfigFilePath fs = getFlagValueAndChangedString fs kubeConfigPathFlagName"

definition getListenAddr :: "flag_set \<Rightarrow> string + string \<times> bool" where
  "getListenAddr fs = getFlagValueAndChangedString fs listenAddrFlagName"

definition getPrometheusCREnabled :: "flag_set \<Rightarrow> string + bool \<times> bool" where
  "getPrometheusCREnabled fs = getFlagValueAndChangedBool fs prometheusCREnabledFlagName"

definition getHttpsListenAddr :: "flag_set \<Rightarrow> string + string \<times> bool" where
  "getHttpsListenAddr fs = getFlagValueAndChangedString fs listenAddrHttpsFlagName"

definition getHttpsEnabled :: "flag_set \<Rightarrow> string + bool \<times> bool" where
  "getHttpsEnabled fs = getFlagValueAndChangedBool fs httpsEnabledFlagName"

definition getHttpsCAFilePath :: "flag_set \<Rightarrow> string + string \<times> bool" where
  "getHttpsCAFilePath fs = getFlagValueAndChangedString fs httpsCAFilePathFlagName"

definition getHttpsTLSCertFilePath :: "flag_set \<Rightarrow> string + string \<times> bool" where
  "getHttpsTLSCertFilePath fs = getFlagValueAndChangedString fs httpsTLSCertFilePathFlagName"

definition getHttpsTLSKeyFilePath :: "flag_set \<Rightarrow> string + string \<times> bool" where
  "getHttpsTLSKeyFilePath fs = getFlagValueAndChangedString fs httpsTLSKeyFilePathFlagName"

definition getAllowInsecureAuthSecrets :: "flag_set \<Rightarrow> string + bool \<times> bool" where
  "getAllowInsecureAuthSecrets fs = getFlagValueAndChangedBool fs allowInsecureAuthSecretsFlagName"

section \<open>The configuration\<close>

record HTTPSServerConfig =
  https_Enabled :: bool
  https_ListenAddr :: string
  CAFilePath :: string
  TLSCertFilePath :: string
  TLSKeyFilePath :: string

record 'sel PrometheusCRConfig =
  cr_Enabled :: bool
  AllowNamespaces :: "string list"
  DenyNamespaces :: "string list"
  SecretsAccessNamespaces :: "string list"
  PodMonitorSelector :: "'sel option"
  PodMonitorNamespaceSelector :: "'sel option"
  ServiceMonitorSelector :: "'sel option"
  ServiceMonitorNamespaceSelector :: "'sel option"
  ScrapeConfigSelector :: "'sel option"
  ScrapeConfigNamespaceSelector :: "'sel option"
  ProbeSelector :: "'sel option"
  ProbeNamespaceSelector :: "'sel option"
  cr_ScrapeInterval :: int
  cr_EvaluationInterval :: int
  ScrapeProtocols :: "string list"
  DenyFSAccessThroughSMs :: bool

record ('sc, 'sel, 'cl) Config =
  ListenAddr :: string
  KubeConfigFilePath :: string
  ClusterConfig :: "'cl option"
  CollectorSelector :: "'sel option"
  CollectorNamespace :: string
  PromConfig :: "'sc list option"
  AllocationStrategy :: string
  AllocationFallbackStrategy :: string
  FilterStrategy :: string
  PrometheusCR :: "'sel PrometheusCRConfig"
  HTTPS :: HTTPSServerConfig
  CollectorNotReadyGracePeriod :: int
  AllowInsecureAuthSecrets :: bool

definition DefaultListenAddr :: string where "DefaultListenAddr = '':8080''"
definition DefaultHttpsListenAddr :: string where "DefaultHttpsListenAddr = '':8443''"
definition DefaultConfigFilePath :: string where "DefaultConfigFilePath = ''/conf/targetallocator.yaml''"
definition DefaultCRScrapeInterval :: int where "DefaultCRScrapeInterval = 30 * 10 ^ 9"
definition DefaultAllocationStrategy :: string where "DefaultAllocationStrategy = ''consistent-hashing''"
definition DefaultFilterStrategy :: string where "DefaultFilterStrategy = ''relabel-config''"
definition DefaultCollectorNotReadyGracePeriod :: int where "DefaultCollectorNotReadyGracePeriod = 30 * 10 ^ 9"

text \<open>
  \<open>kubeConfigPath\<close> is the default path under the home directory, \<open>anySel\<close> the empty selector
  and \<open>protocols\<close> the default scrape protocols of the operator API.
\<close>

definition CreateDefaultConfig :: "string \<Rightarrow> 'sel \<Rightarrow> string list \<Rightarrow> ('sc, 'sel, 'cl) Config" where
  "CreateDefaultConfig kubeConfigPath anySel protocols = \<lparr>
     ListenAddr = DefaultListenAddr, KubeConfigFilePath = kubeConfigPath, ClusterConfig = None, CollectorSelector = None,
     CollectorNamespace = '''', PromConfig = None, AllocationStrategy = DefaultAllocationStrategy,
     AllocationFallbackStrategy = '''', FilterStrategy = DefaultFilterStrategy,
     PrometheusCR = \<lparr>
       cr_Enabled = False, AllowNamespaces = [], DenyNamespaces = [], SecretsAccessNamespaces = [],
       PodMonitorSelector = None, PodMonitorNamespaceSelector = Some anySel,
       ServiceMonitorSelector = None, ServiceMonitorNamespaceSelector = Some anySel,
       ScrapeConfigSelector = None, ScrapeConfigNamespaceSelector = Some anySel,
       ProbeSelector = None, ProbeNamespaceSelector = Some anySel,
       cr_ScrapeInterval = DefaultCRScrapeInterval, cr_EvaluationInterval = 0,
       ScrapeProtocols = protocols, DenyFSAccessThroughSMs = False\<rparr>,
     HTTPS = \<lparr>https_Enabled = False, https_ListenAddr = DefaultHttpsListenAddr, CAFilePath = '''', TLSCertFilePath = '''', TLSKeyFilePath = ''''\<rparr>,
     CollectorNotReadyGracePeriod = DefaultCollectorNotReadyGracePeriod, AllowInsecureAuthSecrets = False\<rparr>"

section \<open>Loading\<close>

datatype kube_error = PathError string | OtherError string

record 'cl cluster_lib =
  BuildConfigFromFlags :: "string \<Rightarrow> kube_error + 'cl"
  InClusterConfig :: "string + 'cl"

definition flag_update :: "string + 'v \<times> bool \<Rightarrow> ('v \<Rightarrow> 'c \<Rightarrow> 'c) \<Rightarrow> string + 'c \<Rightarrow> string + 'c" where
  "flag_update flag upd r =
     (case r of
        Inl e \<Rightarrow> Inl e
      | Inr c \<Rightarrow> (case flag of Inl e \<Rightarrow> Inl e | Inr (v, changed) \<Rightarrow> Inr (if changed then upd v c else c)))"

definition load_cluster :: "'cl cluster_lib \<Rightarrow> string + ('sc, 'sel, 'cl) Config \<Rightarrow> string + ('sc, 'sel, 'cl) Config" where
  "load_cluster K r =
     (case r of
        Inl e \<Rightarrow> Inl e
      | Inr c \<Rightarrow>
          (case BuildConfigFromFlags K (KubeConfigFilePath c) of
             Inr cl \<Rightarrow> Inr (c\<lparr>ClusterConfig := Some cl\<rparr>)
           | Inl (OtherError e) \<Rightarrow> Inl e
           | Inl (PathError _) \<Rightarrow>
               (case InClusterConfig K of
                  Inl e \<Rightarrow> Inl e
                | Inr cl \<Rightarrow> Inr (c\<lparr>KubeConfigFilePath := '''', ClusterConfig := Some cl\<rparr>))))"

definition LoadFromCLI :: "'cl cluster_lib \<Rightarrow> flag_set \<Rightarrow> ('sc, 'sel, 'cl) Config \<Rightarrow> string + ('sc, 'sel, 'cl) Config" where
  "LoadFromCLI K fs target =
     (let r = flag_update (getKubeConfigFilePath fs) (\<lambda>v c. c\<lparr>KubeConfigFilePath := v\<rparr>) (Inr target);
          r = load_cluster K r;
          r = flag_update (getListenAddr fs) (\<lambda>v c. c\<lparr>ListenAddr := v\<rparr>) r;
          r = flag_update (getPrometheusCREnabled fs) (\<lambda>v c. c\<lparr>PrometheusCR := (PrometheusCR c)\<lparr>cr_Enabled := v\<rparr>\<rparr>) r;
          r = flag_update (getHttpsEnabled fs) (\<lambda>v c. c\<lparr>HTTPS := (HTTPS c)\<lparr>https_Enabled := v\<rparr>\<rparr>) r;
          r = flag_update (getHttpsListenAddr fs) (\<lambda>v c. c\<lparr>HTTPS := (HTTPS c)\<lparr>https_ListenAddr := v\<rparr>\<rparr>) r;
          r = flag_update (getHttpsCAFilePath fs) (\<lambda>v c. c\<lparr>HTTPS := (HTTPS c)\<lparr>CAFilePath := v\<rparr>\<rparr>) r;
          r = flag_update (getHttpsTLSCertFilePath fs) (\<lambda>v c. c\<lparr>HTTPS := (HTTPS c)\<lparr>TLSCertFilePath := v\<rparr>\<rparr>) r;
          r = flag_update (getHttpsTLSKeyFilePath fs) (\<lambda>v c. c\<lparr>HTTPS := (HTTPS c)\<lparr>TLSKeyFilePath := v\<rparr>\<rparr>) r
      in flag_update (getAllowInsecureAuthSecrets fs) (\<lambda>v c. c\<lparr>AllowInsecureAuthSecrets := v\<rparr>) r)"

definition LoadFromEnv :: "(string \<Rightarrow> string option) \<Rightarrow> ('sc, 'sel, 'cl) Config \<Rightarrow> ('sc, 'sel, 'cl) Config" where
  "LoadFromEnv env target =
     (let target = (case env ''OTELCOL_NAMESPACE'' of None \<Rightarrow> target | Some ns \<Rightarrow> target\<lparr>CollectorNamespace := ns\<rparr>)
      in if env ''ALLOW_INSECURE_AUTH_SECRETS'' = Some ''true'' then target\<lparr>AllowInsecureAuthSecrets := True\<rparr> else target)"

text \<open>\<open>unmarshal\<close> reads the file and decodes it into the configuration it is given.\<close>

definition Load :: "'cl cluster_lib \<Rightarrow> (string \<Rightarrow> ('sc, 'sel, 'cl) Config \<Rightarrow> string + ('sc, 'sel, 'cl) Config)
    \<Rightarrow> (string \<Rightarrow> string option) \<Rightarrow> flag_set \<Rightarrow> ('sc, 'sel, 'cl) Config \<Rightarrow> string + ('sc, 'sel, 'cl) Config" where
  "Load K unmarshal env fs defaults =
     (case getConfigFilePath fs of
        Inl e \<Rightarrow> Inl e
      | Inr configFilePath \<Rightarrow>
          (case unmarshal configFilePath defaults of
             Inl e \<Rightarrow> Inl e
           | Inr config \<Rightarrow> LoadFromCLI K fs (LoadFromEnv env config)))"

definition ValidateConfig :: "('sc, 'sel, 'cl) Config \<Rightarrow> string option" where
  "ValidateConfig config =
     (let scrapeConfigsPresent = (case PromConfig config of None \<Rightarrow> False | Some scs \<Rightarrow> length scs > 0)
      in if \<not> cr_Enabled (PrometheusCR config) \<and> \<not> scrapeConfigsPresent
         then Some ''at least one scrape config must be defined, or Prometheus CR watching must be enabled''
         else if CollectorNamespace config = '''' then Some ''collector namespace must be set''
         else if length (AllowNamespaces (PrometheusCR config)) \<noteq> 0 \<and> length (DenyNamespaces (PrometheusCR config)) \<noteq> 0
         then Some ''only one of allowNamespaces or denyNamespaces can be set'' else None)"

definition namespace_set :: "string list \<Rightarrow> (string, unit) gomap" where
  "namespace_set nss = foldl (\<lambda>m ns. fmupd ns () m) fmempty nss"

definition GetSecretsAllowList :: "'sel PrometheusCRConfig \<Rightarrow> (string, unit) gomap" where
  "GetSecretsAllowList c = namespace_set (SecretsAccessNamespaces c)"

text \<open>\<open>namespaceAll\<close> is the constant of the Kubernetes API that stands for every namespace.\<close>

definition GetAllowDenyLists :: "string \<Rightarrow> 'sel PrometheusCRConfig \<Rightarrow> (string, unit) gomap \<times> (string, unit) gomap" where
  "GetAllowDenyLists namespaceAll c =
     (if length (AllowNamespaces c) \<noteq> 0 then namespace_set (AllowNamespaces c) else fmupd namespaceAll () fmempty,
      if length (DenyNamespaces c) \<noteq> 0 then namespace_set (DenyNamespaces c) else fmempty)"

text \<open>The selector hook: the camel-case keys replace the lower-case ones.\<close>

definition selector_key :: "string \<Rightarrow> string \<Rightarrow> (string, any) gomap \<Rightarrow> (string, any) gomap" where
  "selector_key camel lower m = (case fmlookup m camel of None \<Rightarrow> m | Some v \<Rightarrow> fmdrop camel (fmupd lower v m))"

definition MapToLabelSelector_keys :: "(string, any) gomap \<Rightarrow> (string, any) gomap" where
  "MapToLabelSelector_keys m =
     selector_key ''matchExpressions'' ''matchexpressions'' (selector_key ''matchLabels'' ''matchlabels'' m)"

section \<open>Client certificates\<close>

record 'pool CAReloader =
  caPath :: string
  clientCAs :: "'pool option"

text \<open>\<open>readFile\<close> and \<open>parsePEM\<close> are the file system and the certificate parser.\<close>

definition CAReloader_Reload :: "(string \<Rightarrow> string option) \<Rightarrow> (string \<Rightarrow> 'pool option) \<Rightarrow> 'pool CAReloader \<Rightarrow> 'pool CAReloader \<times> string option" where
  "CAReloader_Reload readFile parsePEM r =
     (case readFile (caPath r) of
        None \<Rightarrow> (r, Some ''failed to read CA certificate'')
      | Some caCert \<Rightarrow>
          (case parsePEM caCert of
             None \<Rightarrow> (r, Some (''failed to parse CA certificate at '' @ caPath r))
           | Some pool \<Rightarrow> (r\<lparr>clientCAs := Some pool\<rparr>, None)))"

definition NewCAReloader :: "(string \<Rightarrow> string option) \<Rightarrow> (string \<Rightarrow> 'pool option) \<Rightarrow> string \<Rightarrow> string + 'pool CAReloader" where
  "NewCAReloader readFile parsePEM path =
     (case CAReloader_Reload readFile parsePEM \<lparr>caPath = path, clientCAs = None\<rparr> of
        (r, Some err) \<Rightarrow> Inl err
      | (r, None) \<Rightarrow> Inr r)"

definition GetClientCAs :: "'pool CAReloader \<Rightarrow> 'pool option" where
  "GetClientCAs r = clientCAs r"

text \<open>\<open>verify roots intermediates leaf\<close> is the certificate verification of \<open>crypto/x509\<close>.\<close>

definition VerifyConnection :: "('pool option \<Rightarrow> 'cert list \<Rightarrow> 'cert \<Rightarrow> string option) \<Rightarrow> 'pool CAReloader \<Rightarrow> 'cert list \<Rightarrow> string option" where
  "VerifyConnection verify caReloader peerCertificates =
     (case peerCertificates of
        [] \<Rightarrow> Some ''no client certificate provided''
      | leaf # intermediates \<Rightarrow>
          (case verify (GetClientCAs caReloader) intermediates leaf of
             Some e \<Rightarrow> Some (''client certificate verification failed: '' @ e)
           | None \<Rightarrow> None))"

section \<open>Properties\<close>

lemma flag_update_Inr:
  "flag_update flag upd r = Inr c' \<longleftrightarrow>
     (\<exists>c v ch. r = Inr c \<and> flag = Inr (v, ch) \<and> c' = (if ch then upd v c else c))"
  by (auto simp: flag_update_def split: sum.splits prod.splits)

lemma load_cluster_Inr:
  assumes "load_cluster K r = Inr c'"
  shows "\<exists>c p cl. r = Inr c \<and> c' = c\<lparr>KubeConfigFilePath := p, ClusterConfig := Some cl\<rparr>"
proof (cases r)
  case (Inr c)
  have "\<exists>p cl. c' = c\<lparr>KubeConfigFilePath := p, ClusterConfig := Some cl\<rparr>"
  proof (cases "BuildConfigFromFlags K (KubeConfigFilePath c)")
    case (Inr cl)
    with assms \<open>r = Inr c\<close> show ?thesis
      by (intro exI [of _ "KubeConfigFilePath c"] exI [of _ cl]) (simp add: load_cluster_def)
  next
    case (Inl err)
    with assms \<open>r = Inr c\<close> show ?thesis
      by (cases err; cases "InClusterConfig K") (auto simp: load_cluster_def)
  qed
  with Inr show ?thesis by blast
qed (use assms in \<open>simp add: load_cluster_def\<close>)

lemma flag_string: "getFlagValueAndChangedString fs f = Inr (v, ch) \<Longrightarrow> ch = flag_Changed fs f \<and> (ch \<longrightarrow> flag_GetString fs f = Inr v)"
  by (cases "flag_GetString fs f") (auto simp: getFlagValueAndChangedString_def split: if_splits)

lemma flag_bool: "getFlagValueAndChangedBool fs f = Inr (v, ch) \<Longrightarrow> ch = flag_Changed fs f \<and> (ch \<longrightarrow> flag_GetBool fs f = Inr v)"
  by (cases "flag_GetBool fs f") (auto simp: getFlagValueAndChangedBool_def split: if_splits)

definition plain :: "('sc, 'sel, 'cl) Config \<Rightarrow> 'cl option \<times> string \<times> string \<times> string \<times> 'sc list option" where
  "plain c = (ClusterConfig c, CollectorNamespace c, AllocationStrategy c, FilterStrategy c, PromConfig c)"

text \<open>
  When \<open>Load\<close> succeeds, every setting comes from its strongest source: a command-line flag
  that was given wins over the environment, which wins over the file (decoded over the defaults);
  the insecure-secrets switch can be turned on by the environment and overruled, in either
  direction, only by its flag; and a cluster configuration is always present.
\<close>

theorem Load_precedence:
  assumes "Load K unmarshal env fs defaults = Inr c"
  shows "\<exists>path fcfg. getConfigFilePath fs = Inr path \<and> unmarshal path defaults = Inr fcfg \<and>
    ClusterConfig c \<noteq> None \<and>
    (if flag_Changed fs listenAddrFlagName then flag_GetString fs listenAddrFlagName = Inr (ListenAddr c)
     else ListenAddr c = ListenAddr fcfg) \<and>
    (if flag_Changed fs allowInsecureAuthSecretsFlagName
     then flag_GetBool fs allowInsecureAuthSecretsFlagName = Inr (AllowInsecureAuthSecrets c)
     else AllowInsecureAuthSecrets c = (env ''ALLOW_INSECURE_AUTH_SECRETS'' = Some ''true'' \<or> AllowInsecureAuthSecrets fcfg)) \<and>
    (if flag_Changed fs httpsEnabledFlagName then flag_GetBool fs httpsEnabledFlagName = Inr (https_Enabled (HTTPS c))
     else https_Enabled (HTTPS c) = https_Enabled (HTTPS fcfg)) \<and>
    CollectorNamespace c = (case env ''OTELCOL_NAMESPACE'' of Some ns \<Rightarrow> ns | None \<Rightarrow> CollectorNamespace fcfg) \<and>
    AllocationStrategy c = AllocationStrategy fcfg \<and> FilterStrategy c = FilterStrategy fcfg \<and> PromConfig c = PromConfig fcfg"
proof -
  from assms obtain path fcfg where pf: "getConfigFilePath fs = Inr path" "unmarshal path defaults = Inr fcfg"
    and cli: "LoadFromCLI K fs (LoadFromEnv env fcfg) = Inr c" by (auto simp: Load_def split: sum.splits)
  define e where "e = LoadFromEnv env fcfg"
  have env: "ListenAddr e = ListenAddr fcfg" "HTTPS e = HTTPS fcfg" "AllocationStrategy e = AllocationStrategy fcfg"
    "FilterStrategy e = FilterStrategy fcfg" "PromConfig e = PromConfig fcfg"
    "CollectorNamespace e = (case env ''OTELCOL_NAMESPACE'' of Some ns \<Rightarrow> ns | None \<Rightarrow> CollectorNamespace fcfg)"
    "AllowInsecureAuthSecrets e = (env ''ALLOW_INSECURE_AUTH_SECRETS'' = Some ''true'' \<or> AllowInsecureAuthSecrets fcfg)"
    by (auto simp: e_def LoadFromEnv_def Let_def split: option.splits)
  note cli = cli [unfolded LoadFromCLI_def Let_def e_def [symmetric], unfolded flag_update_Inr]
  then obtain c8 c7 c6 c5 c4 c3 c2 c1 v1 ch1 v2 ch2 v3 ch3 v4 ch4 v5 ch5 v6 ch6 v7 ch7 v8 ch8
    where r: "load_cluster K (flag_update (getKubeConfigFilePath fs) (\<lambda>v c. c\<lparr>KubeConfigFilePath := v\<rparr>) (Inr e)) = Inr c1"
      and f: "getListenAddr fs = Inr (v1, ch1)" "getHttpsEnabled fs = Inr (v3, ch3)" "getAllowInsecureAuthSecrets fs = Inr (v8, ch8)"
      and cs: "c2 = (if ch1 then c1\<lparr>ListenAddr := v1\<rparr> else c1)"
        "c3 = (if ch2 then c2\<lparr>PrometheusCR := (PrometheusCR c2)\<lparr>cr_Enabled := v2\<rparr>\<rparr> else c2)"
        "c4 = (if ch3 then c3\<lparr>HTTPS := (HTTPS c3)\<lparr>https_Enabled := v3\<rparr>\<rparr> else c3)"
        "c5 = (if ch4 then c4\<lparr>HTTPS := (HTTPS c4)\<lparr>https_ListenAddr := v4\<rparr>\<rparr> else c4)"
        "c6 = (if ch5 then c5\<lparr>HTTPS := (HTTPS c5)\<lparr>CAFilePath := v5\<rparr>\<rparr> else c5)"
        "c7 = (if ch6 then c6\<lparr>HTTPS := (HTTPS c6)\<lparr>TLSCertFilePath := v6\<rparr>\<rparr> else c6)"
        "c8 = (if ch7 then c7\<lparr>HTTPS := (HTTPS c7)\<lparr>TLSKeyFilePath := v7\<rparr>\<rparr> else c7)"
        "c = (if ch8 then c8\<lparr>AllowInsecureAuthSecrets := v8\<rparr> else c8)"
    by (elim exE conjE) (rule that, assumption+)
  let ?g = "\<lambda>c. (ListenAddr c, AllowInsecureAuthSecrets c, plain c)"
  have g: "?g c4 = ?g c2" "?g c8 = ?g c4" "https_Enabled (HTTPS c8) = https_Enabled (HTTPS c4)" "https_Enabled (HTTPS c3) = https_Enabled (HTTPS c1)"
    unfolding cs(1-7) by (simp_all add: plain_def)
  have c: "ListenAddr c = (if ch1 then v1 else ListenAddr c1)" "https_Enabled (HTTPS c) = (if ch3 then v3 else https_Enabled (HTTPS c1))"
    "AllowInsecureAuthSecrets c = (if ch8 then v8 else AllowInsecureAuthSecrets c1)" "plain c = plain c1"
    using g cs(1,3,8) by (auto simp: plain_def split: if_splits)
  from load_cluster_Inr [OF r] obtain c0 p cl where c0: "flag_update (getKubeConfigFilePath fs) (\<lambda>v c. c\<lparr>KubeConfigFilePath := v\<rparr>) (Inr e) = Inr c0"
    and c1: "c1 = c0\<lparr>KubeConfigFilePath := p, ClusterConfig := Some cl\<rparr>" by blast
  from c0 obtain v0 ch0 where K: "c0 = (if ch0 then e\<lparr>KubeConfigFilePath := v0\<rparr> else e)" by (auto simp: flag_update_Inr)
  have "ListenAddr c1 = ListenAddr e" "HTTPS c1 = HTTPS e" "AllowInsecureAuthSecrets c1 = AllowInsecureAuthSecrets e"
    "CollectorNamespace c1 = CollectorNamespace e" "AllocationStrategy c1 = AllocationStrategy e"
    "FilterStrategy c1 = FilterStrategy e" "PromConfig c1 = PromConfig e"
    "ClusterConfig c1 \<noteq> None"
    by (simp_all add: c1 K)
  with pf c env f flag_string [of fs listenAddrFlagName v1 ch1] flag_bool [of fs httpsEnabledFlagName v3 ch3]
    flag_bool [of fs allowInsecureAuthSecretsFlagName v8 ch8]
  show ?thesis
    by (intro exI [of _ path] exI [of _ fcfg]) (auto simp: plain_def getListenAddr_def getHttpsEnabled_def getAllowInsecureAuthSecrets_def)
qed

definition demo_flags :: flag_set where
  "demo_flags = \<lparr>flag_Changed = (\<lambda>f. f = ''listen-addr''), flag_GetString = (\<lambda>f. Inr (if f = ''listen-addr'' then '':9'' else ''/conf'')),
     flag_GetBool = (\<lambda>_. Inr False)\<rparr>"

definition demo_cluster :: "unit cluster_lib" where
  "demo_cluster = \<lparr>BuildConfigFromFlags = (\<lambda>_. Inr ()), InClusterConfig = Inl ''''\<rparr>"

definition demo_defaults :: "(unit, unit, unit) Config" where
  "demo_defaults = CreateDefaultConfig ''/root/.kube/config'' () []"

theorem Load_precedence_witness:
  "\<exists>c. Load demo_cluster (\<lambda>_ d. Inr d) (\<lambda>v. if v = ''OTELCOL_NAMESPACE'' then Some ''ns'' else None) demo_flags demo_defaults = Inr c \<and>
     ListenAddr c = '':9'' \<and> CollectorNamespace c = ''ns''"
proof -
  have "\<exists>c. Load demo_cluster (\<lambda>_ d. Inr d) (\<lambda>v. if v = ''OTELCOL_NAMESPACE'' then Some ''ns'' else None) demo_flags demo_defaults = Inr c"
    by (simp add: Load_def getConfigFilePath_def demo_flags_def LoadFromCLI_def Let_def flag_update_def load_cluster_def demo_cluster_def
      getFlagValueAndChangedString_def getFlagValueAndChangedBool_def getKubeConfigFilePath_def getListenAddr_def getPrometheusCREnabled_def
      getHttpsEnabled_def getHttpsListenAddr_def getHttpsCAFilePath_def getHttpsTLSCertFilePath_def getHttpsTLSKeyFilePath_def
      getAllowInsecureAuthSecrets_def kubeConfigPathFlagName_def listenAddrFlagName_def prometheusCREnabledFlagName_def httpsEnabledFlagName_def
      listenAddrHttpsFlagName_def httpsCAFilePathFlagName_def httpsTLSCertFilePathFlagName_def httpsTLSKeyFilePathFlagName_def
      allowInsecureAuthSecretsFlagName_def configFilePathFlagName_def)
  then obtain c where c: "Load demo_cluster (\<lambda>_ d. Inr d) (\<lambda>v. if v = ''OTELCOL_NAMESPACE'' then Some ''ns'' else None) demo_flags demo_defaults = Inr c" ..
  from Load_precedence [OF c] c show ?thesis by (auto simp: demo_flags_def listenAddrFlagName_def)
qed

lemma namespace_set_dom: "fmdom' (namespace_set nss) = set nss"
proof -
  have "fmdom' (foldl (\<lambda>m ns. fmupd ns () m) m nss) = fmdom' m \<union> set nss" for m
    by (induction nss arbitrary: m) auto
  then show ?thesis by (simp add: namespace_set_def)
qed

text \<open>
  \<open>ValidateConfig\<close> accepts exactly the configurations with something to scrape, a collector
  namespace and not both an allow and a deny list; for those the namespace filter is meaningful:
  the allow list is never empty (without one it is every namespace) and it names particular
  namespaces only when nothing is denied.
\<close>

theorem ValidateConfig_namespaces:
  "(ValidateConfig c = None \<longleftrightarrow> (cr_Enabled (PrometheusCR c) \<or> (\<exists>sc scs. PromConfig c = Some (sc # scs))) \<and> CollectorNamespace c \<noteq> '''' \<and>
      (AllowNamespaces (PrometheusCR c) = [] \<or> DenyNamespaces (PrometheusCR c) = [])) \<and>
   (ValidateConfig c = None \<longrightarrow> (case GetAllowDenyLists namespaceAll (PrometheusCR c) of (allow, deny) \<Rightarrow>
      fmdom' allow \<noteq> {} \<and> fmdom' deny = set (DenyNamespaces (PrometheusCR c)) \<and>
      (deny \<noteq> fmempty \<longrightarrow> fmdom' allow = {namespaceAll}) \<and>
      (AllowNamespaces (PrometheusCR c) \<noteq> [] \<longrightarrow> fmdom' allow = set (AllowNamespaces (PrometheusCR c)) \<and> deny = fmempty)))"
proof -
  have "ValidateConfig c = None \<longleftrightarrow> (cr_Enabled (PrometheusCR c) \<or> (\<exists>sc scs. PromConfig c = Some (sc # scs))) \<and> CollectorNamespace c \<noteq> '''' \<and>
      (AllowNamespaces (PrometheusCR c) = [] \<or> DenyNamespaces (PrometheusCR c) = [])"
    by (cases "PromConfig c"; cases "the (PromConfig c)") (auto simp: ValidateConfig_def Let_def)
  then show ?thesis by (auto simp: GetAllowDenyLists_def namespace_set_dom)
qed

theorem ValidateConfig_namespaces_witness:
  "ValidateConfig (demo_defaults\<lparr>PromConfig := Some [()], CollectorNamespace := ''ns''\<rparr>) = None \<and>
   (case GetAllowDenyLists ''all'' (PrometheusCR demo_defaults) of (allow, deny) \<Rightarrow> fmdom' allow \<noteq> {})"
  using ValidateConfig_namespaces [of "demo_defaults\<lparr>PromConfig := Some [()], CollectorNamespace := ''ns''\<rparr>" "''all''"]
  by (auto simp: demo_defaults_def CreateDefaultConfig_def)

text \<open>
  A TLS client is accepted exactly when it presents a certificate that verifies against the
  current pool; reloading replaces the pool only when the file can be read and parsed, so a failed
  reload keeps accepting the clients of the last good pool, and a reloader always has a pool once it
  was constructed.
\<close>

theorem client_certificates_checked:
  "(VerifyConnection verify r certs = None \<longleftrightarrow>
      (\<exists>leaf intermediates. certs = leaf # intermediates \<and> verify (GetClientCAs r) intermediates leaf = None)) \<and>
   (case CAReloader_Reload readFile parsePEM r of (r', err) \<Rightarrow>
      caPath r' = caPath r \<and>
      (if err = None then \<exists>pem. readFile (caPath r) = Some pem \<and> GetClientCAs r' = parsePEM pem \<and> parsePEM pem \<noteq> None else r' = r)) \<and>
   (\<forall>path r0. NewCAReloader readFile parsePEM path = Inr r0 \<longrightarrow> GetClientCAs r0 \<noteq> None)"
  by (auto simp: VerifyConnection_def CAReloader_Reload_def NewCAReloader_def GetClientCAs_def split: list.splits option.splits)

theorem client_certificates_checked_witness:
  "\<exists>r0. NewCAReloader (\<lambda>_. Some ''pem'') (\<lambda>p. Some p) ''/ca'' = Inr r0 \<and> GetClientCAs r0 \<noteq> None"
proof -
  have n: "NewCAReloader (\<lambda>_. Some ''pem'') (\<lambda>p. Some p) ''/ca'' = Inr \<lparr>caPath = ''/ca'', clientCAs = Some ''pem''\<rparr>"
    by (simp add: NewCAReloader_def CAReloader_Reload_def)
  with client_certificates_checked [of "\<lambda>_ _ _. None" "\<lparr>caPath = ''/ca'', clientCAs = Some ''pem''\<rparr>" "[] :: unit list" "\<lambda>_. Some ''pem''" "\<lambda>p. Some p"]
  show ?thesis by blast
qed

end
