(* ===== verification/PromWatcher.thy ===== *)
theory PromWatcher
  imports TAConfig
begin

text \<open>
  The watcher for custom resources of the Prometheus operator: \<open>otel-allocator/internal/watcher/promOperator.go\<close> and
  \<open>watcher.go\<close>, with the event loop of \<open>otel-allocator/main.go\<close> that it serves.

  Informers, the discovery client, the operator's selection of resources, its configuration generator and its asset
  store are not part of the repository: they are the parameters \<open>kube_lib\<close>, \<open>operator_lib\<close> and \<open>store_lib\<close>, and the
  constants of their packages are \<open>mon_api\<close>. A configuration that the generator returns is decoded into the record of
  theory Discovery; \<open>http_config\<close> is what this code reads of the HTTP client configuration of a job.
\<close>

section \<open>Libraries\<close>

record mon_api =
  GroupName :: string
  ServiceMonitorName :: string
  PodMonitorName :: string
  ProbeName :: string
  ScrapeConfigName :: string
  ResourceSecrets :: string
  namespaceAll :: string
  DefaultRetry_Steps :: nat

type_synonym namespaces = "(string, unit) gomap"

text \<open>Errors of the libraries are \<open>None\<close>; a factory of informers is its lists of allowed and denied namespaces.\<close>

record ('inf, 'sv, 'cl) kube_lib =
  metadata_client :: "'cl option \<Rightarrow> bool"
  discovery_client :: "'cl option \<Rightarrow> bool"
  ServerGroups :: "(string \<times> string list) list option"
  ServerResourcesForGroupVersion :: "string \<Rightarrow> string list option"
  NewInformersForResource :: "namespaces \<times> namespaces \<Rightarrow> string \<Rightarrow> 'inf option"
  NewInformersForResourceWithTransform :: "namespaces \<times> namespaces \<Rightarrow> string \<Rightarrow> 'inf option"
  ServerVersion :: "nat \<Rightarrow> string option"
  ParseTolerant :: "string \<Rightarrow> 'sv option"
  NewNamespaceListWatchFromClient :: "nat \<Rightarrow> 'sv \<Rightarrow> namespaces \<times> namespaces \<Rightarrow> 'inf option"

datatype watch_error = MetadataClientError | DiscoveryClientError | InformerError string | GeneratorError | NamespaceInformerError
  | SyncError | SelectError string | GenerateError | DecodeError

section \<open>Informers\<close>

fun scan_versions :: "('inf, 'sv, 'cl) kube_lib \<Rightarrow> string \<Rightarrow> string list \<Rightarrow> bool option" where
  "scan_versions L resourceName [] = Some False"
| "scan_versions L resourceName (v # vs) =
     (case ServerResourcesForGroupVersion L v of
        None \<Rightarrow> None
      | Some resources \<Rightarrow> if resourceName \<in> set resources then Some True else scan_versions L resourceName vs)"

fun scan_groups :: "('inf, 'sv, 'cl) kube_lib \<Rightarrow> mon_api \<Rightarrow> string \<Rightarrow> (string \<times> string list) list \<Rightarrow> bool option" where
  "scan_groups L A resourceName [] = Some False"
| "scan_groups L A resourceName ((name, versions) # groups) =
     (if name = GroupName A
      then (case scan_versions L resourceName versions of
              Some False \<Rightarrow> scan_groups L A resourceName groups | r \<Rightarrow> r)
      else scan_groups L A resourceName groups)"

definition checkCRDAvailability :: "('inf, 'sv, 'cl) kube_lib \<Rightarrow> mon_api \<Rightarrow> string \<Rightarrow> bool option" where
  "checkCRDAvailability L A resourceName =
     (case ServerGroups L of None \<Rightarrow> None | Some groups \<Rightarrow> scan_groups L A resourceName groups)"

definition createInformerIfAvailable ::
    "('inf, 'sv, 'cl) kube_lib \<Rightarrow> mon_api \<Rightarrow> namespaces \<times> namespaces \<Rightarrow> string \<Rightarrow> string \<Rightarrow> watch_error + 'inf option" where
  "createInformerIfAvailable L A factory resourceName resource =
     (let available = (case checkCRDAvailability L A resourceName of None \<Rightarrow> True | Some b \<Rightarrow> b) in
      if \<not> available then Inr None
      else case NewInformersForResource L factory resource of
             None \<Rightarrow> Inl (InformerError resourceName) | Some informer \<Rightarrow> Inr (Some informer))"

definition add_informer ::
    "('inf, 'sv, 'cl) kube_lib \<Rightarrow> mon_api \<Rightarrow> namespaces \<times> namespaces \<Rightarrow> string \<Rightarrow> string \<Rightarrow> watch_error + (string, 'inf) gomap
     \<Rightarrow> watch_error + (string, 'inf) gomap" where
  "add_informer L A factory resourceName key r =
     (case r of
        Inl e \<Rightarrow> Inl e
      | Inr m \<Rightarrow>
        (case createInformerIfAvailable L A factory resourceName key of
           Inl e \<Rightarrow> Inl e | Inr None \<Rightarrow> Inr m | Inr (Some informer) \<Rightarrow> Inr (fmupd key informer m)))"

definition getInformers ::
    "('inf, 'sv, 'cl) kube_lib \<Rightarrow> mon_api \<Rightarrow> namespaces \<times> namespaces \<Rightarrow> 'cl option \<Rightarrow> namespaces \<times> namespaces
     \<Rightarrow> watch_error + (string, 'inf) gomap" where
  "getInformers L A factory clusterConfig metaDataInformerFactory =
     (if \<not> discovery_client L clusterConfig then Inl DiscoveryClientError
      else case
        add_informer L A factory ''scrapeconfigs'' (ScrapeConfigName A)
          (add_informer L A factory ''probes'' (ProbeName A)
            (add_informer L A factory ''podmonitors'' (PodMonitorName A)
              (add_informer L A factory ''servicemonitors'' (ServiceMonitorName A) (Inr fmempty))))
        of Inl e \<Rightarrow> Inl e
      | Inr m \<Rightarrow>
        (case NewInformersForResourceWithTransform L metaDataInformerFactory (ResourceSecrets A) of
           None \<Rightarrow> Inl (InformerError (ResourceSecrets A))
         | Some informer \<Rightarrow> Inr (fmupd (ResourceSecrets A) informer m)))"

text \<open>\<open>attempt\<close> is the number of the attempt: a call to the cluster that fails may succeed the next time.\<close>

definition getNamespaceInformer :: "('inf, 'sv, 'cl) kube_lib \<Rightarrow> namespaces \<times> namespaces \<Rightarrow> nat \<Rightarrow> 'inf option" where
  "getNamespaceInformer L nss attempt =
     (case ServerVersion L attempt of
        None \<Rightarrow> None
      | Some kubernetesVersion \<Rightarrow>
        (case ParseTolerant L kubernetesVersion of
           None \<Rightarrow> None | Some semver \<Rightarrow> NewNamespaceListWatchFromClient L attempt semver nss))"

fun OnError :: "nat \<Rightarrow> (nat \<Rightarrow> 'a option) \<Rightarrow> nat \<Rightarrow> 'a option" where
  "OnError 0 f attempt = None"
| "OnError (Suc steps) f attempt = (case f attempt of Some x \<Rightarrow> Some x | None \<Rightarrow> OnError steps f (Suc attempt))"

section \<open>The watcher\<close>

record 'sel PrometheusObject =
  po_Namespace :: string
  po_ScrapeInterval :: int
  po_PodMonitorSelector :: "'sel option"
  po_PodMonitorNamespaceSelector :: "'sel option"
  po_ServiceMonitorSelector :: "'sel option"
  po_ServiceMonitorNamespaceSelector :: "'sel option"
  po_ScrapeConfigSelector :: "'sel option"
  po_ScrapeConfigNamespaceSelector :: "'sel option"
  po_ProbeSelector :: "'sel option"
  po_ProbeNamespaceSelector :: "'sel option"
  po_ServiceDiscoveryRole :: string
  po_ScrapeProtocols :: "string list"
  po_EvaluationInterval :: int

definition prom_object :: "('sc, 'sel, 'cl) Config \<Rightarrow> 'sel PrometheusObject" where
  "prom_object cfg = \<lparr>
     po_Namespace = CollectorNamespace cfg,
     po_ScrapeInterval = cr_ScrapeInterval (PrometheusCR cfg),
     po_PodMonitorSelector = PodMonitorSelector (PrometheusCR cfg),
     po_PodMonitorNamespaceSelector = PodMonitorNamespaceSelector (PrometheusCR cfg),
     po_ServiceMonitorSelector = ServiceMonitorSelector (PrometheusCR cfg),
     po_ServiceMonitorNamespaceSelector = ServiceMonitorNamespaceSelector (PrometheusCR cfg),
     po_ScrapeConfigSelector = ScrapeConfigSelector (PrometheusCR cfg),
     po_ScrapeConfigNamespaceSelector = ScrapeConfigNamespaceSelector (PrometheusCR cfg),
     po_ProbeSelector = ProbeSelector (PrometheusCR cfg),
     po_ProbeNamespaceSelector = ProbeNamespaceSelector (PrometheusCR cfg),
     po_ServiceDiscoveryRole = ''EndpointSlice'',
     po_ScrapeProtocols = ScrapeProtocols (PrometheusCR cfg),
     po_EvaluationInterval = cr_EvaluationInterval (PrometheusCR cfg)\<rparr>"

record ('inf, 'sel, 'rs) PrometheusCRWatcher =
  informers :: "(string, 'inf) gomap"
  nsInformer :: "'inf option"
  eventInterval :: int
  kubeConfigPath :: string
  podMonitorNamespaceSelector :: "'sel option"
  serviceMonitorNamespaceSelector :: "'sel option"
  scrapeConfigNamespaceSelector :: "'sel option"
  probeNamespaceSelector :: "'sel option"
  resourceSelector :: "'rs option"
  prometheusCR :: "'sel PrometheusObject"
  denyFSAccessThroughSMs :: bool

definition minEventInterval :: int where
  "minEventInterval = 5 * 10 ^ 9"

text \<open>
  \<open>generator_ok\<close> is whether the generator can be built and \<open>selector\<close> the result of \<open>NewResourceSelector\<close>, whose error is
  logged and leaves the watcher without one.
\<close>

definition NewPrometheusCRWatcher ::
    "('inf, 'sv, 'cl) kube_lib \<Rightarrow> mon_api \<Rightarrow> bool \<Rightarrow> 'rs option \<Rightarrow> ('sc, 'sel, 'cl) Config
     \<Rightarrow> watch_error + ('inf, 'sel, 'rs) PrometheusCRWatcher" where
  "NewPrometheusCRWatcher L A generator_ok selector cfg =
     (if \<not> metadata_client L (ClusterConfig cfg) then Inl MetadataClientError
      else
        let nss = GetAllowDenyLists (namespaceAll A) (PrometheusCR cfg);
            secretsAllowList = GetSecretsAllowList (PrometheusCR cfg)
        in case getInformers L A nss (ClusterConfig cfg) (secretsAllowList, snd nss) of
          Inl e \<Rightarrow> Inl e
        | Inr monitoringInformers \<Rightarrow>
          if \<not> generator_ok then Inl GeneratorError
          else case OnError (DefaultRetry_Steps A) (getNamespaceInformer L nss) 0 of
            None \<Rightarrow> Inl NamespaceInformerError
          | Some nsMonInf \<Rightarrow> Inr \<lparr>
              informers = monitoringInformers,
              nsInformer = Some nsMonInf,
              eventInterval = minEventInterval,
              kubeConfigPath = KubeConfigFilePath cfg,
              podMonitorNamespaceSelector = PodMonitorNamespaceSelector (PrometheusCR cfg),
              serviceMonitorNamespaceSelector = ServiceMonitorNamespaceSelector (PrometheusCR cfg),
              scrapeConfigNamespaceSelector = ScrapeConfigNamespaceSelector (PrometheusCR cfg),
              probeNamespaceSelector = ProbeNamespaceSelector (PrometheusCR cfg),
              resourceSelector = selector,
              prometheusCR = prom_object cfg,
              denyFSAccessThroughSMs = DenyFSAccessThroughSMs (PrometheusCR cfg)\<rparr>)"

section \<open>Event handlers\<close>

text \<open>
  \<open>Watch\<close> starts the informers and adds a handler to each that is in sync in time; \<open>synced\<close> is the result of
  \<open>WaitForNamedCacheSync\<close>, and \<open>names\<close> the order of the range loop. Only the namespace informer makes it fail.
\<close>

datatype handler_kind = DefaultHandler | SecretHandler

definition register :: "mon_api \<Rightarrow> (string \<Rightarrow> bool) \<Rightarrow> (string, handler_kind) gomap \<Rightarrow> string \<Rightarrow> (string, handler_kind) gomap" where
  "register A synced hs name =
     (if synced name then fmupd name (if name = ResourceSecrets A then SecretHandler else DefaultHandler) hs else hs)"

definition Watch_handlers ::
    "mon_api \<Rightarrow> ('inf, 'sel, 'rs) PrometheusCRWatcher \<Rightarrow> (string \<Rightarrow> bool) \<Rightarrow> string list \<Rightarrow> watch_error + (string, handler_kind) gomap" where
  "Watch_handlers A w synced names =
     (let success = (nsInformer w = None \<or> synced ''namespace'');
          handlers = foldl (register A synced) fmempty names
      in if \<not> success then Inl SyncError else Inr handlers)"

text \<open>
  The update of a namespace: \<open>changed old cur sel\<close> is \<open>LabelSelectionHasChanged\<close>, \<open>None\<close> its error, and the selectors are
  given in the order of the range loop. The result is whether a notification is sent.
\<close>

fun selection_loop :: "('sel option \<Rightarrow> bool option) \<Rightarrow> 'sel option list \<Rightarrow> bool" where
  "selection_loop changed [] = False"
| "selection_loop changed (sel # sels) =
     (case changed sel of None \<Rightarrow> False | Some sync \<Rightarrow> if sync then True else selection_loop changed sels)"

definition namespace_selectors :: "('inf, 'sel, 'rs) PrometheusCRWatcher \<Rightarrow> 'sel option list" where
  "namespace_selectors w =
     [podMonitorNamespaceSelector w, serviceMonitorNamespaceSelector w, probeNamespaceSelector w, scrapeConfigNamespaceSelector w]"

record Namespace =
  ns_ResourceVersion :: string
  ns_Labels :: "(string, string) gomap"

definition namespace_update ::
    "((string, string) gomap \<Rightarrow> (string, string) gomap \<Rightarrow> 'sel option \<Rightarrow> bool option) \<Rightarrow> Namespace \<Rightarrow> Namespace \<Rightarrow> 'sel option list \<Rightarrow> bool" where
  "namespace_update changed old cur order =
     (if ns_ResourceVersion old = ns_ResourceVersion cur then False
      else selection_loop (changed (ns_Labels old) (ns_Labels cur)) order)"

text \<open>
  The asset store keeps the secrets that resources refer to. An object passed to a handler has a name and a namespace, except
  for the placeholder \<open>DeletedFinalStateUnknown\<close> of an informer that missed a deletion, which is not an
  \<open>ObjectMetaAccessor\<close>: the type assertion yields nil.
\<close>

datatype event_object = Object string string | DeletedFinalStateUnknown

record ('st, 'sec) store_lib =
  GetObject :: "'st \<Rightarrow> string \<Rightarrow> string \<Rightarrow> bool option"
  UpdateObject :: "'st \<Rightarrow> 'sec \<Rightarrow> 'st option"
  DeleteObject :: "'st \<Rightarrow> string \<Rightarrow> string \<Rightarrow> 'st option"

definition handleSecretUpdate ::
    "('st, 'sec) store_lib \<Rightarrow> (string \<Rightarrow> string \<Rightarrow> 'sec option) \<Rightarrow> event_object \<Rightarrow> event_object \<Rightarrow> 'st \<Rightarrow> ('st \<times> bool) go" where
  "handleSecretUpdate S get_secret oldObj newObj store =
     (case newObj of
        DeletedFinalStateUnknown \<Rightarrow> Inl NilDeref
      | Object secretName secretNamespace \<Rightarrow>
        if GetObject S store secretName secretNamespace \<noteq> Some True then Inr (store, False)
        else case get_secret secretName secretNamespace of
          None \<Rightarrow> Inr (store, False)
        | Some newSecret \<Rightarrow>
          (case UpdateObject S store newSecret of
             None \<Rightarrow> Inr (store, False)
           | Some store' \<Rightarrow> (case oldObj of DeletedFinalStateUnknown \<Rightarrow> Inl NilDeref | Object _ _ \<Rightarrow> Inr (store', True))))"

definition handleSecretDelete :: "('st, 'sec) store_lib \<Rightarrow> event_object \<Rightarrow> 'st \<Rightarrow> ('st \<times> bool) go" where
  "handleSecretDelete S obj store =
     (case obj of
        DeletedFinalStateUnknown \<Rightarrow> Inl NilDeref
      | Object secretName secretNamespace \<Rightarrow>
        if GetObject S store secretName secretNamespace \<noteq> Some True then Inr (store, False)
        else case DeleteObject S store secretName secretNamespace of
          None \<Rightarrow> Inr (store, False) | Some store' \<Rightarrow> Inr (store', True))"

section \<open>Loading the configuration\<close>

text \<open>
  A service discovery configuration: the one of Kubernetes with its path, or another one with its name.
\<close>

datatype sd_config = KubernetesSD string string | OtherSD string string

fun sd_Name :: "sd_config \<Rightarrow> string" where
  "sd_Name (KubernetesSD _ _) = ''kubernetes''"
| "sd_Name (OtherSD name _) = name"

record http_config =
  CredentialsFile :: "string option"
  CAFile :: string
  CertFile :: string
  KeyFile :: string
  http_rest :: string

type_synonym prom_job = "(sd_config list, http_config) ScrapeConfig"

definition deniedFSAccessReason :: "prom_job \<Rightarrow> string" where
  "deniedFSAccessReason sc =
     (case CredentialsFile (sc_rest sc) of
        Some (c # cs) \<Rightarrow> ''authorization.credentials_file: '' @ c # cs
      | _ \<Rightarrow>
        if CAFile (sc_rest sc) \<noteq> '''' then ''tls_config.ca_file: '' @ CAFile (sc_rest sc)
        else if CertFile (sc_rest sc) \<noteq> '''' then ''tls_config.cert_file: '' @ CertFile (sc_rest sc)
        else if KeyFile (sc_rest sc) \<noteq> '''' then ''tls_config.key_file: '' @ KeyFile (sc_rest sc)
        else '''')"

text \<open>The filter appends to the empty prefix of the slice it reads, so it works in place.\<close>

definition filter_body :: "prom_job list \<times> nat \<Rightarrow> nat \<Rightarrow> prom_job list \<times> nat" where
  "filter_body = (\<lambda>(arr, n) i.
     let sc = arr ! i in if deniedFSAccessReason sc \<noteq> '''' then (arr, n) else (arr[n := sc], n + 1))"

definition filterScrapeConfigs :: "prom_job list \<Rightarrow> prom_job list" where
  "filterScrapeConfigs scs = (case foldl filter_body (scs, 0) [0..<length scs] of (arr, n) \<Rightarrow> take n arr)"

definition set_kubeconfig :: "string \<Rightarrow> sd_config \<Rightarrow> sd_config go" where
  "set_kubeconfig path sd =
     (if sd_Name sd = ''kubernetes''
      then (case sd of KubernetesSD _ rest \<Rightarrow> Inr (KubernetesSD path rest) | OtherSD _ _ \<Rightarrow> Inl TypeAssertion)
      else Inr sd)"

definition set_job_kubeconfig :: "string \<Rightarrow> prom_job \<Rightarrow> prom_job go" where
  "set_job_kubeconfig path sc =
     go_bind (mapM_go (set_kubeconfig path) (ServiceDiscoveryConfigs sc)) (\<lambda>sds. Inr (sc\<lparr>ServiceDiscoveryConfigs := sds\<rparr>))"

text \<open>
  A selection reads the resources of an informer and records in the store what they refer to. The generator gets the resources
  selected and the store.
\<close>

record ('rs, 'lst, 'cr, 'st, 'sel) operator_lib =
  SelectServiceMonitors :: "'rs \<Rightarrow> 'lst \<Rightarrow> 'st \<Rightarrow> (string, 'cr) gomap option \<times> 'st"
  SelectPodMonitors :: "'rs \<Rightarrow> 'lst \<Rightarrow> 'st \<Rightarrow> (string, 'cr) gomap option \<times> 'st"
  SelectProbes :: "'rs \<Rightarrow> 'lst \<Rightarrow> 'st \<Rightarrow> (string, 'cr) gomap option \<times> 'st"
  SelectScrapeConfigs :: "'rs \<Rightarrow> 'lst \<Rightarrow> 'st \<Rightarrow> (string, 'cr) gomap option \<times> 'st"
  GenerateServerConfiguration :: "'sel PrometheusObject \<Rightarrow> (string, 'cr) gomap \<Rightarrow> (string, 'cr) gomap \<Rightarrow> (string, 'cr) gomap
    \<Rightarrow> (string, 'cr) gomap \<Rightarrow> 'st \<Rightarrow> string option"
  UnmarshalProm :: "string \<Rightarrow> prom_job list option"

definition select_from ::
    "('inf, 'sel, 'rs) PrometheusCRWatcher \<Rightarrow> string \<Rightarrow> ('lst \<Rightarrow> 'st \<Rightarrow> (string, 'cr) gomap option \<times> 'st) \<Rightarrow> (string \<Rightarrow> 'lst) \<Rightarrow> 'st
     \<Rightarrow> (watch_error + (string, 'cr) gomap) \<times> 'st" where
  "select_from w key select contents store =
     (case fmlookup (informers w) key of
        None \<Rightarrow> (Inr fmempty, store)
      | Some informer \<Rightarrow>
        (case select (contents key) store of
           (None, store') \<Rightarrow> (Inl (SelectError key), store') | (Some selection, store') \<Rightarrow> (Inr selection, store')))"

definition finish_config :: "('inf, 'sel, 'rs) PrometheusCRWatcher \<Rightarrow> prom_job list \<Rightarrow> prom_job list go" where
  "finish_config w scs =
     mapM_go (set_job_kubeconfig (kubeConfigPath w)) (if denyFSAccessThroughSMs w then filterScrapeConfigs scs else scs)"

definition generate ::
    "('rs, 'lst, 'cr, 'st, 'sel) operator_lib \<Rightarrow> ('inf, 'sel, 'rs) PrometheusCRWatcher
     \<Rightarrow> (string, 'cr) gomap \<Rightarrow> (string, 'cr) gomap \<Rightarrow> (string, 'cr) gomap \<Rightarrow> (string, 'cr) gomap \<Rightarrow> 'st \<Rightarrow> (watch_error + prom_job list) go" where
  "generate Op w sms pms probes scs store =
     (case GenerateServerConfiguration Op (prometheusCR w) sms pms probes scs store of
        None \<Rightarrow> Inr (Inl GenerateError)
      | Some generatedConfig \<Rightarrow>
        (case UnmarshalProm Op generatedConfig of
           None \<Rightarrow> Inr (Inl DecodeError)
         | Some promCfg \<Rightarrow> go_bind (finish_config w promCfg) (\<lambda>jobs. Inr (Inr jobs))))"

definition LoadConfig ::
    "('rs, 'lst, 'cr, 'st, 'sel) operator_lib \<Rightarrow> mon_api \<Rightarrow> ('inf, 'sel, 'rs) PrometheusCRWatcher \<Rightarrow> (string \<Rightarrow> 'lst) \<Rightarrow> 'st
     \<Rightarrow> (watch_error + prom_job list) go \<times> 'st" where
  "LoadConfig Op A w contents store =
     (case resourceSelector w of
        None \<Rightarrow> (Inr (Inr []), store)
      | Some rs \<Rightarrow>
        (case select_from w (ServiceMonitorName A) (SelectServiceMonitors Op rs) contents store of
           (Inl e, store) \<Rightarrow> (Inr (Inl e), store)
         | (Inr sms, store) \<Rightarrow>
           (case select_from w (PodMonitorName A) (SelectPodMonitors Op rs) contents store of
              (Inl e, store) \<Rightarrow> (Inr (Inl e), store)
            | (Inr pms, store) \<Rightarrow>
              (case select_from w (ProbeName A) (SelectProbes Op rs) contents store of
                 (Inl e, store) \<Rightarrow> (Inr (Inl e), store)
               | (Inr probes, store) \<Rightarrow>
                 (case select_from w (ScrapeConfigName A) (SelectScrapeConfigs Op rs) contents store of
                    (Inl e, store) \<Rightarrow> (Inr (Inl e), store)
                  | (Inr scs, store) \<Rightarrow> (generate Op w sms pms probes scs store, store))))))"

section \<open>Events\<close>

datatype EventSource = EventSourceConfigMap | EventSourcePrometheusCR

fun EventSource_String :: "EventSource \<Rightarrow> string" where
  "EventSource_String EventSourceConfigMap = ''EventSourceConfigMap''"
| "EventSource_String EventSourcePrometheusCR = ''EventSourcePrometheusCR''"

text \<open>
  The system of the informers' caches, the handlers, the rate-limited sender and the event loop of the process. The loop
  waits for an event, reads the informers one after the other, applies what it loaded and returns to its select
  statement. \<open>notifyEvents\<close> has room for one notification; the channel of events has no buffer, so the sender can
  hand over an event exactly when the loop waits. \<open>s_events\<close> counts changes whose handler has not run yet,
  \<open>s_secrets\<close> the changes that handlers made to the store. \<open>s_loaded\<close> records what was read for each configuration that was
  applied, \<open>s_failed\<close> whether the last attempt to load failed.
\<close>

datatype 'lst loop_state = Waiting | Loading "string list" "string \<Rightarrow> 'lst" | Returning

record ('lst, 'st) cr_state =
  s_cache :: "string \<Rightarrow> 'lst"
  s_store :: 'st
  s_secrets :: nat
  s_events :: nat
  s_notify :: bool
  s_loop :: "'lst loop_state"
  s_loaded :: "('lst list \<times> nat) list"
  s_failed :: bool
  s_stopped :: bool
  s_sending :: bool

text \<open>What a configuration is loaded from: the informers that exist, in the order in which they are read.\<close>

definition kinds :: "mon_api \<Rightarrow> ('inf, 'sel, 'rs) PrometheusCRWatcher \<Rightarrow> string list" where
  "kinds A w = filter (\<lambda>k. fmlookup (informers w) k \<noteq> None) [ServiceMonitorName A, PodMonitorName A, ProbeName A, ScrapeConfigName A]"

definition notify :: "('lst, 'st) cr_state \<Rightarrow> ('lst, 'st) cr_state" where
  "notify s = s\<lparr>s_notify := True\<rparr>"

definition secret_handled :: "('st \<times> bool) \<Rightarrow> ('lst, 'st) cr_state \<Rightarrow> ('lst, 'st) cr_state" where
  "secret_handled r s =
     (case r of (store', changed) \<Rightarrow>
        let s' = s\<lparr>s_store := store'\<rparr> in if changed then notify (s'\<lparr>s_secrets := Suc (s_secrets s')\<rparr>) else s')"

definition send_tick :: "mon_api \<Rightarrow> ('inf, 'sel, 'rs) PrometheusCRWatcher \<Rightarrow> ('lst, 'st) cr_state \<Rightarrow> ('lst, 'st) cr_state" where
  "send_tick A w s =
     (if s_notify s
      then let s' = s\<lparr>s_notify := False\<rparr> in
           case s_loop s' of Waiting \<Rightarrow> s'\<lparr>s_loop := Loading (kinds A w) (s_cache s')\<rparr> | _ \<Rightarrow> notify s'
      else s)"

definition finish_load ::
    "('rs, 'lst, 'cr, 'st, 'sel) operator_lib \<Rightarrow> mon_api \<Rightarrow> (prom_job list \<Rightarrow> bool) \<Rightarrow> ('inf, 'sel, 'rs) PrometheusCRWatcher
     \<Rightarrow> (string \<Rightarrow> 'lst) \<Rightarrow> ('lst, 'st) cr_state \<Rightarrow> ('lst, 'st) cr_state go" where
  "finish_load Op A applied w contents s =
     (case LoadConfig Op A w contents (s_store s) of
        (Inl fault, _) \<Rightarrow> Inl fault
      | (Inr (Inl e), store') \<Rightarrow> Inr (s\<lparr>s_store := store', s_failed := True, s_loop := Returning\<rparr>)
      | (Inr (Inr jobs), store') \<Rightarrow>
        Inr (if applied jobs
             then s\<lparr>s_store := store', s_failed := False, s_loop := Returning,
                    s_loaded := s_loaded s @ [(map contents (kinds A w), s_secrets s)]\<rparr>
             else s\<lparr>s_store := store', s_failed := True, s_loop := Returning\<rparr>))"

definition Close :: "('lst, 'st) cr_state \<Rightarrow> ('lst, 'st) cr_state go" where
  "Close s = (if s_stopped s then Inl CloseOfClosedChannel else Inr (s\<lparr>s_stopped := True\<rparr>))"

datatype cr_label = CacheChange | SecretChange | Handle | Tick | LoadStep | Return | CloseWatcher | SenderReturn

inductive cr_step ::
    "('rs, 'lst, 'cr, 'st, 'sel) operator_lib \<Rightarrow> ('st, 'sec) store_lib \<Rightarrow> mon_api \<Rightarrow> (prom_job list \<Rightarrow> bool)
     \<Rightarrow> ('inf, 'sel, 'rs) PrometheusCRWatcher \<Rightarrow> (string, handler_kind) gomap
     \<Rightarrow> cr_label \<Rightarrow> ('lst, 'st) cr_state \<Rightarrow> ('lst, 'st) cr_state \<Rightarrow> bool"
  for Op S A applied w hs where
  watched_change: "fmlookup hs k = Some DefaultHandler \<Longrightarrow>
    cr_step Op S A applied w hs CacheChange s (s\<lparr>s_cache := (s_cache s)(k := d), s_events := Suc (s_events s)\<rparr>)"
| unwatched_change: "fmlookup hs k = None \<Longrightarrow> cr_step Op S A applied w hs CacheChange s (s\<lparr>s_cache := (s_cache s)(k := d)\<rparr>)"
| handler: "s_events s = Suc n \<Longrightarrow> cr_step Op S A applied w hs Handle s (notify (s\<lparr>s_events := n\<rparr>))"
| secret_added: "fmlookup hs (ResourceSecrets A) = Some SecretHandler \<Longrightarrow> cr_step Op S A applied w hs SecretChange s (notify s)"
| secret_updated: "fmlookup hs (ResourceSecrets A) = Some SecretHandler \<Longrightarrow> handleSecretUpdate S get_secret old new (s_store s) = Inr r \<Longrightarrow>
    cr_step Op S A applied w hs SecretChange s (secret_handled r s)"
| secret_deleted: "fmlookup hs (ResourceSecrets A) = Some SecretHandler \<Longrightarrow> handleSecretDelete S obj (s_store s) = Inr r \<Longrightarrow>
    cr_step Op S A applied w hs SecretChange s (secret_handled r s)"
| tick: "s_sending s \<Longrightarrow> cr_step Op S A applied w hs Tick s (send_tick A w s)"
| read_cache: "s_loop s = Loading (k # ks) contents \<Longrightarrow>
    cr_step Op S A applied w hs LoadStep s (s\<lparr>s_loop := Loading ks (contents(k := s_cache s k))\<rparr>)"
| loaded: "s_loop s = Loading [] contents \<Longrightarrow> finish_load Op A applied w contents s = Inr s' \<Longrightarrow> cr_step Op S A applied w hs LoadStep s s'"
| loop_back: "s_loop s = Returning \<Longrightarrow> cr_step Op S A applied w hs Return s (s\<lparr>s_loop := Waiting\<rparr>)"
| closing: "Close s = Inr s' \<Longrightarrow> cr_step Op S A applied w hs CloseWatcher s s'"
| sender_return: "s_stopped s \<Longrightarrow> cr_step Op S A applied w hs SenderReturn s (s\<lparr>s_sending := False\<rparr>)"

inductive_cases load_stepE: "cr_step Op S A applied w hs LoadStep s s'"

end
