(* ===== verification/PromWatcherProps.thy ===== *)
theory PromWatcherProps
  imports PromWatcher
begin

text \<open>
  Properties of the custom-resource watcher: which jobs a load lets through, that no change is lost in any interleaving (by the locale
  \<open>guarded_coalescer\<close>) and that every change arrives in a fair run, what happens after a failed load and with a slow
  informer, the secrets in the asset store, and what the watcher may see.
\<close>


section \<open>Jobs that read files\<close>

definition reads_no_file :: "prom_job \<Rightarrow> bool" where
  "reads_no_file sc \<longleftrightarrow> CredentialsFile (sc_rest sc) \<in> {None, Some ''''} \<and> CAFile (sc_rest sc) = '''' \<and>
     CertFile (sc_rest sc) = '''' \<and> KeyFile (sc_rest sc) = ''''"

lemma denied_iff: "deniedFSAccessReason sc = '''' \<longleftrightarrow> reads_no_file sc"
  by (auto simp: deniedFSAccessReason_def reads_no_file_def split: option.splits list.splits)

lemma map_filter_if: "List.map_filter (\<lambda>x. if P x then Some x else None) xs = filter P xs"
  by (induction xs) (auto simp: List.map_filter_simps)

lemma filterScrapeConfigs_filter: "filterScrapeConfigs scs = filter reads_no_file scs"
proof -
  have "filter_body = compact_body (\<lambda>sc. if reads_no_file sc then Some sc else None)"
    by (intro ext) (auto simp: filter_body_def compact_body_def denied_iff Let_def)
  then show ?thesis
    using compact_filters [of "\<lambda>sc. if reads_no_file sc then Some sc else None" scs] by (simp add: filterScrapeConfigs_def map_filter_if)
qed

fun with_path :: "string \<Rightarrow> sd_config \<Rightarrow> sd_config" where
  "with_path path (KubernetesSD _ rest) = KubernetesSD path rest"
| "with_path path (OtherSD name rest) = OtherSD name rest"

definition job_with_path :: "string \<Rightarrow> prom_job \<Rightarrow> prom_job" where
  "job_with_path path sc = sc\<lparr>ServiceDiscoveryConfigs := map (with_path path) (ServiceDiscoveryConfigs sc)\<rparr>"

lemma job_with_path_simps [simp]:
  "reads_no_file (job_with_path path sc) \<longleftrightarrow> reads_no_file sc" "sc_JobName (job_with_path path sc) = sc_JobName sc"
  "RelabelConfigs (job_with_path path sc) = RelabelConfigs sc" "sc_rest (job_with_path path sc) = sc_rest sc"
  by (simp_all add: job_with_path_def reads_no_file_def)

text \<open>The type of a configuration named \<open>kubernetes\<close> is that of the Kubernetes package.\<close>

definition sd_typed :: "prom_job \<Rightarrow> bool" where
  "sd_typed sc \<longleftrightarrow> (\<forall>sd \<in> set (ServiceDiscoveryConfigs sc). sd_Name sd = ''kubernetes'' \<longrightarrow> (\<exists>p r. sd = KubernetesSD p r))"

lemma set_kubeconfig_eq: "set_kubeconfig path sd = Inr sd' \<Longrightarrow> sd' = with_path path sd"
  by (cases sd) (auto simp: set_kubeconfig_def split: if_splits)

lemma set_job_kubeconfig_eq: "set_job_kubeconfig path sc = Inr sc' \<Longrightarrow> sc' = job_with_path path sc"
proof -
  assume "set_job_kubeconfig path sc = Inr sc'"
  then obtain sds where sds: "mapM_go (set_kubeconfig path) (ServiceDiscoveryConfigs sc) = Inr sds"
    and sc': "sc' = sc\<lparr>ServiceDiscoveryConfigs := sds\<rparr>" by (auto simp: set_job_kubeconfig_def)
  from mapM_go_Inr [OF sds] have "list_all2 (\<lambda>sd sd'. sd' = with_path path sd) (ServiceDiscoveryConfigs sc) sds"
    by (rule list_all2_mono) (rule set_kubeconfig_eq)
  then have "sds = map (with_path path) (ServiceDiscoveryConfigs sc)"
    by (induction rule: list_all2_induct) auto
  with sc' show ?thesis by (simp add: job_with_path_def)
qed

lemma set_job_kubeconfig_typed: "sd_typed sc \<Longrightarrow> set_job_kubeconfig path sc = Inr (job_with_path path sc)"
proof -
  assume "sd_typed sc"
  then have "set_kubeconfig path sd = Inr (with_path path sd)" if "sd \<in> set (ServiceDiscoveryConfigs sc)" for sd
    using that by (cases sd) (auto simp: set_kubeconfig_def sd_typed_def)
  then have "mapM_go (set_kubeconfig path) (ServiceDiscoveryConfigs sc) = Inr (map (with_path path) (ServiceDiscoveryConfigs sc))"
    by (rule mapM_go_all)
  then show ?thesis by (simp add: set_job_kubeconfig_def job_with_path_def)
qed

lemma finish_config_eq:
  assumes "finish_config w scs = Inr jobs"
  shows "jobs = map (job_with_path (kubeConfigPath w)) (if denyFSAccessThroughSMs w then filter reads_no_file scs else scs)"
proof -
  have "list_all2 (\<lambda>sc sc'. sc' = job_with_path (kubeConfigPath w) sc) (if denyFSAccessThroughSMs w then filter reads_no_file scs else scs) jobs"
    using mapM_go_Inr [OF assms [unfolded finish_config_def filterScrapeConfigs_filter]]
    by (rule list_all2_mono) (rule set_job_kubeconfig_eq)
  then show ?thesis by (induction rule: list_all2_induct) auto
qed

lemma finish_config_typed:
  "list_all sd_typed scs \<Longrightarrow> \<exists>jobs. finish_config w scs = Inr jobs"
  using mapM_go_all [of "if denyFSAccessThroughSMs w then filter reads_no_file scs else scs" "set_job_kubeconfig (kubeConfigPath w)" "job_with_path (kubeConfigPath w)"]
  by (auto simp: finish_config_def filterScrapeConfigs_filter set_job_kubeconfig_typed list_all_iff split: if_splits)

lemma LoadConfig_reads:
  fixes Op :: "('a, 'b, 'c, 'd, 'e) operator_lib"
  assumes "\<And>k. k \<in> set (kinds A w) \<Longrightarrow> c k = c' k"
  shows "LoadConfig Op A w c st = LoadConfig Op A w c' st"
proof -
  have sel: "select_from w (ServiceMonitorName A) f c st = select_from w (ServiceMonitorName A) f c' st"
    "select_from w (PodMonitorName A) f c st = select_from w (PodMonitorName A) f c' st"
    "select_from w (ProbeName A) f c st = select_from w (ProbeName A) f c' st"
    "select_from w (ScrapeConfigName A) f c st = select_from w (ScrapeConfigName A) f c' st"
    for f :: "'b \<Rightarrow> 'd \<Rightarrow> (string, 'c) gomap option \<times> 'd" and st
    using assms by (auto simp: select_from_def kinds_def split: option.splits)
  show ?thesis unfolding LoadConfig_def sel ..
qed

text \<open>The result of a load is an error, the empty configuration without a selector, or comes from the generator.\<close>

lemma LoadConfig_cases:
  obtains (no_selector) "resourceSelector w = None" "LoadConfig Op A w c st = (Inr (Inr []), st)"
  | (select_error) e st' where "LoadConfig Op A w c st = (Inr (Inl e), st')" "\<exists>k \<in> set (kinds A w). e = SelectError k"
  | (generated) sms pms probes scs st' where "resourceSelector w \<noteq> None" "LoadConfig Op A w c st = (generate Op w sms pms probes scs st', st')"
proof (cases "resourceSelector w")
  case (Some rs)
  have err: "\<exists>k \<in> set (kinds A w). e = SelectError k" if "select_from w k f c st = (Inl e, st')"
    "k \<in> {ServiceMonitorName A, PodMonitorName A, ProbeName A, ScrapeConfigName A}" for k f st e st'
    using that by (auto simp: select_from_def kinds_def split: option.splits prod.splits)
  obtain r1 s1 where 1: "select_from w (ServiceMonitorName A) (SelectServiceMonitors Op rs) c st = (r1, s1)" by force
  obtain r2 s2 where 2: "select_from w (PodMonitorName A) (SelectPodMonitors Op rs) c s1 = (r2, s2)" by force
  obtain r3 s3 where 3: "select_from w (ProbeName A) (SelectProbes Op rs) c s2 = (r3, s3)" by force
  obtain r4 s4 where 4: "select_from w (ScrapeConfigName A) (SelectScrapeConfigs Op rs) c s3 = (r4, s4)" by force
  show ?thesis
  proof (cases r1)
    case (Inl e)
    with 1 Some show ?thesis by (intro select_error) (auto simp: LoadConfig_def intro!: err)
  next
    case r1: (Inr sms)
    show ?thesis
    proof (cases r2)
      case (Inl e)
      with 1 2 r1 Some show ?thesis by (intro select_error) (auto simp: LoadConfig_def intro!: err)
    next
      case r2: (Inr pms)
      show ?thesis
      proof (cases r3)
        case (Inl e)
        with 1 2 3 r1 r2 Some show ?thesis by (intro select_error) (auto simp: LoadConfig_def intro!: err)
      next
        case r3: (Inr probes)
        show ?thesis
        proof (cases r4)
          case (Inl e)
          with 1 2 3 4 r1 r2 r3 Some show ?thesis by (intro select_error) (auto simp: LoadConfig_def intro!: err)
        next
          case (Inr scs)
          with 1 2 3 4 r1 r2 r3 Some show ?thesis by (intro generated) (auto simp: LoadConfig_def)
        qed
      qed
    qed
  qed
qed (auto simp: LoadConfig_def intro: no_selector)

definition decodes_typed :: "('rs, 'lst, 'cr, 'st, 'sel) operator_lib \<Rightarrow> bool" where
  "decodes_typed Op \<longleftrightarrow> (\<forall>text jobs. UnmarshalProm Op text = Some jobs \<longrightarrow> list_all sd_typed jobs)"

lemma LoadConfig_no_fault:
  assumes "decodes_typed Op"
  shows "\<exists>r st'. LoadConfig Op A w c st = (Inr r, st')"
proof (cases rule: LoadConfig_cases [of w Op A c st])
  case (generated sms pms probes scs st')
  have "\<exists>jobs. finish_config w js = Inr jobs" if "UnmarshalProm Op t = Some js" for t js
    by (rule finish_config_typed) (use assms that in \<open>auto simp: decodes_typed_def\<close>)
  then have "\<exists>r. generate Op w sms pms probes scs st' = Inr r"
    by (fastforce simp: generate_def split: option.splits)
  with generated show ?thesis by auto
qed auto

text \<open>
  C27: No tenant reads the allocator's files. When file access is denied, every job that is loaded is free of a
  credentials file and of the three files of a TLS configuration; and nothing else is lost: the loaded jobs are
  exactly the decoded ones without such files, in their order, unchanged but for the path of the
  Kubernetes configuration, which is the one of the allocator in every Kubernetes discovery. Loading never faults.
\<close>

theorem LoadConfig_denies_files:
  assumes "decodes_typed Op" and "denyFSAccessThroughSMs w"
  shows "\<exists>r. fst (LoadConfig Op A w c st) = Inr r \<and>
    (\<forall>jobs. r = Inr jobs \<longrightarrow>
      (\<forall>sc \<in> set jobs. CredentialsFile (sc_rest sc) \<in> {None, Some ''''} \<and> CAFile (sc_rest sc) = '''' \<and>
         CertFile (sc_rest sc) = '''' \<and> KeyFile (sc_rest sc) = '''' \<and>
         (\<forall>path rest. KubernetesSD path rest \<in> set (ServiceDiscoveryConfigs sc) \<longrightarrow> path = kubeConfigPath w)) \<and>
      (resourceSelector w \<noteq> None \<longrightarrow> (\<exists>text generated. UnmarshalProm Op text = Some generated \<and>
         jobs = map (job_with_path (kubeConfigPath w)) (filter reads_no_file generated))))"
proof -
  from LoadConfig_no_fault [OF assms(1)] obtain r st' where r: "LoadConfig Op A w c st = (Inr r, st')" by blast
  have src: "(resourceSelector w = None \<and> jobs = []) \<or> (\<exists>text generated. UnmarshalProm Op text = Some generated \<and>
      jobs = map (job_with_path (kubeConfigPath w)) (filter reads_no_file generated))" if "r = Inr jobs" for jobs
  proof (cases rule: LoadConfig_cases [of w Op A c st])
    case (generated sms pms probes scs s1)
    with r that have "generate Op w sms pms probes scs s1 = Inr (Inr jobs)" by auto
    then show ?thesis using finish_config_eq [of w _ jobs] assms(2) by (auto simp: generate_def split: option.splits)
  qed (use r that in auto)
  moreover have "path = kubeConfigPath w" if "KubernetesSD path rest = with_path (kubeConfigPath w) sd" for path rest sd
    using that by (cases sd) auto
  ultimately have "\<forall>sc \<in> set jobs. reads_no_file sc \<and>
      (\<forall>path rest. KubernetesSD path rest \<in> set (ServiceDiscoveryConfigs sc) \<longrightarrow> path = kubeConfigPath w)" if "r = Inr jobs" for jobs
    using that by (auto simp: job_with_path_def reads_no_file_def)
  with src r show ?thesis by (auto simp: reads_no_file_def)
qed


section \<open>No change is lost\<close>

text \<open>
  The data of the coalescing pattern is the contents of the informers that are loaded, and the changes of the
  store. The load is not one step: the invariant says that the part already read is the current one unless a
  notification is under way.
\<close>

definition snapshot :: "mon_api \<Rightarrow> ('inf, 'sel, 'rs) PrometheusCRWatcher \<Rightarrow> ('lst, 'st) cr_state \<Rightarrow> 'lst list \<times> nat" where
  "snapshot A w s = (map (s_cache s) (kinds A w), s_secrets s)"

definition unsettled :: "('lst, 'st) cr_state \<Rightarrow> bool" where
  "unsettled s \<longleftrightarrow> s_notify s \<or> s_events s > 0"

definition loading :: "('lst, 'st) cr_state \<Rightarrow> bool" where
  "loading s \<longleftrightarrow> (\<exists>ks c. s_loop s = Loading ks c)"

definition load_inv :: "mon_api \<Rightarrow> ('inf, 'sel, 'rs) PrometheusCRWatcher \<Rightarrow> ('lst, 'st) cr_state \<Rightarrow> bool" where
  "load_inv A w s \<longleftrightarrow> (\<forall>ks c. s_loop s = Loading ks c \<longrightarrow>
     (\<exists>read. kinds A w = read @ ks \<and> (unsettled s \<or> map c read = map (s_cache s) read)))"

definition all_watched :: "mon_api \<Rightarrow> ('inf, 'sel, 'rs) PrometheusCRWatcher \<Rightarrow> (string, handler_kind) gomap \<Rightarrow> bool" where
  "all_watched A w hs \<longleftrightarrow> (\<forall>k \<in> set (kinds A w). fmlookup hs k = Some DefaultHandler)"

lemmas cr_defs = snapshot_def unsettled_def loading_def notify_def

lemma send_tick_cases:
  obtains "send_tick A w s = s" "s_notify s \<longrightarrow> s_loop s \<noteq> Waiting"
  | "s_notify s" "s_loop s = Waiting" "send_tick A w s = s\<lparr>s_notify := False, s_loop := Loading (kinds A w) (s_cache s)\<rparr>"
  by (cases "s_loop s") (auto simp: send_tick_def notify_def split: if_splits)

lemma finish_load_cases:
  assumes "finish_load Op A applied w c s = Inr s'"
  obtains st where "s' = s\<lparr>s_store := st, s_failed := True, s_loop := Returning\<rparr>"
  | st where "s' = s\<lparr>s_store := st, s_failed := False, s_loop := Returning, s_loaded := s_loaded s @ [(map c (kinds A w), s_secrets s)]\<rparr>"
  using assms by (auto simp: finish_load_def split: prod.splits sum.splits if_splits)

lemma secret_handled_cases:
  obtains st where "secret_handled r s = s\<lparr>s_store := st\<rparr>"
  | st where "secret_handled r s = s\<lparr>s_store := st, s_secrets := Suc (s_secrets s), s_notify := True\<rparr>"
proof (cases r)
  case (Pair st b)
  then show ?thesis by (cases b) (auto simp: secret_handled_def notify_def intro: that)
qed

lemma Close_cases: "Close s = Inr s' \<Longrightarrow> s' = s\<lparr>s_stopped := True\<rparr>"
  by (simp add: Close_def split: if_splits)

lemma load_inv_step:
  assumes "all_watched A w hs" "load_inv A w s" "cr_step Op S A applied w hs l s s'"
  shows "load_inv A w s'"
  using assms(3)
proof cases
  case (unwatched_change k d)
  then have "k \<notin> set (kinds A w)" using assms(1) by (auto simp: all_watched_def)
  then have "map ((s_cache s)(k := d)) ks = map (s_cache s) ks" if "kinds A w = ks @ rest" for ks rest
    using that by (intro map_cong) auto
  with assms(2) unwatched_change show ?thesis by (fastforce simp: load_inv_def unsettled_def)
next
  case (secret_updated get_secret old new r)
  with assms(2) show ?thesis by (cases rule: secret_handled_cases [of r s]) (auto simp: load_inv_def unsettled_def)
next
  case (secret_deleted obj r)
  with assms(2) show ?thesis by (cases rule: secret_handled_cases [of r s]) (auto simp: load_inv_def unsettled_def)
next
  case tick
  with assms(2) show ?thesis by (cases rule: send_tick_cases [of A w s]) (auto simp: load_inv_def unsettled_def)
next
  case (read_cache k ks c)
  with assms(2) obtain read where r: "kinds A w = read @ k # ks" "unsettled s \<or> map c read = map (s_cache s) read"
    by (auto simp: load_inv_def)
  have "map (c(k := s_cache s k)) (read @ [k]) = map (s_cache s) (read @ [k])" if "map c read = map (s_cache s) read"
    using that by auto
  with r read_cache show ?thesis by (auto simp: load_inv_def unsettled_def intro!: exI [of _ "read @ [k]"])
next
  case (loaded c)
  then show ?thesis by (auto simp: load_inv_def elim!: finish_load_cases)
qed (use assms(2) in \<open>auto simp: load_inv_def unsettled_def notify_def dest: Close_cases\<close>)

definition waiting_for :: "('lst, 'st) cr_state \<Rightarrow> bool" where
  "waiting_for s \<longleftrightarrow> unsettled s \<or> loading s \<or> s_failed s"

lemma cr_step_data:
  assumes "all_watched A w hs" "load_inv A w s" "cr_step Op S A applied w hs l s s'"
  shows "(s_loaded s' = s_loaded s \<and> (waiting_for s' \<or> snapshot A w s' = snapshot A w s \<and> \<not> waiting_for s)) \<or>
    (\<exists>d. s_loaded s' = s_loaded s @ [d] \<and> (waiting_for s' \<or> d = snapshot A w s'))"
  using assms(3)
proof cases
  case (unwatched_change k d)
  then have "k \<notin> set (kinds A w)" using assms(1) by (auto simp: all_watched_def)
  with unwatched_change show ?thesis by (auto simp: waiting_for_def cr_defs)
next
  case (secret_updated get_secret old new r)
  then show ?thesis by (cases rule: secret_handled_cases [of r s]) (auto simp: waiting_for_def cr_defs)
next
  case (secret_deleted obj r)
  then show ?thesis by (cases rule: secret_handled_cases [of r s]) (auto simp: waiting_for_def cr_defs)
next
  case tick
  then show ?thesis by (cases rule: send_tick_cases [of A w s]) (auto simp: waiting_for_def cr_defs)
next
  case (loaded c)
  with assms(2) have "unsettled s \<or> map c (kinds A w) = map (s_cache s) (kinds A w)" by (auto simp: load_inv_def)
  with loaded show ?thesis by (auto simp: waiting_for_def cr_defs elim!: finish_load_cases)
qed (auto simp: waiting_for_def cr_defs dest: Close_cases)

interpretation cr: guarded_coalescer "\<lambda>s s'. all_watched A w hs \<and> (\<exists>l. cr_step Op S A applied w hs l s s')"
  "load_inv A w" "snapshot A w" waiting_for s_loaded
  for Op S A applied w hs
  by unfold_locales (use load_inv_step cr_step_data in blast)+

definition started :: "('lst, 'st) cr_state \<Rightarrow> bool" where
  "started s \<longleftrightarrow> s_loop s = Waiting \<and> \<not> s_notify s \<and> s_events s = 0 \<and> s_loaded s = [] \<and> \<not> s_failed s \<and> s_sending s"

lemma started_simps: "started s \<Longrightarrow> load_inv A w s \<and> s_loaded s = [] \<and> \<not> waiting_for s"
  by (auto simp: started_def load_inv_def waiting_for_def unsettled_def loading_def)

lemma settled_is_current:
  assumes "all_watched A w hs" "started s0" "(\<lambda>s s'. \<exists>l. cr_step Op S A applied w hs l s s')\<^sup>*\<^sup>* s0 s"
  shows "waiting_for s \<or> last (snapshot A w s0 # s_loaded s) = snapshot A w s"
proof (rule cr.quiet_current)
  show "(\<lambda>s s'. all_watched A w hs \<and> (\<exists>l. cr_step Op S A applied w hs l s s'))\<^sup>*\<^sup>* s0 s" using assms(1,3) by simp
qed (use started_simps [OF assms(2)] in auto)

text \<open>
  C28: No change of a custom resource is lost. Whatever the interleaving of changes, handlers, timer, event loop and
  reads of the caches, in every state in which no handler is due, no notification waits, no configuration is being loaded and
  the last load did not fail, the configuration applied last was made from the current contents of all
  informers and from the current secrets. It needs every informer that is loaded to have a handler.
\<close>

theorem cr_no_lost_update:
  assumes "all_watched A w hs" and "started s0" and "(\<lambda>s s'. \<exists>l. cr_step Op S A applied w hs l s s')\<^sup>*\<^sup>* s0 s"
  shows "\<not> s_notify s \<and> s_events s = 0 \<and> s_loop s \<in> {Waiting, Returning} \<and> \<not> s_failed s \<longrightarrow>
    last ((map (s_cache s0) (kinds A w), s_secrets s0) # s_loaded s) = (map (s_cache s) (kinds A w), s_secrets s)"
  using settled_is_current [OF assms] by (auto simp: waiting_for_def cr_defs)

section \<open>Failed loads\<close>

text \<open>Steps that are not a change of a resource or a secret.\<close>

definition no_change :: "cr_label \<Rightarrow> bool" where
  "no_change l \<longleftrightarrow> l \<noteq> CacheChange \<and> l \<noteq> SecretChange"

lemma idle_step:
  assumes "cr_step Op S A applied w hs l s s'" "no_change l" "\<not> unsettled s" "\<not> loading s"
  shows "\<not> unsettled s' \<and> \<not> loading s' \<and> s_loaded s' = s_loaded s \<and> snapshot A w s' = snapshot A w s"
  using assms(1)
proof cases
  case tick
  with assms(3,4) show ?thesis by (auto simp: send_tick_def unsettled_def)
qed (use assms(2-4) in \<open>auto simp: no_change_def cr_defs dest: Close_cases\<close>)

lemma idle_steps:
  assumes "(\<lambda>s s'. \<exists>l. no_change l \<and> cr_step Op S A applied w hs l s s')\<^sup>*\<^sup>* s1 s2" "\<not> unsettled s1 \<and> \<not> loading s1"
  shows "\<not> unsettled s2 \<and> \<not> loading s2 \<and> s_loaded s2 = s_loaded s1 \<and> snapshot A w s2 = snapshot A w s1"
  using assms(1)
proof (induction rule: rtranclp_induct)
  case (step y z)
  then obtain l where l: "no_change l" "cr_step Op S A applied w hs l y z" by blast
  with idle_step [OF l(2,1)] step.IH show ?case by simp
qed (use assms(2) in simp)

text \<open>
  A load that fails is not tried again. Suppose the event loop finds an error when it loads, with no
  other notification under way. Then until the next change of a resource or secret nothing is applied, however often the
  timer fires: the configuration in use stays the one before, although the contents may have changed.
\<close>

theorem failed_load_not_retried:
  assumes "s_loop s = Loading [] c" and "LoadConfig Op A w c (s_store s) = (Inr (Inl e), st)" and "\<not> s_notify s" and "s_events s = 0"
    and "cr_step Op S A applied w hs LoadStep s s1" and "(\<lambda>s s'. \<exists>l. no_change l \<and> cr_step Op S A applied w hs l s s')\<^sup>*\<^sup>* s1 s2"
  shows "s_loaded s2 = s_loaded s \<and> map (s_cache s2) (kinds A w) = map (s_cache s) (kinds A w) \<and> s_secrets s2 = s_secrets s"
proof -
  from assms(5,1,2) have s1: "s1 = s\<lparr>s_store := st, s_failed := True, s_loop := Returning\<rparr>"
    by (cases rule: load_stepE) (auto simp: finish_load_def)
  then have "\<not> unsettled s1 \<and> \<not> loading s1" using assms(3,4) by (simp add: cr_defs)
  from idle_steps [OF assms(6) this] have "s_loaded s2 = s_loaded s1 \<and> snapshot A w s2 = snapshot A w s1" by simp
  with s1 show ?thesis by (auto simp: snapshot_def)
qed


section \<open>Every change arrives\<close>

text \<open>
  Runs that go on for ever, with the label of each step. Fairness is asked of the four actions of the program itself: an action
  that stays possible is taken at some time.
\<close>

definition cr_run ::
    "('rs, 'lst, 'cr, 'st, 'sel) operator_lib \<Rightarrow> ('st, 'sec) store_lib \<Rightarrow> mon_api \<Rightarrow> (prom_job list \<Rightarrow> bool)
     \<Rightarrow> ('inf, 'sel, 'rs) PrometheusCRWatcher \<Rightarrow> (string, handler_kind) gomap
     \<Rightarrow> (nat \<Rightarrow> ('lst, 'st) cr_state) \<Rightarrow> (nat \<Rightarrow> cr_label) \<Rightarrow> bool" where
  "cr_run Op S A applied w hs \<sigma> lab \<longleftrightarrow>
     (\<forall>n. cr_step Op S A applied w hs (lab n) (\<sigma> n) (\<sigma> (Suc n))) \<and>
     (\<forall>l \<in> {Handle, Tick, LoadStep, Return}. \<forall>n. (\<forall>m \<ge> n. \<exists>s'. cr_step Op S A applied w hs l (\<sigma> m) s') \<longrightarrow> (\<exists>m \<ge> n. lab m = l))"

definition program_label :: "cr_label \<Rightarrow> bool" where
  "program_label l \<longleftrightarrow> l \<in> {Handle, Tick, LoadStep, Return}"

text \<open>What the program still has to do: the events, the notification and the rest of a load.\<close>

definition work :: "nat \<Rightarrow> ('lst, 'st) cr_state \<Rightarrow> nat" where
  "work K s = s_events s * (2 * (K + 4)) + (if s_notify s then K + 3 else 0) +
     (case s_loop s of Waiting \<Rightarrow> 0 | Returning \<Rightarrow> 1 | Loading ks _ \<Rightarrow> length ks + 2)"

lemma work_0: "work K s = 0 \<longleftrightarrow> s_events s = 0 \<and> \<not> s_notify s \<and> s_loop s = Waiting"
  by (auto simp: work_def split: loop_state.splits)

lemma program_step:
  assumes "cr_step Op S A applied w hs l s s'" "program_label l"
  shows "work (length (kinds A w)) s' < work (length (kinds A w)) s \<or>
    l = Tick \<and> s' = s \<and> (s_notify s \<longrightarrow> s_loop s \<noteq> Waiting)"
  using assms(1)
proof cases
  case (handler n)
  then show ?thesis by (auto simp: work_def notify_def)
next
  case tick
  then show ?thesis by (cases rule: send_tick_cases [of A w s]) (auto simp: work_def)
next
  case (loaded c)
  then show ?thesis by (auto simp: work_def elim!: finish_load_cases)
qed (use assms(2) in \<open>auto simp: program_label_def work_def\<close>)

lemma program_step_frame:
  assumes "cr_step Op S A applied w hs l s s'" "program_label l"
  shows "l \<noteq> Handle \<longrightarrow> s_events s' = s_events s" "l \<notin> {LoadStep, Tick} \<longrightarrow> loading s' = loading s" "loading s \<longrightarrow> l \<noteq> LoadStep \<longrightarrow> loading s'"
    "s_loop s = Returning \<longrightarrow> l \<noteq> Return \<longrightarrow> s_loop s' = Returning"
    "s_loop s = Waiting \<and> s_notify s \<longrightarrow> l \<noteq> Tick \<longrightarrow> s_loop s' = Waiting \<and> s_notify s'" "s_sending s' = s_sending s"
  using assms
  by (cases; cases rule: send_tick_cases [of A w s]; auto simp: program_label_def cr_defs elim!: finish_load_cases)+

lemma fair_progress:
  assumes run: "cr_run Op S A applied w hs \<sigma> lab" and typed: "decodes_typed Op"
    and prog: "\<And>m. m \<ge> n \<Longrightarrow> program_label (lab m)" and sending: "s_sending (\<sigma> n)" and todo: "work (length (kinds A w)) (\<sigma> n) > 0"
  shows "\<exists>m \<ge> n. work (length (kinds A w)) (\<sigma> (Suc m)) < work (length (kinds A w)) (\<sigma> m)"
proof -
  let ?en = "\<lambda>l s. \<exists>s'. cr_step Op S A applied w hs l s s'"
  have step: "cr_step Op S A applied w hs (lab m) (\<sigma> m) (\<sigma> (Suc m))" for m using run by (simp add: cr_run_def)
  have fair: "(\<forall>m \<ge> n. ?en l (\<sigma> m)) \<longrightarrow> (\<exists>m \<ge> n. lab m = l)" if "program_label l" for l
    using run that unfolding cr_run_def program_label_def by blast
  note frame = program_step_frame [OF step prog]
  have sends: "s_sending (\<sigma> m)" if "m \<ge> n" for m
    using that by (induction rule: dec_induct) (use sending frame(6) in auto)
  have go: "\<exists>m \<ge> n. work (length (kinds A w)) (\<sigma> (Suc m)) < work (length (kinds A w)) (\<sigma> m)"
    if "\<exists>m \<ge> n. lab m = l \<and> P (\<sigma> m)" "l \<noteq> Tick \<or> (\<forall>s. P s \<longrightarrow> s_notify s \<and> s_loop s = Waiting)" for l P
    using that program_step [OF step prog] by blast
  from todo consider "s_events (\<sigma> n) > 0" | "loading (\<sigma> n)" | "s_loop (\<sigma> n) = Returning" | "s_loop (\<sigma> n) = Waiting \<and> s_notify (\<sigma> n)"
    by (cases "s_loop (\<sigma> n)") (auto simp: work_def loading_def split: if_splits)
  then show ?thesis
  proof cases
    case 1
    have "\<exists>m \<ge> n. lab m = Handle \<and> s_events (\<sigma> m) > 0"
      by (rule weak_fairness [where enabled = "?en Handle"])
        (use fair 1 frame(1) in \<open>auto simp: program_label_def gr0_conv_Suc intro: cr_step.handler\<close>)
    then show ?thesis by (rule go) simp
  next
    case 2
    have en: "?en LoadStep s" if "loading s" for s
    proof -
      from that obtain ks c where l: "s_loop s = Loading ks c" by (auto simp: loading_def)
      from LoadConfig_no_fault [OF typed] obtain r st where "LoadConfig Op A w c (s_store s) = (Inr r, st)" by blast
      then have "\<exists>s'. finish_load Op A applied w c s = Inr s'" by (cases r) (auto simp: finish_load_def)
      with l show ?thesis by (cases ks) (auto intro: cr_step.read_cache cr_step.loaded)
    qed
    have "\<exists>m \<ge> n. lab m = LoadStep \<and> loading (\<sigma> m)"
      by (rule weak_fairness [where enabled = "?en LoadStep"]) (use fair 2 frame(3) en in \<open>auto simp: program_label_def\<close>)
    then show ?thesis by (rule go) simp
  next
    case 3
    have "\<exists>m \<ge> n. lab m = Return \<and> s_loop (\<sigma> m) = Returning"
      by (rule weak_fairness [where enabled = "?en Return"])
        (use fair 3 frame(4) in \<open>auto simp: program_label_def intro: cr_step.loop_back\<close>)
    then show ?thesis by (rule go) simp
  next
    case 4
    have "\<exists>m \<ge> n. lab m = Tick \<and> (s_loop (\<sigma> m) = Waiting \<and> s_notify (\<sigma> m) \<and> s_sending (\<sigma> m))"
      by (rule weak_fairness [where enabled = "?en Tick"])
        (use fair 4 frame(5,6) sends in \<open>auto simp: program_label_def intro: cr_step.tick\<close>)
    then show ?thesis by (rule go) simp
  qed
qed

lemma run_reachable:
  assumes "cr_run Op S A applied w hs \<sigma> lab"
  shows "(\<lambda>s s'. \<exists>l. cr_step Op S A applied w hs l s s')\<^sup>*\<^sup>* (\<sigma> 0) (\<sigma> n)"
proof (induction n)
  case (Suc n)
  then show ?case using assms by (auto simp: cr_run_def intro: rtranclp.rtrancl_into_rtrancl)
qed simp

text \<open>
  C29: Every change arrives. In a run that goes on for ever under a fair scheduler, if from some point on no resource and no secret
  changes, the watcher is not closed and no load fails, then from some later point on the configuration
  in use is for good the one made from the current contents of the informers and the current secrets.
\<close>

theorem cr_changes_arrive:
  assumes "all_watched A w hs" and "decodes_typed Op" and "cr_run Op S A applied w hs \<sigma> lab" and "started (\<sigma> 0)"
    and "\<forall>n \<ge> N. lab n \<in> {Handle, Tick, LoadStep, Return}" and "s_sending (\<sigma> N)" and "\<forall>n \<ge> N. \<not> s_failed (\<sigma> n)"
  shows "\<exists>M \<ge> N. \<forall>m \<ge> M. last ((map (s_cache (\<sigma> 0)) (kinds A w), s_secrets (\<sigma> 0)) # s_loaded (\<sigma> m)) =
    (map (s_cache (\<sigma> m)) (kinds A w), s_secrets (\<sigma> m))"
proof -
  let ?f = "\<lambda>n. work (length (kinds A w)) (\<sigma> n)"
  have prog: "program_label (lab m)" if "m \<ge> N" for m using assms(5) that by (simp add: program_label_def)
  have step: "cr_step Op S A applied w hs (lab m) (\<sigma> m) (\<sigma> (Suc m))" for m using assms(3) by (simp add: cr_run_def)
  have sends: "s_sending (\<sigma> m)" if "m \<ge> N" for m
    using that by (induction rule: dec_induct) (use assms(6) program_step_frame(6) [OF step prog] in auto)
  have "\<exists>M \<ge> N. \<forall>m \<ge> M. ?f m = 0"
  proof (rule eventually_zero)
    show "?f (Suc n) \<le> ?f n" if "n \<ge> N" for n using program_step [OF step prog [OF that]] by auto
    show "\<exists>m \<ge> n. ?f (Suc m) < ?f m" if "n \<ge> N" "?f n > 0" for n
      by (rule fair_progress [OF assms(3,2)]) (use prog sends that in auto)
  qed
  then obtain M where M: "M \<ge> N" "\<forall>m \<ge> M. ?f m = 0" by auto
  have "\<not> waiting_for (\<sigma> m)" if "m \<ge> M" for m
    using M(2) that assms(7) M(1) by (auto simp: work_0 waiting_for_def unsettled_def loading_def)
  then have "last (snapshot A w (\<sigma> 0) # s_loaded (\<sigma> m)) = snapshot A w (\<sigma> m)" if "m \<ge> M" for m
    using settled_is_current [OF assms(1,4) run_reachable [OF assms(3), of m]] that by blast
  with M(1) show ?thesis unfolding snapshot_def by blast
qed


section \<open>A concrete watcher\<close>

definition demo_mon :: mon_api where
  "demo_mon = \<lparr>GroupName = ''monitoring.coreos.com'', ServiceMonitorName = ''servicemonitors'', PodMonitorName = ''podmonitors'',
     ProbeName = ''probes'', ScrapeConfigName = ''scrapeconfigs'', ResourceSecrets = ''secrets'', namespaceAll = '''', DefaultRetry_Steps = 5\<rparr>"

definition demo_job :: "string \<Rightarrow> string \<Rightarrow> prom_job" where
  "demo_job name ca = \<lparr>sc_JobName = name, ServiceDiscoveryConfigs = [KubernetesSD '''' ''pods'', OtherSD ''http'' ''url''], RelabelConfigs = [],
     sc_rest = \<lparr>CredentialsFile = None, CAFile = ca, CertFile = '''', KeyFile = '''', http_rest = ''''\<rparr>\<rparr>"

definition demo_op :: "(unit, nat, nat, unit, unit) operator_lib" where
  "demo_op = \<lparr>SelectServiceMonitors = (\<lambda>_ n st. (if n = 13 then None else Some (fmupd ''sm'' n fmempty), st)),
     SelectPodMonitors = (\<lambda>_ _ st. (Some fmempty, st)), SelectProbes = (\<lambda>_ _ st. (Some fmempty, st)),
     SelectScrapeConfigs = (\<lambda>_ _ st. (Some fmempty, st)),
     GenerateServerConfiguration = (\<lambda>_ _ _ _ _ _. Some ''config''),
     UnmarshalProm = (\<lambda>_. Some [demo_job ''token'' ''/var/run/secrets/ca.crt'', demo_job ''clean'' ''''])\<rparr>"

definition demo_object :: "unit PrometheusObject" where
  "demo_object = prom_object (CreateDefaultConfig ''ns'' () [] :: (unit, unit, unit) Config)"

definition demo_crw :: "(unit, unit, unit) PrometheusCRWatcher" where
  "demo_crw = \<lparr>informers = fmupd ''servicemonitors'' () fmempty, nsInformer = Some (), eventInterval = minEventInterval, kubeConfigPath = ''/kc'',
     podMonitorNamespaceSelector = None, serviceMonitorNamespaceSelector = None, scrapeConfigNamespaceSelector = None,
     probeNamespaceSelector = None, resourceSelector = Some (), prometheusCR = demo_object, denyFSAccessThroughSMs = True\<rparr>"

definition demo_handlers :: "(string, handler_kind) gomap" where
  "demo_handlers = fmupd ''servicemonitors'' DefaultHandler fmempty"

lemma demo_kinds: "kinds demo_mon demo_crw = [''servicemonitors'']"
  by (simp add: kinds_def demo_mon_def demo_crw_def)

lemma demo_typed: "decodes_typed demo_op"
  by (auto simp: decodes_typed_def demo_op_def demo_job_def sd_typed_def)

lemma demo_watched: "all_watched demo_mon demo_crw demo_handlers"
  by (simp add: all_watched_def demo_kinds demo_handlers_def)

lemma demo_LoadConfig:
  "n \<noteq> 13 \<Longrightarrow> LoadConfig demo_op demo_mon demo_crw (\<lambda>_. n) () = (Inr (Inr [job_with_path ''/kc'' (demo_job ''clean'' '''')]), ())"
  "LoadConfig demo_op demo_mon demo_crw (\<lambda>_. 13) () = (Inr (Inl (SelectError ''servicemonitors'')), ())"
  by (simp_all add: LoadConfig_def select_from_def generate_def finish_config_def filterScrapeConfigs_filter set_job_kubeconfig_def
      set_kubeconfig_def job_with_path_def reads_no_file_def demo_mon_def demo_crw_def demo_op_def demo_job_def)

theorem LoadConfig_denies_files_witness:
  "\<exists>jobs. fst (LoadConfig demo_op demo_mon demo_crw (\<lambda>_. 1) ()) = Inr (Inr jobs) \<and> map sc_JobName jobs = [''clean''] \<and>
     (\<forall>sc \<in> set jobs. CAFile (sc_rest sc) = '''')"
  using LoadConfig_denies_files [OF demo_typed, of demo_crw demo_mon "\<lambda>_. 1" "()"] demo_LoadConfig(1) [of 1]
  by (simp add: demo_crw_def demo_job_def)

definition demo_start :: "(nat, unit) cr_state" where
  "demo_start = \<lparr>s_cache = (\<lambda>_. 0), s_store = (), s_secrets = 0, s_events = 0, s_notify = False, s_loop = Waiting, s_loaded = [],
     s_failed = False, s_stopped = False, s_sending = True\<rparr>"

definition demo_changed :: "nat \<Rightarrow> nat \<Rightarrow> bool \<Rightarrow> nat loop_state \<Rightarrow> (nat list \<times> nat) list \<Rightarrow> bool \<Rightarrow> (nat, unit) cr_state" where
  "demo_changed v ev note loop ld failed = demo_start\<lparr>s_cache := (\<lambda>_. 0)(''servicemonitors'' := v), s_events := ev, s_notify := note,
     s_loop := loop, s_loaded := ld, s_failed := failed\<rparr>"

abbreviation demo_cache :: "nat \<Rightarrow> string \<Rightarrow> nat" where
  "demo_cache v \<equiv> (\<lambda>_. 0)(''servicemonitors'' := v)"

definition demo_store :: "(unit, unit) store_lib" where
  "demo_store = \<lparr>GetObject = (\<lambda>_ _ _. None), UpdateObject = (\<lambda>_ _. None), DeleteObject = (\<lambda>_ _ _. None)\<rparr>"

abbreviation demo_step :: "cr_label \<Rightarrow> (nat, unit) cr_state \<Rightarrow> (nat, unit) cr_state \<Rightarrow> bool" where
  "demo_step \<equiv> cr_step demo_op demo_store
     demo_mon (\<lambda>_. True) demo_crw demo_handlers"

lemma demo_finish:
  "finish_load demo_op demo_mon (\<lambda>_. True) demo_crw (demo_cache v) (demo_changed v 0 False (Loading [] (demo_cache v)) [] False) =
     Inr (if v = 13 then demo_changed v 0 False Returning [] True else demo_changed v 0 False Returning [([v], 0)] False)"
proof -
  have "LoadConfig demo_op demo_mon demo_crw (demo_cache v) () = LoadConfig demo_op demo_mon demo_crw (\<lambda>_. v) ()"
    by (rule LoadConfig_reads) (simp add: demo_kinds)
  then show ?thesis using demo_LoadConfig(1) [of v] demo_LoadConfig(2)
    by (auto simp: finish_load_def demo_changed_def demo_start_def demo_kinds)
qed

lemma demo_steps:
  "demo_step CacheChange demo_start (demo_changed v 1 False Waiting [] False)"
  "demo_step Handle (demo_changed v 1 False Waiting [] False) (demo_changed v 0 True Waiting [] False)"
  "demo_step Tick (demo_changed v 0 True Waiting [] False) (demo_changed v 0 False (Loading [''servicemonitors''] (demo_cache v)) [] False)"
  "demo_step LoadStep (demo_changed v 0 False (Loading [''servicemonitors''] (demo_cache v)) [] False) (demo_changed v 0 False (Loading [] (demo_cache v)) [] False)"
  "demo_step LoadStep (demo_changed v 0 False (Loading [] (demo_cache v)) [] False)
     (if v = 13 then demo_changed v 0 False Returning [] True else demo_changed v 0 False Returning [([v], 0)] False)"
  "demo_step Return (demo_changed v 0 False Returning ld b) (demo_changed v 0 False Waiting ld b)"
  "demo_step Tick (demo_changed v 0 False Waiting ld b) (demo_changed v 0 False Waiting ld b)"
proof -
  show "demo_step CacheChange demo_start (demo_changed v 1 False Waiting [] False)"
    using watched_change [of demo_handlers "''servicemonitors''" demo_op _ demo_mon "\<lambda>_. True" demo_crw demo_start v]
    by (simp add: demo_handlers_def demo_changed_def demo_start_def)
  show "demo_step Handle (demo_changed v 1 False Waiting [] False) (demo_changed v 0 True Waiting [] False)"
    using handler [of "demo_changed v 1 False Waiting [] False" 0] by (simp add: demo_changed_def demo_start_def notify_def)
  show "demo_step Tick (demo_changed v 0 True Waiting [] False) (demo_changed v 0 False (Loading [''servicemonitors''] (demo_cache v)) [] False)"
    using tick [of "demo_changed v 0 True Waiting [] False" demo_op _ demo_mon _ demo_crw]
    by (simp add: demo_changed_def send_tick_def demo_start_def demo_kinds)
  show "demo_step LoadStep (demo_changed v 0 False (Loading [''servicemonitors''] (demo_cache v)) [] False) (demo_changed v 0 False (Loading [] (demo_cache v)) [] False)"
    using read_cache [of "demo_changed v 0 False (Loading [''servicemonitors''] (demo_cache v)) [] False" "''servicemonitors''" "[]" "demo_cache v"]
    by (simp add: demo_changed_def demo_start_def)
  show "demo_step LoadStep (demo_changed v 0 False (Loading [] (demo_cache v)) [] False)
     (if v = 13 then demo_changed v 0 False Returning [] True else demo_changed v 0 False Returning [([v], 0)] False)"
    by (rule loaded [OF _ demo_finish]) (simp add: demo_changed_def)
  show "demo_step Return (demo_changed v 0 False Returning ld b) (demo_changed v 0 False Waiting ld b)"
    using loop_back [of "demo_changed v 0 False Returning ld b"] by (simp add: demo_changed_def demo_start_def)
  show "demo_step Tick (demo_changed v 0 False Waiting ld b) (demo_changed v 0 False Waiting ld b)"
    using tick [of "demo_changed v 0 False Waiting ld b" demo_op _ demo_mon _ demo_crw] by (simp add: demo_changed_def send_tick_def demo_start_def)
qed

definition demo_run :: "nat \<Rightarrow> (nat, unit) cr_state" where
  "demo_run n = [demo_start, demo_changed 1 1 False Waiting [] False, demo_changed 1 0 True Waiting [] False,
     demo_changed 1 0 False (Loading [''servicemonitors''] (demo_cache 1)) [] False, demo_changed 1 0 False (Loading [] (demo_cache 1)) [] False,
     demo_changed 1 0 False Returning [([1], 0)] False, demo_changed 1 0 False Waiting [([1], 0)] False] ! min n 6"

definition demo_labels :: "nat \<Rightarrow> cr_label" where
  "demo_labels n = [CacheChange, Handle, Tick, LoadStep, LoadStep, Return, Tick] ! min n 6"

lemma demo_run_steps: "demo_step (demo_labels n) (demo_run n) (demo_run (Suc n))"
proof -
  have "n < 6 \<or> n \<ge> 6" by auto
  moreover have "demo_step (demo_labels n) (demo_run n) (demo_run (Suc n))" if "n < 6"
  proof -
    from that have "n \<in> {0, 1, 2, 3, 4, 5}" by auto
    then show ?thesis using demo_steps(1-4) [of 1] demo_steps(5) [of 1] demo_steps(6) [of 1 "[([1], 0)]" False]
      by (auto simp: demo_run_def demo_labels_def)
  qed
  moreover have "demo_step (demo_labels n) (demo_run n) (demo_run (Suc n))" if "n \<ge> 6"
    using that demo_steps(7) [of 1 "[([1], 0)]" False] by (simp add: demo_run_def demo_labels_def min_def)
  ultimately show ?thesis by blast
qed

lemma demo_run_late: "n \<ge> 6 \<Longrightarrow> demo_run n = demo_changed 1 0 False Waiting [([1], 0)] False" "n \<ge> 6 \<Longrightarrow> demo_labels n = Tick"
  by (simp_all add: demo_run_def demo_labels_def min_def)

lemma demo_run_fair:
  assumes "l \<in> {Handle, Tick, LoadStep, Return}" "\<forall>m \<ge> n. \<exists>s'. demo_step l (demo_run m) s'"
  shows "\<exists>m \<ge> n. demo_labels m = l"
proof -
  from assms(2) obtain s' where "demo_step l (demo_run (n + 6)) s'" by (metis le_add1)
  then have "demo_step l (demo_changed 1 0 False Waiting [([1], 0)] False) s'" by (simp add: demo_run_late)
  then have "l = Tick" using assms(1) by cases (auto simp: demo_changed_def)
  then show ?thesis using demo_run_late(2) [of "n + 6"] by (intro exI [of _ "n + 6"]) simp
qed

theorem cr_changes_arrive_witness:
  "\<exists>M. \<forall>m \<ge> M. last (([0], 0) # s_loaded (demo_run m)) = ([1], 0)"
proof -
  have run: "cr_run demo_op demo_store
      demo_mon (\<lambda>_. True) demo_crw demo_handlers demo_run demo_labels"
    unfolding cr_run_def using demo_run_steps demo_run_fair by blast
  have "started (demo_run 0)" by (simp add: demo_run_def demo_start_def started_def)
  moreover have "\<forall>n \<ge> 6. demo_labels n \<in> {Handle, Tick, LoadStep, Return}" by (simp add: demo_run_late)
  moreover have "s_sending (demo_run 6)" "\<forall>n \<ge> 6. \<not> s_failed (demo_run n)" by (simp_all add: demo_run_late demo_changed_def demo_start_def)
  ultimately obtain M where M: "M \<ge> 6" "\<forall>m \<ge> M. last ((map (s_cache (demo_run 0)) (kinds demo_mon demo_crw), s_secrets (demo_run 0)) # s_loaded (demo_run m)) =
      (map (s_cache (demo_run m)) (kinds demo_mon demo_crw), s_secrets (demo_run m))"
    using cr_changes_arrive [OF demo_watched demo_typed run] by blast
  have "last (([0], 0) # s_loaded (demo_run m)) = ([1], 0)" if "m \<ge> M" for m
    using M(2) [rule_format, OF that] demo_run_late(1) [of m] M(1) that by (simp add: demo_kinds demo_changed_def demo_start_def)
  then show ?thesis by blast
qed

lemma demo_path:
  "(\<lambda>s s'. \<exists>l. demo_step l s s')\<^sup>*\<^sup>* demo_start (demo_run n)"
proof (induction n)
  case 0
  then show ?case by (simp add: demo_run_def)
next
  case (Suc n)
  then show ?case using demo_run_steps [of n] by (auto intro: rtranclp.rtrancl_into_rtrancl)
qed

theorem cr_no_lost_update_witness:
  "s_loaded (demo_run 6) = [([1], 0)] \<and> map (s_cache (demo_run 6)) (kinds demo_mon demo_crw) = [1]"
  using cr_no_lost_update [OF demo_watched _ demo_path, of 6]
  by (simp add: demo_run_late demo_kinds demo_changed_def demo_start_def started_def)

theorem failed_load_not_retried_witness:
  "\<exists>s. (\<lambda>s s'. \<exists>l. demo_step l s s')\<^sup>*\<^sup>* demo_start s \<and> s_loaded s = [] \<and> map (s_cache s) (kinds demo_mon demo_crw) = [13] \<and>
     (\<forall>s'. (\<lambda>s s'. \<exists>l. no_change l \<and> demo_step l s s')\<^sup>*\<^sup>* s s' \<longrightarrow> s_loaded s' = [])"
proof -
  let ?s = "demo_changed 13 0 False (Loading [] (demo_cache 13)) [] False"
  let ?s1 = "demo_changed 13 0 False Returning [] True"
  have via: "(\<lambda>s s'. \<exists>l. demo_step l s s')\<^sup>*\<^sup>* a c" if "demo_step l a b" "(\<lambda>s s'. \<exists>l. demo_step l s s')\<^sup>*\<^sup>* b c" for l a b c
    using that by (metis (mono_tags, lifting) converse_rtranclp_into_rtranclp)
  have st: "demo_step LoadStep ?s ?s1" using demo_steps(5) [of 13] by simp
  have "(\<lambda>s s'. \<exists>l. demo_step l s s')\<^sup>*\<^sup>* demo_start ?s1"
    by (rule via [OF demo_steps(1)], rule via [OF demo_steps(2)], rule via [OF demo_steps(3)], rule via [OF demo_steps(4)], rule via [OF st],
      rule rtranclp.rtrancl_refl)
  moreover have "LoadConfig demo_op demo_mon demo_crw (demo_cache 13) (s_store ?s) = (Inr (Inl (SelectError ''servicemonitors'')), ())"
    by (simp add: LoadConfig_def select_from_def demo_mon_def demo_crw_def demo_op_def)
  ultimately show ?thesis
    using failed_load_not_retried [OF _ _ _ _ st] by (intro exI [of _ ?s1]) (simp add: demo_changed_def demo_start_def demo_kinds)
qed


section \<open>Handlers\<close>

text \<open>
  The handlers of \<open>Watch\<close> and what they mean for the properties above: an informer has a handler exactly when it was in sync in
  time, so all informers that are loaded are watched exactly when all of them were. One that was not is loaded
  all the same, but a change of it is noticed only with the next change of another one.
\<close>

lemma kinds_iff:
  "k \<in> set (kinds A w) \<longleftrightarrow>
     k \<in> {ServiceMonitorName A, PodMonitorName A, ProbeName A, ScrapeConfigName A} \<and> fmlookup (informers w) k \<noteq> None"
  by (auto simp: kinds_def set_filter simp del: filter.simps)

lemma register_lookup:
  "fmlookup (foldl (register A synced) hs names) k =
     (if k \<in> set names \<and> synced k then Some (if k = ResourceSecrets A then SecretHandler else DefaultHandler) else fmlookup hs k)"
  by (induction names arbitrary: hs) (auto simp: register_def)

lemma Watch_handlers_lookup:
  assumes "Watch_handlers A w synced names = Inr hs" "enum names (informers w)"
  shows "fmlookup hs k = (if fmlookup (informers w) k \<noteq> None \<and> synced k
    then Some (if k = ResourceSecrets A then SecretHandler else DefaultHandler) else None)"
  using assms register_lookup [of A synced fmempty names k] enum_mem [OF assms(2), of k]
  by (auto simp: Watch_handlers_def Let_def split: if_splits)

text \<open>
  A slow informer goes unnoticed. An informer that is not in sync when \<open>Watch\<close> starts gets no handler; the others do, and
  if all do, the two properties of this theory apply. Without one the resources are loaded, but when they change nothing is
  applied until something else changes, however often the timer fires.
\<close>

theorem slow_informer_unnoticed:
  fixes Op :: "('rs, 'lst, 'cr, 'st, 'sel) operator_lib"
  assumes "Watch_handlers A w synced names = Inr hs" and "enum names (informers w)" and "ResourceSecrets A \<notin> set (kinds A w)"
  shows "(all_watched A w hs \<longleftrightarrow> (\<forall>k \<in> set (kinds A w). synced k)) \<and>
    (\<forall>k \<in> set (kinds A w). \<not> synced k \<longrightarrow> (\<forall>s d s2. started s \<longrightarrow>
       cr_step Op S A applied w hs CacheChange s (s\<lparr>s_cache := (s_cache s)(k := d)\<rparr>) \<and>
       ((\<lambda>s s'. \<exists>l. no_change l \<and> cr_step Op S A applied w hs l s s')\<^sup>*\<^sup>* (s\<lparr>s_cache := (s_cache s)(k := d)\<rparr>) s2 \<longrightarrow>
         s_loaded s2 = [] \<and> s_cache s2 k = d)))"
proof (intro conjI ballI impI allI)
  have k: "fmlookup hs k = (if synced k then Some DefaultHandler else None)" if "k \<in> set (kinds A w)" for k
    using Watch_handlers_lookup [OF assms(1,2), of k] that assms(3) by (auto simp: kinds_iff)
  then show "all_watched A w hs \<longleftrightarrow> (\<forall>k \<in> set (kinds A w). synced k)" by (simp add: all_watched_def)
  fix k d and s s2 :: "('lst, 'st) cr_state" assume un: "k \<in> set (kinds A w)" "\<not> synced k" and st: "started s"
  let ?s = "s\<lparr>s_cache := (s_cache s)(k := d)\<rparr>"
  show "cr_step Op S A applied w hs CacheChange s ?s" by (rule unwatched_change) (use k [OF un(1)] un(2) in simp)
  assume "(\<lambda>s s'. \<exists>l. no_change l \<and> cr_step Op S A applied w hs l s s')\<^sup>*\<^sup>* ?s s2"
  then have "\<not> unsettled s2 \<and> \<not> loading s2 \<and> s_loaded s2 = s_loaded ?s \<and> snapshot A w s2 = snapshot A w ?s" by (rule idle_steps)
    (use st in \<open>auto simp: started_def cr_defs\<close>)
  with st un(1) show "s_loaded s2 = []" "s_cache s2 k = d" by (auto simp: started_def snapshot_def)
qed

theorem slow_informer_unnoticed_witness:
  "\<exists>s. cr_step demo_op demo_store demo_mon (\<lambda>_. True) demo_crw fmempty CacheChange demo_start s \<and> s_cache s ''servicemonitors'' = 7 \<and> s_loaded s = []"
proof -
  have w: "Watch_handlers demo_mon demo_crw (\<lambda>name. name = ''namespace'') [''servicemonitors''] = Inr fmempty"
    by (simp add: Watch_handlers_def register_def)
  have e: "enum [''servicemonitors''] (informers demo_crw)" by (simp add: enum_def demo_crw_def)
  have "ResourceSecrets demo_mon \<notin> set (kinds demo_mon demo_crw)" unfolding demo_kinds by (simp add: demo_mon_def)
  from slow_informer_unnoticed [OF w e this, of demo_op demo_store "\<lambda>_. True"]
  have "\<forall>s d. started s \<longrightarrow> cr_step demo_op demo_store demo_mon (\<lambda>_. True) demo_crw fmempty CacheChange s (s\<lparr>s_cache := (s_cache s)(''servicemonitors'' := d)\<rparr>)"
    unfolding demo_kinds by simp
  moreover have "started demo_start" by (simp add: started_def demo_start_def)
  ultimately have "cr_step demo_op demo_store demo_mon (\<lambda>_. True) demo_crw fmempty CacheChange demo_start (demo_start\<lparr>s_cache := (s_cache demo_start)(''servicemonitors'' := 7)\<rparr>)"
    by blast
  then show ?thesis by (auto simp: demo_start_def)
qed

text \<open>
  An update of a namespace is passed on exactly when it changes the selection of one of the four selectors, in whatever order they are
  looked at; an error of one selector can hide the others.
\<close>

lemma namespace_update_iff:
  assumes "\<And>sel. sel \<in> set order \<Longrightarrow> changed (ns_Labels old) (ns_Labels cur) sel \<noteq> None"
  shows "namespace_update changed old cur order \<longleftrightarrow>
    ns_ResourceVersion old \<noteq> ns_ResourceVersion cur \<and> (\<exists>sel \<in> set order. changed (ns_Labels old) (ns_Labels cur) sel = Some True)"
proof -
  have "selection_loop f sels \<longleftrightarrow> (\<exists>sel \<in> set sels. f sel = Some True)" if "\<And>sel. sel \<in> set sels \<Longrightarrow> f sel \<noteq> None"
    for f :: "'a option \<Rightarrow> bool option" and sels
    using that
  proof (induction sels)
    case (Cons a sels)
    then obtain b where "f a = Some b" by force
    with Cons show ?case by auto
  qed simp
  from this [of order] assms show ?thesis by (auto simp: namespace_update_def)
qed

section \<open>Secrets\<close>

text \<open>
  What the handlers rely on of the asset store: \<open>secret_at\<close> reads it, an update replaces the secret of the given key, a deletion
  removes it, and only a secret that is there is reported to be.
\<close>

definition store_ok :: "('st, 'sec) store_lib \<Rightarrow> ('st \<Rightarrow> string \<times> string \<Rightarrow> 'sec option) \<Rightarrow> ('sec \<Rightarrow> string \<times> string) \<Rightarrow> bool" where
  "store_ok S secret_at key \<longleftrightarrow>
     (\<forall>st n ns. GetObject S st n ns = Some True \<longrightarrow> secret_at st (n, ns) \<noteq> None) \<and>
     (\<forall>st x st'. UpdateObject S st x = Some st' \<longrightarrow> secret_at st' = (secret_at st)(key x := Some x)) \<and>
     (\<forall>st n ns st'. DeleteObject S st n ns = Some st' \<longrightarrow> secret_at st' = (secret_at st)((n, ns) := None))"

text \<open>
  The store follows the cluster for the secrets in use and for no others. A handler that asks for a reload has replaced the one secret of its event
  by the current one, or removed it; a handler that does not has changed nothing; and no handler adds a secret that
  was not in use. But a deletion that the informer learns of only later, which it reports by a placeholder, is a nil dereference.
\<close>

theorem secret_handlers:
  assumes "store_ok S secret_at key" and "\<forall>n ns x. get_secret n ns = Some x \<longrightarrow> key x = (n, ns)"
  shows "(\<exists>st' b. handleSecretUpdate S get_secret (Object on ons) (Object n ns) st = Inr (st', b) \<and>
      (if b then get_secret n ns \<noteq> None \<and> secret_at st' = (secret_at st)((n, ns) := get_secret n ns) else st' = st) \<and>
      dom (secret_at st') = dom (secret_at st))
    \<and> (\<exists>st' b. handleSecretDelete S (Object n ns) st = Inr (st', b) \<and>
      (if b then secret_at st (n, ns) \<noteq> None \<and> secret_at st' = (secret_at st)((n, ns) := None) else st' = st))
    \<and> handleSecretDelete S DeletedFinalStateUnknown st = Inl NilDeref"
proof (intro conjI)
  show "\<exists>st' b. handleSecretUpdate S get_secret (Object on ons) (Object n ns) st = Inr (st', b) \<and>
      (if b then get_secret n ns \<noteq> None \<and> secret_at st' = (secret_at st)((n, ns) := get_secret n ns) else st' = st) \<and>
      dom (secret_at st') = dom (secret_at st)"
  proof (cases "GetObject S st n ns = Some True")
    case True
    with assms(1) have d: "(n, ns) \<in> dom (secret_at st)" by (auto simp: store_ok_def)
    have "secret_at st' = (secret_at st)((n, ns) := Some x)" if "get_secret n ns = Some x" "UpdateObject S st x = Some st'" for x st'
      using assms that by (auto simp: store_ok_def)
    with True d show ?thesis
      by (cases "get_secret n ns"; cases "UpdateObject S st (the (get_secret n ns))") (simp_all add: handleSecretUpdate_def insert_absorb, blast+)
  qed (auto simp: handleSecretUpdate_def)
  show "\<exists>st' b. handleSecretDelete S (Object n ns) st = Inr (st', b) \<and>
      (if b then secret_at st (n, ns) \<noteq> None \<and> secret_at st' = (secret_at st)((n, ns) := None) else st' = st)"
  proof (cases "GetObject S st n ns = Some True")
    case True
    with assms(1) have "secret_at st (n, ns) \<noteq> None" by (simp add: store_ok_def)
    with True assms(1) show ?thesis
      by (cases "DeleteObject S st n ns") (simp_all add: handleSecretDelete_def store_ok_def, blast+)
  qed (auto simp: handleSecretDelete_def)
qed (simp add: handleSecretDelete_def)

definition demo_secrets :: "((string \<times> string, string \<times> string \<times> string) gomap, string \<times> string \<times> string) store_lib" where
  "demo_secrets = \<lparr>GetObject = (\<lambda>st n ns. Some (fmlookup st (n, ns) \<noteq> None)), UpdateObject = (\<lambda>st (n, ns, v). Some (fmupd (n, ns) (n, ns, v) st)),
     DeleteObject = (\<lambda>st n ns. Some (fmdrop (n, ns) st))\<rparr>"

theorem secret_handlers_witness:
  "\<exists>st'. handleSecretUpdate demo_secrets (\<lambda>n ns. Some (n, ns, ''new'')) (Object ''s'' ''ns'') (Object ''s'' ''ns'')
     (fmupd (''s'', ''ns'') (''s'', ''ns'', ''old'') fmempty) = Inr (st', True) \<and> fmlookup st' (''s'', ''ns'') = Some (''s'', ''ns'', ''new'')"
proof -
  have "store_ok demo_secrets fmlookup (\<lambda>(n, ns, v). (n, ns))" by (auto simp: store_ok_def demo_secrets_def fun_eq_iff)
  from secret_handlers [OF this, of "\<lambda>n ns. Some (n, ns, ''new'')" "''s''" "''ns''" "''s''" "''ns''"
      "fmupd (''s'', ''ns'') (''s'', ''ns'', ''old'') fmempty"] show ?thesis
    by (auto simp: handleSecretUpdate_def demo_secrets_def split: if_splits)
qed

section \<open>Which informers there are\<close>

lemma scan_groups_True:
  "scan_groups L A r groups = Some True \<Longrightarrow>
     \<exists>vs v rs. (GroupName A, vs) \<in> set groups \<and> v \<in> set vs \<and> ServerResourcesForGroupVersion L v = Some rs \<and> r \<in> set rs"
proof (induction groups)
  case (Cons g groups)
  have "\<exists>v rs. v \<in> set vs \<and> ServerResourcesForGroupVersion L v = Some rs \<and> r \<in> set rs" if "scan_versions L r vs = Some True" for vs
    using that by (induction vs) (auto split: option.splits if_splits)
  with Cons show ?case by (cases g) (fastforce split: if_splits option.splits bool.splits)
qed simp

lemma scan_groups_False:
  "scan_groups L A r groups = Some False \<Longrightarrow> (GroupName A, vs) \<in> set groups \<Longrightarrow> v \<in> set vs \<Longrightarrow>
     \<exists>rs. ServerResourcesForGroupVersion L v = Some rs \<and> r \<notin> set rs"
proof (induction groups)
  case (Cons g groups)
  have "\<exists>rs. ServerResourcesForGroupVersion L v = Some rs \<and> r \<notin> set rs" if "scan_versions L r vs = Some False" "v \<in> set vs" for vs
    using that by (induction vs) (auto split: option.splits if_splits)
  with Cons show ?case by (cases g) (fastforce split: if_splits option.splits bool.splits)
qed simp

lemma add_informer_lookup:
  assumes "add_informer L A factory crd key r = Inr m"
  shows "\<exists>m0. r = Inr m0 \<and> (checkCRDAvailability L A crd \<noteq> Some False \<longrightarrow> fmlookup m key \<noteq> None) \<and>
    (\<forall>k. k \<noteq> key \<or> checkCRDAvailability L A crd = Some False \<longrightarrow> fmlookup m k = fmlookup m0 k)"
  using assms by (cases r; cases "checkCRDAvailability L A crd")
    (auto simp: add_informer_def createInformerIfAvailable_def split: option.splits if_splits)

text \<open>
  What the watcher may see. Construction makes an informer for each of the four kinds of custom resources unless the cluster is known
  not to have it: that it cannot tell counts as yes. The informer of secrets is confined to the namespaces named
  for secrets, and to none when none is named, whatever namespaces the custom resources are watched in.
\<close>

theorem informers_of_watcher:
  assumes "distinct [ServiceMonitorName A, PodMonitorName A, ProbeName A, ScrapeConfigName A, ResourceSecrets A]"
    and "NewPrometheusCRWatcher L A generator_ok selector cfg = Inr w"
  shows "(\<forall>(crd, key) \<in> {(''servicemonitors'', ServiceMonitorName A), (''podmonitors'', PodMonitorName A), (''probes'', ProbeName A),
        (''scrapeconfigs'', ScrapeConfigName A)}.
      fmlookup (informers w) key \<noteq> None \<longleftrightarrow> checkCRDAvailability L A crd \<noteq> Some False)
    \<and> (\<exists>nss. fmdom' nss = set (SecretsAccessNamespaces (PrometheusCR cfg)) \<and> fmlookup (informers w) (ResourceSecrets A) =
        NewInformersForResourceWithTransform L (nss, snd (GetAllowDenyLists (namespaceAll A) (PrometheusCR cfg))) (ResourceSecrets A))"
proof -
  let ?nss = "GetAllowDenyLists (namespaceAll A) (PrometheusCR cfg)"
  let ?add = "add_informer L A ?nss"
  from assms(2) have "getInformers L A ?nss (ClusterConfig cfg) (GetSecretsAllowList (PrometheusCR cfg), snd ?nss) = Inr (informers w)"
    by (auto simp: NewPrometheusCRWatcher_def Let_def split: if_splits sum.splits option.splits)
  then obtain m informer where m: "?add ''scrapeconfigs'' (ScrapeConfigName A) (?add ''probes'' (ProbeName A) (?add ''podmonitors'' (PodMonitorName A)
      (?add ''servicemonitors'' (ServiceMonitorName A) (Inr fmempty)))) = Inr m"
    and i: "NewInformersForResourceWithTransform L (GetSecretsAllowList (PrometheusCR cfg), snd ?nss) (ResourceSecrets A) = Some informer"
    and w: "informers w = fmupd (ResourceSecrets A) informer m"
    by (auto simp: getInformers_def split: if_splits sum.splits option.splits)
  from add_informer_lookup [OF m] obtain m3 where 4: "?add ''probes'' (ProbeName A) (?add ''podmonitors'' (PodMonitorName A)
      (?add ''servicemonitors'' (ServiceMonitorName A) (Inr fmempty))) = Inr m3"
    "checkCRDAvailability L A ''scrapeconfigs'' \<noteq> Some False \<longrightarrow> fmlookup m (ScrapeConfigName A) \<noteq> None"
    "\<forall>k. k \<noteq> ScrapeConfigName A \<or> checkCRDAvailability L A ''scrapeconfigs'' = Some False \<longrightarrow> fmlookup m k = fmlookup m3 k" by blast
  from add_informer_lookup [OF 4(1)] obtain m2 where 3: "?add ''podmonitors'' (PodMonitorName A) (?add ''servicemonitors'' (ServiceMonitorName A) (Inr fmempty)) = Inr m2"
    "checkCRDAvailability L A ''probes'' \<noteq> Some False \<longrightarrow> fmlookup m3 (ProbeName A) \<noteq> None"
    "\<forall>k. k \<noteq> ProbeName A \<or> checkCRDAvailability L A ''probes'' = Some False \<longrightarrow> fmlookup m3 k = fmlookup m2 k" by blast
  from add_informer_lookup [OF 3(1)] obtain m1 where 2: "?add ''servicemonitors'' (ServiceMonitorName A) (Inr fmempty) = Inr m1"
    "checkCRDAvailability L A ''podmonitors'' \<noteq> Some False \<longrightarrow> fmlookup m2 (PodMonitorName A) \<noteq> None"
    "\<forall>k. k \<noteq> PodMonitorName A \<or> checkCRDAvailability L A ''podmonitors'' = Some False \<longrightarrow> fmlookup m2 k = fmlookup m1 k" by blast
  from add_informer_lookup [OF 2(1)] have 1: "checkCRDAvailability L A ''servicemonitors'' \<noteq> Some False \<longrightarrow> fmlookup m1 (ServiceMonitorName A) \<noteq> None"
    "\<forall>k. k \<noteq> ServiceMonitorName A \<or> checkCRDAvailability L A ''servicemonitors'' = Some False \<longrightarrow> fmlookup m1 k = None" by auto
  have "\<forall>(crd, key) \<in> {(''servicemonitors'', ServiceMonitorName A), (''podmonitors'', PodMonitorName A), (''probes'', ProbeName A),
        (''scrapeconfigs'', ScrapeConfigName A)}. fmlookup (informers w) key \<noteq> None \<longleftrightarrow> checkCRDAvailability L A crd \<noteq> Some False"
  proof -
    have "fmlookup m3 (ServiceMonitorName A) = fmlookup m1 (ServiceMonitorName A)" "fmlookup m3 (PodMonitorName A) = fmlookup m2 (PodMonitorName A)"
      "fmlookup m2 (ProbeName A) = None" "fmlookup m3 (ScrapeConfigName A) = None" "fmlookup m1 (PodMonitorName A) = None"
      using assms(1) 1(2) 2(3) 3(3) by auto
    moreover have "fmlookup m (ServiceMonitorName A) = fmlookup m3 (ServiceMonitorName A)" "fmlookup m (PodMonitorName A) = fmlookup m3 (PodMonitorName A)"
      "fmlookup m (ProbeName A) = fmlookup m3 (ProbeName A)" using assms(1) 4(3) by auto
    ultimately have "fmlookup m (ServiceMonitorName A) \<noteq> None \<longleftrightarrow> checkCRDAvailability L A ''servicemonitors'' \<noteq> Some False"
      "fmlookup m (PodMonitorName A) \<noteq> None \<longleftrightarrow> checkCRDAvailability L A ''podmonitors'' \<noteq> Some False"
      "fmlookup m (ProbeName A) \<noteq> None \<longleftrightarrow> checkCRDAvailability L A ''probes'' \<noteq> Some False"
      "fmlookup m (ScrapeConfigName A) \<noteq> None \<longleftrightarrow> checkCRDAvailability L A ''scrapeconfigs'' \<noteq> Some False"
      using 1 2(2,3) 3(2,3) 4(2,3) by metis+
    with assms(1) show ?thesis by (auto simp: w)
  qed
  moreover have "fmdom' (GetSecretsAllowList (PrometheusCR cfg)) = set (SecretsAccessNamespaces (PrometheusCR cfg))"
    by (simp add: GetSecretsAllowList_def namespace_set_dom)
  ultimately show ?thesis using i w by auto
qed

definition demo_kube :: "(nat, unit, unit) kube_lib" where
  "demo_kube = \<lparr>metadata_client = (\<lambda>_. True), discovery_client = (\<lambda>_. True), ServerGroups = Some [(''monitoring.coreos.com'', [''v1''])],
     ServerResourcesForGroupVersion = (\<lambda>_. Some [''servicemonitors'']), NewInformersForResource = (\<lambda>_ _. Some 1),
     NewInformersForResourceWithTransform = (\<lambda>_ _. Some 2), ServerVersion = (\<lambda>n. if n = 0 then None else Some ''1.30''),
     ParseTolerant = (\<lambda>_. Some ()), NewNamespaceListWatchFromClient = (\<lambda>_ _ _. Some 3)\<rparr>"

theorem informers_of_watcher_witness:
  "\<exists>w. NewPrometheusCRWatcher demo_kube demo_mon True (Some ()) demo_defaults = Inr w \<and>
     fmlookup (informers w) ''servicemonitors'' \<noteq> None \<and> fmlookup (informers w) ''probes'' = None"
proof -
  have c: "checkCRDAvailability demo_kube demo_mon ''servicemonitors'' = Some True" "checkCRDAvailability demo_kube demo_mon ''probes'' = Some False"
    by (simp_all add: checkCRDAvailability_def demo_kube_def demo_mon_def)
  have "\<exists>w. NewPrometheusCRWatcher demo_kube demo_mon True (Some ()) demo_defaults = Inr w"
    by (simp add: NewPrometheusCRWatcher_def getInformers_def add_informer_def createInformerIfAvailable_def checkCRDAvailability_def
        getNamespaceInformer_def demo_kube_def demo_mon_def numeral_eq_Suc)
  then obtain w where w: "NewPrometheusCRWatcher demo_kube demo_mon True (Some ()) demo_defaults = Inr w" by blast
  have "distinct [ServiceMonitorName demo_mon, PodMonitorName demo_mon, ProbeName demo_mon, ScrapeConfigName demo_mon, ResourceSecrets demo_mon]"
    by (simp add: demo_mon_def)
  from informers_of_watcher [OF this w] have "fmlookup (informers w) (ServiceMonitorName demo_mon) \<noteq> None" "fmlookup (informers w) (ProbeName demo_mon) = None"
    using c by auto
  moreover have "ServiceMonitorName demo_mon = ''servicemonitors''" "ProbeName demo_mon = ''probes''" by (simp_all add: demo_mon_def)
  ultimately show ?thesis using w by auto
qed

end
