(* ===== verification/GoStrings.thy ===== *)
theory GoStrings
  imports Prelude "HOL-Library.Sublist"
begin

text \<open>
  The functions of Go's packages \<open>strings\<close> and \<open>os\<close> that the configuration parsers use, and the
  duration pattern of \<open>prometheus-config-merger.go\<close>. Case mapping and white space are those of
  ASCII, the range of every value the parsers compare with.
\<close>

definition lower_char :: "char \<Rightarrow> char" where
  "lower_char c =
     (case map_of (zip ''ABCDEFGHIJKLMNOPQRSTUVWXYZ'' ''abcdefghijklmnopqrstuvwxyz'') c of
        Some d \<Rightarrow> d | None \<Rightarrow> c)"

definition ToLower :: "string \<Rightarrow> string" where
  "ToLower s = map lower_char s"

definition is_space :: "char \<Rightarrow> bool" where
  "is_space c \<longleftrightarrow> c \<in> set [CHR 0x09, CHR 0x0A, CHR 0x0B, CHR 0x0C, CHR 0x0D, CHR 0x20]"

definition trim_by :: "(char \<Rightarrow> bool) \<Rightarrow> string \<Rightarrow> string" where
  "trim_by P s = rev (dropWhile P (rev (dropWhile P s)))"

definition TrimSpace :: "string \<Rightarrow> string" where
  "TrimSpace s = trim_by is_space s"

text \<open>\<open>strings.ReplaceAll\<close> with a non-empty pattern: leftmost, non-overlapping occurrences.\<close>

function ReplaceAll :: "string \<Rightarrow> string \<Rightarrow> string \<Rightarrow> string" where
  "ReplaceAll pat new [] = []"
| "ReplaceAll pat new (c # cs) =
     (if pat \<noteq> [] \<and> prefix pat (c # cs)
      then new @ ReplaceAll pat new (drop (length pat) (c # cs))
      else c # ReplaceAll pat new cs)"
  by pat_completeness auto
termination
  by (relation "measure (\<lambda>(pat, new, s). length s)") (auto simp: neq_Nil_conv)

lemma ReplaceAll_absent: "\<not> sublist pat s \<Longrightarrow> ReplaceAll pat new s = s"
proof (induction s)
  case (Cons c cs)
  moreover have "\<not> prefix pat (c # cs)" using Cons.prems by (metis prefix_imp_sublist)
  moreover have "\<not> sublist pat cs" using Cons.prems by (metis sublist_Cons_right)
  ultimately show ?case by simp
qed simp

type_synonym environ = "string \<Rightarrow> string option"

text \<open>\<open>os.LookupEnv\<close> is application of the environment; \<open>os.Getenv\<close> reads an unset variable as
  the empty string.\<close>

definition Getenv :: "environ \<Rightarrow> string \<Rightarrow> string" where
  "Getenv env v = (case env v of None \<Rightarrow> '''' | Some s \<Rightarrow> s)"

section \<open>The Prometheus duration pattern\<close>

definition is_digit :: "char \<Rightarrow> bool" where
  "is_digit c \<longleftrightarrow> c \<in> set ''0123456789''"

text \<open>
  A sequence of optional groups \<open>(\d+u)?\<close>, one for each unit, anchored at both ends. A unit never
  starts with a digit, so a group takes the whole run of digits or is skipped.
\<close>

fun match_units :: "string list \<Rightarrow> string \<Rightarrow> bool" where
  "match_units [] s \<longleftrightarrow> s = []"
| "match_units (u # us) s \<longleftrightarrow>
     match_units us s \<or>
     (let ds = takeWhile is_digit s; rest = dropWhile is_digit s
      in ds \<noteq> [] \<and> prefix u rest \<and> match_units us (drop (length u) rest))"

definition duration_matches :: "string \<Rightarrow> bool" where
  "duration_matches s \<longleftrightarrow> match_units [''y'', ''w'', ''d'', ''h'', ''m'', ''s'', ''ms''] s \<or> s = ''0''"

lemma match_units_Nil [simp]: "match_units us []"
  by (induction us) (auto simp: Let_def)

lemma duration_matches_empty [simp]: "duration_matches []"
  by (simp only: duration_matches_def match_units_Nil simp_thms)

declare match_units.simps(2) [simp del]

end
