(* ===== verification/Yaml.thy ===== *)
theory Yaml
  imports Prelude "HOL-Library.Product_Lexorder"
begin

text \<open>
  YAML documents as \<open>gopkg.in/yaml.v2\<close> decodes them into \<open>map[interface{}]interface{}\<close>, and the
  function \<open>deepMerge\<close> of \<open>shared/configmap/mp/prometheus-config-merger.go\<close>. A nil map and an empty
  map behave alike in every operation of that file (reading, ranging, \<open>len\<close>, \<open>delete\<close>,
  marshalling), so both are the empty map here. A \<open>map[string]interface{}\<close> is a map all of whose
  keys are strings. A float is identified by its text.
\<close>

datatype ykey = KNil | KBool bool | KInt int | KFloat string | KStr string

datatype yval =
    YNil
  | YBool bool
  | YInt int
  | YFloat string
  | YStr string
  | YSeq "yval list"
  | YMap "(ykey, yval) fmap"

type_synonym ymap = "(ykey, yval) gomap"

text \<open>A total order on keys, which gives a canonical visiting order of a map.\<close>

fun key_rank :: "ykey \<Rightarrow> nat \<times> int \<times> string" where
  "key_rank KNil = (0, 0, [])"
| "key_rank (KBool b) = (1, if b then 1 else 0, [])"
| "key_rank (KInt n) = (2, n, [])"
| "key_rank (KFloat s) = (3, 0, s)"
| "key_rank (KStr s) = (4, 0, s)"

lemma key_rank_inj: "key_rank a = key_rank b \<Longrightarrow> a = b"
  by (cases a; cases b) (auto split: if_splits)

instantiation ykey :: linorder
begin

definition less_eq_ykey :: "ykey \<Rightarrow> ykey \<Rightarrow> bool" where
  "less_eq_ykey a b \<longleftrightarrow> key_rank a \<le> key_rank b"

definition less_ykey :: "ykey \<Rightarrow> ykey \<Rightarrow> bool" where
  "less_ykey a b \<longleftrightarrow> key_rank a < key_rank b"

instance
  by standard (auto simp only: less_eq_ykey_def less_ykey_def less_le_not_le intro: key_rank_inj order_trans)

end

definition key_order :: "ymap \<Rightarrow> ykey list" where
  "key_order m = sorted_list_of_fset (fmdom m)"

lemma key_order_enum: "enum (key_order m) m"
  by (simp add: enum_def key_order_def fmdom'_alt_def sorted_list_of_fset.rep_eq)

text \<open>The dynamic type \<open>reflect.TypeOf\<close> reports: the decoder yields \<open>int\<close> for what fits 64 bits
  signed and \<open>uint64\<close> above.\<close>

datatype dyn_type = TNil | TBool | TInt | TUint64 | TFloat | TString | TSlice | TMap

fun TypeOf :: "yval \<Rightarrow> dyn_type" where
  "TypeOf YNil = TNil"
| "TypeOf (YBool _) = TBool"
| "TypeOf (YInt n) = (if n < 2 ^ 63 then TInt else TUint64)"
| "TypeOf (YFloat _) = TFloat"
| "TypeOf (YStr _) = TString"
| "TypeOf (YSeq _) = TSlice"
| "TypeOf (YMap _) = TMap"

lemma size_fmlookup [termination_simp]:
  assumes "fmlookup m k = Some v"
  shows "size v < size (YMap m)"
proof -
  have "(k, v) |\<in>| fset_of_fmap m" using assms by simp
  then have "Suc (size v) \<le> (\<Sum>x\<in>fset (fset_of_fmap m). Suc (case x of (a, b) \<Rightarrow> size b))"
    by (intro order_trans [OF _ member_le_sum [of "(k, v)"]]) auto
  then show ?thesis by (simp add: size_fset_overloaded_def)
qed

section \<open>The merge loop\<close>

text \<open>
  \<open>deepMerge(target, source)\<close>: the range loop over \<open>source\<close> updates \<open>target\<close> in place; \<open>ord m\<close> is
  the order in which a range loop visits the map \<open>m\<close>.
\<close>

function deepMerge :: "(ymap \<Rightarrow> ykey list) \<Rightarrow> ymap \<Rightarrow> ymap \<Rightarrow> ymap" where
  "deepMerge ord target source =
     foldl (\<lambda>tgt key.
       (case fmlookup source key of None \<Rightarrow> tgt
        | Some sourceValue \<Rightarrow>
          (case fmlookup tgt key of
             None \<Rightarrow> fmupd key sourceValue tgt
           | Some targetValue \<Rightarrow>
             (case (targetValue, sourceValue) of
                (YMap targetMap, YMap sourceMap) \<Rightarrow> fmupd key (YMap (deepMerge ord targetMap sourceMap)) tgt
              | _ \<Rightarrow>
                if TypeOf targetValue = TypeOf sourceValue
                then (case (targetValue, sourceValue) of
                        (YSeq targetSlice, YSeq sourceSlice) \<Rightarrow> fmupd key (YSeq (targetSlice @ sourceSlice)) tgt
                      | _ \<Rightarrow> tgt)
                else fmupd key sourceValue tgt))))
     target (ord source)"
  by pat_completeness auto
termination
proof (relation "measure (\<lambda>(ord, t, s). size (YMap s))", goal_cases)
  case 2
  then show ?case using size_fmlookup by fastforce
qed simp

declare deepMerge.simps [simp del]

section \<open>What the merge computes\<close>

lemma fmmap_keys_cong [fundef_cong]:
  assumes "m = n" and "\<And>k v. fmlookup n k = Some v \<Longrightarrow> f k v = g k v"
  shows "fmmap_keys f m = fmmap_keys g n"
proof (rule fmap_ext)
  fix k
  show "fmlookup (fmmap_keys f m) k = fmlookup (fmmap_keys g n) k"
    using assms by (cases "fmlookup n k") simp_all
qed

text \<open>
  The reference merge, which visits nothing in order: maps are merged key by key, sequences are
  concatenated, two values of the same other type keep the target's, and a value of another type
  replaces the target's.
\<close>

function merge_val :: "yval \<Rightarrow> yval \<Rightarrow> yval" where
  "merge_val tv sv =
     (case (tv, sv) of
        (YMap t, YMap s) \<Rightarrow>
          YMap (t ++\<^sub>f fmmap_keys (\<lambda>k v. case fmlookup t k of None \<Rightarrow> v | Some w \<Rightarrow> merge_val w v) s)
      | (YSeq ts, YSeq ss) \<Rightarrow> YSeq (ts @ ss)
      | _ \<Rightarrow> if TypeOf tv = TypeOf sv then tv else sv)"
  by pat_completeness auto
termination
proof (relation "measure (\<lambda>(t, s). size s)", goal_cases)
  case 2
  then show ?case using size_fmlookup by fastforce
qed simp

declare merge_val.simps [simp del]

definition merge_map :: "ymap \<Rightarrow> ymap \<Rightarrow> ymap" where
  "merge_map t s = t ++\<^sub>f fmmap_keys (\<lambda>k v. case fmlookup t k of None \<Rightarrow> v | Some w \<Rightarrow> merge_val w v) s"

lemma merge_val_simps [simp]:
  "merge_val (YMap t) (YMap s) = YMap (merge_map t s)"
  "merge_val (YSeq ts) (YSeq ss) = YSeq (ts @ ss)"
  "TypeOf tv \<noteq> TypeOf sv \<Longrightarrow> merge_val tv sv = sv"
  by (simp_all add: merge_val.simps [of "YMap t"] merge_map_def merge_val.simps [of "YSeq ts"])
    (auto simp: merge_val.simps [of tv sv] split: yval.splits)

lemma merge_val_scalar:
  "TypeOf tv = TypeOf sv \<Longrightarrow> TypeOf tv \<notin> {TMap, TSlice} \<Longrightarrow> merge_val tv sv = tv"
  by (auto simp: merge_val.simps [of tv sv] split: yval.splits)

lemma merge_map_lookup [map_facts]:
  "fmlookup (merge_map t s) k =
     (case fmlookup s k of None \<Rightarrow> fmlookup t k
      | Some sv \<Rightarrow> Some (case fmlookup t k of None \<Rightarrow> sv | Some tv \<Rightarrow> merge_val tv sv))"
  by (auto simp: merge_map_def fmlookup_dom_iff split: option.splits)

lemma foldl_pointwise:
  assumes "distinct ks"
    and "\<And>m k k'. fmlookup (step m k) k' = (if k' = k then g k (fmlookup m k) else fmlookup m k')"
  shows "fmlookup (foldl step m ks) k = (if k \<in> set ks then g k (fmlookup m k) else fmlookup m k)"
  using assms(1) by (induction ks arbitrary: m) (auto simp: assms(2))

text \<open>What one pass of the loop body leaves at its key.\<close>

definition merge_entry :: "ymap \<Rightarrow> ykey \<Rightarrow> yval option \<Rightarrow> yval option" where
  "merge_entry s k t =
     (case fmlookup s k of None \<Rightarrow> t
      | Some sv \<Rightarrow> Some (case t of None \<Rightarrow> sv | Some tv \<Rightarrow> merge_val tv sv))"

lemma deepMerge_merge_map:
  assumes ord: "\<And>m. enum (ord m) m"
  shows "deepMerge ord t s = merge_map t s"
proof (induction "size (YMap s)" arbitrary: t s rule: less_induct)
  case less
  have body: "fmlookup
      (case fmlookup s k of None \<Rightarrow> m
       | Some sv \<Rightarrow>
         (case fmlookup m k of None \<Rightarrow> fmupd k sv m
          | Some tv \<Rightarrow>
            (case (tv, sv) of
               (YMap tm, YMap sm) \<Rightarrow> fmupd k (YMap (deepMerge ord tm sm)) m
             | _ \<Rightarrow>
               if TypeOf tv = TypeOf sv
               then (case (tv, sv) of (YSeq ts, YSeq ss) \<Rightarrow> fmupd k (YSeq (ts @ ss)) m | _ \<Rightarrow> m)
               else fmupd k sv m))) k' =
      (if k' = k then merge_entry s k (fmlookup m k) else fmlookup m k')" for m :: ymap and k k'
  proof (cases "fmlookup s k")
    case (Some sv)
    have "deepMerge ord tm sm = merge_map tm sm" if "sv = YMap sm" for tm sm
      using less [of sm tm] size_fmlookup [OF Some] that by simp
    then show ?thesis using Some merge_val_scalar
      by (cases "fmlookup m k") (auto simp: merge_entry_def split: yval.splits)
  qed (simp add: merge_entry_def)
  show ?case
  proof (rule fmap_ext)
    fix k
    have "fmlookup (deepMerge ord t s) k =
        (if k \<in> set (ord s) then merge_entry s k (fmlookup t k) else fmlookup t k)"
      unfolding deepMerge.simps [of ord t s]
      by (rule foldl_pointwise [OF _ body]) (use ord [of s] in \<open>simp add: enum_def\<close>)
    then show "fmlookup (deepMerge ord t s) k = fmlookup (merge_map t s) k"
      using enum_mem [OF ord, of k s]
      by (auto simp: merge_entry_def merge_map_lookup split: option.splits if_splits)
  qed
qed

text \<open>
  C19: Merging two YAML documents: for every order in which the range loops visit the maps,
  \<open>deepMerge\<close> computes the reference merge, so its result does not depend on Go's map order; keys of
  one document only are kept as they are, nested maps are merged recursively, sequences are
  concatenated target first, two scalars of the same type keep the target's value, and a value of a
  different type is overwritten by the source's.
\<close>

theorem deepMerge_reference:
  assumes "\<And>m. enum (ord m) m"
  shows "deepMerge ord t s = merge_map t s
    \<and> (fmlookup s k = None \<longrightarrow> fmlookup (deepMerge ord t s) k = fmlookup t k)
    \<and> (fmlookup t k = None \<longrightarrow> fmlookup (deepMerge ord t s) k = fmlookup s k)
    \<and> (\<forall>tm sm. fmlookup t k = Some (YMap tm) \<and> fmlookup s k = Some (YMap sm)
          \<longrightarrow> fmlookup (deepMerge ord t s) k = Some (YMap (deepMerge ord tm sm)))
    \<and> (\<forall>ts ss. fmlookup t k = Some (YSeq ts) \<and> fmlookup s k = Some (YSeq ss)
          \<longrightarrow> fmlookup (deepMerge ord t s) k = Some (YSeq (ts @ ss)))
    \<and> (\<forall>tv sv. fmlookup t k = Some tv \<and> fmlookup s k = Some sv \<and> TypeOf tv = TypeOf sv
            \<and> TypeOf tv \<notin> {TMap, TSlice}
          \<longrightarrow> fmlookup (deepMerge ord t s) k = Some tv)
    \<and> (\<forall>tv sv. fmlookup t k = Some tv \<and> fmlookup s k = Some sv \<and> TypeOf tv \<noteq> TypeOf sv
          \<longrightarrow> fmlookup (deepMerge ord t s) k = Some sv)"
  by (simp add: deepMerge_merge_map [OF assms] merge_map_lookup merge_val_scalar split: option.splits)
    (auto simp: merge_val_scalar)

theorem deepMerge_reference_witness:
  "(\<forall>m. enum (key_order m) m)
   \<and> fmlookup (deepMerge key_order (fmupd (KStr ''scrape_configs'') (YSeq [YStr ''a'']) fmempty)
        (fmupd (KStr ''scrape_configs'') (YSeq [YStr ''b'']) fmempty)) (KStr ''scrape_configs'') =
     Some (YSeq [YStr ''a'', YStr ''b''])"
  using deepMerge_reference [OF key_order_enum, of
      "fmupd (KStr ''scrape_configs'') (YSeq [YStr ''a'']) fmempty"
      "fmupd (KStr ''scrape_configs'') (YSeq [YStr ''b'']) fmempty" "KStr ''scrape_configs''"]
    key_order_enum by fastforce

end
