(* ===== verification/Merger.thy ===== *)
theory Merger
  imports GoStrings Yaml
begin

text \<open>
  \<open>shared/configmap/mp/prometheus-config-merger.go\<close>: the data, the operations on one configuration
  file, and the blocks of \<open>populateDefaultPrometheusConfig\<close>, which choose and prepare the files of
  the default scrape targets. The file names are those of \<open>definitions.go\<close>. Logging and file modes
  are left out; a file that cannot be read is absent from the file map, and \<open>writable\<close> says which
  writes succeed.
\<close>

section \<open>File names\<close>

named_theorems file_names \<open>the file names of definitions.go\<close>

definition promMergedConfigPath :: string where [file_names]:
  "promMergedConfigPath = ''/opt/promMergedConfig.yml''"

definition mergedDefaultConfigPath :: string where [file_names]:
  "mergedDefaultConfigPath = ''/opt/defaultsMergedConfig.yml''"

definition defaultPromConfigPathPrefix :: string where [file_names]:
  "defaultPromConfigPathPrefix = ''/opt/microsoft/otelcollector/default-prom-configs/''"

definition regexHashFile :: string where [file_names]:
  "regexHashFile = ''/opt/microsoft/configmapparser/config_def_targets_metrics_keep_list_hash''"

definition intervalHashFile :: string where [file_names]:
  "intervalHashFile = ''/opt/microsoft/configmapparser/config_def_targets_scrape_intervals_hash''"

definition kubeletDefaultFileRsSimple :: string where [file_names]:
  "kubeletDefaultFileRsSimple = ''kubeletDefaultRsSimple.yml''"

definition kubeletDefaultFileRsAdvanced :: string where [file_names]:
  "kubeletDefaultFileRsAdvanced = ''kubeletDefaultRsAdvanced.yml''"

definition kubeletDefaultFileDs :: string where [file_names]:
  "kubeletDefaultFileDs = ''kubeletDefaultDs.yml''"

definition kubeletDefaultFileRsAdvancedWindowsDaemonset :: string where [file_names]:
  "kubeletDefaultFileRsAdvancedWindowsDaemonset = ''kubeletDefaultRsAdvancedWindowsDaemonset.yml''"

definition coreDNSDefaultFile :: string where [file_names]:
  "coreDNSDefaultFile = ''corednsDefault.yml''"

definition cadvisorDefaultFileRsSimple :: string where [file_names]:
  "cadvisorDefaultFileRsSimple = ''cadvisorDefaultRsSimple.yml''"

definition cadvisorDefaultFileRsAdvanced :: string where [file_names]:
  "cadvisorDefaultFileRsAdvanced = ''cadvisorDefaultRsAdvanced.yml''"

definition cadvisorDefaultFileDs :: string where [file_names]:
  "cadvisorDefaultFileDs = ''cadvisorDefaultDs.yml''"

definition kubeProxyDefaultFile :: string where [file_names]:
  "kubeProxyDefaultFile = ''kubeproxyDefault.yml''"

definition apiserverDefaultFile :: string where [file_names]:
  "apiserverDefaultFile = ''apiserverDefault.yml''"

definition kubeStateDefaultFile :: string where [file_names]:
  "kubeStateDefaultFile = ''kubestateDefault.yml''"

definition nodeExporterDefaultFileRsSimple :: string where [file_names]:
  "nodeExporterDefaultFileRsSimple = ''nodeexporterDefaultRsSimple.yml''"

definition nodeExporterDefaultFileRsAdvanced :: string where [file_names]:
  "nodeExporterDefaultFileRsAdvanced = ''nodeexporterDefaultRsAdvanced.yml''"

definition nodeExporterDefaultFileDs :: string where [file_names]:
  "nodeExporterDefaultFileDs = ''nodeexporterDefaultDs.yml''"

definition prometheusCollectorHealthDefaultFile :: string where [file_names]:
  "prometheusCollectorHealthDefaultFile = ''prometheusCollectorHealth.yml''"

definition windowsExporterDefaultRsSimpleFile :: string where [file_names]:
  "windowsExporterDefaultRsSimpleFile = ''windowsexporterDefaultRsSimple.yml''"

definition windowsExporterDefaultDsFile :: string where [file_names]:
  "windowsExporterDefaultDsFile = ''windowsexporterDefaultDs.yml''"

definition windowsKubeProxyDefaultFileRsSimpleFile :: string where [file_names]:
  "windowsKubeProxyDefaultFileRsSimpleFile = ''windowskubeproxyDefaultRsSimple.yml''"

definition windowsKubeProxyDefaultDsFile :: string where [file_names]:
  "windowsKubeProxyDefaultDsFile = ''windowskubeproxyDefaultDs.yml''"

definition podAnnotationsDefaultFile :: string where [file_names]:
  "podAnnotationsDefaultFile = ''podannotationsDefault.yml''"

definition kappieBasicDefaultFileDs :: string where [file_names]:
  "kappieBasicDefaultFileDs = ''kappieBasicDefaultDs.yml''"

definition networkObservabilityRetinaDefaultFileDs :: string where [file_names]:
  "networkObservabilityRetinaDefaultFileDs = ''networkobservabilityRetinaDefaultDs.yml''"

definition networkObservabilityHubbleDefaultFileDs :: string where [file_names]:
  "networkObservabilityHubbleDefaultFileDs = ''networkobservabilityHubbleDefaultDs.yml''"

definition networkObservabilityCiliumDefaultFileDs :: string where [file_names]:
  "networkObservabilityCiliumDefaultFileDs = ''networkobservabilityCiliumDefaultDs.yml''"

definition acstorCapacityProvisionerDefaultFile :: string where [file_names]:
  "acstorCapacityProvisionerDefaultFile = ''acstorCapacityProvisionerDefaultFile.yml''"

definition acstorMetricsExporterDefaultFile :: string where [file_names]:
  "acstorMetricsExporterDefaultFile = ''acstorMetricsExporterDefaultFile.yml''"

definition LocalCSIDriverDefaultFile :: string where [file_names]:
  "LocalCSIDriverDefaultFile = ''localCSIDriverDefaultFile.yml''"

definition ztunnelDefaultFile :: string where [file_names]:
  "ztunnelDefaultFile = ''ztunnelDefault.yml''"

definition istioCniDefaultFile :: string where [file_names]:
  "istioCniDefaultFile = ''istioCniDefault.yml''"

definition dcgmExporterDefaultFile :: string where [file_names]:
  "dcgmExporterDefaultFile = ''dcgmExporterDefault.yml''"

definition controlplaneIstioDefaultFile :: string where [file_names]:
  "controlplaneIstioDefaultFile = ''controlplane_istio.yml''"

definition configMapMountPath :: string where [file_names]:
  "configMapMountPath = ''/etc/config/settings/prometheus/prometheus-config''"

definition replicasetControllerType :: string where
  "replicasetControllerType = ''replicaset''"

definition daemonsetControllerType :: string where
  "daemonsetControllerType = ''daemonset''"

definition configReaderSidecarContainerType :: string where
  "configReaderSidecarContainerType = ''configreadersidecar''"

definition sendDSUpMetric :: bool where
  "sendDSUpMetric = False"

section \<open>Libraries, files and package state\<close>

type_synonym fsys = "(string, string) gomap"
type_synonym hash = "(string, string) gomap"

text \<open>
  What the file takes from \<open>yaml.v2\<close> (decoding into \<open>map[interface{}]interface{}\<close>, into
  \<open>map[string]interface{}\<close>, and into an existing \<open>map[string]string\<close>, whose errors the code only
  logs; encoding), from \<open>net/url\<close> (the host of a URL that parses) and from the run time (the visiting
  order of range loops, the outcome of a write).
\<close>

record merger_lib =
  Unmarshal :: "string \<Rightarrow> ymap option"
  UnmarshalStr :: "string \<Rightarrow> ymap option"
  UnmarshalInto :: "string \<Rightarrow> hash \<Rightarrow> hash"
  Marshal :: "ymap \<Rightarrow> string option"
  range_order :: "ymap \<Rightarrow> ykey list"
  url_Host :: "string \<Rightarrow> string option"
  writable :: "string \<Rightarrow> bool"

record merger =
  files :: fsys
  regexHash :: hash
  intervalHash :: hash
  mergedDefaultConfigs :: ymap

text \<open>\<open>os.WriteFile\<close>: nothing when the write fails.\<close>

definition WriteFile :: "merger_lib \<Rightarrow> string \<Rightarrow> string \<Rightarrow> fsys \<Rightarrow> fsys option" where
  "WriteFile L f contents fs = (if writable L f then Some (fmupd f contents fs) else None)"

definition parseConfigMap :: "fsys \<Rightarrow> string" where
  "parseConfigMap fs = (case fmlookup fs configMapMountPath of None \<Rightarrow> '''' | Some config \<Rightarrow> config)"

definition loadRegexHash :: "merger_lib \<Rightarrow> merger \<Rightarrow> merger" where
  "loadRegexHash L s =
     (case fmlookup (files s) regexHashFile of None \<Rightarrow> s
      | Some data \<Rightarrow> s\<lparr>regexHash := UnmarshalInto L data (regexHash s)\<rparr>)"

definition loadIntervalHash :: "merger_lib \<Rightarrow> merger \<Rightarrow> merger" where
  "loadIntervalHash L s =
     (case fmlookup (files s) intervalHashFile of None \<Rightarrow> s
      | Some data \<Rightarrow> s\<lparr>intervalHash := UnmarshalInto L data (intervalHash s)\<rparr>)"

definition isConfigReaderSidecar :: "environ \<Rightarrow> bool" where
  "isConfigReaderSidecar env \<longleftrightarrow>
     (let containerType = Getenv env ''CONTAINER_TYPE''
      in containerType \<noteq> '''' \<and> ToLower (TrimSpace containerType) = configReaderSidecarContainerType)"

section \<open>Operations on one scrape configuration file\<close>

abbreviation scrape_configs :: ykey where
  "scrape_configs \<equiv> KStr ''scrape_configs''"

text \<open>
  The three updates share their shape: read the file, decode it into \<open>map[string]interface{}\<close>, change
  the entries of the list \<open>scrape_configs\<close>, encode and write. Every failure leaves the file as it is.
\<close>

fun set_interval :: "string \<Rightarrow> yval \<Rightarrow> yval" where
  "set_interval iv (YMap m) = YMap (fmupd (KStr ''scrape_interval'') (YStr iv) m)"
| "set_interval iv v = v"

definition UpdateScrapeIntervalConfig :: "merger_lib \<Rightarrow> string \<Rightarrow> string \<Rightarrow> fsys \<Rightarrow> fsys" where
  "UpdateScrapeIntervalConfig L yamlConfigFile scrapeIntervalSetting fs =
     (case fmlookup fs yamlConfigFile of None \<Rightarrow> fs
      | Some data \<Rightarrow>
        (case UnmarshalStr L data of None \<Rightarrow> fs
         | Some config \<Rightarrow>
           (case fmlookup config scrape_configs of
              Some (YSeq scrapeConfigs) \<Rightarrow>
                (case Marshal L (fmupd scrape_configs
                        (YSeq (map (set_interval scrapeIntervalSetting) scrapeConfigs)) config) of
                   None \<Rightarrow> fs
                 | Some out \<Rightarrow>
                   (case WriteFile L yamlConfigFile out fs of None \<Rightarrow> fs | Some fs' \<Rightarrow> fs'))
            | _ \<Rightarrow> fs)))"

datatype relabel_error = ReadError | UnmarshalError | NonStringKey | MarshalError | WriteError

definition keep_rule :: "string \<Rightarrow> string \<Rightarrow> yval" where
  "keep_rule label regex =
     YMap (fmap_of_list [(KStr ''source_labels'', YSeq [YStr label]),
       (KStr ''action'', YStr ''keep''), (KStr ''regex'', YStr regex)])"

definition string_keys :: "ymap \<Rightarrow> bool" where
  "string_keys m \<longleftrightarrow> fBall (fmdom m) (\<lambda>k. case k of KStr _ \<Rightarrow> True | _ \<Rightarrow> False)"

text \<open>One scrape configuration: an error when the copy to string keys meets another key.\<close>

fun append_keep_rule :: "string \<Rightarrow> yval \<Rightarrow> relabel_error + yval" where
  "append_keep_rule regex (YMap m) =
     (if string_keys m
      then Inr (YMap (fmupd (KStr ''metric_relabel_configs'')
        (case fmlookup m (KStr ''metric_relabel_configs'') of
           Some (YSeq metricRelabelCfgs) \<Rightarrow> YSeq (metricRelabelCfgs @ [keep_rule ''__name__'' regex])
         | _ \<Rightarrow> YSeq [keep_rule ''__name__'' regex]) m))
      else Inl NonStringKey)"
| "append_keep_rule regex v = Inr v"

fun append_keep_rules :: "string \<Rightarrow> yval list \<Rightarrow> relabel_error + yval list" where
  "append_keep_rules regex [] = Inr []"
| "append_keep_rules regex (c # cs) =
     (case append_keep_rule regex c of Inl e \<Rightarrow> Inl e
      | Inr c' \<Rightarrow> (case append_keep_rules regex cs of Inl e \<Rightarrow> Inl e | Inr cs' \<Rightarrow> Inr (c' # cs')))"

definition AppendMetricRelabelConfig ::
    "merger_lib \<Rightarrow> string \<Rightarrow> string \<Rightarrow> fsys \<Rightarrow> relabel_error option \<times> fsys" where
  "AppendMetricRelabelConfig L yamlConfigFile keepListRegex fs =
     (case fmlookup fs yamlConfigFile of None \<Rightarrow> (Some ReadError, fs)
      | Some content \<Rightarrow>
        (case UnmarshalStr L content of None \<Rightarrow> (Some UnmarshalError, fs)
         | Some config \<Rightarrow>
           (case fmlookup config scrape_configs of
              Some (YSeq scrapeConfigs) \<Rightarrow>
                (case append_keep_rules keepListRegex scrapeConfigs of
                   Inl e \<Rightarrow> (Some e, fs)
                 | Inr scrapeConfigs' \<Rightarrow>
                   (case Marshal L (fmupd scrape_configs (YSeq scrapeConfigs') config) of
                      None \<Rightarrow> (Some MarshalError, fs)
                    | Some out \<Rightarrow>
                      (case WriteFile L yamlConfigFile out fs of
                         None \<Rightarrow> (Some WriteError, fs) | Some fs' \<Rightarrow> (None, fs'))))
            | _ \<Rightarrow> (None, fs))))"

text \<open>\<open>relabel_configs\<close> is set when missing, extended when it is a list, and left alone otherwise.\<close>

fun append_relabel :: "yval list \<Rightarrow> yval \<Rightarrow> yval" where
  "append_relabel relabelConfig (YMap m) =
     YMap (case fmlookup m (KStr ''relabel_configs'') of
       None \<Rightarrow> fmupd (KStr ''relabel_configs'') (YSeq relabelConfig) m
     | Some (YSeq relabelCfgsSlice) \<Rightarrow>
         fmupd (KStr ''relabel_configs'') (YSeq (relabelCfgsSlice @ relabelConfig)) m
     | Some _ \<Rightarrow> m)"
| "append_relabel relabelConfig v = v"

definition AppendRelabelConfig :: "merger_lib \<Rightarrow> string \<Rightarrow> yval list \<Rightarrow> fsys \<Rightarrow> fsys" where
  "AppendRelabelConfig L yamlConfigFile relabelConfig fs =
     (case fmlookup fs yamlConfigFile of None \<Rightarrow> fs
      | Some data \<Rightarrow>
        (case UnmarshalStr L data of None \<Rightarrow> fs
         | Some config \<Rightarrow>
           (case fmlookup config scrape_configs of
              Some (YSeq scrapeConfigs) \<Rightarrow>
                (case Marshal L (fmupd scrape_configs
                        (YSeq (map (append_relabel relabelConfig) scrapeConfigs)) config) of
                   None \<Rightarrow> fs
                 | Some out \<Rightarrow>
                   (case WriteFile L yamlConfigFile out fs of None \<Rightarrow> fs | Some fs' \<Rightarrow> fs'))
            | _ \<Rightarrow> fs)))"

section \<open>Choosing the default scrape targets\<close>

text \<open>
  The variables of the populate functions: the two hashes and the modes are read only, the files
  and the list \<open>defaultConfigs\<close> are threaded through the blocks, one for each target.
\<close>

record mctx =
  c_env :: environ
  c_regexHash :: hash
  c_intervalHash :: hash
  currentControllerType :: string
  advancedMode :: bool
  windowsDaemonset :: bool

record pstate =
  pfiles :: fsys
  defaultConfigs :: "string list"

type_synonym block = "merger_lib \<Rightarrow> mctx \<Rightarrow> pstate \<Rightarrow> pstate"

definition enabled :: "mctx \<Rightarrow> string \<Rightarrow> bool" where
  "enabled c v \<longleftrightarrow> (case c_env c v of None \<Rightarrow> False | Some e \<Rightarrow> ToLower e = ''true'')"

definition env_is :: "mctx \<Rightarrow> string \<Rightarrow> string \<Rightarrow> bool" where
  "env_is c v x \<longleftrightarrow> ToLower (Getenv (c_env c) v) = x"

text \<open>
  The steps the blocks repeat: setting the interval the hash has for the target (with or without
  the test that it has one), appending the keep list when there is a non-empty one, adding the file,
  and adding the file once its placeholders are replaced and it could be written back.
\<close>

definition interval_always :: "merger_lib \<Rightarrow> mctx \<Rightarrow> string \<Rightarrow> string \<Rightarrow> pstate \<Rightarrow> pstate" where
  "interval_always L c f key s =
     s\<lparr>pfiles := UpdateScrapeIntervalConfig L f (get0 '''' (c_intervalHash c) key) (pfiles s)\<rparr>"

definition interval_if_set :: "merger_lib \<Rightarrow> mctx \<Rightarrow> string \<Rightarrow> string \<Rightarrow> pstate \<Rightarrow> pstate" where
  "interval_if_set L c f key s =
     (case fmlookup (c_intervalHash c) key of None \<Rightarrow> s
      | Some iv \<Rightarrow> s\<lparr>pfiles := UpdateScrapeIntervalConfig L f iv (pfiles s)\<rparr>)"

definition keep_list :: "merger_lib \<Rightarrow> mctx \<Rightarrow> string \<Rightarrow> string \<Rightarrow> pstate \<Rightarrow> pstate" where
  "keep_list L c f key s =
     (case fmlookup (c_regexHash c) key of None \<Rightarrow> s
      | Some regex \<Rightarrow>
        if regex \<noteq> '''' then s\<lparr>pfiles := snd (AppendMetricRelabelConfig L f regex (pfiles s))\<rparr> else s)"

definition add_config :: "string \<Rightarrow> pstate \<Rightarrow> pstate" where
  "add_config f s = s\<lparr>defaultConfigs := defaultConfigs s @ [f]\<rparr>"

definition fill_and_add :: "merger_lib \<Rightarrow> string \<Rightarrow> (string \<times> string) list \<Rightarrow> pstate \<Rightarrow> pstate" where
  "fill_and_add L f placeholders s =
     (case fmlookup (pfiles s) f of None \<Rightarrow> s
      | Some contents \<Rightarrow>
        (case WriteFile L f (foldl (\<lambda>t (p, v). ReplaceAll p v t) contents placeholders) (pfiles s) of
           None \<Rightarrow> s
         | Some fs \<Rightarrow> add_config f (s\<lparr>pfiles := fs\<rparr>)))"

definition env_placeholder :: "mctx \<Rightarrow> string \<Rightarrow> string \<times> string" where
  "env_placeholder c v = (''$$'' @ v @ ''$$'', Getenv (c_env c) v)"

subsection \<open>The blocks of populateDefaultPrometheusConfig\<close>

definition populate_kubelet :: block where
  "populate_kubelet L c s =
     (if enabled c ''AZMON_PROMETHEUS_KUBELET_SCRAPING_ENABLED''
      then if currentControllerType c = replicasetControllerType
        then if \<not> advancedMode c
          then
            add_config kubeletDefaultFileRsSimple
              (keep_list L c kubeletDefaultFileRsSimple ''KUBELET_METRICS_KEEP_LIST_REGEX''
                (interval_always L c kubeletDefaultFileRsSimple ''KUBELET_SCRAPE_INTERVAL'' s))
          else if windowsDaemonset c \<and> sendDSUpMetric
          then
            add_config kubeletDefaultFileRsAdvancedWindowsDaemonset
              (interval_always L c kubeletDefaultFileRsAdvancedWindowsDaemonset ''KUBELET_SCRAPE_INTERVAL'' s)
          else if sendDSUpMetric
          then
            add_config kubeletDefaultFileRsAdvanced
              (interval_always L c kubeletDefaultFileRsAdvanced ''KUBELET_SCRAPE_INTERVAL'' s)
          else s
        else if advancedMode c \<and> (windowsDaemonset c \<or> env_is c ''OS_TYPE'' ''linux'')
          then
            fill_and_add L kubeletDefaultFileDs (map (env_placeholder c) [''NODE_IP'', ''NODE_NAME'', ''OS_TYPE''])
              (keep_list L c kubeletDefaultFileDs ''KUBELET_METRICS_KEEP_LIST_REGEX''
                (interval_always L c kubeletDefaultFileDs ''KUBELET_SCRAPE_INTERVAL'' s))
          else s
      else s)"

definition populate_coredns :: block where
  "populate_coredns L c s =
     (if enabled c ''AZMON_PROMETHEUS_COREDNS_SCRAPING_ENABLED'' \<and> currentControllerType c = replicasetControllerType
      then
        add_config coreDNSDefaultFile
          (keep_list L c coreDNSDefaultFile ''COREDNS_METRICS_KEEP_LIST_REGEX''
            (interval_if_set L c coreDNSDefaultFile ''COREDNS_SCRAPE_INTERVAL'' s))
      else s)"

definition populate_cadvisor :: block where
  "populate_cadvisor L c s =
     (if enabled c ''AZMON_PROMETHEUS_CADVISOR_SCRAPING_ENABLED''
      then if fmlookup (c_intervalHash c) ''CADVISOR_SCRAPE_INTERVAL'' \<noteq> None
        then if currentControllerType c = replicasetControllerType
          then if \<not> advancedMode c
            then
              add_config cadvisorDefaultFileRsSimple
                (keep_list L c cadvisorDefaultFileRsSimple ''CADVISOR_METRICS_KEEP_LIST_REGEX''
                  (interval_always L c cadvisorDefaultFileRsSimple ''CADVISOR_SCRAPE_INTERVAL'' s))
            else if sendDSUpMetric
            then
              add_config cadvisorDefaultFileRsAdvanced
                (interval_always L c cadvisorDefaultFileRsAdvanced ''CADVISOR_SCRAPE_INTERVAL'' s)
            else s
          else if advancedMode c \<and> env_is c ''OS_TYPE'' ''linux''
            then
              fill_and_add L cadvisorDefaultFileDs (map (env_placeholder c) [''NODE_IP'', ''NODE_NAME''])
                (keep_list L c cadvisorDefaultFileDs ''CADVISOR_METRICS_KEEP_LIST_REGEX''
                  (interval_always L c cadvisorDefaultFileDs ''CADVISOR_SCRAPE_INTERVAL'' s))
            else s
        else s
      else s)"

definition populate_kubeproxy :: block where
  "populate_kubeproxy L c s =
     (if enabled c ''AZMON_PROMETHEUS_KUBEPROXY_SCRAPING_ENABLED'' \<and> currentControllerType c = replicasetControllerType
      then
        add_config kubeProxyDefaultFile
          (keep_list L c kubeProxyDefaultFile ''KUBEPROXY_METRICS_KEEP_LIST_REGEX''
            (interval_if_set L c kubeProxyDefaultFile ''KUBEPROXY_SCRAPE_INTERVAL'' s))
      else s)"

definition populate_apiserver :: block where
  "populate_apiserver L c s =
     (if enabled c ''AZMON_PROMETHEUS_APISERVER_SCRAPING_ENABLED'' \<and> currentControllerType c = replicasetControllerType
      then
        add_config apiserverDefaultFile
          (keep_list L c apiserverDefaultFile ''APISERVER_METRICS_KEEP_LIST_REGEX''
            (interval_if_set L c apiserverDefaultFile ''APISERVER_SCRAPE_INTERVAL'' s))
      else s)"

definition populate_kubestate :: block where
  "populate_kubestate L c s =
     (if enabled c ''AZMON_PROMETHEUS_KUBESTATE_SCRAPING_ENABLED'' \<and> currentControllerType c = replicasetControllerType
      then
        fill_and_add L kubeStateDefaultFile (map (env_placeholder c) [''KUBE_STATE_NAME'', ''POD_NAMESPACE''])
          (keep_list L c kubeStateDefaultFile ''KUBESTATE_METRICS_KEEP_LIST_REGEX''
            (interval_if_set L c kubeStateDefaultFile ''KUBESTATE_SCRAPE_INTERVAL'' s))
      else s)"

definition populate_nodeexporter :: block where
  "populate_nodeexporter L c s =
     (if enabled c ''AZMON_PROMETHEUS_NODEEXPORTER_SCRAPING_ENABLED''
      then if currentControllerType c = replicasetControllerType
        then if advancedMode c \<and> sendDSUpMetric
          then
            fill_and_add L nodeExporterDefaultFileRsAdvanced (map (env_placeholder c) [''NODE_EXPORTER_NAME'', ''POD_NAMESPACE''])
              (interval_always L c nodeExporterDefaultFileRsAdvanced ''NODEEXPORTER_SCRAPE_INTERVAL'' s)
          else if \<not> advancedMode c
          then
            fill_and_add L nodeExporterDefaultFileRsSimple (map (env_placeholder c) [''NODE_EXPORTER_NAME'', ''POD_NAMESPACE''])
              (keep_list L c nodeExporterDefaultFileRsSimple ''NODEEXPORTER_METRICS_KEEP_LIST_REGEX''
                (interval_always L c nodeExporterDefaultFileRsSimple ''NODEEXPORTER_SCRAPE_INTERVAL'' s))
          else s
        else if advancedMode c \<and> env_is c ''OS_TYPE'' ''linux''
          then
            fill_and_add L nodeExporterDefaultFileDs (map (env_placeholder c) [''NODE_IP'', ''NODE_EXPORTER_TARGETPORT'', ''NODE_NAME''])
              (keep_list L c nodeExporterDefaultFileDs ''NODEEXPORTER_METRICS_KEEP_LIST_REGEX''
                (interval_always L c nodeExporterDefaultFileDs ''NODEEXPORTER_SCRAPE_INTERVAL'' s))
          else s
      else s)"

definition populate_kappiebasic :: block where
  "populate_kappiebasic L c s =
     (if enabled c ''AZMON_PROMETHEUS_KAPPIEBASIC_SCRAPING_ENABLED''
      then if currentControllerType c = replicasetControllerType then s
        else if advancedMode c \<and> env_is c ''MAC'' ''true''
          then
            fill_and_add L kappieBasicDefaultFileDs (map (env_placeholder c) [''NODE_IP'', ''NODE_NAME''])
              (keep_list L c kappieBasicDefaultFileDs ''KAPPIEBASIC_METRICS_KEEP_LIST_REGEX''
                (interval_always L c kappieBasicDefaultFileDs ''KAPPIEBASIC_SCRAPE_INTERVAL'' s))
          else s
      else s)"

definition populate_retina :: block where
  "populate_retina L c s =
     (if enabled c ''AZMON_PROMETHEUS_NETWORKOBSERVABILITYRETINA_SCRAPING_ENABLED''
      then if currentControllerType c = replicasetControllerType then s
        else if advancedMode c \<and> env_is c ''MAC'' ''true''
          then
            fill_and_add L networkObservabilityRetinaDefaultFileDs (map (env_placeholder c) [''NODE_IP'', ''NODE_NAME''])
              (keep_list L c networkObservabilityRetinaDefaultFileDs ''NETWORKOBSERVABILITYRETINA_METRICS_KEEP_LIST_REGEX''
                (interval_if_set L c networkObservabilityRetinaDefaultFileDs ''NETWORKOBSERVABILITYRETINA_SCRAPE_INTERVAL'' s))
          else s
      else s)"

definition populate_hubble :: block where
  "populate_hubble L c s =
     (if enabled c ''AZMON_PROMETHEUS_NETWORKOBSERVABILITYHUBBLE_SCRAPING_ENABLED''
      then if currentControllerType c = replicasetControllerType then s
        else if advancedMode c \<and> env_is c ''MAC'' ''true'' \<and> env_is c ''OS_TYPE'' ''linux''
          then
            fill_and_add L networkObservabilityHubbleDefaultFileDs (map (env_placeholder c) [''NODE_IP'', ''NODE_NAME''])
              (keep_list L c networkObservabilityHubbleDefaultFileDs ''NETWORKOBSERVABILITYHUBBLE_METRICS_KEEP_LIST_REGEX''
                (interval_if_set L c networkObservabilityHubbleDefaultFileDs ''NETWORKOBSERVABILITYHUBBLE_SCRAPE_INTERVAL'' s))
          else s
      else s)"

definition populate_cilium :: block where
  "populate_cilium L c s =
     (if enabled c ''AZMON_PROMETHEUS_NETWORKOBSERVABILITYCILIUM_SCRAPING_ENABLED''
      then if currentControllerType c = replicasetControllerType then s
        else if advancedMode c \<and> env_is c ''MAC'' ''true'' \<and> env_is c ''OS_TYPE'' ''linux''
          then
            fill_and_add L networkObservabilityCiliumDefaultFileDs (map (env_placeholder c) [''NODE_IP'', ''NODE_NAME''])
              (keep_list L c networkObservabilityCiliumDefaultFileDs ''NETWORKOBSERVABILITYCILIUM_METRICS_KEEP_LIST_REGEX''
                (interval_if_set L c networkObservabilityCiliumDefaultFileDs ''NETWORKOBSERVABILITYCILIUM_SCRAPE_INTERVAL'' s))
          else s
      else s)"

definition populate_ztunnel :: block where
  "populate_ztunnel L c s =
     (if enabled c ''AZMON_PROMETHEUS_ZTUNNEL_SCRAPING_ENABLED''
      then if currentControllerType c = replicasetControllerType \<and> env_is c ''OS_TYPE'' ''linux''
        then let full = defaultPromConfigPathPrefix @ ztunnelDefaultFile in
          fill_and_add L full (map (env_placeholder c) [''NODE_IP'', ''NODE_NAME''])
            (keep_list L c full ''ZTUNNEL_METRICS_KEEP_LIST_REGEX''
              (interval_if_set L c full ''ZTUNNEL_SCRAPE_INTERVAL'' s))
        else s
      else s)"

definition populate_istiocni :: block where
  "populate_istiocni L c s =
     (if enabled c ''AZMON_PROMETHEUS_ISTIOCNI_SCRAPING_ENABLED''
      then if currentControllerType c = replicasetControllerType \<and> env_is c ''OS_TYPE'' ''linux''
        then let full = defaultPromConfigPathPrefix @ istioCniDefaultFile in
          fill_and_add L full (map (env_placeholder c) [''NODE_IP'', ''NODE_NAME''])
            (keep_list L c full ''ISTIOCNI_METRICS_KEEP_LIST_REGEX''
              (interval_if_set L c full ''ISTIOCNI_SCRAPE_INTERVAL'' s))
        else s
      else s)"

definition populate_controlplane_istio :: block where
  "populate_controlplane_istio L c s =
     (if enabled c ''AZMON_PROMETHEUS_CONTROLPLANE_ISTIO_ENABLED'' \<and> currentControllerType c = replicasetControllerType
      then let meshMemberMetricsFqdn = Getenv (c_env c) ''MESH_MEMBER_METRICS_FQDN'' in
        if meshMemberMetricsFqdn \<noteq> ''''
        then (case url_Host L meshMemberMetricsFqdn of
            None \<Rightarrow> s
          | Some host \<Rightarrow>
            if host = '''' then s
            else let full = defaultPromConfigPathPrefix @ controlplaneIstioDefaultFile in
              fill_and_add L full [(''$$MESH_MEMBER_METRICS_FQDN$$'', meshMemberMetricsFqdn)]
                (keep_list L c full ''CONTROLPLANE_ISTIO_KEEP_LIST_REGEX''
                  (interval_if_set L c full ''CONTROLPLANE_ISTIO_SCRAPE_INTERVAL'' s)))
        else s
      else s)"

definition populate_collector_health :: block where
  "populate_collector_health L c s =
     (if enabled c ''AZMON_PROMETHEUS_COLLECTOR_HEALTH_SCRAPING_ENABLED''
      then
        add_config prometheusCollectorHealthDefaultFile
          (interval_if_set L c prometheusCollectorHealthDefaultFile ''PROMETHEUS_COLLECTOR_HEALTH_SCRAPE_INTERVAL'' s)
      else s)"

definition populate_windowsexporter :: block where
  "populate_windowsexporter L c s =
     (if enabled c ''AZMON_PROMETHEUS_WINDOWSEXPORTER_SCRAPING_ENABLED''
      then if currentControllerType c = replicasetControllerType \<and> \<not> advancedMode c \<and> env_is c ''OS_TYPE'' ''linux''
        then
          fill_and_add L windowsExporterDefaultRsSimpleFile (map (env_placeholder c) [''NODE_IP'', ''NODE_NAME''])
            (keep_list L c windowsExporterDefaultRsSimpleFile ''WINDOWSEXPORTER_METRICS_KEEP_LIST_REGEX''
              (interval_if_set L c windowsExporterDefaultRsSimpleFile ''WINDOWSEXPORTER_SCRAPE_INTERVAL'' s))
        else if currentControllerType c = daemonsetControllerType \<and> advancedMode c \<and> windowsDaemonset c \<and> env_is c ''OS_TYPE'' ''windows''
        then
          fill_and_add L windowsExporterDefaultDsFile (map (env_placeholder c) [''NODE_IP'', ''NODE_NAME''])
            (keep_list L c windowsExporterDefaultDsFile ''WINDOWSEXPORTER_METRICS_KEEP_LIST_REGEX''
              (interval_if_set L c windowsExporterDefaultDsFile ''WINDOWSEXPORTER_SCRAPE_INTERVAL'' s))
        else s
      else s)"

definition populate_windowskubeproxy :: block where
  "populate_windowskubeproxy L c s =
     (if enabled c ''AZMON_PROMETHEUS_WINDOWSKUBEPROXY_SCRAPING_ENABLED''
      then if currentControllerType c = replicasetControllerType \<and> \<not> advancedMode c \<and> env_is c ''OS_TYPE'' ''linux''
        then
          fill_and_add L windowsKubeProxyDefaultFileRsSimpleFile (map (env_placeholder c) [''NODE_IP'', ''NODE_NAME''])
            (keep_list L c windowsKubeProxyDefaultFileRsSimpleFile ''WINDOWSKUBEPROXY_METRICS_KEEP_LIST_REGEX''
              (interval_if_set L c windowsKubeProxyDefaultFileRsSimpleFile ''WINDOWSKUBEPROXY_SCRAPE_INTERVAL'' s))
        else if currentControllerType c = daemonsetControllerType \<and> advancedMode c \<and> windowsDaemonset c \<and> env_is c ''OS_TYPE'' ''windows''
        then
          fill_and_add L windowsKubeProxyDefaultDsFile (map (env_placeholder c) [''NODE_IP'', ''NODE_NAME''])
            (keep_list L c windowsKubeProxyDefaultDsFile ''WINDOWSKUBEPROXY_METRICS_KEEP_LIST_REGEX''
              (interval_if_set L c windowsKubeProxyDefaultDsFile ''WINDOWSKUBEPROXY_SCRAPE_INTERVAL'' s))
        else s
      else s)"

text \<open>The namespace pattern loses one pair of enclosing double quotes and then all enclosing single
  quotes.\<close>

definition trim_namespaces :: "string \<Rightarrow> string" where
  "trim_namespaces r =
     trim_by (\<lambda>ch. ch = CHR 0x27)
       (if length r > 1 \<and> hd r = CHR 0x22 \<and> last r = CHR 0x22 then butlast (tl r) else r)"

definition populate_pod_annotation :: block where
  "populate_pod_annotation L c s =
     (if enabled c ''AZMON_PROMETHEUS_POD_ANNOTATION_SCRAPING_ENABLED'' \<and> currentControllerType c = replicasetControllerType
      then (case c_env c ''AZMON_PROMETHEUS_POD_ANNOTATION_NAMESPACES_REGEX'' of
          None \<Rightarrow> s
        | Some namespacesRegex \<Rightarrow>
          let s1 = keep_list L c podAnnotationsDefaultFile ''POD_ANNOTATION_METRICS_KEEP_LIST_REGEX''
                (interval_if_set L c podAnnotationsDefaultFile ''POD_ANNOTATION_SCRAPE_INTERVAL'' s);
              regex = trim_namespaces namespacesRegex;
              s2 = (if regex \<noteq> ''''
                then s1\<lparr>pfiles := AppendRelabelConfig L podAnnotationsDefaultFile
                  [keep_rule ''__meta_kubernetes_namespace'' regex] (pfiles s1)\<rparr>
                else s1)
          in add_config podAnnotationsDefaultFile s2)
      else s)"

definition populate_acstor_capacity :: block where
  "populate_acstor_capacity L c s =
     (if enabled c ''AZMON_PROMETHEUS_ACSTORCAPACITYPROVISIONER_SCRAPING_ENABLED'' \<and> currentControllerType c = replicasetControllerType
      then
        add_config acstorCapacityProvisionerDefaultFile
          (keep_list L c acstorCapacityProvisionerDefaultFile ''ACSTORCAPACITYPROVISONER_KEEP_LIST_REGEX''
            (interval_if_set L c acstorCapacityProvisionerDefaultFile ''ACSTORCAPACITYPROVISIONER_SCRAPE_INTERVAL'' s))
      else s)"

definition populate_acstor_metrics :: block where
  "populate_acstor_metrics L c s =
     (if enabled c ''AZMON_PROMETHEUS_ACSTORMETRICSEXPORTER_SCRAPING_ENABLED'' \<and> currentControllerType c = replicasetControllerType
      then
        add_config acstorMetricsExporterDefaultFile
          (keep_list L c acstorMetricsExporterDefaultFile ''ACSTORMETRICSEXPORTER_KEEP_LIST_REGEX''
            (interval_if_set L c acstorMetricsExporterDefaultFile ''ACSTORMETRICSEXPORTER_SCRAPE_INTERVAL'' s))
      else s)"

definition populate_local_csi :: block where
  "populate_local_csi L c s =
     (if enabled c ''AZMON_PROMETHEUS_LOCALCSIDRIVER_SCRAPING_ENABLED'' \<and> currentControllerType c = replicasetControllerType
      then
        add_config LocalCSIDriverDefaultFile
          (keep_list L c LocalCSIDriverDefaultFile ''LOCALCSIDRIVER_KEEP_LIST_REGEX''
            (interval_if_set L c LocalCSIDriverDefaultFile ''LOCALCSIDRIVER_SCRAPE_INTERVAL'' s))
      else s)"

definition populate_dcgm :: block where
  "populate_dcgm L c s =
     (if enabled c ''AZMON_PROMETHEUS_DCGMEXPORTER_SCRAPING_ENABLED''
      then if currentControllerType c = replicasetControllerType \<and> env_is c ''OS_TYPE'' ''linux''
        then
          add_config dcgmExporterDefaultFile
            (keep_list L c dcgmExporterDefaultFile ''DCGMEXPORTER_METRICS_KEEP_LIST_REGEX''
              (interval_always L c dcgmExporterDefaultFile ''DCGMEXPORTER_SCRAPE_INTERVAL'' s))
        else s
      else s)"

definition populate_blocks :: "block list" where
  "populate_blocks =
     [populate_kubelet,
      populate_coredns,
      populate_cadvisor,
      populate_kubeproxy,
      populate_apiserver,
      populate_kubestate,
      populate_nodeexporter,
      populate_kappiebasic,
      populate_retina,
      populate_hubble,
      populate_cilium,
      populate_ztunnel,
      populate_istiocni,
      populate_controlplane_istio,
      populate_collector_health,
      populate_windowsexporter,
      populate_windowskubeproxy,
      populate_pod_annotation,
      populate_acstor_capacity,
      populate_acstor_metrics,
      populate_local_csi,
      populate_dcgm]"

end
