(* ===== verification/Settings.thy ===== *)
theory Settings
  imports Merger
begin

text \<open>
  The settings of the add-on's config map: the parsers of \<open>shared/helpers.go\<close>, the default scrape settings
  (\<open>shared/configmap/mp/tomlparser-default-scrape-settings.go\<close>), the scrape intervals
  (\<open>tomlparser-scrape-interval.go\<close>) and \<open>SetEnvVarsFromFile\<close> of \<open>shared/file_utilities.go\<close>, through which the settings reach the
  environment that the configuration merger reads.

  A file is its content. \<open>SetEnvAndSourceBashrcOrPowershell\<close> is its effect on the environment of the
  process; the copy it appends to \<open>.bashrc\<close> is not modelled.
\<close>

section \<open>Lines\<close>

text \<open>
  \<open>bufio.Scanner\<close> with its default split function: the lines without their line ends (and one carriage
  return), up to the first line that does not fit the buffer of 65536 bytes, which is an error.
\<close>

function raw_lines :: "string \<Rightarrow> string list" where
  "raw_lines [] = []"
| "raw_lines (c # cs) =
     takeWhile (\<lambda>c. c \<noteq> CHR 0x0A) (c # cs) # raw_lines (drop 1 (dropWhile (\<lambda>c. c \<noteq> CHR 0x0A) (c # cs)))"
  by pat_completeness auto
termination
  by (relation "measure length") (auto simp: less_Suc_eq_le length_dropWhile_le le_diff_conv intro: le_trans [OF length_dropWhile_le])

definition drop_cr :: "string \<Rightarrow> string" where
  "drop_cr l = (if l \<noteq> [] \<and> last l = CHR 0x0D then butlast l else l)"

definition fits :: "string \<Rightarrow> bool" where
  "fits l \<longleftrightarrow> length l < 65536"

lemma fits_code [code]: "fits l \<longleftrightarrow> int (length l) < 65536"
  by (simp add: fits_def)

definition scan_lines :: "string \<Rightarrow> string list \<times> bool" where
  "scan_lines s = (map drop_cr (takeWhile fits (raw_lines s)), \<not> list_all fits (raw_lines s))"

fun split_char :: "char \<Rightarrow> string \<Rightarrow> string list" where
  "split_char c [] = [[]]"
| "split_char c (x # xs) =
     (if x = c then [] # split_char c xs else (case split_char c xs of [] \<Rightarrow> [[x]] | p # ps \<Rightarrow> (x # p) # ps))"

section \<open>The config map\<close>

type_synonym sections = "(string, (string, string) gomap) gomap"

definition RemoveQuotes :: "string \<Rightarrow> string" where
  "RemoveQuotes s =
     (let s = TrimSpace s in
      if length s \<ge> 2 \<and> hd s = CHR 0x22 \<and> last s = CHR 0x22 then butlast (tl s) else s)"

text \<open>A line of a section after trimming: nothing, or a key and a value.\<close>

definition key_value :: "string \<Rightarrow> (string \<times> string) option" where
  "key_value line =
     (if CHR ''='' \<in> set line
      then
        let key = TrimSpace (takeWhile (\<lambda>c. c \<noteq> CHR ''='') line);
            value = RemoveQuotes (TrimSpace (drop 1 (dropWhile (\<lambda>c. c \<noteq> CHR ''='') line)))
        in if key = '''' then None else Some (key, value)
      else None)"

definition skipped_line :: "string \<Rightarrow> bool" where
  "skipped_line line \<longleftrightarrow> line = '''' \<or> prefix ''#'' line"

definition metrics_line :: "string \<times> sections \<Rightarrow> string \<Rightarrow> string \<times> sections" where
  "metrics_line s raw =
     (case s of (currentSection, m) \<Rightarrow>
        let line = TrimSpace raw in
        if skipped_line line then (currentSection, m)
        else if suffix '': |-'' line
        then let sec = take (length line - 4) line in (sec, if fmlookup m sec = None then fmupd sec fmempty m else m)
        else (case key_value line of
            None \<Rightarrow> (currentSection, m)
          | Some (key, value) \<Rightarrow>
            let sec = (if currentSection = '''' then ''prometheus-collector-settings'' else currentSection)
            in (sec, fmupd sec (fmupd key value (get0 fmempty m sec)) m)))"

text \<open>A file: its content, or that it is missing or cannot be opened.\<close>

datatype file_state = Content string | Missing | Unreadable

datatype parse_error = DoesNotExist string | OpenFailed string | ReadFailed string

definition parseMetricsFileInto :: "(string \<Rightarrow> file_state) \<Rightarrow> string \<Rightarrow> sections \<Rightarrow> parse_error + sections" where
  "parseMetricsFileInto fs filePath m =
     (case fs filePath of
        Missing \<Rightarrow> Inr m
      | Unreadable \<Rightarrow> Inl (OpenFailed filePath)
      | Content s \<Rightarrow>
        (case scan_lines s of (lines, failed) \<Rightarrow>
           if failed then Inl (ReadFailed filePath) else Inr (snd (foldl metrics_line ('''', m) lines))))"

fun ParseMetricsFiles_into :: "(string \<Rightarrow> file_state) \<Rightarrow> string list \<Rightarrow> sections \<Rightarrow> parse_error + sections" where
  "ParseMetricsFiles_into fs [] m = Inr m"
| "ParseMetricsFiles_into fs (f # rest) m =
     (case parseMetricsFileInto fs f m of Inl e \<Rightarrow> Inl e | Inr m' \<Rightarrow> ParseMetricsFiles_into fs rest m')"

definition ParseMetricsFiles :: "(string \<Rightarrow> file_state) \<Rightarrow> string list \<Rightarrow> parse_error + sections" where
  "ParseMetricsFiles fs filePaths = ParseMetricsFiles_into fs filePaths fmempty"

definition v1_line :: "(string, string) gomap \<Rightarrow> string \<Rightarrow> (string, string) gomap" where
  "v1_line m raw =
     (let line = TrimSpace raw in
      if skipped_line line then m
      else (case key_value line of None \<Rightarrow> m | Some (key, value) \<Rightarrow> fmupd key value m))"

text \<open>A directory: its entries in order, with name, whether it is a directory, and the file.\<close>

record dir_entry =
  entry_Name :: string
  entry_IsDir :: bool
  entry_file :: file_state

definition v1_file :: "sections \<Rightarrow> dir_entry \<Rightarrow> sections" where
  "v1_file m e =
     (if entry_IsDir e \<or> prefix ''.'' (entry_Name e) then m
      else (case entry_file e of
          Content s \<Rightarrow>
            (case scan_lines s of (lines, failed) \<Rightarrow>
               if failed then m else fmupd (entry_Name e) (foldl v1_line fmempty lines) m)
        | _ \<Rightarrow> m))"

definition ParseV1Config :: "dir_entry list option \<Rightarrow> sections option" where
  "ParseV1Config dir = map_option (foldl v1_file fmempty) dir"

section \<open>Default scrape settings\<close>

record ConfigProcessor =
  DefaultMetricAccountName :: string
  ClusterAlias :: string
  ClusterLabel :: string
  IsOperatorEnabled :: bool
  IsOperatorEnabledChartSetting :: bool
  ControlplaneKubeControllerManager :: string
  ControlplaneKubeScheduler :: string
  ControlplaneApiserver :: string
  ControlplaneClusterAutoscaler :: string
  ControlplaneNodeAutoProvisioning :: string
  ControlplaneEtcd :: string
  ControlplaneIstio :: string
  NoDefaultsEnabled :: bool
  TargetallocatorHttpsEnabled :: bool
  TargetallocatorHttpsEnabledChartSetting :: bool
  SecretsAccessNamespaces :: "string list"
  Kubelet :: string
  Coredns :: string
  Cadvisor :: string
  Kubeproxy :: string
  Apiserver :: string
  Kubestate :: string
  NodeExporter :: string
  PrometheusCollectorHealth :: string
  PodAnnotation :: string
  Windowsexporter :: string
  Windowskubeproxy :: string
  Kappiebasic :: string
  NetworkObservabilityRetina :: string
  NetworkObservabilityHubble :: string
  NetworkObservabilityCilium :: string
  AcstorCapacityProvisioner :: string
  AcstorMetricsExporter :: string
  LocalCSIDriver :: string
  Ztunnel :: string
  IstioCni :: string
  DcgmExporter :: string

definition empty_processor :: ConfigProcessor where
  "empty_processor = \<lparr>DefaultMetricAccountName = '''', ClusterAlias = '''', ClusterLabel = '''', IsOperatorEnabled = False,
     IsOperatorEnabledChartSetting = False, ControlplaneKubeControllerManager = '''', ControlplaneKubeScheduler = '''',
     ControlplaneApiserver = '''', ControlplaneClusterAutoscaler = '''', ControlplaneNodeAutoProvisioning = '''',
     ControlplaneEtcd = '''', ControlplaneIstio = '''', NoDefaultsEnabled = False, TargetallocatorHttpsEnabled = False,
     TargetallocatorHttpsEnabledChartSetting = False, SecretsAccessNamespaces = [],
     Kubelet = '''', Coredns = '''', Cadvisor = '''', Kubeproxy = '''', Apiserver = '''', Kubestate = '''', NodeExporter = '''',
     PrometheusCollectorHealth = '''', PodAnnotation = '''', Windowsexporter = '''', Windowskubeproxy = '''', Kappiebasic = '''', NetworkObservabilityRetina = '''',
     NetworkObservabilityHubble = '''', NetworkObservabilityCilium = '''', AcstorCapacityProvisioner = '''', AcstorMetricsExporter = '''',
     LocalCSIDriver = '''', Ztunnel = '''', IstioCni = '''', DcgmExporter = ''''\<rparr>"

definition default_settings :: "(string \<times> string) list" where
  "default_settings =
     [(''kubelet'', ''true''), (''coredns'', ''false''), (''cadvisor'', ''true''), (''kubeproxy'', ''false''), (''apiserver'', ''false''),
      (''kubestate'', ''true''), (''nodeexporter'', ''true''), (''prometheuscollectorhealth'', ''false''), (''windowsexporter'', ''false''),
      (''windowskubeproxy'', ''false''), (''kappiebasic'', ''true''), (''networkobservabilityRetina'', ''true''),
      (''networkobservabilityHubble'', ''true''), (''networkobservabilityCilium'', ''true''), (''noDefaultsEnabled'', ''false''),
      (''acstor-capacity-provisioner'', ''true''), (''acstor-metrics-exporter'', ''true''), (''local-csi-driver'', ''true''),
      (''ztunnel'', ''false''), (''istio-cni'', ''false''), (''dcgmexporter'', ''true''), (''controlplane-istio'', ''false'')]"

definition SetDefaultScrapeSettings :: "(string, string) gomap" where
  "SetDefaultScrapeSettings = fmap_of_list default_settings"

text \<open>Only known settings are overridden; the loop changes different keys, so its order does not matter.\<close>

definition settings_section :: "string \<Rightarrow> string" where
  "settings_section schemaVersion =
     (if schemaVersion = ''v2'' then ''default-targets-scrape-enabled'' else ''default-scrape-settings-enabled'')"

definition ParseConfigMapForDefaultScrapeSettings :: "sections \<Rightarrow> string \<Rightarrow> (string, string) gomap" where
  "ParseConfigMapForDefaultScrapeSettings m schemaVersion =
     (case fmlookup m (settings_section schemaVersion) of
        None \<Rightarrow> SetDefaultScrapeSettings
      | Some settings \<Rightarrow> fmmap_keys (\<lambda>k d. case fmlookup settings k of None \<Rightarrow> d | Some v \<Rightarrow> v) SetDefaultScrapeSettings)"

definition set_if :: "(string, string) gomap \<Rightarrow> string \<Rightarrow> (string \<Rightarrow> ConfigProcessor \<Rightarrow> ConfigProcessor) \<Rightarrow> ConfigProcessor \<Rightarrow> ConfigProcessor" where
  "set_if config key upd cp =
     (case fmlookup config key of None \<Rightarrow> cp | Some val \<Rightarrow> if val \<noteq> '''' then upd val cp else cp)"

definition populate_fields :: "(string, string) gomap \<Rightarrow> ConfigProcessor \<Rightarrow> ConfigProcessor" where
  "populate_fields config cp =
     foldl (\<lambda>cp (key, upd). set_if config key upd cp) cp
       [(''kubelet'', \<lambda>v. Kubelet_update (\<lambda>_. v)),
        (''coredns'', \<lambda>v. Coredns_update (\<lambda>_. v)),
        (''cadvisor'', \<lambda>v. Cadvisor_update (\<lambda>_. v)),
        (''kubeproxy'', \<lambda>v. Kubeproxy_update (\<lambda>_. v)),
        (''apiserver'', \<lambda>v. Apiserver_update (\<lambda>_. v)),
        (''kubestate'', \<lambda>v. Kubestate_update (\<lambda>_. v)),
        (''nodeexporter'', \<lambda>v. NodeExporter_update (\<lambda>_. v)),
        (''prometheuscollectorhealth'', \<lambda>v. PrometheusCollectorHealth_update (\<lambda>_. v)),
        (''windowsexporter'', \<lambda>v. Windowsexporter_update (\<lambda>_. v)),
        (''windowskubeproxy'', \<lambda>v. Windowskubeproxy_update (\<lambda>_. v)),
        (''kappiebasic'', \<lambda>v. Kappiebasic_update (\<lambda>_. v)),
        (''networkobservabilityRetina'', \<lambda>v. NetworkObservabilityRetina_update (\<lambda>_. v)),
        (''networkobservabilityHubble'', \<lambda>v. NetworkObservabilityHubble_update (\<lambda>_. v)),
        (''networkobservabilityCilium'', \<lambda>v. NetworkObservabilityCilium_update (\<lambda>_. v)),
        (''acstor-capacity-provisioner'', \<lambda>v. AcstorCapacityProvisioner_update (\<lambda>_. v)),
        (''acstor-metrics-exporter'', \<lambda>v. AcstorMetricsExporter_update (\<lambda>_. v)),
        (''local-csi-driver'', \<lambda>v. LocalCSIDriver_update (\<lambda>_. v)),
        (''ztunnel'', \<lambda>v. Ztunnel_update (\<lambda>_. v)),
        (''istio-cni'', \<lambda>v. IstioCni_update (\<lambda>_. v)),
        (''dcgmexporter'', \<lambda>v. DcgmExporter_update (\<lambda>_. v)),
        (''controlplane-istio'', \<lambda>v. ControlplaneIstio_update (\<lambda>_. v))]"

text \<open>The five settings the no-defaults test looks at are all empty.\<close>

definition none_set :: "ConfigProcessor \<Rightarrow> bool" where
  "none_set cp \<longleftrightarrow> Kubelet cp = '''' \<and> Cadvisor cp = '''' \<and> NodeExporter cp = '''' \<and> PrometheusCollectorHealth cp = '''' \<and> Kappiebasic cp = ''''"

definition PopulateSettingValues :: "environ \<Rightarrow> (string, string) gomap \<Rightarrow> ConfigProcessor \<Rightarrow> ConfigProcessor" where
  "PopulateSettingValues env config cp =
     (let cp = populate_fields config cp in
      if Getenv env ''MODE'' \<noteq> '''' \<and> ToLower (TrimSpace (Getenv env ''MODE'')) = ''advanced''
      then if Getenv env ''CONTROLLER_TYPE'' = ''ReplicaSet'' \<and> ToLower (Getenv env ''OS_TYPE'') = ''linux'' \<and> none_set cp
           then cp\<lparr>NoDefaultsEnabled := True\<rparr> else cp
      else if none_set cp then cp\<lparr>NoDefaultsEnabled := True\<rparr> else cp)"

definition print_bool :: "bool \<Rightarrow> string" where
  "print_bool b = (if b then ''true'' else ''false'')"

text \<open>The variables of the settings file, in the order they are written.\<close>

definition settings_vars :: "ConfigProcessor \<Rightarrow> (string \<times> string) list" where
  "settings_vars cp =
     [(''AZMON_PROMETHEUS_KUBELET_SCRAPING_ENABLED'', Kubelet cp),
      (''AZMON_PROMETHEUS_COREDNS_SCRAPING_ENABLED'', Coredns cp),
      (''AZMON_PROMETHEUS_CADVISOR_SCRAPING_ENABLED'', Cadvisor cp),
      (''AZMON_PROMETHEUS_KUBEPROXY_SCRAPING_ENABLED'', Kubeproxy cp),
      (''AZMON_PROMETHEUS_APISERVER_SCRAPING_ENABLED'', Apiserver cp),
      (''AZMON_PROMETHEUS_KUBESTATE_SCRAPING_ENABLED'', Kubestate cp),
      (''AZMON_PROMETHEUS_NODEEXPORTER_SCRAPING_ENABLED'', NodeExporter cp),
      (''AZMON_PROMETHEUS_COLLECTOR_HEALTH_SCRAPING_ENABLED'', PrometheusCollectorHealth cp),
      (''AZMON_PROMETHEUS_WINDOWSEXPORTER_SCRAPING_ENABLED'', Windowsexporter cp),
      (''AZMON_PROMETHEUS_WINDOWSKUBEPROXY_SCRAPING_ENABLED'', Windowskubeproxy cp),
      (''AZMON_PROMETHEUS_KAPPIEBASIC_SCRAPING_ENABLED'', Kappiebasic cp),
      (''AZMON_PROMETHEUS_NETWORKOBSERVABILITYRETINA_SCRAPING_ENABLED'', NetworkObservabilityRetina cp),
      (''AZMON_PROMETHEUS_NETWORKOBSERVABILITYHUBBLE_SCRAPING_ENABLED'', NetworkObservabilityHubble cp),
      (''AZMON_PROMETHEUS_NETWORKOBSERVABILITYCILIUM_SCRAPING_ENABLED'', NetworkObservabilityCilium cp),
      (''AZMON_PROMETHEUS_NO_DEFAULT_SCRAPING_ENABLED'', print_bool (NoDefaultsEnabled cp)),
      (''AZMON_PROMETHEUS_ACSTORCAPACITYPROVISIONER_SCRAPING_ENABLED'', AcstorCapacityProvisioner cp),
      (''AZMON_PROMETHEUS_ACSTORMETRICSEXPORTER_SCRAPING_ENABLED'', AcstorMetricsExporter cp),
      (''AZMON_PROMETHEUS_LOCALCSIDRIVER_SCRAPING_ENABLED'', LocalCSIDriver cp),
      (''AZMON_PROMETHEUS_ZTUNNEL_SCRAPING_ENABLED'', Ztunnel cp),
      (''AZMON_PROMETHEUS_ISTIOCNI_SCRAPING_ENABLED'', IstioCni cp),
      (''AZMON_PROMETHEUS_DCGMEXPORTER_SCRAPING_ENABLED'', DcgmExporter cp),
      (''AZMON_PROMETHEUS_CONTROLPLANE_ISTIO_ENABLED'', ControlplaneIstio cp)]"

definition env_file :: "(string \<times> string) list \<Rightarrow> string" where
  "env_file kvs = concat (map (\<lambda>(k, v). k @ ''='' @ v @ [CHR 0x0A]) kvs)"

definition WriteDefaultScrapeSettingsToFile :: "ConfigProcessor \<Rightarrow> string" where
  "WriteDefaultScrapeSettingsToFile cp = env_file (settings_vars cp)"

definition is_alnum :: "char \<Rightarrow> bool" where
  "is_alnum c \<longleftrightarrow> c \<in> set ''0123456789abcdefghijklmnopqrstuvwxyzABCDEFGHIJKLMNOPQRSTUVWXYZ''"

text \<open>\<open>[^0-9a-zA-Z]+\<close> replaced by an underscore: one for each run.\<close>

fun replace_runs :: "bool \<Rightarrow> string \<Rightarrow> string" where
  "replace_runs in_run [] = []"
| "replace_runs in_run (c # cs) =
     (if is_alnum c then c # replace_runs False cs
      else if in_run then replace_runs True cs else CHR ''_'' # replace_runs True cs)"

definition clean_alias :: "string \<Rightarrow> string" where
  "clean_alias s = (if s \<noteq> '''' then trim_by (\<lambda>c. c = CHR ''_'') (replace_runs False s) else s)"

definition cluster_name :: "environ \<Rightarrow> string" where
  "cluster_name env =
     (if Getenv env ''MAC'' \<noteq> '''' \<and> TrimSpace (Getenv env ''MAC'') = ''true''
      then last (split_char CHR ''/'' (TrimSpace (Getenv env ''CLUSTER''))) else Getenv env ''CLUSTER'')"

definition supported_schema :: "environ \<Rightarrow> bool" where
  "supported_schema env \<longleftrightarrow>
     (let v = Getenv env ''AZMON_AGENT_CFG_SCHEMA_VERSION'' in v \<noteq> '''' \<and> (TrimSpace v = ''v1'' \<or> TrimSpace v = ''v2''))"

text \<open>The content of the settings file that \<open>ConfigureDefaultScrapeSettings\<close> writes.\<close>

definition ConfigureDefaultScrapeSettings :: "environ \<Rightarrow> sections \<Rightarrow> string" where
  "ConfigureDefaultScrapeSettings env m =
     (let defaultSettings = (if supported_schema env
            then ParseConfigMapForDefaultScrapeSettings m (Getenv env ''AZMON_AGENT_CFG_SCHEMA_VERSION'')
            else SetDefaultScrapeSettings);
          cp = PopulateSettingValues env defaultSettings empty_processor
      in WriteDefaultScrapeSettingsToFile (cp\<lparr>ClusterAlias := clean_alias (cluster_name env)\<rparr>))"

section \<open>From the file to the environment\<close>

text \<open>
  \<open>os.Setenv\<close> on Linux refuses an empty name, a name with \<open>=\<close>, and a name or value with a zero byte; the
  caller drops that error. A line without exactly one \<open>=\<close> is skipped.
\<close>

definition Setenv :: "environ \<Rightarrow> string \<Rightarrow> string \<Rightarrow> environ" where
  "Setenv env key v =
     (if key = '''' \<or> CHR ''='' \<in> set key \<or> CHR 0x00 \<in> set key \<or> CHR 0x00 \<in> set v then env else env(key \<mapsto> v))"

definition set_env_line :: "environ \<Rightarrow> string \<Rightarrow> environ" where
  "set_env_line env line = (case split_char CHR ''='' line of [key, v] \<Rightarrow> Setenv env key v | _ \<Rightarrow> env)"

text \<open>The environment with the lines read so far set, and the error, if any.\<close>

definition SetEnvVarsFromFile :: "string \<Rightarrow> file_state \<Rightarrow> environ \<Rightarrow> parse_error option \<times> environ" where
  "SetEnvVarsFromFile filename f env =
     (case f of
        Missing \<Rightarrow> (Some (DoesNotExist filename), env)
      | Unreadable \<Rightarrow> (Some (OpenFailed filename), env)
      | Content s \<Rightarrow>
        (case scan_lines s of (lines, failed) \<Rightarrow>
           (if failed then Some (ReadFailed filename) else None, foldl set_env_line env lines)))"

definition defaultSettingsEnvVarPath :: string where
  "defaultSettingsEnvVarPath = ''/opt/microsoft/configmapparser/config_default_scrape_settings_env_var''"

text \<open>The settings file is written and read back; an error of the reader is only logged.\<close>

definition parseDefaultScrapeSettings :: "sections \<Rightarrow> environ \<Rightarrow> environ" where
  "parseDefaultScrapeSettings m env =
     snd (SetEnvVarsFromFile defaultSettingsEnvVarPath (Content (ConfigureDefaultScrapeSettings env m)) env)"

section \<open>Scrape intervals\<close>

definition defaultScrapeInterval :: string where
  "defaultScrapeInterval = ''30s''"

definition checkDuration :: "string \<Rightarrow> string" where
  "checkDuration duration = (if \<not> duration_matches duration \<or> duration = '''' then defaultScrapeInterval else duration)"

definition getParsedDataValue :: "sections \<Rightarrow> string \<Rightarrow> string" where
  "getParsedDataValue m key =
     (case fmlookup (get0 fmempty m ''default-targets-scrape-interval-settings'') key of
        Some value \<Rightarrow> checkDuration value
      | None \<Rightarrow> defaultScrapeInterval)"

text \<open>The variable of each interval and the setting it comes from.\<close>

definition interval_keys :: "(string \<times> string) list" where
  "interval_keys =
     [(''KUBELET_SCRAPE_INTERVAL'', ''kubelet''), (''COREDNS_SCRAPE_INTERVAL'', ''coredns''), (''CADVISOR_SCRAPE_INTERVAL'', ''cadvisor''),
      (''KUBEPROXY_SCRAPE_INTERVAL'', ''kubeproxy''), (''APISERVER_SCRAPE_INTERVAL'', ''apiserver''), (''KUBESTATE_SCRAPE_INTERVAL'', ''kubestate''),
      (''NODEEXPORTER_SCRAPE_INTERVAL'', ''nodeexporter''), (''WINDOWSEXPORTER_SCRAPE_INTERVAL'', ''windowsexporter''),
      (''WINDOWSKUBEPROXY_SCRAPE_INTERVAL'', ''windowskubeproxy''), (''PROMETHEUS_COLLECTOR_HEALTH_SCRAPE_INTERVAL'', ''prometheuscollectorhealth''),
      (''POD_ANNOTATION_SCRAPE_INTERVAL'', ''podannotations''), (''KAPPIEBASIC_SCRAPE_INTERVAL'', ''kappiebasic''),
      (''NETWORKOBSERVABILITYRETINA_SCRAPE_INTERVAL'', ''networkobservabilityRetina''),
      (''NETWORKOBSERVABILITYHUBBLE_SCRAPE_INTERVAL'', ''networkobservabilityHubble''),
      (''NETWORKOBSERVABILITYCILIUM_SCRAPE_INTERVAL'', ''networkobservabilityCilium''),
      (''ACSTORCAPACITYPROVISIONER_SCRAPE_INTERVAL'', ''acstor-capacity-provisioner''),
      (''ACSTORMETRICSEXPORTER_SCRAPE_INTERVAL'', ''acstor-metrics-exporter''), (''LOCALCSIDRIVER_SCRAPE_INTERVAL'', ''local-csi-driver''),
      (''ZTUNNEL_SCRAPE_INTERVAL'', ''ztunnel''), (''ISTIOCNI_SCRAPE_INTERVAL'', ''istio-cni''),
      (''DCGMEXPORTER_SCRAPE_INTERVAL'', ''dcgmexporter''), (''CONTROLPLANE_ISTIO_SCRAPE_INTERVAL'', ''controlplane-istio'')]"

definition processConfigMap :: "environ \<Rightarrow> sections \<Rightarrow> (string, string) gomap" where
  "processConfigMap env m =
     (if supported_schema env then fmap_of_list (map (\<lambda>(v, key). (v, getParsedDataValue m key)) interval_keys)
      else fmap_of_list (map (\<lambda>(v, key). (v, defaultScrapeInterval)) interval_keys))"


section \<open>What reaches the merger\<close>

lemma raw_lines_cons: "CHR 0x0A \<notin> set l \<Longrightarrow> raw_lines (l @ CHR 0x0A # rest) = l # raw_lines rest"
  by (cases l) (auto simp: takeWhile_append dropWhile_append)

lemma split_char_absent: "c \<notin> set s \<Longrightarrow> split_char c s = [s]"
  by (induction s) auto

lemma split_char_append: "c \<notin> set s \<Longrightarrow> split_char c (s @ c # t) = s # split_char c t"
  by (induction s) auto

text \<open>A value that survives the way through the file: no line break, no zero byte and no \<open>=\<close>, and not too long.\<close>

definition plain :: "string \<Rightarrow> bool" where
  "plain s \<longleftrightarrow> list_all (\<lambda>c. c \<noteq> CHR 0x0A \<and> c \<noteq> CHR 0x0D \<and> c \<noteq> CHR ''='' \<and> c \<noteq> CHR 0x00) s \<and> length s < 32768"

lemma plain_code [code]:
  "plain s \<longleftrightarrow> list_all (\<lambda>c. c \<noteq> CHR 0x0A \<and> c \<noteq> CHR 0x0D \<and> c \<noteq> CHR ''='' \<and> c \<noteq> CHR 0x00) s \<and> int (length s) < 32768"
  by (simp add: plain_def)

lemma plainD: "plain s \<Longrightarrow> CHR 0x0A \<notin> set s \<and> CHR 0x0D \<notin> set s \<and> CHR ''='' \<notin> set s \<and> CHR 0x00 \<notin> set s \<and> length s < 32768"
  by (auto simp: plain_def list_all_iff)

definition env_line :: "string \<times> string \<Rightarrow> string" where
  "env_line kv = fst kv @ CHR ''='' # snd kv"

lemma env_file_lines:
  assumes "list_all (\<lambda>(k, v). plain k \<and> plain v) kvs"
  shows "scan_lines (env_file kvs) = (map env_line kvs, False)"
proof -
  have "raw_lines (env_file kvs) = map env_line kvs"
    using assms
  proof (induction kvs)
    case (Cons kv kvs)
    then show ?case
      using raw_lines_cons [of "env_line kv" "env_file kvs"]
      by (auto simp: env_file_def env_line_def dest: plainD split: prod.splits)
  qed (simp add: env_file_def)
  moreover have "fits (env_line kv) \<and> drop_cr (env_line kv) = env_line kv" if "kv \<in> set kvs" for kv
  proof -
    have "plain (fst kv)" "plain (snd kv)" using assms that by (auto simp: list_all_iff)
    moreover have "last (env_line kv) \<noteq> CHR 0x0D"
    proof (cases "snd kv = []")
      case False
      then have "last (snd kv) \<noteq> CHR 0x0D" using \<open>plain (snd kv)\<close> last_in_set plainD by metis
      with False show ?thesis by (simp add: env_line_def)
    qed (simp add: env_line_def)
    ultimately show ?thesis using plainD [of "fst kv"] plainD [of "snd kv"] by (simp add: fits_def drop_cr_def env_line_def)
  qed
  ultimately show ?thesis by (simp add: scan_lines_def takeWhile_eq_all_conv [THEN iffD2] list_all_iff map_idI)
qed

lemma set_env_line_pair: "plain k \<Longrightarrow> plain v \<Longrightarrow> k \<noteq> '''' \<Longrightarrow> set_env_line env (env_line (k, v)) = env(k \<mapsto> v)"
  using plainD [of k] plainD [of v] by (simp add: set_env_line_def Setenv_def env_line_def split_char_append split_char_absent)

lemma SetEnvVars_file:
  assumes "list_all (\<lambda>(k, v). plain k \<and> plain v \<and> k \<noteq> '''') kvs" and "distinct (map fst kvs)"
  shows "SetEnvVarsFromFile f (Content (env_file kvs)) env = (None, env ++ map_of kvs)"
proof -
  have "list_all (\<lambda>(k, v). plain k \<and> plain v) kvs" using assms(1) by (auto simp: list_all_iff)
  then have "SetEnvVarsFromFile f (Content (env_file kvs)) env = (None, foldl set_env_line env (map env_line kvs))"
    by (simp add: SetEnvVarsFromFile_def env_file_lines)
  also have "foldl set_env_line env (map env_line kvs) = env ++ map_of kvs"
    using assms
  proof (induction kvs arbitrary: env)
    case (Cons kv kvs)
    then show ?case
      by (cases kv) (auto simp: set_env_line_pair fun_eq_iff map_add_def map_of_eq_None_iff [THEN iffD2] split: option.splits)
  qed simp
  finally show ?thesis .
qed

section \<open>The fields\<close>

definition pick :: "(string, string) gomap \<Rightarrow> string \<Rightarrow> string \<Rightarrow> string" where
  "pick config key old = (case fmlookup config key of None \<Rightarrow> old | Some v \<Rightarrow> if v \<noteq> '''' then v else old)"

lemma set_if_fields:
  "set_if c k (\<lambda>v. Kubelet_update (\<lambda>_. v)) cp = Kubelet_update (pick c k) cp"
  "set_if c k (\<lambda>v. Coredns_update (\<lambda>_. v)) cp = Coredns_update (pick c k) cp"
  "set_if c k (\<lambda>v. Cadvisor_update (\<lambda>_. v)) cp = Cadvisor_update (pick c k) cp"
  "set_if c k (\<lambda>v. Kubeproxy_update (\<lambda>_. v)) cp = Kubeproxy_update (pick c k) cp"
  "set_if c k (\<lambda>v. Apiserver_update (\<lambda>_. v)) cp = Apiserver_update (pick c k) cp"
  "set_if c k (\<lambda>v. Kubestate_update (\<lambda>_. v)) cp = Kubestate_update (pick c k) cp"
  "set_if c k (\<lambda>v. NodeExporter_update (\<lambda>_. v)) cp = NodeExporter_update (pick c k) cp"
  "set_if c k (\<lambda>v. PrometheusCollectorHealth_update (\<lambda>_. v)) cp = PrometheusCollectorHealth_update (pick c k) cp"
  "set_if c k (\<lambda>v. Windowsexporter_update (\<lambda>_. v)) cp = Windowsexporter_update (pick c k) cp"
  "set_if c k (\<lambda>v. Windowskubeproxy_update (\<lambda>_. v)) cp = Windowskubeproxy_update (pick c k) cp"
  "set_if c k (\<lambda>v. Kappiebasic_update (\<lambda>_. v)) cp = Kappiebasic_update (pick c k) cp"
  "set_if c k (\<lambda>v. NetworkObservabilityRetina_update (\<lambda>_. v)) cp = NetworkObservabilityRetina_update (pick c k) cp"
  "set_if c k (\<lambda>v. NetworkObservabilityHubble_update (\<lambda>_. v)) cp = NetworkObservabilityHubble_update (pick c k) cp"
  "set_if c k (\<lambda>v. NetworkObservabilityCilium_update (\<lambda>_. v)) cp = NetworkObservabilityCilium_update (pick c k) cp"
  "set_if c k (\<lambda>v. AcstorCapacityProvisioner_update (\<lambda>_. v)) cp = AcstorCapacityProvisioner_update (pick c k) cp"
  "set_if c k (\<lambda>v. AcstorMetricsExporter_update (\<lambda>_. v)) cp = AcstorMetricsExporter_update (pick c k) cp"
  "set_if c k (\<lambda>v. LocalCSIDriver_update (\<lambda>_. v)) cp = LocalCSIDriver_update (pick c k) cp"
  "set_if c k (\<lambda>v. Ztunnel_update (\<lambda>_. v)) cp = Ztunnel_update (pick c k) cp"
  "set_if c k (\<lambda>v. IstioCni_update (\<lambda>_. v)) cp = IstioCni_update (pick c k) cp"
  "set_if c k (\<lambda>v. DcgmExporter_update (\<lambda>_. v)) cp = DcgmExporter_update (pick c k) cp"
  "set_if c k (\<lambda>v. ControlplaneIstio_update (\<lambda>_. v)) cp = ControlplaneIstio_update (pick c k) cp"
  by (simp_all add: set_if_def pick_def split: option.split)

lemma populate_fields_eq:
  "populate_fields config empty_processor = \<lparr>DefaultMetricAccountName = '''', ClusterAlias = '''', ClusterLabel = '''', IsOperatorEnabled = False,
     IsOperatorEnabledChartSetting = False, ControlplaneKubeControllerManager = '''', ControlplaneKubeScheduler = '''',
     ControlplaneApiserver = '''', ControlplaneClusterAutoscaler = '''', ControlplaneNodeAutoProvisioning = '''',
     ControlplaneEtcd = '''', ControlplaneIstio = pick config ''controlplane-istio'' '''', NoDefaultsEnabled = False, TargetallocatorHttpsEnabled = False,
     TargetallocatorHttpsEnabledChartSetting = False, SecretsAccessNamespaces = [],
     Kubelet = pick config ''kubelet'' '''',
     Coredns = pick config ''coredns'' '''',
     Cadvisor = pick config ''cadvisor'' '''',
     Kubeproxy = pick config ''kubeproxy'' '''',
     Apiserver = pick config ''apiserver'' '''',
     Kubestate = pick config ''kubestate'' '''',
     NodeExporter = pick config ''nodeexporter'' '''',
     PrometheusCollectorHealth = pick config ''prometheuscollectorhealth'' '''',
     PodAnnotation = '''',
     Windowsexporter = pick config ''windowsexporter'' '''',
     Windowskubeproxy = pick config ''windowskubeproxy'' '''',
     Kappiebasic = pick config ''kappiebasic'' '''',
     NetworkObservabilityRetina = pick config ''networkobservabilityRetina'' '''',
     NetworkObservabilityHubble = pick config ''networkobservabilityHubble'' '''',
     NetworkObservabilityCilium = pick config ''networkobservabilityCilium'' '''',
     AcstorCapacityProvisioner = pick config ''acstor-capacity-provisioner'' '''',
     AcstorMetricsExporter = pick config ''acstor-metrics-exporter'' '''',
     LocalCSIDriver = pick config ''local-csi-driver'' '''',
     Ztunnel = pick config ''ztunnel'' '''',
     IstioCni = pick config ''istio-cni'' '''',
     DcgmExporter = pick config ''dcgmexporter'' ''''\<rparr>"
  by (simp add: populate_fields_def set_if_fields empty_processor_def)

lemma pick_empty: "pick config key '''' = (case fmlookup config key of None \<Rightarrow> '''' | Some v \<Rightarrow> v)"
  by (simp add: pick_def split: option.split)

text \<open>The settings of a target: the key in the config map, its default, and the variable the merger reads.\<close>

definition target_settings :: "(string \<times> string \<times> string) list" where
  "target_settings =
     [(''kubelet'', ''true'', ''AZMON_PROMETHEUS_KUBELET_SCRAPING_ENABLED''),
      (''coredns'', ''false'', ''AZMON_PROMETHEUS_COREDNS_SCRAPING_ENABLED''),
      (''cadvisor'', ''true'', ''AZMON_PROMETHEUS_CADVISOR_SCRAPING_ENABLED''),
      (''kubeproxy'', ''false'', ''AZMON_PROMETHEUS_KUBEPROXY_SCRAPING_ENABLED''),
      (''apiserver'', ''false'', ''AZMON_PROMETHEUS_APISERVER_SCRAPING_ENABLED''),
      (''kubestate'', ''true'', ''AZMON_PROMETHEUS_KUBESTATE_SCRAPING_ENABLED''),
      (''nodeexporter'', ''true'', ''AZMON_PROMETHEUS_NODEEXPORTER_SCRAPING_ENABLED''),
      (''prometheuscollectorhealth'', ''false'', ''AZMON_PROMETHEUS_COLLECTOR_HEALTH_SCRAPING_ENABLED''),
      (''windowsexporter'', ''false'', ''AZMON_PROMETHEUS_WINDOWSEXPORTER_SCRAPING_ENABLED''),
      (''windowskubeproxy'', ''false'', ''AZMON_PROMETHEUS_WINDOWSKUBEPROXY_SCRAPING_ENABLED''),
      (''kappiebasic'', ''true'', ''AZMON_PROMETHEUS_KAPPIEBASIC_SCRAPING_ENABLED''),
      (''networkobservabilityRetina'', ''true'', ''AZMON_PROMETHEUS_NETWORKOBSERVABILITYRETINA_SCRAPING_ENABLED''),
      (''networkobservabilityHubble'', ''true'', ''AZMON_PROMETHEUS_NETWORKOBSERVABILITYHUBBLE_SCRAPING_ENABLED''),
      (''networkobservabilityCilium'', ''true'', ''AZMON_PROMETHEUS_NETWORKOBSERVABILITYCILIUM_SCRAPING_ENABLED''),
      (''acstor-capacity-provisioner'', ''true'', ''AZMON_PROMETHEUS_ACSTORCAPACITYPROVISIONER_SCRAPING_ENABLED''),
      (''acstor-metrics-exporter'', ''true'', ''AZMON_PROMETHEUS_ACSTORMETRICSEXPORTER_SCRAPING_ENABLED''),
      (''local-csi-driver'', ''true'', ''AZMON_PROMETHEUS_LOCALCSIDRIVER_SCRAPING_ENABLED''),
      (''ztunnel'', ''false'', ''AZMON_PROMETHEUS_ZTUNNEL_SCRAPING_ENABLED''),
      (''istio-cni'', ''false'', ''AZMON_PROMETHEUS_ISTIOCNI_SCRAPING_ENABLED''),
      (''dcgmexporter'', ''true'', ''AZMON_PROMETHEUS_DCGMEXPORTER_SCRAPING_ENABLED''),
      (''controlplane-istio'', ''false'', ''AZMON_PROMETHEUS_CONTROLPLANE_ISTIO_ENABLED'')]"

text \<open>The value of a setting: the one of the config map, when its schema version is supported, else the default.\<close>

definition setting_value :: "environ \<Rightarrow> sections \<Rightarrow> string \<Rightarrow> string \<Rightarrow> string" where
  "setting_value env m key d =
     (if supported_schema env
      then (case fmlookup (get0 fmempty m (settings_section (Getenv env ''AZMON_AGENT_CFG_SCHEMA_VERSION''))) key of None \<Rightarrow> d | Some v \<Rightarrow> v)
      else d)"

definition loaded_settings :: "environ \<Rightarrow> sections \<Rightarrow> (string, string) gomap" where
  "loaded_settings env m = (if supported_schema env
     then ParseConfigMapForDefaultScrapeSettings m (Getenv env ''AZMON_AGENT_CFG_SCHEMA_VERSION'') else SetDefaultScrapeSettings)"

lemma loaded_lookup: "fmlookup (loaded_settings env m) key = map_option (setting_value env m key) (map_of default_settings key)"
  by (cases "map_of default_settings key")
    (auto simp: loaded_settings_def setting_value_def ParseConfigMapForDefaultScrapeSettings_def SetDefaultScrapeSettings_def get0_def
      fmlookup_of_list split: option.splits)


lemma target_in_defaults: "(key, d, var) \<in> set target_settings \<Longrightarrow> map_of default_settings key = Some d"
proof -
  have "list_all (\<lambda>(key, d, var). map_of default_settings key = Some d) target_settings" by code_simp
  then show "(key, d, var) \<in> set target_settings \<Longrightarrow> map_of default_settings key = Some d" by (auto simp: list_all_iff)
qed

lemma PopulateSettingValues_cases:
  "\<exists>b. PopulateSettingValues env config cp = (populate_fields config cp)\<lparr>NoDefaultsEnabled := b\<rparr> \<and>
     (b \<longrightarrow> none_set (populate_fields config cp) \<or> NoDefaultsEnabled (populate_fields config cp))"
proof -
  let ?cp = "populate_fields config cp"
  have "PopulateSettingValues env config cp = ?cp\<lparr>NoDefaultsEnabled := True\<rparr> \<and> none_set ?cp \<or> PopulateSettingValues env config cp = ?cp"
    by (simp add: PopulateSettingValues_def Let_def)
  then consider "PopulateSettingValues env config cp = ?cp\<lparr>NoDefaultsEnabled := True\<rparr>" "none_set ?cp"
    | "PopulateSettingValues env config cp = ?cp"
    by blast
  then show ?thesis
  proof cases
    case 1 then show ?thesis by (intro exI [of _ True]) simp
  next
    case 2 then show ?thesis by (intro exI [of _ "NoDefaultsEnabled ?cp"]) simp
  qed
qed

definition target_var :: "(string, string) gomap \<Rightarrow> string \<times> string \<times> string \<Rightarrow> string \<times> string" where
  "target_var config t = (snd (snd t), pick config (fst t) '''')"

abbreviation no_default_var :: string where
  "no_default_var \<equiv> ''AZMON_PROMETHEUS_NO_DEFAULT_SCRAPING_ENABLED''"

lemma settings_vars_eq:
  "settings_vars ((populate_fields config empty_processor)\<lparr>NoDefaultsEnabled := b, ClusterAlias := a\<rparr>) =
     map (target_var config) (take 14 target_settings) @ (no_default_var, print_bool b) # map (target_var config) (drop 14 target_settings)"
  by (simp add: settings_vars_def populate_fields_eq target_var_def target_settings_def)

lemma target_vars_distinct:
  "distinct (map (\<lambda>t. snd (snd t)) (take 14 target_settings) @ no_default_var # map (\<lambda>t. snd (snd t)) (drop 14 target_settings))"
  by code_simp

lemma target_vars_plain: "list_all (\<lambda>t. plain (snd (snd t)) \<and> snd (snd t) \<noteq> '''') target_settings"
  by code_simp

lemma plain_print_bool: "plain (print_bool b)"
  by (cases b) (simp_all add: print_bool_def plain_def)

lemma plain_no_default: "plain no_default_var"
  by code_simp

lemmas target_names = target_vars_distinct target_vars_plain plain_no_default plain_print_bool

lemma interval_names: "distinct (map fst interval_keys)"
  by code_simp

lemma default_interval: "duration_matches defaultScrapeInterval \<and> defaultScrapeInterval \<noteq> ''''"
  by code_simp

lemma checkDuration_valid: "duration_matches (checkDuration s) \<and> checkDuration s \<noteq> ''''"
  using default_interval by (auto simp: checkDuration_def)

lemma interval_lookup:
  "(v, key) \<in> set interval_keys \<Longrightarrow>
     fmlookup (processConfigMap env m) v = Some (if supported_schema env then getParsedDataValue m key else defaultScrapeInterval)"
  using interval_names
  by (auto simp: processConfigMap_def fmlookup_of_list comp_def split_beta intro!: map_of_is_SomeI image_eqI [of _ _ "(v, key)"])

lemma settings_file:
  obtains kvs b where "ConfigureDefaultScrapeSettings env m = env_file kvs" "distinct (map fst kvs)"
    "set kvs = insert (no_default_var, print_bool b) ((\<lambda>(k, e, w). (w, setting_value env m k e)) ` set target_settings)"
    "b \<longrightarrow> setting_value env m ''kubelet'' ''true'' = ''''"
proof -
  let ?config = "loaded_settings env m"
  have val: "pick ?config k '''' = setting_value env m k e" if "(k, e, w) \<in> set target_settings" for k e w
    using that by (simp add: pick_empty loaded_lookup target_in_defaults)
  obtain b where b: "PopulateSettingValues env ?config empty_processor = (populate_fields ?config empty_processor)\<lparr>NoDefaultsEnabled := b\<rparr>"
    "b \<longrightarrow> none_set (populate_fields ?config empty_processor)"
    using PopulateSettingValues_cases [of env ?config empty_processor] by (auto simp: populate_fields_eq)
  define kvs where "kvs = map (target_var ?config) (take 14 target_settings) @ (no_default_var, print_bool b)
    # map (target_var ?config) (drop 14 target_settings)"
  have content: "ConfigureDefaultScrapeSettings env m = env_file kvs"
    using settings_vars_eq [where config = ?config and b = b and a = "clean_alias (cluster_name env)"] b(1)
    by (simp add: ConfigureDefaultScrapeSettings_def WriteDefaultScrapeSettingsToFile_def kvs_def loaded_settings_def)
  have "set kvs = insert (no_default_var, print_bool b) (target_var ?config ` set target_settings)"
    using set_append [of "take 14 target_settings" "drop 14 target_settings"] by (auto simp: kvs_def image_Un)
  also have "target_var ?config ` set target_settings = (\<lambda>(k, e, w). (w, setting_value env m k e)) ` set target_settings"
    by (rule image_cong) (auto simp: target_var_def val)
  finally have set: "set kvs = insert (no_default_var, print_bool b) ((\<lambda>(k, e, w). (w, setting_value env m k e)) ` set target_settings)" .
  have "map fst kvs = map (\<lambda>t. snd (snd t)) (take 14 target_settings) @ no_default_var # map (\<lambda>t. snd (snd t)) (drop 14 target_settings)"
    by (simp add: kvs_def target_var_def)
  then have dist: "distinct (map fst kvs)" using target_names(1) by (simp only:)
  have "b \<longrightarrow> setting_value env m ''kubelet'' ''true'' = ''''"
    using b(2) val [of "''kubelet''" "''true''" "''AZMON_PROMETHEUS_KUBELET_SCRAPING_ENABLED''"]
    by (simp add: none_set_def populate_fields_eq target_settings_def)
  with content dist set show thesis by (rule that)
qed

lemma settings_in_env:
  assumes "(key, d, var) \<in> set target_settings" and "\<And>k e w. (k, e, w) \<in> set target_settings \<Longrightarrow> plain (setting_value env m k e)"
  shows "parseDefaultScrapeSettings m env var = Some (setting_value env m key d)"
    and "setting_value env m ''kubelet'' ''true'' \<noteq> '''' \<Longrightarrow> parseDefaultScrapeSettings m env no_default_var = Some ''false''"
proof -
  obtain kvs b where content: "ConfigureDefaultScrapeSettings env m = env_file kvs" and dist: "distinct (map fst kvs)"
    and set: "set kvs = insert (no_default_var, print_bool b) ((\<lambda>(k, e, w). (w, setting_value env m k e)) ` set target_settings)"
    and b: "b \<longrightarrow> setting_value env m ''kubelet'' ''true'' = ''''"
    by (rule settings_file [of env m])
  have ok: "list_all (\<lambda>(k, v). plain k \<and> plain v \<and> k \<noteq> '''') kvs"
    using target_names(2,3,4) assms(2) unfolding list_all_iff set by fastforce
  have env: "parseDefaultScrapeSettings m env = env ++ map_of kvs"
    by (simp add: parseDefaultScrapeSettings_def content SetEnvVars_file [OF ok dist])
  have "(var, setting_value env m key d) \<in> set kvs" using assms(1) by (force simp: set)
  then show "parseDefaultScrapeSettings m env var = Some (setting_value env m key d)"
    by (simp add: env map_add_def map_of_is_SomeI [OF dist])
  assume "setting_value env m ''kubelet'' ''true'' \<noteq> ''''"
  then have "(no_default_var, ''false'') \<in> set kvs" using b by (simp add: set print_bool_def)
  then show "parseDefaultScrapeSettings m env no_default_var = Some ''false''"
    by (simp add: env map_add_def map_of_is_SomeI [OF dist])
qed

end
