(* ===== verification/KeepList.thy ===== *)
theory KeepList
  imports Settings
begin

text \<open>
  \<open>shared/configmap/mp/tomlparser-default-targets-metrics-keep-list.go\<close>: the regular expressions of the
  metrics to keep, one for each default target, combined with the minimal ingestion profile. The libraries
  of the config map parsers are the record \<open>cm_lib\<close>: the merger's, \<open>regexp.Compile\<close> as a predicate, the YAML codec on
  string maps and on the collector configuration, which files cannot be opened, the settings directory,
  and the validator process.
\<close>

section \<open>Libraries and state\<close>

text \<open>
  \<open>shared.OtelConfig\<close>, its nested structs as fields with a prefix; a nil map is \<open>None\<close>.
\<close>

record OtelConfig =
  Exporters :: yval
  Processors :: yval
  Extensions :: yval
  prometheus_Config :: "ymap option"
  prometheus_TargetAllocator :: "ymap option"
  prometheus_APIServer :: yval
  service_Extensions :: yval
  metrics_Exporters :: yval
  metrics_Processors :: yval
  metrics_Receivers :: yval
  telemetry_Exporters :: yval
  telemetry_Processors :: yval
  telemetry_Receivers :: yval
  logs_Level :: yval
  logs_Encoding :: yval

record cm_lib =
  base :: merger_lib
  valid_regex :: "string \<Rightarrow> bool"
  MarshalHash :: "hash \<Rightarrow> string option"
  UnmarshalOtel :: "string \<Rightarrow> OtelConfig option"
  MarshalOtel :: "OtelConfig \<Rightarrow> string option"
  unreadable :: "string \<Rightarrow> bool"
  ReadDir :: "string \<Rightarrow> dir_entry list option"
  promconfigvalidator :: "string \<Rightarrow> string \<Rightarrow> environ \<Rightarrow> fsys \<Rightarrow> bool \<times> fsys"

text \<open>The environment of the process and its files.\<close>

record cm_state =
  cm_env :: environ
  cm_files :: fsys

definition set_var :: "string \<Rightarrow> string \<Rightarrow> cm_state \<Rightarrow> cm_state" where
  "set_var key v s = s\<lparr>cm_env := Setenv (cm_env s) key v\<rparr>"

definition file_at :: "cm_lib \<Rightarrow> fsys \<Rightarrow> string \<Rightarrow> file_state" where
  "file_at L fs f = (case fmlookup fs f of Some c \<Rightarrow> Content c | None \<Rightarrow> if unreadable L f then Unreadable else Missing)"

text \<open>The parsed settings; \<open>None\<close> is the nil map of a configuration that could not be read.\<close>

definition section_of :: "sections option \<Rightarrow> string \<Rightarrow> (string, string) gomap option" where
  "section_of m name = Option.bind m (\<lambda>m. fmlookup m name)"

section \<open>The minimal ingestion profile\<close>

definition kubeletRegex_minimal_mac :: string where
  "kubeletRegex_minimal_mac =
     ''kubelet_volume_stats_capacity_bytes|kubelet_volume_stats_used_bytes|kubelet_node_name|kubelet_running_pods|kubelet_running_pod_count|kubelet_running_sum_containers|kubelet_running_containers|kubelet_running_container_count|volume_manager_total_volumes|kubelet_node_config_error|kubelet_runtime_operations_total|kubelet_runtime_operations_errors_total|kubelet_runtime_operations_duration_seconds_bucket|kubelet_runtime_operations_duration_seconds_sum|kubelet_runtime_operations_duration_seconds_count|kubelet_pod_start_duration_seconds_bucket|kubelet_pod_start_duration_seconds_sum|kubelet_pod_start_duration_seconds_count|kubelet_pod_worker_duration_seconds_bucket|kubelet_pod_worker_duration_seconds_sum|kubelet_pod_worker_duration_seconds_count|storage_operation_duration_seconds_bucket|storage_operation_duration_seconds_sum|storage_operation_duration_seconds_count|storage_operation_errors_total|kubelet_cgroup_manager_duration_seconds_bucket|kubelet_cgroup_manager_duration_seconds_sum|kubelet_cgroup_manager_duration_seconds_count|kubelet_pleg_relist_interval_seconds_bucket|kubelet_pleg_relist_interval_seconds_count|kubelet_pleg_relist_interval_seconds_sum|kubelet_pleg_relist_duration_seconds_bucket|kubelet_pleg_relist_duration_seconds_count|kubelet_pleg_relist_duration_seconds_sum|rest_client_requests_total|rest_client_request_duration_seconds_bucket|rest_client_request_duration_seconds_sum|rest_client_request_duration_seconds_count|process_resident_memory_bytes|process_cpu_seconds_total|go_goroutines|kubernetes_build_info|kubelet_certificate_manager_client_ttl_seconds|kubelet_certificate_manager_client_expiration_renew_errors|kubelet_server_expiration_renew_errors|kubelet_certificate_manager_server_ttl_seconds|kubelet_volume_stats_available_bytes|kubelet_volume_stats_capacity_bytes|kubelet_volume_stats_inodes_free|kubelet_volume_stats_inodes_used|kubelet_volume_stats_inodes|kube_persistentvolumeclaim_access_mode|kube_persistentvolumeclaim_labels|kube_persistentvolume_status_phase''"

definition coreDNSRegex_minimal_mac :: string where
  "coreDNSRegex_minimal_mac =
     ''coredns_build_info|coredns_panics_total|coredns_dns_responses_total|coredns_forward_responses_total|coredns_dns_request_duration_seconds|coredns_dns_request_duration_seconds_bucket|coredns_dns_request_duration_seconds_sum|coredns_dns_request_duration_seconds_count|coredns_forward_request_duration_seconds|coredns_forward_request_duration_seconds_bucket|coredns_forward_request_duration_seconds_sum|coredns_forward_request_duration_seconds_count|coredns_dns_requests_total|coredns_forward_requests_total|coredns_cache_hits_total|coredns_cache_misses_total|coredns_cache_entries|coredns_plugin_enabled|coredns_dns_request_size_bytes|coredns_dns_request_size_bytes_bucket|coredns_dns_request_size_bytes_sum|coredns_dns_request_size_bytes_count|coredns_dns_response_size_bytes|coredns_dns_response_size_bytes_bucket|coredns_dns_response_size_bytes_sum|coredns_dns_response_size_bytes_count|coredns_dns_response_size_bytes_bucket|coredns_dns_response_size_bytes_sum|coredns_dns_response_size_bytes_count|process_resident_memory_bytes|process_cpu_seconds_total|go_goroutines|kubernetes_build_info''"

definition cadvisorRegex_minimal_mac :: string where
  "cadvisorRegex_minimal_mac =
     ''container_spec_cpu_quota|container_spec_cpu_period|container_memory_rss|container_network_receive_bytes_total|container_network_transmit_bytes_total|container_network_receive_packets_total|container_network_transmit_packets_total|container_network_receive_packets_dropped_total|container_network_transmit_packets_dropped_total|container_fs_reads_total|container_fs_writes_total|container_fs_reads_bytes_total|container_fs_writes_bytes_total|container_cpu_usage_seconds_total|container_memory_working_set_bytes|container_memory_cache|container_memory_swap|container_cpu_cfs_throttled_periods_total|container_cpu_cfs_periods_total|container_memory_rss|kubernetes_build_info|container_start_time_seconds''"

definition kubeproxyRegex_minimal_mac :: string where
  "kubeproxyRegex_minimal_mac =
     ''kubeproxy_sync_proxy_rules_duration_seconds|kubeproxy_sync_proxy_rules_duration_seconds_bucket|kubeproxy_sync_proxy_rules_duration_seconds_sum|kubeproxy_sync_proxy_rules_duration_seconds_count|kubeproxy_network_programming_duration_seconds|kubeproxy_network_programming_duration_seconds_bucket|kubeproxy_network_programming_duration_seconds_sum|kubeproxy_network_programming_duration_seconds_count|rest_client_requests_total|rest_client_request_duration_seconds|rest_client_request_duration_seconds_bucket|rest_client_request_duration_seconds_sum|rest_client_request_duration_seconds_count|process_resident_memory_bytes|process_cpu_seconds_total|go_goroutines|kubernetes_build_info''"

definition apiserverRegex_minimal_mac :: string where
  "apiserverRegex_minimal_mac =
     ''apiserver_request_duration_seconds|apiserver_request_duration_seconds_bucket|apiserver_request_duration_seconds_sum|apiserver_request_duration_seconds_count|apiserver_request_total|workqueue_adds_total|workqueue_depth|workqueue_queue_duration_seconds|workqueue_queue_duration_seconds_bucket|workqueue_queue_duration_seconds_sum|workqueue_queue_duration_seconds_count|process_resident_memory_bytes|process_cpu_seconds_total|go_goroutines|kubernetes_build_info|apiserver_request_slo_duration_seconds_bucket|apiserver_request_slo_duration_seconds_sum|apiserver_request_slo_duration_seconds_count''"

definition kubestateRegex_minimal_mac :: string where
  "kubestateRegex_minimal_mac =
     ''kube_job_status_succeeded|kube_job_spec_completions|kube_daemonset_status_desired_number_scheduled|kube_daemonset_status_current_number_scheduled|kube_daemonset_status_number_misscheduled|kube_daemonset_status_number_ready|kube_deployment_status_replicas_ready|kube_pod_container_status_last_terminated_reason|kube_pod_container_status_waiting_reason|kube_pod_container_status_restarts_total|kube_node_status_allocatable|kube_pod_owner|kube_pod_container_resource_requests|kube_pod_status_phase|kube_pod_container_resource_limits|kube_replicaset_owner|kube_resourcequota|kube_namespace_status_phase|kube_node_status_capacity|kube_node_info|kube_pod_info|kube_deployment_spec_replicas|kube_deployment_status_replicas_available|kube_deployment_status_replicas_updated|kube_statefulset_status_replicas_ready|kube_statefulset_status_replicas|kube_statefulset_status_replicas_updated|kube_job_status_start_time|kube_job_status_active|kube_job_failed|kube_horizontalpodautoscaler_status_desired_replicas|kube_horizontalpodautoscaler_status_current_replicas|kube_horizontalpodautoscaler_spec_min_replicas|kube_horizontalpodautoscaler_spec_max_replicas|kubernetes_build_info|kube_node_status_condition|kube_node_spec_taint|kube_pod_container_info|kube_.*_labels|kube_.*_annotations|kube_service_info|kube_pod_container_status_running|kube_pod_container_status_waiting|kube_pod_container_status_terminated|kube_pod_container_state_started|kube_pod_created|kube_pod_start_time|kube_pod_init_container_info|kube_pod_init_container_status_terminated|kube_pod_init_container_status_terminated_reason|kube_pod_init_container_status_ready|kube_pod_init_container_resource_limits|kube_pod_init_container_status_running|kube_pod_init_container_status_waiting|kube_pod_init_container_status_restarts_total|kube_pod_container_status_ready|kube_pod_init_container_*|kube_pod_deletion_timestamp|kube_pod_status_reason|kube_pod_init_container_resource_requests''"

definition nodeexporterRegex_minimal_mac :: string where
  "nodeexporterRegex_minimal_mac =
     ''node_filesystem_readonly|node_memory_MemTotal_bytes|node_cpu_seconds_total|node_memory_MemAvailable_bytes|node_memory_Buffers_bytes|node_memory_Cached_bytes|node_memory_MemFree_bytes|node_memory_Slab_bytes|node_filesystem_avail_bytes|node_filesystem_size_bytes|node_time_seconds|node_exporter_build_info|node_load1|node_vmstat_pgmajfault|node_network_receive_bytes_total|node_network_transmit_bytes_total|node_network_receive_drop_total|node_network_transmit_drop_total|node_disk_io_time_seconds_total|node_disk_io_time_weighted_seconds_total|node_load5|node_load15|node_disk_read_bytes_total|node_disk_written_bytes_total|node_uname_info|kubernetes_build_info|node_boot_time_seconds''"

definition kappiebasicRegex_minimal_mac :: string where
  "kappiebasicRegex_minimal_mac =
     ''kappie.*''"

definition networkobservabilityRetinaRegex_minimal_mac :: string where
  "networkobservabilityRetinaRegex_minimal_mac =
     ''networkobservability.*''"

definition networkobservabilityHubbleRegex_minimal_mac :: string where
  "networkobservabilityHubbleRegex_minimal_mac =
     ''hubble_dns_queries_total|hubble_dns_responses_total|hubble_drop_total|hubble_tcp_flags_total''"

definition networkobservabilityCiliumRegex_minimal_mac :: string where
  "networkobservabilityCiliumRegex_minimal_mac =
     ''cilium_drop.*|cilium_forward.*''"

definition windowsexporterRegex_minimal_mac :: string where
  "windowsexporterRegex_minimal_mac =
     ''windows_system_boot_time_timestamp_seconds|windows_system_system_up_time|windows_cpu_time_total|windows_memory_available_bytes|windows_os_visible_memory_bytes|windows_memory_cache_bytes|windows_memory_modified_page_list_bytes|windows_memory_standby_cache_core_bytes|windows_memory_standby_cache_normal_priority_bytes|windows_memory_standby_cache_reserve_bytes|windows_memory_swap_page_operations_total|windows_logical_disk_read_seconds_total|windows_logical_disk_write_seconds_total|windows_logical_disk_size_bytes|windows_logical_disk_free_bytes|windows_net_bytes_total|windows_net_packets_received_discarded_total|windows_net_packets_outbound_discarded_total|windows_container_available|windows_container_cpu_usage_seconds_total|windows_container_memory_usage_commit_bytes|windows_container_memory_usage_private_working_set_bytes|windows_container_network_receive_bytes_total|windows_container_network_transmit_bytes_total''"

definition windowskubeproxyRegex_minimal_mac :: string where
  "windowskubeproxyRegex_minimal_mac =
     ''kubeproxy_sync_proxy_rules_duration_seconds|kubeproxy_sync_proxy_rules_duration_seconds_bucket|kubeproxy_sync_proxy_rules_duration_seconds_sum|kubeproxy_sync_proxy_rules_duration_seconds_count|rest_client_requests_total|rest_client_request_duration_seconds|rest_client_request_duration_seconds_bucket|rest_client_request_duration_seconds_sum|rest_client_request_duration_seconds_count|process_resident_memory_bytes|process_cpu_seconds_total|go_goroutines''"

definition acstorCapacityProvisionerRegex_minimal_mac :: string where
  "acstorCapacityProvisionerRegex_minimal_mac =
     ''storage_pool_ready_state|storage_pool_capacity_used_bytes|storage_pool_capacity_provisioned_bytes|storage_pool_snapshot_capacity_reserved_bytes''"

definition acstorMetricsExporter_minimal_mac :: string where
  "acstorMetricsExporter_minimal_mac =
     ''disk_read_operations_completed_total|disk_write_operations_completed_total|disk_read_operations_time_seconds_total|disk_write_operations_time_seconds_total|disk_read_bytes_total|disk_written_bytes_total|disk_reads_merged_total|disk_writes_merged_total|disk_io_now|disk_io_time_seconds_total|disk_io_time_weighted_seconds_total|disk_discard_operations_completed_total|disk_discards_merged_total|disk_discarded_sectors_total|disk_discard_operations_time_seconds_total|disk_flush_requests_total|disk_flush_requests_time_seconds_total|disk_errors_total|disk_readonly_errors_gauge|disk_readonly_status_gauge''"

definition localCsiDriver_minimal_mac :: string where
  "localCsiDriver_minimal_mac =
     ''rpc.server.duration_milliseconds_bucket|rpc.server.duration_milliseconds_sum|rpc.server.duration_milliseconds_count|rpc_server_duration_milliseconds_bucket|rpc_server_duration_milliseconds_sum|rpc_server_duration_milliseconds_count''"

definition ztunnel_minimal_mac :: string where
  "ztunnel_minimal_mac =
     ''istio_build|istio_xds_connection_terminations_total|istio_xds_message_total|istio_tcp_connections_opened_total|istio_tcp_connections_closed_total|istio_tcp_sent_bytes_total|istio_tcp_received_bytes_total|istio_dns_requests_total|workload_manager_active_proxy_count|workload_manager_pending_proxy_count''"

definition istioCni_minimal_mac :: string where
  "istioCni_minimal_mac =
     ''istio_cni_install_ready|istio_cni_installs_total|nodeagent_reconcile_events_total|ztunnel_connected''"

definition dcgmexporter_minimal_mac :: string where
  "dcgmexporter_minimal_mac =
     ''DCGM_.*''"

definition controlplaneIstio_minimal_mac :: string where
  "controlplaneIstio_minimal_mac =
     ''pilot_xds_pushes|pilot_conflict_inbound_listener|pilot_conflict_outbound_listener_tcp_over_current_tcp|pilot_virt_services|pilot_services|pilot_proxy_convergence_time|pilot_xds|pilot_info|pilot_k8s_reg_events|pilot_k8s_cfg_events|pilot_push_triggers|pilot_total_xds_rejects|pilot_total_xds_internal_errors|pilot_xds_push_time|pilot_xds_config_size_bytes|citadel_server_csr_count|galley_validation_passed|galley_validation_failed|sidecar_injection_success_total|sidecar_injection_failure_total|istio_build|go_goroutines|go_memstats_stack_inuse_bytes|go_memstats_heap_inuse_bytes|go_memstats_heap_alloc_bytes|go_memstats_heap_sys_bytes|go_memstats_alloc_bytes|go_memstats_alloc_bytes_total|go_memstats_mallocs_total|process_cpu_seconds_total|process_open_fds|process_resident_memory_bytes|process_virtual_memory_bytes''"

section \<open>The keep lists\<close>

record RegexValues =
  rv_kubelet :: string
  rv_coredns :: string
  rv_cadvisor :: string
  rv_kubeproxy :: string
  rv_apiserver :: string
  rv_kubestate :: string
  rv_nodeexporter :: string
  rv_kappiebasic :: string
  rv_windowsexporter :: string
  rv_windowskubeproxy :: string
  rv_networkobservabilityretina :: string
  rv_networkobservabilityhubble :: string
  rv_networkobservabilitycilium :: string
  rv_podannotations :: string
  rv_acstorcapacityprovisioner :: string
  rv_acstormetricsexporter :: string
  rv_localcsidriver :: string
  rv_ztunnel :: string
  rv_istiocni :: string
  rv_dcgmexporter :: string
  rv_controlplaneistio :: string
  rv_minimalingestionprofile :: string

datatype keep_error = UnsupportedSchema string | InvalidKeepRegex

definition profile_value :: "string \<Rightarrow> string" where
  "profile_value val = (if val = ''false'' then ''false'' else if val = ''true'' then ''true'' else ''true'')"

definition regex_values :: "(string, string) gomap \<Rightarrow> string \<Rightarrow> RegexValues" where
  "regex_values keeplist mip =
     \<lparr>rv_kubelet = get0 '''' keeplist ''kubelet'',
      rv_coredns = get0 '''' keeplist ''coredns'',
      rv_cadvisor = get0 '''' keeplist ''cadvisor'',
      rv_kubeproxy = get0 '''' keeplist ''kubeproxy'',
      rv_apiserver = get0 '''' keeplist ''apiserver'',
      rv_kubestate = get0 '''' keeplist ''kubestate'',
      rv_nodeexporter = get0 '''' keeplist ''nodeexporter'',
      rv_kappiebasic = get0 '''' keeplist ''kappiebasic'',
      rv_windowsexporter = get0 '''' keeplist ''windowsexporter'',
      rv_windowskubeproxy = get0 '''' keeplist ''windowskubeproxy'',
      rv_networkobservabilityretina = get0 '''' keeplist ''networkobservabilityRetina'',
      rv_networkobservabilityhubble = get0 '''' keeplist ''networkobservabilityHubble'',
      rv_networkobservabilitycilium = get0 '''' keeplist ''networkobservabilityCilium'',
      rv_podannotations = get0 '''' keeplist ''podannotations'',
      rv_acstorcapacityprovisioner = get0 '''' keeplist ''acstor-capacity-provisioner'',
      rv_acstormetricsexporter = get0 '''' keeplist ''acstor-metrics-exporter'',
      rv_localcsidriver = get0 '''' keeplist ''local-csi-driver'',
      rv_ztunnel = get0 '''' keeplist ''ztunnel'',
      rv_istiocni = get0 '''' keeplist ''istio-cni'',
      rv_dcgmexporter = get0 '''' keeplist ''dcgmexporter'',
      rv_controlplaneistio = get0 '''' keeplist ''controlplane-istio'',
      rv_minimalingestionprofile = mip\<rparr>"

text \<open>The fields that are validated. The loop over them stops at the first invalid one, which is only logged.\<close>

definition regex_fields :: "RegexValues \<Rightarrow> (string \<times> string) list" where
  "regex_fields v =
     [(''kubelet'', rv_kubelet v),
      (''coredns'', rv_coredns v),
      (''cadvisor'', rv_cadvisor v),
      (''kubeproxy'', rv_kubeproxy v),
      (''apiserver'', rv_apiserver v),
      (''kubestate'', rv_kubestate v),
      (''nodeexporter'', rv_nodeexporter v),
      (''kappiebasic'', rv_kappiebasic v),
      (''windowsexporter'', rv_windowsexporter v),
      (''windowskubeproxy'', rv_windowskubeproxy v),
      (''networkobservabilityretina'', rv_networkobservabilityretina v),
      (''networkobservabilityhubble'', rv_networkobservabilityhubble v),
      (''networkobservabilitycilium'', rv_networkobservabilitycilium v),
      (''podannotations'', rv_podannotations v),
      (''minimalingestionprofile'', rv_minimalingestionprofile v),
      (''acstor-capacity-provisioner'', rv_acstorcapacityprovisioner v),
      (''acstor-metrics-exporter'', rv_acstormetricsexporter v),
      (''local-csi-driver'', rv_localcsidriver v),
      (''ztunnel'', rv_ztunnel v),
      (''istio-cni'', rv_istiocni v),
      (''dcgmexporter'', rv_dcgmexporter v),
      (''controlplane-istio'', rv_controlplaneistio v)]"

definition validateRegexValues :: "(string \<Rightarrow> bool) \<Rightarrow> RegexValues \<Rightarrow> bool" where
  "validateRegexValues valid v = list_all (\<lambda>(key, x). x = '''' \<or> valid x) (regex_fields v)"

text \<open>
  The environment with \<open>MINIMAL_INGESTION_PROFILE\<close> set, and the values or the error. With version 2 and no
  section for the profile the variable is left as it is.
\<close>

definition keep_profile :: "sections option \<Rightarrow> environ \<Rightarrow> environ \<times> (keep_error + string)" where
  "keep_profile m env =
     (let set_profile = Setenv env ''MINIMAL_INGESTION_PROFILE''; version = Getenv env ''AZMON_AGENT_CFG_SCHEMA_VERSION'' in
      case m of
        None \<Rightarrow> (set_profile ''true'', Inr ''true'')
      | Some m \<Rightarrow>
        if version \<noteq> '''' \<and> TrimSpace version = ''v1''
        then let v = profile_value (get0 '''' (get0 fmempty m ''default-targets-metrics-keep-list'') ''minimalingestionprofile'')
             in (set_profile v, Inr v)
        else if version \<noteq> '''' \<and> TrimSpace version = ''v2''
        then (case fmlookup m ''minimal-ingestion-profile'' of
            None \<Rightarrow> (env, Inr ''true'')
          | Some minimalProfile \<Rightarrow> let v = profile_value (get0 '''' minimalProfile ''enabled'') in (set_profile v, Inr v))
        else (set_profile ''true'', Inl (UnsupportedSchema version)))"

definition populateKeepList :: "(string \<Rightarrow> bool) \<Rightarrow> sections option \<Rightarrow> environ \<Rightarrow> environ \<times> (keep_error + RegexValues)" where
  "populateKeepList valid m env =
     (case keep_profile m env of
        (env', Inl e) \<Rightarrow> (env', Inl e)
      | (env', Inr mip) \<Rightarrow>
        let regexValues = regex_values (case section_of m ''default-targets-metrics-keep-list'' of None \<Rightarrow> fmempty | Some k \<Rightarrow> k) mip
        in (env', if validateRegexValues valid regexValues then Inr regexValues else Inl InvalidKeepRegex))"

definition with_minimal :: "RegexValues \<Rightarrow> string \<Rightarrow> string \<Rightarrow> string" where
  "with_minimal v user minimal = (if rv_minimalingestionprofile v = ''true'' then user @ ''|'' @ minimal else user)"

definition populateRegexValuesWithMinimalIngestionProfile :: "RegexValues \<Rightarrow> (string \<times> string) list" where
  "populateRegexValuesWithMinimalIngestionProfile v =
     [(''KUBELET_METRICS_KEEP_LIST_REGEX'', with_minimal v (rv_kubelet v) kubeletRegex_minimal_mac),
      (''COREDNS_METRICS_KEEP_LIST_REGEX'', with_minimal v (rv_coredns v) coreDNSRegex_minimal_mac),
      (''CADVISOR_METRICS_KEEP_LIST_REGEX'', with_minimal v (rv_cadvisor v) cadvisorRegex_minimal_mac),
      (''KUBEPROXY_METRICS_KEEP_LIST_REGEX'', with_minimal v (rv_kubeproxy v) kubeproxyRegex_minimal_mac),
      (''APISERVER_METRICS_KEEP_LIST_REGEX'', with_minimal v (rv_apiserver v) apiserverRegex_minimal_mac),
      (''KUBESTATE_METRICS_KEEP_LIST_REGEX'', with_minimal v (rv_kubestate v) kubestateRegex_minimal_mac),
      (''NODEEXPORTER_METRICS_KEEP_LIST_REGEX'', with_minimal v (rv_nodeexporter v) nodeexporterRegex_minimal_mac),
      (''WINDOWSEXPORTER_METRICS_KEEP_LIST_REGEX'', with_minimal v (rv_windowsexporter v) windowsexporterRegex_minimal_mac),
      (''WINDOWSKUBEPROXY_METRICS_KEEP_LIST_REGEX'', with_minimal v (rv_windowskubeproxy v) windowskubeproxyRegex_minimal_mac),
      (''POD_ANNOTATION_METRICS_KEEP_LIST_REGEX'', rv_podannotations v),
      (''KAPPIEBASIC_METRICS_KEEP_LIST_REGEX'', with_minimal v (rv_kappiebasic v) kappiebasicRegex_minimal_mac),
      (''NETWORKOBSERVABILITYRETINA_METRICS_KEEP_LIST_REGEX'', with_minimal v (rv_networkobservabilityretina v) networkobservabilityRetinaRegex_minimal_mac),
      (''NETWORKOBSERVABILITYHUBBLE_METRICS_KEEP_LIST_REGEX'', with_minimal v (rv_networkobservabilityhubble v) networkobservabilityHubbleRegex_minimal_mac),
      (''NETWORKOBSERVABILITYCILIUM_METRICS_KEEP_LIST_REGEX'', with_minimal v (rv_networkobservabilitycilium v) networkobservabilityCiliumRegex_minimal_mac),
      (''ACSTORCAPACITYPROVISONER_KEEP_LIST_REGEX'', with_minimal v (rv_acstorcapacityprovisioner v) acstorCapacityProvisionerRegex_minimal_mac),
      (''ACSTORMETRICSEXPORTER_KEEP_LIST_REGEX'', with_minimal v (rv_acstormetricsexporter v) acstorMetricsExporter_minimal_mac),
      (''LOCALCSIDRIVER_KEEP_LIST_REGEX'', with_minimal v (rv_localcsidriver v) localCsiDriver_minimal_mac),
      (''ZTUNNEL_METRICS_KEEP_LIST_REGEX'', with_minimal v (rv_ztunnel v) ztunnel_minimal_mac),
      (''ISTIOCNI_METRICS_KEEP_LIST_REGEX'', with_minimal v (rv_istiocni v) istioCni_minimal_mac),
      (''DCGMEXPORTER_METRICS_KEEP_LIST_REGEX'', with_minimal v (rv_dcgmexporter v) dcgmexporter_minimal_mac),
      (''CONTROLPLANE_ISTIO_KEEP_LIST_REGEX'', with_minimal v (rv_controlplaneistio v) controlplaneIstio_minimal_mac)]"

definition configMapKeepListEnvVarPath :: string where
  "configMapKeepListEnvVarPath = ''/opt/microsoft/configmapparser/config_def_targets_metrics_keep_list_hash''"

definition tomlparserTargetsMetricsKeepList :: "cm_lib \<Rightarrow> sections option \<Rightarrow> cm_state \<Rightarrow> cm_state" where
  "tomlparserTargetsMetricsKeepList L m s =
     (case populateKeepList (valid_regex L) m (cm_env s) of (env, r) \<Rightarrow>
        let s' = s\<lparr>cm_env := env\<rparr> in
        case r of
          Inl e \<Rightarrow> s'
        | Inr regexValues \<Rightarrow>
          (case MarshalHash L (fmap_of_list (populateRegexValuesWithMinimalIngestionProfile regexValues)) of
             None \<Rightarrow> s'
           | Some out \<Rightarrow>
             (case WriteFile (base L) configMapKeepListEnvVarPath out (cm_files s') of
                None \<Rightarrow> s' | Some fs \<Rightarrow> s'\<lparr>cm_files := fs\<rparr>)))"

section \<open>Scrape intervals\<close>

definition scrapeIntervalEnvVarPath :: string where
  "scrapeIntervalEnvVarPath = ''/opt/microsoft/configmapparser/config_def_targets_scrape_intervals_hash''"

definition tomlparserScrapeInterval :: "cm_lib \<Rightarrow> sections option \<Rightarrow> cm_state \<Rightarrow> cm_state" where
  "tomlparserScrapeInterval L m s =
     (case MarshalHash L (processConfigMap (cm_env s) (case m of None \<Rightarrow> fmempty | Some m \<Rightarrow> m)) of
        None \<Rightarrow> s
      | Some out \<Rightarrow>
        (case WriteFile (base L) scrapeIntervalEnvVarPath out (cm_files s) of None \<Rightarrow> s | Some fs \<Rightarrow> s\<lparr>cm_files := fs\<rparr>))"

end
