(* ===== verification/MergerOperator.thy ===== *)
theory MergerOperator
  imports Merger
begin

text \<open>
  The blocks of \<open>populateDefaultPrometheusConfigWithOperator\<close>
  (\<open>shared/configmap/mp/prometheus-config-merger.go\<close>), the twin of
  \<open>populateDefaultPrometheusConfig\<close> that runs when the operator is enabled: the configuration reader
  sidecar takes the part of the replica set, and some daemon set targets check the controller type.
\<close>

definition operator_kubelet :: block where
  "operator_kubelet L c s =
     (if enabled c ''AZMON_PROMETHEUS_KUBELET_SCRAPING_ENABLED''
      then if (isConfigReaderSidecar (c_env c) \<or> currentControllerType c = replicasetControllerType)
        then if \<not> advancedMode c
          then
            add_config kubeletDefaultFileRsSimple
              (keep_list L c kubeletDefaultFileRsSimple ''KUBELET_METRICS_KEEP_LIST_REGEX''
                (interval_always L c kubeletDefaultFileRsSimple ''KUBELET_SCRAPE_INTERVAL'' s))
          else if windowsDaemonset c \<and> sendDSUpMetric
          then
            add_config kubeletDefaultFileRsAdvancedWindowsDaemonset
              (interval_always L c kubeletDefaultFileRsAdvancedWindowsDaemonset ''KUBELET_SCRAPE_INTERVAL'' s)
          else if sendDSUpMetric
          then
            add_config kubeletDefaultFileRsAdvanced
              (interval_always L c kubeletDefaultFileRsAdvanced ''KUBELET_SCRAPE_INTERVAL'' s)
          else s
        else if advancedMode c \<and> currentControllerType c = daemonsetControllerType \<and> (windowsDaemonset c \<or> env_is c ''OS_TYPE'' ''linux'')
          then
            fill_and_add L kubeletDefaultFileDs (map (env_placeholder c) [''NODE_IP'', ''NODE_NAME'', ''OS_TYPE''])
              (keep_list L c kubeletDefaultFileDs ''KUBELET_METRICS_KEEP_LIST_REGEX''
                (interval_always L c kubeletDefaultFileDs ''KUBELET_SCRAPE_INTERVAL'' s))
          else s
      else s)"

definition operator_coredns :: block where
  "operator_coredns L c s =
     (if enabled c ''AZMON_PROMETHEUS_COREDNS_SCRAPING_ENABLED'' \<and> (isConfigReaderSidecar (c_env c) \<or> currentControllerType c = replicasetControllerType)
      then
        add_config coreDNSDefaultFile
          (keep_list L c coreDNSDefaultFile ''COREDNS_METRICS_KEEP_LIST_REGEX''
            (interval_if_set L c coreDNSDefaultFile ''COREDNS_SCRAPE_INTERVAL'' s))
      else s)"

definition operator_cadvisor :: block where
  "operator_cadvisor L c s =
     (if enabled c ''AZMON_PROMETHEUS_CADVISOR_SCRAPING_ENABLED''
      then if fmlookup (c_intervalHash c) ''CADVISOR_SCRAPE_INTERVAL'' \<noteq> None
        then if (isConfigReaderSidecar (c_env c) \<or> currentControllerType c = replicasetControllerType)
          then if \<not> advancedMode c
            then
              add_config cadvisorDefaultFileRsSimple
                (keep_list L c cadvisorDefaultFileRsSimple ''CADVISOR_METRICS_KEEP_LIST_REGEX''
                  (interval_always L c cadvisorDefaultFileRsSimple ''CADVISOR_SCRAPE_INTERVAL'' s))
            else if sendDSUpMetric
            then
              add_config cadvisorDefaultFileRsAdvanced
                (interval_always L c cadvisorDefaultFileRsAdvanced ''CADVISOR_SCRAPE_INTERVAL'' s)
            else s
          else if advancedMode c \<and> env_is c ''OS_TYPE'' ''linux'' \<and> currentControllerType c = daemonsetControllerType
            then
              fill_and_add L cadvisorDefaultFileDs (map (env_placeholder c) [''NODE_IP'', ''NODE_NAME''])
                (keep_list L c cadvisorDefaultFileDs ''CADVISOR_METRICS_KEEP_LIST_REGEX''
                  (interval_always L c cadvisorDefaultFileDs ''CADVISOR_SCRAPE_INTERVAL'' s))
            else s
        else s
      else s)"

definition operator_kubeproxy :: block where
  "operator_kubeproxy L c s =
     (if enabled c ''AZMON_PROMETHEUS_KUBEPROXY_SCRAPING_ENABLED'' \<and> (isConfigReaderSidecar (c_env c) \<or> currentControllerType c = replicasetControllerType)
      then
        add_config kubeProxyDefaultFile
          (keep_list L c kubeProxyDefaultFile ''KUBEPROXY_METRICS_KEEP_LIST_REGEX''
            (interval_if_set L c kubeProxyDefaultFile ''KUBEPROXY_SCRAPE_INTERVAL'' s))
      else s)"

definition operator_apiserver :: block where
  "operator_apiserver L c s =
     (if enabled c ''AZMON_PROMETHEUS_APISERVER_SCRAPING_ENABLED'' \<and> (isConfigReaderSidecar (c_env c) \<or> currentControllerType c = replicasetControllerType)
      then
        add_config apiserverDefaultFile
          (keep_list L c apiserverDefaultFile ''APISERVER_METRICS_KEEP_LIST_REGEX''
            (interval_if_set L c apiserverDefaultFile ''APISERVER_SCRAPE_INTERVAL'' s))
      else s)"

definition operator_kubestate :: block where
  "operator_kubestate L c s =
     (if enabled c ''AZMON_PROMETHEUS_KUBESTATE_SCRAPING_ENABLED'' \<and> (isConfigReaderSidecar (c_env c) \<or> currentControllerType c = replicasetControllerType)
      then
        fill_and_add L kubeStateDefaultFile (map (env_placeholder c) [''KUBE_STATE_NAME'', ''POD_NAMESPACE''])
          (keep_list L c kubeStateDefaultFile ''KUBESTATE_METRICS_KEEP_LIST_REGEX''
            (interval_if_set L c kubeStateDefaultFile ''KUBESTATE_SCRAPE_INTERVAL'' s))
      else s)"

definition operator_nodeexporter :: block where
  "operator_nodeexporter L c s =
     (if enabled c ''AZMON_PROMETHEUS_NODEEXPORTER_SCRAPING_ENABLED''
      then if (isConfigReaderSidecar (c_env c) \<or> currentControllerType c = replicasetControllerType)
        then if advancedMode c \<and> sendDSUpMetric
          then
            fill_and_add L nodeExporterDefaultFileRsAdvanced (map (env_placeholder c) [''NODE_EXPORTER_NAME'', ''POD_NAMESPACE''])
              (interval_always L c nodeExporterDefaultFileRsAdvanced ''NODEEXPORTER_SCRAPE_INTERVAL'' s)
          else if \<not> advancedMode c
          then
            fill_and_add L nodeExporterDefaultFileRsSimple (map (env_placeholder c) [''NODE_EXPORTER_NAME'', ''POD_NAMESPACE''])
              (keep_list L c nodeExporterDefaultFileRsSimple ''NODEEXPORTER_METRICS_KEEP_LIST_REGEX''
                (interval_always L c nodeExporterDefaultFileRsSimple ''NODEEXPORTER_SCRAPE_INTERVAL'' s))
          else s
        else if advancedMode c \<and> env_is c ''OS_TYPE'' ''linux'' \<and> currentControllerType c = daemonsetControllerType
          then
            fill_and_add L nodeExporterDefaultFileDs (map (env_placeholder c) [''NODE_IP'', ''NODE_EXPORTER_TARGETPORT'', ''NODE_NAME''])
              (keep_list L c nodeExporterDefaultFileDs ''NODEEXPORTER_METRICS_KEEP_LIST_REGEX''
                (interval_always L c nodeExporterDefaultFileDs ''NODEEXPORTER_SCRAPE_INTERVAL'' s))
          else s
      else s)"

definition operator_kappiebasic :: block where
  "operator_kappiebasic L c s =
     (if enabled c ''AZMON_PROMETHEUS_KAPPIEBASIC_SCRAPING_ENABLED''
      then if (isConfigReaderSidecar (c_env c) \<or> currentControllerType c = replicasetControllerType) then s
        else if currentControllerType c = daemonsetControllerType \<and> advancedMode c \<and> env_is c ''MAC'' ''true''
          then
            fill_and_add L kappieBasicDefaultFileDs (map (env_placeholder c) [''NODE_IP'', ''NODE_NAME''])
              (keep_list L c kappieBasicDefaultFileDs ''KAPPIEBASIC_METRICS_KEEP_LIST_REGEX''
                (interval_always L c kappieBasicDefaultFileDs ''KAPPIEBASIC_SCRAPE_INTERVAL'' s))
          else s
      else s)"

definition operator_retina :: block where
  "operator_retina L c s =
     (if enabled c ''AZMON_PROMETHEUS_NETWORKOBSERVABILITYRETINA_SCRAPING_ENABLED''
      then if (isConfigReaderSidecar (c_env c) \<or> currentControllerType c = replicasetControllerType) then s
        else if advancedMode c \<and> env_is c ''MAC'' ''true''
          then
            fill_and_add L networkObservabilityRetinaDefaultFileDs (map (env_placeholder c) [''NODE_IP'', ''NODE_NAME''])
              (keep_list L c networkObservabilityRetinaDefaultFileDs ''NETWORKOBSERVABILITYRETINA_METRICS_KEEP_LIST_REGEX''
                (interval_if_set L c networkObservabilityRetinaDefaultFileDs ''NETWORKOBSERVABILITYRETINA_SCRAPE_INTERVAL'' s))
          else s
      else s)"

definition operator_hubble :: block where
  "operator_hubble L c s =
     (if enabled c ''AZMON_PROMETHEUS_NETWORKOBSERVABILITYHUBBLE_SCRAPING_ENABLED''
      then if (isConfigReaderSidecar (c_env c) \<or> currentControllerType c = replicasetControllerType) then s
        else if advancedMode c \<and> env_is c ''MAC'' ''true'' \<and> env_is c ''OS_TYPE'' ''linux''
          then
            fill_and_add L networkObservabilityHubbleDefaultFileDs (map (env_placeholder c) [''NODE_IP'', ''NODE_NAME''])
              (keep_list L c networkObservabilityHubbleDefaultFileDs ''NETWORKOBSERVABILITYHUBBLE_METRICS_KEEP_LIST_REGEX''
                (interval_if_set L c networkObservabilityHubbleDefaultFileDs ''NETWORKOBSERVABILITYHUBBLE_SCRAPE_INTERVAL'' s))
          else s
      else s)"

definition operator_cilium :: block where
  "operator_cilium L c s =
     (if enabled c ''AZMON_PROMETHEUS_NETWORKOBSERVABILITYCILIUM_SCRAPING_ENABLED''
      then if (isConfigReaderSidecar (c_env c) \<or> currentControllerType c = replicasetControllerType) then s
        else if advancedMode c \<and> env_is c ''MAC'' ''true'' \<and> env_is c ''OS_TYPE'' ''linux''
          then
            fill_and_add L networkObservabilityCiliumDefaultFileDs (map (env_placeholder c) [''NODE_IP'', ''NODE_NAME''])
              (keep_list L c networkObservabilityCiliumDefaultFileDs ''NETWORKOBSERVABILITYCILIUM_METRICS_KEEP_LIST_REGEX''
                (interval_if_set L c networkObservabilityCiliumDefaultFileDs ''NETWORKOBSERVABILITYCILIUM_SCRAPE_INTERVAL'' s))
          else s
      else s)"

definition operator_ztunnel :: block where
  "operator_ztunnel L c s =
     (if enabled c ''AZMON_PROMETHEUS_ZTUNNEL_SCRAPING_ENABLED''
      then if isConfigReaderSidecar (c_env c) \<or> (currentControllerType c = replicasetControllerType \<and> env_is c ''OS_TYPE'' ''linux'')
        then let full = defaultPromConfigPathPrefix @ ztunnelDefaultFile in
          fill_and_add L full (map (env_placeholder c) [''NODE_IP'', ''NODE_NAME''])
            (keep_list L c full ''ZTUNNEL_METRICS_KEEP_LIST_REGEX''
              (interval_if_set L c full ''ZTUNNEL_SCRAPE_INTERVAL'' s))
        else s
      else s)"

definition operator_istiocni :: block where
  "operator_istiocni L c s =
     (if enabled c ''AZMON_PROMETHEUS_ISTIOCNI_SCRAPING_ENABLED''
      then if isConfigReaderSidecar (c_env c) \<or> (currentControllerType c = replicasetControllerType \<and> env_is c ''OS_TYPE'' ''linux'')
        then let full = defaultPromConfigPathPrefix @ istioCniDefaultFile in
          fill_and_add L full (map (env_placeholder c) [''NODE_IP'', ''NODE_NAME''])
            (keep_list L c full ''ISTIOCNI_METRICS_KEEP_LIST_REGEX''
              (interval_if_set L c full ''ISTIOCNI_SCRAPE_INTERVAL'' s))
        else s
      else s)"

definition operator_controlplane_istio :: block where
  "operator_controlplane_istio L c s =
     (if enabled c ''AZMON_PROMETHEUS_CONTROLPLANE_ISTIO_ENABLED'' \<and> (isConfigReaderSidecar (c_env c) \<or> currentControllerType c = replicasetControllerType)
      then let meshMemberMetricsFqdn = Getenv (c_env c) ''MESH_MEMBER_METRICS_FQDN'' in
        if meshMemberMetricsFqdn \<noteq> ''''
        then (case url_Host L meshMemberMetricsFqdn of
            None \<Rightarrow> s
          | Some host \<Rightarrow>
            if host = '''' then s
            else let full = defaultPromConfigPathPrefix @ controlplaneIstioDefaultFile in
              fill_and_add L full [(''$$MESH_MEMBER_METRICS_FQDN$$'', meshMemberMetricsFqdn)]
                (keep_list L c full ''CONTROLPLANE_ISTIO_KEEP_LIST_REGEX''
                  (interval_if_set L c full ''CONTROLPLANE_ISTIO_SCRAPE_INTERVAL'' s)))
        else s
      else s)"

definition operator_collector_health :: block where
  "operator_collector_health L c s =
     (if enabled c ''AZMON_PROMETHEUS_COLLECTOR_HEALTH_SCRAPING_ENABLED''
      then
        add_config prometheusCollectorHealthDefaultFile
          (interval_if_set L c prometheusCollectorHealthDefaultFile ''PROMETHEUS_COLLECTOR_HEALTH_SCRAPE_INTERVAL'' s)
      else s)"

definition operator_windowsexporter :: block where
  "operator_windowsexporter L c s =
     (if enabled c ''AZMON_PROMETHEUS_WINDOWSEXPORTER_SCRAPING_ENABLED''
      then if currentControllerType c = replicasetControllerType \<and> \<not> advancedMode c \<and> env_is c ''OS_TYPE'' ''linux''
        then
          fill_and_add L windowsExporterDefaultRsSimpleFile (map (env_placeholder c) [''NODE_IP'', ''NODE_NAME''])
            (keep_list L c windowsExporterDefaultRsSimpleFile ''WINDOWSEXPORTER_METRICS_KEEP_LIST_REGEX''
              (interval_if_set L c windowsExporterDefaultRsSimpleFile ''WINDOWSEXPORTER_SCRAPE_INTERVAL'' s))
        else if currentControllerType c = daemonsetControllerType \<and> advancedMode c \<and> windowsDaemonset c \<and> env_is c ''OS_TYPE'' ''windows''
        then
          fill_and_add L windowsExporterDefaultDsFile (map (env_placeholder c) [''NODE_IP'', ''NODE_NAME''])
            (keep_list L c windowsExporterDefaultDsFile ''WINDOWSEXPORTER_METRICS_KEEP_LIST_REGEX''
              (interval_if_set L c windowsExporterDefaultDsFile ''WINDOWSEXPORTER_SCRAPE_INTERVAL'' s))
        else s
      else s)"

definition operator_windowskubeproxy :: block where
  "operator_windowskubeproxy L c s =
     (if enabled c ''AZMON_PROMETHEUS_WINDOWSKUBEPROXY_SCRAPING_ENABLED''
      then if currentControllerType c = replicasetControllerType \<and> \<not> advancedMode c \<and> env_is c ''OS_TYPE'' ''linux''
        then
          fill_and_add L windowsKubeProxyDefaultFileRsSimpleFile (map (env_placeholder c) [''NODE_IP'', ''NODE_NAME''])
            (keep_list L c windowsKubeProxyDefaultFileRsSimpleFile ''WINDOWSKUBEPROXY_METRICS_KEEP_LIST_REGEX''
              (interval_if_set L c windowsKubeProxyDefaultFileRsSimpleFile ''WINDOWSKUBEPROXY_SCRAPE_INTERVAL'' s))
        else if currentControllerType c = daemonsetControllerType \<and> advancedMode c \<and> windowsDaemonset c \<and> env_is c ''OS_TYPE'' ''windows''
        then
          fill_and_add L windowsKubeProxyDefaultDsFile (map (env_placeholder c) [''NODE_IP'', ''NODE_NAME''])
            (keep_list L c windowsKubeProxyDefaultDsFile ''WINDOWSKUBEPROXY_METRICS_KEEP_LIST_REGEX''
              (interval_if_set L c windowsKubeProxyDefaultDsFile ''WINDOWSKUBEPROXY_SCRAPE_INTERVAL'' s))
        else s
      else s)"

definition operator_pod_annotation :: block where
  "operator_pod_annotation L c s =
     (if enabled c ''AZMON_PROMETHEUS_POD_ANNOTATION_SCRAPING_ENABLED'' \<and> (isConfigReaderSidecar (c_env c) \<or> currentControllerType c = replicasetControllerType)
      then (case c_env c ''AZMON_PROMETHEUS_POD_ANNOTATION_NAMESPACES_REGEX'' of
          None \<Rightarrow> s
        | Some namespacesRegex \<Rightarrow>
          let s1 = keep_list L c podAnnotationsDefaultFile ''POD_ANNOTATION_METRICS_KEEP_LIST_REGEX''
                (interval_if_set L c podAnnotationsDefaultFile ''POD_ANNOTATION_SCRAPE_INTERVAL'' s);
              regex = trim_namespaces namespacesRegex;
              s2 = (if regex \<noteq> ''''
                then s1\<lparr>pfiles := AppendRelabelConfig L podAnnotationsDefaultFile
                  [keep_rule ''__meta_kubernetes_namespace'' regex] (pfiles s1)\<rparr>
                else s1)
          in add_config podAnnotationsDefaultFile s2)
      else s)"

definition operator_acstor_capacity :: block where
  "operator_acstor_capacity L c s =
     (if enabled c ''AZMON_PROMETHEUS_ACSTORCAPACITYPROVISIONER_SCRAPING_ENABLED'' \<and> (isConfigReaderSidecar (c_env c) \<or> currentControllerType c = replicasetControllerType)
      then
        add_config acstorCapacityProvisionerDefaultFile
          (keep_list L c acstorCapacityProvisionerDefaultFile ''ACSTORCAPACITYPROVISONER_KEEP_LIST_REGEX''
            (interval_if_set L c acstorCapacityProvisionerDefaultFile ''ACSTORCAPACITYPROVISIONER_SCRAPE_INTERVAL'' s))
      else s)"

definition operator_acstor_metrics :: block where
  "operator_acstor_metrics L c s =
     (if enabled c ''AZMON_PROMETHEUS_ACSTORMETRICSEXPORTER_SCRAPING_ENABLED'' \<and> (isConfigReaderSidecar (c_env c) \<or> currentControllerType c = replicasetControllerType)
      then
        add_config acstorMetricsExporterDefaultFile
          (keep_list L c acstorMetricsExporterDefaultFile ''ACSTORMETRICSEXPORTER_KEEP_LIST_REGEX''
            (interval_if_set L c acstorMetricsExporterDefaultFile ''ACSTORMETRICSEXPORTER_SCRAPE_INTERVAL'' s))
      else s)"

definition operator_local_csi :: block where
  "operator_local_csi L c s =
     (if enabled c ''AZMON_PROMETHEUS_LOCALCSIDRIVER_SCRAPING_ENABLED'' \<and> (isConfigReaderSidecar (c_env c) \<or> currentControllerType c = replicasetControllerType)
      then
        add_config LocalCSIDriverDefaultFile
          (keep_list L c LocalCSIDriverDefaultFile ''LOCALCSIDRIVER_KEEP_LIST_REGEX''
            (interval_if_set L c LocalCSIDriverDefaultFile ''LOCALCSIDRIVER_SCRAPE_INTERVAL'' s))
      else s)"

definition operator_dcgm :: block where
  "operator_dcgm L c s =
     (if enabled c ''AZMON_PROMETHEUS_DCGMEXPORTER_SCRAPING_ENABLED''
      then if (isConfigReaderSidecar (c_env c) \<or> currentControllerType c = replicasetControllerType)
        then
          add_config dcgmExporterDefaultFile
            (keep_list L c dcgmExporterDefaultFile ''DCGMEXPORTER_METRICS_KEEP_LIST_REGEX''
              (interval_always L c dcgmExporterDefaultFile ''DCGMEXPORTER_SCRAPE_INTERVAL'' s))
        else s
      else s)"

definition operator_blocks :: "block list" where
  "operator_blocks =
     [operator_kubelet,
      operator_coredns,
      operator_cadvisor,
      operator_kubeproxy,
      operator_apiserver,
      operator_kubestate,
      operator_nodeexporter,
      operator_kappiebasic,
      operator_retina,
      operator_hubble,
      operator_cilium,
      operator_ztunnel,
      operator_istiocni,
      operator_controlplane_istio,
      operator_collector_health,
      operator_windowsexporter,
      operator_windowskubeproxy,
      operator_pod_annotation,
      operator_acstor_capacity,
      operator_acstor_metrics,
      operator_local_csi,
      operator_dcgm]"

end
