(* ===== verification/MergerMain.thy ===== *)
theory MergerMain
  imports MergerOperator
begin

text \<open>
  The rest of \<open>shared/configmap/mp/prometheus-config-merger.go\<close>: the two populate functions as the
  sequence of their blocks, the merge of the default files, the scrape interval and label limits of
  the custom configuration, and the entry point \<open>prometheusConfigMerger\<close>.
\<close>

section \<open>Loading and merging the default files\<close>

definition loadYAMLFromFile :: "merger_lib \<Rightarrow> fsys \<Rightarrow> string \<Rightarrow> ymap option" where
  "loadYAMLFromFile L fs filename =
     (case fmlookup fs filename of None \<Rightarrow> None | Some fileContent \<Rightarrow> Unmarshal L fileContent)"

definition merge_step :: "merger_lib \<Rightarrow> fsys \<Rightarrow> ymap \<Rightarrow> string \<Rightarrow> ymap" where
  "merge_step L fs merged f =
     (case loadYAMLFromFile L fs f of None \<Rightarrow> merged
      | Some defaultConfigYaml \<Rightarrow> deepMerge (range_order L) merged defaultConfigYaml)"

definition mergeDefaultScrapeConfigs :: "merger_lib \<Rightarrow> fsys \<Rightarrow> string list \<Rightarrow> ymap" where
  "mergeDefaultScrapeConfigs L fs defaultScrapeConfigs =
     (if length defaultScrapeConfigs > 0
      then foldl (merge_step L fs) (fmupd scrape_configs (YSeq []) fmempty) defaultScrapeConfigs
      else fmempty)"

section \<open>The populate functions\<close>

definition populate_modes :: "environ \<Rightarrow> merger \<Rightarrow> mctx" where
  "populate_modes env s =
     \<lparr>c_env = env, c_regexHash = regexHash s, c_intervalHash = intervalHash s,
      currentControllerType = TrimSpace (ToLower (Getenv env ''CONTROLLER_TYPE'')),
      advancedMode = (TrimSpace (ToLower (Getenv env ''MODE'')) = ''advanced''),
      windowsDaemonset = (TrimSpace (ToLower (Getenv env ''WINMODE'')) = ''advanced'')\<rparr>"

definition run_blocks :: "block list \<Rightarrow> merger_lib \<Rightarrow> mctx \<Rightarrow> fsys \<Rightarrow> pstate" where
  "run_blocks bs L c fs = foldl (\<lambda>s b. b L c s) \<lparr>pfiles = fs, defaultConfigs = []\<rparr> bs"

definition populateDefaultPrometheusConfig :: "merger_lib \<Rightarrow> environ \<Rightarrow> merger \<Rightarrow> merger" where
  "populateDefaultPrometheusConfig L env s =
     (let p = run_blocks populate_blocks L (populate_modes env s) (files s)
      in s\<lparr>files := pfiles p, mergedDefaultConfigs := mergeDefaultScrapeConfigs L (pfiles p) (defaultConfigs p)\<rparr>)"

definition env_or :: "environ \<Rightarrow> string \<Rightarrow> string \<Rightarrow> string" where
  "env_or env v dflt =
     (if Getenv env v \<noteq> '''' then TrimSpace (ToLower (Getenv env v)) else dflt)"

definition operator_modes :: "environ \<Rightarrow> merger \<Rightarrow> mctx" where
  "operator_modes env s =
     \<lparr>c_env = env, c_regexHash = regexHash s, c_intervalHash = intervalHash s,
      currentControllerType = env_or env ''CONTROLLER_TYPE'' '''',
      advancedMode = (env_or env ''MODE'' ''default'' = ''advanced''),
      windowsDaemonset = (env_or env ''WINMODE'' ''default'' = ''advanced'')\<rparr>"

definition populateDefaultPrometheusConfigWithOperator :: "merger_lib \<Rightarrow> environ \<Rightarrow> merger \<Rightarrow> merger" where
  "populateDefaultPrometheusConfigWithOperator L env s =
     (let p = run_blocks operator_blocks L (operator_modes env s) (files s)
      in s\<lparr>files := pfiles p, mergedDefaultConfigs := mergeDefaultScrapeConfigs L (pfiles p) (defaultConfigs p)\<rparr>)"

text \<open>
  \<open>writeDefaultScrapeTargetsFile\<close>: its result is ignored by its caller, which reads the package
  variable, so only the state is returned.
\<close>

definition writeDefaultScrapeTargetsFile :: "merger_lib \<Rightarrow> environ \<Rightarrow> bool \<Rightarrow> merger \<Rightarrow> merger" where
  "writeDefaultScrapeTargetsFile L env operatorEnabled s =
     (let noDefaultScrapingEnabled = Getenv env ''AZMON_PROMETHEUS_NO_DEFAULT_SCRAPING_ENABLED'' in
      if noDefaultScrapingEnabled \<noteq> '''' \<and> ToLower noDefaultScrapingEnabled = ''false''
      then
        let s1 = loadIntervalHash L (loadRegexHash L s);
            s2 = (if operatorEnabled then populateDefaultPrometheusConfigWithOperator L env s1
                  else populateDefaultPrometheusConfig L env s1)
        in if gomap_len (mergedDefaultConfigs s2) > 0
           then (case Marshal L (mergedDefaultConfigs s2) of None \<Rightarrow> s2
             | Some out \<Rightarrow>
               (case WriteFile L mergedDefaultConfigPath out (files s2) of None \<Rightarrow> s2
                | Some fs \<Rightarrow> s2\<lparr>files := fs\<rparr>))
           else s2
      else s\<lparr>mergedDefaultConfigs := fmempty\<rparr>)"

section \<open>The scrape interval of the default files\<close>

definition defaultFilesArray :: "string list" where
  "defaultFilesArray =
     [kubeletDefaultFileRsSimple, kubeletDefaultFileRsAdvanced, kubeletDefaultFileDs,
      kubeletDefaultFileRsAdvancedWindowsDaemonset, coreDNSDefaultFile,
      cadvisorDefaultFileRsSimple, cadvisorDefaultFileRsAdvanced, cadvisorDefaultFileDs,
      kubeProxyDefaultFile, apiserverDefaultFile, kubeStateDefaultFile,
      nodeExporterDefaultFileRsSimple, nodeExporterDefaultFileRsAdvanced, nodeExporterDefaultFileDs,
      prometheusCollectorHealthDefaultFile, windowsExporterDefaultRsSimpleFile, windowsExporterDefaultDsFile,
      windowsKubeProxyDefaultFileRsSimpleFile, windowsKubeProxyDefaultDsFile, podAnnotationsDefaultFile,
      kappieBasicDefaultFileDs, networkObservabilityRetinaDefaultFileDs, networkObservabilityHubbleDefaultFileDs,
      networkObservabilityCiliumDefaultFileDs, acstorMetricsExporterDefaultFile, acstorCapacityProvisionerDefaultFile,
      LocalCSIDriverDefaultFile, dcgmExporterDefaultFile]"

definition set_file_interval :: "merger_lib \<Rightarrow> string \<Rightarrow> fsys \<Rightarrow> string \<Rightarrow> fsys" where
  "set_file_interval L scrapeInterval fs currentFile =
     (case fmlookup fs (defaultPromConfigPathPrefix @ currentFile) of None \<Rightarrow> fs
      | Some contents \<Rightarrow>
        (case WriteFile L currentFile (ReplaceAll ''$$SCRAPE_INTERVAL$$'' scrapeInterval contents) fs of
           None \<Rightarrow> fs | Some fs' \<Rightarrow> fs'))"

definition setDefaultFileScrapeInterval :: "merger_lib \<Rightarrow> string \<Rightarrow> fsys \<Rightarrow> fsys" where
  "setDefaultFileScrapeInterval L scrapeInterval fs =
     foldl (set_file_interval L scrapeInterval) fs defaultFilesArray"

section \<open>The custom configuration\<close>

text \<open>
  Merging into the package variable: \<open>deepMerge\<close> updates the map \<open>mergedDefaultConfigs\<close> points to, so
  the variable holds the merged document afterwards.
\<close>

definition mergeDefaultAndCustomScrapeConfigs :: "merger_lib \<Rightarrow> string \<Rightarrow> merger \<Rightarrow> merger" where
  "mergeDefaultAndCustomScrapeConfigs L customPromConfig s =
     (if gomap_len (mergedDefaultConfigs s) > 0
      then (case Unmarshal L customPromConfig of None \<Rightarrow> s
        | Some customPrometheusConfig \<Rightarrow>
          let custom = (if fmlookup customPrometheusConfig scrape_configs \<notin> {None, Some YNil}
                then customPrometheusConfig else fmdrop scrape_configs customPrometheusConfig);
              mergedConfigs = deepMerge (range_order L) (mergedDefaultConfigs s) custom;
              s' = s\<lparr>mergedDefaultConfigs := mergedConfigs\<rparr>
          in (case Marshal L mergedConfigs of None \<Rightarrow> s'
              | Some out \<Rightarrow>
                (case WriteFile L promMergedConfigPath out (files s') of None \<Rightarrow> s'
                 | Some fs \<Rightarrow> s'\<lparr>files := fs\<rparr>)))
      else (case WriteFile L promMergedConfigPath customPromConfig (files s) of None \<Rightarrow> s
            | Some fs \<Rightarrow> s\<lparr>files := fs\<rparr>))"

text \<open>
  The label limits of one custom scrape job. The type assertion that fails yields a nil map, and
  writing to it panics.
\<close>

fun limit_labels :: "yval \<Rightarrow> yval go" where
  "limit_labels (YMap m) =
     Inr (YMap (fmupd (KStr ''label_value_length_limit'') (YInt 1023)
       (fmupd (KStr ''label_name_length_limit'') (YInt 511)
         (fmupd (KStr ''label_limit'') (YInt 63) m))))"
| "limit_labels _ = Inl NilMapWrite"

fun limit_all :: "yval list \<Rightarrow> yval list go" where
  "limit_all [] = Inr []"
| "limit_all (j # js) = go_bind (limit_labels j) (\<lambda>j'. go_bind (limit_all js) (\<lambda>js'. Inr (j' # js')))"

definition setLabelLimitsPerScrape :: "merger_lib \<Rightarrow> string \<Rightarrow> string go" where
  "setLabelLimitsPerScrape L prometheusConfigString =
     (case Unmarshal L prometheusConfigString of None \<Rightarrow> Inr prometheusConfigString
      | Some limitedCustomConfig \<Rightarrow>
        if gomap_len limitedCustomConfig > 0
        then (case fmlookup limitedCustomConfig scrape_configs of
            Some (YSeq limitedCustomScrapes) \<Rightarrow>
              if length limitedCustomScrapes > 0
              then go_bind (limit_all limitedCustomScrapes) (\<lambda>scrapes.
                case Marshal L (fmupd scrape_configs (YSeq scrapes) limitedCustomConfig) of
                  None \<Rightarrow> Inr prometheusConfigString
                | Some updatedConfig \<Rightarrow> Inr updatedConfig)
              else Inr prometheusConfigString
          | _ \<Rightarrow> Inr prometheusConfigString)
        else Inr prometheusConfigString)"

definition as_string :: "yval option \<Rightarrow> string" where
  "as_string v = (case v of Some (YStr x) \<Rightarrow> x | _ \<Rightarrow> '''')"

definition setGlobalScrapeConfigInDefaultFilesIfExists :: "merger_lib \<Rightarrow> string \<Rightarrow> fsys \<Rightarrow> string \<times> fsys" where
  "setGlobalScrapeConfigInDefaultFilesIfExists L configString fs =
     (case Unmarshal L configString of None \<Rightarrow> ('''', fs)
      | Some customConfig \<Rightarrow>
        let (scrapeInterval, customConfig') =
              (case fmlookup customConfig (KStr ''global'') of
                 Some (YMap globalConfig) \<Rightarrow>
                   let si = as_string (fmlookup globalConfig (KStr ''scrape_interval'')) in
                   if duration_matches si then (si, customConfig)
                   else (''30s'', fmupd (KStr ''global'')
                     (YMap (fmupd (KStr ''scrape_interval'') (YStr ''1m'') globalConfig)) customConfig)
               | _ \<Rightarrow> (''30s'', customConfig));
            fs' = setDefaultFileScrapeInterval L scrapeInterval fs
        in (case Marshal L customConfig' of None \<Rightarrow> ('''', fs') | Some updatedConfig \<Rightarrow> (updatedConfig, fs')))"

definition prometheusConfigMerger :: "merger_lib \<Rightarrow> environ \<Rightarrow> bool \<Rightarrow> merger \<Rightarrow> merger go" where
  "prometheusConfigMerger L env operatorEnabled s =
     (let s0 = s\<lparr>mergedDefaultConfigs := fmempty\<rparr>;
          prometheusConfigMap = parseConfigMap (files s0)
      in if length prometheusConfigMap > 0
         then
           let (modified, fs) = setGlobalScrapeConfigInDefaultFilesIfExists L prometheusConfigMap (files s0);
               s1 = writeDefaultScrapeTargetsFile L env operatorEnabled (s0\<lparr>files := fs\<rparr>)
           in go_bind (setLabelLimitsPerScrape L modified) (\<lambda>limited.
                Inr (mergeDefaultAndCustomScrapeConfigs L limited s1))
         else
           Inr (writeDefaultScrapeTargetsFile L env operatorEnabled
             (s0\<lparr>files := setDefaultFileScrapeInterval L ''30s'' (files s0)\<rparr>)))"

end
