(* ===== verification/ConfigMap.thy ===== *)
theory ConfigMap
  imports KeepList MergerMain
begin

text \<open>
  The remaining parsers of the settings config map (\<open>shared/configmap/mp/\<close>: \<open>tomlparser-prometheus-collector-settings.go\<close>,
  \<open>tomlparser-debug-mode.go\<close>, \<open>tomlparser-opentelemetry-metrics.go\<close>,
  \<open>tomlparser-pod-annotation-based-scraping.go\<close>, \<open>tomlparser-set-global-config.go\<close>) and \<open>configmapparser.go\<close>, which
  runs them, the merger and the validator.

  Every parser writes the variables it found to a file of its own and reads that file back into the environment.
\<close>

section \<open>Versions\<close>

definition version_of :: "file_state \<Rightarrow> string \<Rightarrow> string" where
  "version_of f dflt =
     (case f of
        Content c \<Rightarrow> if c = '''' then dflt else take 10 (ReplaceAll '' '' '''' (TrimSpace c))
      | _ \<Rightarrow> dflt)"

definition setConfigSchemaVersionEnv :: "cm_lib \<Rightarrow> cm_state \<Rightarrow> cm_state" where
  "setConfigSchemaVersionEnv L s =
     set_var ''AZMON_AGENT_CFG_SCHEMA_VERSION'' (version_of (file_at L (cm_files s) ''/etc/config/settings/schema-version'') ''v1'') s"

definition setConfigFileVersionEnv :: "cm_lib \<Rightarrow> cm_state \<Rightarrow> cm_state" where
  "setConfigFileVersionEnv L s =
     set_var ''AZMON_AGENT_CFG_FILE_VERSION'' (version_of (file_at L (cm_files s) ''/etc/config/settings/config-version'') ''ver1'') s"

section \<open>Environment files\<close>

text \<open>
  \<open>os.Create\<close> followed by \<open>WriteString\<close>: the new content, or an error when the file cannot be created.
\<close>

definition create_file :: "cm_lib \<Rightarrow> string \<Rightarrow> string \<Rightarrow> cm_state \<Rightarrow> cm_state option" where
  "create_file L f c s = map_option (\<lambda>fs. s\<lparr>cm_files := fs\<rparr>) (WriteFile (base L) f c (cm_files s))"

definition handleEnvFileError :: "cm_lib \<Rightarrow> string \<Rightarrow> cm_state \<Rightarrow> cm_state" where
  "handleEnvFileError L f s = s\<lparr>cm_env := snd (SetEnvVarsFromFile f (file_at L (cm_files s) f) (cm_env s))\<rparr>"

section \<open>Pod annotations\<close>

datatype setting_error = NotMounted | NotFound | NoValue | InvalidRegex string | CannotCreate | CannotRead | CannotDecode | CannotEncode | CannotWrite

definition podAnnotationEnvVarPath :: string where
  "podAnnotationEnvVarPath = ''/opt/microsoft/configmapparser/config_def_pod_annotation_based_scraping''"

definition envVariableTemplateName :: string where
  "envVariableTemplateName = ''AZMON_PROMETHEUS_POD_ANNOTATION_NAMESPACES_REGEX''"

definition envVariableAnnotationsEnabledName :: string where
  "envVariableAnnotationsEnabledName = ''AZMON_PROMETHEUS_POD_ANNOTATION_SCRAPING_ENABLED''"

definition populatePodAnnotationNamespaceFromConfigMap :: "cm_lib \<Rightarrow> sections \<Rightarrow> setting_error + string" where
  "populatePodAnnotationNamespaceFromConfigMap L m =
     (case fmlookup m ''pod-annotation-based-scraping'' of
        None \<Rightarrow> Inl NotFound
      | Some innerMap \<Rightarrow>
        (case fmlookup innerMap ''podannotationnamespaceregex'' of
           None \<Rightarrow> Inl NoValue
         | Some regex \<Rightarrow>
           if regex = '''' then Inl NoValue
           else if valid_regex L regex then Inr regex else Inl (InvalidRegex regex)))"

definition pod_annotation_vars :: "string \<Rightarrow> (string \<times> string) list" where
  "pod_annotation_vars regex =
     (if regex \<noteq> ''''
      then [(envVariableTemplateName, [CHR 0x27] @ regex @ [CHR 0x27]), (envVariableAnnotationsEnabledName, ''true'')]
      else [])"

definition writeConfigToFile :: "cm_lib \<Rightarrow> string \<Rightarrow> cm_state \<Rightarrow> cm_state option" where
  "writeConfigToFile L regex s = create_file L podAnnotationEnvVarPath (env_file (pod_annotation_vars regex)) s"

definition configurePodAnnotationSettings :: "cm_lib \<Rightarrow> sections option \<Rightarrow> cm_state \<Rightarrow> setting_error option \<times> cm_state" where
  "configurePodAnnotationSettings L m s =
     (case m of
        None \<Rightarrow> (Some NotMounted, s)
      | Some m \<Rightarrow>
        (case populatePodAnnotationNamespaceFromConfigMap L m of
           Inl e \<Rightarrow> (Some e, s)
         | Inr regex \<Rightarrow> (case writeConfigToFile L regex s of None \<Rightarrow> (Some CannotCreate, s) | Some s' \<Rightarrow> (None, s'))))"

text \<open>The file of the pod annotations is split at the first \<open>=\<close>, so that the expression may contain more.\<close>

definition set_env_first :: "environ \<Rightarrow> string \<Rightarrow> environ" where
  "set_env_first env line =
     (if CHR ''='' \<in> set line
      then Setenv env (takeWhile (\<lambda>c. c \<noteq> CHR ''='') line) (drop 1 (dropWhile (\<lambda>c. c \<noteq> CHR ''='') line))
      else env)"

definition handlePodAnnotationsFile :: "cm_lib \<Rightarrow> string \<Rightarrow> cm_state \<Rightarrow> cm_state" where
  "handlePodAnnotationsFile L f s =
     (case file_at L (cm_files s) f of
        Content c \<Rightarrow> s\<lparr>cm_env := foldl set_env_first (cm_env s) (fst (scan_lines c))\<rparr>
      | _ \<Rightarrow> s)"

definition parseSettingsForPodAnnotations :: "cm_lib \<Rightarrow> sections option \<Rightarrow> cm_state \<Rightarrow> cm_state" where
  "parseSettingsForPodAnnotations L m s =
     (case configurePodAnnotationSettings L m s of
        (Some e, s') \<Rightarrow> s'
      | (None, s') \<Rightarrow> handlePodAnnotationsFile L podAnnotationEnvVarPath s')"

section \<open>Collector settings\<close>

definition collectorSettingsEnvVarPath :: string where
  "collectorSettingsEnvVarPath = ''/opt/microsoft/configmapparser/config_prometheus_collector_settings_env_var''"

definition collector_setting :: "sections \<Rightarrow> string \<Rightarrow> string option" where
  "collector_setting m key = Option.bind (fmlookup m ''prometheus-collector-settings'') (\<lambda>settings. fmlookup settings key)"

definition is_true :: "string \<Rightarrow> bool" where
  "is_true v \<longleftrightarrow> v \<noteq> '''' \<and> ToLower v = ''true''"

definition set_account :: "sections \<Rightarrow> ConfigProcessor \<Rightarrow> ConfigProcessor" where
  "set_account m cp =
     (case collector_setting m ''default_metric_account_name'' of None \<Rightarrow> cp | Some v \<Rightarrow> cp\<lparr>DefaultMetricAccountName := v\<rparr>)"

definition set_alias :: "sections \<Rightarrow> ConfigProcessor \<Rightarrow> ConfigProcessor" where
  "set_alias m cp =
     (case collector_setting m ''cluster_alias'' of None \<Rightarrow> cp | Some v \<Rightarrow> cp\<lparr>ClusterAlias := clean_alias (TrimSpace v)\<rparr>)"

definition set_operator :: "environ \<Rightarrow> sections \<Rightarrow> ConfigProcessor \<Rightarrow> ConfigProcessor" where
  "set_operator env m cp =
     (if is_true (Getenv env ''AZMON_OPERATOR_ENABLED'')
      then
        let cp = cp\<lparr>IsOperatorEnabledChartSetting := True\<rparr> in
        (case collector_setting m ''operator_enabled'' of None \<Rightarrow> cp | Some v \<Rightarrow> cp\<lparr>IsOperatorEnabled := (v = ''true'')\<rparr>)
      else cp\<lparr>IsOperatorEnabledChartSetting := False\<rparr>)"

definition split_namespaces :: "string \<Rightarrow> string list" where
  "split_namespaces trimmed = filter (\<lambda>ns. ns \<noteq> '''') (map TrimSpace (split_char CHR '','' trimmed))"

definition set_secrets :: "sections \<Rightarrow> ConfigProcessor \<Rightarrow> ConfigProcessor" where
  "set_secrets m cp =
     (case collector_setting m ''secrets_access_namespaces'' of
        None \<Rightarrow> cp
      | Some v \<Rightarrow> if TrimSpace v \<noteq> '''' then cp\<lparr>SecretsAccessNamespaces := split_namespaces (TrimSpace v)\<rparr> else cp)"

definition set_https :: "environ \<Rightarrow> sections \<Rightarrow> ConfigProcessor \<Rightarrow> ConfigProcessor" where
  "set_https env m cp =
     (if is_true (Getenv env ''OPERATOR_TARGETS_HTTPS_ENABLED'')
      then
        let cp = cp\<lparr>TargetallocatorHttpsEnabledChartSetting := True, TargetallocatorHttpsEnabled := True\<rparr> in
        (case collector_setting m ''https_config'' of
           None \<Rightarrow> cp
         | Some v \<Rightarrow> if ToLower v = ''false'' then cp\<lparr>TargetallocatorHttpsEnabled := False\<rparr> else cp)
      else cp\<lparr>TargetallocatorHttpsEnabledChartSetting := False, TargetallocatorHttpsEnabled := False\<rparr>)"

definition PopulateSettingValuesFromConfigMap :: "environ \<Rightarrow> sections \<Rightarrow> ConfigProcessor \<Rightarrow> ConfigProcessor" where
  "PopulateSettingValuesFromConfigMap env m cp =
     set_https env m (set_secrets m (set_operator env m (set_alias m (set_account m cp))))"

fun Join :: "string list \<Rightarrow> string \<Rightarrow> string" where
  "Join [] sep = ''''"
| "Join [x] sep = x"
| "Join (x # y # zs) sep = x @ sep @ Join (y # zs) sep"

definition collector_vars :: "ConfigProcessor \<Rightarrow> (string \<times> string) list" where
  "collector_vars cp =
     [(''AZMON_DEFAULT_METRIC_ACCOUNT_NAME'', DefaultMetricAccountName cp),
      (''AZMON_CLUSTER_LABEL'', ClusterLabel cp),
      (''AZMON_CLUSTER_ALIAS'', ClusterAlias cp),
      (''AZMON_OPERATOR_ENABLED_CHART_SETTING'', print_bool (IsOperatorEnabledChartSetting cp))]
     @ (if IsOperatorEnabled cp
        then [(''AZMON_OPERATOR_ENABLED'', print_bool (IsOperatorEnabled cp)),
              (''AZMON_OPERATOR_ENABLED_CFG_MAP_SETTING'', print_bool (IsOperatorEnabled cp))] else [])
     @ [(''AZMON_OPERATOR_HTTPS_ENABLED_CHART_SETTING'', print_bool (TargetallocatorHttpsEnabledChartSetting cp)),
        (''AZMON_OPERATOR_HTTPS_ENABLED'', print_bool (TargetallocatorHttpsEnabled cp))]
     @ (if length (SecretsAccessNamespaces cp) > 0
        then [(''AZMON_SECRETS_ACCESS_NAMESPACES'', Join (SecretsAccessNamespaces cp) '','')] else [])"

definition WriteConfigToFile :: "cm_lib \<Rightarrow> ConfigProcessor \<Rightarrow> cm_state \<Rightarrow> cm_state option" where
  "WriteConfigToFile L cp s = create_file L collectorSettingsEnvVarPath (env_file (collector_vars cp)) s"

definition configured :: "environ \<Rightarrow> sections \<Rightarrow> ConfigProcessor \<Rightarrow> ConfigProcessor" where
  "configured env m cp =
     (let cp1 = (if supported_schema env \<and> gomap_len m > 0 then PopulateSettingValuesFromConfigMap env m cp else cp);
          cp2 = cp1\<lparr>ClusterLabel := cluster_name env\<rparr>
      in if ClusterAlias cp2 \<noteq> '''' then cp2\<lparr>ClusterLabel := ClusterAlias cp2\<rparr> else cp2)"

definition Configure :: "cm_lib \<Rightarrow> sections option \<Rightarrow> ConfigProcessor \<Rightarrow> cm_state \<Rightarrow> cm_state" where
  "Configure L m cp s =
     (case WriteConfigToFile L (configured (cm_env s) (case m of None \<Rightarrow> fmempty | Some m \<Rightarrow> m) cp) s of None \<Rightarrow> s | Some s' \<Rightarrow> s')"

definition parseConfigAndSetEnvInFile :: "cm_lib \<Rightarrow> sections option \<Rightarrow> cm_state \<Rightarrow> cm_state" where
  "parseConfigAndSetEnvInFile L m s =
     Configure L m (empty_processor\<lparr>TargetallocatorHttpsEnabled := (ToLower (Getenv (cm_env s) ''OPERATOR_TARGETS_HTTPS_ENABLED'') = ''true'')\<rparr>) s"

definition parsePrometheusCollectorConfig :: "cm_lib \<Rightarrow> sections option \<Rightarrow> cm_state \<Rightarrow> cm_state" where
  "parsePrometheusCollectorConfig L m s = handleEnvFileError L collectorSettingsEnvVarPath (parseConfigAndSetEnvInFile L m s)"

section \<open>Default scrape settings\<close>

text \<open>With the file written only when it can be; theory Settings has the case where it can.\<close>

definition run_default_settings :: "cm_lib \<Rightarrow> sections option \<Rightarrow> cm_state \<Rightarrow> cm_state" where
  "run_default_settings L m s =
     handleEnvFileError L defaultSettingsEnvVarPath
       (case create_file L defaultSettingsEnvVarPath
               (ConfigureDefaultScrapeSettings (cm_env s) (case m of None \<Rightarrow> fmempty | Some m \<Rightarrow> m)) s of
          None \<Rightarrow> s | Some s' \<Rightarrow> s')"

section \<open>Debug mode\<close>

definition debugModeEnvVarPath :: string where
  "debugModeEnvVarPath = ''/opt/microsoft/configmapparser/config_debug_mode_env_var''"

definition replicaSetCollectorConfig :: string where
  "replicaSetCollectorConfig = ''/opt/microsoft/otelcollector/collector-config-replicaset.yml''"

definition populateSettingValuesFromConfigMap :: "environ \<Rightarrow> sections \<Rightarrow> bool" where
  "populateSettingValuesFromConfigMap env m =
     (let version = Getenv env ''AZMON_AGENT_CFG_SCHEMA_VERSION'' in
      if version = '''' then False
      else if TrimSpace version = ''v1''
      then (case Option.bind (fmlookup m ''debug-mode'') (\<lambda>d. fmlookup d ''enabled'') of None \<Rightarrow> False | Some v \<Rightarrow> ToLower v = ''true'')
      else if TrimSpace version = ''v2''
      then (case collector_setting m ''debug-mode'' of None \<Rightarrow> False | Some v \<Rightarrow> ToLower v = ''true'')
      else False)"

definition debug_pipelines :: "environ \<Rightarrow> OtelConfig \<Rightarrow> OtelConfig" where
  "debug_pipelines env c =
     (let c1 = c\<lparr>metrics_Exporters := YSeq [YStr ''otlp_grpc'', YStr ''prometheus'']\<rparr> in
      if Getenv env ''CCP_METRICS_ENABLED'' \<noteq> ''true''
      then c1\<lparr>telemetry_Receivers := YSeq [YStr ''prometheus''], telemetry_Exporters := YSeq [YStr ''prometheus/telemetry''],
              telemetry_Processors := YSeq [YStr ''filter/telemetry'']\<rparr>
      else c1)"

definition debug_collector_config :: "cm_lib \<Rightarrow> cm_state \<Rightarrow> setting_error option \<times> cm_state" where
  "debug_collector_config L s =
     (case fmlookup (cm_files s) replicaSetCollectorConfig of
        None \<Rightarrow> (Some CannotRead, s)
      | Some content \<Rightarrow>
        (case UnmarshalOtel L content of
           None \<Rightarrow> (Some CannotDecode, s)
         | Some config \<Rightarrow>
           (case MarshalOtel L (debug_pipelines (cm_env s) config) of
              None \<Rightarrow> (Some CannotEncode, s)
            | Some out \<Rightarrow>
              (case create_file L replicaSetCollectorConfig out s of None \<Rightarrow> (Some CannotWrite, s) | Some s' \<Rightarrow> (None, s')))))"

definition ConfigureDebugModeSettings :: "cm_lib \<Rightarrow> sections option \<Rightarrow> cm_state \<Rightarrow> setting_error option \<times> cm_state" where
  "ConfigureDebugModeSettings L m s =
     (case m of
        None \<Rightarrow> (Some NotMounted, s)
      | Some m \<Rightarrow>
        let enabled = populateSettingValuesFromConfigMap (cm_env s) m in
        (case create_file L debugModeEnvVarPath (env_file [(''DEBUG_MODE_ENABLED'', print_bool enabled)]) s of
           None \<Rightarrow> (Some CannotCreate, s)
         | Some s' \<Rightarrow>
           if enabled \<and> Getenv (cm_env s) ''CONTROLLER_TYPE'' = ''ReplicaSet'' then debug_collector_config L s' else (None, s')))"

definition parseDebugModeSettings :: "cm_lib \<Rightarrow> sections option \<Rightarrow> cm_state \<Rightarrow> cm_state" where
  "parseDebugModeSettings L m s =
     (case ConfigureDebugModeSettings L m s of (Some e, s') \<Rightarrow> s' | (None, s') \<Rightarrow> handleEnvFileError L debugModeEnvVarPath s')"

section \<open>OpenTelemetry metrics and kube-state-metrics\<close>

definition opentelemetryMetricsEnvVarPath :: string where
  "opentelemetryMetricsEnvVarPath = ''/opt/microsoft/configmapparser/config_opentelemetry_metrics_env_var''"

definition ksmConfigEnvVarPath :: string where
  "ksmConfigEnvVarPath = ''/opt/microsoft/configmapparser/config_ksm_config_env_var''"

text \<open>\<open>strconv.ParseBool\<close>.\<close>

definition ParseBool :: "string \<Rightarrow> bool option" where
  "ParseBool s =
     (if s \<in> set [''1'', ''t'', ''T'', ''true'', ''TRUE'', ''True''] then Some True
      else if s \<in> set [''0'', ''f'', ''F'', ''false'', ''FALSE'', ''False''] then Some False else None)"

definition populateOpentelemetryMetricsSettingValuesFromConfigMap :: "sections \<Rightarrow> bool" where
  "populateOpentelemetryMetricsSettingValuesFromConfigMap m =
     (case fmlookup m ''opentelemetry-metrics'' of
        None \<Rightarrow> False
      | Some innerMap \<Rightarrow>
        (case fmlookup innerMap ''enabled'' of
           None \<Rightarrow> False
         | Some v \<Rightarrow> (case ParseBool v of None \<Rightarrow> False | Some b \<Rightarrow> b)))"

definition ConfigureOpentelemetryMetricsSettings :: "cm_lib \<Rightarrow> sections option \<Rightarrow> cm_state \<Rightarrow> setting_error option \<times> cm_state" where
  "ConfigureOpentelemetryMetricsSettings L m s =
     (case m of
        None \<Rightarrow> (Some NotMounted, s)
      | Some m \<Rightarrow>
        (case create_file L opentelemetryMetricsEnvVarPath
                (env_file [(''AZMON_FULL_OTLP_ENABLED'', print_bool (populateOpentelemetryMetricsSettingValuesFromConfigMap m))]) s of
           None \<Rightarrow> (Some CannotCreate, s) | Some s' \<Rightarrow> (None, s')))"

definition parseOpentelemetryMetricsSettings :: "cm_lib \<Rightarrow> sections option \<Rightarrow> cm_state \<Rightarrow> cm_state" where
  "parseOpentelemetryMetricsSettings L m s =
     (case ConfigureOpentelemetryMetricsSettings L m s of
        (Some e, s') \<Rightarrow> s' | (None, s') \<Rightarrow> handleEnvFileError L opentelemetryMetricsEnvVarPath s')"

definition parseKSMSettings :: "cm_lib \<Rightarrow> sections option \<Rightarrow> cm_state \<Rightarrow> cm_state" where
  "parseKSMSettings L m s =
     (case section_of m ''ksm-config'' of
        None \<Rightarrow> s
      | Some _ \<Rightarrow>
        (case create_file L ksmConfigEnvVarPath (env_file [(''AZMON_KSM_CONFIG_ENABLED'', ''true'')]) s of
           None \<Rightarrow> s | Some s' \<Rightarrow> handleEnvFileError L ksmConfigEnvVarPath s'))"

section \<open>Reading the config map\<close>

definition settings_dir :: string where
  "settings_dir = ''/etc/config/settings''"

definition read_sections :: "cm_lib \<Rightarrow> cm_state \<Rightarrow> sections option" where
  "read_sections L s =
     (let version = Getenv (cm_env s) ''AZMON_AGENT_CFG_SCHEMA_VERSION'' in
      if version = ''v2''
      then (case ParseMetricsFiles (file_at L (cm_files s))
                   [''/etc/config/settings/cluster-metrics'', ''/etc/config/settings/prometheus-collector-settings''] of
              Inl e \<Rightarrow> None | Inr m \<Rightarrow> Some m)
      else if version = ''v1'' then ParseV1Config (ReadDir L settings_dir) else None)"

definition configmap_version :: "cm_lib \<Rightarrow> cm_state \<Rightarrow> string" where
  "configmap_version L s =
     (let version = Getenv (cm_env s) ''AZMON_AGENT_CFG_SCHEMA_VERSION'' in
      if version = ''v2'' then ''v2''
      else if version = ''v1''
      then (case ReadDir L settings_dir of
          None \<Rightarrow> ''not_present''
        | Some entries \<Rightarrow> if list_ex (\<lambda>e. \<not> (entry_IsDir e \<or> prefix ''.'' (entry_Name e))) entries then ''v1'' else ''not_present'')
      else ''not_present'')"

text \<open>\<open>Configmapparser\<close> up to the call of the merger.\<close>

definition parse_settings :: "cm_lib \<Rightarrow> cm_state \<Rightarrow> cm_state" where
  "parse_settings L s =
     (let s1 = setConfigSchemaVersionEnv L (setConfigFileVersionEnv L s);
          m = read_sections L s1;
          s2 = set_var ''CONFIGMAP_VERSION'' (configmap_version L s1) s1
      in foldl (\<lambda>s parser. parser L m s) s2
           [parseSettingsForPodAnnotations, parsePrometheusCollectorConfig, run_default_settings, parseDebugModeSettings,
            parseOpentelemetryMetricsSettings, parseKSMSettings, tomlparserTargetsMetricsKeepList, tomlparserScrapeInterval])"

section \<open>Merging and validating\<close>

definition collectorConfigPath :: string where
  "collectorConfigPath = ''/opt/microsoft/otelcollector/collector-config.yml''"

definition defaultsCollectorConfigPath :: string where
  "defaultsCollectorConfigPath = ''/opt/collector-config-with-defaults.yml''"

definition collectorConfigDefaultPath :: string where
  "collectorConfigDefaultPath = ''/opt/microsoft/otelcollector/collector-config-default.yml''"

definition FileExists :: "fsys \<Rightarrow> string \<Rightarrow> bool" where
  "FileExists fs f \<longleftrightarrow> fmlookup fs f \<noteq> None"

definition CopyFile :: "cm_lib \<Rightarrow> string \<Rightarrow> string \<Rightarrow> fsys \<Rightarrow> fsys" where
  "CopyFile L f g fs =
     (case fmlookup fs f of None \<Rightarrow> fs | Some c \<Rightarrow> (case WriteFile (base L) g c fs of None \<Rightarrow> fs | Some fs' \<Rightarrow> fs'))"

definition run_validator :: "cm_lib \<Rightarrow> string \<Rightarrow> string \<Rightarrow> cm_state \<Rightarrow> bool \<times> cm_state" where
  "run_validator L config out s = (case promconfigvalidator L config out (cm_env s) (cm_files s) of (ok, fs) \<Rightarrow> (ok, s\<lparr>cm_files := fs\<rparr>))"

definition copy_defaults :: "cm_lib \<Rightarrow> cm_state \<Rightarrow> cm_state" where
  "copy_defaults L s = s\<lparr>cm_files := CopyFile L defaultsCollectorConfigPath collectorConfigDefaultPath (cm_files s)\<rparr>"

definition validate_custom :: "cm_lib \<Rightarrow> cm_state \<Rightarrow> cm_state" where
  "validate_custom L s =
     (case run_validator L promMergedConfigPath collectorConfigPath s of
        (True, s1) \<Rightarrow> set_var ''AZMON_SET_GLOBAL_SETTINGS'' ''true'' s1
      | (False, s1) \<Rightarrow>
        let s2 = set_var ''AZMON_INVALID_CUSTOM_PROMETHEUS_CONFIG'' ''true'' s1;
            s3 = (if FileExists (cm_files s2) mergedDefaultConfigPath
                  then let s' = snd (run_validator L mergedDefaultConfigPath defaultsCollectorConfigPath s2)
                       in if FileExists (cm_files s') defaultsCollectorConfigPath then copy_defaults L s' else s'
                  else s2)
        in set_var ''AZMON_USE_DEFAULT_PROMETHEUS_CONFIG'' ''true'' s3)"

definition validate_default :: "cm_lib \<Rightarrow> cm_state \<Rightarrow> cm_state" where
  "validate_default L s =
     set_var ''AZMON_USE_DEFAULT_PROMETHEUS_CONFIG'' ''true''
       (case run_validator L mergedDefaultConfigPath defaultsCollectorConfigPath s of
          (True, s1) \<Rightarrow> copy_defaults L s1 | (False, s1) \<Rightarrow> s1)"

definition validate_configs :: "cm_lib \<Rightarrow> cm_state \<Rightarrow> cm_state" where
  "validate_configs L s =
     (let s1 = set_var ''CONFIG_VALIDATOR_RUNNING_IN_AGENT'' ''true'' (set_var ''AZMON_INVALID_CUSTOM_PROMETHEUS_CONFIG'' ''false'' s) in
      if FileExists (cm_files s1) promMergedConfigPath
      then if \<not> FileExists (cm_files s1) collectorConfigPath then validate_custom L s1 else s1
      else if FileExists (cm_files s1) mergedDefaultConfigPath then validate_default L s1
      else set_var ''AZMON_USE_DEFAULT_PROMETHEUS_CONFIG'' ''true'' s1)"

section \<open>The variables of the validator\<close>

definition validatorEnvVarPath :: string where
  "validatorEnvVarPath = ''/opt/microsoft/prom_config_validator_env_var''"

definition envvarsPath :: string where
  "envvarsPath = ''/opt/envvars.env''"

definition two_parts :: "string \<Rightarrow> (string \<times> string) list" where
  "two_parts line = (case split_char CHR ''='' line of [key, v] \<Rightarrow> [(key, v)] | _ \<Rightarrow> [])"

definition load_validator_vars :: "cm_lib \<Rightarrow> cm_state \<Rightarrow> cm_state" where
  "load_validator_vars L s =
     (case file_at L (cm_files s) validatorEnvVarPath of
        Content c \<Rightarrow>
          (case scan_lines c of (lines, failed) \<Rightarrow>
             let pairs = concat (map two_parts lines) in
             case create_file L envvarsPath (env_file pairs) s of
               None \<Rightarrow> s
             | Some s1 \<Rightarrow>
               let s2 = foldl (\<lambda>s (key, v). set_var key v s) s1 pairs in
               if failed then s2 else handleEnvFileError L envvarsPath (handleEnvFileError L validatorEnvVarPath s2))
      | _ \<Rightarrow> s)"

text \<open>The whole of \<open>Configmapparser\<close>; the hashes of the merger start empty.\<close>

definition fresh_merger :: "fsys \<Rightarrow> merger" where
  "fresh_merger fs = \<lparr>files = fs, regexHash = fmempty, intervalHash = fmempty, mergedDefaultConfigs = fmempty\<rparr>"

definition operator_mode :: "environ \<Rightarrow> bool" where
  "operator_mode env \<longleftrightarrow> Getenv env ''AZMON_OPERATOR_ENABLED'' = ''true'' \<or> Getenv env ''CONTAINER_TYPE'' = ''ConfigReaderSidecar''"

definition Configmapparser :: "cm_lib \<Rightarrow> cm_state \<Rightarrow> cm_state go" where
  "Configmapparser L s =
     (let s1 = parse_settings L s in
      go_bind (prometheusConfigMerger (base L) (cm_env s1) (operator_mode (cm_env s1)) (fresh_merger (cm_files s1))) (\<lambda>mg.
        Inr (load_validator_vars L (validate_configs L (s1\<lparr>cm_files := files mg\<rparr>)))))"

section \<open>Global settings\<close>

definition SetGlobalSettingsInCollectorConfig :: "cm_lib \<Rightarrow> cm_state \<Rightarrow> cm_state" where
  "SetGlobalSettingsInCollectorConfig L s =
     (if Getenv (cm_env s) ''AZMON_SET_GLOBAL_SETTINGS'' = ''true''
      then (case fmlookup (cm_files s) collectorConfigPath of
          None \<Rightarrow> s
        | Some merged \<Rightarrow>
          (case UnmarshalOtel L merged of
             None \<Rightarrow> s
           | Some otelConfig \<Rightarrow>
             (case Option.bind (prometheus_Config otelConfig) (\<lambda>c. fmlookup c (KStr ''global'')) of
                None \<Rightarrow> s
              | Some YNil \<Rightarrow> s
              | Some global \<Rightarrow>
                (case fmlookup (cm_files s) replicaSetCollectorConfig of
                   None \<Rightarrow> s
                 | Some replicaset \<Rightarrow>
                   (case UnmarshalOtel L replicaset of
                      None \<Rightarrow> s
                    | Some rs \<Rightarrow>
                      let out = MarshalOtel L (rs\<lparr>prometheus_Config := Some (fmupd (KStr ''global'') global fmempty)\<rparr>)
                      in (case create_file L replicaSetCollectorConfig (case out of None \<Rightarrow> '''' | Some o' \<Rightarrow> o') s of
                            None \<Rightarrow> s | Some s' \<Rightarrow> s'))))))
      else s)"

end
