(* ===== verification/MergerProps.thy ===== *)
theory MergerProps
  imports MergerMain "HOL-Library.Countable"
begin

text \<open>
  Properties of the configuration merger: what the file operations do to a file, which default
  targets each pod of the add-on selects, how the default files are merged, and the document that
  \<open>prometheusConfigMerger\<close> writes.
\<close>

section \<open>What the merger relies on of yaml.v2 and of range loops\<close>

definition yaml_laws :: "merger_lib \<Rightarrow> bool" where
  "yaml_laws L \<longleftrightarrow>
     (\<forall>m. \<exists>out. Marshal L m = Some out \<and> Unmarshal L out = Some m
        \<and> (string_keys m \<longrightarrow> UnmarshalStr L out = Some m)) \<and>
     (\<forall>data m. UnmarshalStr L data = Some m \<longrightarrow> string_keys m) \<and>
     (\<forall>m. enum (range_order L m) m)"

lemma yaml_lawsD:
  assumes "yaml_laws L"
  shows "\<exists>out. Marshal L m = Some out \<and> Unmarshal L out = Some m \<and> (string_keys m \<longrightarrow> UnmarshalStr L out = Some m)"
    and "UnmarshalStr L data = Some m \<Longrightarrow> string_keys m"
    and "enum (range_order L m) m"
  using assms unfolding yaml_laws_def by blast+

lemma string_keys_upd [simp]: "string_keys m \<Longrightarrow> string_keys (fmupd (KStr k) v m)"
  by (auto simp: string_keys_def)

lemma WriteFile_lookup:
  "WriteFile L f out fs = Some fs' \<Longrightarrow> fmlookup fs' g = (if g = f then Some out else fmlookup fs g)"
  by (auto simp: WriteFile_def split: if_splits)

text \<open>
  A codec with these laws: documents are countable, and the text of a document is its number in
  unary.
\<close>

instance ykey :: countable
  by countable_datatype

instance yval :: countable
  by countable_datatype

definition doc_text :: "ymap \<Rightarrow> string" where
  "doc_text m = replicate (Suc (to_nat m)) CHR ''x''"

definition doc_of :: "string \<Rightarrow> ymap" where
  "doc_of t = (if t = [] then fmempty else from_nat (length t - 1))"

definition unary_lib :: merger_lib where
  "unary_lib =
     \<lparr>Unmarshal = (\<lambda>t. Some (doc_of t)),
      UnmarshalStr = (\<lambda>t. if string_keys (doc_of t) then Some (doc_of t) else None),
      UnmarshalInto = (\<lambda>t h. h), Marshal = (\<lambda>m. Some (doc_text m)), range_order = key_order,
      url_Host = (\<lambda>u. Some u), writable = (\<lambda>f. True)\<rparr>"

lemma doc_of_text [simp]: "doc_of (doc_text m) = m" "doc_text m \<noteq> []"
  by (simp_all add: doc_of_def doc_text_def)

lemma unary_lib_simps [simp]:
  "Unmarshal unary_lib t = Some (doc_of t)" "Marshal unary_lib m = Some (doc_text m)"
  "UnmarshalStr unary_lib t = (if string_keys (doc_of t) then Some (doc_of t) else None)"
  "range_order unary_lib = key_order" "writable unary_lib f" "UnmarshalInto unary_lib t h = h"
  by (simp_all add: unary_lib_def)

lemma unary_lib_laws: "yaml_laws unary_lib"
  by (auto simp: yaml_laws_def key_order_enum split: if_splits)

section \<open>Operations on one file\<close>

lemma UpdateScrapeIntervalConfig_other:
  "g \<noteq> f \<Longrightarrow> fmlookup (UpdateScrapeIntervalConfig L f iv fs) g = fmlookup fs g"
  by (auto simp: UpdateScrapeIntervalConfig_def WriteFile_def split: option.splits yval.splits)

lemma AppendMetricRelabelConfig_other:
  "g \<noteq> f \<Longrightarrow> fmlookup (snd (AppendMetricRelabelConfig L f r fs)) g = fmlookup fs g"
  by (auto simp: AppendMetricRelabelConfig_def WriteFile_def split: option.splits yval.splits sum.splits)

lemma AppendRelabelConfig_other:
  "g \<noteq> f \<Longrightarrow> fmlookup (AppendRelabelConfig L f rs fs) g = fmlookup fs g"
  by (auto simp: AppendRelabelConfig_def WriteFile_def split: option.splits yval.splits)

lemma append_keep_rules_Inr:
  "append_keep_rules r cs = Inr cs' \<Longrightarrow> list_all2 (\<lambda>c c'. append_keep_rule r c = Inr c') cs cs'"
  by (induction cs arbitrary: cs') (auto split: sum.splits)

lemma append_keep_rules_ok:
  "(\<And>m. YMap m \<in> set cs \<Longrightarrow> string_keys m) \<Longrightarrow> \<exists>cs'. append_keep_rules r cs = Inr cs'"
proof (induction cs)
  case (Cons c cs)
  then obtain cs' where "append_keep_rules r cs = Inr cs'" by auto
  moreover obtain c' where "append_keep_rule r c = Inr c'"
    using Cons.prems by (cases c) auto
  ultimately show ?case by simp
qed simp

text \<open>The effect of the keep list on one scrape job.\<close>

definition keeps_only :: "string \<Rightarrow> yval \<Rightarrow> yval \<Rightarrow> bool" where
  "keeps_only r job job' \<longleftrightarrow>
     (case job of
        YMap m \<Rightarrow> \<exists>m' rules. job' = YMap m'
          \<and> fmlookup m' (KStr ''metric_relabel_configs'') = Some (YSeq (rules @ [keep_rule ''__name__'' r]))
          \<and> (\<forall>old. fmlookup m (KStr ''metric_relabel_configs'') = Some (YSeq old) \<longrightarrow> rules = old)
          \<and> (\<forall>k. k \<noteq> KStr ''metric_relabel_configs'' \<longrightarrow> fmlookup m' k = fmlookup m k)
      | _ \<Rightarrow> job' = job)"

lemma append_keep_rule_keeps_only: "append_keep_rule r c = Inr c' \<Longrightarrow> keeps_only r c c'"
  by (cases c)
    (auto simp: keeps_only_def split: if_splits option.splits yval.splits)

text \<open>A file that decodes to a document with the given scrape jobs.\<close>

definition holds_jobs :: "merger_lib \<Rightarrow> fsys \<Rightarrow> string \<Rightarrow> ymap \<Rightarrow> yval list \<Rightarrow> bool" where
  "holds_jobs L fs f doc jobs \<longleftrightarrow>
     (\<exists>data. fmlookup fs f = Some data \<and> UnmarshalStr L data = Some doc
        \<and> fmlookup doc scrape_configs = Some (YSeq jobs))"

text \<open>Encoding and writing back a document with its jobs replaced.\<close>

lemma rewrite_jobs:
  assumes "yaml_laws L" and "holds_jobs L fs f doc jobs" and "writable L f"
  obtains out where "Marshal L (fmupd scrape_configs (YSeq jobs') doc) = Some out"
    and "WriteFile L f out fs = Some (fmupd f out fs)"
    and "holds_jobs L (fmupd f out fs) f (fmupd scrape_configs (YSeq jobs') doc) jobs'"
proof -
  have "string_keys doc" using assms(1,2) yaml_lawsD(2) by (auto simp: holds_jobs_def)
  moreover obtain out where "Marshal L (fmupd scrape_configs (YSeq jobs') doc) = Some out"
      "string_keys (fmupd scrape_configs (YSeq jobs') doc) \<longrightarrow>
        UnmarshalStr L out = Some (fmupd scrape_configs (YSeq jobs') doc)"
    using yaml_lawsD(1) [OF assms(1)] by blast
  ultimately show ?thesis using that assms(3) by (simp add: holds_jobs_def WriteFile_def)
qed

text \<open>
  The two updates of a default scrape file that is readable, has jobs and can be encoded and
  written: afterwards the file decodes to the same document except for its jobs; after
  \<open>UpdateScrapeIntervalConfig\<close> every job that is a map has the new \<open>scrape_interval\<close> and is otherwise
  unchanged; \<open>AppendMetricRelabelConfig\<close> reports no error exactly when every such job has string keys
  only, and then each job keeps its rules and ends with the rule that keeps only the metrics of the
  list; when it reports an error nothing is written. No other file changes.
\<close>

theorem default_file_updates:
  assumes "yaml_laws L" and "holds_jobs L fs f doc jobs"
    and "writable L f"
  shows "holds_jobs L (UpdateScrapeIntervalConfig L f iv fs) f
      (fmupd scrape_configs (YSeq (map (set_interval iv) jobs)) doc) (map (set_interval iv) jobs)
    \<and> (\<exists>jobs'. let (err, fs') = AppendMetricRelabelConfig L f regex fs in
        (err = None \<longleftrightarrow> (\<forall>m. YMap m \<in> set jobs \<longrightarrow> string_keys m))
        \<and> (err \<noteq> None \<longrightarrow> fs' = fs)
        \<and> (err = None \<longrightarrow> holds_jobs L fs' f (fmupd scrape_configs (YSeq jobs') doc) jobs'
             \<and> list_all2 (keeps_only regex) jobs jobs'))
    \<and> (\<forall>g. g \<noteq> f \<longrightarrow> fmlookup (UpdateScrapeIntervalConfig L f iv fs) g = fmlookup fs g
         \<and> fmlookup (snd (AppendMetricRelabelConfig L f regex fs)) g = fmlookup fs g)"
proof -
  obtain data where data: "fmlookup fs f = Some data" "UnmarshalStr L data = Some doc"
      "fmlookup doc scrape_configs = Some (YSeq jobs)"
    using assms(2) by (auto simp: holds_jobs_def)
  have "holds_jobs L (UpdateScrapeIntervalConfig L f iv fs) f
      (fmupd scrape_configs (YSeq (map (set_interval iv) jobs)) doc) (map (set_interval iv) jobs)"
    by (rule rewrite_jobs [OF assms, of "map (set_interval iv) jobs"])
      (simp add: UpdateScrapeIntervalConfig_def data)
  moreover have "\<exists>jobs'. let (err, fs') = AppendMetricRelabelConfig L f regex fs in
        (err = None \<longleftrightarrow> (\<forall>m. YMap m \<in> set jobs \<longrightarrow> string_keys m))
        \<and> (err \<noteq> None \<longrightarrow> fs' = fs)
        \<and> (err = None \<longrightarrow> holds_jobs L fs' f (fmupd scrape_configs (YSeq jobs') doc) jobs'
             \<and> list_all2 (keeps_only regex) jobs jobs')"
  proof (cases "append_keep_rules regex jobs")
    case (Inl e)
    then have "\<not> (\<forall>m. YMap m \<in> set jobs \<longrightarrow> string_keys m)"
      using append_keep_rules_ok [of jobs regex] by auto
    then show ?thesis using Inl data by (simp add: AppendMetricRelabelConfig_def)
  next
    case (Inr jobs')
    obtain out where o: "Marshal L (fmupd scrape_configs (YSeq jobs') doc) = Some out"
        "WriteFile L f out fs = Some (fmupd f out fs)"
        "holds_jobs L (fmupd f out fs) f (fmupd scrape_configs (YSeq jobs') doc) jobs'"
      by (rule rewrite_jobs [OF assms])
    have all: "string_keys m" if "YMap m \<in> set jobs" for m
      using append_keep_rules_Inr [OF Inr] that
      by (auto simp: list_all2_conv_all_nth in_set_conv_nth split: if_splits)
    have keeps: "list_all2 (keeps_only regex) jobs jobs'"
      by (rule list_all2_mono [OF append_keep_rules_Inr [OF Inr]]) (rule append_keep_rule_keeps_only)
    have "AppendMetricRelabelConfig L f regex fs = (None, fmupd f out fs)"
      using Inr data o by (simp add: AppendMetricRelabelConfig_def)
    then show ?thesis using o(3) keeps all by (intro exI [of _ jobs']) simp
  qed
  ultimately show ?thesis
    by (intro conjI allI impI UpdateScrapeIntervalConfig_other AppendMetricRelabelConfig_other)
qed

definition demo_job :: yval where
  "demo_job = YMap (fmupd (KStr ''job_name'') (YStr ''kube-dns'') fmempty)"

definition demo_doc :: ymap where
  "demo_doc = fmupd scrape_configs (YSeq [demo_job]) fmempty"

theorem default_file_updates_witness:
  "holds_jobs unary_lib (UpdateScrapeIntervalConfig unary_lib coreDNSDefaultFile ''15s''
       (fmupd coreDNSDefaultFile (doc_text demo_doc) fmempty))
     coreDNSDefaultFile (fmupd scrape_configs (YSeq [set_interval ''15s'' demo_job]) demo_doc)
     [set_interval ''15s'' demo_job]"
proof -
  have "holds_jobs unary_lib (fmupd coreDNSDefaultFile (doc_text demo_doc) fmempty) coreDNSDefaultFile demo_doc [demo_job]"
    by (simp add: holds_jobs_def demo_doc_def string_keys_def)
  from default_file_updates [OF unary_lib_laws this] show ?thesis by simp
qed

end
