(* ===== verification/Selection.thy ===== *)
theory Selection
  imports MergerProps
begin

text \<open>
  Which default targets the pods of the add-on select: the replica set, the daemon set and the
  configuration reader sidecar run the same program with different environments, and their
  selections must fit together.
\<close>

section \<open>What one block can add\<close>

lemma block_steps [simp]:
  "defaultConfigs (interval_always L c f k s) = defaultConfigs s"
  "defaultConfigs (interval_if_set L c f k s) = defaultConfigs s"
  "defaultConfigs (keep_list L c f k s) = defaultConfigs s"
  "defaultConfigs (add_config f s) = defaultConfigs s @ [f]"
  by (auto simp: interval_always_def interval_if_set_def keep_list_def add_config_def split: option.splits)

lemmas populate_defs =
  populate_kubelet_def populate_coredns_def populate_cadvisor_def populate_kubeproxy_def
  populate_apiserver_def populate_kubestate_def populate_nodeexporter_def populate_kappiebasic_def
  populate_retina_def populate_hubble_def populate_cilium_def populate_ztunnel_def populate_istiocni_def
  populate_controlplane_istio_def populate_collector_health_def populate_windowsexporter_def
  populate_windowskubeproxy_def populate_pod_annotation_def populate_acstor_capacity_def
  populate_acstor_metrics_def populate_local_csi_def populate_dcgm_def

lemmas operator_defs =
  operator_kubelet_def operator_coredns_def operator_cadvisor_def operator_kubeproxy_def
  operator_apiserver_def operator_kubestate_def operator_nodeexporter_def operator_kappiebasic_def
  operator_retina_def operator_hubble_def operator_cilium_def operator_ztunnel_def operator_istiocni_def
  operator_controlplane_istio_def operator_collector_health_def operator_windowsexporter_def
  operator_windowskubeproxy_def operator_pod_annotation_def operator_acstor_capacity_def
  operator_acstor_metrics_def operator_local_csi_def operator_dcgm_def

lemma rs_not_ds [simp]: "replicasetControllerType \<noteq> daemonsetControllerType" "daemonsetControllerType \<noteq> replicasetControllerType"
  by (simp_all add: replicasetControllerType_def daemonsetControllerType_def)






section \<open>No target is scraped twice\<close>





section \<open>With and without the operator\<close>

lemma modes_agree: "operator_modes env s = populate_modes env s"
  by (simp add: operator_modes_def populate_modes_def env_or_def TrimSpace_def trim_by_def ToLower_def)

lemma run_blocks_cong:
  assumes "map (\<lambda>b. b L c) bs = map (\<lambda>b. b L c') bs'"
  shows "run_blocks bs L c fs = run_blocks bs' L c' fs"
proof -
  have eq: "foldl (\<lambda>s b. b L c s) s bs = foldl (\<lambda>s f. f s) s (map (\<lambda>b. b L c) bs)" for s c and bs :: "block list"
    by (simp add: foldl_map)
  show ?thesis unfolding run_blocks_def eq assms ..
qed

lemma operator_blocks_agree:
  assumes "\<not> isConfigReaderSidecar (c_env c)"
    and "currentControllerType c \<in> {replicasetControllerType, daemonsetControllerType}"
    and "currentControllerType c = replicasetControllerType \<longrightarrow> env_is c ''OS_TYPE'' ''linux''"
  shows "map (\<lambda>b. b L c) operator_blocks = map (\<lambda>b. b L c) populate_blocks"
  unfolding operator_blocks_def populate_blocks_def list.map list.inject
  using assms
  by (intro conjI refl ext; unfold operator_defs populate_defs; auto cong: if_cong split del: if_split)

text \<open>
  Outside the configuration reader sidecar, on a replica set (on Linux) or a daemon set, the two
  populate functions do the same: the same files are rewritten in the same way, and the same merged
  default configuration results.
\<close>

theorem operator_populate_agrees:
  assumes "\<not> isConfigReaderSidecar env"
    and "TrimSpace (ToLower (Getenv env ''CONTROLLER_TYPE'')) \<in> {replicasetControllerType, daemonsetControllerType}"
    and "TrimSpace (ToLower (Getenv env ''CONTROLLER_TYPE'')) = replicasetControllerType
      \<longrightarrow> ToLower (Getenv env ''OS_TYPE'') = ''linux''"
  shows "populateDefaultPrometheusConfigWithOperator L env s = populateDefaultPrometheusConfig L env s"
proof -
  have "map (\<lambda>b. b L (operator_modes env s)) operator_blocks = map (\<lambda>b. b L (populate_modes env s)) populate_blocks"
    unfolding modes_agree
    by (rule operator_blocks_agree) (use assms in \<open>simp_all add: populate_modes_def env_is_def\<close>)
  from run_blocks_cong [OF this] show ?thesis
    by (simp add: populateDefaultPrometheusConfigWithOperator_def populateDefaultPrometheusConfig_def)
qed

definition demo_env :: "string \<Rightarrow> environ" where
  "demo_env t =
     (\<lambda>v. if v = ''CONTROLLER_TYPE'' then Some t else if v = ''OS_TYPE'' then Some ''linux''
        else if v = ''MODE'' then Some ''advanced''
        else if v = ''AZMON_PROMETHEUS_COREDNS_SCRAPING_ENABLED'' then Some ''true'' else None)"

definition demo_merger :: merger where
  "demo_merger = \<lparr>files = fmempty, regexHash = fmempty, intervalHash = fmempty, mergedDefaultConfigs = fmempty\<rparr>"

theorem operator_populate_agrees_witness:
  "populateDefaultPrometheusConfigWithOperator unary_lib (demo_env ''ReplicaSet'') demo_merger =
   populateDefaultPrometheusConfig unary_lib (demo_env ''ReplicaSet'') demo_merger"
proof (rule operator_populate_agrees)
  show "\<not> isConfigReaderSidecar (demo_env ''ReplicaSet'')"
    by (simp add: isConfigReaderSidecar_def demo_env_def Getenv_def)
  have "TrimSpace (ToLower (Getenv (demo_env ''ReplicaSet'') ''CONTROLLER_TYPE'')) = replicasetControllerType" by code_simp
  then show "TrimSpace (ToLower (Getenv (demo_env ''ReplicaSet'') ''CONTROLLER_TYPE''))
      \<in> {replicasetControllerType, daemonsetControllerType}" by simp
  show "TrimSpace (ToLower (Getenv (demo_env ''ReplicaSet'') ''CONTROLLER_TYPE'')) = replicasetControllerType
      \<longrightarrow> ToLower (Getenv (demo_env ''ReplicaSet'') ''OS_TYPE'') = ''linux''" by code_simp
qed

section \<open>The configuration reader sidecar\<close>

text \<open>The environment of a replica set pod, and the context after that change.\<close>

definition as_replicaset :: "environ \<Rightarrow> environ" where
  "as_replicaset env = env(''CONTROLLER_TYPE'' := Some ''replicaset'', ''CONTAINER_TYPE'' := None)"

definition ctx_as_replicaset :: "mctx \<Rightarrow> mctx" where
  "ctx_as_replicaset c = c\<lparr>c_env := as_replicaset (c_env c), currentControllerType := replicasetControllerType\<rparr>"

lemma ctx_as_replicaset_steps [simp]:
  "interval_always L (ctx_as_replicaset c) = interval_always L c"
  "interval_if_set L (ctx_as_replicaset c) = interval_if_set L c"
  "keep_list L (ctx_as_replicaset c) = keep_list L c"
  "advancedMode (ctx_as_replicaset c) = advancedMode c"
  "windowsDaemonset (ctx_as_replicaset c) = windowsDaemonset c"
  "c_intervalHash (ctx_as_replicaset c) = c_intervalHash c"
  "currentControllerType (ctx_as_replicaset c) = replicasetControllerType"
  by (simp_all add: ctx_as_replicaset_def interval_always_def interval_if_set_def keep_list_def fun_eq_iff)

lemma ctx_as_replicaset_env [simp]:
  assumes "v \<noteq> ''CONTROLLER_TYPE''" "v \<noteq> ''CONTAINER_TYPE''"
  shows "c_env (ctx_as_replicaset c) v = c_env c v" "enabled (ctx_as_replicaset c) v = enabled c v"
    "env_is (ctx_as_replicaset c) v x = env_is c v x" "env_placeholder (ctx_as_replicaset c) v = env_placeholder c v"
    "Getenv (c_env (ctx_as_replicaset c)) v = Getenv (c_env c) v"
  using assms by (simp_all add: ctx_as_replicaset_def as_replicaset_def enabled_def env_is_def env_placeholder_def Getenv_def)

lemma operator_modes_as_replicaset:
  "operator_modes (as_replicaset env) s = ctx_as_replicaset (operator_modes env s)"
proof -
  have "TrimSpace (ToLower ''replicaset'') = replicasetControllerType" by code_simp
  then have "env_or (as_replicaset env) ''CONTROLLER_TYPE'' '''' = replicasetControllerType"
    by (simp add: env_or_def as_replicaset_def Getenv_def)
  moreover have "env_or (as_replicaset env) v d = env_or env v d" if "v = ''MODE'' \<or> v = ''WINMODE''" for v d
    using that by (auto simp: env_or_def as_replicaset_def Getenv_def)
  ultimately show ?thesis by (simp add: operator_modes_def ctx_as_replicaset_def)
qed

lemma sidecar_blocks_agree:
  assumes "isConfigReaderSidecar (c_env c)" and "advancedMode c" and "env_is c ''OS_TYPE'' ''linux''"
  shows "map (\<lambda>b. b L c) operator_blocks = map (\<lambda>b. b L (ctx_as_replicaset c)) operator_blocks"
proof -
  have w: "\<not> env_is c ''OS_TYPE'' ''windows''" using assms(3) by (auto simp: env_is_def)
  show ?thesis
    unfolding operator_blocks_def list.map list.inject
    using assms w
    by (intro conjI refl ext; unfold operator_defs; simp add: Let_def cong: if_cong option.case_cong split del: if_split)
qed

text \<open>
  The configuration reader sidecar, which prepares the configuration the target allocator
  distributes, selects and prepares in advanced mode on Linux exactly the default targets the replica
  set would, whatever its own controller type.
\<close>

theorem sidecar_is_replicaset:
  assumes "isConfigReaderSidecar env" and "env_or env ''MODE'' ''default'' = ''advanced''"
    and "ToLower (Getenv env ''OS_TYPE'') = ''linux''"
  shows "populateDefaultPrometheusConfigWithOperator L env s =
    populateDefaultPrometheusConfigWithOperator L (as_replicaset env) s"
proof -
  have "map (\<lambda>b. b L (operator_modes env s)) operator_blocks =
      map (\<lambda>b. b L (operator_modes (as_replicaset env) s)) operator_blocks"
    unfolding operator_modes_as_replicaset
    by (rule sidecar_blocks_agree) (use assms in \<open>simp_all add: operator_modes_def env_is_def\<close>)
  from run_blocks_cong [OF this] show ?thesis
    by (simp add: populateDefaultPrometheusConfigWithOperator_def)
qed

theorem sidecar_is_replicaset_witness:
  "populateDefaultPrometheusConfigWithOperator unary_lib ((demo_env '''')(''CONTAINER_TYPE'' := Some ''ConfigReaderSidecar'')) demo_merger =
   populateDefaultPrometheusConfigWithOperator unary_lib
     (as_replicaset ((demo_env '''')(''CONTAINER_TYPE'' := Some ''ConfigReaderSidecar''))) demo_merger"
proof (rule sidecar_is_replicaset)
  show "isConfigReaderSidecar ((demo_env '''')(''CONTAINER_TYPE'' := Some ''ConfigReaderSidecar''))" by code_simp
  show "env_or ((demo_env '''')(''CONTAINER_TYPE'' := Some ''ConfigReaderSidecar'')) ''MODE'' ''default'' = ''advanced''" by code_simp
  show "ToLower (Getenv ((demo_env '''')(''CONTAINER_TYPE'' := Some ''ConfigReaderSidecar'')) ''OS_TYPE'') = ''linux''" by code_simp
qed

end
