(* ===== verification/MergeResult.thy ===== *)
theory MergeResult
  imports Selection
begin

text \<open>
  The documents the configuration merger produces: the merged default jobs, the default files with
  their scrape interval, and the file with default and custom jobs.
\<close>

section \<open>The jobs of the default files\<close>

definition jobs_of :: "ymap \<Rightarrow> yval list" where
  "jobs_of m = (case fmlookup m scrape_configs of Some (YSeq js) \<Rightarrow> js | _ \<Rightarrow> [])"

definition lists_jobs :: "ymap \<Rightarrow> bool" where
  "lists_jobs m \<longleftrightarrow> (case fmlookup m scrape_configs of None \<Rightarrow> True | Some (YSeq _) \<Rightarrow> True | _ \<Rightarrow> False)"

lemma merge_map_jobs:
  "fmlookup t scrape_configs = Some (YSeq ts) \<Longrightarrow> lists_jobs d \<Longrightarrow>
     fmlookup (merge_map t d) scrape_configs = Some (YSeq (ts @ jobs_of d))"
  by (auto simp: merge_map_lookup jobs_of_def lists_jobs_def split: option.splits yval.splits)

definition file_jobs :: "merger_lib \<Rightarrow> fsys \<Rightarrow> string \<Rightarrow> yval list" where
  "file_jobs L fs f = (case loadYAMLFromFile L fs f of None \<Rightarrow> [] | Some d \<Rightarrow> jobs_of d)"

lemma merge_steps_jobs:
  assumes "\<And>m. enum (range_order L m) m"
    and "\<And>f d. f \<in> set fl \<Longrightarrow> loadYAMLFromFile L fs f = Some d \<Longrightarrow> lists_jobs d"
    and "fmlookup t scrape_configs = Some (YSeq ts)"
  shows "fmlookup (foldl (merge_step L fs) t fl) scrape_configs = Some (YSeq (ts @ concat (map (file_jobs L fs) fl)))"
  using assms(2,3)
proof (induction fl arbitrary: t ts)
  case (Cons f fl)
  have "fmlookup (merge_step L fs t f) scrape_configs = Some (YSeq (ts @ file_jobs L fs f))"
  proof (cases "loadYAMLFromFile L fs f")
    case (Some d)
    then show ?thesis using Cons.prems(1) [of f d] Cons.prems(2) merge_map_jobs [of t ts d]
      by (simp add: merge_step_def file_jobs_def deepMerge_merge_map [OF assms(1)])
  qed (use Cons.prems in \<open>simp add: merge_step_def file_jobs_def\<close>)
  moreover have "lists_jobs d" if "g \<in> set fl" "loadYAMLFromFile L fs g = Some d" for g d
    using Cons.prems(1) [of g d] that by simp
  ultimately show ?case using Cons.IH by simp
qed simp

text \<open>
  When default files are selected, the merged default configuration lists the jobs of the files
  that can be read and decoded, in the order of selection, each file's jobs in their own order, and no
  others: a file that fails to load is skipped and loses nothing of the rest.
\<close>

theorem default_jobs_in_order:
  assumes "\<And>m. enum (range_order L m) m" and "fl \<noteq> []"
    and "\<And>f d. f \<in> set fl \<Longrightarrow> loadYAMLFromFile L fs f = Some d \<Longrightarrow> lists_jobs d"
  shows "fmlookup (mergeDefaultScrapeConfigs L fs fl) scrape_configs =
    Some (YSeq (concat (map (file_jobs L fs) fl)))"
  using merge_steps_jobs [OF assms(1,3), where ts = "[]"] assms(2)
  by (auto simp: mergeDefaultScrapeConfigs_def)

theorem default_jobs_in_order_witness:
  "fmlookup (mergeDefaultScrapeConfigs unary_lib (fmupd coreDNSDefaultFile (doc_text demo_doc) fmempty)
      [kubeProxyDefaultFile, coreDNSDefaultFile]) scrape_configs = Some (YSeq [demo_job])"
proof -
  have ne: "kubeProxyDefaultFile \<noteq> coreDNSDefaultFile" "coreDNSDefaultFile \<noteq> kubeProxyDefaultFile" by (simp_all add: file_names)
  let ?fs = "fmupd coreDNSDefaultFile (doc_text demo_doc) fmempty"
  have "lists_jobs d" if "loadYAMLFromFile unary_lib ?fs f = Some d" for f d
    using that by (auto simp: loadYAMLFromFile_def lists_jobs_def demo_doc_def split: if_splits)
  with default_jobs_in_order [of unary_lib "[kubeProxyDefaultFile, coreDNSDefaultFile]" ?fs]
  have "fmlookup (mergeDefaultScrapeConfigs unary_lib ?fs [kubeProxyDefaultFile, coreDNSDefaultFile]) scrape_configs =
      Some (YSeq (concat (map (file_jobs unary_lib ?fs) [kubeProxyDefaultFile, coreDNSDefaultFile])))"
    by (simp add: key_order_enum)
  also have "map (file_jobs unary_lib ?fs) [kubeProxyDefaultFile, coreDNSDefaultFile] = [[], [demo_job]]"
    using ne by (simp add: file_jobs_def loadYAMLFromFile_def jobs_of_def demo_doc_def)
  finally show ?thesis by simp
qed

section \<open>The scrape interval of the default files\<close>

lemma set_file_intervals:
  assumes "\<And>f g. f \<in> set fl \<Longrightarrow> f \<noteq> defaultPromConfigPathPrefix @ g"
  shows "fmlookup (foldl (set_file_interval L iv) fs fl) g =
    (if g \<in> set fl \<and> writable L g
     then (case fmlookup fs (defaultPromConfigPathPrefix @ g) of None \<Rightarrow> fmlookup fs g
           | Some t \<Rightarrow> Some (ReplaceAll ''$$SCRAPE_INTERVAL$$'' iv t))
     else fmlookup fs g)"
  using assms
proof (induction fl arbitrary: fs)
  case (Cons f fl)
  have step: "fmlookup (set_file_interval L iv fs f) h =
      (if h = f \<and> writable L f
       then (case fmlookup fs (defaultPromConfigPathPrefix @ f) of None \<Rightarrow> fmlookup fs f
             | Some t \<Rightarrow> Some (ReplaceAll ''$$SCRAPE_INTERVAL$$'' iv t))
       else fmlookup fs h)" for h
    by (auto simp: set_file_interval_def WriteFile_def split: option.splits)
  have "defaultPromConfigPathPrefix @ g \<noteq> f" using Cons.prems [of f g] by auto
  then show ?case using Cons.IH [of "set_file_interval L iv fs f"] Cons.prems
    by (auto simp: step split: option.splits)
qed simp

lemma default_file_relative: "f \<in> set defaultFilesArray \<Longrightarrow> f \<noteq> defaultPromConfigPathPrefix @ g"
proof -
  have "list_all (\<lambda>f. hd f \<noteq> CHR ''/'' \<and> f \<noteq> []) defaultFilesArray"
    by (simp add: defaultFilesArray_def file_names)
  moreover have "hd (defaultPromConfigPathPrefix @ g) = CHR ''/''" by (simp add: file_names)
  ultimately show "f \<in> set defaultFilesArray \<Longrightarrow> f \<noteq> defaultPromConfigPathPrefix @ g"
    by (auto simp: list_all_iff)
qed

text \<open>
  \<open>setDefaultFileScrapeInterval\<close> writes every default file it knows from its template, with every
  placeholder replaced, and touches nothing else, the templates included; so whatever an earlier run
  wrote is forgotten: running it again, with the same or another interval, gives the files a single run
  would have given.
\<close>

theorem default_files_regenerated:
  "fmlookup (setDefaultFileScrapeInterval L iv fs) g =
     (if g \<in> set defaultFilesArray \<and> writable L g
      then (case fmlookup fs (defaultPromConfigPathPrefix @ g) of None \<Rightarrow> fmlookup fs g
            | Some t \<Rightarrow> Some (ReplaceAll ''$$SCRAPE_INTERVAL$$'' iv t))
      else fmlookup fs g)
   \<and> fmlookup (setDefaultFileScrapeInterval L iv fs) (defaultPromConfigPathPrefix @ g) =
       fmlookup fs (defaultPromConfigPathPrefix @ g)
   \<and> setDefaultFileScrapeInterval L iv2 (setDefaultFileScrapeInterval L iv fs) =
       setDefaultFileScrapeInterval L iv2 fs"
proof -
  have look: "fmlookup (setDefaultFileScrapeInterval L iv fs) g =
     (if g \<in> set defaultFilesArray \<and> writable L g
      then (case fmlookup fs (defaultPromConfigPathPrefix @ g) of None \<Rightarrow> fmlookup fs g
            | Some t \<Rightarrow> Some (ReplaceAll ''$$SCRAPE_INTERVAL$$'' iv t))
      else fmlookup fs g)" for g iv fs
    unfolding setDefaultFileScrapeInterval_def by (rule set_file_intervals) (rule default_file_relative)
  have tmpl: "fmlookup (setDefaultFileScrapeInterval L iv fs) (defaultPromConfigPathPrefix @ g) =
      fmlookup fs (defaultPromConfigPathPrefix @ g)" for g
    using default_file_relative [of "defaultPromConfigPathPrefix @ g" g] by (auto simp: look)
  have "setDefaultFileScrapeInterval L iv2 (setDefaultFileScrapeInterval L iv fs) =
      setDefaultFileScrapeInterval L iv2 fs"
    by (rule fmap_ext) (simp add: look [where iv = iv2] tmpl, simp add: look split: option.splits)
  with look tmpl show ?thesis by blast
qed

section \<open>The merged configuration\<close>

definition is_map :: "yval \<Rightarrow> bool" where
  "is_map v \<longleftrightarrow> (case v of YMap _ \<Rightarrow> True | _ \<Rightarrow> False)"

text \<open>The same job with the three label limits.\<close>

definition has_limits :: "yval \<Rightarrow> yval \<Rightarrow> bool" where
  "has_limits j j' \<longleftrightarrow>
     (case (j, j') of
        (YMap m, YMap m') \<Rightarrow>
          fmlookup m' (KStr ''label_limit'') = Some (YInt 63)
          \<and> fmlookup m' (KStr ''label_name_length_limit'') = Some (YInt 511)
          \<and> fmlookup m' (KStr ''label_value_length_limit'') = Some (YInt 1023)
          \<and> (\<forall>k. k \<notin> KStr ` {''label_limit'', ''label_name_length_limit'', ''label_value_length_limit''}
                \<longrightarrow> fmlookup m' k = fmlookup m k)
      | _ \<Rightarrow> False)"

lemma limit_labels_cases:
  "is_map j \<Longrightarrow> \<exists>j'. limit_labels j = Inr j' \<and> has_limits j j'"
  "\<not> is_map j \<Longrightarrow> limit_labels j = Inl NilMapWrite"
  by (cases j; auto simp: is_map_def has_limits_def)+

lemma limit_all_cases:
  "list_all is_map js \<Longrightarrow> \<exists>js'. limit_all js = Inr js' \<and> list_all2 has_limits js js'"
  "\<not> list_all is_map js \<Longrightarrow> limit_all js = Inl NilMapWrite"
proof (induction js)
  case (Cons j js)
  {
    case 1
    then show ?case using Cons.IH(1) limit_labels_cases(1) [of j] by auto
  next
    case 2
    then show ?case using Cons.IH limit_labels_cases [of j] by (cases "is_map j") auto
  }
qed simp_all

lemma gomap_len_pos: "fmlookup m k = Some v \<Longrightarrow> gomap_len m > 0"
  by (metis fmempty_lookup gomap_len_0 gr0I option.distinct(1))

lemma setGlobal_keeps_jobs:
  assumes "yaml_laws L" and "Unmarshal L txt = Some doc"
  obtains out fs' doc' where "setGlobalScrapeConfigInDefaultFilesIfExists L txt fs = (out, fs')"
    and "Unmarshal L out = Some doc'" and "fmlookup doc' scrape_configs = fmlookup doc scrape_configs"
proof -
  obtain iv doc' where r: "(case fmlookup doc (KStr ''global'') of
        Some (YMap globalConfig) \<Rightarrow>
          let si = as_string (fmlookup globalConfig (KStr ''scrape_interval'')) in
          if duration_matches si then (si, doc)
          else (''30s'', fmupd (KStr ''global'')
            (YMap (fmupd (KStr ''scrape_interval'') (YStr ''1m'') globalConfig)) doc)
      | _ \<Rightarrow> (''30s'', doc)) = (iv, doc')" by (meson surj_pair)
  then have sc: "fmlookup doc' scrape_configs = fmlookup doc scrape_configs"
    by (auto simp: Let_def split: option.splits yval.splits if_splits)
  obtain out where "Marshal L doc' = Some out" "Unmarshal L out = Some doc'"
    using yaml_lawsD(1) [OF assms(1)] by blast
  then show ?thesis using that sc assms(2) r by (simp add: setGlobalScrapeConfigInDefaultFilesIfExists_def)
qed

lemma setLabelLimits_cases:
  assumes "yaml_laws L" and "Unmarshal L txt = Some doc"
    and "fmlookup doc scrape_configs = Some (YSeq jobs)" and "jobs \<noteq> []"
  shows "list_all is_map jobs \<Longrightarrow> \<exists>out jobs'. setLabelLimitsPerScrape L txt = Inr out
      \<and> Unmarshal L out = Some (fmupd scrape_configs (YSeq jobs') doc) \<and> list_all2 has_limits jobs jobs'"
    and "\<not> list_all is_map jobs \<Longrightarrow> setLabelLimitsPerScrape L txt = Inl NilMapWrite"
proof -
  have pos: "gomap_len doc > 0" using assms(3) by (rule gomap_len_pos)
  {
    assume "list_all is_map jobs"
    then obtain jobs' where j: "limit_all jobs = Inr jobs'" "list_all2 has_limits jobs jobs'"
      using limit_all_cases(1) by blast
    obtain out where "Marshal L (fmupd scrape_configs (YSeq jobs') doc) = Some out"
        "Unmarshal L out = Some (fmupd scrape_configs (YSeq jobs') doc)"
      using yaml_lawsD(1) [OF assms(1)] by blast
    then show "\<exists>out jobs'. setLabelLimitsPerScrape L txt = Inr out
        \<and> Unmarshal L out = Some (fmupd scrape_configs (YSeq jobs') doc) \<and> list_all2 has_limits jobs jobs'"
      using assms j pos by (auto simp: setLabelLimitsPerScrape_def)
  next
    assume "\<not> list_all is_map jobs"
    then show "setLabelLimitsPerScrape L txt = Inl NilMapWrite"
      using assms pos limit_all_cases(2) by (simp add: setLabelLimitsPerScrape_def)
  }
qed

lemma merge_map_custom_jobs:
  "fmlookup d scrape_configs = Some (YSeq js) \<Longrightarrow> jobs_of (merge_map t d) = jobs_of t @ js"
proof -
  assume d: "fmlookup d scrape_configs = Some (YSeq js)"
  show ?thesis
  proof (cases "fmlookup t scrape_configs")
    case (Some v)
    then show ?thesis using d by (cases v) (simp_all add: jobs_of_def merge_map_lookup)
  qed (use d in \<open>simp add: jobs_of_def merge_map_lookup\<close>)
qed

lemma mergeDefaultAndCustom_jobs:
  assumes "yaml_laws L" and "Unmarshal L txt = Some doc"
    and "fmlookup doc scrape_configs = Some (YSeq jobs)" and "writable L promMergedConfigPath"
  shows "\<exists>out final. fmlookup (files (mergeDefaultAndCustomScrapeConfigs L txt s)) promMergedConfigPath = Some out
    \<and> Unmarshal L out = Some final \<and> jobs_of final = jobs_of (mergedDefaultConfigs s) @ jobs"
proof (cases "gomap_len (mergedDefaultConfigs s) > 0")
  case True
  let ?m = "deepMerge (range_order L) (mergedDefaultConfigs s) doc"
  obtain out where o: "Marshal L ?m = Some out" "Unmarshal L out = Some ?m"
    using yaml_lawsD(1) [OF assms(1)] by blast
  have "fmlookup (files (mergeDefaultAndCustomScrapeConfigs L txt s)) promMergedConfigPath = Some out"
    using True assms o(1) by (simp add: mergeDefaultAndCustomScrapeConfigs_def WriteFile_def Let_def)
  moreover have "jobs_of ?m = jobs_of (mergedDefaultConfigs s) @ jobs"
    using merge_map_custom_jobs [OF assms(3)] deepMerge_merge_map [OF yaml_lawsD(3) [OF assms(1)]] by simp
  ultimately show ?thesis using o(2) by blast
next
  case False
  then have "fmlookup (files (mergeDefaultAndCustomScrapeConfigs L txt s)) promMergedConfigPath = Some txt"
    using assms(4) by (simp only: mergeDefaultAndCustomScrapeConfigs_def if_False) (simp add: WriteFile_def)
  moreover have "jobs_of (mergedDefaultConfigs s) = []" using False by (simp add: jobs_of_def)
  ultimately show ?thesis using assms(2,3) by (auto simp: jobs_of_def)
qed

text \<open>
  C21: Running the merger on a custom configuration that decodes and lists jobs: if every job is a map,
  the merger finishes and the file it writes decodes to a configuration whose jobs are the merged
  default jobs followed by the custom jobs, each with the label limits 63, 511 and 1023 and otherwise
  unchanged; if some job is not a map, the merger panics (a write to a nil map).
\<close>

theorem merged_config_jobs:
  assumes "yaml_laws L" and "fmlookup (files s) configMapMountPath = Some txt" and "txt \<noteq> []"
    and "Unmarshal L txt = Some doc" and "fmlookup doc scrape_configs = Some (YSeq jobs)" and "jobs \<noteq> []"
    and "writable L promMergedConfigPath"
  shows "let fs1 = snd (setGlobalScrapeConfigInDefaultFilesIfExists L txt (files s));
             s1 = writeDefaultScrapeTargetsFile L env op (s\<lparr>mergedDefaultConfigs := fmempty, files := fs1\<rparr>)
         in if list_all is_map jobs
            then \<exists>s' out final limited. prometheusConfigMerger L env op s = Inr s'
              \<and> fmlookup (files s') promMergedConfigPath = Some out \<and> Unmarshal L out = Some final
              \<and> jobs_of final = jobs_of (mergedDefaultConfigs s1) @ limited
              \<and> list_all2 has_limits jobs limited
            else prometheusConfigMerger L env op s = Inl NilMapWrite"
proof -
  obtain out fs' doc' where g: "setGlobalScrapeConfigInDefaultFilesIfExists L txt (files s) = (out, fs')"
      "Unmarshal L out = Some doc'" "fmlookup doc' scrape_configs = Some (YSeq jobs)"
    using setGlobal_keeps_jobs [OF assms(1,4)] assms(5) by metis
  define s1 where "s1 = writeDefaultScrapeTargetsFile L env op (s\<lparr>mergedDefaultConfigs := fmempty, files := fs'\<rparr>)"
  have run: "prometheusConfigMerger L env op s =
      go_bind (setLabelLimitsPerScrape L out) (\<lambda>limited. Inr (mergeDefaultAndCustomScrapeConfigs L limited s1))"
    using assms(2,3) g(1) by (simp add: prometheusConfigMerger_def parseConfigMap_def s1_def)
  note lim = setLabelLimits_cases [OF assms(1) g(2,3) assms(6)]
  have "\<exists>s' out final limited. prometheusConfigMerger L env op s = Inr s'
      \<and> fmlookup (files s') promMergedConfigPath = Some out \<and> Unmarshal L out = Some final
      \<and> jobs_of final = jobs_of (mergedDefaultConfigs s1) @ limited \<and> list_all2 has_limits jobs limited"
    if all: "list_all is_map jobs"
  proof -
    obtain out2 jobs' where l: "setLabelLimitsPerScrape L out = Inr out2"
        "Unmarshal L out2 = Some (fmupd scrape_configs (YSeq jobs') doc')" "list_all2 has_limits jobs jobs'"
      using lim(1) [OF all] by blast
    from mergeDefaultAndCustom_jobs [OF assms(1) l(2) _ assms(7), of jobs' s1] l(1,3) run
    show ?thesis by auto
  qed
  moreover have "prometheusConfigMerger L env op s = Inl NilMapWrite" if "\<not> list_all is_map jobs"
    using lim(2) [OF that] run by simp
  ultimately show ?thesis using g(1) by (simp add: Let_def s1_def)
qed

theorem merged_config_jobs_witness:
  "\<exists>s' out final limited.
     prometheusConfigMerger unary_lib (demo_env ''replicaset'') True
       (demo_merger\<lparr>files := fmupd configMapMountPath (doc_text demo_doc) fmempty\<rparr>) = Inr s'
     \<and> fmlookup (files s') promMergedConfigPath = Some out \<and> Unmarshal unary_lib out = Some final
     \<and> list_all2 has_limits [demo_job] limited"
proof -
  have "list_all is_map [demo_job]" by (simp add: is_map_def demo_job_def)
  moreover have "fmlookup demo_doc scrape_configs = Some (YSeq [demo_job])" by (simp add: demo_doc_def)
  ultimately show ?thesis
    using merged_config_jobs [OF unary_lib_laws,
        of "demo_merger\<lparr>files := fmupd configMapMountPath (doc_text demo_doc) fmempty\<rparr>"
          "doc_text demo_doc" demo_doc "[demo_job]" "demo_env ''replicaset''" True]
    by (auto simp: Let_def)
qed

end
