(* ===== verification/ConfigMapFrames.thy ===== *)
theory ConfigMapFrames
  imports ConfigMap MergeResult
begin

text \<open>
  What the parsers of the config map promise: the shape of the parsed sections, which variables and files each parser can change, and
  what the merger finds afterwards in the environment and in the two hash files.
\<close>

section \<open>Lines\<close>

lemma set_TrimSpace: "set (TrimSpace s) \<subseteq> set s"
  by (auto simp: TrimSpace_def trim_by_def dest!: set_dropWhileD)

lemma trim_by_ends: "trim_by P s = [] \<or> \<not> P (hd (trim_by P s)) \<and> \<not> P (last (trim_by P s))"
proof (cases "trim_by P s = []")
  case False
  let ?t = "dropWhile P s"
  have r: "dropWhile P (rev ?t) \<noteq> []" using False by (simp add: trim_by_def)
  have "last (trim_by P s) = hd (dropWhile P (rev ?t))" using r by (simp add: trim_by_def last_rev)
  moreover have "\<not> P (hd (dropWhile P (rev ?t)))" using hd_dropWhile [OF r] .
  moreover have "hd (trim_by P s) = hd ?t"
  proof -
    have "suffix (dropWhile P (rev ?t)) (rev ?t)" by (rule suffix_dropWhile)
    then have "prefix (trim_by P s) ?t" by (simp add: trim_by_def suffix_to_prefix)
    with False show ?thesis by (auto simp: prefix_def neq_Nil_conv)
  qed
  moreover have "?t \<noteq> []" using r by (metis dropWhile.simps(1) rev.simps(1))
  ultimately show ?thesis using hd_dropWhile [of P s] by simp
qed simp

lemma TrimSpace_ends: "TrimSpace s = '''' \<or> \<not> is_space (hd (TrimSpace s)) \<and> \<not> is_space (last (TrimSpace s))"
  unfolding TrimSpace_def by (rule trim_by_ends)

lemma TrimSpace_fixed: "s = '''' \<or> \<not> is_space (hd s) \<and> \<not> is_space (last s) \<Longrightarrow> TrimSpace s = s"
proof (cases "s = ''''")
  case False
  assume "s = '''' \<or> \<not> is_space (hd s) \<and> \<not> is_space (last s)"
  with False have "dropWhile is_space s = s" "dropWhile is_space (rev s) = rev s" by (simp_all add: dropWhile_eq_self_iff hd_rev)
  then show ?thesis by (simp add: TrimSpace_def trim_by_def)
qed (simp add: TrimSpace_def trim_by_def)

lemma TrimSpace_idem [simp]: "TrimSpace (TrimSpace s) = TrimSpace s"
  by (rule TrimSpace_fixed [OF TrimSpace_ends])

lemma raw_lines_no_newline: "l \<in> set (raw_lines s) \<Longrightarrow> CHR 0x0A \<notin> set l"
  by (induction s rule: raw_lines.induct) (auto dest: set_takeWhileD simp del: takeWhile.simps split: if_splits)

lemma set_drop_cr: "set (drop_cr l) \<subseteq> set l"
  by (auto simp: drop_cr_def dest: in_set_butlastD)

lemma scan_lines_no_newline: "scan_lines s = (ls, failed) \<Longrightarrow> l \<in> set ls \<Longrightarrow> CHR 0x0A \<notin> set l"
  using raw_lines_no_newline set_drop_cr by (fastforce simp: scan_lines_def dest: set_takeWhileD)

lemma set_RemoveQuotes: "set (RemoveQuotes s) \<subseteq> set s"
proof -
  have "set (butlast (tl (TrimSpace s))) \<subseteq> set (TrimSpace s)"
    by (cases "TrimSpace s") (auto dest: in_set_butlastD)
  then show ?thesis using set_TrimSpace [of s] by (auto simp: RemoveQuotes_def Let_def)
qed

lemma key_value_parts:
  assumes "key_value line = Some (k, v)"
  shows "set k \<subseteq> set line" "set v \<subseteq> set line" "CHR ''='' \<notin> set k" "k \<noteq> ''''" "TrimSpace k = k"
proof -
  let ?k = "takeWhile (\<lambda>c. c \<noteq> CHR ''='') line"
  let ?v = "drop 1 (dropWhile (\<lambda>c. c \<noteq> CHR ''='') line)"
  have k: "k = TrimSpace ?k" and v: "v = RemoveQuotes (TrimSpace ?v)" and ne: "k \<noteq> ''''"
    using assms by (auto simp: key_value_def Let_def split: if_splits)
  show "set k \<subseteq> set line" using k set_TrimSpace [of ?k] by (auto dest: set_takeWhileD)
  show "set v \<subseteq> set line" using v set_RemoveQuotes [of "TrimSpace ?v"] set_TrimSpace [of ?v]
    by (auto dest!: in_set_dropD set_dropWhileD)
  show "CHR ''='' \<notin> set k" using k set_TrimSpace [of ?k] by (auto dest: set_takeWhileD)
  show "k \<noteq> ''''" by (fact ne)
  show "TrimSpace k = k" by (simp add: k)
qed

section \<open>The parsed sections\<close>

text \<open>
  What the parsers promise of a section: keys are trimmed, not empty and without \<open>=\<close>, and no key or value
  contains a line break.
\<close>

definition wf_entry :: "string \<Rightarrow> string \<Rightarrow> bool" where
  "wf_entry k v \<longleftrightarrow> k \<noteq> '''' \<and> TrimSpace k = k \<and> CHR ''='' \<notin> set k \<and> CHR 0x0A \<notin> set k \<and> CHR 0x0A \<notin> set v"

definition wf_section :: "(string, string) gomap \<Rightarrow> bool" where
  "wf_section kv \<longleftrightarrow> (\<forall>k v. fmlookup kv k = Some v \<longrightarrow> wf_entry k v)"

definition wf_sections :: "sections \<Rightarrow> bool" where
  "wf_sections m \<longleftrightarrow> (\<forall>sec kv. fmlookup m sec = Some kv \<longrightarrow> wf_section kv)"

lemma wf_section_empty [simp]: "wf_section fmempty"
  by (simp add: wf_section_def)

lemma wf_section_upd: "wf_section kv \<Longrightarrow> wf_entry k v \<Longrightarrow> wf_section (fmupd k v kv)"
  by (auto simp: wf_section_def)

lemma wf_sections_empty [simp]: "wf_sections fmempty"
  by (simp add: wf_sections_def)

lemma wf_sections_upd: "wf_sections m \<Longrightarrow> wf_section kv \<Longrightarrow> wf_sections (fmupd sec kv m)"
  by (auto simp: wf_sections_def)

lemma wf_sections_get: "wf_sections m \<Longrightarrow> wf_section (get0 fmempty m sec)"
  by (auto simp: wf_sections_def get0_def split: option.split)

lemma key_value_wf: "CHR 0x0A \<notin> set l \<Longrightarrow> key_value (TrimSpace l) = Some (k, v) \<Longrightarrow> wf_entry k v"
  using key_value_parts [of "TrimSpace l" k v] set_TrimSpace [of l] by (auto simp: wf_entry_def)

lemma metrics_line_wf: "wf_sections (snd s) \<Longrightarrow> CHR 0x0A \<notin> set l \<Longrightarrow> wf_sections (snd (metrics_line s l))"
  by (auto simp: metrics_line_def Let_def split: prod.splits option.splits
      intro!: wf_sections_upd wf_section_upd wf_sections_get dest: key_value_wf)

lemma v1_line_wf: "wf_section m \<Longrightarrow> CHR 0x0A \<notin> set l \<Longrightarrow> wf_section (v1_line m l)"
  by (auto simp: v1_line_def Let_def split: prod.splits option.splits intro!: wf_section_upd dest: key_value_wf)

lemma foldl_invariant: "P s \<Longrightarrow> (\<And>s x. x \<in> set xs \<Longrightarrow> P s \<Longrightarrow> P (f s x)) \<Longrightarrow> P (foldl f s xs)"
  by (induction xs arbitrary: s) auto

lemma parseMetricsFileInto_wf: "wf_sections m \<Longrightarrow> parseMetricsFileInto fs f m = Inr m' \<Longrightarrow> wf_sections m'"
proof -
  assume m: "wf_sections m" and r: "parseMetricsFileInto fs f m = Inr m'"
  have "wf_sections (snd (foldl metrics_line ('''', m) ls))" if "scan_lines s = (ls, failed)" for s ls failed
    using metrics_line_wf scan_lines_no_newline [OF that] m
    by (intro foldl_invariant [where P = "\<lambda>s. wf_sections (snd s)"]) simp_all
  with r m show "wf_sections m'" by (auto simp: parseMetricsFileInto_def split: file_state.splits prod.splits if_splits)
qed

lemma ParseMetricsFiles_wf: "ParseMetricsFiles fs fl = Inr m \<Longrightarrow> wf_sections m"
proof -
  have "wf_sections m0 \<Longrightarrow> ParseMetricsFiles_into fs fl m0 = Inr m \<Longrightarrow> wf_sections m" for m0
    by (induction fl arbitrary: m0) (auto split: sum.splits dest: parseMetricsFileInto_wf)
  from this [of fmempty] show "ParseMetricsFiles fs fl = Inr m \<Longrightarrow> wf_sections m" by (simp add: ParseMetricsFiles_def)
qed

lemma v1_file_wf: "wf_sections m \<Longrightarrow> wf_sections (v1_file m e)"
proof -
  assume m: "wf_sections m"
  have "wf_section (foldl v1_line fmempty ls)" if "scan_lines s = (ls, failed)" for s ls failed
    using v1_line_wf scan_lines_no_newline [OF that] by (intro foldl_invariant [where P = wf_section]) simp_all
  with m show "wf_sections (v1_file m e)" by (auto simp: v1_file_def split: file_state.splits prod.splits intro!: wf_sections_upd)
qed

lemma ParseV1Config_wf: "ParseV1Config d = Some m \<Longrightarrow> wf_sections m"
  by (auto simp: ParseV1Config_def intro!: foldl_invariant [where P = wf_sections] v1_file_wf)

lemma read_sections_wf: "read_sections L s = Some m \<Longrightarrow> wf_sections m"
  by (auto simp: read_sections_def Let_def split: if_splits sum.splits dest: ParseMetricsFiles_wf ParseV1Config_wf)

section \<open>What reading an environment file can change\<close>

definition line_ok :: "string \<times> string \<Rightarrow> bool" where
  "line_ok kv \<longleftrightarrow> CHR 0x0A \<notin> set (fst kv) \<and> CHR ''='' \<notin> set (fst kv) \<and> CHR 0x0A \<notin> set (snd kv)"

lemma raw_lines_env_file: "list_all line_ok kvs \<Longrightarrow> raw_lines (env_file kvs) = map env_line kvs"
proof (induction kvs)
  case (Cons kv kvs)
  then show ?case
    using raw_lines_cons [of "env_line kv" "env_file kvs"] by (auto simp: env_file_def env_line_def line_ok_def split: prod.splits)
qed (simp add: env_file_def)

lemma drop_cr_env_line: "\<exists>v. drop_cr (env_line kv) = env_line (fst kv, v)"
proof (cases "snd kv = []")
  case True
  then show ?thesis by (intro exI [of _ "[]"]) (simp add: drop_cr_def env_line_def)
next
  case False
  then show ?thesis by (intro exI [of _ "drop_cr (snd kv)"]) (simp add: drop_cr_def env_line_def butlast_append)
qed

lemma Setenv_other: "x \<noteq> k \<Longrightarrow> Setenv env k v x = env x"
  by (simp add: Setenv_def)

lemma set_env_line_other: "CHR ''='' \<notin> set k \<Longrightarrow> x \<noteq> k \<Longrightarrow> set_env_line env (env_line (k, v)) x = env x"
  by (simp add: set_env_line_def env_line_def split_char_append Setenv_other split: list.split)

lemma set_env_first_env_line: "CHR ''='' \<notin> set k \<Longrightarrow> set_env_first env (env_line (k, v)) = Setenv env k v"
  by (auto simp: set_env_first_def env_line_def takeWhile_append dropWhile_append)

lemma scan_env_file:
  assumes "list_all line_ok kvs" and "l \<in> set (fst (scan_lines (env_file kvs)))"
  shows "\<exists>kv v. kv \<in> set kvs \<and> l = env_line (fst kv, v)"
proof -
  from assms obtain kv where "kv \<in> set kvs" "l = drop_cr (env_line kv)"
    by (auto simp: scan_lines_def raw_lines_env_file dest!: set_takeWhileD)
  with drop_cr_env_line show ?thesis by metis
qed

lemma SetEnvVars_other:
  assumes "list_all line_ok kvs" and "x \<notin> fst ` set kvs"
  shows "snd (SetEnvVarsFromFile f (Content (env_file kvs)) env) x = env x"
proof -
  have "foldl set_env_line env (fst (scan_lines (env_file kvs))) x = env x"
  proof (rule foldl_invariant [where P = "\<lambda>e. e x = env x"])
    fix e l assume "l \<in> set (fst (scan_lines (env_file kvs)))" "e x = env x"
    then obtain kv v where "kv \<in> set kvs" "l = env_line (fst kv, v)" using scan_env_file [OF assms(1)] by blast
    moreover from this have "CHR ''='' \<notin> set (fst kv)" "x \<noteq> fst kv" using assms by (auto simp: list_all_iff line_ok_def)
    ultimately show "set_env_line e l x = env x" using set_env_line_other \<open>e x = env x\<close> by metis
  qed simp
  then show ?thesis by (auto simp: SetEnvVarsFromFile_def split: prod.split)
qed

section \<open>Frames of the parsers\<close>

definition env_frame :: "string set \<Rightarrow> cm_state \<Rightarrow> cm_state \<Rightarrow> bool" where
  "env_frame V s s' \<longleftrightarrow> (\<forall>x. x \<notin> V \<longrightarrow> cm_env s' x = cm_env s x)"

lemma env_frame_refl [intro, simp]: "cm_env s' = cm_env s \<Longrightarrow> env_frame V s s'"
  by (simp add: env_frame_def)

lemma env_frame_trans: "env_frame V s s' \<Longrightarrow> env_frame W s' s'' \<Longrightarrow> env_frame (V \<union> W) s s''"
  by (simp add: env_frame_def)

lemma env_frame_mono: "env_frame V s s' \<Longrightarrow> V \<subseteq> W \<Longrightarrow> env_frame W s s'"
  by (auto simp: env_frame_def)

lemma set_var_frame: "env_frame {k} s (set_var k v s)"
  by (simp add: env_frame_def set_var_def Setenv_other)

lemma create_file_Some:
  "create_file L f c s = Some s' \<longleftrightarrow> writable (base L) f \<and> s' = s\<lparr>cm_files := fmupd f c (cm_files s)\<rparr>"
  by (auto simp: create_file_def WriteFile_def)

lemma handle_created_frame:
  assumes "create_file L f (env_file kvs) s = Some s'" and "list_all line_ok kvs"
  shows "env_frame (fst ` set kvs) s (handleEnvFileError L f s')"
  using assms SetEnvVars_other [OF assms(2)]
  by (auto simp: env_frame_def handleEnvFileError_def create_file_Some file_at_def)

lemma line_ok_plain: "plain k \<Longrightarrow> CHR 0x0A \<notin> set v \<Longrightarrow> line_ok (k, v)"
  using plainD [of k] by (simp add: line_ok_def)

abbreviation pod_vars :: "string set" where
  "pod_vars \<equiv> {envVariableTemplateName, envVariableAnnotationsEnabledName}"

lemma pod_names: "plain envVariableTemplateName" "plain envVariableAnnotationsEnabledName"
  by (code_simp)+

lemma pod_annotations_env:
  assumes "wf_sections m"
  shows "env_frame pod_vars s (parseSettingsForPodAnnotations L (Some m) s)"
proof (cases "configurePodAnnotationSettings L (Some m) s")
  case (Pair e s')
  show ?thesis
  proof (cases e)
    case (Some err)
    then show ?thesis using Pair
      by (auto simp: parseSettingsForPodAnnotations_def configurePodAnnotationSettings_def split: sum.splits option.splits)
  next
    case None
    then obtain regex where r: "populatePodAnnotationNamespaceFromConfigMap L m = Inr regex" and w: "writeConfigToFile L regex s = Some s'"
      using Pair by (auto simp: configurePodAnnotationSettings_def split: sum.splits option.splits)
    let ?kvs = "pod_annotation_vars regex"
    have "CHR 0x0A \<notin> set regex" using r assms
      by (auto simp: populatePodAnnotationNamespaceFromConfigMap_def wf_sections_def wf_section_def wf_entry_def split: option.splits if_splits)
    then have ok: "list_all line_ok ?kvs" by (auto simp: pod_annotation_vars_def intro!: line_ok_plain pod_names)
    have c: "file_at L (cm_files s') podAnnotationEnvVarPath = Content (env_file ?kvs)" "cm_env s' = cm_env s"
      using w by (auto simp: writeConfigToFile_def create_file_Some file_at_def)
    have "foldl set_env_first (cm_env s) (fst (scan_lines (env_file ?kvs))) x = cm_env s x" if "x \<notin> pod_vars" for x
    proof (rule foldl_invariant [where P = "\<lambda>e. e x = cm_env s x"])
      fix e l assume "l \<in> set (fst (scan_lines (env_file ?kvs)))" "e x = cm_env s x"
      then obtain kv v where kv: "kv \<in> set ?kvs" "l = env_line (fst kv, v)" using scan_env_file [OF ok] by blast
      then have "CHR ''='' \<notin> set (fst kv)" "x \<noteq> fst kv" using ok that
        by (auto simp: list_all_iff line_ok_def pod_annotation_vars_def split: if_splits)
      then show "set_env_first e l x = cm_env s x" using kv \<open>e x = cm_env s x\<close> by (simp add: set_env_first_env_line Setenv_other)
    qed simp
    then show ?thesis using Pair None c by (simp add: parseSettingsForPodAnnotations_def handlePodAnnotationsFile_def env_frame_def)
  qed
qed

lemma set_split_char: "p \<in> set (split_char c s) \<Longrightarrow> set p \<subseteq> set s"
  by (induction s arbitrary: p) (auto split: if_splits list.splits, fastforce+)

lemma split_char_sep: "p \<in> set (split_char c s) \<Longrightarrow> c \<notin> set p"
  by (induction s arbitrary: p) (auto split: if_splits list.splits)

lemma replace_runs_chars: "c \<in> set (replace_runs b s) \<Longrightarrow> is_alnum c \<or> c = CHR ''_''"
  by (induction b s rule: replace_runs.induct) (auto split: if_splits)

lemma clean_alias_chars: "c \<in> set (clean_alias s) \<Longrightarrow> is_alnum c \<or> c = CHR ''_''"
  by (auto simp: clean_alias_def trim_by_def dest!: set_dropWhileD replace_runs_chars split: if_splits)

lemma clean_alias_no_newline: "CHR 0x0A \<notin> set (clean_alias s)"
  using clean_alias_chars [of "CHR 0x0A" s] by (auto simp: is_alnum_def)

lemma collector_setting_wf: "wf_sections m \<Longrightarrow> collector_setting m key = Some v \<Longrightarrow> CHR 0x0A \<notin> set v"
  by (auto simp: collector_setting_def bind_eq_Some_conv wf_sections_def wf_section_def wf_entry_def)

lemma split_namespaces_chars: "ns \<in> set (split_namespaces v) \<Longrightarrow> set ns \<subseteq> set v"
  using set_split_char set_TrimSpace by (fastforce simp: split_namespaces_def)

lemma set_Join: "set (Join xs sep) \<subseteq> \<Union> (set ` set xs) \<union> set sep"
  by (induction xs sep rule: Join.induct) auto

abbreviation collector_names :: "string list" where
  "collector_names \<equiv>
     [''AZMON_DEFAULT_METRIC_ACCOUNT_NAME'', ''AZMON_CLUSTER_LABEL'', ''AZMON_CLUSTER_ALIAS'', ''AZMON_OPERATOR_ENABLED_CHART_SETTING'',
      ''AZMON_OPERATOR_ENABLED'', ''AZMON_OPERATOR_ENABLED_CFG_MAP_SETTING'', ''AZMON_OPERATOR_HTTPS_ENABLED_CHART_SETTING'',
      ''AZMON_OPERATOR_HTTPS_ENABLED'', ''AZMON_SECRETS_ACCESS_NAMESPACES'']"

lemma collector_names_plain: "list_all plain collector_names"
  by code_simp

lemma collector_vars_names: "fst ` set (collector_vars cp) \<subseteq> set collector_names"
  by (auto simp: collector_vars_def)

text \<open>The text fields of the processor that come from the config map.\<close>

definition clean_fields :: "ConfigProcessor \<Rightarrow> bool" where
  "clean_fields cp \<longleftrightarrow> CHR 0x0A \<notin> set (DefaultMetricAccountName cp) \<and> CHR 0x0A \<notin> set (ClusterAlias cp) \<and>
     list_all (\<lambda>ns. CHR 0x0A \<notin> set ns) (SecretsAccessNamespaces cp)"

lemma populated_clean:
  assumes "wf_sections m" and "clean_fields cp"
  shows "clean_fields (PopulateSettingValuesFromConfigMap env m cp)"
proof -
  have ns: "list_all (\<lambda>ns. CHR 0x0A \<notin> set ns) (split_namespaces (TrimSpace v))"
    if "collector_setting m key = Some v" for key v
    using collector_setting_wf [OF assms(1) that] split_namespaces_chars set_TrimSpace by (fastforce simp: list_all_iff)
  have a: "clean_fields (set_account m cp)" using assms collector_setting_wf by (auto simp: set_account_def clean_fields_def split: option.split)
  have b: "clean_fields (set_alias m cp)" if "clean_fields cp" for cp
    using that clean_alias_no_newline by (auto simp: set_alias_def clean_fields_def split: option.split)
  have c: "clean_fields (set_operator env m cp)" if "clean_fields cp" for cp
    using that by (auto simp: set_operator_def clean_fields_def Let_def split: option.split)
  have d: "clean_fields (set_secrets m cp)" if "clean_fields cp" for cp
    using that ns by (auto simp: set_secrets_def clean_fields_def split: option.split)
  have e: "clean_fields (set_https env m cp)" if "clean_fields cp" for cp
    using that by (auto simp: set_https_def clean_fields_def Let_def split: option.split)
  show ?thesis unfolding PopulateSettingValuesFromConfigMap_def by (intro a b c d e)
qed

lemma collector_vars_ok:
  assumes "clean_fields cp" and "CHR 0x0A \<notin> set (ClusterLabel cp)"
  shows "list_all line_ok (collector_vars cp)"
proof -
  have "CHR 0x0A \<notin> set (Join (SecretsAccessNamespaces cp) '','')"
    using assms(1) set_Join [of "SecretsAccessNamespaces cp" "'',''"] by (auto simp: clean_fields_def list_all_iff)
  then have "\<forall>kv \<in> set (collector_vars cp). CHR 0x0A \<notin> set (snd kv)"
    using assms by (auto simp: collector_vars_def clean_fields_def print_bool_def split: if_splits)
  moreover have "\<forall>kv \<in> set (collector_vars cp). plain (fst kv)"
    using collector_vars_names collector_names_plain by (fastforce simp: list_all_iff)
  ultimately show ?thesis using plainD by (fastforce simp: list_all_iff line_ok_def)
qed

lemma split_char_nonempty [simp]: "split_char c s \<noteq> []"
  by (induction s) (auto split: list.split)

lemma cluster_name_chars: "set (cluster_name env) \<subseteq> set (Getenv env ''CLUSTER'')"
proof -
  let ?c = "Getenv env ''CLUSTER''"
  have "set (last (split_char CHR ''/'' (TrimSpace ?c))) \<subseteq> set (TrimSpace ?c)" by (rule set_split_char [OF last_in_set]) simp
  also have "\<dots> \<subseteq> set ?c" by (rule set_TrimSpace)
  finally show ?thesis by (simp add: cluster_name_def)
qed

definition no_newline_in :: "environ \<Rightarrow> string \<Rightarrow> bool" where
  "no_newline_in env v \<longleftrightarrow> CHR 0x0A \<notin> set (Getenv env v)"

lemma configured_ok:
  assumes "wf_sections m" and "clean_fields cp" and "no_newline_in env ''CLUSTER''"
  shows "list_all line_ok (collector_vars (configured env m cp))"
proof (rule collector_vars_ok)
  let ?cp = "if supported_schema env \<and> gomap_len m > 0 then PopulateSettingValuesFromConfigMap env m cp else cp"
  have cf: "clean_fields ?cp" using assms populated_clean by simp
  have l: "CHR 0x0A \<notin> set (cluster_name env)" using assms(3) cluster_name_chars [of env] by (auto simp: no_newline_in_def)
  show "clean_fields (configured env m cp)" using cf by (simp add: configured_def clean_fields_def Let_def)
  show "CHR 0x0A \<notin> set (ClusterLabel (configured env m cp))" using cf l by (simp add: configured_def clean_fields_def Let_def)
qed

abbreviation sections_of :: "sections option \<Rightarrow> sections" where
  "sections_of m \<equiv> case m of None \<Rightarrow> fmempty | Some m \<Rightarrow> m"

abbreviation initial_processor :: "environ \<Rightarrow> ConfigProcessor" where
  "initial_processor env \<equiv>
     empty_processor\<lparr>TargetallocatorHttpsEnabled := (ToLower (Getenv env ''OPERATOR_TARGETS_HTTPS_ENABLED'') = ''true'')\<rparr>"

lemma initial_clean: "clean_fields (initial_processor env)"
  by (simp add: clean_fields_def empty_processor_def)

lemma collector_config_state:
  assumes "writable (base L) collectorSettingsEnvVarPath"
  shows "parsePrometheusCollectorConfig L m s =
    handleEnvFileError L collectorSettingsEnvVarPath (s\<lparr>cm_files := fmupd collectorSettingsEnvVarPath
      (env_file (collector_vars (configured (cm_env s) (sections_of m) (initial_processor (cm_env s))))) (cm_files s)\<rparr>)"
  using assms
  by (simp add: parsePrometheusCollectorConfig_def parseConfigAndSetEnvInFile_def Configure_def WriteConfigToFile_def
      create_file_def WriteFile_def)

lemma collector_config_env:
  assumes "wf_sections (sections_of m)" and "no_newline_in (cm_env s) ''CLUSTER''" and "writable (base L) collectorSettingsEnvVarPath"
  shows "env_frame (set collector_names) s (parsePrometheusCollectorConfig L m s)"
  unfolding collector_config_state [OF assms(3)]
  by (rule env_frame_mono [OF handle_created_frame collector_vars_names])
    (auto simp: create_file_Some assms(3) intro!: configured_ok assms initial_clean)

abbreviation target_names_of :: "string set" where
  "target_names_of \<equiv> insert no_default_var ((\<lambda>(k, e, w). w) ` set target_settings)"

lemma setting_value_wf:
  assumes "wf_sections m" and "(k, e, w) \<in> set target_settings"
  shows "CHR 0x0A \<notin> set (setting_value env m k e)"
proof -
  have "CHR 0x0A \<notin> set e" using assms(2) by (auto simp: target_settings_def)
  then show ?thesis using wf_sections_get [OF assms(1)] by (auto simp: setting_value_def wf_section_def wf_entry_def split: option.split)
qed

lemma settings_file_ok:
  assumes "wf_sections m" and "set kvs = insert (no_default_var, print_bool b) ((\<lambda>(k, e, w). (w, setting_value env m k e)) ` set target_settings)"
  shows "list_all line_ok kvs" "fst ` set kvs \<subseteq> target_names_of"
proof -
  have "line_ok (no_default_var, print_bool b)" by (rule line_ok_plain [OF target_names(3)]) (simp add: print_bool_def)
  moreover have "line_ok (w, setting_value env m k e)" if "(k, e, w) \<in> set target_settings" for k e w
    using target_names(2) that setting_value_wf [OF assms(1) that] by (intro line_ok_plain) (auto simp: list_all_iff)
  ultimately show "list_all line_ok kvs" by (auto simp: list_all_iff assms(2))
  show "fst ` set kvs \<subseteq> target_names_of" unfolding assms(2) by force
qed

lemma default_settings_env:
  assumes "wf_sections (sections_of m)" and "writable (base L) defaultSettingsEnvVarPath"
  shows "env_frame target_names_of s (run_default_settings L m s)"
proof -
  let ?m = "sections_of m"
  obtain kvs b where c: "ConfigureDefaultScrapeSettings (cm_env s) ?m = env_file kvs"
    and set: "set kvs = insert (no_default_var, print_bool b) ((\<lambda>(k, e, w). (w, setting_value (cm_env s) ?m k e)) ` set target_settings)"
    by (rule settings_file [of "cm_env s" ?m])
  note ok = settings_file_ok [OF assms(1) set]
  show ?thesis
    unfolding run_default_settings_def c
    by (rule env_frame_mono [OF handle_created_frame ok(2)]) (use assms(2) ok(1) in \<open>auto simp: create_file_def WriteFile_def\<close>)
qed

lemma debug_env: "env_frame {''DEBUG_MODE_ENABLED''} s (parseDebugModeSettings L m s)"
proof -
  have ok: "list_all line_ok [(''DEBUG_MODE_ENABLED'', print_bool b)]" for b
    by (simp add: line_ok_def print_bool_def)
  have keep: "debug_collector_config L s' = (e, s'') \<Longrightarrow> cm_env s'' = cm_env s' \<and> (s'' \<noteq> s' \<longrightarrow> (\<exists>c. s'' = s'\<lparr>cm_files := fmupd replicaSetCollectorConfig c (cm_files s')\<rparr>))"
    for s' e s'' by (auto simp: debug_collector_config_def create_file_def WriteFile_def split: option.splits if_splits)
  show ?thesis
  proof (cases "ConfigureDebugModeSettings L m s")
    case (Pair e s')
    have e: "cm_env s' = cm_env s" using Pair keep
      by (auto simp: ConfigureDebugModeSettings_def Let_def create_file_Some split: option.splits if_splits dest!: keep)
    show ?thesis
    proof (cases e)
      case None
      have ne: "replicaSetCollectorConfig \<noteq> debugModeEnvVarPath" by (simp add: replicaSetCollectorConfig_def debugModeEnvVarPath_def)
      have "\<exists>b. fmlookup (cm_files s') debugModeEnvVarPath = Some (env_file [(''DEBUG_MODE_ENABLED'', print_bool b)])"
        using Pair None keep ne
        by (fastforce simp: ConfigureDebugModeSettings_def Let_def create_file_Some split: option.splits if_splits dest!: keep)
      then obtain b where "fmlookup (cm_files s') debugModeEnvVarPath = Some (env_file [(''DEBUG_MODE_ENABLED'', print_bool b)])" ..
      then show ?thesis using Pair None e SetEnvVars_other [OF ok]
        by (auto simp: parseDebugModeSettings_def handleEnvFileError_def file_at_def env_frame_def)
    qed (use Pair e in \<open>simp add: parseDebugModeSettings_def\<close>)
  qed
qed

lemma otel_env: "env_frame {''AZMON_FULL_OTLP_ENABLED''} s (parseOpentelemetryMetricsSettings L m s)"
proof (cases "\<exists>v s'. create_file L opentelemetryMetricsEnvVarPath (env_file [(''AZMON_FULL_OTLP_ENABLED'', print_bool v)]) s = Some s' \<and>
    parseOpentelemetryMetricsSettings L m s = handleEnvFileError L opentelemetryMetricsEnvVarPath s'")
  case True
  then obtain v s' where c: "create_file L opentelemetryMetricsEnvVarPath (env_file [(''AZMON_FULL_OTLP_ENABLED'', print_bool v)]) s = Some s'"
    and p: "parseOpentelemetryMetricsSettings L m s = handleEnvFileError L opentelemetryMetricsEnvVarPath s'" by blast
  show ?thesis unfolding p by (rule env_frame_mono [OF handle_created_frame [OF c]]) (simp_all add: line_ok_def print_bool_def)
next
  case False
  then show ?thesis
    by (auto simp: parseOpentelemetryMetricsSettings_def ConfigureOpentelemetryMetricsSettings_def split: option.splits)
qed

lemma ksm_env: "env_frame {''AZMON_KSM_CONFIG_ENABLED''} s (parseKSMSettings L m s)"
proof (cases "\<exists>s'. create_file L ksmConfigEnvVarPath (env_file [(''AZMON_KSM_CONFIG_ENABLED'', ''true'')]) s = Some s' \<and>
    parseKSMSettings L m s = handleEnvFileError L ksmConfigEnvVarPath s'")
  case True
  then obtain s' where c: "create_file L ksmConfigEnvVarPath (env_file [(''AZMON_KSM_CONFIG_ENABLED'', ''true'')]) s = Some s'"
    and p: "parseKSMSettings L m s = handleEnvFileError L ksmConfigEnvVarPath s'" by blast
  show ?thesis unfolding p by (rule env_frame_mono [OF handle_created_frame [OF c]]) (simp_all add: line_ok_def)
next
  case False
  then show ?thesis by (auto simp: parseKSMSettings_def split: option.splits)
qed

lemma keep_list_env: "env_frame {''MINIMAL_INGESTION_PROFILE''} s (tomlparserTargetsMetricsKeepList L m s)"
proof -
  have "fst (keep_profile m env) x = env x" if "x \<noteq> ''MINIMAL_INGESTION_PROFILE''" for x env
    using that by (auto simp: keep_profile_def Let_def Setenv_other split: option.split)
  moreover have "fst (populateKeepList v m env) = fst (keep_profile m env)" for v env
    by (simp add: populateKeepList_def Let_def split: prod.split sum.split)
  moreover have "cm_env (tomlparserTargetsMetricsKeepList L m s) = fst (populateKeepList (valid_regex L) m (cm_env s))"
    by (simp add: tomlparserTargetsMetricsKeepList_def Let_def split: prod.split sum.split option.split)
  ultimately show ?thesis by (simp add: env_frame_def)
qed

lemma interval_env: "env_frame {} s (tomlparserScrapeInterval L m s)"
  by (auto simp: tomlparserScrapeInterval_def split: option.split)

section \<open>The settings phase\<close>

definition config_vars :: "string list" where
  "config_vars =
     [''AZMON_AGENT_CFG_SCHEMA_VERSION'', ''AZMON_AGENT_CFG_FILE_VERSION'', ''CONFIGMAP_VERSION'', ''MINIMAL_INGESTION_PROFILE'',
      ''DEBUG_MODE_ENABLED'', ''AZMON_FULL_OTLP_ENABLED'', ''AZMON_KSM_CONFIG_ENABLED'', envVariableTemplateName,
      envVariableAnnotationsEnabledName, no_default_var] @ collector_names @ map (\<lambda>t. snd (snd t)) target_settings"

text \<open>The states between the parsers: after the versions, before and after the default settings, and at the end.\<close>

definition versioned :: "cm_lib \<Rightarrow> cm_state \<Rightarrow> cm_state" where
  "versioned L s = setConfigSchemaVersionEnv L (setConfigFileVersionEnv L s)"

definition before_defaults :: "cm_lib \<Rightarrow> cm_state \<Rightarrow> cm_state" where
  "before_defaults L s =
     (let s1 = versioned L s; m = read_sections L s1
      in parsePrometheusCollectorConfig L m (parseSettingsForPodAnnotations L m (set_var ''CONFIGMAP_VERSION'' (configmap_version L s1) s1)))"

definition after_switches :: "cm_lib \<Rightarrow> sections option \<Rightarrow> cm_state \<Rightarrow> cm_state" where
  "after_switches L m s = parseKSMSettings L m (parseOpentelemetryMetricsSettings L m (parseDebugModeSettings L m s))"

lemma parse_settings_states:
  "parse_settings L s =
     (let m = read_sections L (versioned L s)
      in tomlparserScrapeInterval L m (tomlparserTargetsMetricsKeepList L m
           (after_switches L m (run_default_settings L m (before_defaults L s)))))"
  by (simp add: parse_settings_def versioned_def before_defaults_def after_switches_def Let_def)

lemma sections_wf: "wf_sections (sections_of (read_sections L s))"
  by (cases "read_sections L s") (auto dest: read_sections_wf)

lemma versioned_frame: "env_frame {''AZMON_AGENT_CFG_SCHEMA_VERSION'', ''AZMON_AGENT_CFG_FILE_VERSION''} s (versioned L s)"
  by (simp add: env_frame_def versioned_def setConfigSchemaVersionEnv_def setConfigFileVersionEnv_def set_var_def Setenv_other)

lemma pod_annotations_frame: "env_frame pod_vars s (parseSettingsForPodAnnotations L (read_sections L s') s)"
proof (cases "read_sections L s'")
  case None
  then show ?thesis by (simp add: parseSettingsForPodAnnotations_def configurePodAnnotationSettings_def)
next
  case (Some m)
  then show ?thesis using pod_annotations_env [OF read_sections_wf [OF Some]] by simp
qed

definition settings_ready :: "cm_lib \<Rightarrow> cm_state \<Rightarrow> bool" where
  "settings_ready L s \<longleftrightarrow> no_newline_in (cm_env s) ''CLUSTER'' \<and> writable (base L) collectorSettingsEnvVarPath \<and>
     writable (base L) defaultSettingsEnvVarPath"

lemma before_defaults_frame:
  assumes "settings_ready L s"
  shows "env_frame (insert ''CONFIGMAP_VERSION'' (pod_vars \<union> set collector_names)) (versioned L s) (before_defaults L s)"
proof -
  let ?s1 = "versioned L s"
  let ?m = "read_sections L ?s1"
  let ?s2 = "set_var ''CONFIGMAP_VERSION'' (configmap_version L ?s1) ?s1"
  let ?s3 = "parseSettingsForPodAnnotations L ?m ?s2"
  have a: "env_frame {''CONFIGMAP_VERSION''} ?s1 ?s2" by (rule set_var_frame)
  have b: "env_frame pod_vars ?s2 ?s3" by (rule pod_annotations_frame)
  have "Getenv (cm_env ?s3) ''CLUSTER'' = Getenv (cm_env s) ''CLUSTER''"
    using a b versioned_frame [of s L]
    by (simp add: env_frame_def Getenv_def envVariableTemplateName_def envVariableAnnotationsEnabledName_def)
  then have "env_frame (set collector_names) ?s3 (before_defaults L s)"
    unfolding before_defaults_def Let_def using assms
    by (intro collector_config_env sections_wf) (simp_all add: settings_ready_def no_newline_in_def)
  from env_frame_trans [OF env_frame_trans [OF a b] this] show ?thesis by (rule env_frame_mono) auto
qed

lemma after_switches_frame: "env_frame {''DEBUG_MODE_ENABLED'', ''AZMON_FULL_OTLP_ENABLED'', ''AZMON_KSM_CONFIG_ENABLED''} s (after_switches L m s)"
  unfolding after_switches_def
  by (rule env_frame_mono [OF env_frame_trans [OF env_frame_trans [OF debug_env otel_env] ksm_env]]) auto

lemma after_defaults_frame:
  "env_frame {''DEBUG_MODE_ENABLED'', ''AZMON_FULL_OTLP_ENABLED'', ''AZMON_KSM_CONFIG_ENABLED'', ''MINIMAL_INGESTION_PROFILE''}
     (run_default_settings L (read_sections L (versioned L s)) (before_defaults L s)) (parse_settings L s)"
  unfolding parse_settings_states Let_def
  by (rule env_frame_mono [OF env_frame_trans [OF env_frame_trans [OF after_switches_frame keep_list_env] interval_env]]) auto

lemma parse_settings_frame:
  assumes "settings_ready L s"
  shows "env_frame (set config_vars) s (parse_settings L s)"
proof -
  have d: "env_frame target_names_of (before_defaults L s) (run_default_settings L (read_sections L (versioned L s)) (before_defaults L s))"
    using assms by (intro default_settings_env sections_wf) (simp add: settings_ready_def)
  show ?thesis
    by (rule env_frame_mono [OF env_frame_trans [OF env_frame_trans [OF env_frame_trans [OF versioned_frame before_defaults_frame [OF assms]] d]
          after_defaults_frame]]) (force simp: config_vars_def)
qed

lemma schema_kept:
  assumes "settings_ready L s"
  shows "cm_env (before_defaults L s) ''AZMON_AGENT_CFG_SCHEMA_VERSION'' = cm_env (versioned L s) ''AZMON_AGENT_CFG_SCHEMA_VERSION''"
  using before_defaults_frame [OF assms] by (simp add: env_frame_def envVariableTemplateName_def envVariableAnnotationsEnabledName_def)

lemma setting_value_cong:
  "env' ''AZMON_AGENT_CFG_SCHEMA_VERSION'' = env ''AZMON_AGENT_CFG_SCHEMA_VERSION'' \<Longrightarrow> setting_value env' m k d = setting_value env m k d"
  by (simp add: setting_value_def supported_schema_def Getenv_def)

lemma processConfigMap_cong:
  "env' ''AZMON_AGENT_CFG_SCHEMA_VERSION'' = env ''AZMON_AGENT_CFG_SCHEMA_VERSION'' \<Longrightarrow> processConfigMap env' m = processConfigMap env m"
  by (simp add: processConfigMap_def supported_schema_def Getenv_def)

lemma target_names_disjoint:
  "x \<in> target_names_of \<Longrightarrow> x \<notin> {''DEBUG_MODE_ENABLED'', ''AZMON_FULL_OTLP_ENABLED'', ''AZMON_KSM_CONFIG_ENABLED'', ''MINIMAL_INGESTION_PROFILE''}"
  by (auto simp: target_settings_def)

section \<open>The files of the parsers\<close>

definition file_frame :: "string list \<Rightarrow> cm_state \<Rightarrow> cm_state \<Rightarrow> bool" where
  "file_frame F s s' \<longleftrightarrow> (\<forall>f. f \<notin> set F \<longrightarrow> fmlookup (cm_files s') f = fmlookup (cm_files s) f)"

lemma file_frame_refl [simp]: "cm_files s' = cm_files s \<Longrightarrow> file_frame F s s'"
  by (simp add: file_frame_def)

lemma file_frame_trans: "file_frame F s s' \<Longrightarrow> file_frame G s' s'' \<Longrightarrow> file_frame (F @ G) s s''"
  by (simp add: file_frame_def)

lemma handle_files [simp]: "cm_files (handleEnvFileError L f s) = cm_files s"
  by (simp add: handleEnvFileError_def)

lemma created_files: "create_file L f c s = Some s' \<Longrightarrow> file_frame [f] s s'"
  by (simp add: create_file_Some file_frame_def)

lemma pod_files: "file_frame [podAnnotationEnvVarPath] s (parseSettingsForPodAnnotations L m s)"
  by (auto simp: parseSettingsForPodAnnotations_def configurePodAnnotationSettings_def writeConfigToFile_def handlePodAnnotationsFile_def
      create_file_Some file_frame_def split: option.splits sum.splits file_state.splits)

lemma collector_files: "file_frame [collectorSettingsEnvVarPath] s (parsePrometheusCollectorConfig L m s)"
  by (auto simp: parsePrometheusCollectorConfig_def parseConfigAndSetEnvInFile_def Configure_def WriteConfigToFile_def
      create_file_Some file_frame_def split: option.splits)

lemma defaults_files: "file_frame [defaultSettingsEnvVarPath] s (run_default_settings L m s)"
  by (auto simp: run_default_settings_def create_file_Some file_frame_def split: option.splits)

lemma debug_files: "file_frame [debugModeEnvVarPath, replicaSetCollectorConfig] s (parseDebugModeSettings L m s)"
  by (auto simp: parseDebugModeSettings_def ConfigureDebugModeSettings_def debug_collector_config_def Let_def
      create_file_Some file_frame_def split: option.splits if_splits)

lemma otel_files: "file_frame [opentelemetryMetricsEnvVarPath] s (parseOpentelemetryMetricsSettings L m s)"
  by (auto simp: parseOpentelemetryMetricsSettings_def ConfigureOpentelemetryMetricsSettings_def
      create_file_Some file_frame_def split: option.splits)

lemma ksm_files: "file_frame [ksmConfigEnvVarPath] s (parseKSMSettings L m s)"
  by (auto simp: parseKSMSettings_def create_file_Some file_frame_def split: option.splits)

lemma keep_files: "file_frame [configMapKeepListEnvVarPath] s (tomlparserTargetsMetricsKeepList L m s)"
  by (auto simp: tomlparserTargetsMetricsKeepList_def Let_def WriteFile_def file_frame_def split: prod.splits sum.splits option.splits if_splits)

lemma interval_files: "file_frame [scrapeIntervalEnvVarPath] s (tomlparserScrapeInterval L m s)"
  by (auto simp: tomlparserScrapeInterval_def WriteFile_def file_frame_def split: option.splits if_splits)

definition parser_files :: "string list" where
  "parser_files =
     [podAnnotationEnvVarPath, collectorSettingsEnvVarPath, defaultSettingsEnvVarPath, debugModeEnvVarPath, replicaSetCollectorConfig,
      opentelemetryMetricsEnvVarPath, ksmConfigEnvVarPath]"

lemmas parser_paths = parser_files_def podAnnotationEnvVarPath_def collectorSettingsEnvVarPath_def defaultSettingsEnvVarPath_def
  debugModeEnvVarPath_def replicaSetCollectorConfig_def opentelemetryMetricsEnvVarPath_def ksmConfigEnvVarPath_def
  configMapKeepListEnvVarPath_def scrapeIntervalEnvVarPath_def

definition before_keep :: "cm_lib \<Rightarrow> cm_state \<Rightarrow> cm_state" where
  "before_keep L s =
     (let m = read_sections L (versioned L s) in after_switches L m (run_default_settings L m (before_defaults L s)))"

lemma before_keep_files: "file_frame parser_files s (before_keep L s)"
proof -
  let ?s1 = "versioned L s"
  let ?m = "read_sections L ?s1"
  have v: "file_frame [] s (set_var ''CONFIGMAP_VERSION'' (configmap_version L ?s1) ?s1)"
    by (simp add: versioned_def setConfigSchemaVersionEnv_def setConfigFileVersionEnv_def set_var_def)
  note f = file_frame_trans [OF file_frame_trans [OF v pod_files [of _ L ?m]] collector_files [of _ L ?m]]
  note g = file_frame_trans [OF f defaults_files [of _ L ?m]]
  note h = file_frame_trans [OF file_frame_trans [OF file_frame_trans [OF g debug_files [of _ L ?m]] otel_files [of _ L ?m]] ksm_files [of _ L ?m]]
  then show ?thesis by (simp add: before_keep_def before_defaults_def after_switches_def Let_def parser_files_def)
qed

lemma parse_settings_keep:
  "parse_settings L s = (let m = read_sections L (versioned L s)
     in tomlparserScrapeInterval L m (tomlparserTargetsMetricsKeepList L m (before_keep L s)))"
  by (simp add: parse_settings_states before_keep_def Let_def)

lemma parse_settings_files: "file_frame (parser_files @ [configMapKeepListEnvVarPath, scrapeIntervalEnvVarPath]) s (parse_settings L s)"
  unfolding parse_settings_keep Let_def
  using file_frame_trans [OF file_frame_trans [OF before_keep_files keep_files] interval_files] by simp

lemma schema_at_keep:
  assumes "settings_ready L s"
  shows "cm_env (before_keep L s) ''AZMON_AGENT_CFG_SCHEMA_VERSION'' = cm_env (versioned L s) ''AZMON_AGENT_CFG_SCHEMA_VERSION''"
proof -
  let ?m = "read_sections L (versioned L s)"
  have n: "''AZMON_AGENT_CFG_SCHEMA_VERSION'' \<notin> target_names_of" by (simp add: target_settings_def)
  have d: "env_frame target_names_of (before_defaults L s) (run_default_settings L ?m (before_defaults L s))"
    using assms by (intro default_settings_env sections_wf) (simp add: settings_ready_def)
  have a: "env_frame {''DEBUG_MODE_ENABLED'', ''AZMON_FULL_OTLP_ENABLED'', ''AZMON_KSM_CONFIG_ENABLED''}
      (run_default_settings L ?m (before_defaults L s)) (before_keep L s)"
    unfolding before_keep_def Let_def by (rule after_switches_frame)
  from a d n schema_kept [OF assms] show ?thesis unfolding env_frame_def by simp
qed

section \<open>What the merger reads\<close>

text \<open>The YAML codec on string maps: decoding the text of a map into an empty map gives it back.\<close>

definition hash_laws :: "cm_lib \<Rightarrow> bool" where
  "hash_laws L \<longleftrightarrow> (\<forall>h. \<exists>out. MarshalHash L h = Some out \<and> UnmarshalInto (base L) out fmempty = h)"

text \<open>The merger's context: the hashes are loaded after the default files were prepared with some interval \<open>iv\<close>.\<close>

definition loaded_merger :: "cm_lib \<Rightarrow> string \<Rightarrow> cm_state \<Rightarrow> merger" where
  "loaded_merger L iv s =
     loadIntervalHash (base L) (loadRegexHash (base L) (fresh_merger (setDefaultFileScrapeInterval (base L) iv (cm_files s))))"

lemma hash_paths: "configMapKeepListEnvVarPath = regexHashFile" "scrapeIntervalEnvVarPath = intervalHashFile"
  by (simp_all add: configMapKeepListEnvVarPath_def scrapeIntervalEnvVarPath_def file_names)

lemma loaded_hashes:
  "intervalHash (loaded_merger L iv s) =
     (case fmlookup (cm_files s) intervalHashFile of None \<Rightarrow> fmempty | Some data \<Rightarrow> UnmarshalInto (base L) data fmempty)"
  "regexHash (loaded_merger L iv s) =
     (case fmlookup (cm_files s) regexHashFile of None \<Rightarrow> fmempty | Some data \<Rightarrow> UnmarshalInto (base L) data fmempty)"
proof -
  have "list_all (\<lambda>f. hd f \<noteq> CHR ''/'') defaultFilesArray" by (simp add: defaultFilesArray_def file_names)
  then have n: "regexHashFile \<notin> set defaultFilesArray" "intervalHashFile \<notin> set defaultFilesArray"
    by (auto simp: list_all_iff file_names)
  have "fmlookup (setDefaultFileScrapeInterval (base L) iv fs) g = fmlookup fs g" if "g \<notin> set defaultFilesArray" for g fs
    unfolding setDefaultFileScrapeInterval_def using set_file_intervals [OF default_file_relative] that by simp
  with n have l: "fmlookup (setDefaultFileScrapeInterval (base L) iv (cm_files s)) regexHashFile = fmlookup (cm_files s) regexHashFile"
    "fmlookup (setDefaultFileScrapeInterval (base L) iv (cm_files s)) intervalHashFile = fmlookup (cm_files s) intervalHashFile" by simp_all
  show "intervalHash (loaded_merger L iv s) =
     (case fmlookup (cm_files s) intervalHashFile of None \<Rightarrow> fmempty | Some data \<Rightarrow> UnmarshalInto (base L) data fmempty)"
    by (cases "fmlookup (cm_files s) regexHashFile"; cases "fmlookup (cm_files s) intervalHashFile")
      (simp_all add: loaded_merger_def loadIntervalHash_def loadRegexHash_def fresh_merger_def l)
  show "regexHash (loaded_merger L iv s) =
     (case fmlookup (cm_files s) regexHashFile of None \<Rightarrow> fmempty | Some data \<Rightarrow> UnmarshalInto (base L) data fmempty)"
    by (cases "fmlookup (cm_files s) regexHashFile"; cases "fmlookup (cm_files s) intervalHashFile")
      (simp_all add: loaded_merger_def loadIntervalHash_def loadRegexHash_def fresh_merger_def l)
qed

lemma loaded_intervals:
  assumes "settings_ready L s" and "hash_laws L" and "writable (base L) scrapeIntervalEnvVarPath"
  shows "intervalHash (loaded_merger L iv (parse_settings L s)) =
    processConfigMap (cm_env (versioned L s)) (sections_of (read_sections L (versioned L s)))"
proof -
  let ?m = "read_sections L (versioned L s)"
  let ?s' = "tomlparserTargetsMetricsKeepList L ?m (before_keep L s)"
  have "cm_env ?s' ''AZMON_AGENT_CFG_SCHEMA_VERSION'' = cm_env (versioned L s) ''AZMON_AGENT_CFG_SCHEMA_VERSION''"
    using keep_list_env [of "before_keep L s" L ?m] schema_at_keep [OF assms(1)] by (simp add: env_frame_def)
  then have eq: "processConfigMap (cm_env ?s') m = processConfigMap (cm_env (versioned L s)) m" for m
    by (rule processConfigMap_cong)
  obtain out where o: "MarshalHash L (processConfigMap (cm_env (versioned L s)) (sections_of ?m)) = Some out"
    "UnmarshalInto (base L) out fmempty = processConfigMap (cm_env (versioned L s)) (sections_of ?m)"
    using assms(2) unfolding hash_laws_def by metis
  have "fmlookup (cm_files (parse_settings L s)) intervalHashFile = Some out"
    using assms(3) o(1) by (simp add: parse_settings_keep Let_def tomlparserScrapeInterval_def eq WriteFile_def hash_paths)
  then show ?thesis by (simp add: loaded_hashes o(2))
qed

lemma loaded_keep_lists:
  "regexHash (loaded_merger L iv (parse_settings L s)) =
    (case fmlookup (cm_files (tomlparserTargetsMetricsKeepList L (read_sections L (versioned L s)) (before_keep L s))) regexHashFile of
       None \<Rightarrow> fmempty | Some data \<Rightarrow> UnmarshalInto (base L) data fmempty)"
proof -
  have "regexHashFile \<noteq> scrapeIntervalEnvVarPath" by (simp add: file_names scrapeIntervalEnvVarPath_def)
  then show ?thesis
    using interval_files by (simp add: loaded_hashes parse_settings_keep Let_def file_frame_def)
qed

lemma settings_selected:
  assumes "settings_ready L s" and "(key, d, var) \<in> set target_settings"
    and "\<And>k e w. (k, e, w) \<in> set target_settings \<Longrightarrow> plain (setting_value (cm_env (versioned L s)) (sections_of (read_sections L (versioned L s))) k e)"
  shows "cm_env (parse_settings L s) var = Some (setting_value (cm_env (versioned L s)) (sections_of (read_sections L (versioned L s))) key d)"
    and "setting_value (cm_env (versioned L s)) (sections_of (read_sections L (versioned L s))) ''kubelet'' ''true'' \<noteq> '''' \<Longrightarrow>
      cm_env (parse_settings L s) no_default_var = Some ''false''"
proof -
  let ?m = "read_sections L (versioned L s)"
  let ?s = "before_defaults L s"
  have v: "setting_value (cm_env ?s) (sections_of ?m) k e = setting_value (cm_env (versioned L s)) (sections_of ?m) k e" for k e
    by (rule setting_value_cong) (rule schema_kept [OF assms(1)])
  have w: "writable (base L) defaultSettingsEnvVarPath" using assms(1) by (simp add: settings_ready_def)
  have "cm_env (run_default_settings L ?m ?s) = parseDefaultScrapeSettings (sections_of ?m) (cm_env ?s)"
    using w by (simp add: run_default_settings_def handleEnvFileError_def parseDefaultScrapeSettings_def create_file_def WriteFile_def file_at_def)
  moreover have "cm_env (parse_settings L s) x = cm_env (run_default_settings L ?m ?s) x" if "x \<in> target_names_of" for x
    using after_defaults_frame [of L s] that unfolding env_frame_def
    by (metis (no_types, lifting) target_names_disjoint)
  ultimately have e: "cm_env (parse_settings L s) x = parseDefaultScrapeSettings (sections_of ?m) (cm_env ?s) x" if "x \<in> target_names_of" for x
    using that by simp
  have p: "plain (setting_value (cm_env ?s) (sections_of ?m) k e)" if "(k, e, w) \<in> set target_settings" for k e w
    unfolding v by (rule assms(3) [OF that])
  have "var \<in> target_names_of" using assms(2) by force
  then show "cm_env (parse_settings L s) var = Some (setting_value (cm_env (versioned L s)) (sections_of ?m) key d)"
    using settings_in_env(1) [OF assms(2) p] by (simp add: e v)
  show "cm_env (parse_settings L s) no_default_var = Some ''false''"
    if "setting_value (cm_env (versioned L s)) (sections_of ?m) ''kubelet'' ''true'' \<noteq> ''''"
    using settings_in_env(2) [OF assms(2) p] that by (simp add: e v)
qed

end
