(* ===== verification/ConfigMapProps.thy ===== *)
theory ConfigMapProps
  imports ConfigMapFrames
begin

text \<open>
  Properties of the config map parsers, from the mounted files to what the merger reads: selection and intervals of the
  default targets, keep lists, confinement, pod annotations and the collector settings.
\<close>

section \<open>The keep lists of the targets\<close>

text \<open>The key of each keep list in the merger's hash, the setting, and the metrics of the minimal profile.\<close>

definition keep_targets :: "(string \<times> string \<times> string option) list" where
  "keep_targets =
     [(''KUBELET_METRICS_KEEP_LIST_REGEX'', ''kubelet'', Some kubeletRegex_minimal_mac),
      (''COREDNS_METRICS_KEEP_LIST_REGEX'', ''coredns'', Some coreDNSRegex_minimal_mac),
      (''CADVISOR_METRICS_KEEP_LIST_REGEX'', ''cadvisor'', Some cadvisorRegex_minimal_mac),
      (''KUBEPROXY_METRICS_KEEP_LIST_REGEX'', ''kubeproxy'', Some kubeproxyRegex_minimal_mac),
      (''APISERVER_METRICS_KEEP_LIST_REGEX'', ''apiserver'', Some apiserverRegex_minimal_mac),
      (''KUBESTATE_METRICS_KEEP_LIST_REGEX'', ''kubestate'', Some kubestateRegex_minimal_mac),
      (''NODEEXPORTER_METRICS_KEEP_LIST_REGEX'', ''nodeexporter'', Some nodeexporterRegex_minimal_mac),
      (''WINDOWSEXPORTER_METRICS_KEEP_LIST_REGEX'', ''windowsexporter'', Some windowsexporterRegex_minimal_mac),
      (''WINDOWSKUBEPROXY_METRICS_KEEP_LIST_REGEX'', ''windowskubeproxy'', Some windowskubeproxyRegex_minimal_mac),
      (''POD_ANNOTATION_METRICS_KEEP_LIST_REGEX'', ''podannotations'', None),
      (''KAPPIEBASIC_METRICS_KEEP_LIST_REGEX'', ''kappiebasic'', Some kappiebasicRegex_minimal_mac),
      (''NETWORKOBSERVABILITYRETINA_METRICS_KEEP_LIST_REGEX'', ''networkobservabilityRetina'', Some networkobservabilityRetinaRegex_minimal_mac),
      (''NETWORKOBSERVABILITYHUBBLE_METRICS_KEEP_LIST_REGEX'', ''networkobservabilityHubble'', Some networkobservabilityHubbleRegex_minimal_mac),
      (''NETWORKOBSERVABILITYCILIUM_METRICS_KEEP_LIST_REGEX'', ''networkobservabilityCilium'', Some networkobservabilityCiliumRegex_minimal_mac),
      (''ACSTORCAPACITYPROVISONER_KEEP_LIST_REGEX'', ''acstor-capacity-provisioner'', Some acstorCapacityProvisionerRegex_minimal_mac),
      (''ACSTORMETRICSEXPORTER_KEEP_LIST_REGEX'', ''acstor-metrics-exporter'', Some acstorMetricsExporter_minimal_mac),
      (''LOCALCSIDRIVER_KEEP_LIST_REGEX'', ''local-csi-driver'', Some localCsiDriver_minimal_mac),
      (''ZTUNNEL_METRICS_KEEP_LIST_REGEX'', ''ztunnel'', Some ztunnel_minimal_mac),
      (''ISTIOCNI_METRICS_KEEP_LIST_REGEX'', ''istio-cni'', Some istioCni_minimal_mac),
      (''DCGMEXPORTER_METRICS_KEEP_LIST_REGEX'', ''dcgmexporter'', Some dcgmexporter_minimal_mac),
      (''CONTROLPLANE_ISTIO_KEEP_LIST_REGEX'', ''controlplane-istio'', Some controlplaneIstio_minimal_mac)]"

definition keep_regex :: "string \<Rightarrow> string \<Rightarrow> string option \<Rightarrow> string" where
  "keep_regex mip user minimal =
     (case minimal of None \<Rightarrow> user | Some metrics \<Rightarrow> if mip = ''true'' then user @ ''|'' @ metrics else user)"

lemma keep_list_table:
  "populateRegexValuesWithMinimalIngestionProfile (regex_values kl mip) =
     map (\<lambda>(h, k, minimal). (h, keep_regex mip (get0 '''' kl k) minimal)) keep_targets"
  by (simp add: populateRegexValuesWithMinimalIngestionProfile_def regex_values_def with_minimal_def keep_targets_def keep_regex_def)

lemma keep_list_fields:
  "snd ` set (regex_fields (regex_values kl mip)) = insert mip ((\<lambda>(h, k, minimal). get0 '''' kl k) ` set keep_targets)"
  by (simp add: regex_fields_def regex_values_def keep_targets_def insert_commute)

lemma keep_list_valid:
  "validateRegexValues valid (regex_values kl mip) \<longleftrightarrow>
     list_all (\<lambda>(h, k, minimal). get0 '''' kl k = '''' \<or> valid (get0 '''' kl k)) keep_targets \<and> (mip = '''' \<or> valid mip)"
proof -
  have "validateRegexValues valid (regex_values kl mip) \<longleftrightarrow> (\<forall>x \<in> snd ` set (regex_fields (regex_values kl mip)). x = '''' \<or> valid x)"
    by (auto simp: validateRegexValues_def list_all_iff)
  then show ?thesis by (auto simp: keep_list_fields list_all_iff)
qed

lemma keep_list_keys: "distinct (map fst keep_targets)"
  by (simp add: keep_targets_def)

lemma keep_profile_cong:
  "env' ''AZMON_AGENT_CFG_SCHEMA_VERSION'' = env ''AZMON_AGENT_CFG_SCHEMA_VERSION'' \<Longrightarrow> snd (keep_profile m env') = snd (keep_profile m env)"
  by (simp add: keep_profile_def Let_def Getenv_def split: option.split)

lemma keep_profile_value: "snd (keep_profile m env) = Inr mip \<Longrightarrow> mip = ''true'' \<or> mip = ''false''"
  by (auto simp: keep_profile_def profile_value_def Let_def split: option.splits if_splits)

lemma keep_list_result:
  "snd (populateKeepList valid m env) =
     (case snd (keep_profile m env) of
        Inl e \<Rightarrow> Inl e
      | Inr mip \<Rightarrow>
        (let v = regex_values (case section_of m ''default-targets-metrics-keep-list'' of None \<Rightarrow> fmempty | Some k \<Rightarrow> k) mip
         in if validateRegexValues valid v then Inr v else Inl InvalidKeepRegex))"
  by (simp add: populateKeepList_def Let_def split: prod.split sum.split)

lemma keep_list_file:
  "cm_files (tomlparserTargetsMetricsKeepList L m s) =
     (case snd (populateKeepList (valid_regex L) m (cm_env s)) of
        Inl e \<Rightarrow> cm_files s
      | Inr v \<Rightarrow>
        (case MarshalHash L (fmap_of_list (populateRegexValuesWithMinimalIngestionProfile v)) of
           None \<Rightarrow> cm_files s
         | Some out \<Rightarrow> if writable (base L) configMapKeepListEnvVarPath then fmupd configMapKeepListEnvVarPath out (cm_files s) else cm_files s))"
  by (auto simp: tomlparserTargetsMetricsKeepList_def Let_def WriteFile_def split: prod.split sum.split option.split)

definition old_keep_lists :: "cm_lib \<Rightarrow> cm_state \<Rightarrow> hash" where
  "old_keep_lists L s = (case fmlookup (cm_files s) regexHashFile of None \<Rightarrow> fmempty | Some data \<Rightarrow> UnmarshalInto (base L) data fmempty)"

definition user_regex :: "sections option \<Rightarrow> string \<Rightarrow> string" where
  "user_regex m k = get0 '''' (case section_of m ''default-targets-metrics-keep-list'' of None \<Rightarrow> fmempty | Some kl \<Rightarrow> kl) k"

text \<open>
  The keep lists are all or nothing. When every regular expression of the config map compiles (and the
  schema version is supported), the merger finds for every target the user's expression, joined with the
  metrics of the minimal profile when that is on. One expression that does not compile, for whatever target, or an unsupported version,
  and it finds the keep lists of an earlier run or none at all, so that no target is filtered.
\<close>

theorem keep_lists_all_or_none:
  assumes "settings_ready L s" and "hash_laws L" and "writable (base L) configMapKeepListEnvVarPath"
    and "valid_regex L ''true''" and "valid_regex L ''false''" and "m = read_sections L (versioned L s)"
  shows "case snd (keep_profile m (cm_env (versioned L s))) of
      Inl e \<Rightarrow> regexHash (loaded_merger L iv (parse_settings L s)) = old_keep_lists L s
    | Inr mip \<Rightarrow>
      if \<forall>(h, k, minimal) \<in> set keep_targets. user_regex m k = '''' \<or> valid_regex L (user_regex m k)
      then \<forall>(h, k, minimal) \<in> set keep_targets.
        fmlookup (regexHash (loaded_merger L iv (parse_settings L s))) h = Some (keep_regex mip (user_regex m k) minimal)
      else regexHash (loaded_merger L iv (parse_settings L s)) = old_keep_lists L s"
proof -
  let ?b = "before_keep L s"
  let ?s = "tomlparserTargetsMetricsKeepList L m ?b"
  let ?hash = "regexHash (loaded_merger L iv (parse_settings L s))"
  let ?r = "snd (populateKeepList (valid_regex L) m (cm_env ?b))"
  have hash: "?hash = (case fmlookup (cm_files ?s) regexHashFile of None \<Rightarrow> fmempty | Some data \<Rightarrow> UnmarshalInto (base L) data fmempty)"
    unfolding assms(6) by (rule loaded_keep_lists)
  have p: "snd (keep_profile m (cm_env ?b)) = snd (keep_profile m (cm_env (versioned L s)))"
    by (rule keep_profile_cong) (rule schema_at_keep [OF assms(1)])
  have "regexHashFile \<notin> set parser_files" by (simp add: parser_paths file_names)
  then have "fmlookup (cm_files ?b) regexHashFile = fmlookup (cm_files s) regexHashFile"
    using before_keep_files [of s L] by (simp add: file_frame_def)
  then have old: "?hash = old_keep_lists L s" if "?r = Inl e" for e
    using that by (simp add: hash keep_list_file old_keep_lists_def)
  show ?thesis
  proof (cases "snd (keep_profile m (cm_env (versioned L s)))")
    case (Inl e)
    then show ?thesis using old [of e] by (simp add: keep_list_result p)
  next
    case (Inr mip)
    define kl where "kl = (case section_of m ''default-targets-metrics-keep-list'' of None \<Rightarrow> fmempty | Some kl \<Rightarrow> kl)"
    have u: "user_regex m k = get0 '''' kl k" for k by (simp add: user_regex_def kl_def)
    have vm: "valid_regex L mip" using keep_profile_value [OF Inr] assms(4,5) by auto
    show ?thesis
    proof (cases "\<forall>(h, k, minimal) \<in> set keep_targets. user_regex m k = '''' \<or> valid_regex L (user_regex m k)")
      case True
      then have r: "?r = Inr (regex_values kl mip)" using vm Inr
        by (simp add: keep_list_result p Let_def keep_list_valid u list_all_iff flip: kl_def)
      obtain out where o: "MarshalHash L (fmap_of_list (populateRegexValuesWithMinimalIngestionProfile (regex_values kl mip))) = Some out"
        "UnmarshalInto (base L) out fmempty = fmap_of_list (populateRegexValuesWithMinimalIngestionProfile (regex_values kl mip))"
        using assms(2) unfolding hash_laws_def by metis
      have "?hash = fmap_of_list (populateRegexValuesWithMinimalIngestionProfile (regex_values kl mip))"
        using assms(3) by (simp add: hash keep_list_file r o hash_paths(1))
      then have "fmlookup ?hash h = Some (keep_regex mip (user_regex m k) minimal)" if "(h, k, minimal) \<in> set keep_targets" for h k minimal
        using that keep_list_keys
        by (auto simp: keep_list_table fmlookup_of_list u comp_def split_beta intro!: map_of_is_SomeI image_eqI [of _ _ "(h, k, minimal)"])
      then show ?thesis using Inr True by auto
    next
      case False
      then have "?r = Inl InvalidKeepRegex" using Inr
        by (auto simp: keep_list_result p Let_def keep_list_valid u list_all_iff simp flip: kl_def)
      then show ?thesis using old by (simp only: Inr False sum.case if_False)
    qed
  qed
qed

section \<open>A concrete config map\<close>

definition hash_text :: "hash \<Rightarrow> string" where
  "hash_text h = replicate (Suc (to_nat h)) CHR ''x''"

definition hash_of :: "string \<Rightarrow> hash" where
  "hash_of t = (if t = [] then fmempty else from_nat (length t - 1))"

definition line_break :: string where
  "line_break = [CHR 0x0A]"

definition demo_dir :: "dir_entry list" where
  "demo_dir =
     [\<lparr>entry_Name = ''..data'', entry_IsDir = True, entry_file = Unreadable\<rparr>,
      \<lparr>entry_Name = ''default-scrape-settings-enabled'', entry_IsDir = False,
       entry_file = Content (''# targets'' @ line_break @ ''apiserver = TRUE'' @ line_break @ ''kubelet = '' @ [CHR 0x22] @ ''false'' @ [CHR 0x22])\<rparr>,
      \<lparr>entry_Name = ''default-targets-metrics-keep-list'', entry_IsDir = False,
       entry_file = Content (''kubelet = up'' @ line_break @ ''coredns = ('')\<rparr>,
      \<lparr>entry_Name = ''default-targets-scrape-interval-settings'', entry_IsDir = False,
       entry_file = Content (''kubelet = 15s'' @ line_break @ ''coredns = soon'')\<rparr>]"

definition demo_cm_lib :: cm_lib where
  "demo_cm_lib =
     \<lparr>base = unary_lib\<lparr>UnmarshalInto := (\<lambda>t h. hash_of t)\<rparr>, valid_regex = (\<lambda>r. r \<noteq> ''(''), MarshalHash = (\<lambda>h. Some (hash_text h)),
      UnmarshalOtel = (\<lambda>t. None), MarshalOtel = (\<lambda>c. None), unreadable = (\<lambda>f. False), ReadDir = (\<lambda>d. Some demo_dir),
      promconfigvalidator = (\<lambda>config out env fs. (False, fs))\<rparr>"

definition demo_cm :: cm_state where
  "demo_cm = \<lparr>cm_env = Map.empty, cm_files = fmempty\<rparr>"

definition demo_m :: sections where
  "demo_m = foldl v1_file fmempty demo_dir"

lemma demo_hash_laws: "hash_laws demo_cm_lib"
  by (simp add: hash_laws_def demo_cm_lib_def hash_text_def hash_of_def)

lemma demo_ready: "settings_ready demo_cm_lib demo_cm" "writable (base demo_cm_lib) f"
  by (simp_all add: settings_ready_def no_newline_in_def Getenv_def demo_cm_lib_def demo_cm_def)

lemma demo_env: "cm_env (versioned demo_cm_lib demo_cm) = [''AZMON_AGENT_CFG_FILE_VERSION'' \<mapsto> ''ver1'', ''AZMON_AGENT_CFG_SCHEMA_VERSION'' \<mapsto> ''v1'']"
  by (simp add: versioned_def setConfigSchemaVersionEnv_def setConfigFileVersionEnv_def set_var_def file_at_def version_of_def
      demo_cm_def demo_cm_lib_def Setenv_def)

lemma demo_read: "read_sections demo_cm_lib (versioned demo_cm_lib demo_cm) = Some demo_m"
  by (simp add: read_sections_def demo_env Getenv_def ParseV1Config_def demo_m_def, simp add: demo_cm_lib_def)

lemma demo_plain: "\<forall>(k, e, w) \<in> set target_settings. plain (setting_value (cm_env (versioned demo_cm_lib demo_cm)) demo_m k e)"
proof -
  have "list_all (\<lambda>(k, e, w). plain (setting_value [''AZMON_AGENT_CFG_FILE_VERSION'' \<mapsto> ''ver1'', ''AZMON_AGENT_CFG_SCHEMA_VERSION'' \<mapsto> ''v1''] demo_m k e)) target_settings"
    by code_simp
  then show ?thesis by (simp only: demo_env list_all_iff)
qed

section \<open>Properties\<close>

text \<open>
  C17: The config map reaches the merger. After all parsers have run, every default target is selected
  by the merger exactly when its setting (or its default) reads \<open>true\<close> in any case; the switch for no
  default targets stays off as soon as the kubelet setting is not empty, even when every target
  is switched off; and the interval the merger finds for a target is a non-empty Prometheus duration, the user's own when it is one.
\<close>

theorem settings_reach_merger:
  assumes "settings_ready L s" and "hash_laws L" and "writable (base L) scrapeIntervalEnvVarPath"
    and "m = sections_of (read_sections L (versioned L s))" and "env = cm_env (versioned L s)"
    and "\<forall>(k, e, w) \<in> set target_settings. plain (setting_value env m k e)"
    and "c = populate_modes (cm_env (parse_settings L s)) (loaded_merger L iv (parse_settings L s))"
  shows "(\<forall>(key, d, var) \<in> set target_settings. enabled c var \<longleftrightarrow> ToLower (setting_value env m key d) = ''true'')
    \<and> (setting_value env m ''kubelet'' ''true'' \<noteq> '''' \<longrightarrow> Getenv (c_env c) no_default_var = ''false'')
    \<and> (\<forall>(v, k) \<in> set interval_keys. \<exists>i. fmlookup (c_intervalHash c) v = Some i \<and> duration_matches i \<and> i \<noteq> '''' \<and>
        (\<forall>u. supported_schema env \<and> fmlookup (get0 fmempty m ''default-targets-scrape-interval-settings'') k = Some u \<and>
           duration_matches u \<and> u \<noteq> '''' \<longrightarrow> i = u))"
proof -
  have p: "plain (setting_value (cm_env (versioned L s)) (sections_of (read_sections L (versioned L s))) k e)"
    if "(k, e, w) \<in> set target_settings" for k e w
    using bspec [OF assms(6) that] by (simp add: assms(4,5))
  have sel: "cm_env (parse_settings L s) var = Some (setting_value env m key d)"
    "setting_value env m ''kubelet'' ''true'' \<noteq> '''' \<Longrightarrow> cm_env (parse_settings L s) no_default_var = Some ''false''"
    if "(key, d, var) \<in> set target_settings" for key d var
    using settings_selected [OF assms(1) that p] unfolding assms(4,5) by simp_all
  have h: "c_intervalHash c = processConfigMap env m" "c_env c = cm_env (parse_settings L s)"
    using loaded_intervals [OF assms(1-3)] by (simp_all add: assms(4,5,7) populate_modes_def)
  have "enabled c var \<longleftrightarrow> ToLower (setting_value env m key d) = ''true''" if "(key, d, var) \<in> set target_settings" for key d var
    by (simp add: enabled_def h(2) sel(1) [OF that])
  moreover have "Getenv (c_env c) no_default_var = ''false''" if "setting_value env m ''kubelet'' ''true'' \<noteq> ''''"
  proof -
    have "(''kubelet'', ''true'', ''AZMON_PROMETHEUS_KUBELET_SCRAPING_ENABLED'') \<in> set target_settings" by (simp add: target_settings_def)
    from sel(2) [OF this that] show ?thesis by (simp add: Getenv_def h(2))
  qed
  moreover have "\<forall>(v, k) \<in> set interval_keys. \<exists>i. fmlookup (c_intervalHash c) v = Some i \<and> duration_matches i \<and> i \<noteq> '''' \<and>
        (\<forall>u. supported_schema env \<and> fmlookup (get0 fmempty m ''default-targets-scrape-interval-settings'') k = Some u \<and>
           duration_matches u \<and> u \<noteq> '''' \<longrightarrow> i = u)"
    unfolding h(1) using interval_lookup checkDuration_valid default_interval
    by (auto simp: getParsedDataValue_def checkDuration_def split: option.splits)
  ultimately show ?thesis by blast
qed

theorem settings_reach_merger_witness:
  "let c = populate_modes (cm_env (parse_settings demo_cm_lib demo_cm)) (loaded_merger demo_cm_lib ''30s'' (parse_settings demo_cm_lib demo_cm))
   in enabled c ''AZMON_PROMETHEUS_APISERVER_SCRAPING_ENABLED'' \<and> \<not> enabled c ''AZMON_PROMETHEUS_KUBELET_SCRAPING_ENABLED'' \<and>
      Getenv (c_env c) no_default_var = ''false'' \<and> fmlookup (c_intervalHash c) ''KUBELET_SCRAPE_INTERVAL'' = Some ''15s''"
proof -
  let ?env = "cm_env (versioned demo_cm_lib demo_cm)"
  have v: "setting_value ?env demo_m ''apiserver'' ''false'' = ''TRUE''" "setting_value ?env demo_m ''kubelet'' ''true'' = ''false''"
    unfolding demo_env by (code_simp)+
  have low: "ToLower ''TRUE'' = ''true''" "ToLower ''false'' \<noteq> ''true''" by (code_simp)+
  have t: "(''apiserver'', ''false'', ''AZMON_PROMETHEUS_APISERVER_SCRAPING_ENABLED'') \<in> set target_settings"
    "(''kubelet'', ''true'', ''AZMON_PROMETHEUS_KUBELET_SCRAPING_ENABLED'') \<in> set target_settings"
    "(''KUBELET_SCRAPE_INTERVAL'', ''kubelet'') \<in> set interval_keys"
    by (simp_all add: target_settings_def interval_keys_def)
  have u: "supported_schema ?env" "fmlookup (get0 fmempty demo_m ''default-targets-scrape-interval-settings'') ''kubelet'' = Some ''15s''"
    "duration_matches ''15s''"
    unfolding demo_env by (code_simp)+
  have m: "demo_m = sections_of (read_sections demo_cm_lib (versioned demo_cm_lib demo_cm))" by (simp add: demo_read)
  note main = settings_reach_merger [OF demo_ready(1) demo_hash_laws demo_ready(2) m refl demo_plain refl, of "''30s''"]
  show ?thesis using bspec [OF conjunct1 [OF main] t(1)] bspec [OF conjunct1 [OF main] t(2)] conjunct1 [OF conjunct2 [OF main]]
      bspec [OF conjunct2 [OF conjunct2 [OF main]] t(3)] v u low by (auto simp: Let_def)
qed



theorem keep_lists_all_or_none_witness:
  "regexHash (loaded_merger demo_cm_lib ''30s'' (parse_settings demo_cm_lib demo_cm)) = fmempty"
proof -
  have p: "snd (keep_profile (Some demo_m) (cm_env (versioned demo_cm_lib demo_cm))) = Inr ''true''"
    unfolding demo_env by code_simp
  have u: "user_regex (Some demo_m) ''coredns'' = ''(''" by code_simp
  have t: "(''COREDNS_METRICS_KEEP_LIST_REGEX'', ''coredns'', Some coreDNSRegex_minimal_mac) \<in> set keep_targets" by (simp add: keep_targets_def)
  have v: "valid_regex demo_cm_lib r \<longleftrightarrow> r \<noteq> ''(''" for r by (simp add: demo_cm_lib_def)
  have n: "\<not> (\<forall>(h, k, minimal) \<in> set keep_targets. user_regex (Some demo_m) k = '''' \<or> valid_regex demo_cm_lib (user_regex (Some demo_m) k))"
    using t u v by force
  have o: "old_keep_lists demo_cm_lib demo_cm = fmempty" by (simp add: old_keep_lists_def demo_cm_def)
  have w: "valid_regex demo_cm_lib ''true''" "valid_regex demo_cm_lib ''false''" by (simp_all add: v)
  from keep_lists_all_or_none [OF demo_ready(1) demo_hash_laws demo_ready(2) w refl, of "''30s''"]
  show ?thesis by (simp only: demo_read p n o sum.case if_False)
qed

section \<open>Pod annotations and collector settings\<close>

text \<open>
  A namespace expression for pod annotations reaches the environment unchanged, between
  single quotes, with any \<open>=\<close> it contains, and switches the scraping of annotated pods on; the reader of the other
  settings files would drop an expression with \<open>=\<close>. An expression that does not compile changes nothing.
\<close>

theorem pod_annotation_regex_kept:
  assumes "fmlookup m ''pod-annotation-based-scraping'' = Some kv" and "fmlookup kv ''podannotationnamespaceregex'' = Some regex"
    and "regex \<noteq> ''''" and "CHR 0x0A \<notin> set regex" and "CHR 0x00 \<notin> set regex" and "length regex < 65000"
    and "writable (base L) podAnnotationEnvVarPath" and "s' = parseSettingsForPodAnnotations L (Some m) s"
  shows "(valid_regex L regex \<longrightarrow>
      cm_env s' = (cm_env s)(envVariableTemplateName \<mapsto> CHR 0x27 # regex @ [CHR 0x27], envVariableAnnotationsEnabledName \<mapsto> ''true'') \<and>
      (CHR ''='' \<in> set regex \<longrightarrow>
        snd (SetEnvVarsFromFile podAnnotationEnvVarPath (file_at L (cm_files s') podAnnotationEnvVarPath) (cm_env s)) =
          (cm_env s)(envVariableAnnotationsEnabledName \<mapsto> ''true'')))
    \<and> (\<not> valid_regex L regex \<longrightarrow> s' = s)"
proof (intro conjI impI)
  let ?q = "CHR 0x27 # regex @ [CHR 0x27]"
  let ?kvs = "[(envVariableTemplateName, ?q), (envVariableAnnotationsEnabledName, ''true'')]"
  let ?lines = "[env_line (envVariableTemplateName, ?q), env_line (envVariableAnnotationsEnabledName, ''true'')]"
  have names: "CHR ''='' \<notin> set envVariableTemplateName" "CHR ''='' \<notin> set envVariableAnnotationsEnabledName"
    "CHR 0x00 \<notin> set envVariableTemplateName" "CHR 0x00 \<notin> set envVariableAnnotationsEnabledName"
    "envVariableTemplateName \<noteq> ''''" "envVariableAnnotationsEnabledName \<noteq> ''''"
    "envVariableTemplateName \<noteq> envVariableAnnotationsEnabledName"
    by (simp_all add: envVariableTemplateName_def envVariableAnnotationsEnabledName_def)
  have ok: "list_all line_ok ?kvs" using assms(4) names by (auto intro!: line_ok_plain pod_names)
  have "list_all fits ?lines" using assms(6)
    by (simp add: fits_def env_line_def envVariableTemplateName_def envVariableAnnotationsEnabledName_def)
  moreover have "map drop_cr ?lines = ?lines" by (simp add: drop_cr_def env_line_def)
  ultimately have scan: "scan_lines (env_file ?kvs) = (?lines, False)"
    using raw_lines_env_file [OF ok] by (simp add: scan_lines_def)
  {
    assume v: "valid_regex L regex"
    have s': "s' = handlePodAnnotationsFile L podAnnotationEnvVarPath (s\<lparr>cm_files := fmupd podAnnotationEnvVarPath (env_file ?kvs) (cm_files s)\<rparr>)"
      using assms(1-3,7,8) v
      by (simp add: parseSettingsForPodAnnotations_def configurePodAnnotationSettings_def populatePodAnnotationNamespaceFromConfigMap_def
          writeConfigToFile_def create_file_def WriteFile_def pod_annotation_vars_def)
    show "cm_env s' = (cm_env s)(envVariableTemplateName \<mapsto> ?q, envVariableAnnotationsEnabledName \<mapsto> ''true'')"
      using names assms(5)
      by (simp add: s' handlePodAnnotationsFile_def file_at_def scan set_env_first_env_line Setenv_def)
    assume eq: "CHR ''='' \<in> set regex"
    have f: "file_at L (cm_files s') podAnnotationEnvVarPath = Content (env_file ?kvs)"
      by (simp add: s' handlePodAnnotationsFile_def file_at_def)
    from eq obtain a b where ab: "regex = a @ CHR ''='' # b" "CHR ''='' \<notin> set a" by (meson split_list_first)
    then have "split_char CHR ''='' (CHR 0x27 # regex @ [CHR 0x27]) = (CHR 0x27 # a) # split_char CHR ''='' (b @ [CHR 0x27])"
      using split_char_append [of "CHR ''=''" "CHR 0x27 # a" "b @ [CHR 0x27]"] by simp
    then have "set_env_line e (env_line (envVariableTemplateName, ?q)) = e" for e
      using names by (auto simp: set_env_line_def env_line_def split_char_append neq_Nil_conv split: list.split)
    moreover have "set_env_line e (env_line (envVariableAnnotationsEnabledName, ''true'')) = e(envVariableAnnotationsEnabledName \<mapsto> ''true'')" for e
      using names by (simp add: set_env_line_def env_line_def split_char_append Setenv_def)
    ultimately show "snd (SetEnvVarsFromFile podAnnotationEnvVarPath (file_at L (cm_files s') podAnnotationEnvVarPath) (cm_env s)) =
        (cm_env s)(envVariableAnnotationsEnabledName \<mapsto> ''true'')"
      by (simp add: f SetEnvVarsFromFile_def scan)
  }
  show "s' = s" if "\<not> valid_regex L regex"
    using assms(1-3,8) that
    by (simp add: parseSettingsForPodAnnotations_def configurePodAnnotationSettings_def populatePodAnnotationNamespaceFromConfigMap_def)
qed

theorem pod_annotation_regex_kept_witness:
  "let m = fmupd ''pod-annotation-based-scraping'' (fmupd ''podannotationnamespaceregex'' ''a=b'' fmempty) fmempty;
       s' = parseSettingsForPodAnnotations demo_cm_lib (Some m) demo_cm
   in Getenv (cm_env s') envVariableTemplateName = [CHR 0x27] @ ''a=b'' @ [CHR 0x27]"
proof -
  define m :: sections where "m = fmupd ''pod-annotation-based-scraping'' (fmupd ''podannotationnamespaceregex'' ''a=b'' fmempty) fmempty"
  have "fmlookup m ''pod-annotation-based-scraping'' = Some (fmupd ''podannotationnamespaceregex'' ''a=b'' fmempty)"
    "fmlookup (fmupd ''podannotationnamespaceregex'' ''a=b'' fmempty) ''podannotationnamespaceregex'' = Some ''a=b''"
    "''a=b'' \<noteq> ''''" "CHR 0x0A \<notin> set ''a=b''" "CHR 0x00 \<notin> set ''a=b''" "length ''a=b'' < 65000"
    by (simp_all add: m_def)
  note main = pod_annotation_regex_kept [OF this demo_ready(2) refl, of demo_cm]
  moreover have "valid_regex demo_cm_lib ''a=b''" by (simp add: demo_cm_lib_def)
  moreover have "envVariableTemplateName \<noteq> envVariableAnnotationsEnabledName"
    by (simp add: envVariableTemplateName_def envVariableAnnotationsEnabledName_def)
  ultimately show ?thesis by (simp add: Let_def Getenv_def flip: m_def)
qed

lemma split_Join:
  assumes "xs \<noteq> []" and "\<And>x. x \<in> set xs \<Longrightarrow> c \<notin> set x"
  shows "split_char c (Join xs [c]) = xs"
  using assms by (induction xs "[c]" rule: Join.induct) (auto simp: split_char_absent split_char_append)

lemma split_namespaces_ns: "ns \<in> set (split_namespaces v) \<Longrightarrow> ns \<noteq> '''' \<and> TrimSpace ns = ns \<and> CHR '','' \<notin> set ns"
  using split_char_sep [of _ "CHR '',''" v] set_TrimSpace by (fastforce simp: split_namespaces_def)

lemma clean_alias_ends: "clean_alias s = '''' \<or> hd (clean_alias s) \<noteq> CHR ''_'' \<and> last (clean_alias s) \<noteq> CHR ''_''"
  using trim_by_ends [of "\<lambda>c. c = CHR ''_''" "replace_runs False s"] by (simp add: clean_alias_def)

definition alias_of :: "sections \<Rightarrow> string" where
  "alias_of m = (case collector_setting m ''cluster_alias'' of None \<Rightarrow> '''' | Some v \<Rightarrow> clean_alias (TrimSpace v))"

definition namespaces_of :: "sections \<Rightarrow> string list" where
  "namespaces_of m = (case collector_setting m ''secrets_access_namespaces'' of None \<Rightarrow> [] | Some v \<Rightarrow> split_namespaces (TrimSpace v))"

lemma split_namespaces_empty: "split_namespaces '''' = []"
  by (simp add: split_namespaces_def TrimSpace_def trim_by_def)

lemma populated_fields:
  fixes env m defines "cp \<equiv> PopulateSettingValuesFromConfigMap env m (initial_processor env)"
  shows "ClusterAlias cp = alias_of m" "SecretsAccessNamespaces cp = namespaces_of m"
    "IsOperatorEnabled cp \<longleftrightarrow> is_true (Getenv env ''AZMON_OPERATOR_ENABLED'') \<and> collector_setting m ''operator_enabled'' = Some ''true''"
    "TargetallocatorHttpsEnabled cp \<longleftrightarrow> is_true (Getenv env ''OPERATOR_TARGETS_HTTPS_ENABLED'') \<and>
       (\<forall>v. collector_setting m ''https_config'' = Some v \<longrightarrow> ToLower v \<noteq> ''false'')"
  unfolding cp_def PopulateSettingValuesFromConfigMap_def
  by (auto simp: set_https_def set_secrets_def set_operator_def set_alias_def set_account_def alias_of_def namespaces_of_def
      empty_processor_def split_namespaces_empty Let_def split: option.split)

lemma collector_vars_distinct: "distinct (map fst (collector_vars cp))"
  by (cases "IsOperatorEnabled cp"; cases "SecretsAccessNamespaces cp") (simp_all add: collector_vars_def)

lemma collector_vars_lookup:
  assumes "writable (base L) collectorSettingsEnvVarPath" and "cp = configured (cm_env s) (sections_of m) (initial_processor (cm_env s))"
    and "list_all (\<lambda>kv. plain (snd kv)) (collector_vars cp)"
  shows "cm_env (parsePrometheusCollectorConfig L m s) = cm_env s ++ map_of (collector_vars cp)"
proof -
  have "list_all (\<lambda>(k, v). plain k \<and> plain v \<and> k \<noteq> '''') (collector_vars cp)"
    using assms(3) collector_vars_names [of cp] collector_names_plain by (fastforce simp: list_all_iff)
  from SetEnvVars_file [OF this collector_vars_distinct] show ?thesis
    by (simp add: collector_config_state [OF assms(1)] handleEnvFileError_def file_at_def flip: assms(2))
qed

text \<open>
  The collector settings of a config map. The alias that reaches the environment consists of letters, digits and underscores,
  with no underscore at either end, and is the cluster label unless nothing is left of it, when that is the
  name of the cluster; splitting the list of namespaces gives exactly the trimmed, non-empty namespaces of the
  setting; HTTPS is on exactly when the chart enables it and the setting does not disable it. The operator setting is
  different: where the chart enables the operator, it stays enabled whatever the config map says.
\<close>

theorem collector_settings_env:
  assumes "supported_schema (cm_env s)" and "m \<noteq> fmempty" and "writable (base L) collectorSettingsEnvVarPath"
    and "list_all (\<lambda>kv. plain (snd kv)) (collector_vars (configured (cm_env s) m (initial_processor (cm_env s))))"
    and "env' = cm_env (parsePrometheusCollectorConfig L (Some m) s)"
  shows "env' ''AZMON_CLUSTER_ALIAS'' = Some (alias_of m)
    \<and> env' ''AZMON_CLUSTER_LABEL'' = Some (if alias_of m = '''' then cluster_name (cm_env s) else alias_of m)
    \<and> list_all (\<lambda>c. is_alnum c \<or> c = CHR ''_'') (alias_of m)
    \<and> (alias_of m \<noteq> '''' \<longrightarrow> hd (alias_of m) \<noteq> CHR ''_'' \<and> last (alias_of m) \<noteq> CHR ''_'')
    \<and> (namespaces_of m \<noteq> [] \<longrightarrow> split_char CHR '','' (Getenv env' ''AZMON_SECRETS_ACCESS_NAMESPACES'') = namespaces_of m)
    \<and> list_all (\<lambda>ns. ns \<noteq> '''' \<and> TrimSpace ns = ns) (namespaces_of m)
    \<and> (env' ''AZMON_OPERATOR_HTTPS_ENABLED'' = Some ''true'' \<longleftrightarrow> is_true (Getenv (cm_env s) ''OPERATOR_TARGETS_HTTPS_ENABLED'') \<and>
        (\<forall>v. collector_setting m ''https_config'' = Some v \<longrightarrow> ToLower v \<noteq> ''false''))
    \<and> (is_true (Getenv (cm_env s) ''AZMON_OPERATOR_ENABLED'') \<longleftrightarrow> is_true (Getenv env' ''AZMON_OPERATOR_ENABLED''))"
proof -
  let ?cp = "configured (cm_env s) m (initial_processor (cm_env s))"
  have len: "gomap_len m > 0" using assms(2) by (metis gomap_len_0 neq0_conv)
  have f: "ClusterAlias ?cp = alias_of m" "SecretsAccessNamespaces ?cp = namespaces_of m"
    "ClusterLabel ?cp = (if alias_of m = '''' then cluster_name (cm_env s) else alias_of m)"
    "IsOperatorEnabled ?cp \<longleftrightarrow> is_true (Getenv (cm_env s) ''AZMON_OPERATOR_ENABLED'') \<and> collector_setting m ''operator_enabled'' = Some ''true''"
    "TargetallocatorHttpsEnabled ?cp \<longleftrightarrow> is_true (Getenv (cm_env s) ''OPERATOR_TARGETS_HTTPS_ENABLED'') \<and>
       (\<forall>v. collector_setting m ''https_config'' = Some v \<longrightarrow> ToLower v \<noteq> ''false'')"
    using assms(1) len populated_fields [of "cm_env s" m] by (simp_all add: configured_def Let_def)
  have env: "env' = cm_env s ++ map_of (collector_vars ?cp)"
    using collector_vars_lookup [OF assms(3), of ?cp s "Some m"] assms(4) by (simp add: assms(5))
  have "env' ''AZMON_CLUSTER_ALIAS'' = Some (alias_of m)"
    "env' ''AZMON_CLUSTER_LABEL'' = Some (if alias_of m = '''' then cluster_name (cm_env s) else alias_of m)"
    "env' ''AZMON_OPERATOR_HTTPS_ENABLED'' = Some (print_bool (TargetallocatorHttpsEnabled ?cp))"
    "namespaces_of m \<noteq> [] \<Longrightarrow> env' ''AZMON_SECRETS_ACCESS_NAMESPACES'' = Some (Join (namespaces_of m) '','')"
    "env' ''AZMON_OPERATOR_ENABLED'' = (if IsOperatorEnabled ?cp then Some ''true'' else cm_env s ''AZMON_OPERATOR_ENABLED'')"
    by (simp_all add: env collector_vars_def f(1-3) map_add_def print_bool_def)
  note e = this
  have ns: "list_all (\<lambda>ns. ns \<noteq> '''' \<and> TrimSpace ns = ns \<and> CHR '','' \<notin> set ns) (namespaces_of m)"
    using split_namespaces_ns by (auto simp: namespaces_of_def list_all_iff split: option.split)
  have al: "list_all (\<lambda>c. is_alnum c \<or> c = CHR ''_'') (alias_of m)"
    "alias_of m \<noteq> '''' \<longrightarrow> hd (alias_of m) \<noteq> CHR ''_'' \<and> last (alias_of m) \<noteq> CHR ''_''"
    using clean_alias_chars clean_alias_ends by (auto simp: alias_of_def list_all_iff split: option.split)
  have "namespaces_of m \<noteq> [] \<longrightarrow> split_char CHR '','' (Getenv env' ''AZMON_SECRETS_ACCESS_NAMESPACES'') = namespaces_of m"
    using split_Join [of "namespaces_of m" "CHR '',''"] ns e(4) by (auto simp: Getenv_def list_all_iff)
  moreover have "is_true (Getenv (cm_env s) ''AZMON_OPERATOR_ENABLED'') \<longleftrightarrow> is_true (Getenv env' ''AZMON_OPERATOR_ENABLED'')"
    using f(4) by (auto simp: Getenv_def e(5) is_true_def ToLower_def lower_char_def)
  moreover have "list_all (\<lambda>ns. ns \<noteq> '''' \<and> TrimSpace ns = ns) (namespaces_of m)" using ns by (auto simp: list_all_iff)
  ultimately show ?thesis using e(1-3) al f(5) by (simp add: print_bool_def)
qed

definition demo_collector_m :: sections where
  "demo_collector_m = fmap_of_list [(''prometheus-collector-settings'', fmap_of_list
     [(''cluster_alias'', '' my--cluster! ''), (''secrets_access_namespaces'', '' a, ,b''), (''operator_enabled'', ''false'')])]"

definition demo_collector_s :: cm_state where
  "demo_collector_s = \<lparr>cm_env = [''AZMON_AGENT_CFG_SCHEMA_VERSION'' \<mapsto> ''v1'', ''AZMON_OPERATOR_ENABLED'' \<mapsto> ''true''], cm_files = fmempty\<rparr>"

theorem collector_settings_env_witness:
  "let env' = cm_env (parsePrometheusCollectorConfig demo_cm_lib (Some demo_collector_m) demo_collector_s)
   in env' ''AZMON_CLUSTER_LABEL'' = Some ''my_cluster'' \<and> split_char CHR '','' (Getenv env' ''AZMON_SECRETS_ACCESS_NAMESPACES'') = [''a'', ''b''] \<and>
      is_true (Getenv env' ''AZMON_OPERATOR_ENABLED'')"
proof -
  have a: "supported_schema (cm_env demo_collector_s)" by code_simp
  have b: "demo_collector_m \<noteq> fmempty"
  proof
    assume "demo_collector_m = fmempty"
    then have "fmlookup demo_collector_m ''prometheus-collector-settings'' = None" by simp
    then show False by (simp add: demo_collector_m_def fmlookup_of_list)
  qed
  have d: "list_all (\<lambda>kv. plain (snd kv)) (collector_vars (configured (cm_env demo_collector_s) demo_collector_m (initial_processor (cm_env demo_collector_s))))"
    by code_simp
  have v: "alias_of demo_collector_m = ''my_cluster''" "namespaces_of demo_collector_m = [''a'', ''b'']"
    "is_true (Getenv (cm_env demo_collector_s) ''AZMON_OPERATOR_ENABLED'')"
    by (code_simp)+
  show ?thesis using collector_settings_env [OF a b demo_ready(2) d refl] v by (simp add: Let_def)
qed

end
