(* ===== verification/Validator.thy ===== *)
theory Validator
  imports ConfigMap AnyValue
begin

text \<open>
  \<open>prom-config-validator-builder/main.go\<close>: the validator process that \<open>Configmapparser\<close> runs. It turns a Prometheus
  configuration into one of the collector, writes it, and has the collector's own loader check it. That loader is the parameter
  \<open>collector_check\<close> (the message of its error, if any), and the text of the errors of libraries is \<open>error_text\<close>.
\<close>

datatype gen_error = ReadFileError string | UnmarshalFileError string | UnsupportedFeatures "string list" | MarshalConfigError | WriteFileError string

record validator_lib =
  collector_check :: "string \<Rightarrow> environ \<Rightarrow> string option"
  error_text :: "gen_error \<Rightarrow> string"

section \<open>Dollar signs\<close>

definition escape_dollars :: "string \<Rightarrow> string" where
  "escape_dollars s =
     ReplaceAll ''$$NODE_IP'' ''${env:NODE_IP}''
       (ReplaceAll ''$$NODE_NAME'' ''${env:NODE_NAME}''
         (ReplaceAll ''$'' ''$$'' (ReplaceAll ''$$'' ''$'' s)))"

definition expand_target :: "string \<Rightarrow> string" where
  "expand_target s =
     ReplaceAll ''$NODE_IP'' ''${env:NODE_IP}''
       (ReplaceAll ''$NODE_NAME'' ''${env:NODE_NAME}''
         (ReplaceAll ''$$NODE_IP'' ''$NODE_IP''
           (ReplaceAll ''$$NODE_NAME'' ''$NODE_NAME'' s)))"

fun escape_rule :: "yval \<Rightarrow> yval go" where
  "escape_rule (YMap m) =
     (let m1 = (case fmlookup m (KStr ''regex'') of
                  Some (YStr r) \<Rightarrow> fmupd (KStr ''regex'') (YStr (escape_dollars r)) m | _ \<Rightarrow> m)
      in case fmlookup m1 (KStr ''replacement'') of
           None \<Rightarrow> Inr (YMap m1)
         | Some YNil \<Rightarrow> Inr (YMap m1)
         | Some (YStr r) \<Rightarrow> Inr (YMap (fmupd (KStr ''replacement'') (YStr (escape_dollars r)) m1))
         | Some _ \<Rightarrow> Inl TypeAssertion)"
| "escape_rule _ = Inl TypeAssertion"

text \<open>One of the lists of a scrape job: nothing when it is missing or null, and a panic when it is not a list.\<close>

definition update_list :: "string \<Rightarrow> (yval \<Rightarrow> yval go) \<Rightarrow> ymap \<Rightarrow> ymap go" where
  "update_list key f m =
     (case fmlookup m (KStr key) of
        None \<Rightarrow> Inr m
      | Some YNil \<Rightarrow> Inr m
      | Some (YSeq xs) \<Rightarrow> go_bind (mapM_go f xs) (\<lambda>ys. Inr (fmupd (KStr key) (YSeq ys) m))
      | Some _ \<Rightarrow> Inl TypeAssertion)"

definition escape_target :: "yval \<Rightarrow> yval" where
  "escape_target t = (case t of YStr s \<Rightarrow> YStr (expand_target s) | _ \<Rightarrow> t)"

fun escape_static :: "yval \<Rightarrow> yval go" where
  "escape_static (YMap m) = go_bind (update_list ''targets'' (\<lambda>t. Inr (escape_target t)) m) (\<lambda>m'. Inr (YMap m'))"
| "escape_static _ = Inl TypeAssertion"

fun escape_job :: "yval \<Rightarrow> yval go" where
  "escape_job (YMap m) =
     go_bind (update_list ''relabel_configs'' escape_rule m) (\<lambda>m1.
     go_bind (update_list ''metric_relabel_configs'' escape_rule m1) (\<lambda>m2.
     go_bind (update_list ''static_configs'' escape_static m2) (\<lambda>m3. Inr (YMap m3))))"
| "escape_job _ = Inl TypeAssertion"

section \<open>Generating the collector configuration\<close>

definition present :: "ymap \<Rightarrow> string \<Rightarrow> bool" where
  "present m key \<longleftrightarrow> fmlookup m (KStr key) \<noteq> None \<and> fmlookup m (KStr key) \<noteq> Some YNil"

definition unsupported :: "ymap \<Rightarrow> string list" where
  "unsupported config = filter (present config) [''remote_write'', ''remote_read'', ''rule_files'', ''alerting'']"

definition append_file :: "cm_lib \<Rightarrow> string \<Rightarrow> string \<Rightarrow> fsys \<Rightarrow> fsys" where
  "append_file L f txt fs = (if writable (base L) f then fmupd f (get0 '''' fs f @ txt) fs else fs)"

definition record_global :: "cm_lib \<Rightarrow> ymap \<Rightarrow> fsys \<Rightarrow> fsys go" where
  "record_global L config fs =
     (if present config ''global''
      then (case fmlookup config (KStr ''global'') of
          Some (YMap globalSettings) \<Rightarrow>
            Inr (if gomap_len globalSettings > 1 \<or> gomap_len globalSettings = 1 \<and>
                      fmlookup globalSettings (KStr ''scrape_interval'') \<noteq> Some (YStr ''15s'')
                 then append_file L validatorEnvVarPath (''AZMON_GLOBAL_SETTINGS_CONFIGURED=true'' @ [CHR 0x0A]) fs else fs)
        | _ \<Rightarrow> Inl TypeAssertion)
      else Inr fs)"

definition with_prometheus :: "environ \<Rightarrow> ymap \<Rightarrow> OtelConfig \<Rightarrow> OtelConfig" where
  "with_prometheus env config otel =
     (let otel = otel\<lparr>prometheus_Config := Some config\<rparr> in
      if Getenv env ''DEBUG_MODE_ENABLED'' = ''true'' then debug_pipelines env otel else otel)"

definition write_config :: "cm_lib \<Rightarrow> string \<Rightarrow> OtelConfig \<Rightarrow> fsys \<Rightarrow> gen_error option \<times> fsys" where
  "write_config L out otel fs =
     (case MarshalOtel L otel of
        None \<Rightarrow> (Some MarshalConfigError, fs)
      | Some text \<Rightarrow> (case WriteFile (base L) out text fs of None \<Rightarrow> (Some (WriteFileError out), fs) | Some fs' \<Rightarrow> (None, fs')))"

definition generateOtelConfig :: "cm_lib \<Rightarrow> environ \<Rightarrow> string \<Rightarrow> string \<Rightarrow> string \<Rightarrow> fsys \<Rightarrow> (gen_error option \<times> fsys) go" where
  "generateOtelConfig L env promFilePath outputFilePath otelConfigTemplatePath fs =
     (case fmlookup fs otelConfigTemplatePath of
        None \<Rightarrow> Inr (Some (ReadFileError otelConfigTemplatePath), fs)
      | Some template \<Rightarrow>
        (case UnmarshalOtel L template of
           None \<Rightarrow> Inr (Some (UnmarshalFileError otelConfigTemplatePath), fs)
         | Some otelConfig \<Rightarrow>
           (case fmlookup fs promFilePath of
              None \<Rightarrow> Inr (Some (ReadFileError promFilePath), fs)
            | Some contents \<Rightarrow>
              (case UnmarshalStr (base L) contents of
                 None \<Rightarrow> Inr (Some (UnmarshalFileError promFilePath), fs)
               | Some config \<Rightarrow>
                 go_bind (update_list ''scrape_configs'' escape_job config) (\<lambda>config.
                 if unsupported config \<noteq> [] then Inr (Some (UnsupportedFeatures (unsupported config)), fs)
                 else go_bind (record_global L config fs) (\<lambda>fs'.
                   Inr (write_config L outputFilePath (with_prometheus env config otelConfig) fs')))))))"

section \<open>The process\<close>

definition message_line :: "environ \<Rightarrow> string \<Rightarrow> string" where
  "message_line env message =
     (let truncatedMessage = filter (\<lambda>c. c \<noteq> CHR 0x0A) (take 1023 message) in
      if Getenv env ''OS_TYPE'' \<noteq> ''linux'' then ''INVALID_CONFIG_FATAL_ERROR='' @ truncatedMessage @ [CHR 0x0A]
      else ''export INVALID_CONFIG_FATAL_ERROR='' @ [CHR 0x22] @ truncatedMessage @ [CHR 0x22] @ [CHR 0x0A])"

definition setFatalErrorMessageAsEnvVar :: "cm_lib \<Rightarrow> environ \<Rightarrow> string \<Rightarrow> fsys \<Rightarrow> fsys" where
  "setFatalErrorMessageAsEnvVar L env message fs = append_file L validatorEnvVarPath (message_line env message) fs"

definition logFatalError :: "cm_lib \<Rightarrow> environ \<Rightarrow> string \<Rightarrow> fsys \<Rightarrow> fsys" where
  "logFatalError L env message fs =
     (if Getenv env ''CONFIG_VALIDATOR_RUNNING_IN_AGENT'' = ''true'' then setFatalErrorMessageAsEnvVar L env message fs else fs)"

text \<open>
  \<open>main\<close> with the flags that the agent passes: whether the process succeeds, and the files it leaves. A panic ends the process, too.
\<close>

definition validator_main :: "cm_lib \<Rightarrow> validator_lib \<Rightarrow> string \<Rightarrow> string \<Rightarrow> string \<Rightarrow> environ \<Rightarrow> fsys \<Rightarrow> bool \<times> fsys" where
  "validator_main L V otelConfigTemplatePath promFilePath outputFilePath env fs =
     (case generateOtelConfig L env promFilePath outputFilePath otelConfigTemplatePath fs of
        Inl fault \<Rightarrow> (False, fs)
      | Inr (Some e, fs1) \<Rightarrow> (False, logFatalError L env (''Generating otel config failed: '' @ error_text V e @ [CHR 0x0A]) fs1)
      | Inr (None, fs1) \<Rightarrow>
        (case collector_check V (get0 '''' fs1 outputFilePath) env of
           None \<Rightarrow> (True, fs1)
         | Some message \<Rightarrow> (False, logFatalError L env message fs1)))"

definition templatePath :: string where
  "templatePath = ''/opt/microsoft/otelcollector/collector-config-template.yml''"

text \<open>The libraries of \<open>Configmapparser\<close> with this validator.\<close>

definition with_validator :: "validator_lib \<Rightarrow> cm_lib \<Rightarrow> cm_lib" where
  "with_validator V L = L\<lparr>promconfigvalidator := validator_main L V templatePath\<rparr>"

end
