(* ===== verification/ValidatorProps.thy ===== *)
theory ValidatorProps
  imports ConfigMapProps Validator
begin

text \<open>
  Properties of the validator and of the decisions \<open>Configmapparser\<close> takes on its verdicts.
\<close>

section \<open>The escaping of dollar signs\<close>

abbreviation node_name_ref :: string where
  "node_name_ref \<equiv> ''${env:NODE_NAME}''"

abbreviation node_ip_ref :: string where
  "node_ip_ref \<equiv> ''${env:NODE_IP}''"

text \<open>
  What the four replacements amount to, in one pass: one or two dollar signs are a literal one, which is doubled,
  unless \<open>NODE_NAME\<close> or \<open>NODE_IP\<close> follows, which makes them a reference to that variable.
\<close>

function escape_spec :: "string \<Rightarrow> string" where
  "escape_spec [] = []"
| "escape_spec (c # cs) =
     (if c \<noteq> CHR ''$'' then c # escape_spec cs
      else
        let rest = (case cs of [] \<Rightarrow> [] | d # ds \<Rightarrow> if d = CHR ''$'' then ds else cs) in
        if prefix ''NODE_NAME'' rest then node_name_ref @ escape_spec (drop 9 rest)
        else if prefix ''NODE_IP'' rest then node_ip_ref @ escape_spec (drop 7 rest)
        else ''$$'' @ escape_spec rest)"
  by pat_completeness auto
termination
  by (relation "measure length") (auto split: list.splits)

definition collapse :: "string \<Rightarrow> string" where
  "collapse s = ReplaceAll ''$$'' ''$'' s"

definition double :: "string \<Rightarrow> string" where
  "double s = ReplaceAll ''$'' ''$$'' s"

lemma collapse_simps [simp]:
  "collapse [] = []"
  "c \<noteq> CHR ''$'' \<Longrightarrow> collapse (c # cs) = c # collapse cs"
  "collapse (CHR ''$'' # CHR ''$'' # cs) = CHR ''$'' # collapse cs"
  "collapse [CHR ''$''] = ''$''"
  "d \<noteq> CHR ''$'' \<Longrightarrow> collapse (CHR ''$'' # d # cs) = CHR ''$'' # d # collapse cs"
  by (simp_all add: collapse_def)

lemma double_simps [simp]:
  "double [] = []"
  "c \<noteq> CHR ''$'' \<Longrightarrow> double (c # cs) = c # double cs"
  "double (CHR ''$'' # cs) = CHR ''$'' # CHR ''$'' # double cs"
  by (simp_all add: double_def)

text \<open>After the names are replaced, and after the addresses are.\<close>

function with_names :: "string \<Rightarrow> string" where
  "with_names [] = []"
| "with_names (c # cs) =
     (if c \<noteq> CHR ''$'' then c # with_names cs
      else if prefix ''NODE_NAME'' cs then node_name_ref @ with_names (drop 9 cs) else ''$$'' @ with_names cs)"
  by pat_completeness auto
termination
  by (relation "measure length") auto

function with_both :: "string \<Rightarrow> string" where
  "with_both [] = []"
| "with_both (c # cs) =
     (if c \<noteq> CHR ''$'' then c # with_both cs
      else if prefix ''NODE_NAME'' cs then node_name_ref @ with_both (drop 9 cs)
      else if prefix ''NODE_IP'' cs then node_ip_ref @ with_both (drop 7 cs) else ''$$'' @ with_both cs)"
  by pat_completeness auto
termination
  by (relation "measure length") auto

text \<open>Each of these functions copies text without dollar signs, and only that.\<close>

definition copies_text :: "(string \<Rightarrow> string) \<Rightarrow> bool" where
  "copies_text f \<longleftrightarrow> f [] = [] \<and> (\<forall>c cs. c \<noteq> CHR ''$'' \<longrightarrow> f (c # cs) = c # f cs) \<and>
     (\<forall>cs. \<exists>ds. f (CHR ''$'' # cs) = CHR ''$'' # ds)"

lemma copies_textD: "copies_text f \<Longrightarrow> c \<noteq> CHR ''$'' \<Longrightarrow> f (c # cs) = c # f cs"
  by (simp add: copies_text_def)

lemma copies_prefix:
  assumes "copies_text f" and "CHR ''$'' \<notin> set w"
  shows "prefix w (f t) \<longleftrightarrow> prefix w t" "f (w @ t) = w @ f t"
proof -
  show "prefix w (f t) \<longleftrightarrow> prefix w t"
    using assms
  proof (induction w arbitrary: t)
    case (Cons a w)
    show ?case
    proof (cases t)
      case Nil
      then show ?thesis using Cons.prems by (simp add: copies_text_def)
    next
      case t: (Cons c cs)
      show ?thesis
      proof (cases "c = CHR ''$''")
        case True
        then obtain ds where "f t = CHR ''$'' # ds" using Cons.prems(1) t unfolding copies_text_def by blast
        then show ?thesis using Cons.prems(2) t True by auto
      next
        case False
        then have "f t = c # f cs" using copies_textD [OF Cons.prems(1)] t by simp
        then show ?thesis using Cons t by auto
      qed
    qed
  qed simp
  show "f (w @ t) = w @ f t"
    using assms(2)
  proof (induction w)
    case (Cons a w)
    then have "a \<noteq> CHR ''$''" by auto
    then show ?case using Cons copies_textD [OF assms(1), of a "w @ t"] by simp
  qed simp
qed

lemma copies:
  "copies_text collapse" "copies_text double" "copies_text with_names" "copies_text with_both"
proof -
  have "\<exists>ds. collapse (CHR ''$'' # cs) = CHR ''$'' # ds" for cs
  proof (cases cs)
    case (Cons d ds)
    then show ?thesis by (cases "d = CHR ''$''") auto
  qed simp
  then show "copies_text collapse" by (simp add: copies_text_def)
qed (simp_all add: copies_text_def)

lemma names_replaced: "ReplaceAll ''$$NODE_NAME'' node_name_ref (double t) = with_names t"
proof (induction t rule: with_names.induct)
  case (2 c cs)
  show ?case
  proof (cases "c = CHR ''$''")
    case True
    have p: "prefix ''NODE_NAME'' (double cs) \<longleftrightarrow> prefix ''NODE_NAME'' cs" by (rule copies_prefix [OF copies(2)]) simp
    show ?thesis
    proof (cases "prefix ''NODE_NAME'' cs")
      case n: True
      then obtain r where r: "cs = ''NODE_NAME'' @ r" by (auto simp: prefix_def)
      have d: "double cs = ''NODE_NAME'' @ double r" unfolding r by (rule copies_prefix [OF copies(2)]) simp
      have "ReplaceAll ''$$NODE_NAME'' node_name_ref (double r) = with_names r" using 2(2) True n r by simp
      then show ?thesis using True n d r by simp
    next
      case n: False
      have "\<not> prefix ''$NODE_NAME'' (double cs)"
      proof (cases cs)
        case (Cons d ds)
        then show ?thesis by (cases "d = CHR ''$''") auto
      qed simp
      moreover have "ReplaceAll ''$$NODE_NAME'' node_name_ref (double cs) = with_names cs" using 2(3) True n by simp
      ultimately show ?thesis using True n p by simp
    qed
  next
    case False
    then show ?thesis using 2(1) by simp
  qed
qed simp

lemma addresses_replaced: "ReplaceAll ''$$NODE_IP'' node_ip_ref (with_names t) = with_both t"
proof (induction t rule: with_both.induct)
  case (2 c cs)
  show ?case
  proof (cases "c = CHR ''$''")
    case True
    have p: "prefix ''NODE_IP'' (with_names cs) \<longleftrightarrow> prefix ''NODE_IP'' cs" by (rule copies_prefix [OF copies(3)]) simp
    consider "prefix ''NODE_NAME'' cs" | "\<not> prefix ''NODE_NAME'' cs" "prefix ''NODE_IP'' cs" | "\<not> prefix ''NODE_NAME'' cs" "\<not> prefix ''NODE_IP'' cs"
      by blast
    then show ?thesis
    proof cases
      case 1
      then show ?thesis using True 2(2) by simp
    next
      case n: 2
      then obtain r where r: "cs = ''NODE_IP'' @ r" by (auto simp: prefix_def)
      have d: "with_names cs = ''NODE_IP'' @ with_names r" unfolding r by (rule copies_prefix [OF copies(3)]) simp
      have "ReplaceAll ''$$NODE_IP'' node_ip_ref (with_names r) = with_both r" using 2(3) True n r by simp
      then show ?thesis using True n d r by simp
    next
      case n: 3
      have "\<not> prefix ''$NODE_IP'' (with_names cs)"
      proof (cases cs)
        case (Cons d ds)
        then show ?thesis by (cases "d = CHR ''$''") auto
      qed simp
      moreover have "ReplaceAll ''$$NODE_IP'' node_ip_ref (with_names cs) = with_both cs" using 2(4) True n by simp
      ultimately show ?thesis using True n p by simp
    qed
  next
    case False
    then show ?thesis using 2(1) by simp
  qed
qed simp

lemma both_collapsed: "with_both (collapse s) = escape_spec s"
proof (induction s rule: escape_spec.induct)
  case (2 c cs)
  show ?case
  proof (cases "c = CHR ''$''")
    case True
    define rest where "rest = (case cs of [] \<Rightarrow> [] | d # ds \<Rightarrow> if d = CHR ''$'' then ds else cs)"
    have c: "collapse (c # cs) = CHR ''$'' # collapse rest" using True by (cases cs) (auto simp: rest_def)
    have p: "prefix ''NODE_NAME'' (collapse rest) \<longleftrightarrow> prefix ''NODE_NAME'' rest" "prefix ''NODE_IP'' (collapse rest) \<longleftrightarrow> prefix ''NODE_IP'' rest"
      by (rule copies_prefix [OF copies(1)], simp)+
    have d: "prefix ''NODE_NAME'' rest \<Longrightarrow> drop 9 (collapse rest) = collapse (drop 9 rest)"
      "prefix ''NODE_IP'' rest \<Longrightarrow> drop 7 (collapse rest) = collapse (drop 7 rest)"
      using copies_prefix(2) [OF copies(1), of "''NODE_NAME''"] copies_prefix(2) [OF copies(1), of "''NODE_IP''"]
      by (auto simp: prefix_def)
    note ih = 2(2-4) [OF _ rest_def]
    show ?thesis using True ih unfolding c by (auto simp: p d Let_def simp flip: rest_def)
  next
    case False
    then show ?thesis using 2(1) by simp
  qed
qed simp

lemma escape_eq_spec: "escape_dollars s = escape_spec s"
  unfolding escape_dollars_def collapse_def [symmetric] double_def [symmetric]
  by (simp add: names_replaced addresses_replaced both_collapsed)

text \<open>
  The four replacements that the validator applies to the regular expressions and replacements of relabelling
  rules are the single pass of the specification. They can be applied again: text without references to the node is left as it is the second time.
\<close>

theorem escape_dollars_spec:
  "escape_dollars s = escape_spec s \<and>
   (\<not> sublist ''NODE_NAME'' s \<and> \<not> sublist ''NODE_IP'' s \<longrightarrow> escape_dollars (escape_dollars s) = escape_dollars s)"
proof -
  have "escape_spec (escape_spec s) = escape_spec s" if "\<not> sublist ''NODE_NAME'' s \<and> \<not> sublist ''NODE_IP'' s"
    using that
  proof (induction s rule: escape_spec.induct)
    case (2 c cs)
    have cs: "\<not> sublist ''NODE_NAME'' cs" "\<not> sublist ''NODE_IP'' cs" using 2(5) by (metis sublist_Cons_right)+
    show ?case
    proof (cases "c = CHR ''$''")
      case True
      define rest where "rest = (case cs of [] \<Rightarrow> [] | d # ds \<Rightarrow> if d = CHR ''$'' then ds else cs)"
      have r: "\<not> sublist ''NODE_NAME'' rest" "\<not> sublist ''NODE_IP'' rest" using cs
        by (auto simp: rest_def split: list.split) (metis sublist_Cons_right)+
      then have n: "\<not> prefix ''NODE_NAME'' rest" "\<not> prefix ''NODE_IP'' rest" using prefix_imp_sublist by blast+
      have e: "escape_spec (c # cs) = CHR ''$'' # CHR ''$'' # escape_spec rest" using True n by (simp add: Let_def flip: rest_def)
      have c: "copies_text escape_spec" by (auto simp: copies_text_def Let_def)
      have "escape_spec (escape_spec rest) = escape_spec rest" using 2(4) [OF _ rest_def] True n r by simp
      then show ?thesis unfolding e using copies_prefix(1) [OF c, of "''NODE_NAME''" rest] copies_prefix(1) [OF c, of "''NODE_IP''" rest] n
        by simp
    next
      case False
      then show ?thesis using 2(1) cs by simp
    qed
  qed simp
  then show ?thesis by (simp add: escape_eq_spec)
qed

theorem escape_dollars_spec_witness:
  "escape_dollars ''a$1$$NODE_IP'' = ''a$$1${env:NODE_IP}'' \<and> escape_dollars (escape_dollars ''$1'') = ''$$1''"
proof -
  have "\<not> sublist ''NODE_NAME'' ''$1'' \<and> \<not> sublist ''NODE_IP'' ''$1''" by (simp add: sublist_Cons_right)
  then have "escape_dollars (escape_dollars ''$1'') = escape_dollars ''$1''" "escape_dollars ''$1'' = escape_spec ''$1''"
    using escape_dollars_spec [of "''$1''"] by blast+
  moreover have "escape_dollars ''a$1$$NODE_IP'' = escape_spec ''a$1$$NODE_IP''" using escape_dollars_spec by blast
  moreover have "escape_spec ''$1'' = ''$$1''" "escape_spec ''a$1$$NODE_IP'' = ''a$$1${env:NODE_IP}''" by simp_all
  ultimately show ?thesis by (simp only: simp_thms)
qed

section \<open>Validation\<close>

lemma set_var_simps [simp]:
  "cm_files (set_var k v s) = cm_files s" "cm_env (set_var k v s) = Setenv (cm_env s) k v"
  by (simp_all add: set_var_def)

lemma Setenv_plain [simp]:
  "Setenv env ''AZMON_SET_GLOBAL_SETTINGS'' ''true'' = env(''AZMON_SET_GLOBAL_SETTINGS'' \<mapsto> ''true'')"
  "Setenv env ''AZMON_INVALID_CUSTOM_PROMETHEUS_CONFIG'' ''true'' = env(''AZMON_INVALID_CUSTOM_PROMETHEUS_CONFIG'' \<mapsto> ''true'')"
  "Setenv env ''AZMON_INVALID_CUSTOM_PROMETHEUS_CONFIG'' ''false'' = env(''AZMON_INVALID_CUSTOM_PROMETHEUS_CONFIG'' \<mapsto> ''false'')"
  "Setenv env ''AZMON_USE_DEFAULT_PROMETHEUS_CONFIG'' ''true'' = env(''AZMON_USE_DEFAULT_PROMETHEUS_CONFIG'' \<mapsto> ''true'')"
  "Setenv env ''CONFIG_VALIDATOR_RUNNING_IN_AGENT'' ''true'' = env(''CONFIG_VALIDATOR_RUNNING_IN_AGENT'' \<mapsto> ''true'')"
  by (simp_all add: Setenv_def)

lemma run_validator_env [simp]: "cm_env (snd (run_validator L config out s)) = cm_env s"
  by (simp add: run_validator_def split: prod.split)

lemma run_validator_envD: "run_validator L config out s = (ok, s') \<Longrightarrow> cm_env s' = cm_env s"
  using run_validator_env [of L config out s] by simp

lemma copy_defaults_env [simp]: "cm_env (copy_defaults L s) = cm_env s"
  by (simp add: copy_defaults_def)

text \<open>The environment that the validator sees.\<close>

definition validator_env :: "environ \<Rightarrow> environ" where
  "validator_env env = env(''AZMON_INVALID_CUSTOM_PROMETHEUS_CONFIG'' \<mapsto> ''false'', ''CONFIG_VALIDATOR_RUNNING_IN_AGENT'' \<mapsto> ''true'')"

definition custom_ok :: "cm_lib \<Rightarrow> cm_state \<Rightarrow> bool" where
  "custom_ok L s \<longleftrightarrow> fst (promconfigvalidator L promMergedConfigPath collectorConfigPath (validator_env (cm_env s)) (cm_files s))"

lemma validation_env:
  assumes "\<not> FileExists (cm_files s) collectorConfigPath" and "cust = FileExists (cm_files s) promMergedConfigPath"
  shows "cm_env (validate_configs L s) =
    (let env = validator_env (cm_env s) in
     if cust \<and> custom_ok L s then env(''AZMON_SET_GLOBAL_SETTINGS'' \<mapsto> ''true'')
     else if cust then env(''AZMON_INVALID_CUSTOM_PROMETHEUS_CONFIG'' \<mapsto> ''true'', ''AZMON_USE_DEFAULT_PROMETHEUS_CONFIG'' \<mapsto> ''true'')
     else env(''AZMON_USE_DEFAULT_PROMETHEUS_CONFIG'' \<mapsto> ''true''))"
proof -
  let ?s1 = "set_var ''CONFIG_VALIDATOR_RUNNING_IN_AGENT'' ''true'' (set_var ''AZMON_INVALID_CUSTOM_PROMETHEUS_CONFIG'' ''false'' s)"
  have c: "cm_env (validate_custom L s') = (if fst (run_validator L promMergedConfigPath collectorConfigPath s')
      then (cm_env s')(''AZMON_SET_GLOBAL_SETTINGS'' \<mapsto> ''true'')
      else (cm_env s')(''AZMON_INVALID_CUSTOM_PROMETHEUS_CONFIG'' \<mapsto> ''true'', ''AZMON_USE_DEFAULT_PROMETHEUS_CONFIG'' \<mapsto> ''true''))" for s'
    by (auto simp: validate_custom_def Let_def split: prod.splits bool.splits dest!: run_validator_envD)
  have d: "cm_env (validate_default L s') = (cm_env s')(''AZMON_USE_DEFAULT_PROMETHEUS_CONFIG'' \<mapsto> ''true'')" for s'
    by (auto simp: validate_default_def split: prod.splits bool.splits dest!: run_validator_envD)
  have "fst (run_validator L promMergedConfigPath collectorConfigPath ?s1) = custom_ok L s"
    by (simp add: run_validator_def custom_ok_def validator_env_def split: prod.split)
  then show ?thesis using assms by (auto simp: validate_configs_def Let_def c d validator_env_def)
qed

lemma validator_result:
  "fst (validator_main L V t f out env fs) \<Longrightarrow> \<exists>text. fmlookup (snd (validator_main L V t f out env fs)) out = Some text \<and> collector_check V text env = None"
  by (auto simp: validator_main_def generateOtelConfig_def write_config_def WriteFile_def get0_def
      split: sum.splits option.splits prod.splits if_splits)

text \<open>
  The verdict on the custom configuration. With no collector configuration from an earlier run, exactly one of three things happens:
  a custom configuration that passes is used, with its global settings; one that fails is reported as invalid and
  the defaults are used; without one the defaults are used. What is used then is sound: the file left for
  the collector is one that the collector's own loader accepts.
\<close>

theorem custom_config_verdict:
  assumes "\<not> FileExists (cm_files s) collectorConfigPath" and "cust = FileExists (cm_files s) promMergedConfigPath"
    and "L' = with_validator V L" and "s' = validate_configs L' s"
  shows "(cm_env s' ''AZMON_INVALID_CUSTOM_PROMETHEUS_CONFIG'' = Some (print_bool (cust \<and> \<not> custom_ok L' s)))
    \<and> (cm_env s' ''AZMON_USE_DEFAULT_PROMETHEUS_CONFIG'' =
        (if cust \<and> custom_ok L' s then cm_env s ''AZMON_USE_DEFAULT_PROMETHEUS_CONFIG'' else Some ''true''))
    \<and> (cm_env s' ''AZMON_SET_GLOBAL_SETTINGS'' =
        (if cust \<and> custom_ok L' s then Some ''true'' else cm_env s ''AZMON_SET_GLOBAL_SETTINGS''))
    \<and> (cust \<and> custom_ok L' s \<longrightarrow> (\<exists>text. fmlookup (cm_files s') collectorConfigPath = Some text \<and>
        collector_check V text (validator_env (cm_env s)) = None))"
proof -
  have e: "cm_env s' =
    (let env = validator_env (cm_env s) in
     if cust \<and> custom_ok L' s then env(''AZMON_SET_GLOBAL_SETTINGS'' \<mapsto> ''true'')
     else if cust then env(''AZMON_INVALID_CUSTOM_PROMETHEUS_CONFIG'' \<mapsto> ''true'', ''AZMON_USE_DEFAULT_PROMETHEUS_CONFIG'' \<mapsto> ''true'')
     else env(''AZMON_USE_DEFAULT_PROMETHEUS_CONFIG'' \<mapsto> ''true''))"
    unfolding assms(4) by (rule validation_env [OF assms(1,2)])
  have f: "\<exists>text. fmlookup (cm_files s') collectorConfigPath = Some text \<and> collector_check V text (validator_env (cm_env s)) = None"
    if "cust" "custom_ok L' s"
  proof -
    let ?r = "validator_main L V templatePath promMergedConfigPath collectorConfigPath (validator_env (cm_env s)) (cm_files s)"
    have r: "fst ?r" using that(2) by (simp add: custom_ok_def assms(3) with_validator_def)
    then have "cm_files s' = snd ?r" using that(1) assms(1,2)
      by (cases ?r) (simp add: assms(3,4) validate_configs_def Let_def validate_custom_def run_validator_def with_validator_def
          validator_env_def)
    with validator_result [OF r] show ?thesis by simp
  qed
  show ?thesis using f by (simp add: e Let_def validator_env_def print_bool_def)
qed

text \<open>
  The defaults are not held to the same. When the custom configuration fails, the collector configuration made from the default
  targets is put in place because its file exists, which the validator writes before it is checked: a
  file that the collector's loader rejects is used all the same.
\<close>

theorem rejected_defaults_used:
  assumes "\<not> FileExists (cm_files s) collectorConfigPath" and "FileExists (cm_files s) promMergedConfigPath"
    and "validator_main L V templatePath promMergedConfigPath collectorConfigPath (validator_env (cm_env s)) (cm_files s) = (False, fs1)"
    and "FileExists fs1 mergedDefaultConfigPath"
    and "env = (validator_env (cm_env s))(''AZMON_INVALID_CUSTOM_PROMETHEUS_CONFIG'' \<mapsto> ''true'')"
    and "generateOtelConfig L env mergedDefaultConfigPath defaultsCollectorConfigPath templatePath fs1 = Inr (None, fs2)"
    and "fmlookup fs2 defaultsCollectorConfigPath = Some text" and "collector_check V text env = Some message"
    and "writable (base L) collectorConfigDefaultPath"
  shows "fmlookup (cm_files (validate_configs (with_validator V L) s)) collectorConfigDefaultPath = Some text"
proof -
  have b: "base (with_validator V L) = base L" "promconfigvalidator (with_validator V L) = validator_main L V templatePath"
    by (simp_all add: with_validator_def)
  have "validatorEnvVarPath \<noteq> defaultsCollectorConfigPath" by (simp add: validatorEnvVarPath_def defaultsCollectorConfigPath_def)
  then have "\<exists>fs3. validator_main L V templatePath mergedDefaultConfigPath defaultsCollectorConfigPath env fs1 = (False, fs3) \<and>
      fmlookup fs3 defaultsCollectorConfigPath = Some text"
    using assms(6-8)
    by (simp add: validator_main_def get0_def logFatalError_def setFatalErrorMessageAsEnvVar_def append_file_def)
  then obtain fs3 where v: "validator_main L V templatePath mergedDefaultConfigPath defaultsCollectorConfigPath env fs1 = (False, fs3)"
    "fmlookup fs3 defaultsCollectorConfigPath = Some text" by blast
  then show ?thesis using assms(1-4,9)
    by (simp add: assms(5) validate_configs_def Let_def validate_custom_def run_validator_def validator_env_def FileExists_def copy_defaults_def
      CopyFile_def WriteFile_def b)
qed

text \<open>
  The reason for a rejection gets lost on Linux. The validator hands its message to the agent as a line of a file; on Linux it
  writes the line for a shell, so that the agent sets a variable whose name starts with \<open>export\<close> and the one that the
  health metric reads stays as it was. Elsewhere the message arrives, shortened and without line breaks,
  unless it contains \<open>=\<close>, in which case nothing is set on any system.
\<close>

theorem fatal_message_variable:
  assumes "fmlookup (cm_files s) validatorEnvVarPath = None" and "Getenv (cm_env s) ''CONFIG_VALIDATOR_RUNNING_IN_AGENT'' = ''true''"
    and "\<And>f. writable (base L) f" and "CHR 0x0D \<notin> set message" and "CHR 0x00 \<notin> set message"
    and "msg = filter (\<lambda>c. c \<noteq> CHR 0x0A) (take 1023 message)"
    and "env' = cm_env (load_validator_vars L (s\<lparr>cm_files := logFatalError L (cm_env s) message (cm_files s)\<rparr>))"
  shows "env' =
    (if CHR ''='' \<in> set msg then cm_env s
     else if Getenv (cm_env s) ''OS_TYPE'' = ''linux''
     then (cm_env s)(''export INVALID_CONFIG_FATAL_ERROR'' \<mapsto> [CHR 0x22] @ msg @ [CHR 0x22])
     else (cm_env s)(''INVALID_CONFIG_FATAL_ERROR'' \<mapsto> msg))"
proof -
  let ?linux = "Getenv (cm_env s) ''OS_TYPE'' = ''linux''"
  define k where "k = (if ?linux then ''export INVALID_CONFIG_FATAL_ERROR'' else ''INVALID_CONFIG_FATAL_ERROR'')"
  define v where "v = (if ?linux then CHR 0x22 # msg @ [CHR 0x22] else msg)"
  have len: "length msg \<le> 1023" unfolding assms(6) by (metis length_filter_le length_take min.cobounded2 le_trans)
  have msg: "CHR 0x0A \<notin> set msg" "CHR 0x0D \<notin> set msg" "CHR 0x00 \<notin> set msg"
    using assms(4,5) by (auto simp: assms(6) dest: in_set_takeD)
  have k: "line_ok (k, v)" "k \<noteq> ''''" "CHR 0x00 \<notin> set k" "CHR ''='' \<notin> set k" "length k < 40"
    using msg(1) by (auto simp: k_def v_def line_ok_def)
  have v: "CHR 0x0A \<notin> set v" "CHR 0x0D \<notin> set v" "CHR 0x00 \<notin> set v" "CHR ''='' \<in> set v \<longleftrightarrow> CHR ''='' \<in> set msg" "length v \<le> 1025"
    using msg len by (auto simp: v_def)
  have "message_line (cm_env s) message = env_file [(k, v)]"
    by (simp add: message_line_def Let_def assms(6) k_def v_def env_file_def)
  then have content: "file_at L (logFatalError L (cm_env s) message (cm_files s)) validatorEnvVarPath = Content (env_file [(k, v)])"
    using assms(1-3) by (simp add: logFatalError_def setFatalErrorMessageAsEnvVar_def append_file_def file_at_def get0_def)
  have "last (env_line (k, v)) \<noteq> CHR 0x0D"
  proof (cases "v = []")
    case False
    then have "last v \<in> set v" by simp
    with v(2) have "last v \<noteq> CHR 0x0D" by auto
    with False show ?thesis by (simp add: env_line_def)
  qed (simp add: env_line_def)
  then have scan: "scan_lines (env_file [(k, v)]) = ([env_line (k, v)], False)"
    using raw_lines_env_file [of "[(k, v)]"] k(1,5) v(5) by (simp add: scan_lines_def drop_cr_def fits_def env_line_def)
  have split: "split_char CHR ''='' (env_line (k, v)) = k # split_char CHR ''='' v" using k(4) by (simp add: env_line_def split_char_append)
  have set: "Setenv e k v = e(k \<mapsto> v)" for e using k v(3) by (simp add: Setenv_def)
  have ne: "validatorEnvVarPath \<noteq> envvarsPath" by (simp add: validatorEnvVarPath_def envvarsPath_def)
  show ?thesis
  proof (cases "CHR ''='' \<in> set msg")
    case True
    then obtain a b where "v = a @ CHR ''='' # b" "CHR ''='' \<notin> set a" using v(4) by (meson split_list_first)
    then have "split_char CHR ''='' (env_line (k, v)) = k # a # split_char CHR ''='' b"
      unfolding split by (simp add: split_char_append)
    then have two: "two_parts (env_line (k, v)) = []" "set_env_line e (env_line (k, v)) = e" for e
      using split_char_nonempty [of "CHR ''=''" b] by (auto simp: two_parts_def set_env_line_def split: list.split)
    have "env_file [] = ''''" by (simp add: env_file_def)
    then show ?thesis using True assms(3) ne content
      by (simp add: assms(7) load_validator_vars_def scan two create_file_def WriteFile_def handleEnvFileError_def file_at_def
          SetEnvVarsFromFile_def scan_lines_def [of "[]"] split: option.splits)
  next
    case False
    then have two: "two_parts (env_line (k, v)) = [(k, v)]" "set_env_line e (env_line (k, v)) = e(k \<mapsto> v)" for e
      using v(4) by (simp_all add: two_parts_def set_env_line_def split split_char_absent set)
    then have "env' = (cm_env s)(k \<mapsto> v)" using assms(3) ne content
      by (simp add: assms(7) load_validator_vars_def scan create_file_def WriteFile_def handleEnvFileError_def file_at_def
          SetEnvVarsFromFile_def set split: option.splits)
    then show ?thesis using False by (simp add: k_def v_def)
  qed
qed

section \<open>Witnesses\<close>

definition demo_otel :: OtelConfig where
  "demo_otel =
     \<lparr>Exporters = YNil, Processors = YNil, Extensions = YNil, prometheus_Config = None, prometheus_TargetAllocator = None,
      prometheus_APIServer = YNil, service_Extensions = YNil, metrics_Exporters = YNil, metrics_Processors = YNil, metrics_Receivers = YNil,
      telemetry_Exporters = YNil, telemetry_Processors = YNil, telemetry_Receivers = YNil, logs_Level = YNil, logs_Encoding = YNil\<rparr>"

definition demo_vlib :: cm_lib where
  "demo_vlib = demo_cm_lib\<lparr>UnmarshalOtel := (\<lambda>t. Some demo_otel), MarshalOtel := (\<lambda>c. Some ''otel'')\<rparr>"

definition strict_validator :: validator_lib where
  "strict_validator = \<lparr>collector_check = (\<lambda>text env. Some ''bad''), error_text = (\<lambda>e. ''error'')\<rparr>"

definition lax_validator :: validator_lib where
  "lax_validator = \<lparr>collector_check = (\<lambda>text env. None), error_text = (\<lambda>e. ''error'')\<rparr>"

definition demo_vstate :: cm_state where
  "demo_vstate = \<lparr>cm_env = [''OS_TYPE'' \<mapsto> ''linux''],
     cm_files = fmupd templatePath ''t'' (fmupd promMergedConfigPath '''' (fmupd mergedDefaultConfigPath '''' fmempty))\<rparr>"

lemmas demo_vpaths = templatePath_def promMergedConfigPath_def mergedDefaultConfigPath_def collectorConfigPath_def
  defaultsCollectorConfigPath_def collectorConfigDefaultPath_def validatorEnvVarPath_def

lemma demo_generate:
  "fmlookup fs templatePath = Some ''t'' \<Longrightarrow> fmlookup fs f = Some '''' \<Longrightarrow> Getenv env ''DEBUG_MODE_ENABLED'' \<noteq> ''true'' \<Longrightarrow>
     generateOtelConfig demo_vlib env f out templatePath fs = Inr (None, fmupd out ''otel'' fs)"
  by (simp add: generateOtelConfig_def demo_vlib_def demo_cm_lib_def doc_of_def string_keys_def update_list_def unsupported_def present_def
      record_global_def write_config_def WriteFile_def)

lemma demo_vfiles:
  "\<not> FileExists (cm_files demo_vstate) collectorConfigPath" "FileExists (cm_files demo_vstate) promMergedConfigPath"
  "fmlookup (cm_files demo_vstate) templatePath = Some ''t''" "fmlookup (cm_files demo_vstate) promMergedConfigPath = Some ''''"
  "fmlookup (cm_files demo_vstate) mergedDefaultConfigPath = Some ''''" "Getenv (validator_env (cm_env demo_vstate)) ''DEBUG_MODE_ENABLED'' \<noteq> ''true''"
  by (simp_all add: FileExists_def demo_vstate_def demo_vpaths Getenv_def validator_env_def)

theorem custom_config_verdict_witness:
  "cm_env (validate_configs (with_validator lax_validator demo_vlib) demo_vstate) ''AZMON_SET_GLOBAL_SETTINGS'' = Some ''true'' \<and>
   cm_env (validate_configs (with_validator strict_validator demo_vlib) demo_vstate) ''AZMON_INVALID_CUSTOM_PROMETHEUS_CONFIG'' = Some ''true''"
proof -
  have "custom_ok (with_validator lax_validator demo_vlib) demo_vstate" "\<not> custom_ok (with_validator strict_validator demo_vlib) demo_vstate"
    by (simp_all add: custom_ok_def with_validator_def validator_main_def demo_generate demo_vfiles lax_validator_def strict_validator_def)
  then show ?thesis
    using custom_config_verdict [OF demo_vfiles(1) refl refl refl, of lax_validator demo_vlib]
      custom_config_verdict [OF demo_vfiles(1) refl refl refl, of strict_validator demo_vlib] demo_vfiles(2)
    by (simp add: print_bool_def)
qed

theorem rejected_defaults_used_witness:
  "fmlookup (cm_files (validate_configs (with_validator strict_validator demo_vlib) demo_vstate)) collectorConfigDefaultPath = Some ''otel''"
proof -
  let ?env = "validator_env (cm_env demo_vstate)"
  let ?fs0 = "fmupd collectorConfigPath ''otel'' (cm_files demo_vstate)"
  let ?fs1 = "logFatalError demo_vlib ?env ''bad'' ?fs0"
  have v: "validator_main demo_vlib strict_validator templatePath promMergedConfigPath collectorConfigPath ?env (cm_files demo_vstate) = (False, ?fs1)"
    by (simp add: validator_main_def demo_generate demo_vfiles strict_validator_def get0_def)
  have l: "fmlookup ?fs1 f = fmlookup (cm_files demo_vstate) f" if "f \<noteq> validatorEnvVarPath" "f \<noteq> collectorConfigPath" for f
    using that by (simp add: logFatalError_def setFatalErrorMessageAsEnvVar_def append_file_def)
  have f: "fmlookup ?fs1 templatePath = Some ''t''" "fmlookup ?fs1 mergedDefaultConfigPath = Some ''''"
    using l [of templatePath] l [of mergedDefaultConfigPath] demo_vfiles by (simp_all add: demo_vpaths)
  have e: "Getenv (?env(''AZMON_INVALID_CUSTOM_PROMETHEUS_CONFIG'' \<mapsto> ''true'')) ''DEBUG_MODE_ENABLED'' \<noteq> ''true''"
    using demo_vfiles(6) by (simp add: Getenv_def)
  have x: "FileExists ?fs1 mergedDefaultConfigPath" using f(2) by (simp add: FileExists_def)
  have w: "writable (base demo_vlib) collectorConfigDefaultPath" by (simp add: demo_vlib_def demo_cm_lib_def)
  show ?thesis
    by (rule rejected_defaults_used [OF demo_vfiles(1,2) v x refl demo_generate [OF f e] _ _ w, of "''otel''" "''bad''"])
      (simp_all add: strict_validator_def)
qed

theorem fatal_message_variable_witness:
  "let s = \<lparr>cm_env = [''OS_TYPE'' \<mapsto> ''linux'', ''CONFIG_VALIDATOR_RUNNING_IN_AGENT'' \<mapsto> ''true''], cm_files = fmempty\<rparr>;
       env' = cm_env (load_validator_vars demo_vlib (s\<lparr>cm_files := logFatalError demo_vlib (cm_env s) ''bad'' (cm_files s)\<rparr>))
   in env' ''INVALID_CONFIG_FATAL_ERROR'' = None \<and> env' ''export INVALID_CONFIG_FATAL_ERROR'' = Some ([CHR 0x22] @ ''bad'' @ [CHR 0x22])"
proof -
  define s :: cm_state where "s = \<lparr>cm_env = [''OS_TYPE'' \<mapsto> ''linux'', ''CONFIG_VALIDATOR_RUNNING_IN_AGENT'' \<mapsto> ''true''], cm_files = fmempty\<rparr>"
  have "fmlookup (cm_files s) validatorEnvVarPath = None" "Getenv (cm_env s) ''CONFIG_VALIDATOR_RUNNING_IN_AGENT'' = ''true''"
    by (simp_all add: s_def Getenv_def)
  moreover have "writable (base demo_vlib) f" for f by (simp add: demo_vlib_def demo_cm_lib_def)
  moreover have "CHR 0x0D \<notin> set ''bad''" "CHR 0x00 \<notin> set ''bad''" by simp_all
  ultimately have "cm_env (load_validator_vars demo_vlib (s\<lparr>cm_files := logFatalError demo_vlib (cm_env s) ''bad'' (cm_files s)\<rparr>)) =
      (cm_env s)(''export INVALID_CONFIG_FATAL_ERROR'' \<mapsto> [CHR 0x22] @ ''bad'' @ [CHR 0x22])"
    using fatal_message_variable [of s demo_vlib "''bad''", OF _ _ _ _ _ refl refl] by (simp add: s_def Getenv_def)
  then show ?thesis unfolding s_def [symmetric] by (simp add: Let_def) (simp add: s_def)
qed

end
