(* ===== verification/ControlPlane.thy ===== *)
theory ControlPlane
  imports Validator
begin

text \<open>
  The control-plane variant of the config map parser and the configuration merger: \<open>shared/configmap/ccp\<close>. It reads the same two formats,
  knows six targets, and merges their default files only. Names of definitions that also exist for the other variant start with
  \<open>ccp_\<close>. The functions whose text is the same there are defined by them.
\<close>

section \<open>Merging the default files\<close>

definition controlplaneKubeControllerManagerFile :: string where [file_names]:
  "controlplaneKubeControllerManagerFile = defaultPromConfigPathPrefix @ ''controlplane_kube_controller_manager.yml''"

definition controlplaneKubeSchedulerDefaultFile :: string where [file_names]:
  "controlplaneKubeSchedulerDefaultFile = defaultPromConfigPathPrefix @ ''controlplane_kube_scheduler.yml''"

definition controlplaneApiserverDefaultFile :: string where [file_names]:
  "controlplaneApiserverDefaultFile = defaultPromConfigPathPrefix @ ''controlplane_apiserver.yml''"

definition controlplaneClusterAutoscalerFile :: string where [file_names]:
  "controlplaneClusterAutoscalerFile = defaultPromConfigPathPrefix @ ''controlplane_cluster_autoscaler.yml''"

definition controlplaneNodeAutoProvisioningFile :: string where [file_names]:
  "controlplaneNodeAutoProvisioningFile = defaultPromConfigPathPrefix @ ''controlplane_node_auto_provisioning.yml''"

definition controlplaneEtcdDefaultFile :: string where [file_names]:
  "controlplaneEtcdDefaultFile = defaultPromConfigPathPrefix @ ''controlplane_etcd.yml''"

definition ccp_appendMetricRelabelConfig :: "merger_lib \<Rightarrow> string \<Rightarrow> string \<Rightarrow> fsys \<Rightarrow> fsys" where
  "ccp_appendMetricRelabelConfig L yamlConfigFile keepListRegex fs = snd (AppendMetricRelabelConfig L yamlConfigFile keepListRegex fs)"

text \<open>
  The six blocks of \<open>populateDefaultPrometheusConfig\<close> are the same for their variable, key of the hash and file. A file that cannot be
  read or written is added to the list all the same.
\<close>

definition ccp_fill_namespace :: "merger_lib \<Rightarrow> environ \<Rightarrow> string \<Rightarrow> fsys \<Rightarrow> fsys" where
  "ccp_fill_namespace L env f fs =
     (case fmlookup fs f of
        None \<Rightarrow> fs
      | Some contents \<Rightarrow>
        (case WriteFile L f (ReplaceAll ''$$POD_NAMESPACE$$'' (Getenv env ''POD_NAMESPACE'') contents) fs of None \<Rightarrow> fs | Some fs' \<Rightarrow> fs'))"

definition ccp_enabled :: "environ \<Rightarrow> string \<Rightarrow> bool" where
  "ccp_enabled env var \<longleftrightarrow>
     (case env var of None \<Rightarrow> False | Some e \<Rightarrow> ToLower e = ''true'') \<and>
     TrimSpace (ToLower (Getenv env ''CONTROLLER_TYPE'')) = replicasetControllerType"

definition ccp_block :: "merger_lib \<Rightarrow> environ \<Rightarrow> hash \<Rightarrow> pstate \<Rightarrow> string \<times> string \<times> string \<Rightarrow> pstate" where
  "ccp_block L env regexes s = (\<lambda>(var, key, file).
     if ccp_enabled env var
     then
       let fs = (case fmlookup regexes key of
                   None \<Rightarrow> pfiles s
                 | Some regex \<Rightarrow> if regex \<noteq> '''' then ccp_appendMetricRelabelConfig L file regex (pfiles s) else pfiles s)
       in add_config file (s\<lparr>pfiles := ccp_fill_namespace L env file fs\<rparr>)
     else s)"

definition ccp_targets :: "(string \<times> string \<times> string) list" where
  "ccp_targets =
     [(''AZMON_PROMETHEUS_CONTROLPLANE_KUBE_CONTROLLER_MANAGER_ENABLED'', ''CONTROLPLANE_KUBE_CONTROLLER_MANAGER_KEEP_LIST_REGEX'', controlplaneKubeControllerManagerFile),
      (''AZMON_PROMETHEUS_CONTROLPLANE_KUBE_SCHEDULER_ENABLED'', ''CONTROLPLANE_KUBE_SCHEDULER_KEEP_LIST_REGEX'', controlplaneKubeSchedulerDefaultFile),
      (''AZMON_PROMETHEUS_CONTROLPLANE_APISERVER_ENABLED'', ''CONTROLPLANE_APISERVER_KEEP_LIST_REGEX'', controlplaneApiserverDefaultFile),
      (''AZMON_PROMETHEUS_CONTROLPLANE_CLUSTER_AUTOSCALER_ENABLED'', ''CONTROLPLANE_CLUSTER_AUTOSCALER_KEEP_LIST_REGEX'', controlplaneClusterAutoscalerFile),
      (''AZMON_PROMETHEUS_CONTROLPLANE_NODE_AUTO_PROVISIONING_ENABLED'', ''CONTROLPLANE_NODE_AUTO_PROVISIONING_KEEP_LIST_REGEX'', controlplaneNodeAutoProvisioningFile),
      (''AZMON_PROMETHEUS_CONTROLPLANE_ETCD_ENABLED'', ''CONTROLPLANE_ETCD_KEEP_LIST_REGEX'', controlplaneEtcdDefaultFile)]"

definition ccp_populateDefaultPrometheusConfig :: "merger_lib \<Rightarrow> environ \<Rightarrow> merger \<Rightarrow> merger" where
  "ccp_populateDefaultPrometheusConfig L env s =
     (let s1 = loadRegexHash L s;
          p = foldl (ccp_block L env (regexHash s1)) \<lparr>pfiles = files s1, defaultConfigs = []\<rparr> ccp_targets
      in s1\<lparr>files := pfiles p, mergedDefaultConfigs := mergeDefaultScrapeConfigs L (pfiles p) (defaultConfigs p)\<rparr>)"

definition ccp_writeDefaultScrapeTargetsFile :: "merger_lib \<Rightarrow> environ \<Rightarrow> merger \<Rightarrow> merger" where
  "ccp_writeDefaultScrapeTargetsFile L env s =
     (let noDefaultScrapingEnabled = Getenv env ''AZMON_PROMETHEUS_NO_DEFAULT_SCRAPING_ENABLED'' in
      if noDefaultScrapingEnabled \<noteq> '''' \<and> ToLower noDefaultScrapingEnabled = ''false''
      then
        let s2 = ccp_populateDefaultPrometheusConfig L env (loadRegexHash L s) in
        if gomap_len (mergedDefaultConfigs s2) > 0
        then (case Marshal L (mergedDefaultConfigs s2) of
            None \<Rightarrow> s2
          | Some out \<Rightarrow> (case WriteFile L mergedDefaultConfigPath out (files s2) of None \<Rightarrow> s2 | Some fs \<Rightarrow> s2\<lparr>files := fs\<rparr>))
        else s2
      else s\<lparr>mergedDefaultConfigs := fmempty\<rparr>)"

text \<open>The interval is filled in in place, so a second run finds no placeholder.\<close>

definition ccp_set_file_interval :: "merger_lib \<Rightarrow> string \<Rightarrow> fsys \<Rightarrow> string \<Rightarrow> fsys" where
  "ccp_set_file_interval L scrapeInterval fs currentFile =
     (case fmlookup fs currentFile of
        None \<Rightarrow> fs
      | Some contents \<Rightarrow>
        (case WriteFile L currentFile (ReplaceAll ''$$SCRAPE_INTERVAL$$'' scrapeInterval contents) fs of None \<Rightarrow> fs | Some fs' \<Rightarrow> fs'))"

definition ccp_setDefaultFileScrapeInterval :: "merger_lib \<Rightarrow> string \<Rightarrow> fsys \<Rightarrow> fsys" where
  "ccp_setDefaultFileScrapeInterval L scrapeInterval fs =
     foldl (ccp_set_file_interval L scrapeInterval) fs
       [controlplaneApiserverDefaultFile, controlplaneKubeSchedulerDefaultFile, controlplaneKubeControllerManagerFile,
        controlplaneClusterAutoscalerFile, controlplaneNodeAutoProvisioningFile, controlplaneEtcdDefaultFile]"

definition prometheusCcpConfigMerger :: "merger_lib \<Rightarrow> environ \<Rightarrow> merger \<Rightarrow> merger" where
  "prometheusCcpConfigMerger L env s =
     ccp_writeDefaultScrapeTargetsFile L env
       (s\<lparr>mergedDefaultConfigs := fmempty, files := ccp_setDefaultFileScrapeInterval L ''30s'' (files s)\<rparr>)"

section \<open>Default scrape settings\<close>

record ccp_ConfigProcessor =
  ccp_DefaultMetricAccountName :: string
  ccp_ClusterAlias :: string
  ccp_ClusterLabel :: string
  ccp_IsOperatorEnabled :: bool
  ccp_IsOperatorEnabledChartSetting :: bool
  ccp_ControlplaneKubeControllerManager :: string
  ccp_ControlplaneKubeScheduler :: string
  ccp_ControlplaneApiserver :: string
  ccp_ControlplaneClusterAutoscaler :: string
  ccp_ControlplaneNodeAutoProvisioning :: string
  ccp_ControlplaneEtcd :: string
  ccp_NoDefaultsEnabled :: bool

definition ccp_empty_processor :: ccp_ConfigProcessor where
  "ccp_empty_processor = \<lparr>ccp_DefaultMetricAccountName = '''', ccp_ClusterAlias = '''', ccp_ClusterLabel = '''', ccp_IsOperatorEnabled = False,
     ccp_IsOperatorEnabledChartSetting = False, ccp_ControlplaneKubeControllerManager = '''', ccp_ControlplaneKubeScheduler = '''', ccp_ControlplaneApiserver = '''', ccp_ControlplaneClusterAutoscaler = '''', ccp_ControlplaneNodeAutoProvisioning = '''', ccp_ControlplaneEtcd = '''',
     ccp_NoDefaultsEnabled = False\<rparr>"

definition ccp_default_settings :: "(string \<times> string) list" where
  "ccp_default_settings =
     [(''controlplane-apiserver'', ''true''),
      (''controlplane-cluster-autoscaler'', ''false''),
      (''controlplane-node-auto-provisioning'', ''false''),
      (''controlplane-kube-scheduler'', ''false''),
      (''controlplane-kube-controller-manager'', ''false''),
      (''controlplane-etcd'', ''true'')]"

definition ccp_SetDefaultScrapeSettings :: "(string, string) gomap" where
  "ccp_SetDefaultScrapeSettings = fmap_of_list ccp_default_settings"

definition v2ToV1KeyMap :: "(string \<times> string) list" where
  "v2ToV1KeyMap =
     [(''apiserver'', ''controlplane-apiserver''),
      (''cluster-autoscaler'', ''controlplane-cluster-autoscaler''),
      (''node-auto-provisioning'', ''controlplane-node-auto-provisioning''),
      (''kube-scheduler'', ''controlplane-kube-scheduler''),
      (''kube-controller-manager'', ''controlplane-kube-controller-manager''),
      (''etcd'', ''controlplane-etcd'')]"

text \<open>The bodies of the loops over the section of the config map; \<open>ord\<close> is the order of the range loop over a map.\<close>

definition v1_override :: "(string, string) gomap \<Rightarrow> (string, string) gomap \<Rightarrow> string \<Rightarrow> (string, string) gomap" where
  "v1_override settings config key =
     (if prefix ''controlplane-'' key then fmupd key (get0 '''' settings key) config else config)"

definition v2_override :: "(string, string) gomap \<Rightarrow> (string, string) gomap \<Rightarrow> string \<Rightarrow> (string, string) gomap" where
  "v2_override settings config key =
     (case map_of v2ToV1KeyMap key of None \<Rightarrow> config | Some v1Key \<Rightarrow> fmupd v1Key (get0 '''' settings key) config)"

definition ccp_ParseConfigMapForDefaultScrapeSettings ::
    "((string, string) gomap \<Rightarrow> string list) \<Rightarrow> sections \<Rightarrow> string \<Rightarrow> (string, string) gomap" where
  "ccp_ParseConfigMapForDefaultScrapeSettings ord m schemaVersion =
     (if schemaVersion = ''v1''
      then (case fmlookup m ''default-scrape-settings-enabled'' of
          None \<Rightarrow> ccp_SetDefaultScrapeSettings
        | Some settings \<Rightarrow> foldl (v1_override settings) ccp_SetDefaultScrapeSettings (ord settings))
      else if schemaVersion = ''v2''
      then (case fmlookup m ''default-targets-scrape-enabled'' of
          None \<Rightarrow> ccp_SetDefaultScrapeSettings
        | Some settings \<Rightarrow> foldl (v2_override settings) ccp_SetDefaultScrapeSettings (ord settings))
      else ccp_SetDefaultScrapeSettings)"

definition ccp_set_if :: "(string, string) gomap \<Rightarrow> string \<Rightarrow> (string \<Rightarrow> ccp_ConfigProcessor \<Rightarrow> ccp_ConfigProcessor) \<Rightarrow> ccp_ConfigProcessor \<Rightarrow> ccp_ConfigProcessor" where
  "ccp_set_if config key upd cp = (case fmlookup config key of None \<Rightarrow> cp | Some v \<Rightarrow> if v \<noteq> '''' then upd v cp else cp)"

definition ccp_populate_fields :: "(string, string) gomap \<Rightarrow> ccp_ConfigProcessor \<Rightarrow> ccp_ConfigProcessor" where
  "ccp_populate_fields config cp =
     (ccp_set_if config ''controlplane-etcd'' (\<lambda>v cp. cp\<lparr>ccp_ControlplaneEtcd := v\<rparr>)
     (ccp_set_if config ''controlplane-node-auto-provisioning'' (\<lambda>v cp. cp\<lparr>ccp_ControlplaneNodeAutoProvisioning := v\<rparr>)
     (ccp_set_if config ''controlplane-cluster-autoscaler'' (\<lambda>v cp. cp\<lparr>ccp_ControlplaneClusterAutoscaler := v\<rparr>)
     (ccp_set_if config ''controlplane-apiserver'' (\<lambda>v cp. cp\<lparr>ccp_ControlplaneApiserver := v\<rparr>)
     (ccp_set_if config ''controlplane-kube-scheduler'' (\<lambda>v cp. cp\<lparr>ccp_ControlplaneKubeScheduler := v\<rparr>)
     (ccp_set_if config ''controlplane-kube-controller-manager'' (\<lambda>v cp. cp\<lparr>ccp_ControlplaneKubeControllerManager := v\<rparr>) cp))))))"

definition ccp_none_set :: "ccp_ConfigProcessor \<Rightarrow> bool" where
  "ccp_none_set cp \<longleftrightarrow> ccp_ControlplaneKubeControllerManager cp = '''' \<and>
     ccp_ControlplaneKubeScheduler cp = '''' \<and>
     ccp_ControlplaneApiserver cp = '''' \<and>
     ccp_ControlplaneClusterAutoscaler cp = '''' \<and>
     ccp_ControlplaneNodeAutoProvisioning cp = '''' \<and>
     ccp_ControlplaneEtcd cp = ''''"

definition ccp_PopulateSettingValues :: "environ \<Rightarrow> (string, string) gomap \<Rightarrow> ccp_ConfigProcessor \<Rightarrow> ccp_ConfigProcessor" where
  "ccp_PopulateSettingValues env config cp =
     (let cp = ccp_populate_fields config cp in
      if Getenv env ''MODE'' \<noteq> '''' \<and> ToLower (TrimSpace (Getenv env ''MODE'')) = ''advanced''
      then if Getenv env ''CONTROLLER_TYPE'' = ''ReplicaSet'' \<and> ToLower (Getenv env ''OS_TYPE'') = ''linux'' \<and> ccp_none_set cp
           then cp\<lparr>ccp_NoDefaultsEnabled := True\<rparr> else cp
      else if ccp_none_set cp then cp\<lparr>ccp_NoDefaultsEnabled := True\<rparr> else cp)"

definition ccp_settings_vars :: "ccp_ConfigProcessor \<Rightarrow> (string \<times> string) list" where
  "ccp_settings_vars cp =
     [(''AZMON_PROMETHEUS_CONTROLPLANE_KUBE_CONTROLLER_MANAGER_ENABLED'', ccp_ControlplaneKubeControllerManager cp),
      (''AZMON_PROMETHEUS_CONTROLPLANE_KUBE_SCHEDULER_ENABLED'', ccp_ControlplaneKubeScheduler cp),
      (''AZMON_PROMETHEUS_CONTROLPLANE_APISERVER_ENABLED'', ccp_ControlplaneApiserver cp),
      (''AZMON_PROMETHEUS_CONTROLPLANE_CLUSTER_AUTOSCALER_ENABLED'', ccp_ControlplaneClusterAutoscaler cp),
      (''AZMON_PROMETHEUS_CONTROLPLANE_NODE_AUTO_PROVISIONING_ENABLED'', ccp_ControlplaneNodeAutoProvisioning cp),
      (''AZMON_PROMETHEUS_CONTROLPLANE_ETCD_ENABLED'', ccp_ControlplaneEtcd cp),
      (''AZMON_PROMETHEUS_NO_DEFAULT_SCRAPING_ENABLED'', print_bool (ccp_NoDefaultsEnabled cp))]"

definition ccp_WriteDefaultScrapeSettingsToFile :: "cm_lib \<Rightarrow> ccp_ConfigProcessor \<Rightarrow> cm_state \<Rightarrow> cm_state option" where
  "ccp_WriteDefaultScrapeSettingsToFile L cp s = create_file L defaultSettingsEnvVarPath (env_file (ccp_settings_vars cp)) s"

definition ccp_ConfigureDefaultScrapeSettings ::
    "cm_lib \<Rightarrow> ((string, string) gomap \<Rightarrow> string list) \<Rightarrow> sections \<Rightarrow> cm_state \<Rightarrow> cm_state" where
  "ccp_ConfigureDefaultScrapeSettings L ord m s =
     (let env = cm_env s;
          defaultSettings = (if supported_schema env
            then ccp_ParseConfigMapForDefaultScrapeSettings ord m (Getenv env ''AZMON_AGENT_CFG_SCHEMA_VERSION'')
            else ccp_SetDefaultScrapeSettings);
          cp = ccp_PopulateSettingValues env defaultSettings ccp_empty_processor
      in case ccp_WriteDefaultScrapeSettingsToFile L (cp\<lparr>ccp_ClusterAlias := clean_alias (cluster_name env)\<rparr>) s of
           None \<Rightarrow> s | Some s' \<Rightarrow> s')"

text \<open>A nil map of sections reads like an empty one.\<close>

definition tomlparserCCPDefaultScrapeSettings ::
    "cm_lib \<Rightarrow> ((string, string) gomap \<Rightarrow> string list) \<Rightarrow> sections option \<Rightarrow> cm_state \<Rightarrow> cm_state" where
  "tomlparserCCPDefaultScrapeSettings L ord m s = ccp_ConfigureDefaultScrapeSettings L ord (case m of None \<Rightarrow> fmempty | Some m \<Rightarrow> m) s"

section \<open>Collector settings\<close>

definition ccp_PopulateSettingValuesFromConfigMap :: "environ \<Rightarrow> sections \<Rightarrow> ccp_ConfigProcessor \<Rightarrow> ccp_ConfigProcessor" where
  "ccp_PopulateSettingValuesFromConfigMap env m cp =
     (case fmlookup m ''prometheus-collector-settings'' of
        None \<Rightarrow> cp\<lparr>ccp_IsOperatorEnabledChartSetting := False\<rparr>
      | Some settings \<Rightarrow>
        (let cp = (case fmlookup settings ''default_metric_account_name'' of None \<Rightarrow> cp | Some v \<Rightarrow> cp\<lparr>ccp_DefaultMetricAccountName := v\<rparr>);
             cp = (case fmlookup settings ''cluster_alias'' of None \<Rightarrow> cp | Some v \<Rightarrow> cp\<lparr>ccp_ClusterAlias := clean_alias (TrimSpace v)\<rparr>)
         in if is_true (Getenv env ''AZMON_OPERATOR_ENABLED'')
            then
              let cp = cp\<lparr>ccp_IsOperatorEnabledChartSetting := True\<rparr> in
              (case fmlookup settings ''operator_enabled'' of None \<Rightarrow> cp | Some v \<Rightarrow> cp\<lparr>ccp_IsOperatorEnabled := (v = ''true'')\<rparr>)
            else cp\<lparr>ccp_IsOperatorEnabledChartSetting := False\<rparr>))"

definition ccp_collector_vars :: "ccp_ConfigProcessor \<Rightarrow> (string \<times> string) list" where
  "ccp_collector_vars cp =
     [(''AZMON_DEFAULT_METRIC_ACCOUNT_NAME'', ccp_DefaultMetricAccountName cp),
      (''AZMON_CLUSTER_LABEL'', ccp_ClusterLabel cp),
      (''AZMON_CLUSTER_ALIAS'', ccp_ClusterAlias cp),
      (''AZMON_OPERATOR_ENABLED_CHART_SETTING'', print_bool (ccp_IsOperatorEnabledChartSetting cp))]
     @ (if ccp_IsOperatorEnabled cp
        then [(''AZMON_OPERATOR_ENABLED'', print_bool (ccp_IsOperatorEnabled cp)),
              (''AZMON_OPERATOR_ENABLED_CFG_MAP_SETTING'', print_bool (ccp_IsOperatorEnabled cp))] else [])"

definition ccp_WriteConfigToFile :: "cm_lib \<Rightarrow> ccp_ConfigProcessor \<Rightarrow> cm_state \<Rightarrow> cm_state option" where
  "ccp_WriteConfigToFile L cp s = create_file L collectorSettingsEnvVarPath (env_file (ccp_collector_vars cp)) s"

definition ccp_Configure :: "cm_lib \<Rightarrow> sections \<Rightarrow> ccp_ConfigProcessor \<Rightarrow> cm_state \<Rightarrow> cm_state" where
  "ccp_Configure L m cp s =
     (let env = cm_env s;
          cp1 = (if supported_schema env \<and> gomap_len m > 0 then ccp_PopulateSettingValuesFromConfigMap env m cp else cp);
          cp2 = cp1\<lparr>ccp_ClusterLabel := cluster_name env\<rparr>;
          cp3 = (if ccp_ClusterAlias cp2 \<noteq> '''' then cp2\<lparr>ccp_ClusterLabel := ccp_ClusterAlias cp2\<rparr> else cp2)
      in case ccp_WriteConfigToFile L cp3 s of None \<Rightarrow> s | Some s' \<Rightarrow> s')"

definition ccp_parseConfigAndSetEnvInFile :: "cm_lib \<Rightarrow> sections option \<Rightarrow> cm_state \<Rightarrow> cm_state" where
  "ccp_parseConfigAndSetEnvInFile L m s = ccp_Configure L (case m of None \<Rightarrow> fmempty | Some m \<Rightarrow> m) ccp_empty_processor s"

definition ccp_ConfigureOpentelemetryMetricsSettings :: "cm_lib \<Rightarrow> sections option \<Rightarrow> cm_state \<Rightarrow> cm_state" where
  "ccp_ConfigureOpentelemetryMetricsSettings L m s = snd (ConfigureOpentelemetryMetricsSettings L m s)"

section \<open>Keep lists\<close>

definition controlplaneKubeControllerManagerMinMac :: string where
  "controlplaneKubeControllerManagerMinMac = ''rest_client_request_duration_seconds|rest_client_requests_total|workqueue_depth''"

definition controlplaneKubeSchedulerMinMac :: string where
  "controlplaneKubeSchedulerMinMac = ''scheduler_pending_pods|scheduler_unschedulable_pods|scheduler_pod_scheduling_attempts|scheduler_queue_incoming_pods_total|scheduler_preemption_attempts_total|scheduler_preemption_victims|scheduler_scheduling_attempt_duration_seconds|scheduler_schedule_attempts_total|scheduler_pod_scheduling_duration_seconds''"

definition controlplaneApiserverMinMac :: string where
  "controlplaneApiserverMinMac = ''apiserver_request_total|apiserver_cache_list_fetched_objects_total|apiserver_cache_list_returned_objects_total|apiserver_flowcontrol_demand_seats_average|apiserver_flowcontrol_current_limit_seats|apiserver_request_sli_duration_seconds_count|apiserver_request_sli_duration_seconds_sum|process_start_time_seconds|apiserver_request_duration_seconds_count|apiserver_request_duration_seconds_sum|apiserver_storage_list_fetched_objects_total|apiserver_storage_list_returned_objects_total|apiserver_current_inflight_requests''"

definition controlplaneClusterAutoscalerMinMac :: string where
  "controlplaneClusterAutoscalerMinMac = ''rest_client_requests_total|cluster_autoscaler_(last_activity|cluster_safe_to_autoscale|scale_down_in_cooldown|scaled_up_nodes_total|unneeded_nodes_count|unschedulable_pods_count|nodes_count)|cloudprovider_azure_api_request_(errors|duration_seconds_(bucket|count))''"

definition controlplaneNodeAutoProvisioningMinMac :: string where
  "controlplaneNodeAutoProvisioningMinMac = ''karpenter_(nodes_created_total|nodes_terminated_total|voluntary_disruption_eligible_nodes|nodeclaims_disrupted_total|voluntary_disruption_decisions_total|pods_state)''"

definition controlplaneEtcdMinMac :: string where
  "controlplaneEtcdMinMac = ''etcd_server_has_leader|rest_client_requests_total|etcd_mvcc_db_total_size_in_bytes|etcd_mvcc_db_total_size_in_use_in_bytes|etcd_server_slow_read_indexes_total|etcd_server_slow_apply_total|etcd_network_client_grpc_sent_bytes_total|etcd_server_heartbeat_send_failures_total''"

record ccp_RegexValues =
  crv_KubeControllerManager :: string
  crv_KubeScheduler :: string
  crv_Apiserver :: string
  crv_ClusterAutoscaler :: string
  crv_NodeAutoProvisioning :: string
  crv_Etcd :: string
  crv_MinimalIngestionProfile :: string

text \<open>The profile comes last, so a key of that name in the section does not count.\<close>

definition ccp_profile :: "sections \<Rightarrow> string \<Rightarrow> string" where
  "ccp_profile m schemaVersion =
     (if schemaVersion = ''v1''
      then (case fmlookup m ''default-targets-metrics-keep-list'' of
          None \<Rightarrow> ''true'' | Some settings \<Rightarrow> (case fmlookup settings ''minimalingestionprofile'' of None \<Rightarrow> ''true'' | Some v \<Rightarrow> v))
      else if schemaVersion = ''v2''
      then (case fmlookup m ''minimal-ingestion-profile'' of
          None \<Rightarrow> ''true'' | Some profile \<Rightarrow> (case fmlookup profile ''enabled'' of None \<Rightarrow> ''true'' | Some v \<Rightarrow> v))
      else ''true'')"

definition parseConfigMapForKeepListRegex :: "sections \<Rightarrow> string \<Rightarrow> (string, string) gomap" where
  "parseConfigMapForKeepListRegex m schemaVersion =
     fmupd ''minimalingestionprofile'' (ccp_profile m schemaVersion)
       (case fmlookup m ''default-targets-metrics-keep-list'' of
          None \<Rightarrow> fmempty
        | Some settings \<Rightarrow>
          if schemaVersion = ''v1'' then fmfilter (prefix ''controlplane-'') settings
          else if schemaVersion = ''v2'' then settings else fmempty)"

text \<open>The switch on the key; a key of the second format that is not in the table becomes the empty one, which no case matches.\<close>

definition ccp_set_regex :: "ccp_RegexValues \<Rightarrow> string \<Rightarrow> string \<Rightarrow> ccp_RegexValues" where
  "ccp_set_regex r key v =
     (if key = ''controlplane-kube-controller-manager'' then r\<lparr>crv_KubeControllerManager := v\<rparr> else
      if key = ''controlplane-kube-scheduler'' then r\<lparr>crv_KubeScheduler := v\<rparr> else
      if key = ''controlplane-apiserver'' then r\<lparr>crv_Apiserver := v\<rparr> else
      if key = ''controlplane-cluster-autoscaler'' then r\<lparr>crv_ClusterAutoscaler := v\<rparr> else
      if key = ''controlplane-node-auto-provisioning'' then r\<lparr>crv_NodeAutoProvisioning := v\<rparr> else
      if key = ''controlplane-etcd'' then r\<lparr>crv_Etcd := v\<rparr> else
      if key = ''minimalingestionprofile'' then r\<lparr>crv_MinimalIngestionProfile := v\<rparr> else r)"

definition ccp_v1_key :: "string \<Rightarrow> string \<Rightarrow> string" where
  "ccp_v1_key version key =
     (if version \<noteq> '''' \<and> TrimSpace version = ''v2''
      then (case map_of (v2ToV1KeyMap @ [(''minimalingestionprofile'', ''minimalingestionprofile'')]) key of None \<Rightarrow> '''' | Some k \<Rightarrow> k) else key)"

text \<open>\<open>keys\<close> is the order of the range loop.\<close>

definition ccp_regex_values :: "string \<Rightarrow> (string, string) gomap \<Rightarrow> string list \<Rightarrow> ccp_RegexValues" where
  "ccp_regex_values version parsedConfig keys =
     foldl (\<lambda>r key. ccp_set_regex r (ccp_v1_key version key) (get0 '''' parsedConfig key))
       \<lparr>crv_KubeControllerManager = '''', crv_KubeScheduler = '''', crv_Apiserver = '''', crv_ClusterAutoscaler = '''', crv_NodeAutoProvisioning = '''', crv_Etcd = '''', crv_MinimalIngestionProfile = ''''\<rparr> keys"

definition ccp_valid :: "(string \<Rightarrow> bool) \<Rightarrow> ccp_RegexValues \<Rightarrow> bool" where
  "ccp_valid valid r \<longleftrightarrow> list_all (\<lambda>x. x = '''' \<or> valid x)
     [crv_KubeControllerManager r, crv_KubeScheduler r, crv_Apiserver r, crv_ClusterAutoscaler r, crv_NodeAutoProvisioning r, crv_Etcd r, crv_MinimalIngestionProfile r]"

definition ccp_populateSettingValuesFromConfigMap :: "cm_lib \<Rightarrow> string \<Rightarrow> (string, string) gomap \<Rightarrow> string list \<Rightarrow> ccp_RegexValues option" where
  "ccp_populateSettingValuesFromConfigMap L version parsedConfig keys =
     (let r = ccp_regex_values version parsedConfig keys in if ccp_valid (valid_regex L) r then Some r else None)"

text \<open>
  The package variables that hold the six expressions; the values are appended to them.
\<close>

record ccp_regexes =
  controlplaneKubeControllerManagerRegex :: string
  controlplaneKubeSchedulerRegex :: string
  controlplaneApiserverRegex :: string
  controlplaneClusterAutoscalerRegex :: string
  controlplaneNodeAutoProvisioningRegex :: string
  controlplaneEtcdRegex :: string

definition ccp_join :: "ccp_RegexValues \<Rightarrow> string \<Rightarrow> string \<Rightarrow> string" where
  "ccp_join r user minimal = (if crv_MinimalIngestionProfile r = ''false'' then user else user @ ''|'' @ minimal)"

definition ccp_populateRegexValuesWithMinimalIngestionProfile :: "ccp_RegexValues \<Rightarrow> ccp_regexes \<Rightarrow> ccp_regexes" where
  "ccp_populateRegexValuesWithMinimalIngestionProfile r v =
     \<lparr>controlplaneKubeControllerManagerRegex = controlplaneKubeControllerManagerRegex v @ ccp_join r (crv_KubeControllerManager r) controlplaneKubeControllerManagerMinMac,
      controlplaneKubeSchedulerRegex = controlplaneKubeSchedulerRegex v @ ccp_join r (crv_KubeScheduler r) controlplaneKubeSchedulerMinMac,
      controlplaneApiserverRegex = controlplaneApiserverRegex v @ ccp_join r (crv_Apiserver r) controlplaneApiserverMinMac,
      controlplaneClusterAutoscalerRegex = controlplaneClusterAutoscalerRegex v @ ccp_join r (crv_ClusterAutoscaler r) controlplaneClusterAutoscalerMinMac,
      controlplaneNodeAutoProvisioningRegex = controlplaneNodeAutoProvisioningRegex v @ ccp_join r (crv_NodeAutoProvisioning r) controlplaneNodeAutoProvisioningMinMac,
      controlplaneEtcdRegex = controlplaneEtcdRegex v @ ccp_join r (crv_Etcd r) controlplaneEtcdMinMac\<rparr>"

definition ccp_no_regexes :: ccp_regexes where
  "ccp_no_regexes = \<lparr>controlplaneKubeControllerManagerRegex = '''', controlplaneKubeSchedulerRegex = '''', controlplaneApiserverRegex = '''', controlplaneClusterAutoscalerRegex = '''', controlplaneNodeAutoProvisioningRegex = '''', controlplaneEtcdRegex = ''''\<rparr>"

definition ccp_regex_hash :: "ccp_regexes \<Rightarrow> (string \<times> string) list" where
  "ccp_regex_hash v =
     [(''CONTROLPLANE_KUBE_CONTROLLER_MANAGER_KEEP_LIST_REGEX'', controlplaneKubeControllerManagerRegex v),
      (''CONTROLPLANE_KUBE_SCHEDULER_KEEP_LIST_REGEX'', controlplaneKubeSchedulerRegex v),
      (''CONTROLPLANE_APISERVER_KEEP_LIST_REGEX'', controlplaneApiserverRegex v),
      (''CONTROLPLANE_CLUSTER_AUTOSCALER_KEEP_LIST_REGEX'', controlplaneClusterAutoscalerRegex v),
      (''CONTROLPLANE_NODE_AUTO_PROVISIONING_KEEP_LIST_REGEX'', controlplaneNodeAutoProvisioningRegex v),
      (''CONTROLPLANE_ETCD_KEEP_LIST_REGEX'', controlplaneEtcdRegex v)]"

definition tomlparserCCPTargetsMetricsKeepList ::
    "cm_lib \<Rightarrow> ((string, string) gomap \<Rightarrow> string list) \<Rightarrow> sections option \<Rightarrow> ccp_regexes \<Rightarrow> cm_state \<Rightarrow> ccp_regexes \<times> cm_state" where
  "tomlparserCCPTargetsMetricsKeepList L ord m v s =
     (let version = Getenv (cm_env s) ''AZMON_AGENT_CFG_SCHEMA_VERSION'';
          config = parseConfigMapForKeepListRegex (case m of None \<Rightarrow> fmempty | Some m \<Rightarrow> m) version
      in case (if supported_schema (cm_env s) then ccp_populateSettingValuesFromConfigMap L version config (ord config)
               else Some (ccp_regex_values '''' fmempty [])) of
           None \<Rightarrow> (v, s)
         | Some regexValues \<Rightarrow>
           (let v' = ccp_populateRegexValuesWithMinimalIngestionProfile regexValues v in
            case MarshalHash L (fmap_of_list (ccp_regex_hash v')) of
              None \<Rightarrow> (v', s)
            | Some out \<Rightarrow>
              (case WriteFile (base L) configMapKeepListEnvVarPath out (cm_files s) of
                 None \<Rightarrow> (v', s) | Some fs \<Rightarrow> (v', s\<lparr>cm_files := fs\<rparr>))))"

section \<open>The parser\<close>

text \<open>
  An error that reaches the health metric: a file that does not exist, with its path, or another one with its text. \<open>ccp_errors\<close> gives
  the errors of reading a version file, of the files of the second format, and of the directory of the first.
\<close>

datatype settings_error = FileNotExist string | OtherError string

definition cleanSettingsError :: "settings_error \<Rightarrow> string" where
  "cleanSettingsError e =
     (case e of
        FileNotExist path \<Rightarrow> ''settings file not found: '' @ path @ '' (expected from ama-metrics-settings-configmap)''
      | OtherError txt \<Rightarrow> txt)"

record ccp_errors =
  version_error :: "string \<Rightarrow> string"
  v2_error :: "parse_error \<Rightarrow> settings_error"
  v1_error :: settings_error

definition report_invalid :: "string \<Rightarrow> cm_state \<Rightarrow> cm_state" where
  "report_invalid errMsg s =
     set_var ''INVALID_SETTINGS_CONFIG_ERROR'' errMsg (set_var ''AZMON_INVALID_METRICS_SETTINGS_CONFIG'' ''true'' s)"

text \<open>A version file: missing or empty, in which case the variable stays as it is, unreadable, or read.\<close>

definition ccp_version :: "cm_lib \<Rightarrow> ccp_errors \<Rightarrow> string \<Rightarrow> string \<Rightarrow> string \<Rightarrow> cm_state \<Rightarrow> cm_state" where
  "ccp_version L E what path var s =
     (case file_at L (cm_files s) path of
        Missing \<Rightarrow> s
      | Unreadable \<Rightarrow> report_invalid (''Unable to read '' @ what @ '' version from ama-metrics-settings-configmap ('' @ path @ ''): '' @
          version_error E path @ ''. Using default configuration'') s
      | Content c \<Rightarrow> if c = '''' then s else set_var var (take 10 (ReplaceAll '' '' '''' (TrimSpace c))) s)"

definition ccp_sections :: "cm_lib \<Rightarrow> ccp_errors \<Rightarrow> cm_state \<Rightarrow> sections option \<times> cm_state" where
  "ccp_sections L E s =
     (let version = Getenv (cm_env s) ''AZMON_AGENT_CFG_SCHEMA_VERSION'' in
      if version = ''v2''
      then (case ParseMetricsFiles (file_at L (cm_files s))
                   [''/etc/config/settings/controlplane-metrics'', ''/etc/config/settings/prometheus-collector-settings''] of
          Inl e \<Rightarrow> (None, report_invalid (''Failed to parse v2 settings from ama-metrics-settings-configmap: '' @ cleanSettingsError (v2_error E e) @
            ''. Falling back to default configuration'') s)
        | Inr m \<Rightarrow> (Some m, s))
      else if version = ''v1''
      then (case ParseV1Config (ReadDir L settings_dir) of
          None \<Rightarrow> (None, report_invalid (''Failed to parse v1 settings from ama-metrics-settings-configmap: '' @ cleanSettingsError (v1_error E) @
            ''. Falling back to default configuration'') s)
        | Some m \<Rightarrow> (Some m, s))
      else (None, s))"

definition ccp_versioned :: "cm_lib \<Rightarrow> ccp_errors \<Rightarrow> cm_state \<Rightarrow> cm_state" where
  "ccp_versioned L E s =
     ccp_version L E ''schema'' ''/etc/config/settings/schema-version'' ''AZMON_AGENT_CFG_SCHEMA_VERSION''
       (ccp_version L E ''config'' ''/etc/config/settings/config-version'' ''AZMON_AGENT_CFG_FILE_VERSION''
         (set_var ''INVALID_SETTINGS_CONFIG_ERROR'' '''' (set_var ''AZMON_INVALID_METRICS_SETTINGS_CONFIG'' ''false'' s)))"

definition ccp_parse_settings ::
    "cm_lib \<Rightarrow> ccp_errors \<Rightarrow> ((string, string) gomap \<Rightarrow> string list) \<Rightarrow> ccp_regexes \<Rightarrow> cm_state \<Rightarrow> ccp_regexes \<times> cm_state" where
  "ccp_parse_settings L E ord v s =
     (case ccp_sections L E (ccp_versioned L E s) of (m, s1) \<Rightarrow>
        let s2 = handleEnvFileError L collectorSettingsEnvVarPath (ccp_parseConfigAndSetEnvInFile L m s1);
            s3 = handleEnvFileError L opentelemetryMetricsEnvVarPath (ccp_ConfigureOpentelemetryMetricsSettings L m s2);
            s4 = handleEnvFileError L defaultSettingsEnvVarPath (tomlparserCCPDefaultScrapeSettings L ord m s3)
        in tomlparserCCPTargetsMetricsKeepList L ord m v s4)"

definition ccpDefaultsConfigPath :: string where
  "ccpDefaultsConfigPath = ''/opt/ccp-collector-config-with-defaults.yml''"

definition ccpConfigDefaultPath :: string where
  "ccpConfigDefaultPath = ''/opt/microsoft/otelcollector/ccp-collector-config-default.yml''"

definition ccp_templatePath :: string where
  "ccp_templatePath = ''/opt/microsoft/otelcollector/ccp-collector-config-template.yml''"

definition ccp_validate :: "cm_lib \<Rightarrow> cm_state \<Rightarrow> cm_state" where
  "ccp_validate L s =
     (case run_validator L mergedDefaultConfigPath ccpDefaultsConfigPath s of (ok, s1) \<Rightarrow>
        if \<not> FileExists (cm_files s1) ccpDefaultsConfigPath then s1
        else s1\<lparr>cm_files := CopyFile L ccpDefaultsConfigPath ccpConfigDefaultPath (cm_files s1)\<rparr>)"

text \<open>The validator is run with the template of the control plane: \<open>promconfigvalidator L\<close> is that run.\<close>

definition Configmapparserforccp ::
    "cm_lib \<Rightarrow> ccp_errors \<Rightarrow> ((string, string) gomap \<Rightarrow> string list) \<Rightarrow> ccp_regexes \<Rightarrow> cm_state \<Rightarrow> cm_state" where
  "Configmapparserforccp L E ord v s =
     (let s1 = snd (ccp_parse_settings L E ord v s);
          merged = prometheusCcpConfigMerger (base L) (cm_env s1) (fresh_merger (cm_files s1));
          s2 = s1\<lparr>cm_files := files merged\<rparr>;
          s3 = set_var ''AZMON_USE_DEFAULT_PROMETHEUS_CONFIG'' ''true'' (set_var ''CONFIG_VALIDATOR_RUNNING_IN_AGENT'' ''true'' s2)
      in ccp_validate L s3)"

definition with_ccp_validator :: "validator_lib \<Rightarrow> cm_lib \<Rightarrow> cm_lib" where
  "with_ccp_validator V L = L\<lparr>promconfigvalidator := validator_main L V ccp_templatePath\<rparr>"

end
