(* ===== verification/ControlPlaneFormats.thy ===== *)
theory ControlPlaneFormats
  imports ConfigMapProps ControlPlane
begin

text \<open>
  The control-plane variant: the two formats of the config map mean the same.
  The locale \<open>slot_loop\<close> is the contract of a range loop that writes the value of each key to its own slot; its three interpretations are the
  loops over the settings of both formats and over the keep lists.
\<close>

section \<open>Loops that fill slots\<close>

text \<open>
  A range loop whose body writes the value of a key into the slot of that key. When different keys have different slots the
  order of the loop does not matter: a slot holds the value of its key, or what it held before.
\<close>

locale slot_loop =
  fixes slot :: "'k \<Rightarrow> 's option" and body :: "'st \<Rightarrow> 'k \<Rightarrow> 'st" and "read" :: "'st \<Rightarrow> 's \<Rightarrow> 'v" and val :: "'k \<Rightarrow> 'v"
  assumes body_slot: "slot k = Some x \<Longrightarrow> read (body st k) y = (if y = x then val k else read st y)"
    and body_skip: "slot k = None \<Longrightarrow> read (body st k) y = read st y"
    and slot_inj: "slot k = Some x \<Longrightarrow> slot k' = Some x \<Longrightarrow> k = k'"
begin

lemma loop_miss: "\<forall>k \<in> set keys. slot k \<noteq> Some x \<Longrightarrow> read (foldl body st keys) x = read st x"
proof (induction keys arbitrary: st)
  case (Cons k keys)
  then show ?case using body_slot [of k] body_skip [of k] by (cases "slot k") auto
qed simp

lemma loop_hit: "k \<in> set keys \<Longrightarrow> slot k = Some x \<Longrightarrow> read (foldl body st keys) x = val k"
proof (induction keys arbitrary: st)
  case (Cons k' keys)
  show ?case
  proof (cases "k \<in> set keys")
    case False
    with Cons.prems slot_inj have "k' = k" "\<forall>k \<in> set keys. slot k \<noteq> Some x" by auto
    then show ?thesis using loop_miss [of keys x] body_slot [OF Cons.prems(2)] by simp
  qed (use Cons in simp)
qed simp

lemma loop_slot:
  assumes "slot k = Some x"
  shows "read (foldl body st keys) x = (if k \<in> set keys then val k else read st x)"
  using loop_hit [OF _ assms] loop_miss [of keys x] slot_inj [OF _ assms] by auto

end

lemma v2_keys: "distinct (map fst v2ToV1KeyMap)" "distinct (map snd v2ToV1KeyMap)"
  "list_all (\<lambda>(k2, k1). prefix ''controlplane-'' k1 \<and> k1 \<noteq> ''minimalingestionprofile'' \<and> k2 \<noteq> ''minimalingestionprofile'' \<and> k1 \<noteq> '''') v2ToV1KeyMap"
  by code_simp+

lemma map_of_inj:
  assumes "distinct (map snd kvs)" "map_of kvs a = Some x" "map_of kvs b = Some x"
  shows "a = b"
proof -
  from assms(2,3) have "(a, x) \<in> set kvs" "(b, x) \<in> set kvs" by (simp_all add: map_of_SomeD)
  then show ?thesis using assms(1) by (metis (no_types, lifting) distinct_map eq_key_imp_eq_value fst_conv inj_onD snd_conv)
qed

interpretation v1: slot_loop "\<lambda>k. if prefix ''controlplane-'' k then Some k else None" "v1_override settings" fmlookup
    "\<lambda>k. Some (get0 '''' settings k)" for settings
  by unfold_locales (auto simp: v1_override_def split: if_splits)

interpretation v2: slot_loop "map_of v2ToV1KeyMap" "v2_override settings" fmlookup "\<lambda>k. Some (get0 '''' settings k)" for settings
  by unfold_locales (auto simp: v2_override_def intro: map_of_inj [OF v2_keys(2)])

text \<open>The value of a setting: that of the config map, else the default.\<close>

definition ccp_setting :: "(string, string) gomap \<Rightarrow> string \<Rightarrow> string \<Rightarrow> string option" where
  "ccp_setting settings key v1Key = (case fmlookup settings key of None \<Rightarrow> map_of ccp_default_settings v1Key | Some v \<Rightarrow> Some v)"

lemma v1_settings:
  assumes "\<And>kv. enum (ord kv) kv" "(k2, k1) \<in> set v2ToV1KeyMap"
  shows "fmlookup (ccp_ParseConfigMapForDefaultScrapeSettings ord m ''v1'') k1 =
    ccp_setting (get0 fmempty m ''default-scrape-settings-enabled'') k1 k1"
proof (cases "fmlookup m ''default-scrape-settings-enabled''")
  case (Some kv)
  have "prefix ''controlplane-'' k1" using v2_keys(3) assms(2) by (auto simp: list_all_iff)
  then show ?thesis using v1.loop_slot [of k1 k1 kv ccp_SetDefaultScrapeSettings "ord kv"] enum_mem [OF assms(1), of k1 kv] Some
    by (auto simp: ccp_ParseConfigMapForDefaultScrapeSettings_def ccp_setting_def get0_def ccp_SetDefaultScrapeSettings_def fmlookup_of_list split: option.splits)
qed (simp add: ccp_ParseConfigMapForDefaultScrapeSettings_def ccp_setting_def get0_def ccp_SetDefaultScrapeSettings_def fmlookup_of_list)

lemma v2_settings:
  assumes "\<And>kv. enum (ord kv) kv" "(k2, k1) \<in> set v2ToV1KeyMap"
  shows "fmlookup (ccp_ParseConfigMapForDefaultScrapeSettings ord m ''v2'') k1 =
    ccp_setting (get0 fmempty m ''default-targets-scrape-enabled'') k2 k1"
proof (cases "fmlookup m ''default-targets-scrape-enabled''")
  case (Some kv)
  have "map_of v2ToV1KeyMap k2 = Some k1" using v2_keys(1) assms(2) by simp
  then show ?thesis using v2.loop_slot [of k2 k1 kv ccp_SetDefaultScrapeSettings "ord kv"] enum_mem [OF assms(1), of k2 kv] Some
    by (auto simp: ccp_ParseConfigMapForDefaultScrapeSettings_def ccp_setting_def get0_def ccp_SetDefaultScrapeSettings_def fmlookup_of_list split: option.splits)
qed (simp add: ccp_ParseConfigMapForDefaultScrapeSettings_def ccp_setting_def get0_def ccp_SetDefaultScrapeSettings_def fmlookup_of_list)

section \<open>The two formats\<close>

definition regex_keys :: "string list" where
  "regex_keys = map snd v2ToV1KeyMap @ [''minimalingestionprofile'']"

definition regex_field :: "ccp_RegexValues \<Rightarrow> string \<Rightarrow> string" where
  "regex_field r key =
     (if key = ''controlplane-kube-controller-manager'' then crv_KubeControllerManager r else
      if key = ''controlplane-kube-scheduler'' then crv_KubeScheduler r else
      if key = ''controlplane-apiserver'' then crv_Apiserver r else
      if key = ''controlplane-cluster-autoscaler'' then crv_ClusterAutoscaler r else
      if key = ''controlplane-node-auto-provisioning'' then crv_NodeAutoProvisioning r else
      if key = ''controlplane-etcd'' then crv_Etcd r else
      if key = ''minimalingestionprofile'' then crv_MinimalIngestionProfile r else '''')"

lemma regex_ext: "(\<And>k. k \<in> set regex_keys \<Longrightarrow> regex_field r k = regex_field r' k) \<Longrightarrow> r = r'"
proof -
  assume "\<And>k. k \<in> set regex_keys \<Longrightarrow> regex_field r k = regex_field r' k"
  then have "list_all (\<lambda>k. regex_field r k = regex_field r' k) regex_keys" by (simp add: list_all_iff)
  then show "r = r'" by (simp add: regex_keys_def v2ToV1KeyMap_def regex_field_def)
qed

lemma set_regex_field: "regex_field (ccp_set_regex r key v) k = (if k = key \<and> k \<in> set regex_keys then v else regex_field r k)"
  by (simp add: ccp_set_regex_def regex_field_def regex_keys_def v2ToV1KeyMap_def)

definition regex_slot :: "string \<Rightarrow> string \<Rightarrow> string option" where
  "regex_slot version key = (let k = ccp_v1_key version key in if k \<in> set regex_keys then Some k else None)"

lemma v2_profile_key: "ccp_v1_key ''v2'' ''minimalingestionprofile'' = ''minimalingestionprofile''"
  by code_simp

lemma v1_identity: "version = '''' \<or> TrimSpace version \<noteq> ''v2'' \<Longrightarrow> ccp_v1_key version key = key"
  by (auto simp: ccp_v1_key_def)

lemma regex_slot_inj: "regex_slot version k = Some x \<Longrightarrow> regex_slot version k' = Some x \<Longrightarrow> k = k'"
proof (cases "version \<noteq> '''' \<and> TrimSpace version = ''v2''")
  case True
  let ?kvs = "v2ToV1KeyMap @ [(''minimalingestionprofile'', ''minimalingestionprofile'')]"
  have d: "distinct (map snd ?kvs)" by code_simp
  have "'''' \<notin> set regex_keys" by code_simp
  moreover assume "regex_slot version k = Some x" "regex_slot version k' = Some x"
  ultimately have "map_of ?kvs k = Some x" "map_of ?kvs k' = Some x"
    using True by (auto simp: regex_slot_def Let_def ccp_v1_key_def split: if_splits option.splits)
  then show "k = k'" by (rule map_of_inj [OF d])
qed (auto simp: regex_slot_def Let_def v1_identity split: if_splits)

interpretation rx: slot_loop "regex_slot version" "\<lambda>r key. ccp_set_regex r (ccp_v1_key version key) (get0 '''' config key)" regex_field
    "get0 '''' config" for version config
proof unfold_locales
  show "regex_slot version k = Some x \<Longrightarrow> regex_slot version k' = Some x \<Longrightarrow> k = k'" for k k' x by (rule regex_slot_inj)
qed (auto simp: regex_slot_def Let_def set_regex_field split: if_splits)

lemma regex_value:
  assumes "enum keys config" "regex_slot version k = Some x"
  shows "regex_field (ccp_regex_values version config keys) x = get0 '''' config k"
  using rx.loop_slot [OF assms(2), where st = "\<lparr>crv_KubeControllerManager = '''', crv_KubeScheduler = '''', crv_Apiserver = '''',
      crv_ClusterAutoscaler = '''', crv_NodeAutoProvisioning = '''', crv_Etcd = '''', crv_MinimalIngestionProfile = ''''\<rparr>" and keys = keys and config = config]
    enum_mem [OF assms(1), of k]
  by (auto simp: ccp_regex_values_def regex_field_def get0_def split: option.split)

lemma keep_values_v1:
  assumes "enum keys (parseConfigMapForKeepListRegex m ''v1'')"
  shows "(k2, k1) \<in> set v2ToV1KeyMap \<Longrightarrow> regex_field (ccp_regex_values ''v1'' (parseConfigMapForKeepListRegex m ''v1'') keys) k1 =
      get0 '''' (get0 fmempty m ''default-targets-metrics-keep-list'') k1"
    and "regex_field (ccp_regex_values ''v1'' (parseConfigMapForKeepListRegex m ''v1'') keys) ''minimalingestionprofile'' =
      get0 ''true'' (get0 fmempty m ''default-targets-metrics-keep-list'') ''minimalingestionprofile''"
proof -
  have s: "regex_slot ''v1'' k = (if k \<in> set regex_keys then Some k else None)" for k
    using v1_identity [of "''v1''"] by (simp add: regex_slot_def Let_def TrimSpace_def trim_by_def is_space_def)
  assume k: "(k2, k1) \<in> set v2ToV1KeyMap"
  then have "k1 \<in> set regex_keys" by (force simp: regex_keys_def)
  with regex_value [OF assms, of "''v1''" k1 k1] v2_keys(3) k
  show "regex_field (ccp_regex_values ''v1'' (parseConfigMapForKeepListRegex m ''v1'') keys) k1 =
      get0 '''' (get0 fmempty m ''default-targets-metrics-keep-list'') k1"
    by (auto simp: s list_all_iff parseConfigMapForKeepListRegex_def get0_def split: option.splits)
next
  show "regex_field (ccp_regex_values ''v1'' (parseConfigMapForKeepListRegex m ''v1'') keys) ''minimalingestionprofile'' =
      get0 ''true'' (get0 fmempty m ''default-targets-metrics-keep-list'') ''minimalingestionprofile''"
    using regex_value [OF assms, of "''v1''" "''minimalingestionprofile''" "''minimalingestionprofile''"] v1_identity [of "''v1''"]
    by (simp add: regex_slot_def regex_keys_def Let_def TrimSpace_def trim_by_def is_space_def parseConfigMapForKeepListRegex_def
      ccp_profile_def get0_def split: option.split)
qed

lemma keep_values_v2:
  assumes "enum keys (parseConfigMapForKeepListRegex m ''v2'')"
  shows "(k2, k1) \<in> set v2ToV1KeyMap \<Longrightarrow> regex_field (ccp_regex_values ''v2'' (parseConfigMapForKeepListRegex m ''v2'') keys) k1 =
      get0 '''' (get0 fmempty m ''default-targets-metrics-keep-list'') k2"
    and "regex_field (ccp_regex_values ''v2'' (parseConfigMapForKeepListRegex m ''v2'') keys) ''minimalingestionprofile'' =
      get0 ''true'' (get0 fmempty m ''minimal-ingestion-profile'') ''enabled''"
proof -
  have t: "TrimSpace ''v2'' = ''v2''" by code_simp
  assume k: "(k2, k1) \<in> set v2ToV1KeyMap"
  then have "k1 \<in> set regex_keys" "map_of v2ToV1KeyMap k2 = Some k1" using v2_keys(1) by (force simp: regex_keys_def, simp)
  then have "regex_slot ''v2'' k2 = Some k1" by (simp add: regex_slot_def Let_def ccp_v1_key_def t)
  from regex_value [OF assms this] v2_keys(3) k
  show "regex_field (ccp_regex_values ''v2'' (parseConfigMapForKeepListRegex m ''v2'') keys) k1 =
      get0 '''' (get0 fmempty m ''default-targets-metrics-keep-list'') k2"
    by (auto simp: list_all_iff parseConfigMapForKeepListRegex_def get0_def split: option.splits)
next
  have "regex_slot ''v2'' ''minimalingestionprofile'' = Some ''minimalingestionprofile''"
    by (simp add: regex_slot_def Let_def v2_profile_key regex_keys_def)
  from regex_value [OF assms this]
  show "regex_field (ccp_regex_values ''v2'' (parseConfigMapForKeepListRegex m ''v2'') keys) ''minimalingestionprofile'' =
      get0 ''true'' (get0 fmempty m ''minimal-ingestion-profile'') ''enabled''"
    by (simp add: parseConfigMapForKeepListRegex_def ccp_profile_def get0_def split: option.split)
qed

text \<open>What two config maps, one of each format, must share to mean the same: the values of the six targets and the profile.\<close>

definition same_settings :: "sections \<Rightarrow> sections \<Rightarrow> bool" where
  "same_settings m1 m2 \<longleftrightarrow>
     list_all (\<lambda>(k2, k1).
       fmlookup (get0 fmempty m1 ''default-scrape-settings-enabled'') k1 = fmlookup (get0 fmempty m2 ''default-targets-scrape-enabled'') k2 \<and>
       fmlookup (get0 fmempty m1 ''default-targets-metrics-keep-list'') k1 = fmlookup (get0 fmempty m2 ''default-targets-metrics-keep-list'') k2)
       v2ToV1KeyMap \<and>
     fmlookup (get0 fmempty m1 ''default-targets-metrics-keep-list'') ''minimalingestionprofile'' =
       fmlookup (get0 fmempty m2 ''minimal-ingestion-profile'') ''enabled''"

abbreviation schema_var :: string where
  "schema_var \<equiv> ''AZMON_AGENT_CFG_SCHEMA_VERSION''"

lemma same_fields:
  assumes "\<And>k2 k1. (k2, k1) \<in> set v2ToV1KeyMap \<Longrightarrow> fmlookup c1 k1 = fmlookup c2 k1"
  shows "ccp_populate_fields c1 cp = ccp_populate_fields c2 cp"
proof -
  have "list_all (\<lambda>(k2, k1). fmlookup c1 k1 = fmlookup c2 k1) v2ToV1KeyMap" using assms by (auto simp: list_all_iff)
  then show ?thesis by (simp add: v2ToV1KeyMap_def ccp_populate_fields_def ccp_set_if_def)
qed

lemma formats_settings:
  assumes "same_settings m1 m2" "\<And>kv. enum (ord kv) kv" "\<And>kv. enum (ord' kv) kv"
  shows "ccp_PopulateSettingValues env (ccp_ParseConfigMapForDefaultScrapeSettings ord m1 ''v1'') cp =
    ccp_PopulateSettingValues env (ccp_ParseConfigMapForDefaultScrapeSettings ord' m2 ''v2'') cp"
proof -
  have "fmlookup (ccp_ParseConfigMapForDefaultScrapeSettings ord m1 ''v1'') k1 =
      fmlookup (ccp_ParseConfigMapForDefaultScrapeSettings ord' m2 ''v2'') k1" if "(k2, k1) \<in> set v2ToV1KeyMap" for k2 k1
    using that assms(1) v1_settings [OF assms(2) that] v2_settings [OF assms(3) that] by (auto simp: same_settings_def list_all_iff ccp_setting_def)
  then have "ccp_populate_fields (ccp_ParseConfigMapForDefaultScrapeSettings ord m1 ''v1'') cp =
      ccp_populate_fields (ccp_ParseConfigMapForDefaultScrapeSettings ord' m2 ''v2'') cp" by (rule same_fields)
  then show ?thesis by (simp add: ccp_PopulateSettingValues_def)
qed

lemma formats_regexes:
  assumes "same_settings m1 m2" "enum keys (parseConfigMapForKeepListRegex m1 ''v1'')" "enum keys' (parseConfigMapForKeepListRegex m2 ''v2'')"
  shows "ccp_regex_values ''v1'' (parseConfigMapForKeepListRegex m1 ''v1'') keys = ccp_regex_values ''v2'' (parseConfigMapForKeepListRegex m2 ''v2'') keys'"
proof (rule regex_ext)
  fix k assume "k \<in> set regex_keys"
  then consider k2 where "(k2, k) \<in> set v2ToV1KeyMap" | "k = ''minimalingestionprofile''" by (auto simp: regex_keys_def)
  then show "regex_field (ccp_regex_values ''v1'' (parseConfigMapForKeepListRegex m1 ''v1'') keys) k =
      regex_field (ccp_regex_values ''v2'' (parseConfigMapForKeepListRegex m2 ''v2'') keys') k"
    using assms(1) keep_values_v1 [OF assms(2)] keep_values_v2 [OF assms(3)]
    by cases (auto simp: same_settings_def list_all_iff get0_def)
qed

lemma versions [simp]: "TrimSpace ''v1'' = ''v1''" "TrimSpace ''v2'' = ''v2''"
  by code_simp+

lemma set_version_env:
  "cm_env (set_var schema_var v s) = (if CHR 0x00 \<in> set v then cm_env s else (cm_env s)(schema_var \<mapsto> v))"
  by (auto simp: set_var_def Setenv_def)

text \<open>
  C30: The two formats of the config map mean the same. Take a config map of the first format and one of the second that give
  the six targets the same switches and keep lists (the second without the prefix of the key) and the same ingestion profile, whatever else they
  contain. Then both parsers write the same files and leave the same expressions, in whatever order Go visits the maps.
\<close>

theorem ccp_formats_agree:
  assumes "same_settings m1 m2" and "\<And>kv. enum (ord kv) kv" and "\<And>kv. enum (ord' kv) kv"
    and "s1 = set_var schema_var ''v1'' s" and "s2 = set_var schema_var ''v2'' s"
  shows "cm_files (tomlparserCCPDefaultScrapeSettings L ord (Some m1) s1) = cm_files (tomlparserCCPDefaultScrapeSettings L ord' (Some m2) s2)
    \<and> fst (tomlparserCCPTargetsMetricsKeepList L ord (Some m1) v s1) = fst (tomlparserCCPTargetsMetricsKeepList L ord' (Some m2) v s2)
    \<and> cm_files (snd (tomlparserCCPTargetsMetricsKeepList L ord (Some m1) v s1)) =
        cm_files (snd (tomlparserCCPTargetsMetricsKeepList L ord' (Some m2) v s2))"
proof -
  have env: "Getenv (cm_env s1) x = Getenv (cm_env s2) x" if "x \<noteq> schema_var" for x
    using that by (simp add: assms(4,5) set_version_env Getenv_def)
  have ver: "Getenv (cm_env s1) schema_var = ''v1''" "Getenv (cm_env s2) schema_var = ''v2''" "supported_schema (cm_env s1)"
    "supported_schema (cm_env s2)" "cm_files s1 = cm_files s2"
    by (simp_all add: assms(4,5) set_version_env Getenv_def supported_schema_def Let_def, simp add: set_var_def)
  have pop: "ccp_PopulateSettingValues (cm_env s1) c cp = ccp_PopulateSettingValues (cm_env s2) c cp" for c cp
    by (simp add: ccp_PopulateSettingValues_def env Let_def)
  have "cluster_name (cm_env s1) = cluster_name (cm_env s2)" by (simp add: cluster_name_def env)
  then have "cm_files (tomlparserCCPDefaultScrapeSettings L ord (Some m1) s1) = cm_files (tomlparserCCPDefaultScrapeSettings L ord' (Some m2) s2)"
    using formats_settings [OF assms(1-3)] ver
    by (simp add: tomlparserCCPDefaultScrapeSettings_def ccp_ConfigureDefaultScrapeSettings_def Let_def pop ccp_WriteDefaultScrapeSettingsToFile_def
        create_file_def WriteFile_def)
  moreover have "ccp_populateSettingValuesFromConfigMap L ''v1'' (parseConfigMapForKeepListRegex m1 ''v1'') (ord (parseConfigMapForKeepListRegex m1 ''v1'')) =
      ccp_populateSettingValuesFromConfigMap L ''v2'' (parseConfigMapForKeepListRegex m2 ''v2'') (ord' (parseConfigMapForKeepListRegex m2 ''v2''))"
    using formats_regexes [OF assms(1,2,3)] by (simp add: ccp_populateSettingValuesFromConfigMap_def)
  ultimately show ?thesis using ver
    by (auto simp: tomlparserCCPTargetsMetricsKeepList_def Let_def WriteFile_def split: option.split)
qed

definition demo_v1 :: sections where
  "demo_v1 = fmap_of_list
     [(''default-scrape-settings-enabled'', fmap_of_list [(''controlplane-etcd'', ''false''), (''kubelet'', ''true''), (''controlplane-apiserver'', ''TRUE'')]),
      (''default-targets-metrics-keep-list'', fmap_of_list [(''controlplane-apiserver'', ''up''), (''minimalingestionprofile'', ''false'')])]"

definition demo_v2 :: sections where
  "demo_v2 = fmap_of_list
     [(''default-targets-scrape-enabled'', fmap_of_list [(''apiserver'', ''TRUE''), (''etcd'', ''false'')]),
      (''default-targets-metrics-keep-list'', fmap_of_list [(''apiserver'', ''up'')]),
      (''minimal-ingestion-profile'', fmap_of_list [(''enabled'', ''false'')])]"

definition key_list :: "(string, string) gomap \<Rightarrow> string list" where
  "key_list kv = sorted_list_of_fset (fmdom kv)"

lemma key_list_enum: "enum (key_list kv) kv" "enum (rev (key_list kv)) kv"
  by (simp_all add: enum_def key_list_def fmdom'_alt_def sorted_list_of_fset.rep_eq)

lemma demo_same: "same_settings demo_v1 demo_v2"
  by code_simp

theorem ccp_formats_agree_witness:
  "cm_files (tomlparserCCPDefaultScrapeSettings demo_cm_lib key_list (Some demo_v1) (set_var schema_var ''v1'' demo_cm)) =
     cm_files (tomlparserCCPDefaultScrapeSettings demo_cm_lib (\<lambda>kv. rev (key_list kv)) (Some demo_v2) (set_var schema_var ''v2'' demo_cm))"
  using ccp_formats_agree [OF demo_same key_list_enum refl refl] by blast

end
