(* ===== verification/ControlPlaneProps.thy ===== *)
theory ControlPlaneProps
  imports ControlPlaneFormats
begin

text \<open>
  The control-plane variant from the config map to the merged jobs: the variables and files each parser changes, the targets that are scraped, and the
  keep lists that the merger finds.
\<close>

section \<open>The merger\<close>

lemma ccp_fill_other: "g \<noteq> f \<Longrightarrow> fmlookup (ccp_fill_namespace L env f fs) g = fmlookup fs g"
  by (auto simp: ccp_fill_namespace_def WriteFile_def split: option.splits)

lemma ccp_block_selects:
  "defaultConfigs (foldl (ccp_block L env rx) p ts) = defaultConfigs p @ map (\<lambda>(var, key, file). file) (filter (\<lambda>(var, key, file). ccp_enabled env var) ts)"
  by (induction ts arbitrary: p) (auto simp: ccp_block_def add_config_def Let_def)

lemma ccp_block_other:
  "g \<notin> (\<lambda>(var, key, file). file) ` set ts \<Longrightarrow> fmlookup (pfiles (foldl (ccp_block L env rx) p ts)) g = fmlookup (pfiles p) g"
  by (induction ts arbitrary: p)
    (auto simp: ccp_block_def add_config_def Let_def ccp_fill_other ccp_appendMetricRelabelConfig_def AppendMetricRelabelConfig_other split: option.splits)

definition ccp_selected :: "environ \<Rightarrow> string list" where
  "ccp_selected env = map (\<lambda>(var, key, file). file) (filter (\<lambda>(var, key, file). ccp_enabled env var) ccp_targets)"

lemma file_jobs_cong: "fmlookup fs f = fmlookup fs' f \<Longrightarrow> file_jobs L fs f = file_jobs L fs' f"
  by (simp add: file_jobs_def loadYAMLFromFile_def)

lemma ccp_merged_file: "(var, key, file) \<in> set ccp_targets \<Longrightarrow> file \<noteq> mergedDefaultConfigPath"
proof -
  have "list_all (\<lambda>(var, key, file). file \<noteq> mergedDefaultConfigPath) ccp_targets" by (simp add: ccp_targets_def file_names)
  then show "(var, key, file) \<in> set ccp_targets \<Longrightarrow> file \<noteq> mergedDefaultConfigPath" by (auto simp: list_all_iff)
qed

lemma ccp_selected_file: "f \<in> set (ccp_selected env) \<Longrightarrow> f \<noteq> mergedDefaultConfigPath"
  using ccp_merged_file by (auto simp: ccp_selected_def)

lemma ccp_populate_files:
  assumes "m = ccp_populateDefaultPrometheusConfig L env s"
  shows "mergedDefaultConfigs m = mergeDefaultScrapeConfigs L (files m) (ccp_selected env)"
    and "fmlookup (files m) mergedDefaultConfigPath = fmlookup (files s) mergedDefaultConfigPath"
proof -
  let ?s1 = "loadRegexHash L s"
  have f: "files ?s1 = files s" by (simp add: loadRegexHash_def split: option.split)
  have "mergedDefaultConfigPath \<notin> (\<lambda>(var, key, file). file) ` set ccp_targets" using ccp_merged_file by fastforce
  from ccp_block_other [OF this, of L env "regexHash ?s1" "\<lparr>pfiles = files s, defaultConfigs = []\<rparr>"]
  show "fmlookup (files m) mergedDefaultConfigPath = fmlookup (files s) mergedDefaultConfigPath"
    by (simp add: assms ccp_populateDefaultPrometheusConfig_def Let_def f)
  show "mergedDefaultConfigs m = mergeDefaultScrapeConfigs L (files m) (ccp_selected env)"
    by (simp add: assms ccp_populateDefaultPrometheusConfig_def Let_def ccp_block_selects ccp_selected_def f)
qed

lemma ccp_merger_jobs:
  fixes env L s
  defines "mg \<equiv> prometheusCcpConfigMerger L env s" and "sel \<equiv> ccp_selected env"
  assumes "\<And>m. enum (range_order L m) m" and "sel \<noteq> [] \<Longrightarrow> ToLower (Getenv env no_default_var) = ''false''"
    and "\<And>f d. f \<in> set sel \<Longrightarrow> loadYAMLFromFile L (files mg) f = Some d \<Longrightarrow> lists_jobs d"
  shows "sel \<noteq> [] \<Longrightarrow> fmlookup (mergedDefaultConfigs mg) scrape_configs = Some (YSeq (concat (map (file_jobs L (files mg)) sel)))"
    and "sel = [] \<Longrightarrow> mergedDefaultConfigs mg = fmempty"
proof -
  define s1 where "s1 = loadRegexHash L (s\<lparr>mergedDefaultConfigs := fmempty, files := ccp_setDefaultFileScrapeInterval L ''30s'' (files s)\<rparr>)"
  define p where "p = ccp_populateDefaultPrometheusConfig L env s1"
  note pf = ccp_populate_files [OF p_def]
  have run: "mergedDefaultConfigs mg = mergedDefaultConfigs p" "g \<noteq> mergedDefaultConfigPath \<Longrightarrow> fmlookup (files mg) g = fmlookup (files p) g"
    if "ToLower (Getenv env no_default_var) = ''false''" for g
    using that by (auto simp: mg_def prometheusCcpConfigMerger_def ccp_writeDefaultScrapeTargetsFile_def Let_def WriteFile_def p_def s1_def ToLower_def
        split: option.split)
  show "mergedDefaultConfigs mg = fmempty" if "sel = []"
  proof (cases "ToLower (Getenv env no_default_var) = ''false''")
    case True
    then show ?thesis using run(1) pf(1) that by (simp add: sel_def mergeDefaultScrapeConfigs_def)
  qed (simp add: mg_def prometheusCcpConfigMerger_def ccp_writeDefaultScrapeTargetsFile_def Let_def)
  assume ne: "sel \<noteq> []"
  note run = run [OF assms(4) [OF ne]]
  have eq: "fmlookup (files mg) f = fmlookup (files p) f" if "f \<in> set sel" for f
    using run(2) ccp_selected_file that by (simp add: sel_def)
  have "fmlookup (mergedDefaultConfigs p) scrape_configs = Some (YSeq (concat (map (file_jobs L (files p)) sel)))"
    unfolding pf(1) sel_def [symmetric]
  proof (rule default_jobs_in_order [OF assms(3) ne])
    fix f d assume f: "f \<in> set sel" "loadYAMLFromFile L (files p) f = Some d"
    then have "loadYAMLFromFile L (files mg) f = Some d" by (simp add: loadYAMLFromFile_def eq [OF f(1)])
    with f(1) show "lists_jobs d" by (rule assms(5))
  qed
  also have "map (file_jobs L (files p)) sel = map (file_jobs L (files mg)) sel"
    by (rule map_cong [OF refl]) (rule file_jobs_cong [OF eq [symmetric]])
  finally show "fmlookup (mergedDefaultConfigs mg) scrape_configs = Some (YSeq (concat (map (file_jobs L (files mg)) sel)))"
    by (simp add: run(1))
qed

section \<open>From the config map to the environment\<close>

text \<open>The targets with the key of their setting, its default, their variable and their file.\<close>

definition ccp_table :: "(string \<times> string \<times> string \<times> string) list" where
  "ccp_table =
     [(''controlplane-kube-controller-manager'', ''false'', ''AZMON_PROMETHEUS_CONTROLPLANE_KUBE_CONTROLLER_MANAGER_ENABLED'', controlplaneKubeControllerManagerFile),
      (''controlplane-kube-scheduler'', ''false'', ''AZMON_PROMETHEUS_CONTROLPLANE_KUBE_SCHEDULER_ENABLED'', controlplaneKubeSchedulerDefaultFile),
      (''controlplane-apiserver'', ''true'', ''AZMON_PROMETHEUS_CONTROLPLANE_APISERVER_ENABLED'', controlplaneApiserverDefaultFile),
      (''controlplane-cluster-autoscaler'', ''false'', ''AZMON_PROMETHEUS_CONTROLPLANE_CLUSTER_AUTOSCALER_ENABLED'', controlplaneClusterAutoscalerFile),
      (''controlplane-node-auto-provisioning'', ''false'', ''AZMON_PROMETHEUS_CONTROLPLANE_NODE_AUTO_PROVISIONING_ENABLED'', controlplaneNodeAutoProvisioningFile),
      (''controlplane-etcd'', ''true'', ''AZMON_PROMETHEUS_CONTROLPLANE_ETCD_ENABLED'', controlplaneEtcdDefaultFile)]"

text \<open>The value of a setting in either format; the second one leaves out the prefix of the key.\<close>

definition ccp_value :: "environ \<Rightarrow> sections \<Rightarrow> string \<Rightarrow> string \<Rightarrow> string" where
  "ccp_value env m key d =
     (let version = Getenv env schema_var in
      if version = ''v1'' then get0 d (get0 fmempty m ''default-scrape-settings-enabled'') key
      else if version = ''v2'' then get0 d (get0 fmempty m ''default-targets-scrape-enabled'') (drop 13 key)
      else d)"

lemma ccp_table_keys: "(key, d, var, file) \<in> set ccp_table \<Longrightarrow> (drop 13 key, key) \<in> set v2ToV1KeyMap \<and> map_of ccp_default_settings key = Some d"
proof -
  have "list_all (\<lambda>(key, d, var, file). (drop 13 key, key) \<in> set v2ToV1KeyMap \<and> map_of ccp_default_settings key = Some d) ccp_table"
    by (simp add: ccp_table_def v2ToV1KeyMap_def ccp_default_settings_def)
  then show "(key, d, var, file) \<in> set ccp_table \<Longrightarrow> (drop 13 key, key) \<in> set v2ToV1KeyMap \<and> map_of ccp_default_settings key = Some d"
    by (auto simp: list_all_iff)
qed

definition ccp_loaded :: "((string, string) gomap \<Rightarrow> string list) \<Rightarrow> environ \<Rightarrow> sections \<Rightarrow> (string, string) gomap" where
  "ccp_loaded ord env m =
     (if supported_schema env then ccp_ParseConfigMapForDefaultScrapeSettings ord m (Getenv env schema_var) else ccp_SetDefaultScrapeSettings)"

lemma ccp_loaded_value:
  assumes "\<And>kv. enum (ord kv) kv" "(key, d, var, file) \<in> set ccp_table"
  shows "fmlookup (ccp_loaded ord env m) key = Some (ccp_value env m key d)"
proof -
  note k = ccp_table_keys [OF assms(2)]
  have def_value: "fmlookup ccp_SetDefaultScrapeSettings key = Some d" using k by (simp add: ccp_SetDefaultScrapeSettings_def fmlookup_of_list)
  consider "Getenv env schema_var = ''v1''" | "Getenv env schema_var = ''v2''" | "Getenv env schema_var \<noteq> ''v1''" "Getenv env schema_var \<noteq> ''v2''" by blast
  then show ?thesis
  proof cases
    case 1
    then show ?thesis using v1_settings [OF assms(1) conjunct1 [OF k], where m = m] conjunct2 [OF k]
      by (simp add: ccp_loaded_def ccp_value_def supported_schema_def Let_def ccp_setting_def get0_def split: option.split)
  next
    case 2
    then show ?thesis using v2_settings [OF assms(1) conjunct1 [OF k], where m = m] conjunct2 [OF k]
      by (simp add: ccp_loaded_def ccp_value_def supported_schema_def Let_def ccp_setting_def get0_def split: option.split)
  next
    case 3
    then show ?thesis using def_value by (simp add: ccp_loaded_def ccp_value_def Let_def ccp_ParseConfigMapForDefaultScrapeSettings_def)
  qed
qed

lemma ccp_set_if_fields:
  "ccp_set_if c k (\<lambda>v. ccp_ControlplaneKubeControllerManager_update (\<lambda>_. v)) cp = ccp_ControlplaneKubeControllerManager_update (pick c k) cp"
  "ccp_set_if c k (\<lambda>v. ccp_ControlplaneKubeScheduler_update (\<lambda>_. v)) cp = ccp_ControlplaneKubeScheduler_update (pick c k) cp"
  "ccp_set_if c k (\<lambda>v. ccp_ControlplaneApiserver_update (\<lambda>_. v)) cp = ccp_ControlplaneApiserver_update (pick c k) cp"
  "ccp_set_if c k (\<lambda>v. ccp_ControlplaneClusterAutoscaler_update (\<lambda>_. v)) cp = ccp_ControlplaneClusterAutoscaler_update (pick c k) cp"
  "ccp_set_if c k (\<lambda>v. ccp_ControlplaneNodeAutoProvisioning_update (\<lambda>_. v)) cp = ccp_ControlplaneNodeAutoProvisioning_update (pick c k) cp"
  "ccp_set_if c k (\<lambda>v. ccp_ControlplaneEtcd_update (\<lambda>_. v)) cp = ccp_ControlplaneEtcd_update (pick c k) cp"
  by (simp_all add: ccp_set_if_def pick_def split: option.split)

lemma ccp_vars_of_fields:
  "ccp_settings_vars ((ccp_populate_fields c ccp_empty_processor)\<lparr>ccp_NoDefaultsEnabled := b, ccp_ClusterAlias := a\<rparr>) =
     map (\<lambda>(key, d, var, file). (var, pick c key '''')) ccp_table @ [(no_default_var, print_bool b)]"
  "ccp_none_set (ccp_populate_fields c ccp_empty_processor) \<longleftrightarrow> list_all (\<lambda>(key, d, var, file). pick c key '''' = '''') ccp_table"
  "ccp_NoDefaultsEnabled (ccp_populate_fields c ccp_empty_processor) = False"
  by (simp_all add: ccp_settings_vars_def ccp_populate_fields_def ccp_set_if_fields ccp_empty_processor_def ccp_table_def ccp_none_set_def)

lemma ccp_populated:
  obtains b where "ccp_PopulateSettingValues env c ccp_empty_processor = (ccp_populate_fields c ccp_empty_processor)\<lparr>ccp_NoDefaultsEnabled := b\<rparr>"
    "b \<longrightarrow> ccp_none_set (ccp_populate_fields c ccp_empty_processor)"
proof -
  let ?cp = "ccp_populate_fields c ccp_empty_processor"
  have "ccp_PopulateSettingValues env c ccp_empty_processor = ?cp\<lparr>ccp_NoDefaultsEnabled := True\<rparr> \<and> ccp_none_set ?cp \<or>
      ccp_PopulateSettingValues env c ccp_empty_processor = ?cp"
    by (simp add: ccp_PopulateSettingValues_def Let_def)
  moreover have "?cp = ?cp\<lparr>ccp_NoDefaultsEnabled := False\<rparr>" using ccp_vars_of_fields(3) [of c] by (cases ?cp) simp
  ultimately show thesis using that by (metis (full_types))
qed

lemma ccp_settings_content:
  assumes "\<And>kv. enum (ord kv) kv" "writable (base L) defaultSettingsEnvVarPath"
  obtains b where "tomlparserCCPDefaultScrapeSettings L ord m s = s\<lparr>cm_files := fmupd defaultSettingsEnvVarPath
      (env_file (map (\<lambda>(key, d, var, file). (var, ccp_value (cm_env s) (sections_of m) key d)) ccp_table @ [(no_default_var, print_bool b)])) (cm_files s)\<rparr>"
    "b \<longrightarrow> list_all (\<lambda>(key, d, var, file). ccp_value (cm_env s) (sections_of m) key d = '''') ccp_table"
proof -
  let ?c = "ccp_loaded ord (cm_env s) (sections_of m)"
  have v: "pick ?c key '''' = ccp_value (cm_env s) (sections_of m) key d" if "(key, d, var, f) \<in> set ccp_table" for key d var f
    using ccp_loaded_value [OF assms(1) that] by (simp add: pick_empty)
  obtain b where b: "ccp_PopulateSettingValues (cm_env s) ?c ccp_empty_processor = (ccp_populate_fields ?c ccp_empty_processor)\<lparr>ccp_NoDefaultsEnabled := b\<rparr>"
    "b \<longrightarrow> ccp_none_set (ccp_populate_fields ?c ccp_empty_processor)" by (rule ccp_populated)
  have m: "map (\<lambda>(key, d, var, file). (var, pick ?c key '''')) ccp_table =
      map (\<lambda>(key, d, var, file). (var, ccp_value (cm_env s) (sections_of m) key d)) ccp_table"
    using v by (intro map_cong) auto
  show thesis
  proof (rule that [of b])
    show "tomlparserCCPDefaultScrapeSettings L ord m s = s\<lparr>cm_files := fmupd defaultSettingsEnvVarPath
      (env_file (map (\<lambda>(key, d, var, file). (var, ccp_value (cm_env s) (sections_of m) key d)) ccp_table @ [(no_default_var, print_bool b)])) (cm_files s)\<rparr>"
      using assms(2) b(1) ccp_vars_of_fields(1) [where c = ?c and b = b and a = "clean_alias (cluster_name (cm_env s))"]
      by (simp add: tomlparserCCPDefaultScrapeSettings_def ccp_ConfigureDefaultScrapeSettings_def Let_def ccp_WriteDefaultScrapeSettingsToFile_def
          create_file_def WriteFile_def m flip: ccp_loaded_def)
    show "b \<longrightarrow> list_all (\<lambda>(key, d, var, file). ccp_value (cm_env s) (sections_of m) key d = '''') ccp_table"
      using b(2) v unfolding ccp_vars_of_fields(2) by (auto simp: list_all_iff)
  qed
qed

section \<open>What the other parsers leave alone\<close>

abbreviation report_vars :: "string set" where
  "report_vars \<equiv> {''AZMON_INVALID_METRICS_SETTINGS_CONFIG'', ''INVALID_SETTINGS_CONFIG_ERROR''}"

lemma report_frame: "env_frame report_vars s (report_invalid e s)"
  unfolding report_invalid_def by (rule env_frame_mono [OF env_frame_trans [OF set_var_frame set_var_frame]]) auto

lemma ccp_sections_frame:
  assumes "ccp_sections L E s = (m, s1)"
  shows "env_frame report_vars s s1" "cm_files s1 = cm_files s" "wf_sections (sections_of m)"
  using assms report_frame
  by (auto simp: ccp_sections_def Let_def report_invalid_def set_var_def split: if_splits sum.splits option.splits
      dest: ParseMetricsFiles_wf ParseV1Config_wf)

lemma ccp_version_frame: "env_frame (insert var report_vars) s (ccp_version L E w path var s)"
proof -
  have "env_frame (insert var report_vars) s (report_invalid e s)" for e by (rule env_frame_mono [OF report_frame]) auto
  moreover have "env_frame (insert var report_vars) s (set_var var v s)" for v by (rule env_frame_mono [OF set_var_frame]) auto
  ultimately show ?thesis by (simp add: ccp_version_def split: file_state.split)
qed

lemma ccp_versioned_frame: "env_frame ({''AZMON_AGENT_CFG_FILE_VERSION'', schema_var} \<union> report_vars) s (ccp_versioned L E s)"
proof -
  have "env_frame report_vars s (set_var ''INVALID_SETTINGS_CONFIG_ERROR'' '''' (set_var ''AZMON_INVALID_METRICS_SETTINGS_CONFIG'' ''false'' s))"
    by (rule env_frame_mono [OF env_frame_trans [OF set_var_frame set_var_frame]]) auto
  from env_frame_trans [OF env_frame_trans [OF this ccp_version_frame] ccp_version_frame]
  show ?thesis unfolding ccp_versioned_def by (rule env_frame_mono) auto
qed

lemma ccp_version_files [simp]: "cm_files (ccp_version L E w path var s) = cm_files s"
  by (simp add: ccp_version_def report_invalid_def set_var_def split: file_state.split)

lemma ccp_versioned_files: "cm_files (ccp_versioned L E s) = cm_files s"
  by (simp add: ccp_versioned_def) (simp add: set_var_def)

definition ccp_collector_names :: "string list" where
  "ccp_collector_names = [''AZMON_DEFAULT_METRIC_ACCOUNT_NAME'', ''AZMON_CLUSTER_LABEL'', ''AZMON_CLUSTER_ALIAS'', ''AZMON_OPERATOR_ENABLED_CHART_SETTING'',
     ''AZMON_OPERATOR_ENABLED'', ''AZMON_OPERATOR_ENABLED_CFG_MAP_SETTING'']"

lemma ccp_collector_names_plain: "list_all plain ccp_collector_names"
  by code_simp

definition ccp_clean :: "ccp_ConfigProcessor \<Rightarrow> bool" where
  "ccp_clean cp \<longleftrightarrow> CHR 0x0A \<notin> set (ccp_DefaultMetricAccountName cp) \<and> CHR 0x0A \<notin> set (ccp_ClusterAlias cp)"

lemma ccp_collector_vars_ok:
  assumes "ccp_clean cp" "CHR 0x0A \<notin> set (ccp_ClusterLabel cp)"
  shows "list_all line_ok (ccp_collector_vars cp)" "fst ` set (ccp_collector_vars cp) \<subseteq> set ccp_collector_names"
proof -
  show sub: "fst ` set (ccp_collector_vars cp) \<subseteq> set ccp_collector_names"
    by (auto simp: ccp_collector_vars_def ccp_collector_names_def)
  have "CHR 0x0A \<notin> set v" if "(k, v) \<in> set (ccp_collector_vars cp)" for k v
    using that assms by (auto simp: ccp_collector_vars_def ccp_clean_def print_bool_def split: if_splits)
  moreover have "plain k" if "(k, v) \<in> set (ccp_collector_vars cp)" for k v
    using that sub ccp_collector_names_plain by (force simp: list_all_iff)
  ultimately show "list_all line_ok (ccp_collector_vars cp)" by (auto simp: list_all_iff intro!: line_ok_plain)
qed

lemma ccp_populated_clean:
  assumes "wf_sections m" "ccp_clean cp"
  shows "ccp_clean (ccp_PopulateSettingValuesFromConfigMap env m cp)"
proof (cases "fmlookup m ''prometheus-collector-settings''")
  case (Some kv)
  with assms(1) have kv: "CHR 0x0A \<notin> set v" if "fmlookup kv k = Some v" for k v
    using that by (auto simp: wf_sections_def wf_section_def wf_entry_def)
  show ?thesis using assms(2) Some kv clean_alias_no_newline
    by (simp add: ccp_PopulateSettingValuesFromConfigMap_def ccp_clean_def Let_def split: option.split)
qed (use assms(2) in \<open>simp add: ccp_PopulateSettingValuesFromConfigMap_def ccp_clean_def\<close>)

lemma ccp_collector_frame:
  assumes "wf_sections (sections_of m)" "no_newline_in (cm_env s) ''CLUSTER''" "writable (base L) collectorSettingsEnvVarPath"
  shows "env_frame (set ccp_collector_names) s (handleEnvFileError L collectorSettingsEnvVarPath (ccp_parseConfigAndSetEnvInFile L m s))"
proof -
  let ?env = "cm_env s" and ?m = "sections_of m"
  define cp1 where "cp1 = (if supported_schema ?env \<and> gomap_len ?m > 0 then ccp_PopulateSettingValuesFromConfigMap ?env ?m ccp_empty_processor else ccp_empty_processor)"
  define cp where "cp = (let cp2 = cp1\<lparr>ccp_ClusterLabel := cluster_name ?env\<rparr> in if ccp_ClusterAlias cp2 \<noteq> '''' then cp2\<lparr>ccp_ClusterLabel := ccp_ClusterAlias cp2\<rparr> else cp2)"
  have "ccp_clean ccp_empty_processor" by (simp add: ccp_clean_def ccp_empty_processor_def)
  then have c1: "ccp_clean cp1" using ccp_populated_clean [OF assms(1)] by (simp add: cp1_def)
  have "CHR 0x0A \<notin> set (cluster_name ?env)" using assms(2) cluster_name_chars [of ?env] by (auto simp: no_newline_in_def)
  with c1 have ok: "ccp_clean cp" "CHR 0x0A \<notin> set (ccp_ClusterLabel cp)" by (simp_all add: cp_def Let_def ccp_clean_def)
  have "create_file L collectorSettingsEnvVarPath (env_file (ccp_collector_vars cp)) s = Some (ccp_parseConfigAndSetEnvInFile L m s)"
    using assms(3) by (simp add: create_file_def WriteFile_def ccp_parseConfigAndSetEnvInFile_def ccp_Configure_def ccp_WriteConfigToFile_def cp_def cp1_def Let_def)
  from handle_created_frame [OF this ccp_collector_vars_ok(1) [OF ok]]
  show ?thesis by (rule env_frame_mono) (rule ccp_collector_vars_ok(2) [OF ok])
qed

lemma ccp_otel_frame:
  assumes "m = None \<or> \<not> writable (base L) opentelemetryMetricsEnvVarPath \<Longrightarrow> fmlookup (cm_files s) opentelemetryMetricsEnvVarPath = None"
  shows "env_frame {''AZMON_FULL_OTLP_ENABLED''} s
    (handleEnvFileError L opentelemetryMetricsEnvVarPath (ccp_ConfigureOpentelemetryMetricsSettings L m s))"
proof (cases "m = None \<or> \<not> writable (base L) opentelemetryMetricsEnvVarPath")
  case True
  with assms [OF True] show ?thesis
    by (intro env_frame_refl) (auto simp: ccp_ConfigureOpentelemetryMetricsSettings_def ConfigureOpentelemetryMetricsSettings_def create_file_def
      WriteFile_def handleEnvFileError_def SetEnvVarsFromFile_def file_at_def split: option.splits)
next
  case False
  then obtain m' where m: "m = Some m'" by auto
  have "create_file L opentelemetryMetricsEnvVarPath (env_file [(''AZMON_FULL_OTLP_ENABLED'', print_bool (populateOpentelemetryMetricsSettingValuesFromConfigMap m'))]) s
      = Some (ccp_ConfigureOpentelemetryMetricsSettings L m s)"
    using False by (simp add: m ccp_ConfigureOpentelemetryMetricsSettings_def ConfigureOpentelemetryMetricsSettings_def create_file_def WriteFile_def)
  from handle_created_frame [OF this] show ?thesis by (rule env_frame_mono) (simp_all add: line_ok_def print_bool_def)
qed

lemma ccp_keep_env: "cm_env (snd (tomlparserCCPTargetsMetricsKeepList L ord m v s)) = cm_env s"
  by (auto simp: tomlparserCCPTargetsMetricsKeepList_def Let_def WriteFile_def split: option.split)

section \<open>From the config map to the jobs\<close>

definition ccp_ready :: "cm_lib \<Rightarrow> cm_state \<Rightarrow> bool" where
  "ccp_ready L s \<longleftrightarrow> no_newline_in (cm_env s) ''CLUSTER'' \<and> writable (base L) collectorSettingsEnvVarPath \<and>
     writable (base L) defaultSettingsEnvVarPath \<and> fmlookup (cm_files s) opentelemetryMetricsEnvVarPath = None"

lemma ccp_table_vars:
  "distinct (map (\<lambda>(key, d, var, file). var) ccp_table @ [no_default_var])"
  "list_all (\<lambda>(key, d, var, file). plain var \<and> var \<noteq> '''') ccp_table"
  by (simp_all add: ccp_table_def plain_def fits_def)

lemma ccp_table_targets: "map (\<lambda>(key, d, var, file). (var, file)) ccp_table = map (\<lambda>(var, key, file). (var, file)) ccp_targets"
  by (simp add: ccp_table_def ccp_targets_def)

definition ccp_before :: "cm_lib \<Rightarrow> sections option \<Rightarrow> cm_state \<Rightarrow> cm_state" where
  "ccp_before L m s1 = handleEnvFileError L opentelemetryMetricsEnvVarPath (ccp_ConfigureOpentelemetryMetricsSettings L m
     (handleEnvFileError L collectorSettingsEnvVarPath (ccp_parseConfigAndSetEnvInFile L m s1)))"

lemma ccp_before_frame:
  assumes "ccp_ready L s" "ccp_sections L E (ccp_versioned L E s) = (m, s1)"
  shows "env_frame (report_vars \<union> set ccp_collector_names \<union> {''AZMON_FULL_OTLP_ENABLED''}) (ccp_versioned L E s) (ccp_before L m s1)"
proof -
  note sf = ccp_sections_frame [OF assms(2)]
  have "cm_env s1 ''CLUSTER'' = cm_env s ''CLUSTER''"
    using sf(1) ccp_versioned_frame [of s L E] by (simp add: env_frame_def)
  then have n: "no_newline_in (cm_env s1) ''CLUSTER''" using assms(1) by (simp add: ccp_ready_def no_newline_in_def Getenv_def)
  have w: "writable (base L) collectorSettingsEnvVarPath" using assms(1) by (simp add: ccp_ready_def)
  let ?s2 = "handleEnvFileError L collectorSettingsEnvVarPath (ccp_parseConfigAndSetEnvInFile L m s1)"
  have ne: "opentelemetryMetricsEnvVarPath \<noteq> collectorSettingsEnvVarPath"
    by (simp add: opentelemetryMetricsEnvVarPath_def collectorSettingsEnvVarPath_def)
  have "fmlookup (cm_files ?s2) opentelemetryMetricsEnvVarPath = None"
    using assms(1) sf(2) ne w
    by (simp add: ccp_ready_def ccp_versioned_files ccp_parseConfigAndSetEnvInFile_def ccp_Configure_def Let_def ccp_WriteConfigToFile_def
        create_file_def WriteFile_def)
  from env_frame_trans [OF env_frame_trans [OF sf(1) ccp_collector_frame [OF sf(3) n w]] ccp_otel_frame [OF this]]
  show ?thesis by (simp add: ccp_before_def)
qed

lemma ccp_value_cong: "env schema_var = env' schema_var \<Longrightarrow> ccp_value env m key d = ccp_value env' m key d"
  by (simp add: ccp_value_def Getenv_def)

lemma ccp_settings_in_env:
  assumes "ccp_ready L s" and "\<And>kv. enum (ord kv) kv" and "ccp_sections L E (ccp_versioned L E s) = (m, s1)"
    and "list_all (\<lambda>(key, d, var, f). plain (ccp_value (cm_env (ccp_versioned L E s)) (sections_of m) key d)) ccp_table"
    and "s' = snd (ccp_parse_settings L E ord v s)"
  shows "(key, d, var, f) \<in> set ccp_table \<Longrightarrow> cm_env s' var = Some (ccp_value (cm_env (ccp_versioned L E s)) (sections_of m) key d)"
    and "(key, d, var, f) \<in> set ccp_table \<Longrightarrow> ccp_value (cm_env (ccp_versioned L E s)) (sections_of m) key d \<noteq> '''' \<Longrightarrow> cm_env s' no_default_var = Some ''false''"
    and "cm_env s' ''CONTROLLER_TYPE'' = cm_env s ''CONTROLLER_TYPE''"
proof -
  let ?env = "cm_env (ccp_versioned L E s)" and ?s3 = "ccp_before L m s1"
  have fr: "cm_env ?s3 x = ?env x" if "x \<notin> report_vars \<union> set ccp_collector_names \<union> {''AZMON_FULL_OTLP_ENABLED''}" for x
    using ccp_before_frame [OF assms(1,3)] that unfolding env_frame_def by blast
  have schema: "schema_var \<notin> report_vars \<union> set ccp_collector_names \<union> {''AZMON_FULL_OTLP_ENABLED''}" by (simp add: ccp_collector_names_def)
  have val: "ccp_value (cm_env ?s3) (sections_of m) k e = ccp_value ?env (sections_of m) k e" for k e
    by (rule ccp_value_cong) (rule fr [OF schema])
  have w: "writable (base L) defaultSettingsEnvVarPath" using assms(1) by (simp add: ccp_ready_def)
  obtain b where b: "tomlparserCCPDefaultScrapeSettings L ord m ?s3 = ?s3\<lparr>cm_files := fmupd defaultSettingsEnvVarPath
      (env_file (map (\<lambda>(key, d, var, file). (var, ccp_value (cm_env ?s3) (sections_of m) key d)) ccp_table @ [(no_default_var, print_bool b)])) (cm_files ?s3)\<rparr>"
    "b \<longrightarrow> list_all (\<lambda>(key, d, var, file). ccp_value (cm_env ?s3) (sections_of m) key d = '''') ccp_table"
    by (rule ccp_settings_content [OF assms(2) w])
  define kvs where "kvs = map (\<lambda>(key, d, var, file). (var, ccp_value ?env (sections_of m) key d)) ccp_table @ [(no_default_var, print_bool b)]"
  have "map fst kvs = map (\<lambda>(key, d, var, file). var) ccp_table @ [no_default_var]" by (auto simp: kvs_def)
  then have dist: "distinct (map fst kvs)" using ccp_table_vars(1) by simp
  have ok: "list_all (\<lambda>(k, v). plain k \<and> plain v \<and> k \<noteq> '''') kvs"
    using ccp_table_vars(2) assms(4) plain_no_default plain_print_bool unfolding kvs_def list_all_iff by fastforce
  have env': "cm_env s' = cm_env ?s3 ++ map_of kvs"
    using SetEnvVars_file [OF ok dist, of defaultSettingsEnvVarPath "cm_env ?s3"] b(1) assms(3)
    by (simp add: assms(5) ccp_parse_settings_def Let_def ccp_keep_env flip: ccp_before_def) (simp add: handleEnvFileError_def file_at_def val kvs_def)
  show "cm_env s' var = Some (ccp_value ?env (sections_of m) key d)" if t: "(key, d, var, f) \<in> set ccp_table"
  proof -
    have "(var, ccp_value ?env (sections_of m) key d) \<in> set kvs" using t by (force simp: kvs_def)
    then show ?thesis by (simp add: env' map_add_def map_of_is_SomeI [OF dist])
  qed
  show "cm_env s' no_default_var = Some ''false''" if t: "(key, d, var, f) \<in> set ccp_table" and "ccp_value ?env (sections_of m) key d \<noteq> ''''"
  proof -
    have "\<not> b" using b(2) that val by (auto simp: list_all_iff)
    then have "(no_default_var, ''false'') \<in> set kvs" by (simp add: kvs_def print_bool_def)
    then show ?thesis by (simp add: env' map_add_def map_of_is_SomeI [OF dist])
  qed
  have "''CONTROLLER_TYPE'' \<notin> fst ` set kvs" by (simp add: kvs_def ccp_table_def)
  then have "map_of kvs ''CONTROLLER_TYPE'' = None" by (simp add: map_of_eq_None_iff)
  then show "cm_env s' ''CONTROLLER_TYPE'' = cm_env s ''CONTROLLER_TYPE''"
    using fr [of "''CONTROLLER_TYPE''"] ccp_versioned_frame [of s L E] by (simp add: env' map_add_def ccp_collector_names_def env_frame_def)
qed

lemma ccp_selected_table:
  "ccp_selected env = map (\<lambda>(key, d, var, file). file) (filter (\<lambda>(key, d, var, file). ccp_enabled env var) ccp_table)"
proof -
  have "map snd (filter (\<lambda>(var, file). ccp_enabled env var) (map (\<lambda>(var, key, file). (var, file)) ccp_targets)) = ccp_selected env"
    by (simp add: ccp_selected_def filter_map comp_def case_prod_unfold)
  moreover have "map snd (filter (\<lambda>(var, file). ccp_enabled env var) (map (\<lambda>(key, d, var, file). (var, file)) ccp_table)) =
      map (\<lambda>(key, d, var, file). file) (filter (\<lambda>(key, d, var, file). ccp_enabled env var) ccp_table)"
    by (simp add: filter_map comp_def case_prod_unfold)
  ultimately show ?thesis by (simp only: ccp_table_targets)
qed

text \<open>
  C31: The control-plane targets that are scraped. On a replica set the merged configuration lists the jobs of exactly those of the six default files
  whose setting in the config map, or whose default, reads \<open>true\<close> in any case, in a fixed order and each file's jobs in their own; on any other
  controller, or with no target enabled, it is empty. The settings reach the merger through the file of variables.
\<close>

theorem ccp_targets_scraped:
  assumes "ccp_ready L s" and "\<And>kv. enum (ord kv) kv" and "\<And>y. enum (range_order (base L) y) y"
    and "ccp_sections L E (ccp_versioned L E s) = (m, s1)"
    and "value_of = ccp_value (cm_env (ccp_versioned L E s)) (case m of None \<Rightarrow> fmempty | Some m \<Rightarrow> m)"
    and "list_all (\<lambda>(key, d, var, f). plain (value_of key d)) ccp_table"
    and "s' = snd (ccp_parse_settings L E ord v s)" and "mg = prometheusCcpConfigMerger (base L) (cm_env s') (fresh_merger (cm_files s'))"
    and "\<And>key d var f y. (key, d, var, f) \<in> set ccp_table \<Longrightarrow> loadYAMLFromFile (base L) (files mg) f = Some y \<Longrightarrow> lists_jobs y"
    and "sel = (if TrimSpace (ToLower (Getenv (cm_env s) ''CONTROLLER_TYPE'')) = ''replicaset''
      then map (\<lambda>(key, d, var, f). f) (filter (\<lambda>(key, d, var, f). ToLower (value_of key d) = ''true'') ccp_table) else [])"
  shows "(sel = [] \<longrightarrow> mergedDefaultConfigs mg = fmempty)
    \<and> (sel \<noteq> [] \<longrightarrow> fmlookup (mergedDefaultConfigs mg) scrape_configs = Some (YSeq (concat (map (file_jobs (base L) (files mg)) sel))))"
proof -
  note env = ccp_settings_in_env [OF assms(1,2,4) assms(6) [unfolded assms(5)] assms(7), folded assms(5)]
  have en: "ccp_enabled (cm_env s') var \<longleftrightarrow> ToLower (value_of key d) = ''true'' \<and> TrimSpace (ToLower (Getenv (cm_env s) ''CONTROLLER_TYPE'')) = ''replicaset''"
    if "(key, d, var, f) \<in> set ccp_table" for key d var f
    using env(1) [OF that] env(3) by (simp add: ccp_enabled_def Getenv_def replicasetControllerType_def)
  have "filter (\<lambda>(key, d, var, f). ccp_enabled (cm_env s') var) ccp_table =
      filter (\<lambda>(key, d, var, f). ToLower (value_of key d) = ''true'' \<and> TrimSpace (ToLower (Getenv (cm_env s) ''CONTROLLER_TYPE'')) = ''replicaset'') ccp_table"
    using en by (intro filter_cong) auto
  then have sel: "ccp_selected (cm_env s') = sel" by (simp add: ccp_selected_table assms(10) case_prod_unfold)
  have member: "\<exists>key d var. (key, d, var, f) \<in> set ccp_table \<and> ToLower (value_of key d) = ''true''" if "f \<in> set sel" for f
    using that by (auto simp: assms(10) split: if_splits)
  have "ToLower (Getenv (cm_env s') no_default_var) = ''false''" if ne: "sel \<noteq> []"
  proof -
    obtain f where "f \<in> set sel" using hd_in_set [OF ne] by blast
    then obtain key d var where t: "(key, d, var, f) \<in> set ccp_table" "ToLower (value_of key d) = ''true''" using member by blast
    then have "value_of key d \<noteq> ''''" by (auto simp: ToLower_def)
    moreover have "ToLower ''false'' = ''false''" by code_simp
    ultimately show ?thesis using env(2) [OF t(1)] by (simp add: Getenv_def)
  qed
  note jobs = ccp_merger_jobs [of "base L" "cm_env s'", unfolded sel, OF assms(3) this, of "fresh_merger (cm_files s')", folded assms(8)]
  have "lists_jobs y" if "f \<in> set sel" "loadYAMLFromFile (base L) (files mg) f = Some y" for f y
    using member [OF that(1)] assms(9) that(2) by blast
  with jobs show ?thesis by blast
qed

section \<open>Keep lists\<close>

text \<open>Of every target: the name of its expression in the file, the key of its keep list, its minimal list and the package variable.\<close>

definition ccp_keep_table :: "(string \<times> string \<times> string \<times> (ccp_regexes \<Rightarrow> string)) list" where
  "ccp_keep_table =
     [(''CONTROLPLANE_KUBE_CONTROLLER_MANAGER_KEEP_LIST_REGEX'', ''controlplane-kube-controller-manager'', controlplaneKubeControllerManagerMinMac, controlplaneKubeControllerManagerRegex),
      (''CONTROLPLANE_KUBE_SCHEDULER_KEEP_LIST_REGEX'', ''controlplane-kube-scheduler'', controlplaneKubeSchedulerMinMac, controlplaneKubeSchedulerRegex),
      (''CONTROLPLANE_APISERVER_KEEP_LIST_REGEX'', ''controlplane-apiserver'', controlplaneApiserverMinMac, controlplaneApiserverRegex),
      (''CONTROLPLANE_CLUSTER_AUTOSCALER_KEEP_LIST_REGEX'', ''controlplane-cluster-autoscaler'', controlplaneClusterAutoscalerMinMac, controlplaneClusterAutoscalerRegex),
      (''CONTROLPLANE_NODE_AUTO_PROVISIONING_KEEP_LIST_REGEX'', ''controlplane-node-auto-provisioning'', controlplaneNodeAutoProvisioningMinMac, controlplaneNodeAutoProvisioningRegex),
      (''CONTROLPLANE_ETCD_KEEP_LIST_REGEX'', ''controlplane-etcd'', controlplaneEtcdMinMac, controlplaneEtcdRegex)]"

definition ccp_user_regex :: "string \<Rightarrow> sections \<Rightarrow> string \<Rightarrow> string" where
  "ccp_user_regex version m key =
     get0 '''' (get0 fmempty m ''default-targets-metrics-keep-list'') (if version = ''v2'' then drop 13 key else key)"

definition ccp_user_profile :: "string \<Rightarrow> sections \<Rightarrow> string" where
  "ccp_user_profile version m =
     (if version = ''v2'' then get0 ''true'' (get0 fmempty m ''minimal-ingestion-profile'') ''enabled''
      else get0 ''true'' (get0 fmempty m ''default-targets-metrics-keep-list'') ''minimalingestionprofile'')"

lemma ccp_keep_keys: "(h, k, minimal, field) \<in> set ccp_keep_table \<Longrightarrow> (drop 13 k, k) \<in> set v2ToV1KeyMap"
proof -
  have "list_all (\<lambda>(h, k, minimal, field). (drop 13 k, k) \<in> set v2ToV1KeyMap) ccp_keep_table" by (simp add: ccp_keep_table_def v2ToV1KeyMap_def)
  then show "(h, k, minimal, field) \<in> set ccp_keep_table \<Longrightarrow> (drop 13 k, k) \<in> set v2ToV1KeyMap" by (auto simp: list_all_iff)
qed

lemma ccp_parsed_regexes:
  assumes "version \<in> {''v1'', ''v2''}" "enum keys (parseConfigMapForKeepListRegex m version)"
    "r = ccp_regex_values version (parseConfigMapForKeepListRegex m version) keys"
  shows "(drop 13 k, k) \<in> set v2ToV1KeyMap \<Longrightarrow> regex_field r k = ccp_user_regex version m k"
    and "crv_MinimalIngestionProfile r = ccp_user_profile version m"
proof -
  show "regex_field r k = ccp_user_regex version m k" if "(drop 13 k, k) \<in> set v2ToV1KeyMap"
    using assms keep_values_v1(1) [OF _ that] keep_values_v2(1) [OF _ that] by (auto simp: ccp_user_regex_def)
  have "regex_field r ''minimalingestionprofile'' = ccp_user_profile version m"
    using assms keep_values_v1(2) keep_values_v2(2) by (auto simp: ccp_user_profile_def)
  then show "crv_MinimalIngestionProfile r = ccp_user_profile version m" by (simp add: regex_field_def)
qed

lemma ccp_valid_table:
  "ccp_valid ok r \<longleftrightarrow> (\<forall>(h, k, minimal, field) \<in> set ccp_keep_table. regex_field r k = '''' \<or> ok (regex_field r k)) \<and>
     (crv_MinimalIngestionProfile r = '''' \<or> ok (crv_MinimalIngestionProfile r))"
  by (simp add: ccp_valid_def ccp_keep_table_def regex_field_def)

lemma ccp_hash_table:
  "ccp_regex_hash (ccp_populateRegexValuesWithMinimalIngestionProfile r v) =
     map (\<lambda>(h, k, minimal, field). (h, field v @ ccp_join r (regex_field r k) minimal)) ccp_keep_table"
  "distinct (map (\<lambda>(h, k, minimal, field). h) ccp_keep_table)"
  "map (\<lambda>(h, k, minimal, field). field (ccp_populateRegexValuesWithMinimalIngestionProfile r v)) ccp_keep_table =
     map (\<lambda>(h, k, minimal, field). field v @ ccp_join r (regex_field r k) minimal) ccp_keep_table"
  by (simp_all add: ccp_regex_hash_def ccp_populateRegexValuesWithMinimalIngestionProfile_def ccp_keep_table_def regex_field_def)

text \<open>
  The keep lists of the control plane are all or nothing too. When every expression of the config map compiles, the merger finds for every target the
  user's expression, joined with the minimal list unless the profile is \<open>false\<close>, after whatever the package variable of the target held
  before: a second run in one process repeats the expressions. One expression that does not compile and nothing is written.
\<close>

theorem ccp_keep_lists:
  assumes "hash_laws L" and "writable (base L) configMapKeepListEnvVarPath" and "\<And>kv. enum (ord kv) kv"
    and "Getenv (cm_env s) schema_var = version" and "version \<in> {''v1'', ''v2''}"
    and "user = ccp_user_regex version m" and "profile = ccp_user_profile version m" and "tomlparserCCPTargetsMetricsKeepList L ord (Some m) v s = (v', s')"
  shows "if (\<forall>(h, k, minimal, field) \<in> set ccp_keep_table. user k = '''' \<or> valid_regex L (user k)) \<and> (profile = '''' \<or> valid_regex L profile)
    then \<forall>(h, k, minimal, field) \<in> set ccp_keep_table.
      fmlookup (regexHash (loadRegexHash (base L) (fresh_merger (cm_files s')))) h =
        Some (field v @ user k @ (if profile = ''false'' then '''' else ''|'' @ minimal)) \<and>
      field v' = field v @ user k @ (if profile = ''false'' then '''' else ''|'' @ minimal)
    else v' = v \<and> s' = s"
proof -
  define c where "c = parseConfigMapForKeepListRegex m version"
  define r where "r = ccp_regex_values version c (ord c)"
  have r: "regex_field r k = user k" if "(h, k, minimal, field) \<in> set ccp_keep_table" for h k minimal field
    using ccp_parsed_regexes(1) [OF assms(5) assms(3) r_def [unfolded c_def] ccp_keep_keys [OF that]] by (simp add: assms(6))
  have p: "crv_MinimalIngestionProfile r = profile"
    using ccp_parsed_regexes(2) [OF assms(5) assms(3) r_def [unfolded c_def]] by (simp add: assms(7))
  have sup: "supported_schema (cm_env s)" using assms(4,5) by (auto simp: supported_schema_def Let_def)
  have valid: "ccp_valid (valid_regex L) r \<longleftrightarrow>
      (\<forall>(h, k, minimal, field) \<in> set ccp_keep_table. user k = '''' \<or> valid_regex L (user k)) \<and> (profile = '''' \<or> valid_regex L profile)"
    unfolding ccp_valid_table p using r by fastforce
  show ?thesis
  proof (cases "ccp_valid (valid_regex L) r")
    case True
    let ?v = "ccp_populateRegexValuesWithMinimalIngestionProfile r v"
    obtain out where o: "MarshalHash L (fmap_of_list (ccp_regex_hash ?v)) = Some out" "UnmarshalInto (base L) out fmempty = fmap_of_list (ccp_regex_hash ?v)"
      using assms(1) unfolding hash_laws_def by metis
    have res: "v' = ?v" "s' = s\<lparr>cm_files := fmupd configMapKeepListEnvVarPath out (cm_files s)\<rparr>"
      using assms(2,8) sup True o(1)
      by (auto simp: tomlparserCCPTargetsMetricsKeepList_def Let_def assms(4) ccp_populateSettingValuesFromConfigMap_def WriteFile_def
          simp flip: c_def r_def)
    have "regexHash (loadRegexHash (base L) (fresh_merger (cm_files s'))) = fmap_of_list (ccp_regex_hash ?v)"
      by (simp add: loadRegexHash_def fresh_merger_def res(2) o(2) hash_paths(1) [symmetric])
    moreover have "map_of (ccp_regex_hash ?v) h = Some (field v @ user k @ (if profile = ''false'' then '''' else ''|'' @ minimal))"
      if t: "(h, k, minimal, field) \<in> set ccp_keep_table" for h k minimal field
    proof (rule map_of_is_SomeI)
      show "distinct (map fst (ccp_regex_hash ?v))" using ccp_hash_table(2) by (simp add: ccp_hash_table(1) comp_def case_prod_unfold)
      show "(h, field v @ user k @ (if profile = ''false'' then '''' else ''|'' @ minimal)) \<in> set (ccp_regex_hash ?v)"
        using t by (force simp: ccp_hash_table(1) ccp_join_def p r [OF t])
    qed
    moreover have "field v' = field v @ user k @ (if profile = ''false'' then '''' else ''|'' @ minimal)"
      if t: "(h, k, minimal, field) \<in> set ccp_keep_table" for h k minimal field
    proof -
      have "field ?v = field v @ ccp_join r (regex_field r k) minimal"
        using ccp_hash_table(3) [of r v] t unfolding map_eq_conv by fastforce
      then show ?thesis by (simp add: res(1) ccp_join_def p r [OF t])
    qed
    ultimately show ?thesis using True valid by (auto simp: fmlookup_of_list)
  next
    case False
    then have "(v', s') = (v, s)" using assms(8) sup
      by (simp add: tomlparserCCPTargetsMetricsKeepList_def Let_def assms(4) ccp_populateSettingValuesFromConfigMap_def flip: c_def r_def)
    then show ?thesis using False valid by auto
  qed
qed

section \<open>A concrete config map\<close>

lemma ccp_merger_keeps: "fmlookup (files s) f \<noteq> None \<Longrightarrow> fmlookup (files (prometheusCcpConfigMerger L env s)) f \<noteq> None"
proof -
  have app: "fmlookup fs f \<noteq> None \<Longrightarrow> fmlookup (ccp_appendMetricRelabelConfig L g r fs) f \<noteq> None" for g r fs
    using AppendMetricRelabelConfig_other [of f g L r fs]
    by (cases "f = g") (auto simp: ccp_appendMetricRelabelConfig_def AppendMetricRelabelConfig_def WriteFile_def split: option.splits yval.splits sum.splits)
  have fill: "fmlookup fs f \<noteq> None \<Longrightarrow> fmlookup (ccp_fill_namespace L env g fs) f \<noteq> None" for g fs
    by (auto simp: ccp_fill_namespace_def WriteFile_def split: option.splits)
  have block: "fmlookup (pfiles p) f \<noteq> None \<Longrightarrow> fmlookup (pfiles (ccp_block L env rx p t)) f \<noteq> None" for rx p t
    using app fill by (simp add: ccp_block_def add_config_def Let_def split: prod.split option.split)
  have blocks: "fmlookup (pfiles p) f \<noteq> None \<Longrightarrow> fmlookup (pfiles (foldl (ccp_block L env rx) p ts)) f \<noteq> None" for rx p ts
    using block by (induction ts arbitrary: p) (simp_all del: not_None_eq)
  have int: "fmlookup fs f \<noteq> None \<Longrightarrow> fmlookup (ccp_set_file_interval L iv fs g) f \<noteq> None" for iv fs g
    by (auto simp: ccp_set_file_interval_def WriteFile_def split: option.splits)
  have ints: "fmlookup fs f \<noteq> None \<Longrightarrow> fmlookup (ccp_setDefaultFileScrapeInterval L iv fs) f \<noteq> None" for iv fs
    unfolding ccp_setDefaultFileScrapeInterval_def by (rule foldl_invariant [where P = "\<lambda>fs. fmlookup fs f \<noteq> None"]) (use int in blast)+
  have load: "files (loadRegexHash L t) = files t" for t by (simp add: loadRegexHash_def split: option.split)
  have pop: "fmlookup (files t) f \<noteq> None \<Longrightarrow> fmlookup (files (ccp_populateDefaultPrometheusConfig L env t)) f \<noteq> None" for t
    using blocks [of "\<lparr>pfiles = files t, defaultConfigs = []\<rparr>"] by (simp add: ccp_populateDefaultPrometheusConfig_def Let_def load)
  have scrape: "fmlookup (files t) f \<noteq> None \<Longrightarrow> fmlookup (files (ccp_writeDefaultScrapeTargetsFile L env t)) f \<noteq> None" for t
    using pop [of "loadRegexHash L t"] by (auto simp: ccp_writeDefaultScrapeTargetsFile_def Let_def WriteFile_def load split: option.split)
  assume "fmlookup (files s) f \<noteq> None"
  then show ?thesis unfolding prometheusCcpConfigMerger_def by (intro scrape) (simp add: ints del: not_None_eq)
qed

lemma ccp_parse_keeps:
  assumes "fmlookup (cm_files s) f \<noteq> None"
  shows "fmlookup (cm_files (snd (ccp_parse_settings L E ord v s))) f \<noteq> None"
proof -
  obtain m s1 where ms: "ccp_sections L E (ccp_versioned L E s) = (m, s1)" by fastforce
  have s1: "fmlookup (cm_files s1) f \<noteq> None" using assms ccp_sections_frame(2) [OF ms] by (simp add: ccp_versioned_files)
  have created: "fmlookup (cm_files t) f \<noteq> None \<Longrightarrow> fmlookup (cm_files (case create_file L g c t of None \<Rightarrow> t | Some t' \<Rightarrow> t')) f \<noteq> None" for t g c
    by (auto simp: create_file_def WriteFile_def)
  have c: "fmlookup (cm_files t) f \<noteq> None \<Longrightarrow> fmlookup (cm_files (ccp_parseConfigAndSetEnvInFile L m t)) f \<noteq> None" for t
    unfolding ccp_parseConfigAndSetEnvInFile_def ccp_Configure_def ccp_WriteConfigToFile_def Let_def by (rule created)
  have o: "fmlookup (cm_files t) f \<noteq> None \<Longrightarrow> fmlookup (cm_files (ccp_ConfigureOpentelemetryMetricsSettings L m t)) f \<noteq> None" for t
    by (auto simp: ccp_ConfigureOpentelemetryMetricsSettings_def ConfigureOpentelemetryMetricsSettings_def create_file_def WriteFile_def split: option.split)
  have d: "fmlookup (cm_files t) f \<noteq> None \<Longrightarrow> fmlookup (cm_files (tomlparserCCPDefaultScrapeSettings L ord m t)) f \<noteq> None" for t
    unfolding tomlparserCCPDefaultScrapeSettings_def ccp_ConfigureDefaultScrapeSettings_def ccp_WriteDefaultScrapeSettingsToFile_def Let_def by (rule created)
  have k: "fmlookup (cm_files t) f \<noteq> None \<Longrightarrow> fmlookup (cm_files (snd (tomlparserCCPTargetsMetricsKeepList L ord m v t))) f \<noteq> None" for t
    by (auto simp: tomlparserCCPTargetsMetricsKeepList_def Let_def WriteFile_def split: option.split)
  show ?thesis using s1 by (simp add: ccp_parse_settings_def ms Let_def del: not_None_eq) (intro k d o c, simp add: d o c del: not_None_eq)
qed

definition demo_ccp_dir :: "dir_entry list" where
  "demo_ccp_dir =
     [\<lparr>entry_Name = ''default-scrape-settings-enabled'', entry_IsDir = False,
       entry_file = Content (''controlplane-apiserver = TRUE'' @ line_break @ ''controlplane-etcd = false'' @ line_break @ ''kubelet = true'')\<rparr>,
      \<lparr>entry_Name = ''default-targets-metrics-keep-list'', entry_IsDir = False,
       entry_file = Content (''controlplane-apiserver = up'' @ line_break @ ''minimalingestionprofile = false'')\<rparr>]"

definition demo_ccp_lib :: cm_lib where
  "demo_ccp_lib = demo_cm_lib\<lparr>base := (base demo_cm_lib)\<lparr>Unmarshal := (\<lambda>_. Some demo_doc)\<rparr>, ReadDir := (\<lambda>_. Some demo_ccp_dir)\<rparr>"

definition demo_ccp_m :: sections where
  "demo_ccp_m = foldl v1_file fmempty demo_ccp_dir"

definition demo_ccp :: cm_state where
  "demo_ccp = \<lparr>cm_env = [''CONTROLLER_TYPE'' \<mapsto> ''ReplicaSet''],
     cm_files = fmap_of_list [(''/etc/config/settings/schema-version'', ''v1''), (controlplaneApiserverDefaultFile, ''text'')]\<rparr>"

definition demo_errors :: ccp_errors where
  "demo_errors = \<lparr>version_error = (\<lambda>_. ''error''), v2_error = (\<lambda>_. OtherError ''error''), v1_error = OtherError ''error''\<rparr>"

abbreviation demo_ccp_env :: environ where
  "demo_ccp_env \<equiv> [''CONTROLLER_TYPE'' \<mapsto> ''ReplicaSet'', ''AZMON_INVALID_METRICS_SETTINGS_CONFIG'' \<mapsto> ''false'',
     ''INVALID_SETTINGS_CONFIG_ERROR'' \<mapsto> '''', schema_var \<mapsto> ''v1'']"

lemma demo_ccp_files: "fmlookup (cm_files demo_ccp) ''/etc/config/settings/schema-version'' = Some ''v1''"
  "fmlookup (cm_files demo_ccp) ''/etc/config/settings/config-version'' = None"
  "fmlookup (cm_files demo_ccp) opentelemetryMetricsEnvVarPath = None"
  by (simp_all add: demo_ccp_def fmlookup_of_list file_names opentelemetryMetricsEnvVarPath_def)

lemma demo_ccp_versioned: "cm_env (ccp_versioned demo_ccp_lib demo_errors demo_ccp) = demo_ccp_env"
proof -
  have r: "ReplaceAll '' '' '''' ''v1'' = ''v1''" by code_simp
  show ?thesis
    by (simp add: ccp_versioned_def ccp_version_def file_at_def set_var_def Setenv_def demo_ccp_files r)
      (simp add: demo_ccp_def demo_ccp_lib_def demo_cm_lib_def)
qed

lemma demo_ccp_sections: "ccp_sections demo_ccp_lib demo_errors (ccp_versioned demo_ccp_lib demo_errors demo_ccp) =
    (Some demo_ccp_m, ccp_versioned demo_ccp_lib demo_errors demo_ccp)"
  by (simp add: ccp_sections_def Let_def demo_ccp_versioned Getenv_def) (simp add: demo_ccp_lib_def ParseV1Config_def demo_ccp_m_def)

lemma demo_ccp_values:
  "list_all (\<lambda>(key, d, var, f). plain (ccp_value demo_ccp_env demo_ccp_m key d)) ccp_table"
  "map (\<lambda>(key, d, var, f). f) (filter (\<lambda>(key, d, var, f). ToLower (ccp_value demo_ccp_env demo_ccp_m key d) = ''true'') ccp_table) =
     [controlplaneApiserverDefaultFile]"
  by code_simp+

lemma demo_ccp_laws: "ccp_ready demo_ccp_lib demo_ccp" "enum (range_order (base demo_ccp_lib) y) y" "hash_laws demo_ccp_lib"
  "writable (base demo_ccp_lib) f" "valid_regex demo_ccp_lib r \<longleftrightarrow> r \<noteq> ''(''"
  using demo_hash_laws demo_ccp_files(3)
  by (simp_all add: ccp_ready_def no_newline_in_def Getenv_def demo_ccp_lib_def demo_cm_lib_def hash_laws_def key_order_enum, simp add: demo_ccp_def)

lemma demo_ccp_jobs: "loadYAMLFromFile (base demo_ccp_lib) fs f = (if fmlookup fs f = None then None else Some demo_doc)" "lists_jobs demo_doc"
  by (simp_all add: loadYAMLFromFile_def demo_ccp_lib_def lists_jobs_def demo_doc_def split: option.split)

theorem ccp_targets_scraped_witness:
  "let s' = snd (ccp_parse_settings demo_ccp_lib demo_errors key_list ccp_no_regexes demo_ccp)
   in fmlookup (mergedDefaultConfigs (prometheusCcpConfigMerger (base demo_ccp_lib) (cm_env s') (fresh_merger (cm_files s')))) scrape_configs = Some (YSeq [demo_job])"
proof -
  let ?s' = "snd (ccp_parse_settings demo_ccp_lib demo_errors key_list ccp_no_regexes demo_ccp)"
  let ?mg = "prometheusCcpConfigMerger (base demo_ccp_lib) (cm_env ?s') (fresh_merger (cm_files ?s'))"
  let ?val = "ccp_value (cm_env (ccp_versioned demo_ccp_lib demo_errors demo_ccp)) (case Some demo_ccp_m of None \<Rightarrow> fmempty | Some m \<Rightarrow> m)"
  have t: "TrimSpace (ToLower (Getenv (cm_env demo_ccp) ''CONTROLLER_TYPE'')) = ''replicaset''"
    by (simp add: demo_ccp_def Getenv_def) code_simp
  have v: "?val = ccp_value demo_ccp_env demo_ccp_m" by (simp add: demo_ccp_versioned)
  have plain: "list_all (\<lambda>(key, d, var, f). plain (?val key d)) ccp_table" unfolding v by (fact demo_ccp_values(1))
  have sel: "[controlplaneApiserverDefaultFile] = (if TrimSpace (ToLower (Getenv (cm_env demo_ccp) ''CONTROLLER_TYPE'')) = ''replicaset''
      then map (\<lambda>(key, d, var, f). f) (filter (\<lambda>(key, d, var, f). ToLower (?val key d) = ''true'') ccp_table) else [])"
    unfolding v by (simp only: t demo_ccp_values(2) refl if_True)
  have lists: "lists_jobs y" if "loadYAMLFromFile (base demo_ccp_lib) (files ?mg) f = Some y" for f y
    using that demo_ccp_jobs by (simp split: if_splits)
  have "fmlookup (cm_files demo_ccp) controlplaneApiserverDefaultFile \<noteq> None" by (simp add: demo_ccp_def fmlookup_of_list file_names)
  then have "fmlookup (files (fresh_merger (cm_files ?s'))) controlplaneApiserverDefaultFile \<noteq> None"
    using ccp_parse_keeps by (simp add: fresh_merger_def)
  then have "fmlookup (files ?mg) controlplaneApiserverDefaultFile \<noteq> None" by (rule ccp_merger_keeps)
  then have jobs: "file_jobs (base demo_ccp_lib) (files ?mg) controlplaneApiserverDefaultFile = [demo_job]"
    by (simp add: file_jobs_def demo_ccp_jobs(1) jobs_of_def demo_doc_def)
  from ccp_targets_scraped [OF demo_ccp_laws(1) key_list_enum(1) demo_ccp_laws(2) demo_ccp_sections refl plain refl refl lists sel]
  show ?thesis by (simp add: jobs Let_def)
qed

theorem ccp_keep_lists_witness:
  "fmlookup (regexHash (loadRegexHash (base demo_ccp_lib) (fresh_merger (cm_files (snd
     (tomlparserCCPTargetsMetricsKeepList demo_ccp_lib key_list (Some demo_ccp_m) ccp_no_regexes (ccp_versioned demo_ccp_lib demo_errors demo_ccp)))))))
     ''CONTROLPLANE_APISERVER_KEEP_LIST_REGEX'' = Some ''up''"
proof -
  let ?user = "ccp_user_regex ''v1'' demo_ccp_m" and ?profile = "ccp_user_profile ''v1'' demo_ccp_m"
  have u: "?user ''controlplane-apiserver'' = ''up''" "?profile = ''false''"
    "list_all (\<lambda>(h, k, minimal, field). ?user k \<noteq> ''('') ccp_keep_table"
    by code_simp+
  have v: "Getenv (cm_env (ccp_versioned demo_ccp_lib demo_errors demo_ccp)) schema_var = ''v1''" by (simp add: demo_ccp_versioned Getenv_def)
  have t: "(''CONTROLPLANE_APISERVER_KEEP_LIST_REGEX'', ''controlplane-apiserver'', controlplaneApiserverMinMac, controlplaneApiserverRegex) \<in> set ccp_keep_table"
    by (simp add: ccp_keep_table_def)
  have ok: "(\<forall>(h, k, minimal, field) \<in> set ccp_keep_table. ?user k = '''' \<or> valid_regex demo_ccp_lib (?user k)) \<and> (?profile = '''' \<or> valid_regex demo_ccp_lib ?profile)"
    using u(3) by (auto simp: demo_ccp_laws(5) list_all_iff u(2))
  have v1: "''v1'' \<in> {''v1'', ''v2''}" by simp
  note main = ccp_keep_lists [OF demo_ccp_laws(3,4) key_list_enum(1) v v1 refl refl surjective_pairing, of demo_ccp_m ccp_no_regexes]
  from bspec [OF main [unfolded if_P [OF ok]] t] show ?thesis by (simp add: u ccp_no_regexes_def)
qed

end
