(* ===== verification/MetricFamily.thy ===== *)
theory MetricFamily
  imports GoStrings Complex_Main "HOL-Library.Word" "HOL-Library.Multiset"
begin

text \<open>
  The metric families of the Prometheus receiver: \<open>prometheusreceiver/internal/util.go\<close>,
  \<open>metadata.go\<close> and \<open>metricfamily.go\<close>, which turn the samples of a scrape into OTLP data points.

  A \<open>float64\<close> is a NaN with its bits, an infinity or a rational; arithmetic is that of the
  rationals followed by the rounding \<open>rnd\<close> of the hardware. Conversions of out-of-range floats to
  integers, which Go leaves to the implementation, and the order \<open>sort.Slice\<close> gives to equal elements
  are parameters too. Integers are words of their width. A Prometheus label set is the list of its
  labels in order of their names, \<open>pcommon.Map\<close> a finite map.
\<close>

section \<open>Floats\<close>

datatype f64 = NaN "64 word" | PInf | NInf | Fin rat

definition StaleNaN :: "64 word" where
  "StaleNaN = 0x7ff0000000000002"

definition IsStaleNaN :: "f64 \<Rightarrow> bool" where
  "IsStaleNaN v \<longleftrightarrow> v = NaN StaleNaN"

fun f_lt :: "f64 \<Rightarrow> f64 \<Rightarrow> bool" where
  "f_lt (NaN _) _ = False"
| "f_lt _ (NaN _) = False"
| "f_lt NInf y = (y \<noteq> NInf)"
| "f_lt _ NInf = False"
| "f_lt PInf _ = False"
| "f_lt _ PInf = True"
| "f_lt (Fin a) (Fin b) = (a < b)"

fun f_eq :: "f64 \<Rightarrow> f64 \<Rightarrow> bool" where
  "f_eq (NaN _) _ = False"
| "f_eq _ (NaN _) = False"
| "f_eq x y = (x = y)"

text \<open>A bucket or quantile: \<open>dataPoint\<close>.\<close>

record dataPoint =
  dp_value :: f64
  dp_boundary :: f64

record runtime =
  rnd :: "rat \<Rightarrow> f64"
  nan_result :: "f64 \<Rightarrow> f64 \<Rightarrow> 64 word"
  out_of_range_u64 :: "f64 \<Rightarrow> 64 word"
  out_of_range_i64 :: "f64 \<Rightarrow> 64 word"
  sort_Slice :: "dataPoint list \<Rightarrow> dataPoint list"
  ParseFloat :: "string \<Rightarrow> string + f64"

fun f_sub :: "runtime \<Rightarrow> f64 \<Rightarrow> f64 \<Rightarrow> f64" where
  "f_sub R (Fin a) (Fin b) = rnd R (a - b)"
| "f_sub R PInf (Fin b) = PInf"
| "f_sub R PInf NInf = PInf"
| "f_sub R NInf (Fin b) = NInf"
| "f_sub R NInf PInf = NInf"
| "f_sub R (Fin a) PInf = NInf"
| "f_sub R (Fin a) NInf = PInf"
| "f_sub R x y = NaN (nan_result R x y)"

text \<open>Multiplication by and division by a positive constant.\<close>

fun f_scale :: "runtime \<Rightarrow> f64 \<Rightarrow> rat \<Rightarrow> f64" where
  "f_scale R (Fin a) c = rnd R (a * c)"
| "f_scale R x c = x"

definition trunc :: "rat \<Rightarrow> int" where
  "trunc q = (if q < 0 then \<lceil>q\<rceil> else \<lfloor>q\<rfloor>)"

definition f_u64 :: "runtime \<Rightarrow> f64 \<Rightarrow> 64 word" where
  "f_u64 R x =
     (case x of
        Fin q \<Rightarrow> if 0 \<le> trunc q \<and> trunc q < 2 ^ 64 then word_of_int (trunc q) else out_of_range_u64 R x
      | _ \<Rightarrow> out_of_range_u64 R x)"

definition f_i64 :: "runtime \<Rightarrow> f64 \<Rightarrow> 64 word" where
  "f_i64 R x =
     (case x of
        Fin q \<Rightarrow> if - (2 ^ 63) \<le> trunc q \<and> trunc q < 2 ^ 63 then word_of_int (trunc q) else out_of_range_i64 R x
      | _ \<Rightarrow> out_of_range_i64 R x)"

definition f_of_i64 :: "runtime \<Rightarrow> 64 word \<Rightarrow> f64" where
  "f_of_i64 R w = rnd R (of_int (sint w))"

definition f_of_u64 :: "runtime \<Rightarrow> 64 word \<Rightarrow> f64" where
  "f_of_u64 R w = rnd R (of_int (uint w))"

section \<open>Labels and names\<close>

type_synonym labels = "(string \<times> string) list"
type_synonym attributes = "(string, string) gomap"

definition label_Get :: "labels \<Rightarrow> string \<Rightarrow> string" where
  "label_Get ls n = (case map_of ls n of None \<Rightarrow> '''' | Some v \<Rightarrow> v)"

definition metricsSuffixCount :: string where "metricsSuffixCount = ''_count''"
definition metricsSuffixBucket :: string where "metricsSuffixBucket = ''_bucket''"
definition metricsSuffixSum :: string where "metricsSuffixSum = ''_sum''"
definition metricSuffixTotal :: string where "metricSuffixTotal = ''_total''"
definition metricSuffixInfo :: string where "metricSuffixInfo = ''_info''"
definition metricSuffixCreated :: string where "metricSuffixCreated = ''_created''"
definition scrapeUpMetricName :: string where "scrapeUpMetricName = ''up''"

definition trimmableSuffixes :: "string list" where
  "trimmableSuffixes =
     [metricsSuffixBucket, metricsSuffixCount, metricsSuffixSum, metricSuffixTotal, metricSuffixInfo, metricSuffixCreated]"

lemmas suffix_defs = metricsSuffixCount_def metricsSuffixBucket_def metricsSuffixSum_def
  metricSuffixTotal_def metricSuffixInfo_def metricSuffixCreated_def

fun trim_first :: "string list \<Rightarrow> string \<Rightarrow> string" where
  "trim_first [] name = name"
| "trim_first (s # ss) name =
     (if suffix s name \<and> name \<noteq> s then take (length name - length s) name else trim_first ss name)"

definition normalizeMetricName :: "string \<Rightarrow> string" where
  "normalizeMetricName name = trim_first trimmableSuffixes name"

datatype model_type = ModelCounter | ModelGauge | ModelUnknown | ModelHistogram | ModelGaugeHistogram
  | ModelSummary | ModelInfo | ModelStateset

datatype metric_type = MetricTypeEmpty | MetricTypeGauge | MetricTypeSum | MetricTypeHistogram
  | MetricTypeExponentialHistogram | MetricTypeSummary

fun convToMetricType :: "model_type \<Rightarrow> bool \<Rightarrow> metric_type \<times> bool" where
  "convToMetricType ModelCounter ex = (MetricTypeSum, True)"
| "convToMetricType ModelGauge ex = (MetricTypeGauge, False)"
| "convToMetricType ModelUnknown ex = (MetricTypeGauge, False)"
| "convToMetricType ModelHistogram ex = (if ex then MetricTypeExponentialHistogram else MetricTypeHistogram, True)"
| "convToMetricType ModelSummary ex = (MetricTypeSummary, True)"
| "convToMetricType ModelInfo ex = (MetricTypeSum, False)"
| "convToMetricType ModelStateset ex = (MetricTypeSum, False)"
| "convToMetricType ModelGaugeHistogram ex = (MetricTypeEmpty, False)"

definition notUsefulLabelsOther :: "string list" where
  "notUsefulLabelsOther = sort [''__name__'', ''instance'', ''__scheme__'', ''__metrics_path__'', ''job'']"

definition notUsefulLabelsHistogram :: "string list" where
  "notUsefulLabelsHistogram = sort (notUsefulLabelsOther @ [''le''])"

definition notUsefulLabelsSummary :: "string list" where
  "notUsefulLabelsSummary = sort (notUsefulLabelsOther @ [''quantile''])"

definition getSortedNotUsefulLabels :: "metric_type \<Rightarrow> string list" where
  "getSortedNotUsefulLabels mType =
     (case mType of MetricTypeHistogram \<Rightarrow> notUsefulLabelsHistogram | MetricTypeSummary \<Rightarrow> notUsefulLabelsSummary
      | _ \<Rightarrow> notUsefulLabelsOther)"

definition ScopeLabelPrefix :: string where "ScopeLabelPrefix = ''otel_scope_''"

text \<open>The scope labels of the series join the excluded names once each.\<close>

definition add_exclusion :: "string list \<Rightarrow> string \<times> string \<Rightarrow> string list" where
  "add_exclusion exclusions l =
     (if prefix ScopeLabelPrefix (fst l) \<and> fst l \<notin> set exclusions then exclusions @ [fst l] else exclusions)"

definition getSortedNotUsefulLabelsForSeries :: "metric_type \<Rightarrow> labels \<Rightarrow> string list" where
  "getSortedNotUsefulLabelsForSeries mType ls =
     (let base = getSortedNotUsefulLabels mType in
      if \<exists>l\<in>set ls. prefix ScopeLabelPrefix (fst l) then sort (foldl add_exclusion base ls) else base)"

definition timestampFromFloat64 :: "runtime \<Rightarrow> f64 \<Rightarrow> 64 word" where
  "timestampFromFloat64 R ts =
     (let secs = f_i64 R ts;
          nanos = f_i64 R (f_scale R (f_sub R ts (f_of_i64 R secs)) (10 ^ 9))
      in secs * 10 ^ 9 + nanos)"

definition timestampFromMs :: "64 word \<Rightarrow> 64 word" where
  "timestampFromMs timeAtMs = timeAtMs * 10 ^ 6"

datatype series_error = errNoBoundaryLabel | errEmptyQuantileLabel | errEmptyLeLabel | ParseError string
  | InconsistentTimestamps string | TypeMismatch string | AlreadyFloat string | AlreadyInteger string | NoHistogramData string

definition getBoundary :: "runtime \<Rightarrow> metric_type \<Rightarrow> labels \<Rightarrow> series_error + f64" where
  "getBoundary R metricType ls =
     (case metricType of
        MetricTypeHistogram \<Rightarrow>
          (let val = label_Get ls ''le'' in if val = '''' then Inl errEmptyLeLabel else map_sum ParseError id (ParseFloat R val))
      | MetricTypeSummary \<Rightarrow>
          (let val = label_Get ls ''quantile'' in if val = '''' then Inl errEmptyQuantileLabel else map_sum ParseError id (ParseFloat R val))
      | _ \<Rightarrow> Inl errNoBoundaryLabel)"

section \<open>Metadata\<close>

record MetricMetadata =
  md_MetricFamily :: string
  md_Type :: model_type
  md_Help :: string
  md_Unit :: string

type_synonym metadata_store = "string \<Rightarrow> MetricMetadata option"

text \<open>
  The table of internal metrics holds pointers, and \<open>newMetricFamily\<close> writes through the pointer it
  gets, so a family that was found there refers to the table's entry: \<open>Internal n\<close>. The table is
  therefore part of the state.
\<close>

type_synonym md_table = "(string, MetricMetadata) gomap"

datatype md_ref = Internal string | Own MetricMetadata

definition internalMetricMetadata :: md_table where
  "internalMetricMetadata = fmap_of_list
     [(scrapeUpMetricName, \<lparr>md_MetricFamily = scrapeUpMetricName, md_Type = ModelGauge, md_Help = ''The scraping was successful'', md_Unit = ''''\<rparr>),
      (''scrape_duration_seconds'', \<lparr>md_MetricFamily = ''scrape_duration_seconds'', md_Type = ModelGauge, md_Help = ''Duration of the scrape'', md_Unit = ''seconds''\<rparr>),
      (''scrape_samples_scraped'', \<lparr>md_MetricFamily = ''scrape_samples_scraped'', md_Type = ModelGauge, md_Help = ''The number of samples the target exposed'', md_Unit = ''''\<rparr>),
      (''scrape_series_added'', \<lparr>md_MetricFamily = ''scrape_series_added'', md_Type = ModelGauge, md_Help = ''The approximate number of new series in this scrape'', md_Unit = ''''\<rparr>),
      (''scrape_samples_post_metric_relabeling'', \<lparr>md_MetricFamily = ''scrape_samples_post_metric_relabeling'', md_Type = ModelGauge, md_Help = ''The number of samples remaining after metric relabeling was applied'', md_Unit = ''''\<rparr>)]"

definition no_metadata :: MetricMetadata where
  "no_metadata = \<lparr>md_MetricFamily = '''', md_Type = ModelUnknown, md_Help = '''', md_Unit = ''''\<rparr>"

fun md_deref :: "md_table \<Rightarrow> md_ref \<Rightarrow> MetricMetadata" where
  "md_deref tbl (Internal n) = get0 no_metadata tbl n"
| "md_deref tbl (Own md) = md"

definition metadataForMetric :: "md_table \<Rightarrow> string \<Rightarrow> metadata_store \<Rightarrow> md_ref \<times> string" where
  "metadataForMetric tbl metricName mc =
     (if fmlookup tbl metricName \<noteq> None then (Internal metricName, metricName)
      else (case mc metricName of
          Some md \<Rightarrow> (Own md, metricName)
        | None \<Rightarrow>
          let normalizedName = normalizeMetricName metricName in
          (case mc normalizedName of
             Some md \<Rightarrow>
               if md_Type md = ModelCounter
               then if suffix metricSuffixCreated metricName then (Own md, normalizedName @ metricSuffixTotal)
                    else (Own md, metricName)
               else (Own md, normalizedName)
           | None \<Rightarrow> (Own \<lparr>md_MetricFamily = metricName, md_Type = ModelUnknown, md_Help = '''', md_Unit = ''''\<rparr>, metricName))))"

definition isCounterCreatedLine :: "string \<Rightarrow> string \<Rightarrow> metadata_store \<Rightarrow> bool" where
  "isCounterCreatedLine metricName normalizedMetricName mc \<longleftrightarrow>
     suffix metricSuffixCreated metricName \<and>
     (case mc normalizedMetricName of None \<Rightarrow> False | Some md \<Rightarrow> md_Type md = ModelCounter)"

definition emptyMetadataStore :: metadata_store where
  "emptyMetadataStore = (\<lambda>_. None)"

end
