(* ===== verification/MetricGroup.thy ===== *)
theory MetricGroup
  imports MetricFamily
begin

text \<open>
  Metric groups and families, \<open>prometheusreceiver/internal/metricfamily.go\<close>: adding the series of a
  scrape, and the OTLP data points built from them.

  The slice \<open>groupOrders\<close> holds the pointers that \<open>groups\<close> holds, in the order of their creation; it is
  the list of their keys here. Data points are appended to slices; a function that may append nothing
  returns an option.
\<close>

section \<open>Native histograms\<close>

record Span =
  Offset :: "32 word"
  Length :: "32 word"

record Histogram =
  h_Schema :: "32 word"
  h_Count :: "64 word"
  h_Sum :: f64
  h_ZeroThreshold :: f64
  h_ZeroCount :: "64 word"
  h_PositiveSpans :: "Span list"
  h_PositiveBuckets :: "64 word list"
  h_NegativeSpans :: "Span list"
  h_NegativeBuckets :: "64 word list"
  h_CustomValues :: "f64 list"
  h_GaugeType :: bool

record FloatHistogram =
  fh_Schema :: "32 word"
  fh_Count :: f64
  fh_Sum :: f64
  fh_ZeroThreshold :: f64
  fh_ZeroCount :: f64
  fh_PositiveSpans :: "Span list"
  fh_PositiveBuckets :: "f64 list"
  fh_NegativeSpans :: "Span list"
  fh_NegativeBuckets :: "f64 list"
  fh_CustomValues :: "f64 list"
  fh_GaugeType :: bool

text \<open>
  The gap before a span: one zero bucket for each step of the signed offset, none before the first
  span and none when the offset is not positive.
\<close>

definition gap :: "bool \<Rightarrow> Span \<Rightarrow> 64 word list" where
  "gap first sp = (if first then [] else replicate (nat (sint (Offset sp))) 0)"

text \<open>
  \<open>convertDeltaBuckets\<close>: \<open>deltas\<close> is what remains from index \<open>bucketIdx\<close> on; reading past its end
  panics.
\<close>

fun span_deltas :: "nat \<Rightarrow> 64 word list \<Rightarrow> 64 word \<Rightarrow> (64 word list \<times> 64 word list \<times> 64 word) go" where
  "span_deltas 0 deltas bucketCount = Inr ([], deltas, bucketCount)"
| "span_deltas (Suc n) [] bucketCount = Inl IndexOutOfRange"
| "span_deltas (Suc n) (d # ds) bucketCount =
     go_bind (span_deltas n ds (bucketCount + d))
       (\<lambda>(out, rest, c). Inr ((bucketCount + d) # out, rest, c))"

fun delta_buckets :: "bool \<Rightarrow> Span list \<Rightarrow> 64 word list \<Rightarrow> 64 word \<Rightarrow> 64 word list go" where
  "delta_buckets first [] deltas bucketCount = Inr []"
| "delta_buckets first (sp # sps) deltas bucketCount =
     go_bind (span_deltas (unat (Length sp)) deltas bucketCount)
       (\<lambda>(out, rest, c). go_bind (delta_buckets False sps rest c) (\<lambda>outs. Inr (gap first sp @ out @ outs)))"

definition convertDeltaBuckets :: "Span list \<Rightarrow> 64 word list \<Rightarrow> 64 word list go" where
  "convertDeltaBuckets spans deltas = delta_buckets True spans deltas 0"

fun span_counts :: "runtime \<Rightarrow> nat \<Rightarrow> f64 list \<Rightarrow> (64 word list \<times> f64 list) go" where
  "span_counts R 0 counts = Inr ([], counts)"
| "span_counts R (Suc n) [] = Inl IndexOutOfRange"
| "span_counts R (Suc n) (c # cs) = go_bind (span_counts R n cs) (\<lambda>(out, rest). Inr (f_u64 R c # out, rest))"

fun absolute_buckets :: "runtime \<Rightarrow> bool \<Rightarrow> Span list \<Rightarrow> f64 list \<Rightarrow> 64 word list go" where
  "absolute_buckets R first [] counts = Inr []"
| "absolute_buckets R first (sp # sps) counts =
     go_bind (span_counts R (unat (Length sp)) counts)
       (\<lambda>(out, rest). go_bind (absolute_buckets R False sps rest) (\<lambda>outs. Inr (gap first sp @ out @ outs)))"

definition convertAbsoluteBuckets :: "runtime \<Rightarrow> Span list \<Rightarrow> f64 list \<Rightarrow> 64 word list go" where
  "convertAbsoluteBuckets R spans counts = absolute_buckets R True spans counts"

text \<open>
  Custom buckets: the counts are written at their position. An index below 0 is skipped, one past the
  end stops the span. The delta variant walks the buckets with an index of its own, \<open>deltaIdx\<close>; the
  absolute variant reads them with the loop variable \<open>i\<close> of the span.
\<close>

definition set_bucket :: "64 word list \<Rightarrow> int \<Rightarrow> 64 word \<Rightarrow> 64 word list" where
  "set_bucket bucketCounts idx c =
     (if 0 \<le> idx \<and> idx < int (length bucketCounts) then bucketCounts[nat idx := c] else bucketCounts)"

fun nhcb_deltas :: "nat \<Rightarrow> int \<Rightarrow> 64 word list \<Rightarrow> 64 word \<Rightarrow> 64 word list
    \<Rightarrow> int \<times> 64 word list \<times> 64 word \<times> 64 word list" where
  "nhcb_deltas 0 idx deltas c counts = (idx, deltas, c, counts)"
| "nhcb_deltas (Suc n) idx [] c counts = (idx, [], c, counts)"
| "nhcb_deltas (Suc n) idx (d # ds) c counts =
     (if idx < int (length counts)
      then nhcb_deltas n (idx + 1) ds (c + d) (set_bucket counts idx (c + d))
      else (idx, d # ds, c, counts))"

definition nhcb_delta_span :: "int \<times> 64 word list \<times> 64 word \<times> 64 word list \<Rightarrow> Span \<Rightarrow> int \<times> 64 word list \<times> 64 word \<times> 64 word list" where
  "nhcb_delta_span s sp =
     (case s of (idx, deltas, c, counts) \<Rightarrow> nhcb_deltas (unat (Length sp)) (idx + sint (Offset sp)) deltas c counts)"

definition convertNHCBBDeltBuckets :: "Histogram \<Rightarrow> 64 word list" where
  "convertNHCBBDeltBuckets h =
     (let bucketCounts = replicate (length (h_CustomValues h) + 1) 0 in
      if h_PositiveSpans h = [] then bucketCounts
      else (case foldl nhcb_delta_span (0, h_PositiveBuckets h, 0, bucketCounts) (h_PositiveSpans h) of
              (_, _, _, counts) \<Rightarrow> counts))"

fun nhcb_counts :: "runtime \<Rightarrow> f64 list \<Rightarrow> nat \<Rightarrow> nat \<Rightarrow> int \<Rightarrow> 64 word list \<Rightarrow> int \<times> 64 word list" where
  "nhcb_counts R buckets i 0 idx counts = (idx, counts)"
| "nhcb_counts R buckets i (Suc n) idx counts =
     (if idx < int (length counts) \<and> i < length buckets
      then nhcb_counts R buckets (Suc i) n (idx + 1) (set_bucket counts idx (f_u64 R (buckets ! i)))
      else (idx, counts))"

definition nhcb_count_span :: "runtime \<Rightarrow> f64 list \<Rightarrow> int \<times> 64 word list \<Rightarrow> Span \<Rightarrow> int \<times> 64 word list" where
  "nhcb_count_span R buckets s sp =
     (case s of (idx, counts) \<Rightarrow> nhcb_counts R buckets 0 (unat (Length sp)) (idx + sint (Offset sp)) counts)"

definition convertNHCBAbsoluteBuckets :: "runtime \<Rightarrow> FloatHistogram \<Rightarrow> 64 word list" where
  "convertNHCBAbsoluteBuckets R h =
     (let bucketCounts = replicate (length (fh_CustomValues h) + 1) 0 in
      if fh_PositiveSpans h = [] then bucketCounts
      else snd (foldl (nhcb_count_span R (fh_PositiveBuckets h)) (0, bucketCounts) (fh_PositiveSpans h)))"

section \<open>Data points\<close>

record exemplar_point =
  ex_Timestamp :: "64 word"
  ex_Value :: f64
  ex_Attributes :: attributes
  ex_TraceID :: "8 word list"
  ex_SpanID :: "8 word list"

text \<open>What all data points carry: times (0 when not set), the no-recorded-value flag, attributes and
  exemplars.\<close>

record point_base =
  StartTimestamp :: "64 word"
  Timestamp :: "64 word"
  NoRecordedValue :: bool
  Attributes :: attributes
  Exemplars :: "exemplar_point list"

record HistogramDataPoint = point_base +
  hp_Count :: "64 word"
  hp_Sum :: "f64 option"
  ExplicitBounds :: "f64 list"
  BucketCounts :: "64 word list"

record buckets_point =
  b_Offset :: "32 word"
  b_Counts :: "64 word list"

record ExponentialHistogramDataPoint = point_base +
  ep_Scale :: "32 word"
  ep_Count :: "64 word"
  ep_Sum :: "f64 option"
  ep_ZeroThreshold :: f64
  ep_ZeroCount :: "64 word"
  ep_Positive :: buckets_point
  ep_Negative :: buckets_point

record SummaryDataPoint = point_base +
  sp_Count :: "64 word"
  sp_Sum :: f64
  QuantileValues :: "(f64 \<times> f64) list"

record NumberDataPoint = point_base +
  np_Value :: "f64 option"

text \<open>
  \<open>populateAttributes\<close>: a merge of the label list with the sorted excluded names, whose position is
  the rest of the list.
\<close>

fun skip_names :: "string list \<Rightarrow> string \<Rightarrow> string list" where
  "skip_names [] n = []"
| "skip_names (x # xs) n = (if x < n then skip_names xs n else x # xs)"

definition put_attribute :: "string list \<times> attributes \<Rightarrow> string \<times> string \<Rightarrow> string list \<times> attributes" where
  "put_attribute s l =
     (case s of (names, dest) \<Rightarrow>
        let names = skip_names names (fst l) in
        if names \<noteq> [] \<and> fst l = hd names then (names, dest)
        else if prefix ScopeLabelPrefix (fst l) then (names, dest)
        else if snd l = '''' then (names, dest)
        else (names, fmupd (fst l) (snd l) dest))"

definition populateAttributes :: "metric_type \<Rightarrow> labels \<Rightarrow> attributes" where
  "populateAttributes mType ls = snd (foldl put_attribute (getSortedNotUsefulLabels mType, fmempty) ls)"

section \<open>Groups\<close>

record metricGroup =
  mg_mtype :: metric_type
  mg_ts :: "64 word"
  mg_ls :: labels
  mg_count :: f64
  hasCount :: bool
  mg_sum :: f64
  hasSum :: bool
  createdSeconds :: f64
  mg_value :: f64
  hasValue :: bool
  hValue :: "Histogram option"
  fhValue :: "FloatHistogram option"
  complexValue :: "dataPoint list"
  exemplars :: "exemplar_point list"
  isNHCB :: bool

definition start_time :: "runtime \<Rightarrow> metricGroup \<Rightarrow> 64 word" where
  "start_time R mg = (if \<not> f_eq (createdSeconds mg) (Fin 0) then timestampFromFloat64 R (createdSeconds mg) else 0)"

definition pointIsStale :: "metricGroup \<Rightarrow> bool" where
  "pointIsStale mg \<longleftrightarrow> IsStaleNaN (mg_sum mg) \<or> IsStaleNaN (mg_count mg)"

text \<open>
  The explicit buckets: \<open>pts\<close> are the sorted cumulative buckets without a final \<open>+Inf\<close>; each bucket
  loses the cumulative count before it, and the last one is what remains of the total.
\<close>

fun bucket_counts :: "runtime \<Rightarrow> f64 option \<Rightarrow> dataPoint list \<Rightarrow> f64 \<Rightarrow> 64 word list" where
  "bucket_counts R prev [] tot = [f_u64 R (case prev of None \<Rightarrow> tot | Some p \<Rightarrow> f_sub R tot p)]"
| "bucket_counts R prev (p # ps) tot =
     f_u64 R (case prev of None \<Rightarrow> dp_value p | Some q \<Rightarrow> f_sub R (dp_value p) q)
       # bucket_counts R (Some (dp_value p)) ps tot"

definition drop_inf :: "dataPoint list \<Rightarrow> dataPoint list" where
  "drop_inf pts = (if pts \<noteq> [] \<and> f_eq (dp_boundary (last pts)) PInf then butlast pts else pts)"

definition explicit_buckets :: "runtime \<Rightarrow> metricGroup \<Rightarrow> f64 list \<times> 64 word list" where
  "explicit_buckets R mg =
     (let pts = drop_inf (sort_Slice R (complexValue mg)) in
      (map dp_boundary pts,
       if pointIsStale mg then replicate (length pts + 1) (f_u64 R (Fin 0)) else bucket_counts R None pts (mg_count mg)))"

text \<open>Custom buckets; without custom values there is no point. With neither histogram both slices stay nil.\<close>

definition custom_buckets :: "runtime \<Rightarrow> metricGroup \<Rightarrow> (f64 list \<times> 64 word list) option" where
  "custom_buckets R mg =
     (case hValue mg of
        Some h \<Rightarrow> if h_CustomValues h = [] then None else Some (h_CustomValues h, convertNHCBBDeltBuckets h)
      | None \<Rightarrow>
        (case fhValue mg of
           Some fh \<Rightarrow> if fh_CustomValues fh = [] then None else Some (fh_CustomValues fh, convertNHCBAbsoluteBuckets R fh)
         | None \<Rightarrow> Some ([], [])))"

definition toDistributionPoint :: "runtime \<Rightarrow> metricGroup \<Rightarrow> HistogramDataPoint option" where
  "toDistributionPoint R mg =
     (if \<not> hasCount mg then None
      else (case (if isNHCB mg then custom_buckets R mg else Some (explicit_buckets R mg)) of
          None \<Rightarrow> None
        | Some (bounds, bucketCounts) \<Rightarrow>
          Some \<lparr>StartTimestamp = start_time R mg, Timestamp = timestampFromMs (mg_ts mg),
            NoRecordedValue = pointIsStale mg,
            Attributes = populateAttributes MetricTypeHistogram (mg_ls mg), Exemplars = exemplars mg,
            hp_Count = (if pointIsStale mg then 0 else f_u64 R (mg_count mg)),
            hp_Sum = (if \<not> pointIsStale mg \<and> hasSum mg then Some (mg_sum mg) else None),
            ExplicitBounds = bounds, BucketCounts = bucketCounts\<rparr>))"

text \<open>A native histogram point; the sides of the histogram are converted only when they have spans.\<close>

definition side :: "Span list \<Rightarrow> 64 word list go \<Rightarrow> buckets_point go" where
  "side spans buckets =
     (case spans of
        [] \<Rightarrow> Inr \<lparr>b_Offset = 0, b_Counts = []\<rparr>
      | sp # _ \<Rightarrow> go_bind buckets (\<lambda>bs. Inr \<lparr>b_Offset = Offset sp - 1, b_Counts = bs\<rparr>))"

definition empty_side :: buckets_point where
  "empty_side = \<lparr>b_Offset = 0, b_Counts = []\<rparr>"

definition native_base :: "runtime \<Rightarrow> metricGroup \<Rightarrow> bool \<Rightarrow> ExponentialHistogramDataPoint" where
  "native_base R mg stale =
     \<lparr>StartTimestamp = start_time R mg, Timestamp = timestampFromMs (mg_ts mg), NoRecordedValue = stale,
      Attributes = populateAttributes MetricTypeHistogram (mg_ls mg), Exemplars = exemplars mg,
      ep_Scale = 0, ep_Count = 0, ep_Sum = None, ep_ZeroThreshold = Fin 0, ep_ZeroCount = 0,
      ep_Positive = empty_side, ep_Negative = empty_side\<rparr>"

definition native_float_point :: "runtime \<Rightarrow> metricGroup \<Rightarrow> FloatHistogram \<Rightarrow> ExponentialHistogramDataPoint go" where
  "native_float_point R mg fh =
     (if IsStaleNaN (fh_Sum fh) then Inr (native_base R mg True)
      else
        go_bind (side (fh_PositiveSpans fh) (convertAbsoluteBuckets R (fh_PositiveSpans fh) (fh_PositiveBuckets fh))) (\<lambda>pos.
        go_bind (side (fh_NegativeSpans fh) (convertAbsoluteBuckets R (fh_NegativeSpans fh) (fh_NegativeBuckets fh))) (\<lambda>neg.
        Inr ((native_base R mg False)\<lparr>ep_Scale := fh_Schema fh, ep_Count := f_u64 R (fh_Count fh), ep_Sum := Some (fh_Sum fh),
          ep_ZeroThreshold := fh_ZeroThreshold fh, ep_ZeroCount := f_u64 R (fh_ZeroCount fh),
          ep_Positive := pos, ep_Negative := neg\<rparr>))))"

definition native_int_point :: "runtime \<Rightarrow> metricGroup \<Rightarrow> Histogram \<Rightarrow> ExponentialHistogramDataPoint go" where
  "native_int_point R mg h =
     (if IsStaleNaN (h_Sum h) then Inr (native_base R mg True)
      else
        go_bind (side (h_PositiveSpans h) (convertDeltaBuckets (h_PositiveSpans h) (h_PositiveBuckets h))) (\<lambda>pos.
        go_bind (side (h_NegativeSpans h) (convertDeltaBuckets (h_NegativeSpans h) (h_NegativeBuckets h))) (\<lambda>neg.
        Inr ((native_base R mg False)\<lparr>ep_Scale := h_Schema h, ep_Count := h_Count h, ep_Sum := Some (h_Sum h),
          ep_ZeroThreshold := h_ZeroThreshold h, ep_ZeroCount := h_ZeroCount h,
          ep_Positive := pos, ep_Negative := neg\<rparr>))))"

text \<open>Without either histogram the empty point that was appended stays, with its timestamp only.\<close>

definition toExponentialHistogramDataPoints :: "runtime \<Rightarrow> metricGroup \<Rightarrow> ExponentialHistogramDataPoint option go" where
  "toExponentialHistogramDataPoints R mg =
     (if \<not> hasCount mg then Inr None
      else (case fhValue mg of
          Some fh \<Rightarrow> go_bind (native_float_point R mg fh) (\<lambda>p. Inr (Some p))
        | None \<Rightarrow>
          (case hValue mg of
             Some h \<Rightarrow> go_bind (native_int_point R mg h) (\<lambda>p. Inr (Some p))
           | None \<Rightarrow> Inr (Some ((native_base R mg False)\<lparr>StartTimestamp := 0, Attributes := fmempty, Exemplars := []\<rparr>)))))"

definition toSummaryPoint :: "runtime \<Rightarrow> metricGroup \<Rightarrow> SummaryDataPoint option" where
  "toSummaryPoint R mg =
     (if \<not> hasCount mg then None
      else
        Some \<lparr>StartTimestamp = start_time R mg, Timestamp = timestampFromMs (mg_ts mg), NoRecordedValue = pointIsStale mg,
          Attributes = populateAttributes MetricTypeSummary (mg_ls mg), Exemplars = [],
          sp_Count = (if pointIsStale mg then 0 else f_u64 R (mg_count mg)),
          sp_Sum = (if \<not> pointIsStale mg \<and> hasSum mg then mg_sum mg else Fin 0),
          QuantileValues = map (\<lambda>p. (dp_boundary p, if pointIsStale mg then Fin 0 else dp_value p))
            (sort_Slice R (complexValue mg))\<rparr>)"

definition toNumberDataPoint :: "runtime \<Rightarrow> metricGroup \<Rightarrow> NumberDataPoint option" where
  "toNumberDataPoint R mg =
     (if \<not> hasValue mg then None
      else
        Some \<lparr>StartTimestamp = (if mg_mtype mg = MetricTypeSum then start_time R mg else 0),
          Timestamp = timestampFromMs (mg_ts mg), NoRecordedValue = IsStaleNaN (mg_value mg),
          Attributes = populateAttributes MetricTypeGauge (mg_ls mg), Exemplars = exemplars mg,
          np_Value = (if IsStaleNaN (mg_value mg) then None else Some (mg_value mg))\<rparr>)"

section \<open>Families\<close>

record metricFamily =
  mf_mtype :: metric_type
  isMonotonic :: bool
  groups :: "(64 word, metricGroup) gomap"
  mf_name :: string
  mf_metadata :: md_ref
  groupOrders :: "64 word list"

text \<open>A native histogram overwrites the type in the metadata, in the internal table when the metadata
  came from there.\<close>

fun set_histogram_type :: "md_table \<Rightarrow> md_ref \<Rightarrow> md_table \<times> md_ref" where
  "set_histogram_type tbl (Internal n) = (fmupd n ((md_deref tbl (Internal n))\<lparr>md_Type := ModelHistogram\<rparr>) tbl, Internal n)"
| "set_histogram_type tbl (Own md) = (tbl, Own (md\<lparr>md_Type := ModelHistogram\<rparr>))"

definition newMetricFamily :: "md_table \<Rightarrow> string \<Rightarrow> metadata_store \<Rightarrow> bool \<Rightarrow> bool \<Rightarrow> md_table \<times> metricFamily" where
  "newMetricFamily tbl metricName mc isNativeHistogram nhcb =
     (let (md, familyName) = metadataForMetric tbl metricName mc;
          (tbl', md') = (if isNativeHistogram then set_histogram_type tbl md else (tbl, md));
          (mtype, mono) = convToMetricType (md_Type (md_deref tbl' md')) (isNativeHistogram \<and> \<not> nhcb)
      in (tbl', \<lparr>mf_mtype = mtype, isMonotonic = mono, groups = fmempty, mf_name = familyName,
                 mf_metadata = md', groupOrders = []\<rparr>))"

definition includesMetric :: "md_table \<Rightarrow> metricFamily \<Rightarrow> string \<Rightarrow> bool" where
  "includesMetric tbl mf metricName \<longleftrightarrow>
     (if mf_mtype mf = MetricTypeSum then normalizeMetricName metricName = md_MetricFamily (md_deref tbl (mf_metadata mf))
      else if mf_mtype mf \<noteq> MetricTypeGauge then normalizeMetricName metricName = mf_name mf
      else metricName = mf_name mf)"

definition new_group :: "metric_type \<Rightarrow> labels \<Rightarrow> 64 word \<Rightarrow> metricGroup" where
  "new_group mtype labs t =
     \<lparr>mg_mtype = mtype, mg_ts = t, mg_ls = labs, mg_count = Fin 0, hasCount = False, mg_sum = Fin 0, hasSum = False,
      createdSeconds = Fin 0, mg_value = Fin 0, hasValue = False, hValue = None, fhValue = None,
      complexValue = [], exemplars = [], isNHCB = False\<rparr>"

definition loadMetricGroupOrCreate :: "64 word \<Rightarrow> labels \<Rightarrow> 64 word \<Rightarrow> metricFamily \<Rightarrow> metricFamily \<times> metricGroup" where
  "loadMetricGroupOrCreate groupKey labs t mf =
     (case fmlookup (groups mf) groupKey of
        Some mg \<Rightarrow> (mf, mg)
      | None \<Rightarrow>
        let mg = new_group (mf_mtype mf) labs t
        in (mf\<lparr>groups := fmupd groupKey mg (groups mf), groupOrders := groupOrders mf @ [groupKey]\<rparr>, mg))"

text \<open>Storing what a method wrote through its pointer to the group.\<close>

definition put_group :: "64 word \<Rightarrow> metricGroup \<Rightarrow> metricFamily \<Rightarrow> metricFamily" where
  "put_group k mg mf = mf\<lparr>groups := fmupd k mg (groups mf)\<rparr>"

definition is_created :: "md_table \<Rightarrow> metricFamily \<Rightarrow> string \<Rightarrow> bool" where
  "is_created tbl mf metricName \<longleftrightarrow> metricName = md_MetricFamily (md_deref tbl (mf_metadata mf)) @ metricSuffixCreated"

definition add_to_group :: "runtime \<Rightarrow> md_table \<Rightarrow> metricFamily \<Rightarrow> string \<Rightarrow> labels \<Rightarrow> 64 word \<Rightarrow> f64 \<Rightarrow> metricGroup \<Rightarrow> series_error + metricGroup" where
  "add_to_group R tbl mf metricName labs t v mg =
     (if mf_mtype mf = MetricTypeHistogram \<or> mf_mtype mf = MetricTypeSummary
      then if suffix metricsSuffixSum metricName then Inr (mg\<lparr>mg_sum := v, hasSum := True\<rparr>)
        else if suffix metricsSuffixCount metricName then Inr (mg\<lparr>mg_ts := t, mg_count := v, hasCount := True\<rparr>)
        else if is_created tbl mf metricName then Inr (mg\<lparr>createdSeconds := v\<rparr>)
        else map_sum id (\<lambda>b. mg\<lparr>complexValue := complexValue mg @ [\<lparr>dp_value = v, dp_boundary = b\<rparr>]\<rparr>)
          (getBoundary R (mf_mtype mf) labs)
      else if mf_mtype mf = MetricTypeExponentialHistogram
      then Inr (if is_created tbl mf metricName then mg\<lparr>createdSeconds := v\<rparr> else mg)
      else if mf_mtype mf = MetricTypeSum \<and> is_created tbl mf metricName then Inr (mg\<lparr>createdSeconds := v\<rparr>)
      else Inr (mg\<lparr>mg_value := v, hasValue := True\<rparr>))"

definition addSeries :: "runtime \<Rightarrow> md_table \<Rightarrow> 64 word \<Rightarrow> string \<Rightarrow> labels \<Rightarrow> 64 word \<Rightarrow> f64 \<Rightarrow> metricFamily
    \<Rightarrow> metricFamily \<times> series_error option" where
  "addSeries R tbl seriesRef metricName labs t v mf =
     (let (mf', mg) = loadMetricGroupOrCreate seriesRef labs t mf in
      if mg_ts mg \<noteq> t then (mf', Some (InconsistentTimestamps metricName))
      else (case add_to_group R tbl mf' metricName labs t v mg of
              Inl e \<Rightarrow> (mf', Some e)
            | Inr mg' \<Rightarrow> (put_group seriesRef mg' mf', None)))"

definition addCreationTimestamp :: "runtime \<Rightarrow> 64 word \<Rightarrow> labels \<Rightarrow> 64 word \<Rightarrow> 64 word \<Rightarrow> metricFamily \<Rightarrow> metricFamily" where
  "addCreationTimestamp R seriesRef labs atMs ctMs mf =
     (let (mf', mg) = loadMetricGroupOrCreate seriesRef labs atMs mf in
      put_group seriesRef (mg\<lparr>createdSeconds := f_scale R (f_of_i64 R ctMs) (1 / 1000)\<rparr>) mf')"

definition native_to_group :: "runtime \<Rightarrow> string \<Rightarrow> Histogram option \<Rightarrow> FloatHistogram option \<Rightarrow> metricGroup \<Rightarrow> series_error + metricGroup" where
  "native_to_group R metricName h fh mg =
     (case fh of
        Some fhv \<Rightarrow>
          if hValue mg \<noteq> None then Inl (AlreadyFloat metricName)
          else Inr (mg\<lparr>mg_count := fh_Count fhv, mg_sum := fh_Sum fhv, hasCount := True, hasSum := True, fhValue := Some fhv\<rparr>)
      | None \<Rightarrow>
        (case h of
           Some hv \<Rightarrow>
             if fhValue mg \<noteq> None then Inl (AlreadyInteger metricName)
             else Inr (mg\<lparr>mg_count := f_of_u64 R (h_Count hv), mg_sum := h_Sum hv, hasCount := True, hasSum := True, hValue := Some hv\<rparr>)
         | None \<Rightarrow> Inr mg))"

definition addExponentialHistogramSeries :: "runtime \<Rightarrow> 64 word \<Rightarrow> string \<Rightarrow> labels \<Rightarrow> 64 word \<Rightarrow> Histogram option \<Rightarrow> FloatHistogram option
    \<Rightarrow> metricFamily \<Rightarrow> metricFamily \<times> series_error option" where
  "addExponentialHistogramSeries R seriesRef metricName labs t h fh mf =
     (let (mf', mg) = loadMetricGroupOrCreate seriesRef labs t mf in
      if mg_ts mg \<noteq> t then (mf', Some (InconsistentTimestamps metricName))
      else if mg_mtype mg \<noteq> MetricTypeExponentialHistogram then (mf', Some (TypeMismatch metricName))
      else (case native_to_group R metricName h fh mg of
              Inl e \<Rightarrow> (mf', Some e)
            | Inr mg' \<Rightarrow> (put_group seriesRef mg' mf', None)))"

definition nhcb_to_group :: "runtime \<Rightarrow> string \<Rightarrow> Histogram option \<Rightarrow> FloatHistogram option \<Rightarrow> metricGroup \<Rightarrow> series_error option \<times> metricGroup" where
  "nhcb_to_group R metricName h fh mg =
     (let mg = mg\<lparr>isNHCB := True\<rparr> in
      case h of
        Some hv \<Rightarrow> (None, mg\<lparr>hValue := Some hv, mg_count := f_of_u64 R (h_Count hv), hasCount := True, mg_sum := h_Sum hv, hasSum := True\<rparr>)
      | None \<Rightarrow>
        (case fh of
           Some fhv \<Rightarrow> (None, mg\<lparr>fhValue := Some fhv, mg_count := fh_Count fhv, hasCount := True, mg_sum := fh_Sum fhv, hasSum := True\<rparr>)
         | None \<Rightarrow> (Some (NoHistogramData metricName), mg)))"

definition addNHCBSeries :: "runtime \<Rightarrow> 64 word \<Rightarrow> string \<Rightarrow> labels \<Rightarrow> 64 word \<Rightarrow> Histogram option \<Rightarrow> FloatHistogram option
    \<Rightarrow> metricFamily \<Rightarrow> metricFamily \<times> series_error option" where
  "addNHCBSeries R seriesRef metricName labs t h fh mf =
     (let (mf', mg) = loadMetricGroupOrCreate seriesRef labs t mf in
      if mg_ts mg \<noteq> t then (mf', Some (InconsistentTimestamps metricName))
      else if mg_mtype mg \<noteq> MetricTypeHistogram then (mf', Some (TypeMismatch metricName))
      else let (err, mg') = nhcb_to_group R metricName h fh mg in (put_group seriesRef mg' mf', err))"

section \<open>Exemplars\<close>

record Exemplar =
  pe_Labels :: labels
  pe_Value :: f64
  pe_Ts :: "64 word"

definition hex_digit :: "char \<Rightarrow> 8 word option" where
  "hex_digit c =
     map_option of_nat (map_of (zip ''0123456789abcdefABCDEF'' [0, 1, 2, 3, 4, 5, 6, 7, 8, 9, 10, 11, 12, 13, 14, 15, 10, 11, 12, 13, 14, 15]) c)"

text \<open>\<open>hex.Decode\<close>: an error for an invalid digit and for an odd length.\<close>

fun hex_Decode :: "string \<Rightarrow> 8 word list option" where
  "hex_Decode [] = Some []"
| "hex_Decode [c] = None"
| "hex_Decode (c # d # cs) =
     (case (hex_digit c, hex_digit d, hex_Decode cs) of
        (Some a, Some b, Some bs) \<Rightarrow> Some ((a * 16 + b) # bs)
      | _ \<Rightarrow> None)"

text \<open>
  \<open>decodeAndCopyToLowerBytes\<close> into \<open>n\<close> zero bytes; the bytes are used only when there is no error.
\<close>

definition decodeAndCopyToLowerBytes :: "nat \<Rightarrow> string \<Rightarrow> 8 word list option" where
  "decodeAndCopyToLowerBytes n src =
     (let decodedLen = length src div 2 in
      if decodedLen \<ge> n then hex_Decode (take (2 * n) src)
      else map_option (\<lambda>bs. replicate (n - decodedLen) 0 @ bs) (hex_Decode src))"

definition exemplar_label :: "exemplar_point \<Rightarrow> string \<times> string \<Rightarrow> exemplar_point" where
  "exemplar_label e l =
     (let plain = e\<lparr>ex_Attributes := fmupd (fst l) (snd l) (ex_Attributes e)\<rparr> in
      if ToLower (fst l) = ''trace_id''
      then (case decodeAndCopyToLowerBytes 16 (snd l) of Some tid \<Rightarrow> e\<lparr>ex_TraceID := tid\<rparr> | None \<Rightarrow> plain)
      else if ToLower (fst l) = ''span_id''
      then (case decodeAndCopyToLowerBytes 8 (snd l) of Some sid \<Rightarrow> e\<lparr>ex_SpanID := sid\<rparr> | None \<Rightarrow> plain)
      else plain)"

definition convertExemplar :: "Exemplar \<Rightarrow> exemplar_point" where
  "convertExemplar pe =
     foldl exemplar_label
       \<lparr>ex_Timestamp = timestampFromMs (pe_Ts pe), ex_Value = pe_Value pe, ex_Attributes = fmempty,
        ex_TraceID = replicate 16 0, ex_SpanID = replicate 8 0\<rparr> (pe_Labels pe)"

definition addExemplar :: "64 word \<Rightarrow> Exemplar \<Rightarrow> metricFamily \<Rightarrow> metricFamily" where
  "addExemplar seriesRef e mf =
     (case fmlookup (groups mf) seriesRef of None \<Rightarrow> mf
      | Some mg \<Rightarrow> put_group seriesRef (mg\<lparr>exemplars := exemplars mg @ [convertExemplar e]\<rparr>) mf)"

section \<open>The metric of a family\<close>

datatype metric_data =
    DataHistogram "HistogramDataPoint list"
  | DataSummary "SummaryDataPoint list"
  | DataSum bool "NumberDataPoint list"
  | DataExponential "ExponentialHistogramDataPoint list"
  | DataGauge "NumberDataPoint list"

record Metric =
  m_Name :: string
  m_Description :: string
  m_Unit :: string
  m_Type :: model_type
  m_Data :: metric_data

fun pointCount :: "metric_data \<Rightarrow> nat" where
  "pointCount (DataHistogram ps) = length ps"
| "pointCount (DataSummary ps) = length ps"
| "pointCount (DataSum _ ps) = length ps"
| "pointCount (DataExponential ps) = length ps"
| "pointCount (DataGauge ps) = length ps"

text \<open>The groups in the order of \<open>groupOrders\<close>, and the points of those that yield one.\<close>

definition ordered_groups :: "metricFamily \<Rightarrow> metricGroup list" where
  "ordered_groups mf = List.map_filter (fmlookup (groups mf)) (groupOrders mf)"

fun collect_go :: "('a \<Rightarrow> 'b option go) \<Rightarrow> 'a list \<Rightarrow> 'b list go" where
  "collect_go f [] = Inr []"
| "collect_go f (x # xs) =
     go_bind (f x) (\<lambda>y. go_bind (collect_go f xs) (\<lambda>ys. Inr (case y of None \<Rightarrow> ys | Some p \<Rightarrow> p # ys)))"

definition metric_points :: "runtime \<Rightarrow> metricFamily \<Rightarrow> metric_data go" where
  "metric_points R mf =
     (let gs = ordered_groups mf in
      case mf_mtype mf of
        MetricTypeHistogram \<Rightarrow> Inr (DataHistogram (List.map_filter (toDistributionPoint R) gs))
      | MetricTypeSummary \<Rightarrow> Inr (DataSummary (List.map_filter (toSummaryPoint R) gs))
      | MetricTypeSum \<Rightarrow> Inr (DataSum (isMonotonic mf) (List.map_filter (toNumberDataPoint R) gs))
      | MetricTypeExponentialHistogram \<Rightarrow> go_bind (collect_go (toExponentialHistogramDataPoints R) gs) (\<lambda>ps. Inr (DataExponential ps))
      | _ \<Rightarrow> Inr (DataGauge (List.map_filter (toNumberDataPoint R) gs)))"

text \<open>The translator package: trimming of type and unit suffixes, and the UCUM unit.\<close>

record translator =
  TrimPromSuffixes :: "string \<Rightarrow> metric_type \<Rightarrow> string \<Rightarrow> string"
  UnitWordToUCUM :: "string \<Rightarrow> string"

definition appendMetric :: "runtime \<Rightarrow> translator \<Rightarrow> md_table \<Rightarrow> bool \<Rightarrow> metricFamily \<Rightarrow> Metric option go" where
  "appendMetric R T tbl trimSuffixes mf =
     (let md = md_deref tbl (mf_metadata mf) in
      go_bind (metric_points R mf) (\<lambda>data.
        if pointCount data = 0 then Inr None
        else Inr (Some
          \<lparr>m_Name = (if trimSuffixes then TrimPromSuffixes T (mf_name mf) (mf_mtype mf) (md_Unit md) else mf_name mf),
           m_Description = md_Help md, m_Unit = UnitWordToUCUM T (md_Unit md), m_Type = md_Type md, m_Data = data\<rparr>)))"

end
