(* ===== verification/Transaction.thy ===== *)
theory Transaction
  imports MetricGroup
begin

text \<open>
  \<open>prometheusreceiver/internal/transaction.go\<close>, \<open>prom_to_otlp.go\<close> and \<open>appendable.go\<close>: the appender a
  scrape writes its samples to, and the metrics it hands to the pipeline on commit.

  A family lives in the map \<open>families\<close> under the key \<open>getOrCreateMetricFamily\<close> stored it with; the
  code works on a pointer into that map, the model on the key. The context of the scrape (target,
  metadata store, cancellation), the hash functions of labels and attribute maps and the IP parser are
  parameters. Logging and the receiver's own telemetry are left out.
\<close>

section \<open>State\<close>

record resourceKey =
  rk_job :: string
  rk_instance :: string

record metricFamilyKey =
  isExponentialHistogram :: bool
  fk_name :: string

record scopeID =
  scope_name :: string
  scope_version :: string
  scope_schemaURL :: string
  attrsHash :: string

definition emptyScopeID :: scopeID where
  "emptyScopeID = \<lparr>scope_name = '''', scope_version = '''', scope_schemaURL = '''', attrsHash = replicate 16 (CHR 0x00)\<rparr>"

type_synonym family_map = "(metricFamilyKey, metricFamily) gomap"

record Target =
  DiscoveredLabels :: labels
  GetValue :: "string \<Rightarrow> string"

text \<open>The scrape context: whether it is done, the target and the metadata store it carries.\<close>

record scrape_ctx =
  ctx_Done :: bool
  TargetFromContext :: "Target option"
  MetadataStoreFromContext :: "metadata_store option"

record recv_lib =
  rt :: runtime
  tr :: translator
  Hash :: "labels \<Rightarrow> 64 word"
  HashWithoutLabels :: "string list \<Rightarrow> labels \<Rightarrow> 64 word"
  MapHash :: "attributes \<Rightarrow> string"
  SplitHostPort :: "string \<Rightarrow> (string \<times> string) option"
  ParseIP :: "string \<Rightarrow> (bool \<times> bool) option"
  builderSet :: "labels \<Rightarrow> string \<Rightarrow> string \<Rightarrow> labels"

record transaction =
  isNew :: bool
  trimSuffixes :: bool
  useMetadata :: bool
  addingNativeHistogram :: bool
  addingNHCB :: bool
  ctx :: scrape_ctx
  families :: "(resourceKey, (scopeID, family_map) gomap) gomap"
  mc :: metadata_store
  externalLabels :: labels
  nodeResources :: "(resourceKey, attributes) gomap"
  scopeAttributes :: "(resourceKey, (scopeID, attributes) gomap) gomap"
  ignoreScopeInfoMetric :: bool
  internalMD :: md_table

definition newTransaction :: "scrape_ctx \<Rightarrow> labels \<Rightarrow> bool \<Rightarrow> bool \<Rightarrow> bool \<Rightarrow> md_table \<Rightarrow> transaction" where
  "newTransaction c ext trim useMD ignoreScope tbl =
     \<lparr>isNew = True, trimSuffixes = trim, useMetadata = useMD, addingNativeHistogram = False, addingNHCB = False,
      ctx = c, families = fmempty, mc = emptyMetadataStore, externalLabels = ext, nodeResources = fmempty,
      scopeAttributes = fmempty, ignoreScopeInfoMetric = ignoreScope, internalMD = tbl\<rparr>"

datatype tx_error = errTransactionAborted | NoTarget | NoMetadataStore | errNoJobInstance
  | DuplicateLabel string | errMetricNameNotFound | errNoDataToBuild

section \<open>Resources\<close>

definition isDiscernibleHost :: "recv_lib \<Rightarrow> string \<Rightarrow> bool" where
  "isDiscernibleHost X host \<longleftrightarrow>
     (case ParseIP X host of
        Some (loopback, unspecified) \<Rightarrow> \<not> loopback \<and> \<not> unspecified
      | None \<Rightarrow> host \<noteq> ''localhost'')"

definition kubernetesDiscoveryToResourceAttributes :: "(string \<times> string) list" where
  "kubernetesDiscoveryToResourceAttributes =
     [(''__meta_kubernetes_pod_name'', ''k8s.pod.name''), (''__meta_kubernetes_pod_uid'', ''k8s.pod.uid''),
      (''__meta_kubernetes_pod_container_name'', ''k8s.container.name''), (''__meta_kubernetes_namespace'', ''k8s.namespace.name''),
      (''__meta_kubernetes_pod_node_name'', ''k8s.node.name''), (''__meta_kubernetes_node_name'', ''k8s.node.name''),
      (''__meta_kubernetes_endpoint_node_name'', ''k8s.node.name'')]"

definition controllerKinds :: "(string \<times> string) list" where
  "controllerKinds =
     [(''ReplicaSet'', ''k8s.replicaset.name''), (''DaemonSet'', ''k8s.daemonset.name''), (''StatefulSet'', ''k8s.statefulset.name''),
      (''Job'', ''k8s.job.name''), (''CronJob'', ''k8s.cronjob.name'')]"

definition put_k8s :: "labels \<Rightarrow> attributes \<Rightarrow> string \<times> string \<Rightarrow> attributes" where
  "put_k8s sd attrs kv =
     (let attr = label_Get sd (fst kv) in if attr \<noteq> '''' then fmupd (snd kv) attr attrs else attrs)"

text \<open>\<open>table\<close> is the discovery table in the order the range loop visits it.\<close>

definition addKubernetesResource :: "(string \<times> string) list \<Rightarrow> labels \<Rightarrow> attributes \<Rightarrow> attributes" where
  "addKubernetesResource table sd attrs =
     (let attrs = foldl (put_k8s sd) attrs table;
          controllerName = label_Get sd ''__meta_kubernetes_pod_controller_name'';
          controllerKind = label_Get sd ''__meta_kubernetes_pod_controller_kind''
      in if controllerKind \<noteq> '''' \<and> controllerName \<noteq> ''''
         then (case map_of controllerKinds controllerKind of None \<Rightarrow> attrs | Some k \<Rightarrow> fmupd k controllerName attrs)
         else attrs)"

definition CreateResource :: "recv_lib \<Rightarrow> string \<Rightarrow> string \<Rightarrow> labels \<Rightarrow> attributes" where
  "CreateResource X job inst sd =
     (let (host, port) = (case SplitHostPort X inst of None \<Rightarrow> (inst, '''') | Some hp \<Rightarrow> hp);
          attrs = fmupd ''service.name'' job fmempty;
          attrs = (if isDiscernibleHost X host then fmupd ''server.address'' host attrs else attrs);
          attrs = fmupd ''service.instance.id'' inst attrs;
          attrs = fmupd ''server.port'' port attrs;
          attrs = fmupd ''url.scheme'' (label_Get sd ''__scheme__'') attrs
      in addKubernetesResource kubernetesDiscoveryToResourceAttributes sd attrs)"

section \<open>Labels and scopes\<close>

definition getJobAndInstance :: "labels \<Rightarrow> transaction \<Rightarrow> tx_error + resourceKey" where
  "getJobAndInstance labs t =
     (let job = label_Get labs ''job''; inst = label_Get labs ''instance'' in
      if job \<noteq> '''' \<and> inst \<noteq> '''' then Inr \<lparr>rk_job = job, rk_instance = inst\<rparr>
      else (case TargetFromContext (ctx t) of
          None \<Rightarrow> Inl errNoJobInstance
        | Some tg \<Rightarrow>
          let job = (if job = '''' then GetValue tg ''job'' else job);
              inst = (if inst = '''' then GetValue tg ''instance'' else inst)
          in if job \<noteq> '''' \<and> inst \<noteq> '''' then Inr \<lparr>rk_job = job, rk_instance = inst\<rparr> else Inl errNoJobInstance))"

text \<open>On an error the metadata store that was set stays, as in the code.\<close>

definition initTransaction :: "recv_lib \<Rightarrow> labels \<Rightarrow> transaction \<Rightarrow> transaction \<times> (tx_error + resourceKey)" where
  "initTransaction X labs t =
     (case TargetFromContext (ctx t) of
        None \<Rightarrow> (t, Inl NoTarget)
      | Some tg \<Rightarrow>
        if useMetadata t \<and> MetadataStoreFromContext (ctx t) = None then (t, Inl NoMetadataStore)
        else
          let store = (if useMetadata t then the (MetadataStoreFromContext (ctx t)) else emptyMetadataStore);
              t = t\<lparr>mc := store\<rparr>
          in (case getJobAndInstance labs t of
                Inl e \<Rightarrow> (t, Inl e)
              | Inr rKey \<Rightarrow>
                let t = (case fmlookup (nodeResources t) rKey of
                      Some _ \<Rightarrow> t
                    | None \<Rightarrow> t\<lparr>nodeResources := fmupd rKey
                        (CreateResource X (rk_job rKey) (rk_instance rKey) (DiscoveredLabels tg)) (nodeResources t)\<rparr>)
                in (t\<lparr>isNew := False\<rparr>, Inr rKey)))"

text \<open>The first name that equals its predecessor's: \<open>HasDuplicateLabelNames\<close> on a sorted set.\<close>

fun duplicate_name :: "labels \<Rightarrow> string option" where
  "duplicate_name ((a, x) # (b, y) # ls) = (if a = b then Some b else duplicate_name ((b, y) # ls))"
| "duplicate_name _ = None"

definition merge_external :: "recv_lib \<Rightarrow> transaction \<Rightarrow> labels \<Rightarrow> labels" where
  "merge_external X t labs =
     (if externalLabels t \<noteq> [] then foldl (\<lambda>b (n, v). builderSet X b n v) labs (externalLabels t) else labs)"

definition prepareLabels :: "recv_lib \<Rightarrow> labels \<Rightarrow> transaction \<Rightarrow> transaction \<times> (tx_error + labels \<times> resourceKey \<times> string)" where
  "prepareLabels X labs t =
     (if ctx_Done (ctx t) then (t, Inl errTransactionAborted)
      else
        let labs = merge_external X t labs in
        (case initTransaction X labs t of
           (t, Inl e) \<Rightarrow> (t, Inl e)
         | (t, Inr rKey) \<Rightarrow>
           (case duplicate_name labs of
              Some d \<Rightarrow> (t, Inl (DuplicateLabel d))
            | None \<Rightarrow>
              let metricName = label_Get labs ''__name__'' in
              if metricName = '''' then (t, Inl errMetricNameNotFound) else (t, Inr (labs, rKey, metricName)))))"

definition scope_label :: "scopeID \<times> attributes \<Rightarrow> string \<times> string \<Rightarrow> scopeID \<times> attributes" where
  "scope_label s l =
     (case s of (scope, attrs) \<Rightarrow>
        if fst l = ''otel_scope_name'' then (scope\<lparr>scope_name := snd l\<rparr>, attrs)
        else if fst l = ''otel_scope_version'' then (scope\<lparr>scope_version := snd l\<rparr>, attrs)
        else if fst l = ''otel_scope_schema_url'' then (scope\<lparr>scope_schemaURL := snd l\<rparr>, attrs)
        else if \<not> prefix ScopeLabelPrefix (fst l) then (scope, attrs)
        else (scope, fmupd (drop (length ScopeLabelPrefix) (fst l)) (snd l) attrs))"

definition getScopeID :: "recv_lib \<Rightarrow> labels \<Rightarrow> scopeID \<times> attributes" where
  "getScopeID X labs =
     (case foldl scope_label (emptyScopeID, fmempty) labs of
        (scope, attrs) \<Rightarrow> (scope\<lparr>attrsHash := MapHash X attrs\<rparr>, attrs))"

definition addScopeAttributesFromLabels :: "resourceKey \<Rightarrow> scopeID \<Rightarrow> attributes \<Rightarrow> transaction \<Rightarrow> transaction" where
  "addScopeAttributesFromLabels key scope attrs t =
     (if attrs = fmempty then t
      else
        let m = get0 fmempty (scopeAttributes t) key in
        (case fmlookup m scope of
           Some _ \<Rightarrow> t\<lparr>scopeAttributes := fmupd key m (scopeAttributes t)\<rparr>
         | None \<Rightarrow> t\<lparr>scopeAttributes := fmupd key (fmupd scope attrs m) (scopeAttributes t)\<rparr>))"

definition identity_label :: "string \<Rightarrow> bool" where
  "identity_label n \<longleftrightarrow> n = ''job'' \<or> n = ''instance'' \<or> n = ''__name__''"

definition AddTargetInfo :: "resourceKey \<Rightarrow> labels \<Rightarrow> transaction \<Rightarrow> transaction" where
  "AddTargetInfo key labs t =
     (let t = t\<lparr>addingNativeHistogram := False, addingNHCB := False\<rparr> in
      case fmlookup (nodeResources t) key of None \<Rightarrow> t
      | Some attrs \<Rightarrow>
        t\<lparr>nodeResources := fmupd key
          (foldl (\<lambda>a l. if identity_label (fst l) then a else fmupd (fst l) (snd l) a) attrs labs) (nodeResources t)\<rparr>)"

definition info_label :: "scopeID \<times> attributes \<Rightarrow> string \<times> string \<Rightarrow> scopeID \<times> attributes" where
  "info_label s l =
     (case s of (scope, attrs) \<Rightarrow>
        if identity_label (fst l) then (scope, attrs)
        else if fst l = ''otel_scope_name'' then (scope\<lparr>scope_name := snd l\<rparr>, attrs)
        else if fst l = ''otel_scope_version'' then (scope\<lparr>scope_version := snd l\<rparr>, attrs)
        else if fst l = ''otel_scope_schema_url'' then (scope\<lparr>scope_schemaURL := snd l\<rparr>, attrs)
        else (scope, fmupd (fst l) (snd l) attrs))"

definition addScopeInfo :: "resourceKey \<Rightarrow> labels \<Rightarrow> transaction \<Rightarrow> transaction" where
  "addScopeInfo key labs t =
     (let t = t\<lparr>addingNativeHistogram := False, addingNHCB := False\<rparr>;
          (scope, attrs) = foldl info_label (emptyScopeID, fmempty) labs;
          m = get0 fmempty (scopeAttributes t) key
      in t\<lparr>scopeAttributes := fmupd key (fmupd scope attrs m) (scopeAttributes t)\<rparr>)"

section \<open>Families\<close>

definition scope_families :: "transaction \<Rightarrow> resourceKey \<Rightarrow> scopeID \<Rightarrow> family_map" where
  "scope_families t key scope = get0 fmempty (get0 fmempty (families t) key) scope"

definition set_families :: "resourceKey \<Rightarrow> scopeID \<Rightarrow> family_map \<Rightarrow> transaction \<Rightarrow> transaction" where
  "set_families key scope fm t =
     t\<lparr>families := fmupd key (fmupd scope fm (get0 fmempty (families t) key)) (families t)\<rparr>"

text \<open>
  The key of the family of a metric name: the family stored under the name itself, else the family
  stored under the family name if it includes the metric, else a new one stored under its own name.
\<close>

definition family_name :: "metadata_store \<Rightarrow> string \<Rightarrow> string" where
  "family_name store mn =
     (if store mn \<noteq> None then mn
      else
        let fn = normalizeMetricName mn in
        if isCounterCreatedLine mn fn store then fn @ metricSuffixTotal else fn)"

definition getOrCreateMetricFamily :: "resourceKey \<Rightarrow> scopeID \<Rightarrow> string \<Rightarrow> transaction \<Rightarrow> transaction \<times> metricFamilyKey" where
  "getOrCreateMetricFamily key scope mn t =
     (let fm = scope_families t key scope;
          t = set_families key scope fm t;
          ex = addingNativeHistogram t;
          mfKey = \<lparr>isExponentialHistogram = ex, fk_name = mn\<rparr>
      in if fmlookup fm mfKey \<noteq> None then (t, mfKey)
         else
           let fnKey = \<lparr>isExponentialHistogram = ex, fk_name = family_name (mc t) mn\<rparr> in
           if (case fmlookup fm fnKey of None \<Rightarrow> False | Some mf \<Rightarrow> includesMetric (internalMD t) mf mn) then (t, fnKey)
           else
             let (tbl, mf) = newMetricFamily (internalMD t) mn (mc t) ex (addingNHCB t);
                 k = \<lparr>isExponentialHistogram = ex, fk_name = mf_name mf\<rparr>
             in (set_families key scope (fmupd k mf fm) (t\<lparr>internalMD := tbl\<rparr>), k))"

text \<open>Updating the family a pointer refers to.\<close>

definition update_family :: "resourceKey \<Rightarrow> scopeID \<Rightarrow> metricFamilyKey \<Rightarrow> (metricFamily \<Rightarrow> metricFamily) \<Rightarrow> transaction \<Rightarrow> transaction" where
  "update_family key scope k f t =
     (case fmlookup (scope_families t key scope) k of None \<Rightarrow> t
      | Some mf \<Rightarrow> set_families key scope (fmupd k (f mf) (scope_families t key scope)) t)"

definition family_at :: "transaction \<Rightarrow> resourceKey \<Rightarrow> scopeID \<Rightarrow> metricFamilyKey \<Rightarrow> metricFamily option" where
  "family_at t key scope k = fmlookup (scope_families t key scope) k"

definition getSeriesRef :: "recv_lib \<Rightarrow> labels \<Rightarrow> metric_type \<Rightarrow> 64 word" where
  "getSeriesRef X labs mtype = HashWithoutLabels X (getSortedNotUsefulLabelsForSeries mtype labs) labs"

section \<open>Adding samples\<close>

definition CustomBucketsSchema :: "32 word" where
  "CustomBucketsSchema = - 53"

definition stale_histogram :: Histogram where
  "stale_histogram =
     \<lparr>h_Schema = 0, h_Count = 0, h_Sum = NaN StaleNaN, h_ZeroThreshold = Fin 0, h_ZeroCount = 0, h_PositiveSpans = [],
      h_PositiveBuckets = [], h_NegativeSpans = [], h_NegativeBuckets = [], h_CustomValues = [], h_GaugeType = False\<rparr>"

text \<open>Whether a stale sample is the marker of a native histogram.\<close>

definition stale_native :: "transaction \<Rightarrow> string \<Rightarrow> bool" where
  "stale_native t metricName \<longleftrightarrow>
     (case mc t metricName of None \<Rightarrow> False
      | Some md \<Rightarrow> md_Type md = ModelHistogram \<and> md_MetricFamily md = metricName)"

definition detectAndStoreNativeHistogramStaleness :: "recv_lib \<Rightarrow> 64 word \<Rightarrow> resourceKey \<Rightarrow> scopeID \<Rightarrow> string \<Rightarrow> labels \<Rightarrow> transaction \<Rightarrow> transaction \<times> bool" where
  "detectAndStoreNativeHistogramStaleness X atMs key scope metricName labs t =
     (if \<not> stale_native t metricName then (t, False)
      else
        let (t, k) = getOrCreateMetricFamily key scope metricName (t\<lparr>addingNativeHistogram := True, addingNHCB := False\<rparr>)
        in (case family_at t key scope k of None \<Rightarrow> (t, True)
            | Some mf \<Rightarrow>
              (update_family key scope k (\<lambda>mf. fst (addExponentialHistogramSeries (rt X) (getSeriesRef X labs (mf_mtype mf))
                 metricName labs atMs (Some stale_histogram) None mf)) t, True)))"

definition add_sample :: "recv_lib \<Rightarrow> transaction \<Rightarrow> labels \<Rightarrow> string \<Rightarrow> 64 word \<Rightarrow> f64 \<Rightarrow> 64 word \<Rightarrow> metricFamily \<Rightarrow> metricFamily \<times> series_error option" where
  "add_sample X t labs metricName atMs val stMs mf =
     (let seriesRef = getSeriesRef X labs (mf_mtype mf);
          mf = (if stMs \<noteq> 0 then addCreationTimestamp (rt X) seriesRef labs atMs stMs mf else mf)
      in addSeries (rt X) (internalMD t) seriesRef metricName labs atMs val mf)"

text \<open>The result is the series reference, 0 when the sample was not added; there is no error result.\<close>

definition addSampleDatapoint :: "recv_lib \<Rightarrow> resourceKey \<Rightarrow> labels \<Rightarrow> string \<Rightarrow> 64 word \<Rightarrow> f64 \<Rightarrow> 64 word \<Rightarrow> transaction \<Rightarrow> transaction \<times> 64 word" where
  "addSampleDatapoint X rKey labs metricName atMs val stMs t =
     (if metricName = ''target_info'' then (AddTargetInfo rKey labs t, 0)
      else if metricName = ''otel_scope_info'' \<and> \<not> ignoreScopeInfoMetric t then (addScopeInfo rKey labs t, 0)
      else
        let (scope, attrs) = getScopeID X labs;
            t = addScopeAttributesFromLabels rKey scope attrs t;
            (t, done) = (if IsStaleNaN val then detectAndStoreNativeHistogramStaleness X atMs rKey scope metricName labs t else (t, False))
        in if done then (t, 0)
           else
             let (t, k) = getOrCreateMetricFamily rKey scope metricName t in
             (case family_at t rKey scope k of None \<Rightarrow> (t, 0)
              | Some mf \<Rightarrow>
                (update_family rKey scope k (\<lambda>mf. fst (add_sample X t labs metricName atMs val stMs mf)) t,
                 if snd (add_sample X t labs metricName atMs val stMs mf) \<noteq> None then 0 else Hash X labs)))"

definition tx_append :: "recv_lib \<Rightarrow> labels \<Rightarrow> 64 word \<Rightarrow> f64 \<Rightarrow> transaction \<Rightarrow> transaction \<times> (tx_error + 64 word)" where
  "tx_append X labs atMs val t =
     (case prepareLabels X labs (t\<lparr>addingNativeHistogram := False, addingNHCB := False\<rparr>) of
        (t, Inl e) \<Rightarrow> (t, Inl e)
      | (t, Inr (labs, rKey, metricName)) \<Rightarrow>
        (case addSampleDatapoint X rKey labs metricName atMs val 0 t of (t, r) \<Rightarrow> (t, Inr r)))"

definition add_histogram :: "recv_lib \<Rightarrow> labels \<Rightarrow> string \<Rightarrow> 64 word \<Rightarrow> Histogram option \<Rightarrow> FloatHistogram option \<Rightarrow> 32 word \<Rightarrow> 64 word \<Rightarrow> metricFamily \<Rightarrow> metricFamily \<times> series_error option" where
  "add_histogram X labs metricName atMs h fh schema stMs mf =
     (let seriesRef = getSeriesRef X labs (mf_mtype mf);
          mf = (if stMs \<noteq> 0 then addCreationTimestamp (rt X) seriesRef labs atMs stMs mf else mf)
      in if schema = CustomBucketsSchema then addNHCBSeries (rt X) seriesRef metricName labs atMs h fh mf
         else addExponentialHistogramSeries (rt X) seriesRef metricName labs atMs h fh mf)"

definition addHistogramDatapoint :: "recv_lib \<Rightarrow> resourceKey \<Rightarrow> labels \<Rightarrow> string \<Rightarrow> 64 word \<Rightarrow> Histogram option \<Rightarrow> FloatHistogram option \<Rightarrow> 32 word \<Rightarrow> 64 word \<Rightarrow> transaction \<Rightarrow> transaction \<times> 64 word" where
  "addHistogramDatapoint X rKey labs metricName atMs h fh schema stMs t =
     (let (scope, attrs) = getScopeID X labs;
          t = addScopeAttributesFromLabels rKey scope attrs t;
          (t, k) = getOrCreateMetricFamily rKey scope metricName t
      in (case family_at t rKey scope k of None \<Rightarrow> (t, 0)
          | Some mf \<Rightarrow>
            (update_family rKey scope k (\<lambda>mf. fst (add_histogram X labs metricName atMs h fh schema stMs mf)) t,
             if snd (add_histogram X labs metricName atMs h fh schema stMs mf) \<noteq> None then 0 else Hash X labs)))"

definition schema_of :: "Histogram option \<Rightarrow> FloatHistogram option \<Rightarrow> 32 word" where
  "schema_of h fh = (case h of Some hv \<Rightarrow> h_Schema hv | None \<Rightarrow> (case fh of Some fhv \<Rightarrow> fh_Schema fhv | None \<Rightarrow> 0))"

definition appendHistogram :: "recv_lib \<Rightarrow> labels \<Rightarrow> 64 word \<Rightarrow> Histogram option \<Rightarrow> FloatHistogram option \<Rightarrow> transaction \<Rightarrow> transaction \<times> (tx_error + 64 word)" where
  "appendHistogram X labs atMs h fh t =
     (let schema = schema_of h fh in
      case prepareLabels X labs (t\<lparr>addingNativeHistogram := True, addingNHCB := (schema = - 53)\<rparr>) of
        (t, Inl e) \<Rightarrow> (t, Inl e)
      | (t, Inr (labs, rKey, metricName)) \<Rightarrow>
        (case addHistogramDatapoint X rKey labs metricName atMs h fh schema 0 t of (t, r) \<Rightarrow> (t, Inr r)))"

definition setStartTimestamp :: "recv_lib \<Rightarrow> labels \<Rightarrow> 64 word \<Rightarrow> 64 word \<Rightarrow> transaction \<Rightarrow> transaction \<times> (tx_error + 64 word)" where
  "setStartTimestamp X labs atMs stMs t =
     (case prepareLabels X labs t of
        (t, Inl e) \<Rightarrow> (t, Inl e)
      | (t, Inr (labs, rKey, metricName)) \<Rightarrow>
        let (scope, attrs) = getScopeID X labs;
            t = addScopeAttributesFromLabels rKey scope attrs t;
            (t, k) = getOrCreateMetricFamily rKey scope metricName t
        in (case family_at t rKey scope k of None \<Rightarrow> (t, Inr 0)
            | Some mf \<Rightarrow>
              let seriesRef = getSeriesRef X labs (mf_mtype mf)
              in (update_family rKey scope k (addCreationTimestamp (rt X) seriesRef labs atMs stMs) t, Inr seriesRef)))"

definition appendSTZeroSample :: "recv_lib \<Rightarrow> labels \<Rightarrow> 64 word \<Rightarrow> 64 word \<Rightarrow> transaction \<Rightarrow> transaction \<times> (tx_error + 64 word)" where
  "appendSTZeroSample X labs atMs stMs t =
     setStartTimestamp X labs atMs stMs (t\<lparr>addingNativeHistogram := False, addingNHCB := False\<rparr>)"

definition appendHistogramSTZeroSample :: "recv_lib \<Rightarrow> labels \<Rightarrow> 64 word \<Rightarrow> 64 word \<Rightarrow> Histogram option \<Rightarrow> FloatHistogram option \<Rightarrow> transaction \<Rightarrow> transaction \<times> (tx_error + 64 word)" where
  "appendHistogramSTZeroSample X labs atMs stMs h fh t =
     setStartTimestamp X labs atMs stMs (t\<lparr>addingNativeHistogram := True, addingNHCB := (schema_of h fh = - 53)\<rparr>)"

definition appendExemplar :: "recv_lib \<Rightarrow> labels \<Rightarrow> Exemplar \<Rightarrow> transaction \<Rightarrow> transaction \<times> tx_error option" where
  "appendExemplar X labs e t =
     (if ctx_Done (ctx t) then (t, Some errTransactionAborted)
      else (case initTransaction X labs t of
          (t, Inl err) \<Rightarrow> (t, Some err)
        | (t, Inr rKey) \<Rightarrow>
          let labs = filter (\<lambda>l. snd l \<noteq> '''') labs in
          (case duplicate_name labs of
             Some d \<Rightarrow> (t, Some (DuplicateLabel d))
           | None \<Rightarrow>
             let mn = label_Get labs ''__name__'' in
             if mn = '''' then (t, Some errMetricNameNotFound)
             else
               let (scope, attrs) = getScopeID X labs;
                   t = addScopeAttributesFromLabels rKey scope attrs t;
                   (t, k) = getOrCreateMetricFamily rKey scope mn t
               in (update_family rKey scope k (\<lambda>mf. addExemplar (getSeriesRef X labs (mf_mtype mf)) e mf) t, None))))"

text \<open>\<open>Append\<close> of the second appender interface: one sample or histogram, then its exemplars.\<close>

definition Append :: "recv_lib \<Rightarrow> labels \<Rightarrow> 64 word \<Rightarrow> 64 word \<Rightarrow> f64 \<Rightarrow> Histogram option \<Rightarrow> FloatHistogram option \<Rightarrow> Exemplar list \<Rightarrow> transaction \<Rightarrow> transaction \<times> (tx_error + 64 word)" where
  "Append X labs stMs atMs val h fh exs t =
     (case prepareLabels X labs t of
        (t, Inl e) \<Rightarrow> (t, Inl e)
      | (t, Inr (labs', rKey, metricName)) \<Rightarrow>
        let (t, sRef) =
              (if h \<noteq> None \<or> fh \<noteq> None
               then addHistogramDatapoint X rKey labs' metricName atMs h fh (schema_of h fh) stMs
                 (t\<lparr>addingNativeHistogram := True, addingNHCB := (schema_of h fh = CustomBucketsSchema)\<rparr>)
               else addSampleDatapoint X rKey labs' metricName atMs val stMs
                 (t\<lparr>addingNativeHistogram := False, addingNHCB := False\<rparr>))
        in (foldl (\<lambda>t e. fst (appendExemplar X labs e t)) t exs, Inr sRef))"

section \<open>Commit\<close>

record ScopeMetrics =
  sm_Name :: string
  sm_Version :: string
  sm_SchemaUrl :: string
  sm_Attributes :: attributes
  sm_Metrics :: "Metric list"

record ResourceMetrics =
  rm_Resource :: attributes
  rm_Scopes :: "ScopeMetrics list"

text \<open>Range loops: \<open>order\<close> lists a map's keys in the order they are visited.\<close>

record range_orders =
  ord_resources :: "(resourceKey, (scopeID, family_map) gomap) gomap \<Rightarrow> resourceKey list"
  ord_scopes :: "(scopeID, family_map) gomap \<Rightarrow> scopeID list"
  ord_families :: "family_map \<Rightarrow> metricFamilyKey list"

definition scope_metrics :: "recv_lib \<Rightarrow> range_orders \<Rightarrow> string \<times> string \<Rightarrow> transaction \<Rightarrow> resourceKey \<Rightarrow> scopeID \<Rightarrow> family_map \<Rightarrow> ScopeMetrics go" where
  "scope_metrics X od self t rKey scope mfs =
     go_bind (collect_go (\<lambda>k. case fmlookup mfs k of None \<Rightarrow> Inr None
         | Some mf \<Rightarrow> appendMetric (rt X) (tr X) (internalMD t) (trimSuffixes t) mf) (ord_families od mfs))
       (\<lambda>metrics. Inr
         (if scope = emptyScopeID
          then \<lparr>sm_Name = fst self, sm_Version = snd self, sm_SchemaUrl = '''', sm_Attributes = fmempty, sm_Metrics = metrics\<rparr>
          else \<lparr>sm_Name = scope_name scope, sm_Version = scope_version scope, sm_SchemaUrl = scope_schemaURL scope,
                sm_Attributes = get0 fmempty (get0 fmempty (scopeAttributes t) rKey) scope, sm_Metrics = metrics\<rparr>))"

definition resource_metrics :: "recv_lib \<Rightarrow> range_orders \<Rightarrow> string \<times> string \<Rightarrow> transaction \<Rightarrow> resourceKey \<Rightarrow> ResourceMetrics option go" where
  "resource_metrics X od self t rKey =
     (let fams = get0 fmempty (families t) rKey in
      if fams = fmempty then Inr None
      else (case fmlookup (nodeResources t) rKey of
          None \<Rightarrow> Inr None
        | Some resource \<Rightarrow>
          go_bind (collect_go (\<lambda>sc. go_bind (scope_metrics X od self t rKey sc (get0 fmempty fams sc)) (\<lambda>sm. Inr (Some sm))) (ord_scopes od fams)) (\<lambda>sms. Inr (Some \<lparr>rm_Resource = resource, rm_Scopes = sms\<rparr>))))"

definition has_metrics :: "ResourceMetrics \<Rightarrow> bool" where
  "has_metrics rm \<longleftrightarrow> (\<exists>sm\<in>set (rm_Scopes rm). sm_Metrics sm \<noteq> [])"

text \<open>\<open>self\<close> is the receiver's own scope name and version.\<close>

definition getMetrics :: "recv_lib \<Rightarrow> range_orders \<Rightarrow> string \<times> string \<Rightarrow> transaction \<Rightarrow> (tx_error + ResourceMetrics list) go" where
  "getMetrics X od self t =
     (if families t = fmempty then Inr (Inl errNoDataToBuild)
      else go_bind (collect_go (resource_metrics X od self t) (ord_resources od (families t)))
        (\<lambda>rms. Inr (Inr (filter has_metrics rms))))"

definition data_point_count :: "ResourceMetrics list \<Rightarrow> nat" where
  "data_point_count rms = sum_list (map (\<lambda>rm. sum_list (map (\<lambda>sm. sum_list (map (pointCount \<circ> m_Data) (sm_Metrics sm))) (rm_Scopes rm))) rms)"

text \<open>What \<open>Commit\<close> does: nothing, an error, or the batch it passes to the pipeline.\<close>

datatype commit_result = NothingToSend | CommitError tx_error | Sent "ResourceMetrics list"

definition Commit :: "recv_lib \<Rightarrow> range_orders \<Rightarrow> string \<times> string \<Rightarrow> transaction \<Rightarrow> commit_result go" where
  "Commit X od self t =
     (if isNew t then Inr NothingToSend
      else go_bind (getMetrics X od self t) (\<lambda>r.
        case r of
          Inl e \<Rightarrow> Inr (CommitError e)
        | Inr md \<Rightarrow> Inr (if data_point_count md = 0 then NothingToSend else Sent md)))"

end
