(* ===== verification/MetricProps.thy ===== *)
theory MetricProps
  imports MetricGroup
begin

text \<open>
  Properties of the data points the receiver builds: explicit bucket counts, attributes, custom
  buckets, native histogram buckets, and the bookkeeping of groups.
\<close>

section \<open>What the run time guarantees\<close>

definition no_nan :: "f64 \<Rightarrow> bool" where
  "no_nan x \<longleftrightarrow> (case x of NaN _ \<Rightarrow> False | _ \<Rightarrow> True)"

text \<open>Integers up to \<open>2^53\<close> are exact, and \<open>sort.Slice\<close> sorts.\<close>

definition exact_integers :: "runtime \<Rightarrow> bool" where
  "exact_integers R \<longleftrightarrow> (\<forall>n :: int. 0 \<le> n \<and> n \<le> 2 ^ 53 \<longrightarrow> rnd R (of_int n) = Fin (of_int n))"

definition sorts_points :: "runtime \<Rightarrow> bool" where
  "sorts_points R \<longleftrightarrow>
     (\<forall>pts. list_all (\<lambda>p. no_nan (dp_boundary p)) pts \<longrightarrow>
        mset (sort_Slice R pts) = mset pts \<and>
        sorted_wrt (\<lambda>p q. \<not> f_lt (dp_boundary q) (dp_boundary p)) (sort_Slice R pts))"

lemma f_lt_total: "no_nan x \<Longrightarrow> no_nan y \<Longrightarrow> \<not> f_lt y x \<Longrightarrow> x \<noteq> y \<Longrightarrow> f_lt x y"
  by (cases x; cases y) (auto simp: no_nan_def)

lemma f_lt_PInf: "\<not> f_lt PInf x" by (cases x) auto

lemma f_eq_PInf: "f_eq x PInf \<longleftrightarrow> x = PInf" by (cases x) auto

abbreviation fnat :: "nat \<Rightarrow> f64" where
  "fnat n \<equiv> Fin (of_nat n)"

lemma f_sub_exact:
  assumes "exact_integers R" and "b \<le> a" and "a \<le> 2 ^ 53"
  shows "f_sub R (fnat a) (fnat b) = fnat (a - b)"
proof -
  have "a - b \<le> 2 ^ 53" using assms(3) by simp
  then have "int (a - b) \<le> 2 ^ 53" by (metis of_nat_le_iff of_nat_numeral of_nat_power)
  then have "rnd R (of_int (int (a - b))) = Fin (of_int (int (a - b)))"
    using assms(1) of_nat_0_le_iff unfolding exact_integers_def by blast
  moreover have "of_int (int (a - b)) = (of_nat a - of_nat b :: rat)" using assms(2) by (simp add: of_nat_diff)
  ultimately show ?thesis by (simp add: of_nat_diff assms(2))
qed

lemma f_u64_nat: "n \<le> 2 ^ 53 \<Longrightarrow> f_u64 R (fnat n) = of_nat n"
proof -
  assume "n \<le> 2 ^ 53"
  then have "int n < 2 ^ 64" by (simp add: le_less_trans)
  then show ?thesis by (simp add: f_u64_def trunc_def)
qed

lemma unat_small: "n \<le> 2 ^ 53 \<Longrightarrow> unat (of_nat n :: 64 word) = n"
  by (simp add: unsigned_of_nat take_bit_nat_eq_self)

section \<open>Explicit buckets\<close>

fun diffs :: "nat \<Rightarrow> nat list \<Rightarrow> nat \<Rightarrow> nat list" where
  "diffs m [] n = [n - m]"
| "diffs m (k # ks) n = (k - m) # diffs k ks n"

lemma length_diffs [simp]: "length (diffs m ks n) = Suc (length ks)"
  by (induction ks arbitrary: m) auto

lemma diffs_le: "d \<in> set (diffs m ks n) \<Longrightarrow> sorted (ks @ [n]) \<Longrightarrow> d \<le> n"
  by (induction ks arbitrary: m) (auto intro: le_trans [OF diff_le_self])

lemma sum_diffs: "sorted (m # ks @ [n]) \<Longrightarrow> m + sum_list (diffs m ks n) = n"
proof (induction ks arbitrary: m)
  case (Cons k ks)
  then have "k + sum_list (diffs k ks n) = n" by simp
  then show ?case using Cons.prems by simp
qed simp

lemma sum_take_diffs:
  "sorted (m # ks @ [n]) \<Longrightarrow> i < length ks \<Longrightarrow> m + sum_list (take (Suc i) (diffs m ks n)) = ks ! i"
proof (induction ks arbitrary: m i)
  case (Cons k ks)
  then show ?case
  proof (cases i)
    case (Suc j)
    then have "k + sum_list (take (Suc j) (diffs k ks n)) = ks ! j" using Cons by simp
    then show ?thesis using Suc Cons.prems by simp
  qed simp
qed simp

lemma bucket_counts_diffs:
  assumes "exact_integers R" and "n \<le> 2 ^ 53"
  shows "sorted (m # ks @ [n]) \<Longrightarrow> map dp_value pts = map fnat ks \<Longrightarrow> prev = Some (fnat m) \<or> prev = None \<and> m = 0
    \<Longrightarrow> bucket_counts R prev pts (fnat n) = map of_nat (diffs m ks n)"
proof (induction ks arbitrary: m pts prev)
  case Nil
  then show ?case using assms by (auto simp: f_sub_exact f_u64_nat simp del: f_sub.simps of_nat_diff)
next
  case (Cons k ks)
  then obtain p ps where p: "pts = p # ps" "dp_value p = fnat k" "map dp_value ps = map fnat ks" by (cases pts) auto
  have k: "m \<le> k" "k \<le> 2 ^ 53" "k - m \<le> 2 ^ 53" using Cons.prems(1) assms(2) by auto
  have "f_u64 R (case prev of None \<Rightarrow> dp_value p | Some q \<Rightarrow> f_sub R (dp_value p) q) = of_nat (k - m)"
    using Cons.prems(3) p(2) k f_sub_exact [OF assms(1) k(1,2)] f_u64_nat [of "k - m" R]
    by (auto simp: f_u64_nat simp del: f_sub.simps of_nat_diff)
  moreover have "bucket_counts R (Some (fnat k)) ps (fnat n) = map of_nat (diffs k ks n)"
    using Cons.IH [of k ps "Some (fnat k)"] Cons.prems(1) p(3) by simp
  ultimately show ?case using p by simp
qed

text \<open>A cumulative histogram as Prometheus exposes it: distinct bounds, none of them NaN, counts that are
  integers, grow with the bound and do not exceed the total.\<close>

definition cumulative :: "dataPoint list \<Rightarrow> nat \<Rightarrow> bool" where
  "cumulative pts n \<longleftrightarrow>
     n \<le> 2 ^ 53 \<and> distinct (map dp_boundary pts) \<and> list_all (\<lambda>p. no_nan (dp_boundary p)) pts \<and>
     (\<forall>p\<in>set pts. \<exists>k\<le>n. dp_value p = fnat k) \<and>
     (\<forall>p\<in>set pts. \<forall>q\<in>set pts. \<forall>j k. f_lt (dp_boundary p) (dp_boundary q) \<and> dp_value p = fnat j \<and> dp_value q = fnat k \<longrightarrow> j \<le> k)"

lemma drop_inf_sub: "set (drop_inf pts) \<subseteq> set pts" "sorted_wrt P pts \<Longrightarrow> sorted_wrt P (drop_inf pts)"
  "distinct (map f pts) \<Longrightarrow> distinct (map f (drop_inf pts))"
  by (auto simp: drop_inf_def butlast_conv_take take_map [symmetric] dest: in_set_takeD intro: sorted_wrt_take distinct_take)

lemma drop_inf_finite:
  assumes "distinct (map dp_boundary pts)" and "sorted_wrt (\<lambda>p q. \<not> f_lt (dp_boundary q) (dp_boundary p)) pts"
    and "list_all (\<lambda>p. no_nan (dp_boundary p)) pts"
  shows "\<forall>p\<in>set (drop_inf pts). dp_boundary p \<noteq> PInf"
proof (cases "pts = []")
  case False
  then obtain ps l where pts: "pts = ps @ [l]" by (metis rev_exhaust)
  have "dp_boundary p \<noteq> PInf" if p: "p \<in> set ps" for p
  proof
    assume inf: "dp_boundary p = PInf"
    have "\<not> f_lt (dp_boundary l) PInf" using assms(2) p inf by (auto simp: pts sorted_wrt_append)
    moreover have "no_nan (dp_boundary l)" using assms(3) by (simp add: pts)
    ultimately have "dp_boundary l = PInf" using f_lt_total [of "dp_boundary l" PInf] f_lt_PInf
      by (cases "dp_boundary l") (auto simp: no_nan_def)
    then show False using assms(1) p inf by (auto simp: pts image_iff)
  qed
  then show ?thesis by (auto simp: drop_inf_def pts f_eq_PInf)
qed (simp add: drop_inf_def)

lemma cumulative_sorted:
  assumes "cumulative all n" and "set pts \<subseteq> set all" and "distinct (map dp_boundary pts)"
    and "sorted_wrt (\<lambda>p q. \<not> f_lt (dp_boundary q) (dp_boundary p)) pts"
  shows "\<exists>ks. map dp_value pts = map fnat ks \<and> sorted (ks @ [n])"
  using assms(2-4)
proof (induction pts)
  case (Cons p pts)
  then obtain ks where ks: "map dp_value pts = map fnat ks" "sorted (ks @ [n])" by auto
  obtain k where k: "k \<le> n" "dp_value p = fnat k" using assms(1) Cons.prems(1) unfolding cumulative_def by auto
  have "k \<le> j" if "j \<in> set ks" for j
  proof -
    have "fnat j \<in> set (map dp_value pts)" unfolding ks(1) using that by auto
    then obtain q where q: "q \<in> set pts" "dp_value q = fnat j" by auto
    have "no_nan (dp_boundary p)" "no_nan (dp_boundary q)"
      using assms(1) Cons.prems(1) q(1) unfolding cumulative_def list_all_iff by auto
    moreover have "\<not> f_lt (dp_boundary q) (dp_boundary p)" "dp_boundary p \<noteq> dp_boundary q"
      using Cons.prems(2,3) q(1) by (auto simp: image_iff)
    ultimately have "f_lt (dp_boundary p) (dp_boundary q)" using f_lt_total by blast
    moreover have "p \<in> set all" "q \<in> set all" using Cons.prems(1) q(1) by auto
    ultimately show ?thesis using assms(1) q(2) k(2) unfolding cumulative_def by blast
  qed
  then have "sorted ((k # ks) @ [n])" using ks(2) k(1) by auto
  moreover have "map dp_value (p # pts) = map fnat (k # ks)" using ks(1) k(2) by simp
  ultimately show ?case by blast
qed simp

text \<open>
  C22: A classic histogram series with cumulative buckets and total \<open>n\<close> becomes one data point whose
  bounds are the finite bounds in increasing order and whose bucket counts are the differences: there is
  one count more than there are bounds, the counts up to a bound add up to the cumulative count of that
  bound, and all counts add up to the total, which is also the point's count. Nothing is lost or counted
  twice, provided the counts are integers that a \<open>float64\<close> represents exactly.
\<close>

theorem histogram_counts:
  assumes "exact_integers R" and "sorts_points R" and "hasCount mg" and "\<not> isNHCB mg"
    and "cumulative (complexValue mg) n" and "mg_count mg = fnat n" and "\<not> IsStaleNaN (mg_sum mg)"
  shows "\<exists>p pts ks. toDistributionPoint R mg = Some p
    \<and> set pts = {q \<in> set (complexValue mg). dp_boundary q \<noteq> PInf}
    \<and> ExplicitBounds p = map dp_boundary pts \<and> sorted_wrt f_lt (ExplicitBounds p)
    \<and> map dp_value pts = map fnat ks
    \<and> length (BucketCounts p) = length (ExplicitBounds p) + 1
    \<and> (\<forall>i<length pts. sum_list (map unat (take (Suc i) (BucketCounts p))) = ks ! i)
    \<and> sum_list (map unat (BucketCounts p)) = n \<and> unat (hp_Count p) = n"
proof -
  define srt where "srt = sort_Slice R (complexValue mg)"
  define pts where "pts = drop_inf srt"
  have c: "n \<le> 2 ^ 53" "distinct (map dp_boundary (complexValue mg))" "list_all (\<lambda>p. no_nan (dp_boundary p)) (complexValue mg)"
    using assms(5) by (auto simp: cumulative_def)
  have m: "mset srt = mset (complexValue mg)"
    and srt: "sorted_wrt (\<lambda>p q. \<not> f_lt (dp_boundary q) (dp_boundary p)) srt"
    using assms(2) c(3) by (auto simp: sorts_points_def srt_def)
  have set: "set srt = set (complexValue mg)" using m by (metis set_mset_mset)
  have dist: "distinct (map dp_boundary srt)" using c(2) m by (metis mset_eq_imp_distinct_iff mset_map)
  have nan: "list_all (\<lambda>p. no_nan (dp_boundary p)) srt" using c(3) set by (simp add: list_all_iff)
  note fin = drop_inf_finite [OF dist srt nan, folded pts_def]
  have ptset: "set pts = {q \<in> set (complexValue mg). dp_boundary q \<noteq> PInf}"
  proof -
    have "q \<in> set pts" if "q \<in> set srt" "dp_boundary q \<noteq> PInf" for q
      using that by (cases srt rule: rev_cases) (auto simp: pts_def drop_inf_def f_eq_PInf)
    then show ?thesis using fin set drop_inf_sub(1) [of srt] by (auto simp: pts_def)
  qed
  have psort: "sorted_wrt (\<lambda>p q. \<not> f_lt (dp_boundary q) (dp_boundary p)) pts" and pdist: "distinct (map dp_boundary pts)"
    using srt dist by (auto simp: pts_def intro: drop_inf_sub)
  obtain ks where ks: "map dp_value pts = map fnat ks" "sorted (ks @ [n])"
    using cumulative_sorted [OF assms(5) _ pdist psort] ptset by auto
  have stale: "\<not> pointIsStale mg" using assms(6,7) by (simp add: pointIsStale_def IsStaleNaN_def)
  have bc: "bucket_counts R None pts (fnat n) = map of_nat (diffs 0 ks n)"
    using bucket_counts_diffs [OF assms(1) c(1), of 0 ks pts None] ks by simp
  have un: "map unat (map of_nat (diffs 0 ks n) :: 64 word list) = diffs 0 ks n"
    using diffs_le [OF _ ks(2)] unat_small c(1) by (auto intro!: map_idI simp del: of_nat_diff) (meson le_trans unat_small)
  obtain p where p: "toDistributionPoint R mg = Some p" "ExplicitBounds p = map dp_boundary pts"
      "BucketCounts p = map of_nat (diffs 0 ks n)" "hp_Count p = of_nat n"
    using assms(3,4,6) stale bc f_u64_nat [OF c(1), of R]
    by (auto simp: toDistributionPoint_def explicit_buckets_def Let_def srt_def [symmetric] pts_def [symmetric])
  have len: "length pts = length ks" using ks(1) by (metis length_map)
  have "sorted_wrt f_lt (map dp_boundary pts)"
    using psort pdist ptset c(3) f_lt_total by (auto simp: sorted_wrt_iff_nth_less list_all_iff distinct_conv_nth) (metis (no_types, lifting) less_irrefl less_trans mem_Collect_eq nth_mem)
  moreover have "sum_list (map unat (take (Suc i) (BucketCounts p))) = ks ! i" if "i < length pts" for i
    using sum_take_diffs [of 0 ks n i] ks(2) that len un p(3) by (metis add_0 sorted_simps(2) take_map zero_le)
  moreover have "sum_list (map unat (BucketCounts p)) = n"
    using sum_diffs [of 0 ks n] ks(2) un p(3) by simp
  moreover have "unat (hp_Count p) = n" using p(4) unat_small [OF c(1)] by simp
  ultimately show ?thesis using p ptset ks(1) len by (intro exI [of _ p] exI [of _ pts] exI [of _ ks]) auto
qed

subsection \<open>A run time with these guarantees\<close>

fun insert_point :: "dataPoint \<Rightarrow> dataPoint list \<Rightarrow> dataPoint list" where
  "insert_point p [] = [p]"
| "insert_point p (q # qs) = (if f_lt (dp_boundary q) (dp_boundary p) then q # insert_point p qs else p # q # qs)"

definition exact_rt :: runtime where
  "exact_rt = \<lparr>rnd = Fin, nan_result = (\<lambda>_ _. 0), out_of_range_u64 = (\<lambda>_. 0), out_of_range_i64 = (\<lambda>_. 0),
     sort_Slice = (\<lambda>pts. foldr insert_point pts []), ParseFloat = (\<lambda>s. if s = ''+Inf'' then Inr PInf else Inr (Fin 1))\<rparr>"

lemma f_lt_facts:
  "f_lt x y \<Longrightarrow> \<not> f_lt y x"
  "no_nan y \<Longrightarrow> no_nan z \<Longrightarrow> \<not> f_lt y x \<Longrightarrow> \<not> f_lt z y \<Longrightarrow> \<not> f_lt z x"
  by (cases x; cases y; auto) (cases x; cases y; cases z; auto simp: no_nan_def)

lemma insert_point_set: "mset (insert_point p qs) = add_mset p (mset qs)"
  by (induction qs) auto

lemma insert_point_sorted:
  "list_all (\<lambda>p. no_nan (dp_boundary p)) (p # qs) \<Longrightarrow> sorted_wrt (\<lambda>p q. \<not> f_lt (dp_boundary q) (dp_boundary p)) qs
   \<Longrightarrow> sorted_wrt (\<lambda>p q. \<not> f_lt (dp_boundary q) (dp_boundary p)) (insert_point p qs)"
proof (induction qs)
  case (Cons q qs)
  have s: "set (insert_point p qs) = insert p (set qs)"
    using insert_point_set [of p qs] by (metis set_mset_add_mset_insert set_mset_mset)
  have t: "\<not> f_lt (dp_boundary r) (dp_boundary p)" if "\<not> f_lt (dp_boundary q) (dp_boundary p)" "r \<in> set qs" for r
    using f_lt_facts(2) [of "dp_boundary q" "dp_boundary r" "dp_boundary p"] that Cons.prems by (auto simp: list_all_iff)
  show ?case
  proof (cases "f_lt (dp_boundary q) (dp_boundary p)")
    case True
    then have "\<not> f_lt (dp_boundary p) (dp_boundary q)" by (rule f_lt_facts(1))
    moreover have "sorted_wrt (\<lambda>p q. \<not> f_lt (dp_boundary q) (dp_boundary p)) (insert_point p qs)"
      using Cons.IH Cons.prems by simp
    ultimately show ?thesis using True Cons.prems(2) by (simp add: s)
  next
    case False
    then show ?thesis using Cons.prems(2) t by simp
  qed
qed simp

lemma exact_rt_laws: "exact_integers exact_rt" "sorts_points exact_rt"
proof -
  have m: "mset (foldr insert_point pts []) = mset pts" for pts by (induction pts) (auto simp: insert_point_set)
  have "sorted_wrt (\<lambda>p q. \<not> f_lt (dp_boundary q) (dp_boundary p)) (foldr insert_point pts [])"
    if "list_all (\<lambda>p. no_nan (dp_boundary p)) pts" for pts
    using that
  proof (induction pts)
    case (Cons p pts)
    have "set (foldr insert_point pts []) = set pts" using m [of pts] by (metis set_mset_mset)
    then show ?case using Cons by (auto intro!: insert_point_sorted simp: list_all_iff)
  qed simp
  then show "sorts_points exact_rt" using m by (simp add: sorts_points_def exact_rt_def)
qed (simp add: exact_integers_def exact_rt_def)

definition demo_group :: metricGroup where
  "demo_group = (new_group MetricTypeHistogram [(''__name__'', ''h''), (''le'', ''1'')] 5)
     \<lparr>mg_count := fnat 7, hasCount := True,
      complexValue := [\<lparr>dp_value = fnat 7, dp_boundary = PInf\<rparr>, \<lparr>dp_value = fnat 3, dp_boundary = Fin 1\<rparr>]\<rparr>"

theorem histogram_counts_witness:
  "\<exists>p. toDistributionPoint exact_rt demo_group = Some p \<and> sum_list (map unat (BucketCounts p)) = 7 \<and> unat (hp_Count p) = 7"
proof -
  have "cumulative (complexValue demo_group) 7"
    unfolding cumulative_def demo_group_def by (simp add: no_nan_def)
  from histogram_counts [OF exact_rt_laws _ _ this] show ?thesis
    by (auto simp: demo_group_def new_group_def IsStaleNaN_def)
qed

section \<open>Attributes\<close>

lemma skip_names_dropWhile: "skip_names names n = dropWhile (\<lambda>x. x < n) names"
  by (induction names) auto

lemma sorted_names: "sorted (getSortedNotUsefulLabels mt)"
  by (auto simp: getSortedNotUsefulLabels_def notUsefulLabelsOther_def notUsefulLabelsHistogram_def notUsefulLabelsSummary_def
      split: metric_type.splits)

lemma sorted_dropWhile_less:
  fixes n :: "'a :: linorder"
  assumes "sorted names"
  shows "n \<in> set names \<longleftrightarrow> dropWhile (\<lambda>x. x < n) names \<noteq> [] \<and> hd (dropWhile (\<lambda>x. x < n) names) = n"
    and "n < m \<Longrightarrow> m \<in> set (dropWhile (\<lambda>x. x < n) names) \<longleftrightarrow> m \<in> set names"
    and "sorted (dropWhile (\<lambda>x. x < n) names)"
  using assms by (induction names) auto

lemma put_attributes:
  assumes "sorted names" and "sorted_wrt (<) (map fst labs)"
  shows "fmlookup (snd (foldl put_attribute (names, dest) labs)) k =
    (case map_of labs k of
       Some v \<Rightarrow> if k \<in> set names \<or> prefix ScopeLabelPrefix k \<or> v = '''' then fmlookup dest k else Some v
     | None \<Rightarrow> fmlookup dest k)"
  using assms
proof (induction labs arbitrary: names dest)
  case (Cons l labs)
  obtain n v where l: "l = (n, v)" by (cases l)
  let ?ns = "dropWhile (\<lambda>x. x < n) names"
  note d = sorted_dropWhile_less [OF Cons.prems(1)]
  have later: "n < fst l'" if "l' \<in> set labs" for l' using Cons.prems(2) that by (auto simp: l)
  have kn: "map_of labs k = None" if "k = n"
    using later that by (auto simp: map_of_eq_None_iff)
  have kk: "k \<in> set ?ns \<longleftrightarrow> k \<in> set names" if "map_of labs k \<noteq> None"
    using later that d(2) [of n k] by (auto dest: map_of_SomeD)
  define dest' where "dest' = (if n \<in> set names \<or> prefix ScopeLabelPrefix n \<or> v = '''' then dest else fmupd n v dest)"
  have step: "put_attribute (names, dest) l = (?ns, dest')"
    using d(1) [of n] by (auto simp: put_attribute_def l Let_def skip_names_dropWhile dest'_def)
  have "sorted_wrt (<) (map fst labs)" using Cons.prems(2) by simp
  from Cons.IH [OF d(3) [of n] this, of dest']
  have "fmlookup (snd (foldl put_attribute (names, dest) (l # labs))) k =
      (case map_of labs k of
         Some v \<Rightarrow> if k \<in> set ?ns \<or> prefix ScopeLabelPrefix k \<or> v = '''' then fmlookup dest' k else Some v
       | None \<Rightarrow> fmlookup dest' k)"
    by (simp only: foldl.simps step)
  then show ?case using kn kk by (auto simp: l dest'_def split: option.splits)
qed simp

text \<open>
  The attributes of a data point: for a label set in order of its names, the merge loop of
  \<open>populateAttributes\<close> keeps exactly the labels with a non-empty value that are not scope labels and not
  among the excluded names (the metric name, job, instance, scheme and path, and \<open>le\<close> or \<open>quantile\<close> for
  histograms and summaries), with their values.
\<close>

theorem populateAttributes_reference:
  assumes "sorted_wrt (<) (map fst labs)"
  shows "fmlookup (populateAttributes mt labs) k =
      (case map_of labs k of
         Some v \<Rightarrow> if k \<in> set (getSortedNotUsefulLabels mt) \<or> prefix ScopeLabelPrefix k \<or> v = '''' then None else Some v
       | None \<Rightarrow> None)
    \<and> set (getSortedNotUsefulLabels mt) =
        {''__name__'', ''instance'', ''__scheme__'', ''__metrics_path__'', ''job''} \<union>
        (if mt = MetricTypeHistogram then {''le''} else if mt = MetricTypeSummary then {''quantile''} else {})"
proof
  show "fmlookup (populateAttributes mt labs) k =
      (case map_of labs k of
         Some v \<Rightarrow> if k \<in> set (getSortedNotUsefulLabels mt) \<or> prefix ScopeLabelPrefix k \<or> v = '''' then None else Some v
       | None \<Rightarrow> None)"
    using put_attributes [OF sorted_names assms, of mt fmempty k] by (simp add: populateAttributes_def split: option.splits)
  show "set (getSortedNotUsefulLabels mt) =
        {''__name__'', ''instance'', ''__scheme__'', ''__metrics_path__'', ''job''} \<union>
        (if mt = MetricTypeHistogram then {''le''} else if mt = MetricTypeSummary then {''quantile''} else {})"
    by (cases mt) (auto simp: getSortedNotUsefulLabels_def notUsefulLabelsOther_def notUsefulLabelsHistogram_def notUsefulLabelsSummary_def)
qed

theorem populateAttributes_reference_witness:
  "fmlookup (populateAttributes MetricTypeHistogram [(''__name__'', ''h''), (''code'', ''200''), (''le'', ''1'')]) ''code'' = Some ''200''"
proof -
  have "sorted_wrt (<) (map fst [(''__name__'', ''h''), (''code'', ''200''), (''le'', ''1'')])" by simp
  from populateAttributes_reference [OF this, of MetricTypeHistogram "''code''"] show ?thesis
    by (auto simp: ScopeLabelPrefix_def)
qed

section \<open>Native and custom buckets\<close>

fun prefix_sums :: "64 word \<Rightarrow> 64 word list \<Rightarrow> 64 word list" where
  "prefix_sums c [] = []"
| "prefix_sums c (d # ds) = (c + d) # prefix_sums (c + d) ds"

text \<open>The reference: the counts laid out span by span, with a zero for every bucket of a gap.\<close>

fun lay_out :: "bool \<Rightarrow> Span list \<Rightarrow> 64 word list \<Rightarrow> 64 word list" where
  "lay_out first [] counts = []"
| "lay_out first (sp # sps) counts =
     gap first sp @ take (unat (Length sp)) counts @ lay_out False sps (drop (unat (Length sp)) counts)"

definition spans_length :: "Span list \<Rightarrow> nat" where
  "spans_length sps = sum_list (map (\<lambda>sp. unat (Length sp)) sps)"

lemma prefix_sums_drop: "n \<le> length ds \<Longrightarrow> drop n (prefix_sums c ds) = prefix_sums (c + sum_list (take n ds)) (drop n ds)"
proof (induction ds arbitrary: c n)
  case (Cons d ds)
  then show ?case by (cases n) (simp_all add: add.assoc)
qed simp

lemma length_prefix_sums [simp]: "length (prefix_sums c ds) = length ds"
  by (induction ds arbitrary: c) auto

lemma span_deltas_spec:
  "span_deltas n ds c =
     (if n \<le> length ds then Inr (take n (prefix_sums c ds), drop n ds, c + sum_list (take n ds)) else Inl IndexOutOfRange)"
proof (induction ds arbitrary: n c)
  case Nil
  then show ?case by (cases n) auto
next
  case (Cons d ds)
  then show ?case by (cases n) (auto simp: add.assoc)
qed

lemma delta_buckets_spec:
  "delta_buckets first sps ds c =
     (if spans_length sps \<le> length ds then Inr (lay_out first sps (prefix_sums c ds)) else Inl IndexOutOfRange)"
proof (induction sps arbitrary: first ds c)
  case (Cons sp sps)
  then show ?case by (auto simp: span_deltas_spec spans_length_def prefix_sums_drop)
qed (simp add: spans_length_def)

lemma span_counts_spec:
  "span_counts R n cs = (if n \<le> length cs then Inr (map (f_u64 R) (take n cs), drop n cs) else Inl IndexOutOfRange)"
proof (induction cs arbitrary: n)
  case Nil
  then show ?case by (cases n) auto
next
  case (Cons c cs)
  then show ?case by (cases n) auto
qed

lemma absolute_buckets_spec:
  "absolute_buckets R first sps cs =
     (if spans_length sps \<le> length cs then Inr (lay_out first sps (map (f_u64 R) cs)) else Inl IndexOutOfRange)"
proof (induction sps arbitrary: first cs)
  case (Cons sp sps)
  then show ?case by (auto simp: span_counts_spec spans_length_def take_map drop_map)
qed (simp add: spans_length_def)

lemma lay_out_length:
  "spans_length sps \<le> length cs \<Longrightarrow>
     length (lay_out first sps cs) = spans_length sps + (case sps of [] \<Rightarrow> 0 | sp # rest \<Rightarrow>
       (if first then 0 else nat (sint (Offset sp))) + sum_list (map (\<lambda>sp. nat (sint (Offset sp))) rest))"
proof (induction sps arbitrary: first cs)
  case (Cons sp sps)
  have "spans_length sps \<le> length (drop (unat (Length sp)) cs)" using Cons.prems by (simp add: spans_length_def)
  from Cons.IH [OF this, of False] Cons.prems show ?case
    by (cases sps) (simp_all add: spans_length_def gap_def)
qed (simp add: spans_length_def)

text \<open>
  C23: The buckets of a native histogram, integer (deltas, added with 64-bit wrap-around) or float: both
  conversions lay the absolute counts out span by span, with one zero bucket for each bucket of the
  gaps between spans, so that the position of every count is the one its span says; they panic exactly
  when the spans promise more buckets than there are counts.
\<close>

theorem native_buckets_laid_out:
  "convertDeltaBuckets spans deltas =
      (if spans_length spans \<le> length deltas then Inr (lay_out True spans (prefix_sums 0 deltas)) else Inl IndexOutOfRange)
   \<and> convertAbsoluteBuckets R spans counts =
      (if spans_length spans \<le> length counts then Inr (lay_out True spans (map (f_u64 R) counts)) else Inl IndexOutOfRange)
   \<and> (spans_length spans \<le> length deltas \<longrightarrow>
        length (lay_out True spans (prefix_sums 0 deltas)) =
          spans_length spans + sum_list (map (\<lambda>sp. nat (sint (Offset sp))) (tl spans)))"
  using lay_out_length [of spans "prefix_sums 0 deltas" True]
  by (cases spans) (simp_all add: convertDeltaBuckets_def convertAbsoluteBuckets_def delta_buckets_spec absolute_buckets_spec)

definition demo_spans :: "Span list" where
  "demo_spans = [\<lparr>Offset = 0, Length = 1\<rparr>, \<lparr>Offset = 1, Length = 1\<rparr>]"

theorem native_buckets_laid_out_witness:
  "convertDeltaBuckets demo_spans [5, 2] = Inr [5, 0, 7] \<and> convertDeltaBuckets demo_spans [5] = Inl IndexOutOfRange"
  using native_buckets_laid_out [of demo_spans "[5, 2]" exact_rt "[]"] native_buckets_laid_out [of demo_spans "[5]" exact_rt "[]"]
  by (simp add: demo_spans_def spans_length_def gap_def)

text \<open>
  The two conversions of custom buckets do not agree: on the same histogram, with a gap between its two
  spans, the integer variant gives each count its position, while the float variant gives the second span
  the first span's counts again.
\<close>

definition demo_nhcb :: Histogram where
  "demo_nhcb = \<lparr>h_Schema = - 53, h_Count = 12, h_Sum = fnat 20, h_ZeroThreshold = Fin 0, h_ZeroCount = 0,
     h_PositiveSpans = demo_spans, h_PositiveBuckets = [5, 2], h_NegativeSpans = [], h_NegativeBuckets = [],
     h_CustomValues = [fnat 1, fnat 2], h_GaugeType = False\<rparr>"

definition demo_float_nhcb :: FloatHistogram where
  "demo_float_nhcb = \<lparr>fh_Schema = - 53, fh_Count = fnat 12, fh_Sum = fnat 20, fh_ZeroThreshold = Fin 0, fh_ZeroCount = Fin 0,
     fh_PositiveSpans = demo_spans, fh_PositiveBuckets = [fnat 5, fnat 7], fh_NegativeSpans = [], fh_NegativeBuckets = [],
     fh_CustomValues = [fnat 1, fnat 2], fh_GaugeType = False\<rparr>"

text \<open>
  The same custom-bucket histogram (counts 5 and 7, separated by an empty bucket) converted by the
  two functions: the integer variant yields 5, 0, 7; the float variant reads its counts with the index of
  the inner loop, which restarts at every span, and yields 5, 0, 5.
\<close>

theorem nhcb_float_counts_repeat:
  "convertNHCBBDeltBuckets demo_nhcb = [5, 0, 7]
   \<and> convertNHCBAbsoluteBuckets R demo_float_nhcb = [5, 0, 5]
   \<and> map (f_u64 R) (fh_PositiveBuckets demo_float_nhcb) = prefix_sums 0 (h_PositiveBuckets demo_nhcb)"
proof -
  have "f_u64 R (fnat 5) = 5" "f_u64 R (fnat 7) = 7"
    using f_u64_nat [of 5 R] f_u64_nat [of 7 R] by simp_all
  then show ?thesis
    by (simp add: convertNHCBBDeltBuckets_def convertNHCBAbsoluteBuckets_def demo_nhcb_def demo_float_nhcb_def demo_spans_def
        nhcb_delta_span_def nhcb_count_span_def set_bucket_def Let_def numeral_eq_Suc)
qed

section \<open>Groups\<close>

text \<open>Each group is in the order list once, and has the type of its family.\<close>

definition family_ok :: "metricFamily \<Rightarrow> bool" where
  "family_ok mf \<longleftrightarrow>
     enum (groupOrders mf) (groups mf) \<and> (\<forall>k mg. fmlookup (groups mf) k = Some mg \<longrightarrow> mg_mtype mg = mf_mtype mf)"

text \<open>What a method that writes to one group may change: the group itself, which is appended when it is
  new.\<close>

definition touches :: "64 word \<Rightarrow> metricFamily \<Rightarrow> metricFamily \<Rightarrow> bool" where
  "touches k mf mf' \<longleftrightarrow>
     family_ok mf' \<and> mf_name mf' = mf_name mf \<and> mf_mtype mf' = mf_mtype mf \<and> mf_metadata mf' = mf_metadata mf \<and>
     (\<forall>j. j \<noteq> k \<longrightarrow> fmlookup (groups mf') j = fmlookup (groups mf) j) \<and>
     (fmlookup (groups mf) k \<noteq> None \<longrightarrow> fmlookup (groups mf') k \<noteq> None) \<and>
     groupOrders mf' = groupOrders mf @ (if fmlookup (groups mf') k \<noteq> None \<and> fmlookup (groups mf) k = None then [k] else [])"

lemma touches_refl: "family_ok mf \<Longrightarrow> touches k mf mf"
  by (auto simp: touches_def)

lemma touches_trans: "touches k mf mf1 \<Longrightarrow> touches k mf1 mf2 \<Longrightarrow> touches k mf mf2"
  unfolding touches_def by auto

lemma load_touches:
  assumes "family_ok mf" and "loadMetricGroupOrCreate k labs t mf = (mf', mg)"
  shows "touches k mf mf'" and "fmlookup (groups mf') k = Some mg" and "mg_mtype mg = mf_mtype mf"
  using assms
  by (auto simp: loadMetricGroupOrCreate_def Let_def touches_def family_ok_def enum_def new_group_def fmdom'_notI mem_fmdom'
      split: option.splits if_splits)

lemma put_touches:
  assumes "family_ok mf" and "fmlookup (groups mf) k \<noteq> None" and "mg_mtype mg = mf_mtype mf"
  shows "touches k mf (put_group k mg mf)"
  using assms by (auto simp: put_group_def touches_def family_ok_def enum_def mem_fmdom')

text \<open>The common shape: load the group, then perhaps store an update of it.\<close>

lemma load_put_touches:
  assumes "family_ok mf" and "loadMetricGroupOrCreate k labs t mf = (mf1, mg)"
    and "mf2 = mf1 \<or> (\<exists>mg'. mg_mtype mg' = mg_mtype mg \<and> mf2 = put_group k mg' mf1)"
  shows "touches k mf mf2"
proof -
  note l = load_touches [OF assms(1,2)]
  have "touches k mf1 mf2"
    using assms(3) put_touches [of mf1 k] l touches_refl by (auto simp: touches_def)
  with l(1) show ?thesis by (rule touches_trans)
qed

end
