(* ===== verification/TransactionProps.thy ===== *)
theory TransactionProps
  imports Transaction MetricProps
begin

text \<open>
  What a transaction guarantees: each method of a family writes to the group of its series alone, every
  call of the appender keeps the families well-formed and attached to a known resource, and \<open>Commit\<close>
  sends exactly the metrics of the families.
\<close>

section \<open>One family\<close>

lemma add_to_group_mtype: "add_to_group R tbl mf mn labs t v mg = Inr mg' \<Longrightarrow> mg_mtype mg' = mg_mtype mg"
  by (auto simp: add_to_group_def map_sum_def split: if_splits sum.splits)

lemma native_to_group_mtype: "native_to_group R mn h fh mg = Inr mg' \<Longrightarrow> mg_mtype mg' = mg_mtype mg"
  by (auto simp: native_to_group_def split: if_splits option.splits)

lemma nhcb_to_group_mtype: "nhcb_to_group R mn h fh mg = (e, mg') \<Longrightarrow> mg_mtype mg' = mg_mtype mg"
  by (auto simp: nhcb_to_group_def Let_def split: option.splits)

lemma addSeries_touches:
  assumes "family_ok mf"
  shows "touches k mf (fst (addSeries R tbl k mn labs t v mf))"
proof -
  obtain mf1 mg where l: "loadMetricGroupOrCreate k labs t mf = (mf1, mg)" by fastforce
  show ?thesis
    by (rule load_put_touches [OF assms l])
      (auto simp: addSeries_def l dest: add_to_group_mtype split: sum.splits)
qed

lemma addCreationTimestamp_touches:
  assumes "family_ok mf"
  shows "touches k mf (addCreationTimestamp R k labs t ct mf)"
proof -
  obtain mf1 mg where l: "loadMetricGroupOrCreate k labs t mf = (mf1, mg)" by fastforce
  show ?thesis
    by (rule load_put_touches [OF assms l]) (simp add: addCreationTimestamp_def l, metis metricGroup.select_convs(1) metricGroup.surjective metricGroup.update_convs(8))
qed

lemma addExponentialHistogramSeries_touches:
  assumes "family_ok mf"
  shows "touches k mf (fst (addExponentialHistogramSeries R k mn labs t h fh mf))"
proof -
  obtain mf1 mg where l: "loadMetricGroupOrCreate k labs t mf = (mf1, mg)" by fastforce
  show ?thesis
    by (rule load_put_touches [OF assms l])
      (auto simp: addExponentialHistogramSeries_def l dest!: native_to_group_mtype split: sum.splits)
qed

lemma addNHCBSeries_touches:
  assumes "family_ok mf"
  shows "touches k mf (fst (addNHCBSeries R k mn labs t h fh mf))"
proof -
  obtain mf1 mg where l: "loadMetricGroupOrCreate k labs t mf = (mf1, mg)" by fastforce
  show ?thesis
    by (rule load_put_touches [OF assms l])
      (auto simp: addNHCBSeries_def l dest!: nhcb_to_group_mtype split: prod.splits)
qed

lemma addExemplar_touches:
  assumes "family_ok mf"
  shows "touches k mf (addExemplar k e mf)"
  using assms put_touches [OF assms] touches_refl [OF assms]
  by (auto simp: addExemplar_def family_ok_def split: option.splits)

lemmas family_methods_touch = addSeries_touches addCreationTimestamp_touches addExponentialHistogramSeries_touches
  addNHCBSeries_touches addExemplar_touches

text \<open>Both ways of adding a point record the creation timestamp first.\<close>

lemma with_creation_touches:
  assumes "family_ok mf" and "\<And>mf1. family_ok mf1 \<Longrightarrow> touches k mf1 (f mf1)"
  shows "touches k mf (f (if st \<noteq> 0 then addCreationTimestamp R k labs ts st mf else mf))"
proof -
  have t: "touches k mf (if st \<noteq> 0 then addCreationTimestamp R k labs ts st mf else mf)" (is "touches k mf ?mf1")
    using assms(1) addCreationTimestamp_touches touches_refl by simp
  then have "touches k ?mf1 (f ?mf1)" using assms(2) by (simp add: touches_def)
  with t show ?thesis by (rule touches_trans)
qed

lemma add_sample_touches:
  assumes "family_ok mf"
  shows "touches (getSeriesRef X labs (mf_mtype mf)) mf (fst (add_sample X t labs mn ts v st mf))"
  unfolding add_sample_def Let_def by (rule with_creation_touches [OF assms]) (rule addSeries_touches)

lemma add_histogram_touches:
  assumes "family_ok mf"
  shows "touches (getSeriesRef X labs (mf_mtype mf)) mf (fst (add_histogram X labs mn ts h fh sch st mf))"
proof (cases "sch = CustomBucketsSchema")
  case True
  then show ?thesis unfolding add_histogram_def Let_def
    by (simp only: simp_thms if_True) (rule with_creation_touches [OF assms], rule addNHCBSeries_touches)
next
  case False
  then show ?thesis unfolding add_histogram_def Let_def
    by (simp only: simp_thms if_False) (rule with_creation_touches [OF assms], rule addExponentialHistogramSeries_touches)
qed

section \<open>The table of families\<close>

lemma scope_families_set [simp]:
  "scope_families (set_families key scope fm t) rk sc = (if rk = key \<and> sc = scope then fm else scope_families t rk sc)"
  by (simp add: scope_families_def set_families_def get0_def)

lemma family_at_set [simp]:
  "family_at (set_families key scope fm t) rk sc k = (if rk = key \<and> sc = scope then fmlookup fm k else family_at t rk sc k)"
  by (simp add: family_at_def)

lemma set_families_frame [simp]:
  "nodeResources (set_families key scope fm t) = nodeResources t" "isNew (set_families key scope fm t) = isNew t"
  "mc (set_families key scope fm t) = mc t" "internalMD (set_families key scope fm t) = internalMD t"
  "addingNativeHistogram (set_families key scope fm t) = addingNativeHistogram t"
  "addingNHCB (set_families key scope fm t) = addingNHCB t" "ctx (set_families key scope fm t) = ctx t"
  "scopeAttributes (set_families key scope fm t) = scopeAttributes t"
  "fmdom' (families (set_families key scope fm t)) = insert key (fmdom' (families t))"
  by (simp_all add: set_families_def)

text \<open>
  The invariant: a family is stored under its own name and its groups are in order; a resource that has
  families is known; and a transaction that has not started has none.
\<close>

definition tx_ok :: "transaction \<Rightarrow> bool" where
  "tx_ok t \<longleftrightarrow>
     (\<forall>rk sc k mf. family_at t rk sc k = Some mf \<longrightarrow> family_ok mf \<and> mf_name mf = fk_name k) \<and>
     fmdom' (families t) \<subseteq> fmdom' (nodeResources t) \<and> (isNew t \<longrightarrow> families t = fmempty)"

definition ready :: "resourceKey \<Rightarrow> transaction \<Rightarrow> bool" where
  "ready key t \<longleftrightarrow> tx_ok t \<and> \<not> isNew t \<and> key \<in> fmdom' (nodeResources t)"

lemma family_resource:
  assumes "tx_ok t" and "family_at t rk sc k = Some mf"
  shows "rk \<in> fmdom' (nodeResources t)"
proof -
  have "rk \<in> fmdom' (families t)"
    using assms(2) by (auto simp: family_at_def scope_families_def get0_def fmlookup_dom'_iff split: option.splits)
  then show ?thesis using assms(1) by (auto simp: tx_ok_def)
qed

text \<open>Operations that write only the other fields.\<close>

lemma family_at_cong: "families t' = families t \<Longrightarrow> family_at t' = family_at t"
  by (simp add: family_at_def scope_families_def fun_eq_iff)

lemma tx_ok_frame:
  assumes "tx_ok t" and "families t' = families t" and "fmdom' (nodeResources t) \<subseteq> fmdom' (nodeResources t')"
    and "isNew t' \<longrightarrow> isNew t"
  shows "tx_ok t'"
  using assms family_at_cong [OF assms(2)] unfolding tx_ok_def by auto

lemma ready_frame:
  assumes "ready key t" and "families t' = families t" and "fmdom' (nodeResources t) \<subseteq> fmdom' (nodeResources t')"
    and "isNew t' \<longrightarrow> isNew t"
  shows "ready key t'"
  using assms tx_ok_frame [OF _ assms(2-4)] by (auto simp: ready_def)

lemma ready_set_families:
  assumes "ready key t" and "\<forall>k mf. fmlookup fm k = Some mf \<longrightarrow> family_ok mf \<and> mf_name mf = fk_name k"
  shows "ready key (set_families key scope fm t)"
  using assms unfolding ready_def tx_ok_def by (auto split: if_splits)

lemma ready_families: "ready key t \<Longrightarrow> fmlookup (scope_families t rk sc) k = Some mf \<Longrightarrow> family_ok mf \<and> mf_name mf = fk_name k"
  by (simp add: ready_def tx_ok_def family_at_def)

lemma newMetricFamily_fresh:
  "newMetricFamily tbl mn store ex nhcb = (tbl', mf) \<Longrightarrow>
     groups mf = fmempty \<and> groupOrders mf = [] \<and> family_ok mf \<and> mf_name mf = snd (metadataForMetric tbl mn store)"
  by (auto simp: newMetricFamily_def Let_def family_ok_def enum_def split: prod.splits)

lemma getOrCreate_ready:
  assumes "ready key t" and "getOrCreateMetricFamily key scope mn t = (t', k)"
  shows "ready key t'"
proof -
  let ?fm = "scope_families t key scope"
  obtain tbl mf where n: "newMetricFamily (internalMD t) mn (mc t) (addingNativeHistogram t) (addingNHCB t) = (tbl, mf)" by fastforce
  have fams: "\<forall>k mf. fmlookup ?fm k = Some mf \<longrightarrow> family_ok mf \<and> mf_name mf = fk_name k"
    using assms(1) ready_families by blast
  have r1: "ready key (set_families key scope ?fm t)" by (rule ready_set_families [OF assms(1) fams])
  have t2: "ready key ((set_families key scope ?fm t)\<lparr>internalMD := tbl\<rparr>)" by (rule ready_frame [OF r1]) simp_all
  have "ready key (set_families key scope (fmupd \<lparr>isExponentialHistogram = addingNativeHistogram t, fk_name = mf_name mf\<rparr> mf ?fm)
      ((set_families key scope ?fm t)\<lparr>internalMD := tbl\<rparr>))"
    by (rule ready_set_families [OF t2]) (use fams newMetricFamily_fresh [OF n] in auto)
  with r1 assms(2) n show ?thesis
    by (auto simp: getOrCreateMetricFamily_def Let_def split: if_splits)
qed

text \<open>
  The contract of the methods a transaction calls on a family: each writes to the group of one series.
  The transaction relies on nothing else of them.
\<close>

locale family_writer =
  fixes series :: "metricFamily \<Rightarrow> 64 word" and write_op :: "metricFamily \<Rightarrow> metricFamily"
  assumes writes: "family_ok mf \<Longrightarrow> touches (series mf) mf (write_op mf)"
begin

lemma update_ready:
  assumes "ready key t"
  shows "ready key (update_family key scope k write_op t)"
proof (cases "fmlookup (scope_families t key scope) k")
  case (Some mf)
  have "family_ok mf \<and> mf_name mf = fk_name k" by (rule ready_families [OF assms Some])
  then have "family_ok (write_op mf) \<and> mf_name (write_op mf) = fk_name k" using writes [of mf] by (auto simp: touches_def)
  with Some ready_set_families [OF assms, of "fmupd k (write_op mf) (scope_families t key scope)"] ready_families [OF assms]
  show ?thesis by (auto simp: update_family_def)
qed (simp add: update_family_def assms)

lemma update_other: "(rk, sc, j) \<noteq> (key, scope, k) \<Longrightarrow> family_at (update_family key scope k write_op t) rk sc j = family_at t rk sc j"
  by (auto simp: update_family_def family_at_def split: option.splits)

end

interpretation sample: family_writer "\<lambda>mf. getSeriesRef X labs (mf_mtype mf)" "\<lambda>mf. fst (add_sample X t labs mn ts v st mf)"
  for X t labs mn ts v st
  by unfold_locales (rule add_sample_touches)

interpretation hist: family_writer "\<lambda>mf. getSeriesRef X labs (mf_mtype mf)" "\<lambda>mf. fst (add_histogram X labs mn ts h fh sch st mf)"
  for X labs mn ts h fh sch st
  by unfold_locales (rule add_histogram_touches)

interpretation stale: family_writer "\<lambda>mf. getSeriesRef X labs (mf_mtype mf)"
    "\<lambda>mf. fst (addExponentialHistogramSeries (rt X) (getSeriesRef X labs (mf_mtype mf)) mn labs ts (Some stale_histogram) None mf)"
  for X labs mn ts
  by unfold_locales (rule addExponentialHistogramSeries_touches)

interpretation created: family_writer "\<lambda>_. s" "addCreationTimestamp R s labs ts st" for R s labs ts st
  by unfold_locales (rule addCreationTimestamp_touches)

interpretation exemplar: family_writer "\<lambda>mf. getSeriesRef X labs (mf_mtype mf)" "\<lambda>mf. addExemplar (getSeriesRef X labs (mf_mtype mf)) e mf"
  for X labs e
  by unfold_locales (rule addExemplar_touches)

section \<open>The calls of the appender\<close>

lemma initTransaction_ready:
  assumes "tx_ok t" and "initTransaction X labs t = (t', r)"
  shows "tx_ok t'" and "r = Inr rKey \<Longrightarrow> ready rKey t'"
proof -
  have ok: "tx_ok (t\<lparr>mc := m\<rparr>)" for m by (rule tx_ok_frame [OF assms(1)]) simp_all
  have keep: "tx_ok (t\<lparr>mc := m, isNew := False\<rparr>)" for m by (rule tx_ok_frame [OF assms(1)]) simp_all
  have grow: "tx_ok (t\<lparr>mc := m, nodeResources := fmupd q a (nodeResources t), isNew := False\<rparr>)" for m q a
    by (rule tx_ok_frame [OF assms(1)]) auto
  show "tx_ok t'" using assms ok keep grow
    by (auto simp: initTransaction_def Let_def split: option.splits if_splits sum.splits)
  then show "r = Inr rKey \<Longrightarrow> ready rKey t'" using assms(2)
    by (auto simp: initTransaction_def Let_def ready_def fmlookup_dom'_iff split: option.splits if_splits sum.splits)
qed

lemma prepareLabels_ready:
  assumes "tx_ok t" and "prepareLabels X labs t = (t', r)"
  shows "tx_ok t'" and "r = Inr (labs', rKey, mn) \<Longrightarrow> ready rKey t'"
proof -
  obtain t1 q where i: "initTransaction X (merge_external X t labs) t = (t1, q)" by fastforce
  note i' = initTransaction_ready [OF assms(1) i]
  show "tx_ok t'" and "r = Inr (labs', rKey, mn) \<Longrightarrow> ready rKey t'" using assms i i'
    by (auto simp: prepareLabels_def Let_def split: sum.splits option.splits if_splits)
qed

lemma flags_ok: "tx_ok t \<Longrightarrow> tx_ok (t\<lparr>addingNativeHistogram := a, addingNHCB := b\<rparr>)"
  by (erule tx_ok_frame) simp_all

lemma flags_ready: "ready key t \<Longrightarrow> ready key (t\<lparr>addingNativeHistogram := a, addingNHCB := b\<rparr>)"
  by (erule ready_frame) simp_all

lemma addScopeAttributes_ready: "ready key t \<Longrightarrow> ready key (addScopeAttributesFromLabels q scope attrs t)"
  by (erule ready_frame) (auto simp: addScopeAttributesFromLabels_def Let_def split: option.splits)

lemma AddTargetInfo_ready: "ready key t \<Longrightarrow> ready key (AddTargetInfo q labs t)"
  by (erule ready_frame) (auto simp: AddTargetInfo_def Let_def split: option.splits)

lemma addScopeInfo_ready: "ready key t \<Longrightarrow> ready key (addScopeInfo q labs t)"
  by (erule ready_frame) (auto simp: addScopeInfo_def Let_def split: prod.splits)

lemma staleness_ready:
  assumes "ready key t" and "detectAndStoreNativeHistogramStaleness X ts key scope mn labs t = (t', d)"
  shows "ready key t'"
proof -
  let ?t = "t\<lparr>addingNativeHistogram := True, addingNHCB := False\<rparr>"
  obtain t1 k where g: "getOrCreateMetricFamily key scope mn ?t = (t1, k)" by fastforce
  have r: "ready key t1" by (rule getOrCreate_ready [OF flags_ready [OF assms(1)] g])
  have "ready key (update_family key scope k (\<lambda>mf. fst (addExponentialHistogramSeries (rt X) (getSeriesRef X labs (mf_mtype mf))
       mn labs ts (Some stale_histogram) None mf)) t1)"
    by (rule stale.update_ready [OF r])
  with r g assms show ?thesis
    by (auto simp: detectAndStoreNativeHistogramStaleness_def split: if_splits option.splits)
qed

lemma addSampleDatapoint_ready:
  assumes "ready key t" and "addSampleDatapoint X key labs mn ts v st t = (t', r)"
  shows "ready key t'"
proof -
  obtain scope attrs where sc: "getScopeID X labs = (scope, attrs)" by fastforce
  let ?t = "addScopeAttributesFromLabels key scope attrs t"
  have r0: "ready key ?t" by (rule addScopeAttributes_ready [OF assms(1)])
  obtain t1 d where d: "(if IsStaleNaN v then detectAndStoreNativeHistogramStaleness X ts key scope mn labs ?t else (?t, False)) = (t1, d)"
    by fastforce
  have r1: "ready key t1" using d r0 staleness_ready by (auto split: if_splits)
  obtain t2 k where g: "getOrCreateMetricFamily key scope mn t1 = (t2, k)" by fastforce
  have r2: "ready key t2" by (rule getOrCreate_ready [OF r1 g])
  have r3: "ready key (update_family key scope k (\<lambda>mf. fst (add_sample X t2 labs mn ts v st mf)) t2)"
    by (rule sample.update_ready [OF r2])
  show ?thesis using assms(2) AddTargetInfo_ready [OF assms(1)] addScopeInfo_ready [OF assms(1)] r1 r2 r3
    by (auto simp: addSampleDatapoint_def sc d g Let_def split: if_splits option.splits)
qed

lemma addHistogramDatapoint_ready:
  assumes "ready key t" and "addHistogramDatapoint X key labs mn ts h fh sch st t = (t', r)"
  shows "ready key t'"
proof -
  obtain scope attrs where sc: "getScopeID X labs = (scope, attrs)" by fastforce
  obtain t2 k where g: "getOrCreateMetricFamily key scope mn (addScopeAttributesFromLabels key scope attrs t) = (t2, k)" by fastforce
  have r2: "ready key t2" by (rule getOrCreate_ready [OF addScopeAttributes_ready [OF assms(1)] g])
  have "ready key (update_family key scope k (\<lambda>mf. fst (add_histogram X labs mn ts h fh sch st mf)) t2)"
    by (rule hist.update_ready [OF r2])
  with r2 show ?thesis using assms(2)
    by (auto simp: addHistogramDatapoint_def sc g split: option.splits)
qed

lemma setStartTimestamp_ok: "tx_ok t \<Longrightarrow> tx_ok (fst (setStartTimestamp X labs ts st t))"
proof -
  assume ok: "tx_ok t"
  obtain t1 q where p: "prepareLabels X labs t = (t1, q)" by fastforce
  note p' = prepareLabels_ready [OF ok p]
  show ?thesis
  proof (cases q)
    case (Inl e)
    then show ?thesis using p p'(1) by (simp add: setStartTimestamp_def)
  next
    case (Inr r)
    then obtain labs' key mn where q: "q = Inr (labs', key, mn)" by (cases r) auto
    obtain scope attrs where sc: "getScopeID X labs' = (scope, attrs)" by fastforce
    obtain t2 k where g: "getOrCreateMetricFamily key scope mn (addScopeAttributesFromLabels key scope attrs t1) = (t2, k)" by fastforce
    have r2: "ready key t2" by (rule getOrCreate_ready [OF addScopeAttributes_ready [OF p'(2) [OF q]] g])
    have "ready key (update_family key scope k (addCreationTimestamp (rt X) s labs' ts st) t2)" for s
      by (rule created.update_ready [OF r2])
    with r2 show ?thesis by (auto simp: setStartTimestamp_def p q sc g ready_def Let_def split: option.splits)
  qed
qed

lemma appendExemplar_ok: "tx_ok t \<Longrightarrow> tx_ok (fst (appendExemplar X labs e t))"
proof -
  assume ok: "tx_ok t"
  obtain t1 q where p: "initTransaction X labs t = (t1, q)" by fastforce
  note p' = initTransaction_ready [OF ok p]
  show ?thesis
  proof (cases q)
    case (Inl e)
    then show ?thesis using p p'(1) ok by (simp add: appendExemplar_def)
  next
    case (Inr key)
    let ?labs = "filter (\<lambda>l. snd l \<noteq> '''') labs"
    obtain scope attrs where sc: "getScopeID X ?labs = (scope, attrs)" by fastforce
    obtain t2 k where g: "getOrCreateMetricFamily key scope (label_Get ?labs ''__name__'')
        (addScopeAttributesFromLabels key scope attrs t1) = (t2, k)" by fastforce
    have r2: "ready key t2" by (rule getOrCreate_ready [OF addScopeAttributes_ready [OF p'(2) [OF Inr]] g])
    have "ready key (update_family key scope k (\<lambda>mf. addExemplar (getSeriesRef X ?labs (mf_mtype mf)) e mf) t2)"
      by (rule exemplar.update_ready [OF r2])
    with p'(1) ok show ?thesis by (auto simp: appendExemplar_def p Inr sc g Let_def ready_def split: option.splits)
  qed
qed

lemma append_ok: "tx_ok t \<Longrightarrow> tx_ok (fst (tx_append X labs ts v t))"
proof -
  assume "tx_ok t"
  then have ok: "tx_ok (t\<lparr>addingNativeHistogram := False, addingNHCB := False\<rparr>)" by (rule flags_ok)
  obtain t1 q where p: "prepareLabels X labs (t\<lparr>addingNativeHistogram := False, addingNHCB := False\<rparr>) = (t1, q)" by fastforce
  note p' = prepareLabels_ready [OF ok p]
  show ?thesis using p p'(1) addSampleDatapoint_ready [OF p'(2)]
    by (auto simp: tx_append_def ready_def split: sum.splits prod.splits)
qed

lemma appendHistogram_ok: "tx_ok t \<Longrightarrow> tx_ok (fst (appendHistogram X labs ts h fh t))"
proof -
  assume "tx_ok t"
  then have ok: "tx_ok (t\<lparr>addingNativeHistogram := True, addingNHCB := (schema_of h fh = - 53)\<rparr>)" by (rule flags_ok)
  obtain t1 q where p: "prepareLabels X labs (t\<lparr>addingNativeHistogram := True, addingNHCB := (schema_of h fh = - 53)\<rparr>) = (t1, q)"
    by fastforce
  note p' = prepareLabels_ready [OF ok p]
  show ?thesis using p p'(1) addHistogramDatapoint_ready [OF p'(2)]
    by (auto simp: appendHistogram_def ready_def split: sum.splits prod.splits)
qed

lemma Append_ok: "tx_ok t \<Longrightarrow> tx_ok (fst (Append X labs st ts v h fh exs t))"
proof -
  assume ok: "tx_ok t"
  have fold: "tx_ok u \<Longrightarrow> tx_ok (foldl (\<lambda>t e. fst (appendExemplar X labs e t)) u es)" for u es
    by (induction es arbitrary: u) (simp_all add: appendExemplar_ok)
  obtain t1 q where p: "prepareLabels X labs t = (t1, q)" by fastforce
  note p' = prepareLabels_ready [OF ok p]
  show ?thesis
  proof (cases q)
    case (Inl e)
    then show ?thesis using p p'(1) by (simp add: Append_def)
  next
    case (Inr r)
    then obtain labs' key mn where q: "q = Inr (labs', key, mn)" by (cases r) auto
    define r2 where "r2 = (if h \<noteq> None \<or> fh \<noteq> None
               then addHistogramDatapoint X key labs' mn ts h fh (schema_of h fh) st
                 (t1\<lparr>addingNativeHistogram := True, addingNHCB := (schema_of h fh = CustomBucketsSchema)\<rparr>)
               else addSampleDatapoint X key labs' mn ts v st
                 (t1\<lparr>addingNativeHistogram := False, addingNHCB := False\<rparr>))"
    have "ready key (fst r2)"
      unfolding r2_def
      by (auto intro!: addHistogramDatapoint_ready [OF _ prod.collapse [symmetric]]
          addSampleDatapoint_ready [OF _ prod.collapse [symmetric]] flags_ready p'(2) [OF q])
    moreover have "fst (Append X labs st ts v h fh exs t) = foldl (\<lambda>t e. fst (appendExemplar X labs e t)) (fst r2) exs"
      by (simp add: Append_def p q r2_def split_beta)
    ultimately show ?thesis by (simp add: fold ready_def)
  qed
qed

text \<open>The states a scrape can bring a transaction to, by any sequence of calls of the appender.\<close>

inductive tx_reach :: "recv_lib \<Rightarrow> transaction \<Rightarrow> bool" for X where
  start: "tx_reach X (newTransaction c ext trim useMD ign tbl)"
| sample: "tx_reach X t \<Longrightarrow> tx_reach X (fst (tx_append X labs ts v t))"
| histogram: "tx_reach X t \<Longrightarrow> tx_reach X (fst (appendHistogram X labs ts h fh t))"
| start_sample: "tx_reach X t \<Longrightarrow> tx_reach X (fst (appendSTZeroSample X labs ts st t))"
| start_histogram: "tx_reach X t \<Longrightarrow> tx_reach X (fst (appendHistogramSTZeroSample X labs ts st h fh t))"
| exemplar: "tx_reach X t \<Longrightarrow> tx_reach X (fst (appendExemplar X labs e t))"
| sample_v2: "tx_reach X t \<Longrightarrow> tx_reach X (fst (Append X labs st ts v h fh exs t))"

lemma tx_reach_ok: "tx_reach X t \<Longrightarrow> tx_ok t"
proof (induction rule: tx_reach.induct)
  case (start c ext trim useMD ign tbl)
  show ?case by (simp add: tx_ok_def newTransaction_def family_at_def scope_families_def get0_def)
qed (auto intro: append_ok appendHistogram_ok appendExemplar_ok Append_ok
      simp: appendSTZeroSample_def appendHistogramSTZeroSample_def setStartTimestamp_ok flags_ok)

section \<open>Commit\<close>

text \<open>The metric of a stored family, if it has points.\<close>

definition family_metric :: "recv_lib \<Rightarrow> transaction \<Rightarrow> metricFamily \<Rightarrow> Metric option go" where
  "family_metric X t mf = appendMetric (rt X) (tr X) (internalMD t) (trimSuffixes t) mf"

definition sent_metrics :: "ResourceMetrics list \<Rightarrow> (attributes \<times> Metric) set" where
  "sent_metrics rms = {(rm_Resource rm, m) | rm sm m. rm \<in> set rms \<and> sm \<in> set (rm_Scopes rm) \<and> m \<in> set (sm_Metrics sm)}"

text \<open>Each range loop of a commit visits the keys of its map, each once.\<close>

definition enumerates :: "range_orders \<Rightarrow> transaction \<Rightarrow> bool" where
  "enumerates od t \<longleftrightarrow>
     enum (ord_resources od (families t)) (families t) \<and>
     (\<forall>rk fams. fmlookup (families t) rk = Some fams \<longrightarrow> enum (ord_scopes od fams) fams \<and>
       (\<forall>sc fm. fmlookup fams sc = Some fm \<longrightarrow> enum (ord_families od fm) fm))"

lemma go_bind_InrE: "go_bind x f = Inr y \<Longrightarrow> (\<And>z. x = Inr z \<Longrightarrow> f z = Inr y \<Longrightarrow> P) \<Longrightarrow> P"
  by (cases x) auto

lemma collect_go_set: "collect_go f xs = Inr ys \<Longrightarrow> set ys = {y. \<exists>x\<in>set xs. f x = Inr (Some y)}"
proof (induction xs arbitrary: ys)
  case (Cons x xs)
  then obtain y ys' where y: "f x = Inr y" "collect_go f xs = Inr ys'" "ys = (case y of None \<Rightarrow> ys' | Some p \<Rightarrow> p # ys')"
    by (auto simp: go_bind_Inr)
  with Cons.IH [of ys'] show ?case by (auto split: option.splits)
qed simp

lemma collect_go_all:
  "collect_go (\<lambda>x. go_bind (g x) (\<lambda>y. Inr (Some y))) xs = Inr ys \<Longrightarrow> x \<in> set xs \<Longrightarrow> \<exists>y. g x = Inr y"
  by (induction xs arbitrary: ys) (auto simp: go_bind_Inr)

lemma collect_go_Inr: "collect_go f xs = Inr ys \<Longrightarrow> x \<in> set xs \<Longrightarrow> \<exists>y. f x = Inr y"
  by (induction xs arbitrary: ys) (auto simp: go_bind_Inr)

lemma family_metric_points: "family_metric X t mf = Inr (Some m) \<Longrightarrow> pointCount (m_Data m) \<noteq> 0"
  by (auto simp: family_metric_def appendMetric_def Let_def go_bind_Inr split: if_splits)

lemma scope_metrics_set:
  assumes "enum (ord_families od fm) fm" and "scope_metrics X od self t rk sc fm = Inr sm"
  shows "set (sm_Metrics sm) = {m. \<exists>k mf. fmlookup fm k = Some mf \<and> family_metric X t mf = Inr (Some m)}"
proof -
  let ?f = "\<lambda>k. case fmlookup fm k of None \<Rightarrow> Inr None | Some mf \<Rightarrow> family_metric X t mf"
  obtain ms where ms: "collect_go ?f (ord_families od fm) = Inr ms" "sm_Metrics sm = ms"
    using assms(2) unfolding family_metric_def scope_metrics_def by (elim go_bind_InrE) (auto split: if_splits)
  have "set ms = {m. \<exists>k\<in>fmdom' fm. ?f k = Inr (Some m)}"
    using collect_go_set [OF ms(1)] assms(1) by (simp add: enum_def)
  also have "\<dots> = {m. \<exists>k mf. fmlookup fm k = Some mf \<and> family_metric X t mf = Inr (Some m)}"
    by (rule Collect_cong) (force simp: fmlookup_dom'_iff Bex_def)
  finally show ?thesis by (simp add: ms(2))
qed

lemma resource_metrics_set:
  assumes "enumerates od t" and "resource_metrics X od self t rk = Inr (Some rm)"
  shows "fmlookup (nodeResources t) rk = Some (rm_Resource rm)"
    and "(\<exists>sm\<in>set (rm_Scopes rm). m \<in> set (sm_Metrics sm)) \<longleftrightarrow> (\<exists>sc k mf. family_at t rk sc k = Some mf \<and> family_metric X t mf = Inr (Some m))"
proof -
  let ?fams = "get0 fmempty (families t) rk"
  show "fmlookup (nodeResources t) rk = Some (rm_Resource rm)"
    using assms(2) by (auto simp: resource_metrics_def Let_def go_bind_Inr split: if_splits option.splits)
  obtain sms where sms: "collect_go (\<lambda>sc. go_bind (scope_metrics X od self t rk sc (get0 fmempty ?fams sc)) (\<lambda>sm. Inr (Some sm)))
      (ord_scopes od ?fams) = Inr sms" "rm_Scopes rm = sms"
    using assms(2) by (auto simp: resource_metrics_def Let_def go_bind_Inr split: if_splits option.splits)
  obtain fams where fams: "fmlookup (families t) rk = Some fams" "?fams = fams"
    using assms(2) by (cases "fmlookup (families t) rk") (simp_all add: resource_metrics_def get0_def)
  then have ord: "set (ord_scopes od ?fams) = fmdom' ?fams" using assms(1) by (simp add: enumerates_def enum_def)
  have ord_f: "enum (ord_families od (scope_families t rk sc)) (scope_families t rk sc)" if sc: "sc \<in> fmdom' ?fams" for sc
  proof -
    obtain fm where "fmlookup fams sc = Some fm" using sc by (auto simp: fams(2) fmlookup_dom'_iff)
    then show ?thesis using fams assms(1) by (simp add: enumerates_def scope_families_def get0_def)
  qed
  let ?sm = "\<lambda>sc. scope_metrics X od self t rk sc (scope_families t rk sc)"
  have set: "sm \<in> set (rm_Scopes rm) \<longleftrightarrow> (\<exists>sc\<in>fmdom' ?fams. ?sm sc = Inr sm)" for sm
    using collect_go_set [OF sms(1)] ord sms(2) by (simp add: go_bind_Inr scope_families_def)
  have total: "\<exists>sm. ?sm sc = Inr sm" if "sc \<in> fmdom' ?fams" for sc
    using collect_go_all [OF sms(1)] that ord by (simp add: scope_families_def)
  have dom: "sc \<in> fmdom' ?fams" if "family_at t rk sc k = Some mf" for sc k mf
    using that by (auto simp: family_at_def scope_families_def get0_def fmlookup_dom'_iff split: option.splits)
  have metrics: "m \<in> set (sm_Metrics sm) \<longleftrightarrow> (\<exists>k mf. family_at t rk sc k = Some mf \<and> family_metric X t mf = Inr (Some m))"
    if "sc \<in> fmdom' ?fams" "?sm sc = Inr sm" for sc sm
    using scope_metrics_set [OF ord_f [OF that(1)] that(2)] by (simp add: family_at_def)
  show "(\<exists>sm\<in>set (rm_Scopes rm). m \<in> set (sm_Metrics sm)) \<longleftrightarrow>
      (\<exists>sc k mf. family_at t rk sc k = Some mf \<and> family_metric X t mf = Inr (Some m))" (is "?L \<longleftrightarrow> ?R")
  proof
    assume ?L
    then obtain sm sc where "sc \<in> fmdom' ?fams" "?sm sc = Inr sm" "m \<in> set (sm_Metrics sm)" using set by blast
    then show ?R using metrics by blast
  next
    assume ?R
    then obtain sc k mf where f: "family_at t rk sc k = Some mf" "family_metric X t mf = Inr (Some m)" by blast
    obtain sm where sm: "?sm sc = Inr sm" using total [OF dom [OF f(1)]] by blast
    then have "sm \<in> set (rm_Scopes rm)" using set dom [OF f(1)] by blast
    then show ?L using metrics [OF dom [OF f(1)] sm] f by blast
  qed
qed

lemma getMetrics_set:
  assumes ok: "tx_ok t" and od: "enumerates od t" and got: "getMetrics X od self t = Inr (Inr rms)"
  shows "sent_metrics rms =
    {(res, m). \<exists>rk sc k mf. family_at t rk sc k = Some mf \<and> fmlookup (nodeResources t) rk = Some res \<and> family_metric X t mf = Inr (Some m)}"
proof -
  obtain all where all: "collect_go (resource_metrics X od self t) (ord_resources od (families t)) = Inr all" "rms = filter has_metrics all"
    using got by (auto simp: getMetrics_def go_bind_Inr split: if_splits)
  have ord: "set (ord_resources od (families t)) = fmdom' (families t)" using od by (simp add: enumerates_def enum_def)
  have set: "rm \<in> set all \<longleftrightarrow> (\<exists>rk\<in>fmdom' (families t). resource_metrics X od self t rk = Inr (Some rm))" for rm
    using collect_go_set [OF all(1)] ord by simp
  note sound = resource_metrics_set [OF od]
  show ?thesis
  proof (intro equalityI subsetI; clarify)
    fix res m
    assume "(res, m) \<in> sent_metrics rms"
    then obtain rm sm where "rm \<in> set all" and m: "res = rm_Resource rm" "sm \<in> set (rm_Scopes rm)" "m \<in> set (sm_Metrics sm)"
      using all(2) by (auto simp: sent_metrics_def)
    then obtain rk where rk: "resource_metrics X od self t rk = Inr (Some rm)" using set by blast
    show "\<exists>rk sc k mf. family_at t rk sc k = Some mf \<and> fmlookup (nodeResources t) rk = Some res \<and> family_metric X t mf = Inr (Some m)"
      using sound(1) [OF rk] sound(2) [OF rk, of m] m by blast
  next
    fix res m rk sc k mf
    assume f: "family_at t rk sc k = Some mf" "fmlookup (nodeResources t) rk = Some res" "family_metric X t mf = Inr (Some m)"
    have dom: "rk \<in> fmdom' (families t)" and ne: "get0 fmempty (families t) rk \<noteq> fmempty"
      using f(1) by (auto simp: family_at_def scope_families_def get0_def fmlookup_dom'_iff split: option.splits)
    obtain r where "resource_metrics X od self t rk = Inr r" using collect_go_Inr [OF all(1)] ord dom by blast
    then obtain rm where rk: "resource_metrics X od self t rk = Inr (Some rm)"
      using f(2) ne by (auto simp: resource_metrics_def Let_def go_bind_Inr)
    obtain sm where sm: "sm \<in> set (rm_Scopes rm)" "m \<in> set (sm_Metrics sm)" using sound(2) [OF rk, of m] f by blast
    then have "rm \<in> set rms" using set dom rk all(2) by (force simp: has_metrics_def)
    then show "(res, m) \<in> sent_metrics rms" using sm sound(1) [OF rk] f(2) by (auto simp: sent_metrics_def)
  qed
qed

lemma data_point_count_0: "data_point_count rms = 0 \<longleftrightarrow> (\<forall>(res, m)\<in>sent_metrics rms. pointCount (m_Data m) = 0)"
  by (auto simp: data_point_count_def sent_metrics_def; blast)

section \<open>Properties\<close>

text \<open>
  C24: In every state a scrape can bring a transaction to: the groups of a family are listed once each in
  creation order and have the type of the family; a family is stored under its own name; the resource of
  every family is known, so that a commit does not skip it; and a transaction that has not started has no
  families.
\<close>

theorem transaction_invariant:
  assumes "tx_reach X t"
  shows "(\<forall>rk sc k mf. family_at t rk sc k = Some mf \<longrightarrow>
      distinct (groupOrders mf) \<and> set (groupOrders mf) = fmdom' (groups mf) \<and>
      (\<forall>r mg. fmlookup (groups mf) r = Some mg \<longrightarrow> mg_mtype mg = mf_mtype mf) \<and>
      mf_name mf = fk_name k \<and> rk \<in> fmdom' (nodeResources t))
    \<and> (isNew t \<longrightarrow> families t = fmempty)"
proof -
  note ok = tx_reach_ok [OF assms, unfolded tx_ok_def]
  have "rk \<in> fmdom' (nodeResources t)" if "family_at t rk sc k = Some mf" for rk sc k mf
    by (rule family_resource [OF tx_reach_ok [OF assms] that])
  with ok show ?thesis unfolding family_ok_def enum_def by blast
qed

text \<open>
  The family a sample goes to. \<open>getOrCreateMetricFamily\<close> leaves every other family as it is; the
  family it returns is the one stored there before, or a new one without groups; and it stores a new
  family only when there was none under that key or the one that was there does not include the metric
  (then that one, with all its points, is gone).
\<close>

theorem getOrCreate_family:
  assumes "ready key t" and "getOrCreateMetricFamily key scope mn t = (t', k)"
  shows "(\<forall>rk sc j. (rk, sc, j) \<noteq> (key, scope, k) \<longrightarrow> family_at t' rk sc j = family_at t rk sc j)
    \<and> isExponentialHistogram k = addingNativeHistogram t
    \<and> (\<exists>mf. family_at t' key scope k = Some mf \<and> mf_name mf = fk_name k \<and>
        (family_at t key scope k = Some mf \<or>
         groups mf = fmempty \<and> (\<forall>old. family_at t key scope k = Some old \<longrightarrow> fk_name k \<noteq> mn \<and>
           (fk_name k = family_name (mc t) mn \<longrightarrow> \<not> includesMetric (internalMD t) old mn))))"
proof -
  obtain tbl mf where n: "newMetricFamily (internalMD t) mn (mc t) (addingNativeHistogram t) (addingNHCB t) = (tbl, mf)" by fastforce
  have [simp]: "family_at (u\<lparr>internalMD := tbl\<rparr>) = family_at u" for u by (rule family_at_cong) simp
  note fresh = newMetricFamily_fresh [OF n]
  show ?thesis using assms(2) fresh n ready_families [OF assms(1)]
    by (auto simp: getOrCreateMetricFamily_def Let_def family_at_def [symmetric] split: if_splits option.splits)
qed

text \<open>
  Data loss: a gauge \<open>n\<close> already has points; then a sample arrives whose name is \<open>n\<close> with one of the
  suffixes \<open>_sum\<close>, \<open>_count\<close>, ... and which has no metadata of its own. The gauge does not include it, the new
  family takes the metadata and with it the name of the gauge, and replaces the gauge: its points are
  never sent.
\<close>

theorem gauge_family_overwritten:
  assumes "family_at t key scope \<lparr>isExponentialHistogram = False, fk_name = n\<rparr> = Some old"
    and "mf_mtype old = MetricTypeGauge" and "mf_name old = n"
    and "normalizeMetricName mn = n" and "mn \<noteq> n" and "mc t mn = None"
    and "mc t n = Some md" and "md_Type md = ModelGauge" and "fmlookup (internalMD t) mn = None"
    and "family_at t key scope \<lparr>isExponentialHistogram = False, fk_name = mn\<rparr> = None" and "\<not> addingNativeHistogram t"
  shows "\<exists>t' new. getOrCreateMetricFamily key scope mn t = (t', \<lparr>isExponentialHistogram = False, fk_name = n\<rparr>)
    \<and> family_at t' key scope \<lparr>isExponentialHistogram = False, fk_name = n\<rparr> = Some new \<and> groups new = fmempty"
proof -
  obtain tbl mf where f: "newMetricFamily (internalMD t) mn (mc t) False (addingNHCB t) = (tbl, mf)" by fastforce
  have meta: "metadataForMetric (internalMD t) mn (mc t) = (Own md, n)" using assms by (simp add: metadataForMetric_def Let_def)
  have name: "mf_name mf = n" "groups mf = fmempty" using newMetricFamily_fresh [OF f] meta by simp_all
  have fn: "family_name (mc t) mn = n" using assms by (simp add: family_name_def isCounterCreatedLine_def Let_def)
  have "\<not> includesMetric (internalMD t) old mn" using assms(2,3,5) by (simp add: includesMetric_def)
  then show ?thesis using assms(1,10,11) f name fn
    by (simp add: getOrCreateMetricFamily_def Let_def family_at_def)
qed

text \<open>
  C25: What \<open>Commit\<close> passes on, for every order of the range loops: the metrics sent, each with the
  attributes of its resource, are exactly the metrics of the stored families that have points; nothing is
  sent exactly when there are none, and the only error is that there are no families at all.
\<close>

theorem commit_sends_families:
  assumes "tx_reach X t" and "\<not> isNew t" and "enumerates od t" and "Commit X od self t = Inr r"
  shows "case r of
      Sent rms \<Rightarrow> sent_metrics rms = {(res, m). \<exists>rk sc k mf. family_at t rk sc k = Some mf \<and>
          fmlookup (nodeResources t) rk = Some res \<and> family_metric X t mf = Inr (Some m)} \<and> sent_metrics rms \<noteq> {}
    | CommitError e \<Rightarrow> e = errNoDataToBuild \<and> families t = fmempty
    | NothingToSend \<Rightarrow> (\<forall>rk sc k mf m. family_at t rk sc k = Some mf \<longrightarrow> family_metric X t mf \<noteq> Inr (Some m))"
proof -
  have ok: "tx_ok t" by (rule tx_reach_ok [OF assms(1)])
  obtain q where got: "getMetrics X od self t = Inr q"
    using assms(2,4) by (cases "getMetrics X od self t") (auto simp: Commit_def)
  then have q: "r = (case q of Inl e \<Rightarrow> CommitError e | Inr md \<Rightarrow> if data_point_count md = 0 then NothingToSend else Sent md)"
    using assms(2,4) by (cases q) (auto simp: Commit_def)
  show ?thesis
  proof (cases q)
    case (Inl e)
    then show ?thesis using q got by (auto simp: getMetrics_def go_bind_Inr split: if_splits)
  next
    case (Inr rms)
    note sent = getMetrics_set [OF ok assms(3) got [unfolded Inr]]
    have res: "\<exists>res. fmlookup (nodeResources t) rk = Some res" if "family_at t rk sc k = Some mf" for rk sc k mf
      using family_resource [OF ok that] by (simp add: fmlookup_dom'_iff)
    have "data_point_count rms = 0 \<longleftrightarrow> sent_metrics rms = {}"
      using family_metric_points unfolding data_point_count_0 sent by blast
    then show ?thesis using q Inr sent by auto (blast dest: res)
  qed
qed

section \<open>A run\<close>

text \<open>A target with a job and an instance, and a metadata store that knows the gauge \<open>foo\<close>.\<close>

definition demo_recv :: recv_lib where
  "demo_recv =
     \<lparr>rt = exact_rt, tr = \<lparr>TrimPromSuffixes = (\<lambda>n _ _. n), UnitWordToUCUM = id\<rparr>, Hash = (\<lambda>ls. of_nat (length ls)),
      HashWithoutLabels = (\<lambda>_ ls. of_nat (length ls)), MapHash = (\<lambda>_. replicate 16 (CHR 0x00)), SplitHostPort = (\<lambda>_. None),
      ParseIP = (\<lambda>_. None), builderSet = (\<lambda>ls n v. ls)\<rparr>"

definition demo_scrape_ctx :: scrape_ctx where
  "demo_scrape_ctx = \<lparr>ctx_Done = False, TargetFromContext = Some \<lparr>DiscoveredLabels = [], GetValue = (\<lambda>_. '''')\<rparr>,
     MetadataStoreFromContext = Some [''foo'' \<mapsto> \<lparr>md_MetricFamily = ''foo'', md_Type = ModelGauge, md_Help = '''', md_Unit = ''''\<rparr>]\<rparr>"

definition demo_labels :: "string \<Rightarrow> labels" where
  "demo_labels n = [(''__name__'', n), (''instance'', ''i''), (''job'', ''j'')]"

definition demo_key :: resourceKey where
  "demo_key = \<lparr>rk_job = ''j'', rk_instance = ''i''\<rparr>"

definition demo_tx :: transaction where
  "demo_tx = fst (tx_append demo_recv (demo_labels ''foo'') 5 (fnat 1) (newTransaction demo_scrape_ctx [] False True False fmempty))"

lemma demo_tx_reach: "tx_reach demo_recv demo_tx"
  unfolding demo_tx_def by (intro tx_reach.intros)

lemmas demo_defs = demo_recv_def demo_scrape_ctx_def demo_labels_def demo_key_def

lemma demo_normalize: "normalizeMetricName ''foo_sum'' = ''foo''" "normalizeMetricName ''foo'' = ''foo''"
  by code_simp+

definition demo_family :: metricFamilyKey where
  "demo_family = \<lparr>isExponentialHistogram = False, fk_name = ''foo''\<rparr>"

lemma demo_tx_family: "\<exists>mf. family_at demo_tx demo_key emptyScopeID demo_family = Some mf \<and>
    mf_name mf = ''foo'' \<and> mf_mtype mf = MetricTypeGauge \<and> groupOrders mf = [3]"
proof -
  have "map_option (\<lambda>mf. (mf_name mf, mf_mtype mf, groupOrders mf)) (family_at demo_tx demo_key emptyScopeID demo_family)
      = Some (''foo'', MetricTypeGauge, [3])" by code_simp
  then show ?thesis by auto
qed

lemma demo_tx_ready: "ready demo_key demo_tx"
proof -
  have "\<not> isNew demo_tx \<and> demo_key \<in> fmdom' (nodeResources demo_tx)" by code_simp
  then show ?thesis using tx_reach_ok [OF demo_tx_reach] by (simp add: ready_def)
qed

theorem transaction_invariant_witness:
  "\<exists>mf. family_at demo_tx demo_key emptyScopeID demo_family = Some mf \<and> set (groupOrders mf) = fmdom' (groups mf) \<and> groupOrders mf = [3]"
  using transaction_invariant [OF demo_tx_reach] demo_tx_family by blast

theorem getOrCreate_family_witness:
  "\<exists>t' k mf. getOrCreateMetricFamily demo_key emptyScopeID ''foo'' demo_tx = (t', k) \<and> family_at t' demo_key emptyScopeID k = Some mf \<and> mf_name mf = fk_name k"
proof -
  obtain t' k where g: "getOrCreateMetricFamily demo_key emptyScopeID ''foo'' demo_tx = (t', k)" by fastforce
  from getOrCreate_family [OF demo_tx_ready g] g show ?thesis by blast
qed

theorem gauge_family_overwritten_witness:
  "\<exists>old t' new. family_at demo_tx demo_key emptyScopeID demo_family = Some old \<and> groupOrders old = [3]
     \<and> getOrCreateMetricFamily demo_key emptyScopeID ''foo_sum'' demo_tx = (t', demo_family)
     \<and> family_at t' demo_key emptyScopeID demo_family = Some new \<and> groups new = fmempty"
proof -
  obtain old where old: "family_at demo_tx demo_key emptyScopeID demo_family = Some old"
    "mf_name old = ''foo''" "mf_mtype old = MetricTypeGauge" "groupOrders old = [3]" using demo_tx_family by blast
  have md: "mc demo_tx ''foo_sum'' = None \<and> map_option md_Type (mc demo_tx ''foo'') = Some ModelGauge
      \<and> fmlookup (internalMD demo_tx) ''foo_sum'' = None \<and> \<not> addingNativeHistogram demo_tx
      \<and> map_option mf_name (family_at demo_tx demo_key emptyScopeID \<lparr>isExponentialHistogram = False, fk_name = ''foo_sum''\<rparr>) = None"
    by code_simp
  then obtain md' where "mc demo_tx ''foo'' = Some md'" "md_Type md' = ModelGauge" by auto
  with gauge_family_overwritten [OF old(1) [unfolded demo_family_def] old(3,2) demo_normalize(1), of md'] md old
  show ?thesis by (simp add: demo_family_def)
qed

definition demo_orders :: range_orders where
  "demo_orders = \<lparr>ord_resources = (\<lambda>_. [demo_key]), ord_scopes = (\<lambda>_. [emptyScopeID]), ord_families = (\<lambda>_. [demo_family])\<rparr>"

lemma demo_enumerates: "enumerates demo_orders demo_tx"
proof -
  have d: "fmdom' (families demo_tx) = {demo_key} \<and> fmdom' (get0 fmempty (families demo_tx) demo_key) = {emptyScopeID}
      \<and> fmdom' (scope_families demo_tx demo_key emptyScopeID) = {demo_family}" by code_simp
  have one: "rk = demo_key \<and> fmdom' fams = {emptyScopeID}" if "fmlookup (families demo_tx) rk = Some fams" for rk fams
    using d that fmdom'I [OF that] by (simp add: get0_def)
  have "fmdom' fm = {demo_family}" if "fmlookup (families demo_tx) rk = Some fams" "fmlookup fams sc = Some fm" for rk fams sc fm
    using d that one [OF that(1)] fmdom'I [OF that(2)] by (simp add: scope_families_def get0_def)
  with one d show ?thesis unfolding enumerates_def enum_def demo_orders_def by simp
qed

theorem commit_sends_families_witness:
  "\<exists>rms. Commit demo_recv demo_orders ('''', '''') demo_tx = Inr (Sent rms) \<and> sent_metrics rms \<noteq> {}"
proof -
  have c: "(case Commit demo_recv demo_orders ('''', '''') demo_tx of Inr (Sent rms) \<Rightarrow> True | _ \<Rightarrow> False)" by code_simp
  then obtain rms where rms: "Commit demo_recv demo_orders ('''', '''') demo_tx = Inr (Sent rms)"
    by (auto split: sum.splits commit_result.splits)
  have "\<not> isNew demo_tx" using demo_tx_ready by (simp add: ready_def)
  from commit_sends_families [OF demo_tx_reach this demo_enumerates rms] have "sent_metrics rms \<noteq> {}"
    unfolding commit_result.case by blast
  with rms show ?thesis by blast
qed

section \<open>Exemplars and external labels\<close>

text \<open>
  \<open>Append\<close> adds the sample with the external labels merged in, but hands the original labels to
  \<open>appendExemplar\<close>, which does not merge them: the series of the exemplar is then another one, and the
  exemplar is dropped. The same call keeps it when there are no external labels.
\<close>

definition demo_exemplar :: Exemplar where
  "demo_exemplar = \<lparr>pe_Labels = [], pe_Value = fnat 1, pe_Ts = 5\<rparr>"

definition kept_exemplars :: "labels \<Rightarrow> (64 word \<times> nat option) list" where
  "kept_exemplars ext =
     (let t = fst (Append (demo_recv\<lparr>builderSet := (\<lambda>ls n v. ls @ [(n, v)])\<rparr>) (demo_labels ''foo'') 0 5 (fnat 1) None None [demo_exemplar]
            (newTransaction demo_scrape_ctx ext False True False fmempty))
      in case family_at t demo_key emptyScopeID demo_family of None \<Rightarrow> []
         | Some mf \<Rightarrow> map (\<lambda>k. (k, map_option (length \<circ> exemplars) (fmlookup (groups mf) k))) (groupOrders mf))"

lemma external_labels_drop_exemplars:
  "kept_exemplars [] = [(3, Some 1)] \<and> kept_exemplars [(''zone'', ''z'')] = [(4, Some 0)]"
  by code_simp

end
