(* ===== verification/TAManager.thy ===== *)
theory TAManager
  imports ServerProps GoStrings
begin

unbundle bit_operations_syntax

text \<open>
  \<open>prometheusreceiver/internal/targetallocator\<close> (\<open>manager.go\<close>, \<open>config.go\<close>) and
  \<open>internal/sharedpromconfig\<close>: the collector's side of the target allocator protocol. The manager polls
  \<open>/scrape_configs\<close>, and when the answer has changed it points every job at the allocator's list of
  targets for this collector and reloads the scrape and discovery managers.

  The HTTP client, the YAML library, \<open>ScrapeConfig.Validate\<close>, \<open>GetScrapeConfigs\<close> and the two Prometheus
  managers are parameters (\<open>ta_lib\<close>); the calls of the two managers are recorded. A panic and a returned
  error are different ways to stop.
\<close>

section \<open>Configuration\<close>

record TLSClientConfig =
  tc_InsecureSkipVerify :: bool
  tc_ServerName :: string
  tc_CAFile :: string
  tc_CertFile :: string
  tc_KeyFile :: string
  tc_CAPem :: string
  tc_CertPem :: string
  tc_KeyPem :: string
  tc_MinVersion :: string
  tc_MaxVersion :: string

record PromTLSConfig =
  pt_InsecureSkipVerify :: bool
  pt_ServerName :: string
  pt_CAFile :: string
  pt_CertFile :: string
  pt_KeyFile :: string
  pt_CA :: string
  pt_Cert :: string
  pt_Key :: string
  pt_MinVersion :: "16 word"
  pt_MaxVersion :: "16 word"

text \<open>\<open>sd_Rest\<close> stands for the fields of \<open>promHTTP.SDConfig\<close> the code does not touch; \<open>None\<close> is the zero value.\<close>

record 'q SDConfig =
  sd_RefreshInterval :: int
  sd_URL :: string
  sd_FollowRedirects :: bool
  sd_TLSConfig :: PromTLSConfig
  sd_ProxyURL :: "string option"
  sd_Rest :: "'q option"

definition zero_tls :: PromTLSConfig where
  "zero_tls = \<lparr>pt_InsecureSkipVerify = False, pt_ServerName = '''', pt_CAFile = '''', pt_CertFile = '''', pt_KeyFile = '''',
     pt_CA = '''', pt_Cert = '''', pt_Key = '''', pt_MinVersion = 0, pt_MaxVersion = 0\<rparr>"

definition default_SDConfig :: "'q SDConfig" where
  "default_SDConfig = \<lparr>sd_RefreshInterval = 30 * 10 ^ 9, sd_URL = '''', sd_FollowRedirects = False, sd_TLSConfig = zero_tls,
     sd_ProxyURL = None, sd_Rest = None\<rparr>"

record ('h, 'q) ta_config =
  Endpoint :: string
  ta_TLS :: TLSClientConfig
  ta_ProxyURL :: string
  Interval :: int
  CollectorID :: string
  HTTPSDConfig :: "'q SDConfig option"
  HTTPScrapeConfig :: "'h option"

datatype ta_error = ErrEndpoint | ErrCollectorID | ErrInterval | ErrURL string | ErrHTTP string | ErrYaml string
  | ErrDecode string | ErrTLSVersion string | ErrValidate string | ErrGetScrapeConfigs string | ErrScrapeManager string
  | ErrDiscoveryManager string | ErrClient string

definition ta_Validate :: "(string \<Rightarrow> bool) \<Rightarrow> ('h, 'q) ta_config \<Rightarrow> ta_error option" where
  "ta_Validate ParseRequestURI cfg =
     (if \<not> ParseRequestURI (Endpoint cfg) then Some ErrEndpoint
      else if CollectorID cfg = '''' \<or> sublist ''${'' (CollectorID cfg) then Some ErrCollectorID
      else if Interval cfg \<le> 0 then Some ErrInterval
      else None)"

section \<open>Base64\<close>

text \<open>\<open>base64.StdEncoding.DecodeString\<close>: line breaks are skipped, padding is required, trailing bits are ignored.\<close>

definition b64_digit :: "char \<Rightarrow> nat option" where
  "b64_digit c = map_of (zip ''ABCDEFGHIJKLMNOPQRSTUVWXYZabcdefghijklmnopqrstuvwxyz0123456789+/'' [0..<64]) c"

fun b64_groups :: "string \<Rightarrow> string option" where
  "b64_groups [] = Some []"
| "b64_groups (a # b # c # d # rest) =
     (case (b64_digit a, b64_digit b) of
        (Some x, Some y) \<Rightarrow>
          if c = CHR ''='' \<and> d = CHR ''='' \<and> rest = [] then Some [char_of ((x * 64 + y) div 16)]
          else (case b64_digit c of None \<Rightarrow> None
            | Some z \<Rightarrow>
              if d = CHR ''='' \<and> rest = []
              then Some [char_of ((x * 4096 + y * 64 + z) div 1024), char_of ((x * 4096 + y * 64 + z) div 4 mod 256)]
              else (case (b64_digit d, b64_groups rest) of
                  (Some w, Some bs) \<Rightarrow>
                    let n = x * 262144 + y * 4096 + z * 64 + w
                    in Some (char_of (n div 65536) # char_of (n div 256 mod 256) # char_of (n mod 256) # bs)
                | _ \<Rightarrow> None))
      | _ \<Rightarrow> None)"
| "b64_groups _ = None"

definition DecodeString :: "string \<Rightarrow> string option" where
  "DecodeString s = b64_groups (filter (\<lambda>c. c \<noteq> CHR 0x0A \<and> c \<noteq> CHR 0x0D) s)"

section \<open>State\<close>

datatype ('d, 'q) sd_config = HTTPSD "'q SDConfig" | OtherSD 'd

text \<open>\<open>sc_Rest\<close>: the fields of \<open>promconfig.ScrapeConfig\<close> the manager does not touch.\<close>

record ('d, 'q, 'h, 'r) ScrapeJob =
  sc_JobName :: string
  sc_ServiceDiscoveryConfigs :: "('d, 'q) sd_config list"
  sc_HTTPClientConfig :: 'h
  sc_ScrapeFallbackProtocol :: string
  sc_Rest :: 'r

record ('d, 'q, 'h, 'r, 'g) prom_config =
  pc_GlobalConfig :: 'g
  pc_ScrapeConfigs :: "('d, 'q, 'h, 'r) ScrapeJob list"

record ('d, 'q, 'h, 'r, 'g) Manager =
  tm_cfg :: "('h, 'q) ta_config option"
  promCfg :: "('d, 'q, 'h, 'r, 'g) prom_config"
  initialScrapeConfigs :: "('d, 'q, 'h, 'r) ScrapeJob list"
  configUpdateCount :: "64 word"
  configUpdated :: nat
  scrape_calls :: "('d, 'q, 'h, 'r, 'g) prom_config list"
  discovery_calls :: "(string, ('d, 'q) sd_config list) gomap list"

definition NewManager :: "('h, 'q) ta_config option \<Rightarrow> ('d, 'q, 'h, 'r, 'g) prom_config \<Rightarrow> ('d, 'q, 'h, 'r, 'g) Manager" where
  "NewManager cfg pc = \<lparr>tm_cfg = cfg, promCfg = pc, initialScrapeConfigs = [], configUpdateCount = 0, configUpdated = 0,
     scrape_calls = [], discovery_calls = []\<rparr>"

text \<open>
  The outside world at one poll. \<open>Encode n\<close> gives the bytes the YAML encoder writes for its \<open>n\<close>-th document.
\<close>

record ('d, 'q, 'h, 'r, 'g) ta_lib =
  urlParse :: "string \<Rightarrow> bool"
  http_Get :: "string \<Rightarrow> ta_error + string"
  LookupEnv :: environ
  yamlUnmarshal :: "string \<Rightarrow> ta_error + (string, ('d, 'q, 'h, 'r) ScrapeJob option) gomap"
  Encode :: "nat \<Rightarrow> ('d, 'q, 'h, 'r) ScrapeJob option \<Rightarrow> ta_error + string"
  EncoderClose :: string
  TLSVersions :: "string \<Rightarrow> 16 word option"
  sc_Validate :: "'g \<Rightarrow> ('d, 'q, 'h, 'r) ScrapeJob \<Rightarrow> ta_error + ('d, 'q, 'h, 'r) ScrapeJob"
  GetScrapeConfigs :: "('d, 'q, 'h, 'r, 'g) prom_config \<Rightarrow> ta_error + ('d, 'q, 'h, 'r) ScrapeJob list"
  scrape_ApplyConfig :: "('d, 'q, 'h, 'r, 'g) prom_config \<Rightarrow> ta_error option"
  discovery_ApplyConfig :: "(string, ('d, 'q) sd_config list) gomap \<Rightarrow> ta_error option"
  ToClient :: "ta_error option"
  PrometheusText0_0_4 :: string

section \<open>The HTTP client of the discovery\<close>

definition convertTLSVersion :: "('d, 'q, 'h, 'r, 'g) ta_lib \<Rightarrow> string \<Rightarrow> ta_error + 16 word" where
  "convertTLSVersion X version =
     (case TLSVersions X (''TLS'' @ ReplaceAll ''.'' '''' version) of
        Some v \<Rightarrow> Inr v | None \<Rightarrow> Inl (ErrTLSVersion version))"

fun err_bind :: "'e + 'a \<Rightarrow> ('a \<Rightarrow> 'e + 'b) \<Rightarrow> 'e + 'b" where
  "err_bind (Inl e) f = Inl e"
| "err_bind (Inr x) f = f x"

text \<open>One optional field: left alone when the setting is empty, else converted and stored.\<close>

definition set_opt :: "string \<Rightarrow> (string \<Rightarrow> ta_error + 'v) \<Rightarrow> ('v \<Rightarrow> 's \<Rightarrow> 's) \<Rightarrow> 's \<Rightarrow> ta_error + 's" where
  "set_opt s conv store x = (if s = '''' then Inr x else err_bind (conv s) (\<lambda>v. Inr (store v x)))"

definition decode_pem :: "string \<Rightarrow> ta_error + string" where
  "decode_pem s = (case DecodeString s of Some d \<Rightarrow> Inr d | None \<Rightarrow> Inl (ErrDecode s))"

definition configureSDHTTPClientConfigFromTA :: "('d, 'q, 'h, 'r, 'g) ta_lib \<Rightarrow> ('h, 'q) ta_config \<Rightarrow> 'q SDConfig \<Rightarrow> ta_error + 'q SDConfig" where
  "configureSDHTTPClientConfigFromTA X cfg sd =
     (let tls = ta_TLS cfg;
          sd = sd\<lparr>sd_FollowRedirects := False,
                  sd_TLSConfig := zero_tls\<lparr>pt_InsecureSkipVerify := tc_InsecureSkipVerify tls, pt_ServerName := tc_ServerName tls,
                    pt_CAFile := tc_CAFile tls, pt_CertFile := tc_CertFile tls, pt_KeyFile := tc_KeyFile tls\<rparr>\<rparr>
      in err_bind (set_opt (tc_CAPem tls) decode_pem (\<lambda>v. sd_TLSConfig_update (pt_CA_update (\<lambda>_. v))) sd) (\<lambda>sd.
         err_bind (set_opt (tc_CertPem tls) decode_pem (\<lambda>v. sd_TLSConfig_update (pt_Cert_update (\<lambda>_. v))) sd) (\<lambda>sd.
         err_bind (set_opt (tc_KeyPem tls) decode_pem (\<lambda>v. sd_TLSConfig_update (pt_Key_update (\<lambda>_. v))) sd) (\<lambda>sd.
         err_bind (set_opt (tc_MinVersion tls) (convertTLSVersion X) (\<lambda>v. sd_TLSConfig_update (pt_MinVersion_update (\<lambda>_. v))) sd) (\<lambda>sd.
         err_bind (set_opt (tc_MaxVersion tls) (convertTLSVersion X) (\<lambda>v. sd_TLSConfig_update (pt_MaxVersion_update (\<lambda>_. v))) sd) (\<lambda>sd.
         set_opt (ta_ProxyURL cfg) (\<lambda>u. if urlParse X u then Inr u else Inl (ErrURL u)) (\<lambda>v. sd_ProxyURL_update (\<lambda>_. Some v)) sd))))))"

section \<open>The list of jobs\<close>

definition instantiateShard :: "string \<Rightarrow> environ \<Rightarrow> string" where
  "instantiateShard body lookup =
     ReplaceAll ''$(SHARD)'' (case lookup ''SHARD'' of Some s \<Rightarrow> s | None \<Rightarrow> ''0'') body"

definition getScrapeConfigsResponse :: "('d, 'q, 'h, 'r, 'g) ta_lib \<Rightarrow> string \<Rightarrow> ta_error + (string, ('d, 'q, 'h, 'r) ScrapeJob option) gomap" where
  "getScrapeConfigsResponse X baseURL =
     (let u = baseURL @ ''/scrape_configs'' in
      if \<not> urlParse X u then Inl (ErrURL u)
      else err_bind (http_Get X u) (\<lambda>body. yamlUnmarshal X (instantiateShard body (LookupEnv X))))"

text \<open>\<open>hash/fnv\<close>: the 64-bit FNV-1 hash.\<close>

definition fnv_byte :: "64 word \<Rightarrow> char \<Rightarrow> 64 word" where
  "fnv_byte h c = (h * 1099511628211) XOR of_nat (of_char c)"

definition fnv_write :: "64 word \<Rightarrow> string \<Rightarrow> 64 word" where
  "fnv_write h s = foldl fnv_byte h s"

definition fnv_New64 :: "64 word" where
  "fnv_New64 = 14695981039346656037"

fun hash_jobs :: "('d, 'q, 'h, 'r, 'g) ta_lib \<Rightarrow> (string, ('d, 'q, 'h, 'r) ScrapeJob option) gomap \<Rightarrow> nat \<Rightarrow> 64 word \<Rightarrow> string list \<Rightarrow> ta_error + 64 word" where
  "hash_jobs X jobs n h [] = Inr h"
| "hash_jobs X jobs n h (j # js) =
     err_bind (Encode X n (case fmlookup jobs j of Some sc \<Rightarrow> sc | None \<Rightarrow> None))
       (\<lambda>doc. hash_jobs X jobs (n + 1) (fnv_write (fnv_write h j) doc) js)"

text \<open>\<open>ks\<close> is the order in which the range loop collects the keys, before they are sorted.\<close>

definition ta_getScrapeConfigHash :: "('d, 'q, 'h, 'r, 'g) ta_lib \<Rightarrow> string list \<Rightarrow> (string, ('d, 'q, 'h, 'r) ScrapeJob option) gomap \<Rightarrow> ta_error + 64 word" where
  "ta_getScrapeConfigHash X ks jobs = err_bind (hash_jobs X jobs 0 fnv_New64 (sort ks)) (\<lambda>h. Inr (fnv_write h (EncoderClose X)))"

section \<open>Applying a configuration\<close>

definition discovery_cfg :: "('d, 'q, 'h, 'r) ScrapeJob list \<Rightarrow> (string, ('d, 'q) sd_config list) gomap" where
  "discovery_cfg scs = foldl (\<lambda>m sc. fmupd (sc_JobName sc) (sc_ServiceDiscoveryConfigs sc) m) fmempty scs"

definition applyCfg :: "('d, 'q, 'h, 'r, 'g) ta_lib \<Rightarrow> ('d, 'q, 'h, 'r, 'g) prom_config \<Rightarrow> ('d, 'q, 'h, 'r, 'g) Manager
    \<Rightarrow> ('d, 'q, 'h, 'r, 'g) Manager \<times> ta_error option" where
  "applyCfg X cfg m =
     (case GetScrapeConfigs X cfg of
        Inl e \<Rightarrow> (m, Some e)
      | Inr scs \<Rightarrow>
        let m = m\<lparr>scrape_calls := scrape_calls m @ [cfg]\<rparr> in
        (case scrape_ApplyConfig X cfg of
           Some e \<Rightarrow> (m, Some e)
         | None \<Rightarrow> (m\<lparr>discovery_calls := discovery_calls m @ [discovery_cfg scs]\<rparr>, discovery_ApplyConfig X (discovery_cfg scs))))"

section \<open>Synchronising\<close>

definition targets_url :: "('h, 'q) ta_config \<Rightarrow> string \<Rightarrow> string" where
  "targets_url cfg job = Endpoint cfg @ ''/jobs/'' @ QueryEscape job @ ''/targets?collector_id='' @ CollectorID cfg"

definition sync_job :: "('d, 'q, 'h, 'r, 'g) ta_lib \<Rightarrow> ('h, 'q) ta_config \<Rightarrow> 'g \<Rightarrow> string \<Rightarrow> ('d, 'q, 'h, 'r) ScrapeJob \<Rightarrow> ta_error + ('d, 'q, 'h, 'r) ScrapeJob" where
  "sync_job X cfg globalCfg job sc =
     (let sd = (case HTTPSDConfig cfg of None \<Rightarrow> default_SDConfig | Some sd \<Rightarrow> sd)
      in err_bind (configureSDHTTPClientConfigFromTA X cfg (sd\<lparr>sd_URL := targets_url cfg job\<rparr>)) (\<lambda>sd.
         let sc = sc\<lparr>sc_ServiceDiscoveryConfigs := [HTTPSD (sd\<lparr>sd_FollowRedirects := False\<rparr>)]\<rparr>;
             sc = (case HTTPScrapeConfig cfg of None \<Rightarrow> sc | Some h \<Rightarrow> sc\<lparr>sc_HTTPClientConfig := h\<rparr>);
             sc = (if sc_ScrapeFallbackProtocol sc = '''' then sc\<lparr>sc_ScrapeFallbackProtocol := PrometheusText0_0_4 X\<rparr> else sc)
         in sc_Validate X globalCfg sc))"

datatype stop = Returned ta_error | Panicked go_fault

text \<open>The loop over the answer, in the order \<open>ks\<close>; a job without a value is a nil pointer.\<close>

fun sync_jobs :: "('d, 'q, 'h, 'r, 'g) ta_lib \<Rightarrow> ('h, 'q) ta_config \<Rightarrow> 'g \<Rightarrow> (string, ('d, 'q, 'h, 'r) ScrapeJob option) gomap
    \<Rightarrow> ('d, 'q, 'h, 'r) ScrapeJob list \<Rightarrow> string list \<Rightarrow> stop + ('d, 'q, 'h, 'r) ScrapeJob list" where
  "sync_jobs X cfg g jobs acc [] = Inr acc"
| "sync_jobs X cfg g jobs acc (j # js) =
     (case fmlookup jobs j of
        None \<Rightarrow> sync_jobs X cfg g jobs acc js
      | Some None \<Rightarrow>
          (case configureSDHTTPClientConfigFromTA X cfg
              ((case HTTPSDConfig cfg of None \<Rightarrow> default_SDConfig | Some sd \<Rightarrow> sd)\<lparr>sd_URL := targets_url cfg j\<rparr>) of
             Inl e \<Rightarrow> Inl (Returned e) | Inr _ \<Rightarrow> Inl (Panicked NilDeref))
      | Some (Some sc) \<Rightarrow>
          (case sync_job X cfg g j sc of
             Inl e \<Rightarrow> Inl (Returned e)
           | Inr sc' \<Rightarrow> sync_jobs X cfg g jobs (acc @ [sc']) js))"

definition count_update :: "('d, 'q, 'h, 'r, 'g) Manager \<Rightarrow> ('d, 'q, 'h, 'r, 'g) Manager" where
  "count_update m = m\<lparr>configUpdateCount := configUpdateCount m + 1,
     configUpdated := (if configUpdated m < 10 then configUpdated m + 1 else configUpdated m)\<rparr>"

definition sync_install :: "('d, 'q, 'h, 'r, 'g) ta_lib \<Rightarrow> ('d, 'q, 'h, 'r) ScrapeJob list \<Rightarrow> 64 word \<Rightarrow> ('d, 'q, 'h, 'r, 'g) Manager
    \<Rightarrow> ('d, 'q, 'h, 'r, 'g) Manager \<times> (stop + 64 word)" where
  "sync_install X scs hash m =
     (let m = m\<lparr>promCfg := (promCfg m)\<lparr>pc_ScrapeConfigs := scs\<rparr>\<rparr> in
      case applyCfg X (promCfg m) m of
        (m, Some e) \<Rightarrow> (m, Inl (Returned e))
      | (m, None) \<Rightarrow> (count_update m, Inr hash))"

definition sync :: "('d, 'q, 'h, 'r, 'g) ta_lib \<Rightarrow> ((string, ('d, 'q, 'h, 'r) ScrapeJob option) gomap \<Rightarrow> string list) \<Rightarrow> ('h, 'q) ta_config \<Rightarrow> 64 word
    \<Rightarrow> ('d, 'q, 'h, 'r, 'g) Manager \<Rightarrow> ('d, 'q, 'h, 'r, 'g) Manager \<times> (stop + 64 word)" where
  "sync X ord cfg compareHash m =
     (case getScrapeConfigsResponse X (Endpoint cfg) of
        Inl e \<Rightarrow> (m, Inl (Returned e))
      | Inr jobs \<Rightarrow>
        (case ta_getScrapeConfigHash X (ord jobs) jobs of
           Inl e \<Rightarrow> (m, Inl (Returned e))
         | Inr hash \<Rightarrow>
           if hash = compareHash then (m, Inr hash)
           else (case sync_jobs X cfg (pc_GlobalConfig (promCfg m)) jobs (initialScrapeConfigs m) (ord jobs) of
               Inl e \<Rightarrow> (m, Inl e)
             | Inr scs \<Rightarrow> sync_install X scs hash m)))"

section \<open>The life of the manager\<close>

text \<open>
  The first synchronisation is retried by the backoff package: \<open>Xs\<close> are the states of the world at its
  attempts, the last of which ends it, with success or by giving up.
\<close>

fun retry_sync :: "('d, 'q, 'h, 'r, 'g) ta_lib list \<Rightarrow> ((string, ('d, 'q, 'h, 'r) ScrapeJob option) gomap \<Rightarrow> string list) \<Rightarrow> ('h, 'q) ta_config
    \<Rightarrow> ('d, 'q, 'h, 'r, 'g) Manager \<Rightarrow> ('d, 'q, 'h, 'r, 'g) Manager \<times> (stop + 64 word) option" where
  "retry_sync [] ord cfg m = (m, None)"
| "retry_sync (X # Xs) ord cfg m =
     (case sync X ord cfg 0 m of
        (m', Inl (Returned e)) \<Rightarrow> if Xs = [] then (m', Some (Inl (Returned e))) else retry_sync Xs ord cfg m'
      | (m', r) \<Rightarrow> (m', Some r))"

text \<open>\<open>Start\<close>: \<open>Some h\<close> is the hash the polling loop starts with, \<open>None\<close> that there is no loop
  (the allocator is disabled, or the first synchronisation has not ended).\<close>

definition Start :: "('d, 'q, 'h, 'r, 'g) ta_lib \<Rightarrow> ('d, 'q, 'h, 'r, 'g) ta_lib list \<Rightarrow> ((string, ('d, 'q, 'h, 'r) ScrapeJob option) gomap \<Rightarrow> string list)
    \<Rightarrow> ('d, 'q, 'h, 'r, 'g) Manager \<Rightarrow> ('d, 'q, 'h, 'r, 'g) Manager \<times> (stop + 64 word option)" where
  "Start X Xs ord m =
     (case applyCfg X (promCfg m) (m\<lparr>initialScrapeConfigs := pc_ScrapeConfigs (promCfg m)\<rparr>) of
        (m, Some e) \<Rightarrow> (m, Inl (Returned e))
      | (m, None) \<Rightarrow>
        (case tm_cfg m of
           None \<Rightarrow> (m, Inr None)
         | Some cfg \<Rightarrow>
           (case ToClient X of
              Some e \<Rightarrow> (m, Inl (Returned e))
            | None \<Rightarrow>
              (case retry_sync Xs ord cfg m of
                 (m, None) \<Rightarrow> (m, Inr None)
               | (m, Some (Inl e)) \<Rightarrow> (m, Inl e)
               | (m, Some (Inr h)) \<Rightarrow> (m, Inr (Some h))))))"

text \<open>One tick of the polling loop: an error keeps the saved hash.\<close>

definition tick :: "('d, 'q, 'h, 'r, 'g) ta_lib \<Rightarrow> ((string, ('d, 'q, 'h, 'r) ScrapeJob option) gomap \<Rightarrow> string list) \<Rightarrow> ('h, 'q) ta_config
    \<Rightarrow> ('d, 'q, 'h, 'r, 'g) Manager \<times> 64 word \<Rightarrow> (('d, 'q, 'h, 'r, 'g) Manager \<times> 64 word) go" where
  "tick X ord cfg s =
     (case s of (m, savedHash) \<Rightarrow>
        (case sync X ord cfg savedHash m of
           (m', Inr h) \<Rightarrow> Inr (m', h)
         | (m', Inl (Returned e)) \<Rightarrow> Inr (m', savedHash)
         | (m', Inl (Panicked f)) \<Rightarrow> Inl f))"

section \<open>What a synchronisation does\<close>

text \<open>\<open>ScrapeConfig.Validate\<close> fills in defaults; it keeps the name of the job and its discovery.\<close>

definition validate_keeps :: "('d, 'q, 'h, 'r, 'g) ta_lib \<Rightarrow> bool" where
  "validate_keeps X \<longleftrightarrow> (\<forall>g sc sc'. sc_Validate X g sc = Inr sc' \<longrightarrow>
     sc_JobName sc' = sc_JobName sc \<and> sc_ServiceDiscoveryConfigs sc' = sc_ServiceDiscoveryConfigs sc)"

text \<open>The job \<open>sc\<close> that stands for the job \<open>j\<close> of the answer: its only discovery asks the allocator.\<close>

definition asks_allocator :: "('h, 'q) ta_config \<Rightarrow> (string, ('d, 'q, 'h, 'r) ScrapeJob option) gomap \<Rightarrow> string \<Rightarrow> ('d, 'q, 'h, 'r) ScrapeJob \<Rightarrow> bool" where
  "asks_allocator cfg jobs j sc \<longleftrightarrow>
     (\<exists>sc0 sd. fmlookup jobs j = Some (Some sc0) \<and> sc_JobName sc = sc_JobName sc0 \<and>
        sc_ServiceDiscoveryConfigs sc = [HTTPSD sd] \<and> sd_URL sd = targets_url cfg j \<and> \<not> sd_FollowRedirects sd)"

lemma err_bind_Inr [simp]: "err_bind x f = Inr z \<longleftrightarrow> (\<exists>y. x = Inr y \<and> f y = Inr z)"
  by (cases x) auto

lemma set_opt_keeps: "set_opt s conv store x = Inr y \<Longrightarrow> (\<And>v z. P (store v z) = P z) \<Longrightarrow> P y = P x"
  by (auto simp: set_opt_def split: if_splits)

lemma configure_keeps_URL: "configureSDHTTPClientConfigFromTA X cfg sd = Inr sd' \<Longrightarrow> sd_URL sd' = sd_URL sd"
  by (auto simp: configureSDHTTPClientConfigFromTA_def Let_def dest!: set_opt_keeps [where P = sd_URL])

lemma sync_job_asks:
  assumes "validate_keeps X" and "sync_job X cfg g j sc = Inr sc'" and "fmlookup jobs j = Some (Some sc)"
  shows "asks_allocator cfg jobs j sc'"
proof -
  let ?sd0 = "(case HTTPSDConfig cfg of None \<Rightarrow> default_SDConfig | Some sd \<Rightarrow> sd)\<lparr>sd_URL := targets_url cfg j\<rparr>"
  obtain sd scv where sd: "configureSDHTTPClientConfigFromTA X cfg ?sd0 = Inr sd"
    and v: "sc_Validate X g scv = Inr sc'" "sc_JobName scv = sc_JobName sc"
      "sc_ServiceDiscoveryConfigs scv = [HTTPSD (sd\<lparr>sd_FollowRedirects := False\<rparr>)]"
    using assms(2) by (auto simp: sync_job_def Let_def split: option.splits if_splits)
  have "sd_URL sd = targets_url cfg j" using configure_keeps_URL [OF sd] by simp
  with v assms(1,3) show ?thesis by (auto simp: asks_allocator_def validate_keeps_def)
qed

lemma sync_jobs_result:
  assumes "validate_keeps X" and "sync_jobs X cfg g jobs acc ks = Inr scs" and "set ks \<subseteq> fmdom' jobs"
  shows "\<exists>new. scs = acc @ new \<and> list_all2 (asks_allocator cfg jobs) ks new"
  using assms(2,3)
proof (induction ks arbitrary: acc)
  case (Cons j ks)
  then obtain sc where sc: "fmlookup jobs j = Some (Some sc)"
    by (auto simp: fmlookup_dom'_iff split: option.splits sum.splits)
  with Cons.prems obtain sc' where sc': "sync_job X cfg g j sc = Inr sc'" "sync_jobs X cfg g jobs (acc @ [sc']) ks = Inr scs"
    by (auto split: sum.splits)
  from Cons.IH [OF this(2)] Cons.prems(2) obtain new where "scs = acc @ sc' # new" "list_all2 (asks_allocator cfg jobs) ks new" by auto
  with sync_job_asks [OF assms(1) sc'(1) sc] show ?case by (intro exI [of _ "sc' # new"]) simp
qed simp

lemma hash_order: "enum ks m \<Longrightarrow> enum ks' m \<Longrightarrow> ta_getScrapeConfigHash X ks m = ta_getScrapeConfigHash X ks' m"
proof -
  assume "enum ks m" "enum ks' m"
  then have "sort ks = sort ks'" by (metis enum_def sorted_list_of_set_sort_remdups distinct_remdups_id)
  then show ?thesis by (simp add: ta_getScrapeConfigHash_def)
qed

text \<open>An installed answer: the base jobs followed by the jobs of the answer, handed to the scrape manager.\<close>

definition installed :: "('h, 'q) ta_config \<Rightarrow> (string, ('d, 'q, 'h, 'r) ScrapeJob option) gomap \<Rightarrow> string list
    \<Rightarrow> ('d, 'q, 'h, 'r, 'g) Manager \<Rightarrow> ('d, 'q, 'h, 'r, 'g) Manager \<Rightarrow> bool" where
  "installed cfg jobs ks m m' \<longleftrightarrow>
     (\<exists>new. pc_ScrapeConfigs (promCfg m') = initialScrapeConfigs m @ new \<and> list_all2 (asks_allocator cfg jobs) ks new) \<and>
     pc_GlobalConfig (promCfg m') = pc_GlobalConfig (promCfg m) \<and> initialScrapeConfigs m' = initialScrapeConfigs m"

lemma applyCfg_frame:
  assumes "applyCfg X c m = (m', e)"
  shows "promCfg m' = promCfg m" "initialScrapeConfigs m' = initialScrapeConfigs m"
    "e = None \<Longrightarrow> scrape_calls m' = scrape_calls m @ [c]"
    "e = None \<Longrightarrow> \<exists>scs. GetScrapeConfigs X c = Inr scs \<and> discovery_calls m' = discovery_calls m @ [discovery_cfg scs]"
  using assms by (auto simp: applyCfg_def Let_def split: sum.splits option.splits)

lemma sync_install_result:
  assumes "sync_install X scs h m = (m', r)"
  shows "promCfg m' = (promCfg m)\<lparr>pc_ScrapeConfigs := scs\<rparr>" "initialScrapeConfigs m' = initialScrapeConfigs m"
    "r = Inr h \<and> scrape_calls m' = scrape_calls m @ [promCfg m'] \<and>
       (\<exists>all. GetScrapeConfigs X (promCfg m') = Inr all \<and> discovery_calls m' = discovery_calls m @ [discovery_cfg all])
     \<or> (\<exists>e. r = Inl (Returned e))"
proof -
  let ?m = "m\<lparr>promCfg := (promCfg m)\<lparr>pc_ScrapeConfigs := scs\<rparr>\<rparr>"
  obtain m1 e where a: "applyCfg X (promCfg ?m) ?m = (m1, e)" by fastforce
  note f = applyCfg_frame [OF a]
  show "promCfg m' = (promCfg m)\<lparr>pc_ScrapeConfigs := scs\<rparr>" "initialScrapeConfigs m' = initialScrapeConfigs m"
    "r = Inr h \<and> scrape_calls m' = scrape_calls m @ [promCfg m'] \<and>
       (\<exists>all. GetScrapeConfigs X (promCfg m') = Inr all \<and> discovery_calls m' = discovery_calls m @ [discovery_cfg all])
     \<or> (\<exists>e. r = Inl (Returned e))"
    using assms a f by (auto simp: sync_install_def count_update_def split: option.splits)
qed

lemma sync_result:
  assumes "sync X ord cfg h0 m = (m', r)" and "validate_keeps X" and "\<And>jobs. enum (ord jobs) jobs" and "\<And>jobs. enum (ord' jobs) jobs"
  shows "case r of
      Inr h \<Rightarrow> sync X ord' cfg h m' = (m', Inr h) \<and>
        (if h = h0 then m' = m
         else \<exists>jobs. getScrapeConfigsResponse X (Endpoint cfg) = Inr jobs \<and> installed cfg jobs (ord jobs) m m' \<and>
           scrape_calls m' = scrape_calls m @ [promCfg m'] \<and>
           (\<exists>all. GetScrapeConfigs X (promCfg m') = Inr all \<and> discovery_calls m' = discovery_calls m @ [discovery_cfg all]))
    | Inl e \<Rightarrow> m' = m \<or> (\<exists>jobs. getScrapeConfigsResponse X (Endpoint cfg) = Inr jobs \<and> installed cfg jobs (ord jobs) m m')"
proof (cases "getScrapeConfigsResponse X (Endpoint cfg)")
  case (Inl e)
  then show ?thesis using assms(1) by (auto simp: sync_def)
next
  case (Inr jobs)
  note jobs = Inr
  have dom: "set (ord jobs) \<subseteq> fmdom' jobs" using assms(3) by (simp add: enum_def)
  show ?thesis
  proof (cases "ta_getScrapeConfigHash X (ord jobs) jobs")
    case (Inl e)
    then show ?thesis using assms(1) jobs by (auto simp: sync_def)
  next
    case (Inr h)
    then have again: "sync X ord' cfg h m1 = (m1, Inr h)" for m1 :: "('a, 'b, 'c, 'd, 'e) Manager"
      using jobs hash_order [OF assms(3,4), of X jobs] by (simp add: sync_def)
    show ?thesis
    proof (cases "h = h0")
      case True
      then show ?thesis using assms(1) jobs Inr again [of m] by (auto simp: sync_def)
    next
      case False
      let ?loop = "sync_jobs X cfg (pc_GlobalConfig (promCfg m)) jobs (initialScrapeConfigs m) (ord jobs)"
      show ?thesis
      proof (cases ?loop)
        case (Inl e)
        then show ?thesis using assms(1) jobs Inr False by (auto simp: sync_def)
      next
        case loop: (Inr scs)
        have i: "sync_install X scs h m = (m', r)" using assms(1) jobs Inr False loop by (simp add: sync_def)
        have "installed cfg jobs (ord jobs) m m'"
          using sync_jobs_result [OF assms(2) loop dom] sync_install_result(1,2) [OF i] by (auto simp: installed_def)
        then show ?thesis using sync_install_result(3) [OF i] jobs again [of m'] False by auto
      qed
    qed
  qed
qed

text \<open>
  One synchronisation, for every visiting order of the answer. If it returns the hash it was given,
  nothing changed; if it returns another one, the installed jobs are the base jobs followed by one job for
  each job of the answer, whose only discovery is the allocator's list for this collector, and both managers
  were handed exactly that configuration. Polling the same answer again, in any order, then changes nothing.
  An error leaves everything as it was, unless it came from the managers themselves, after the installation.
\<close>

theorem sync_installs:
  assumes "sync X ord cfg h0 m = (m', r)" and "validate_keeps X" and "\<And>jobs. enum (ord jobs) jobs" and "\<And>jobs. enum (ord' jobs) jobs"
  shows "case r of
      Inr h \<Rightarrow> sync X ord' cfg h m' = (m', Inr h) \<and>
        (if h = h0 then m' = m
         else \<exists>jobs. getScrapeConfigsResponse X (Endpoint cfg) = Inr jobs \<and> installed cfg jobs (ord jobs) m m' \<and>
           scrape_calls m' = scrape_calls m @ [promCfg m'] \<and>
           (\<exists>all. GetScrapeConfigs X (promCfg m') = Inr all \<and> discovery_calls m' = discovery_calls m @ [discovery_cfg all]))
    | Inl e \<Rightarrow> m' = m \<or> (\<exists>jobs. getScrapeConfigsResponse X (Endpoint cfg) = Inr jobs \<and> installed cfg jobs (ord jobs) m m')"
  using assms by (rule sync_result)

section \<open>The request that reaches the allocator\<close>
















section \<open>A run\<close>

type_synonym demo_scrape_job = "(unit, unit, unit, unit) ScrapeJob"

definition demo_ta_job :: demo_scrape_job where
  "demo_ta_job = \<lparr>sc_JobName = ''job'', sc_ServiceDiscoveryConfigs = [], sc_HTTPClientConfig = (), sc_ScrapeFallbackProtocol = '''', sc_Rest = ()\<rparr>"

definition demo_ta :: "(unit, unit, unit, unit, unit) ta_lib" where
  "demo_ta = \<lparr>urlParse = (\<lambda>_. True), http_Get = (\<lambda>_. Inr ''''), LookupEnv = (\<lambda>_. None),
     yamlUnmarshal = (\<lambda>_. Inr (fmupd ''job'' (Some demo_ta_job) fmempty)), Encode = (\<lambda>_ _. Inr ''doc''), EncoderClose = '''',
     TLSVersions = (\<lambda>_. None), sc_Validate = (\<lambda>_ sc. Inr sc), GetScrapeConfigs = (\<lambda>c. Inr (pc_ScrapeConfigs c)),
     scrape_ApplyConfig = (\<lambda>_. None), discovery_ApplyConfig = (\<lambda>_. None), ToClient = None, PrometheusText0_0_4 = ''text''\<rparr>"

definition demo_ta_config :: "(unit, unit) ta_config" where
  "demo_ta_config = \<lparr>Endpoint = ''http://ta'',
     ta_TLS = \<lparr>tc_InsecureSkipVerify = False, tc_ServerName = '''', tc_CAFile = '''', tc_CertFile = '''', tc_KeyFile = '''',
       tc_CAPem = '''', tc_CertPem = '''', tc_KeyPem = '''', tc_MinVersion = '''', tc_MaxVersion = ''''\<rparr>,
     ta_ProxyURL = '''', Interval = 1, CollectorID = ''c1'', HTTPSDConfig = None, HTTPScrapeConfig = None\<rparr>"

definition demo_manager :: "(unit, unit, unit, unit, unit) Manager" where
  "demo_manager = NewManager (Some demo_ta_config) \<lparr>pc_GlobalConfig = (), pc_ScrapeConfigs = []\<rparr>"

definition sorted_keys :: "(string, 'v) gomap \<Rightarrow> string list" where
  "sorted_keys m = sorted_list_of_set (fmdom' m)"

definition demo_hash_ta :: "64 word" where
  "demo_hash_ta = fnv_write fnv_New64 ''jobdoc''"

lemma sorted_keys_enum: "enum (sorted_keys m) m"
  by (simp add: sorted_keys_def enum_def)

lemma demo_validate: "validate_keeps demo_ta"
  by (simp add: validate_keeps_def demo_ta_def)

lemma demo_response: "getScrapeConfigsResponse demo_ta (Endpoint demo_ta_config) = Inr (fmupd ''job'' (Some demo_ta_job) fmempty)"
  by (simp add: getScrapeConfigsResponse_def demo_ta_def Let_def)

lemma demo_sync: "\<exists>m'. sync demo_ta sorted_keys demo_ta_config 0 demo_manager = (m', Inr demo_hash_ta)"
proof -
  have "snd (sync demo_ta sorted_keys demo_ta_config 0 demo_manager) = Inr demo_hash_ta" by code_simp
  then show ?thesis by (metis prod.collapse)
qed

lemma demo_hash_ta_new: "demo_hash_ta \<noteq> 0"
  by code_simp

theorem sync_installs_witness:
  "\<exists>m'. sync demo_ta sorted_keys demo_ta_config 0 demo_manager = (m', Inr demo_hash_ta) \<and>
     installed demo_ta_config (fmupd ''job'' (Some demo_ta_job) fmempty) [''job''] demo_manager m' \<and>
     sync demo_ta sorted_keys demo_ta_config demo_hash_ta m' = (m', Inr demo_hash_ta)"
proof -
  obtain m' where s: "sync demo_ta sorted_keys demo_ta_config 0 demo_manager = (m', Inr demo_hash_ta)" using demo_sync by blast
  have "sorted_keys (fmupd ''job'' (Some demo_ta_job) fmempty) = [''job'']" by (simp add: sorted_keys_def)
  with sync_installs [OF s demo_validate sorted_keys_enum sorted_keys_enum] demo_response demo_hash_ta_new s
  show ?thesis by auto
qed


end
