(* ===== verification/Certificates.thy ===== *)
theory Certificates
  imports GoStrings
begin

text \<open>
  The certificates of the target allocator's HTTPS server: \<open>certcreator/cert_creator.go\<close>,
  \<open>certgenerator/cert_generator.go\<close> and \<open>certoperator/cert_operator.go\<close> under
  \<open>configuration-reader-builder/\<close>, and the calendar arithmetic of \<open>time.AddDate\<close>.

  The random source, key generation, X.509 signing and parsing, and the PEM encoder are the record \<open>cert_lib\<close>. They act on
  a world \<open>'w\<close> that holds the clock and the random source. An error of such a call is a string; a nil pointer is \<open>None\<close>.
\<close>

section \<open>Calendar time\<close>

text \<open>
  What the clock returns, in UTC. \<open>Date_days\<close> is the day number of \<open>time.Date\<close>, which normalises a month outside
  1 to 12 into the year and takes any day of the month.
\<close>

record Time =
  t_year :: int
  t_month :: int
  t_day :: int
  t_nsec :: int

definition is_leap :: "int \<Rightarrow> bool" where
  "is_leap y \<longleftrightarrow> y mod 4 = 0 \<and> (y mod 100 \<noteq> 0 \<or> y mod 400 = 0)"

definition daysBefore :: "int list" where
  "daysBefore = [0, 31, 59, 90, 120, 151, 181, 212, 243, 273, 304, 334]"

definition daysSinceEpoch :: "int \<Rightarrow> int" where
  "daysSinceEpoch y = (let y = y - 1 in 365 * y + y div 4 - y div 100 + y div 400)"

definition Date_days :: "int \<Rightarrow> int \<Rightarrow> int \<Rightarrow> int" where
  "Date_days year month day =
     (let m = (month - 1) mod 12; year = year + (month - 1) div 12 in
      daysSinceEpoch year + daysBefore ! nat m + (if is_leap year \<and> m \<ge> 2 then 1 else 0) + day - 1)"

definition day_ns :: int where
  "day_ns = 24 * 60 * 60 * 10 ^ 9"

definition instant :: "Time \<Rightarrow> int" where
  "instant t = Date_days (t_year t) (t_month t) (t_day t) * day_ns + t_nsec t"

definition AddDate :: "Time \<Rightarrow> int \<Rightarrow> int \<Rightarrow> int \<Rightarrow> int" where
  "AddDate t years months days = Date_days (t_year t + years) (t_month t + months) (t_day t + days) * day_ns + t_nsec t"

definition valid_time :: "Time \<Rightarrow> bool" where
  "valid_time t \<longleftrightarrow> 1 \<le> t_month t \<and> t_month t \<le> 12 \<and> 1 \<le> t_day t \<and> t_day t \<le> 31 \<and> 0 \<le> t_nsec t \<and> t_nsec t < day_ns"

section \<open>Certificates\<close>

datatype KeyUsage = KeyUsageCertSign | KeyUsageKeyEncipherment | KeyUsageDigitalSignature
datatype ExtKeyUsage = ExtKeyUsageServerAuth | ExtKeyUsageClientAuth

record Certificate =
  CommonName :: string
  NotBefore :: int
  NotAfter :: int
  cert_KeyUsage :: "KeyUsage list"
  BasicConstraintsValid :: bool
  IsCA :: bool
  DNSNames :: "string list"
  cert_ExtKeyUsage :: "ExtKeyUsage list"
  SerialNumber :: "int option"
  Raw :: string

record ('w, 'key) cert_lib =
  Now :: "'w \<Rightarrow> Time \<times> 'w"
  Sleep :: "nat \<Rightarrow> 'w \<Rightarrow> 'w"
  rand_Int :: "int \<Rightarrow> 'w \<Rightarrow> (string + int) \<times> 'w"
  rsa_GenerateKey :: "nat \<Rightarrow> 'w \<Rightarrow> (string + 'key) \<times> 'w"
  x509_CreateCertificate :: "Certificate \<Rightarrow> Certificate \<Rightarrow> 'key \<Rightarrow> 'key \<Rightarrow> 'w \<Rightarrow> (string + string) \<times> 'w"
  x509_ParseCertificate :: "string \<Rightarrow> string + Certificate"
  x509_ParsePKCS1PrivateKey :: "string \<Rightarrow> string + 'key"
  x509_MarshalPKCS1PrivateKey :: "'key \<Rightarrow> string"
  pem_Encode :: "string \<Rightarrow> string \<Rightarrow> string + string"
  pem_Decode :: "string \<Rightarrow> (string \<times> string) option"

text \<open>Calls that may panic, may return an error, and move the world on.\<close>

type_synonym ('w, 'a) call = "'w \<Rightarrow> ((string + 'a) \<times> 'w) go"

definition call_bind :: "('w, 'a) call \<Rightarrow> ('a \<Rightarrow> ('w, 'b) call) \<Rightarrow> ('w, 'b) call" where
  "call_bind m f w = go_bind (m w) (\<lambda>(r, w'). case r of Inl e \<Rightarrow> Inr (Inl e, w') | Inr x \<Rightarrow> f x w')"

definition pure_call :: "string + 'a \<Rightarrow> ('w, 'a) call" where
  "pure_call r w = Inr (r, w)"

definition lib_call :: "('w \<Rightarrow> (string + 'a) \<times> 'w) \<Rightarrow> ('w, 'a) call" where
  "lib_call f w = Inr (f w)"

section \<open>cert\_creator.go\<close>

definition GenerateSN :: "('w, 'key) cert_lib \<Rightarrow> ('w, int) call" where
  "GenerateSN L = lib_call (rand_Int L (2 ^ 128))"

text \<open>
  \<open>x509.CreateCertificate\<close>. It first asks the private key for its public part, so a nil key panics; so does a nil parent.
\<close>

definition CreateCertificate ::
    "('w, 'key) cert_lib \<Rightarrow> Certificate \<Rightarrow> Certificate option \<Rightarrow> 'key \<Rightarrow> 'key option \<Rightarrow> ('w, string) call" where
  "CreateCertificate L template parent publicKey privateKey w =
     (case (privateKey, parent) of
        (Some key, Some p) \<Rightarrow> Inr (x509_CreateCertificate L template p publicKey key w)
      | _ \<Rightarrow> Inl NilDeref)"

text \<open>
  The signing request is a pointer: for a self-signed certificate it is the parent as well, with the serial number that is set here.
\<close>

datatype signer = SelfSigned | SignedBy "Certificate option"

definition CreateCertificateWithPublicKey ::
    "('w, 'key) cert_lib \<Rightarrow> Certificate \<Rightarrow> 'key \<Rightarrow> signer \<Rightarrow> 'key option \<Rightarrow> ('w, Certificate) call" where
  "CreateCertificateWithPublicKey L csr publicKey caCert caKey =
     call_bind (GenerateSN L) (\<lambda>sn.
       let csr = csr\<lparr>SerialNumber := Some sn\<rparr>;
           parent = (case caCert of SelfSigned \<Rightarrow> Some csr | SignedBy c \<Rightarrow> c) in
       call_bind (CreateCertificate L csr parent publicKey caKey) (\<lambda>certDerBytes.
       pure_call (x509_ParseCertificate L certDerBytes)))"

section \<open>cert\_generator.go\<close>

definition KeySize :: nat where
  "KeySize = 4096"

definition gen_CreateSelfSignedCertificateKeyPair ::
    "('w, 'key) cert_lib \<Rightarrow> Certificate option \<Rightarrow> ('w, Certificate \<times> 'key) call" where
  "gen_CreateSelfSignedCertificateKeyPair L csr =
     (case csr of
        None \<Rightarrow> pure_call (Inl ''certificate signing request is nil'')
      | Some csr \<Rightarrow>
        call_bind (lib_call (rsa_GenerateKey L KeySize)) (\<lambda>privateKey.
        call_bind (CreateCertificateWithPublicKey L csr privateKey SelfSigned (Some privateKey)) (\<lambda>certificate.
        pure_call (Inr (certificate, privateKey)))))"

definition gen_CreateCertificateKeyPair ::
    "('w, 'key) cert_lib \<Rightarrow> Certificate option \<Rightarrow> Certificate option \<Rightarrow> 'key option \<Rightarrow> ('w, Certificate \<times> 'key) call" where
  "gen_CreateCertificateKeyPair L csr caCert caKey =
     (case csr of
        None \<Rightarrow> pure_call (Inl ''certificate signing request is nil'')
      | Some csr \<Rightarrow>
        call_bind (lib_call (rsa_GenerateKey L KeySize)) (\<lambda>privateKey.
        call_bind (CreateCertificateWithPublicKey L csr privateKey (SignedBy caCert) caKey) (\<lambda>certificate.
        pure_call (Inr (certificate, privateKey)))))"

definition gen_CreateCertificate ::
    "('w, 'key) cert_lib \<Rightarrow> Certificate option \<Rightarrow> 'key option \<Rightarrow> Certificate option \<Rightarrow> 'key option \<Rightarrow> ('w, Certificate) call" where
  "gen_CreateCertificate L csr privateKey caCert caKey =
     (case privateKey of
        None \<Rightarrow> pure_call (Inl ''private key is nil'')
      | Some key \<Rightarrow>
        (case csr of
           None \<Rightarrow> pure_call (Inl ''certificate signing request is nil'')
         | Some csr \<Rightarrow> CreateCertificateWithPublicKey L csr key (SignedBy caCert) caKey))"

section \<open>cert\_operator.go\<close>

definition not_pem :: string where
  "not_pem = ''The raw pem is not a valid PEM formatted block''"

definition pemToPrivateKey :: "('w, 'key) cert_lib \<Rightarrow> string \<Rightarrow> string + 'key" where
  "pemToPrivateKey L raw =
     (case pem_Decode L raw of None \<Rightarrow> Inl not_pem | Some (blockType, bytes) \<Rightarrow> x509_ParsePKCS1PrivateKey L bytes)"

definition pemToCertificate :: "('w, 'key) cert_lib \<Rightarrow> string \<Rightarrow> string + Certificate" where
  "pemToCertificate L raw =
     (case pem_Decode L raw of None \<Rightarrow> Inl not_pem | Some (blockType, bytes) \<Rightarrow> x509_ParseCertificate L bytes)"

definition certificateToPem :: "('w, 'key) cert_lib \<Rightarrow> Certificate \<Rightarrow> string + string" where
  "certificateToPem L cert = pem_Encode L ''CERTIFICATE'' (Raw cert)"

definition privateKeyToPem :: "('w, 'key) cert_lib \<Rightarrow> 'key \<Rightarrow> string + string" where
  "privateKeyToPem L privateKey = pem_Encode L ''RSA PRIVATE KEY'' (x509_MarshalPKCS1PrivateKey L privateKey)"

definition getCertKeyAsPem :: "('w, 'key) cert_lib \<Rightarrow> Certificate \<Rightarrow> 'key \<Rightarrow> string + string \<times> string" where
  "getCertKeyAsPem L cert key =
     (case certificateToPem L cert of
        Inl e \<Rightarrow> Inl e
      | Inr certBytes \<Rightarrow> (case privateKeyToPem L key of Inl e \<Rightarrow> Inl e | Inr keyBytes \<Rightarrow> Inr (certBytes, keyBytes)))"

definition CreateSelfSignedCertificateKeyPair ::
    "('w, 'key) cert_lib \<Rightarrow> Certificate option \<Rightarrow> ('w, Certificate \<times> string \<times> 'key \<times> string) call" where
  "CreateSelfSignedCertificateKeyPair L csr =
     call_bind (gen_CreateSelfSignedCertificateKeyPair L csr) (\<lambda>(cert, key).
     call_bind (pure_call (getCertKeyAsPem L cert key)) (\<lambda>(certPem, keyPem).
     pure_call (Inr (cert, certPem, key, keyPem))))"

definition CreateCertificateKeyPair ::
    "('w, 'key) cert_lib \<Rightarrow> Certificate option \<Rightarrow> Certificate option \<Rightarrow> 'key option \<Rightarrow> ('w, string \<times> string) call" where
  "CreateCertificateKeyPair L csr caCert caKey =
     call_bind (gen_CreateCertificateKeyPair L csr caCert caKey) (\<lambda>(cert, key). pure_call (getCertKeyAsPem L cert key))"

definition op_CreateCertificate ::
    "('w, 'key) cert_lib \<Rightarrow> Certificate option \<Rightarrow> string \<Rightarrow> Certificate option \<Rightarrow> 'key option \<Rightarrow> ('w, string) call" where
  "op_CreateCertificate L csr keyPem caCert caKey =
     call_bind (pure_call (pemToPrivateKey L keyPem)) (\<lambda>key.
     call_bind (gen_CreateCertificate L csr (Some key) caCert caKey) (\<lambda>cert.
     pure_call (certificateToPem L cert)))"

end
