(* ===== verification/ConfigReader.thy ===== *)
theory ConfigReader
  imports Validator Certificates
begin

text \<open>
  \<open>configuration-reader-builder/main.go\<close>: the side car of the target allocator. It parses the config map, creates the
  certificates, writes the configuration file of the allocator and answers the liveness probes of both containers.

  The libraries are the record \<open>reader_lib\<close>: those of the config map parser and of the certificates, the API of the cluster, whose
  state is of type \<open>'c\<close>, the version parser of Kubernetes, the YAML encoder of \<open>shared.Config\<close> and the start of \<open>inotifywait\<close>.
\<close>

section \<open>The configuration of the target allocator\<close>

text \<open>\<open>shared/otel_config.go\<close>; a selector is the labels it matches, and the fields that the reader leaves out are nil.\<close>

type_synonym LabelSelector = "(string \<times> string) list"

record shared_PrometheusCRConfig =
  sh_ServiceMonitorSelector :: "LabelSelector option"
  sh_PodMonitorSelector :: "LabelSelector option"
  sh_SecretsAccessNamespaces :: "string list"

record shared_HTTPSServerConfig =
  sh_Enabled :: bool
  sh_ListenAddr :: string
  sh_CAFilePath :: string
  sh_TLSCertFilePath :: string
  sh_TLSKeyFilePath :: string

record shared_Config =
  sh_CollectorSelector :: "LabelSelector option"
  sh_Config :: "ymap option"
  sh_AllocationStrategy :: string
  sh_PrometheusCR :: shared_PrometheusCRConfig
  sh_FilterStrategy :: string
  sh_HTTPS :: shared_HTTPSServerConfig

section \<open>Libraries and state\<close>

record Secret =
  secret_Name :: string
  secret_Namespace :: string
  secret_Data :: "(string \<times> string) list"
  secret_Type :: string

datatype api_error = AlreadyExists | ApiError string

record ('w, 'key, 'c) reader_lib =
  cm :: cm_lib
  certs :: "('w, 'key) cert_lib"
  InClusterConfig :: "environ \<Rightarrow> string + string"
  NewForConfig :: "string \<Rightarrow> string option"
  Secrets_Create :: "Secret \<Rightarrow> 'c \<Rightarrow> api_error option \<times> 'c"
  Secrets_Update :: "Secret \<Rightarrow> 'c \<Rightarrow> api_error option \<times> 'c"
  ParseSemantic_ok :: "string \<Rightarrow> bool"
  version_LessThan :: "string \<Rightarrow> string \<Rightarrow> bool"
  MarshalTA :: "shared_Config \<Rightarrow> string"
  start_inotify :: "string \<Rightarrow> string \<Rightarrow> string option"

text \<open>The process: its variables, with a zero time as \<open>None\<close>, its environment and files, the world and the cluster.\<close>

record ('w, 'c) reader =
  taConfigUpdated :: bool
  taLivenessStartTime :: "int option"
  cfgReaderContainerStartTime :: int
  rd :: cm_state
  world :: 'w
  cluster :: 'c

text \<open>How the process ends early: \<open>log.Fatalf\<close>, or a panic.\<close>

datatype exit = Fatal string | Panicked go_fault

fun exit_bind :: "exit + 'a \<Rightarrow> ('a \<Rightarrow> exit + 'b) \<Rightarrow> exit + 'b" where
  "exit_bind (Inl e) f = Inl e"
| "exit_bind (Inr x) f = f x"

definition or_panic :: "'a go \<Rightarrow> exit + 'a" where
  "or_panic r = map_sum Panicked id r"

lemma exit_bind_Inr [simp]: "exit_bind x f = Inr z \<longleftrightarrow> (\<exists>y. x = Inr y \<and> f y = Inr z)"
  by (cases x) auto

lemma or_panic_Inr [simp]: "or_panic r = Inr x \<longleftrightarrow> r = Inr x" "or_panic (Inr x) = Inr x" "or_panic (Inl e) = Inl (Panicked e)"
  by (cases r; simp add: or_panic_def)+

definition taConfigFilePath :: string where
  "taConfigFilePath = ''/ta-configuration/targetallocator.yaml''"

definition https_wanted :: "environ \<Rightarrow> bool" where
  "https_wanted env \<longleftrightarrow> Getenv env ''AZMON_OPERATOR_HTTPS_ENABLED'' = ''true''"

section \<open>Writing the configuration file\<close>

definition unescape_dollars :: "string \<Rightarrow> string" where
  "unescape_dollars s = ReplaceAll ''$$'' ''$'' s"

fun unescape_rule :: "yval \<Rightarrow> yval go" where
  "unescape_rule (YMap m) =
     (let m1 = (case fmlookup m (KStr ''regex'') of
                  Some (YStr r) \<Rightarrow> fmupd (KStr ''regex'') (YStr (unescape_dollars r)) m | _ \<Rightarrow> m)
      in case fmlookup m1 (KStr ''replacement'') of
           None \<Rightarrow> Inr (YMap m1)
         | Some YNil \<Rightarrow> Inr (YMap m1)
         | Some (YStr r) \<Rightarrow> Inr (YMap (fmupd (KStr ''replacement'') (YStr (unescape_dollars r)) m1))
         | Some _ \<Rightarrow> Inl TypeAssertion)"
| "unescape_rule _ = Inl TypeAssertion"

fun unescape_job :: "yval \<Rightarrow> yval go" where
  "unescape_job (YMap m) =
     go_bind (update_list ''relabel_configs'' unescape_rule m) (\<lambda>m1.
     go_bind (update_list ''metric_relabel_configs'' unescape_rule m1) (\<lambda>m2. Inr (YMap m2)))"
| "unescape_job _ = Inl TypeAssertion"

definition unescape_config :: "ymap option \<Rightarrow> ymap option go" where
  "unescape_config promScrapeConfig =
     (case promScrapeConfig of
        None \<Rightarrow> Inr None
      | Some m \<Rightarrow> go_bind (update_list ''scrape_configs'' unescape_job m) (\<lambda>m'. Inr (Some m')))"

definition secrets_namespaces :: "('w, 'key, 'c) reader_lib \<Rightarrow> environ \<Rightarrow> string list" where
  "secrets_namespaces L env =
     (let kubeVersion = Getenv env ''KUBE_VERSION'' in
      if kubeVersion \<noteq> '''' \<and> ParseSemantic_ok L kubeVersion \<and> \<not> version_LessThan L kubeVersion ''v1.37.0''
      then let sns = Getenv env ''AZMON_SECRETS_ACCESS_NAMESPACES'' in if sns \<noteq> '''' then split_namespaces sns else []
      else [''''])"

definition https_server :: shared_HTTPSServerConfig where
  "https_server = \<lparr>sh_Enabled = True, sh_ListenAddr = '':8443'',
     sh_CAFilePath = ''/etc/operator-targets/server/certs/ca.crt'',
     sh_TLSCertFilePath = ''/etc/operator-targets/server/certs/server.crt'',
     sh_TLSKeyFilePath = ''/etc/operator-targets/server/certs/server.key''\<rparr>"

definition no_https :: shared_HTTPSServerConfig where
  "no_https = \<lparr>sh_Enabled = False, sh_ListenAddr = '''', sh_CAFilePath = '''', sh_TLSCertFilePath = '''', sh_TLSKeyFilePath = ''''\<rparr>"

definition targetAllocatorConfig :: "environ \<Rightarrow> bool \<Rightarrow> string list \<Rightarrow> ymap option \<Rightarrow> shared_Config" where
  "targetAllocatorConfig env httpsEnabled namespaces promScrapeConfig =
     \<lparr>sh_CollectorSelector = Some [(''rsName'', ''ama-metrics''), (''kubernetes.azure.com/managedby'', ''aks'')],
      sh_Config = promScrapeConfig, sh_AllocationStrategy = ''consistent-hashing'',
      sh_PrometheusCR = \<lparr>sh_ServiceMonitorSelector = Some [], sh_PodMonitorSelector = Some [], sh_SecretsAccessNamespaces = namespaces\<rparr>,
      sh_FilterStrategy = ''relabel-config'',
      sh_HTTPS = (if https_wanted env \<and> httpsEnabled then https_server else no_https)\<rparr>"

definition write_ta_config :: "('w, 'key, 'c) reader_lib \<Rightarrow> shared_Config \<Rightarrow> ('w, 'c) reader \<Rightarrow> exit + ('w, 'c) reader" where
  "write_ta_config L cfg s =
     (case WriteFile (base (cm L)) taConfigFilePath (MarshalTA L cfg) (cm_files (rd s)) of
        None \<Rightarrow> Inl (Fatal ''Unable to write to the target allocator configuration'')
      | Some fs \<Rightarrow>
        (case Now (certs L) (world s) of (now, w) \<Rightarrow>
           Inr (s\<lparr>rd := (rd s)\<lparr>cm_files := fs\<rparr>, taConfigUpdated := True, taLivenessStartTime := Some (instant now), world := w\<rparr>)))"

definition updateTAConfigFile :: "('w, 'key, 'c) reader_lib \<Rightarrow> string \<Rightarrow> bool \<Rightarrow> ('w, 'c) reader \<Rightarrow> exit + ('w, 'c) reader" where
  "updateTAConfigFile L configFilePath httpsEnabled s =
     (case fmlookup (cm_files (rd s)) configFilePath of
        None \<Rightarrow> Inl (Fatal ''Unable to read file contents'')
      | Some contents \<Rightarrow>
        (case UnmarshalOtel (cm L) contents of
           None \<Rightarrow> Inl (Fatal ''Unable to unmarshal merged otel configuration'')
         | Some otelConfig \<Rightarrow>
           exit_bind (or_panic (unescape_config (prometheus_Config otelConfig))) (\<lambda>promScrapeConfig.
             let env = cm_env (rd s) in
             write_ta_config L (targetAllocatorConfig env httpsEnabled (secrets_namespaces L env) promScrapeConfig) s)))"

section \<open>The liveness probes\<close>

definition hasConfigChanged :: "fsys \<Rightarrow> string \<Rightarrow> bool" where
  "hasConfigChanged fs f \<longleftrightarrow> (case fmlookup fs f of None \<Rightarrow> False | Some c \<Rightarrow> c \<noteq> '''')"

text \<open>
  A reply is the status and the body that the handler writes. A handler that writes nothing is answered with status 200 by \<open>net/http\<close>.
  \<open>reqOk\<close> is whether \<open>http.NewRequest\<close> succeeds, \<open>resp\<close> the status that the allocator answers with, if it answers.
\<close>

type_synonym reply = "(nat \<times> string) option"

definition status_sent :: "reply \<Rightarrow> nat" where
  "status_sent r = (case r of None \<Rightarrow> 200 | Some (status, body) \<Rightarrow> status)"

definition taCertNotice :: string where
  "taCertNotice = ''/opt/inotifyoutput-ta-server-cert-secret.txt''"

definition newline :: string where
  "newline = [CHR 0x0A]"

definition second_ns :: int where
  "second_ns = 10 ^ 9"

definition config_window :: "int \<Rightarrow> ('w, 'c) reader \<Rightarrow> nat \<times> string \<Rightarrow> (nat \<times> string) \<times> ('w, 'c) reader" where
  "config_window now s = (\<lambda>(status, message).
     if taConfigUpdated s
     then (case taLivenessStartTime s of
         None \<Rightarrow> ((status, message), s)
       | Some start \<Rightarrow>
         if now - start < 60 * second_ns then ((503, message @ ''targetallocator-config changed''), s)
         else ((status, message), s\<lparr>taConfigUpdated := False, taLivenessStartTime := None\<rparr>))
     else ((status, message), s))"

definition cert_notice :: "('w, 'key, 'c) reader_lib \<Rightarrow> ('w, 'c) reader \<Rightarrow> nat \<times> string \<Rightarrow> (nat \<times> string) \<times> ('w, 'c) reader" where
  "cert_notice L s answer =
     (if hasConfigChanged (cm_files (rd s)) taCertNotice
      then ((503, newline @ ''inotifyoutput-ta-server-cert-secret.txt has been updated''),
            (case WriteFile (base (cm L)) taCertNotice '''' (cm_files (rd s)) of
               None \<Rightarrow> s | Some fs \<Rightarrow> s\<lparr>rd := (rd s)\<lparr>cm_files := fs\<rparr>\<rparr>))
      else (answer, s))"

definition taHealthHandler ::
    "('w, 'key, 'c) reader_lib \<Rightarrow> bool \<Rightarrow> nat option \<Rightarrow> int \<Rightarrow> ('w, 'c) reader \<Rightarrow> reply \<times> ('w, 'c) reader" where
  "taHealthHandler L reqOk resp now s =
     (if reqOk
      then if resp = Some 200
           then (case config_window now s (200, newline @ ''targetallocator is running.'') of (answer, s1) \<Rightarrow>
                  (case cert_notice L s1 answer of ((status, message), s2) \<Rightarrow> (Some (status, message @ newline), s2)))
           else (None, s)
      else (Some (503, newline @ ''call to get TA metrics failed'' @ newline), s))"

definition writeTerminationLog :: "('w, 'key, 'c) reader_lib \<Rightarrow> string \<Rightarrow> ('w, 'c) reader \<Rightarrow> ('w, 'c) reader" where
  "writeTerminationLog L message s =
     (case WriteFile (base (cm L)) ''/dev/termination-log'' message (cm_files (rd s)) of
        None \<Rightarrow> s | Some fs \<Rightarrow> s\<lparr>rd := (rd s)\<lparr>cm_files := fs\<rparr>\<rparr>)"

definition configNotice :: string where "configNotice = ''/opt/inotifyoutput.txt''"
definition serverCertNotice :: string where "serverCertNotice = ''/opt/inotifyoutput-server-cert-secret.txt''"
definition caCertNotice :: string where "caCertNotice = ''/opt/inotifyoutput-ca-cert-secret.txt''"

definition restart_limit :: int where
  "restart_limit = 5 * 30 * 24 * 60 * 60 * second_ns"

definition healthHandler :: "('w, 'key, 'c) reader_lib \<Rightarrow> int \<Rightarrow> ('w, 'c) reader \<Rightarrow> reply \<times> ('w, 'c) reader" where
  "healthHandler L now s =
     (let fs = cm_files (rd s);
          a0 = (200, newline @ ''config-reader is running.'');
          a1 = (if hasConfigChanged fs configNotice
                then (503, newline @ ''inotifyoutput.txt has been updated - config-reader-config changed'') else a0);
          a2 = (if hasConfigChanged fs serverCertNotice
                then (503, newline @ ''inotifyoutput-server-cert-secret.txt has been updated'') else a1);
          a3 = (if hasConfigChanged fs caCertNotice
                then (503, newline @ ''inotifyoutput-ca-cert-secret.txt has been updated'') else a2);
          (status, message) =
               (if https_wanted (cm_env (rd s)) \<and> now - cfgReaderContainerStartTime s > restart_limit
                then (503, newline @ ''config-reader container is running for more than 5 months, restart the container'') else a3)
      in (Some (status, message @ newline), if status \<noteq> 200 then writeTerminationLog L message s else s))"

section \<open>Certificates and secrets\<close>

definition ServerValidityMonths :: int where "ServerValidityMonths = 8"
definition ClientValidityMonths :: int where "ClientValidityMonths = 8"
definition CaValidityYears :: int where "CaValidityYears = 2"

definition ca_csr :: "Time \<Rightarrow> Certificate" where
  "ca_csr now = \<lparr>CommonName = ''ama-metrics-operator-targets-CA'', NotBefore = instant now, NotAfter = AddDate now CaValidityYears 0 0,
     cert_KeyUsage = [KeyUsageCertSign, KeyUsageKeyEncipherment, KeyUsageDigitalSignature], BasicConstraintsValid = True, IsCA = True,
     DNSNames = [], cert_ExtKeyUsage = [], SerialNumber = None, Raw = ''''\<rparr>"

definition server_csr :: "Time \<Rightarrow> Certificate" where
  "server_csr now = \<lparr>CommonName = ''ama-metrics-operator-targets'', NotBefore = instant now, NotAfter = AddDate now 0 ServerValidityMonths 0,
     cert_KeyUsage = [KeyUsageKeyEncipherment, KeyUsageDigitalSignature], BasicConstraintsValid = True, IsCA = False,
     DNSNames = [''localhost'', ''ama-metrics-operator-targets.kube-system.svc.cluster.local''],
     cert_ExtKeyUsage = [ExtKeyUsageServerAuth], SerialNumber = None, Raw = ''''\<rparr>"

definition client_csr :: "Time \<Rightarrow> Certificate" where
  "client_csr now = \<lparr>CommonName = ''ama-metrics'', NotBefore = instant now, NotAfter = AddDate now 0 ClientValidityMonths 0,
     cert_KeyUsage = [KeyUsageKeyEncipherment, KeyUsageDigitalSignature], BasicConstraintsValid = True, IsCA = False,
     DNSNames = [], cert_ExtKeyUsage = [ExtKeyUsageClientAuth], SerialNumber = None, Raw = ''''\<rparr>"

definition createCACertificate :: "('w, 'key) cert_lib \<Rightarrow> ('w, Certificate \<times> string \<times> 'key \<times> string) call" where
  "createCACertificate C w = (case Now C w of (now, w1) \<Rightarrow> CreateSelfSignedCertificateKeyPair C (Some (ca_csr now)) w1)"

definition createServerCertificate :: "('w, 'key) cert_lib \<Rightarrow> Certificate option \<Rightarrow> 'key option \<Rightarrow> ('w, string \<times> string) call" where
  "createServerCertificate C caCert caKey w =
     (case Now C w of (now, w1) \<Rightarrow> CreateCertificateKeyPair C (Some (server_csr now)) caCert caKey w1)"

definition createClientCertificate :: "('w, 'key) cert_lib \<Rightarrow> Certificate option \<Rightarrow> 'key option \<Rightarrow> ('w, string \<times> string) call" where
  "createClientCertificate C caCert caKey w =
     (case Now C w of (now, w1) \<Rightarrow> CreateCertificateKeyPair C (Some (client_csr now)) caCert caKey w1)"

definition put_secret :: "('w, 'key, 'c) reader_lib \<Rightarrow> environ \<Rightarrow> Secret \<Rightarrow> 'c \<Rightarrow> string option \<times> 'c" where
  "put_secret L env secret c =
     (case InClusterConfig L env of
        Inl e \<Rightarrow> (Some e, c)
      | Inr config \<Rightarrow>
        (case NewForConfig L config of
           Some e \<Rightarrow> (Some e, c)
         | None \<Rightarrow>
           (case Secrets_Create L secret c of
              (None, c1) \<Rightarrow> (None, c1)
            | (Some AlreadyExists, c1) \<Rightarrow>
              (case Secrets_Update L secret c1 of
                 (None, c2) \<Rightarrow> (None, c2)
               | (Some AlreadyExists, c2) \<Rightarrow> (Some ''already exists'', c2)
               | (Some (ApiError e), c2) \<Rightarrow> (Some e, c2))
            | (Some (ApiError e), c1) \<Rightarrow> (Some e, c1))))"

definition server_secret :: "string \<Rightarrow> string \<Rightarrow> string \<Rightarrow> Secret" where
  "server_secret serverCertPem serverKeyPem caCertPem =
     \<lparr>secret_Name = ''ama-metrics-operator-targets-server-tls-secret'', secret_Namespace = ''kube-system'',
      secret_Data = [(''ca.crt'', caCertPem), (''server.crt'', serverCertPem), (''server.key'', serverKeyPem)], secret_Type = ''Opaque''\<rparr>"

definition client_secret :: "string \<Rightarrow> string \<Rightarrow> string \<Rightarrow> Secret" where
  "client_secret clientCertPem clientKeyPem caCertPem =
     \<lparr>secret_Name = ''ama-metrics-operator-targets-client-tls-secret'', secret_Namespace = ''kube-system'',
      secret_Data = [(''ca.crt'', caCertPem), (''client.crt'', clientCertPem), (''client.key'', clientKeyPem)], secret_Type = ''Opaque''\<rparr>"

definition generateSecretWithServerCertsForTA ::
    "('w, 'key, 'c) reader_lib \<Rightarrow> environ \<Rightarrow> string \<Rightarrow> string \<Rightarrow> string \<Rightarrow> 'c \<Rightarrow> string option \<times> 'c" where
  "generateSecretWithServerCertsForTA L env serverCertPem serverKeyPem caCertPem =
     put_secret L env (server_secret serverCertPem serverKeyPem caCertPem)"

definition generateSecretWithClientCertForRs ::
    "('w, 'key, 'c) reader_lib \<Rightarrow> environ \<Rightarrow> string \<Rightarrow> string \<Rightarrow> string \<Rightarrow> 'c \<Rightarrow> string option \<times> 'c" where
  "generateSecretWithClientCertForRs L env clientCertPem clientKeyPem caCertPem =
     put_secret L env (client_secret clientCertPem clientKeyPem caCertPem)"

text \<open>The five errors that \<open>createTLSCertificatesAndSecret\<close> returns.\<close>

record tls_errors =
  caErr :: "string option"
  serErr :: "string option"
  cliErr :: "string option"
  serverSecretErr :: "string option"
  clientSecretErr :: "string option"

definition tls_ok :: "tls_errors \<Rightarrow> bool" where
  "tls_ok e \<longleftrightarrow> caErr e = None \<and> serErr e = None \<and> cliErr e = None \<and> serverSecretErr e = None \<and> clientSecretErr e = None"

fun error_of :: "string + 'a \<Rightarrow> string option" where
  "error_of (Inl e) = Some e"
| "error_of (Inr x) = None"

text \<open>
  The server and the client certificate are created in any case: after a failure of the certificate authority its
  certificate and key are nil. The secrets are written when there are all three.
\<close>

definition tls_store :: "('w, 'key, 'c) reader_lib \<Rightarrow> environ \<Rightarrow> string + Certificate \<times> string \<times> 'key \<times> string \<Rightarrow> string + string \<times> string \<Rightarrow>
    string + string \<times> string \<Rightarrow> 'c \<Rightarrow> tls_errors \<times> 'c" where
  "tls_store L env ca ser cli c =
     (case (ca, ser, cli) of
        (Inr (cert, caCertPem, key, keyPem), Inr (serverCertPem, serverKeyPem), Inr (clientCertPem, clientKeyPem)) \<Rightarrow>
          (case generateSecretWithServerCertsForTA L env serverCertPem serverKeyPem caCertPem c of (e1, c1) \<Rightarrow>
          (case generateSecretWithClientCertForRs L env clientCertPem clientKeyPem caCertPem c1 of (e2, c2) \<Rightarrow>
            (\<lparr>caErr = None, serErr = None, cliErr = None, serverSecretErr = e1, clientSecretErr = e2\<rparr>, c2)))
      | _ \<Rightarrow> (\<lparr>caErr = error_of ca, serErr = error_of ser, cliErr = error_of cli, serverSecretErr = None, clientSecretErr = None\<rparr>, c))"

definition createTLSCertificatesAndSecret ::
    "('w, 'key, 'c) reader_lib \<Rightarrow> environ \<Rightarrow> 'w \<times> 'c \<Rightarrow> (tls_errors \<times> 'w \<times> 'c) go" where
  "createTLSCertificatesAndSecret L env = (\<lambda>(w, c).
     go_bind (createCACertificate (certs L) w) (\<lambda>(ca, w1).
     let (caCert, caKey) = (case ca of Inl e \<Rightarrow> (None, None) | Inr (cert, certPem, key, keyPem) \<Rightarrow> (Some cert, Some key)) in
     go_bind (createServerCertificate (certs L) caCert caKey w1) (\<lambda>(ser, w2).
     go_bind (createClientCertificate (certs L) caCert caKey w2) (\<lambda>(cli, w3).
     case tls_store L env ca ser cli c of (e, c') \<Rightarrow> Inr (e, w3, c')))))"

section \<open>The process\<close>

text \<open>\<open>httpsEnabled\<close> after the attempts at the certificates: true when HTTPS is not asked for.\<close>

definition tls_setup :: "('w, 'key, 'c) reader_lib \<Rightarrow> environ \<Rightarrow> 'w \<times> 'c \<Rightarrow> (bool \<times> 'w \<times> 'c) go" where
  "tls_setup L env wc =
     (if \<not> https_wanted env then Inr (True, wc)
      else go_bind (createTLSCertificatesAndSecret L env wc) (\<lambda>(e, w, c).
        if tls_ok e then Inr (True, w, c)
        else go_bind (createTLSCertificatesAndSecret L env (Sleep (certs L) 5 w, c)) (\<lambda>(e1, w1, c1). Inr (tls_ok e1, w1, c1))))"

definition Inotify :: "('w, 'key, 'c) reader_lib \<Rightarrow> string \<Rightarrow> string \<Rightarrow> ('w, 'c) reader \<Rightarrow> exit + ('w, 'c) reader" where
  "Inotify L outputFile location s =
     (case WriteFile (base (cm L)) outputFile '''' (cm_files (rd s)) of
        None \<Rightarrow> Inl (Fatal ''Error creating output file'')
      | Some fs \<Rightarrow>
        (case start_inotify L outputFile location of
           Some e \<Rightarrow> Inl (Fatal ''Error starting inotify process'')
         | None \<Rightarrow> Inr (s\<lparr>rd := (rd s)\<lparr>cm_files := fs\<rparr>\<rparr>)))"

definition update_from_configs :: "('w, 'key, 'c) reader_lib \<Rightarrow> bool \<Rightarrow> ('w, 'c) reader \<Rightarrow> exit + ('w, 'c) reader" where
  "update_from_configs L httpsEnabled s =
     (let fs = cm_files (rd s) in
      if Getenv (cm_env (rd s)) ''AZMON_USE_DEFAULT_PROMETHEUS_CONFIG'' = ''true''
      then if FileExists fs collectorConfigDefaultPath then updateTAConfigFile L collectorConfigDefaultPath httpsEnabled s else Inr s
      else if FileExists fs collectorConfigPath then updateTAConfigFile L collectorConfigPath httpsEnabled s
      else Inr s)"

definition watch_certs :: "('w, 'key, 'c) reader_lib \<Rightarrow> bool \<Rightarrow> ('w, 'c) reader \<Rightarrow> exit + ('w, 'c) reader" where
  "watch_certs L httpsEnabled s =
     (if https_wanted (cm_env (rd s)) \<and> httpsEnabled
      then exit_bind (Inotify L taCertNotice ''/etc/operator-targets/server/certs'' s) (\<lambda>s1.
           exit_bind (Inotify L serverCertNotice ''/etc/operator-targets/server/certs'' (s1\<lparr>world := Sleep (certs L) 90 (world s1)\<rparr>)) (\<lambda>s2.
           Inotify L caCertNotice ''/etc/operator-targets/client/certs'' s2))
      else Inr s)"

text \<open>
  \<open>main\<close> from the variables of a new process up to the start of the HTTP server; \<open>reader_start\<close> is what follows \<open>Configmapparser\<close>.
\<close>

definition reader_start :: "('w, 'key, 'c) reader_lib \<Rightarrow> ('w, 'c) reader \<Rightarrow> exit + ('w, 'c) reader" where
  "reader_start L s =
     exit_bind (or_panic (tls_setup L (cm_env (rd s)) (world s, cluster s))) (\<lambda>(httpsEnabled, w, c).
     exit_bind (update_from_configs L httpsEnabled (s\<lparr>world := w, cluster := c\<rparr>)) (\<lambda>s1.
     watch_certs L httpsEnabled s1))"

definition reader_main :: "('w, 'key, 'c) reader_lib \<Rightarrow> cm_state \<Rightarrow> 'w \<Rightarrow> 'c \<Rightarrow> exit + ('w, 'c) reader" where
  "reader_main L st w c =
     (case Now (certs L) w of (now, w0) \<Rightarrow>
      exit_bind (Inotify L configNotice ''/etc/config/settings''
        \<lparr>taConfigUpdated = False, taLivenessStartTime = None, cfgReaderContainerStartTime = instant now, rd = st, world = w0, cluster = c\<rparr>) (\<lambda>s1.
      exit_bind (or_panic (Configmapparser (cm L) (rd s1))) (\<lambda>st2. reader_start L (s1\<lparr>rd := st2\<rparr>))))"

end
