(* ===== verification/Agent.thy ===== *)
theory Agent
  imports Url ConfigReader ControlPlane
begin

text \<open>
  The start-up of the agent container and its liveness probe, on Linux: \<open>main/main.go\<close>, and of \<open>shared/\<close> the files \<open>helpers.go\<close>,
  \<open>proxy_settings.go\<close>, \<open>telemetry.go\<close>, \<open>arc_eula.go\<close>, \<open>collector_replicaset_config_helper.go\<close>,
  \<open>filesystemwatcher_utility.go\<close> and the helpers of \<open>process_utilities_linux.go\<close>.

  The processes that are started are a list of command lines. What the network, the clock and other processes answer is the record \<open>agent_lib\<close>.
\<close>

section \<open>helpers.go\<close>

text \<open>\<open>strings.EqualFold\<close> on ASCII.\<close>

definition EqualFold :: "string \<Rightarrow> string \<Rightarrow> bool" where
  "EqualFold s t \<longleftrightarrow> ToLower s = ToLower t"

definition GetEnv :: "environ \<Rightarrow> string \<Rightarrow> string \<Rightarrow> string" where
  "GetEnv env key defaultValue = (let v = Getenv env key in if v = '''' then defaultValue else v)"

definition BuildOperationEnvironmentValue :: "environ \<Rightarrow> string" where
  "BuildOperationEnvironmentValue env =
     (let version = (if Getenv env ''AGENT_VERSION'' = '''' then ''unknown'' else Getenv env ''AGENT_VERSION'');
          baseEnv = (if EqualFold (Getenv env ''CCP_METRICS_ENABLED'') ''true'' then ''ManagedPrometheus-CCP''
                     else if EqualFold (Getenv env ''OS_TYPE'') ''windows'' then ''ManagedPrometheus-Windows''
                     else if EqualFold (Getenv env ''OS_TYPE'') ''linux'' then ''ManagedPrometheus-Linux'' else ''unknown'')
      in baseEnv @ ''/'' @ version)"

definition GetControllerType :: "environ \<Rightarrow> string" where
  "GetControllerType env = ToLower (TrimSpace (Getenv env ''CONTROLLER_TYPE''))"

text \<open>A Windows path from its parts.\<close>

definition win_path :: "string list \<Rightarrow> string" where
  "win_path parts = Join parts [CHR 0x5C]"

definition config_cache :: "bool \<Rightarrow> string \<Rightarrow> string" where
  "config_cache windows name =
     (if windows then win_path [''C:'', ''opt'', ''genevamonitoringagent'', ''datadirectory'', ''mcs'', name, '''']
      else ''/etc/mdsd.d/config-cache/'' @ name)"

definition DetermineConfigFiles :: "environ \<Rightarrow> string \<Rightarrow> string \<Rightarrow> bool \<Rightarrow> string \<times> string \<times> string \<times> bool" where
  "DetermineConfigFiles env controllerType clusterOverride otlpEnabled =
     (let windows = (Getenv env ''OS_TYPE'' = ''windows'');
          meDCRConfigDirectory = config_cache windows (if otlpEnabled then ''me'' else ''metricsextension'');
          meLocalControl = (\<not> otlpEnabled);
          internal = (clusterOverride = ''true'')
      in if ToLower controllerType = ''replicaset''
         then (if internal then ''/usr/sbin/me_internal.config'' else ''/usr/sbin/me.config'',
               ''/opt/fluent-bit/fluent-bit.yaml'', meDCRConfigDirectory, meLocalControl)
         else if \<not> windows
         then (if internal
               then (if otlpEnabled then ''/usr/sbin/me_ds_internal_setdim.config'' else ''/usr/sbin/me_ds_internal.config'')
               else (if otlpEnabled then ''/usr/sbin/me_ds_setdim.config'' else ''/usr/sbin/me_ds.config''),
               ''/opt/fluent-bit/fluent-bit-daemonset.yaml'', meDCRConfigDirectory, meLocalControl)
         else (if internal
               then (if otlpEnabled then ''/opt/metricextension/me_ds_internal_setdim_win.config'' else ''/opt/metricextension/me_ds_internal_win.config'')
               else (if otlpEnabled then ''/opt/metricextension/me_ds_setdim_win.config'' else ''/opt/metricextension/me_ds_win.config''),
               ''/opt/fluent-bit/fluent-bit-windows.conf'', meDCRConfigDirectory, meLocalControl))"

definition GetMcsEndpoints :: "environ \<Rightarrow> string \<Rightarrow> string \<times> string" where
  "GetMcsEndpoints env customEnvironment =
     (if customEnvironment = ''azurepubliccloud''
      then (let aksRegion = ToLower (Getenv env ''AKSREGION'') in
            if aksRegion = ''eastus2euap'' \<or> aksRegion = ''centraluseuap''
            then (''https://monitor.azure.com/'', ''https://global.handler.canary.control.monitor.azure.com'')
            else (''https://monitor.azure.com/'', ''https://global.handler.control.monitor.azure.com''))
      else if customEnvironment = ''azureusgovernmentcloud'' then (''https://monitor.azure.us/'', ''https://global.handler.control.monitor.azure.us'')
      else if customEnvironment = ''azurechinacloud'' then (''https://monitor.azure.cn/'', ''https://global.handler.control.monitor.azure.cn'')
      else if customEnvironment = ''usnat''
      then (''https://monitor.azure.eaglex.ic.gov/'', ''https://global.handler.control.monitor.azure.eaglex.ic.gov'')
      else if customEnvironment = ''ussec''
      then (''https://monitor.azure.microsoft.scloud/'', ''https://global.handler.control.monitor.azure.microsoft.scloud/'')
      else if customEnvironment = ''azurebleucloud''
      then (''https://monitor.sovcloud-api.fr/'', ''https://global.handler.control.monitor.sovcloud-api.fr'')
      else if customEnvironment = ''azuredeloscloud''
      then (''https://monitor.sovcloud-api.de/'', ''https://global.handler.control.monitor.sovcloud-api.de'')
      else (''https://monitor.azure.com/'', ''https://global.handler.control.monitor.azure.com''))"

definition set_all :: "(string \<times> string) list \<Rightarrow> cm_state \<Rightarrow> cm_state" where
  "set_all kvs s = foldl (\<lambda>s (k, v). set_var k v s) s kvs"

definition SetTelegrafVariables :: "string \<Rightarrow> string \<Rightarrow> cm_state \<Rightarrow> cm_state" where
  "SetTelegrafVariables aksRegion clusterId s =
     (let s1 = set_all [(''AKSREGION'', aksRegion), (''CLUSTER'', clusterId)] s
      in set_var ''AZMON_CLUSTER_ALIAS'' (Getenv (cm_env s1) ''AZMON_CLUSTER_ALIAS'') s1)"

definition SetMonitoringVariables :: "cm_state \<Rightarrow> cm_state" where
  "SetMonitoringVariables s =
     (let s1 = set_all [(''MONITORING_ROLE_INSTANCE'', ''cloudAgentRoleInstanceIdentity''), (''MA_RoleEnvironment_OsType'', ''Windows''),
            (''MONITORING_VERSION'', ''2.0''), (''MONITORING_ROLE'', ''cloudAgentRoleIdentity''), (''MONITORING_IDENTITY'', ''use_ip_address''),
            (''MONITORING_USE_GENEVA_CONFIG_SERVICE'', ''false''), (''SKIP_IMDS_LOOKUP_FOR_LEGACY_AUTH'', ''true''), (''ENABLE_MCS'', ''true''),
            (''MDSD_USE_LOCAL_PERSISTENCY'', ''false'')] s
      in set_all [(''MA_RoleEnvironment_Location'', Getenv (cm_env s1) ''AKSREGION''),
           (''MA_RoleEnvironment_ResourceId'', Getenv (cm_env s1) ''CLUSTER''), (''MCS_CUSTOM_RESOURCE_ID'', Getenv (cm_env s1) ''CLUSTER'')] s1)"

text \<open>\<open>out\<close> is the output of \<open>wmic os get Caption\<close>; its second line is the version, and a panic without one.\<close>

definition SetEnvVariablesForWindows :: "string option \<Rightarrow> cm_state \<Rightarrow> exit + cm_state" where
  "SetEnvVariablesForWindows out s =
     (case out of
        None \<Rightarrow> Inl (Fatal ''Failed to get Windows version'')
      | Some out \<Rightarrow>
        (case split_char CHR 0x0A (TrimSpace out) of
           l0 # windowsVersion # ls \<Rightarrow>
             (let s1 = set_var ''windowsVersion'' windowsVersion s;
                  mac = Getenv (cm_env s1) ''MAC''; clusterId = Getenv (cm_env s1) ''CLUSTER''; nodeName = Getenv (cm_env s1) ''NODE_NAME'';
                  s2 = (if mac = ''''
                        then set_var ''customResourceId'' (if clusterId = '''' then nodeName else clusterId) s1
                        else let s' = set_var ''customResourceId'' clusterId s1;
                                 aksRegion = Getenv (cm_env s') ''AKSREGION''
                             in SetTelegrafVariables aksRegion clusterId (set_var ''customRegion'' aksRegion s'));
                  s3 = SetMonitoringVariables s2;
                  (mcsEndpoint, mcsGlobalEndpoint) = GetMcsEndpoints (cm_env s3) (ToLower (Getenv (cm_env s3) ''customEnvironment''))
              in Inr (set_all [(''MCS_AZURE_RESOURCE_ENDPOINT'', mcsEndpoint), (''MCS_GLOBAL_ENDPOINT'', mcsGlobalEndpoint)] s3))
         | _ \<Rightarrow> Inl (Panicked IndexOutOfRange)))"

section \<open>proxy\_settings.go\<close>

definition removeTrailingSlash :: "string \<Rightarrow> string" where
  "removeTrailingSlash envVar = (if envVar \<noteq> '''' \<and> last envVar = CHR ''/'' then butlast envVar else envVar)"

definition addNoProxy :: "string \<Rightarrow> cm_state \<Rightarrow> cm_state" where
  "addNoProxy target s =
     (let noProxy = TrimSpace (Getenv (cm_env s) ''NO_PROXY'') @ '','' @ target
      in set_all [(''NO_PROXY'', noProxy), (''no_proxy'', noProxy)] s)"

definition setHTTPProxyEnabled :: "cm_state \<Rightarrow> cm_state" where
  "setHTTPProxyEnabled s = set_var ''HTTP_PROXY_ENABLED'' (if Getenv (cm_env s) ''HTTP_PROXY'' \<noteq> '''' then ''true'' else ''false'') s"

text \<open>\<open>strings.Split(s, sep)[0]\<close>, \<open>strings.SplitN\<close> into two parts at a character, and \<open>strings.TrimPrefix\<close>.\<close>

fun before :: "string \<Rightarrow> string \<Rightarrow> string" where
  "before delim [] = []"
| "before delim (c # cs) = (if prefix delim (c # cs) then [] else c # before delim cs)"

definition SplitN2 :: "char \<Rightarrow> string \<Rightarrow> string list" where
  "SplitN2 c s = (if c \<in> set s then [takeWhile (\<lambda>x. x \<noteq> c) s, tl (dropWhile (\<lambda>x. x \<noteq> c) s)] else [s])"

definition TrimPrefix :: "string \<Rightarrow> string \<Rightarrow> string" where
  "TrimPrefix s p = (if prefix p s then drop (length p) s else s)"

definition proxy_password_file :: string where
  "proxy_password_file = ''/opt/microsoft/proxy_password''"

definition proxy_user :: "string \<Rightarrow> string" where
  "proxy_user https_proxy =
     (let proxyProtocol = ToLower (before ''://'' https_proxy)
      in hd (SplitN2 CHR ''@'' (TrimPrefix https_proxy (proxyProtocol @ ''://''))))"

definition arc_proxy :: "cm_lib \<Rightarrow> cm_state \<Rightarrow> cm_state go" where
  "arc_proxy L s =
     (let https_proxy = Getenv (cm_env s) ''HTTPS_PROXY'' in
      case SplitN2 CHR '':'' (proxy_user https_proxy) of
        [user, password] \<Rightarrow>
          (let fs = (case WriteFile (base L) proxy_password_file password (cm_files s) of None \<Rightarrow> cm_files s | Some fs \<Rightarrow> fs);
               s1 = set_all [(''MDSD_PROXY_MODE'', ''application''), (''MDSD_PROXY_ADDRESS'', https_proxy)] (s\<lparr>cm_files := fs\<rparr>)
           in Inr (if user \<noteq> '''' then set_all [(''MDSD_PROXY_USERNAME'', user), (''MDSD_PROXY_PASSWORD_FILE'', proxy_password_file)] s1 else s1))
      | _ \<Rightarrow> Inl IndexOutOfRange)"

definition ConfigureEnvironment :: "cm_lib \<Rightarrow> cm_state \<Rightarrow> cm_state go" where
  "ConfigureEnvironment L s =
     (let s1 = foldl (\<lambda>s v. set_var v (removeTrailingSlash (Getenv (cm_env s) v)) s) s [''http_proxy'', ''HTTP_PROXY'', ''https_proxy'', ''HTTPS_PROXY''];
          s2 = setHTTPProxyEnabled (addNoProxy ''ama-metrics-operator-targets.kube-system.svc.cluster.local'' s1)
      in if Getenv (cm_env s2) ''HTTP_PROXY_ENABLED'' = ''true'' then arc_proxy L s2 else Inr s2)"

section \<open>telemetry.go and arc\_eula.go\<close>

definition telemetry_key :: "environ \<Rightarrow> string \<Rightarrow> string \<times> string" where
  "telemetry_key env customEnvironment =
     (if customEnvironment = ''azurepubliccloud'' then (Getenv env ''APPLICATIONINSIGHTS_AUTH_PUBLIC'', '''')
      else if customEnvironment = ''azureusgovernmentcloud''
      then (Getenv env ''APPLICATIONINSIGHTS_AUTH_USGOVERNMENT'', ''https://dc.applicationinsights.us/v2/track'')
      else if customEnvironment = ''azurechinacloud''
      then (Getenv env ''APPLICATIONINSIGHTS_AUTH_CHINACLOUD'', ''https://dc.applicationinsights.azure.cn/v2/track'')
      else if customEnvironment = ''usnat''
      then (Getenv env ''APPLICATIONINSIGHTS_AUTH_USNAT'', ''https://dc.applicationinsights.azure.eaglex.ic.gov/v2/track'')
      else if customEnvironment = ''ussec''
      then (Getenv env ''APPLICATIONINSIGHTS_AUTH_USSEC'', ''https://dc.applicationinsights.azure.microsoft.scloud/v2/track'')
      else if customEnvironment = ''azurebleucloud''
      then (Getenv env ''APPLICATIONINSIGHTS_AUTH_BLEU'', ''https://bleufrancecentral-0.in.applicationinsights.sovcloud-api.fr/v2/track'')
      else (Getenv env ''APPLICATIONINSIGHTS_AUTH_PUBLIC'', ''''))"

definition SetupTelemetry :: "(string \<Rightarrow> string option) \<Rightarrow> string \<Rightarrow> cm_state \<Rightarrow> cm_state" where
  "SetupTelemetry base64 customEnvironment s =
     (let (encodedAIKey, aiEndpoint) = telemetry_key (cm_env s) (ToLower customEnvironment);
          s1 = set_all [(''APPLICATIONINSIGHTS_AUTH'', encodedAIKey), (''APPLICATIONINSIGHTS_ENDPOINT'', aiEndpoint)] s
      in case base64 encodedAIKey of None \<Rightarrow> s1 | Some aiKey \<Rightarrow> set_var ''TELEMETRY_APPLICATIONINSIGHTS_KEY'' aiKey s1)"

text \<open>The error is what \<open>main\<close> only prints; the file is the shell's start-up file in the home directory.\<close>

definition SetupArcEnvironment :: "cm_lib \<Rightarrow> cm_state \<Rightarrow> string option \<times> cm_state" where
  "SetupArcEnvironment L s =
     (let isArcCluster = (if sublist ''connectedclusters'' (ToLower (Getenv (cm_env s) ''CLUSTER'')) then ''true'' else ''false'');
          s1 = set_var ''IS_ARC_CLUSTER'' isArcCluster s;
          home = Getenv (cm_env s1) ''HOME'';
          bashrc = home @ ''/.bashrc''
      in if home = '''' then (Some ''HOME environment variable not set'', s1)
         else if \<not> writable (base L) bashrc then (Some ''error opening .bashrc file'', s1)
         else (None, s1\<lparr>cm_files := fmupd bashrc (get0 '''' (cm_files s1) bashrc @ ''export IS_ARC_CLUSTER='' @ isArcCluster @ [CHR 0x0A]) (cm_files s1)\<rparr>))"

section \<open>The token adapter\<close>

text \<open>
  \<open>WaitForTokenAdapter\<close>: \<open>probe i\<close> is what the request after \<open>i\<close> seconds yields, a status or nothing in case of an error.
  The result is the number of seconds after which the loop ends, and nothing when it does not end.
\<close>

partial_function (option) wait_adapter :: "nat \<Rightarrow> (nat \<Rightarrow> nat option) \<Rightarrow> nat \<Rightarrow> nat option" where
  "wait_adapter tokenAdapterWaitSecs probe waited =
     (if waited > tokenAdapterWaitSecs
      then if probe waited = None then Some waited else wait_adapter tokenAdapterWaitSecs probe (waited + 1)
      else if probe waited = Some 200 then Some waited
      else wait_adapter tokenAdapterWaitSecs probe (waited + 1))"

definition WaitForTokenAdapter :: "string \<Rightarrow> (nat \<Rightarrow> nat option) \<Rightarrow> nat option" where
  "WaitForTokenAdapter ccpMetricsEnabled probe = wait_adapter (if ccpMetricsEnabled = ''true'' then 20 else 60) probe 1"

section \<open>collector\_replicaset\_config\_helper.go\<close>

definition ta_http_endpoint :: string where
  "ta_http_endpoint = ''http://ama-metrics-operator-targets.kube-system.svc.cluster.local''"

datatype https_error = ConfigUnread | ConfigUndecoded | ConfigUnencoded | ConfigUnwritten

text \<open>A write to the nil map of a configuration without a \<open>target_allocator\<close> section panics.\<close>

definition RemoveHTTPSSettingsInCollectorConfig :: "cm_lib \<Rightarrow> string \<Rightarrow> cm_state \<Rightarrow> (https_error option \<times> cm_state) go" where
  "RemoveHTTPSSettingsInCollectorConfig L configpath s =
     (case fmlookup (cm_files s) configpath of
        None \<Rightarrow> Inr (Some ConfigUnread, s)
      | Some contents \<Rightarrow>
        (case UnmarshalOtel L contents of
           None \<Rightarrow> Inr (Some ConfigUndecoded, s)
         | Some otelConfig \<Rightarrow>
           (case prometheus_TargetAllocator otelConfig of
              None \<Rightarrow> Inl NilMapWrite
            | Some ta \<Rightarrow>
              let ta1 = (if present ta ''tls'' then fmdrop (KStr ''tls'') ta else ta);
                  ta2 = fmupd (KStr ''endpoint'') (YStr ta_http_endpoint) ta1 in
              (case MarshalOtel L (otelConfig\<lparr>prometheus_TargetAllocator := Some ta2\<rparr>) of
                 None \<Rightarrow> Inr (Some ConfigUnencoded, s)
               | Some updated \<Rightarrow>
                 (case WriteFile (base L) configpath updated (cm_files s) of
                    None \<Rightarrow> Inr (Some ConfigUnwritten, s)
                  | Some fs \<Rightarrow> Inr (None, set_var ''COLLECTOR_CONFIG_HTTPS_REMOVED'' ''true'' (s\<lparr>cm_files := fs\<rparr>)))))))"

text \<open>What one round of the connection check meets, and the loops with the number of times they sleep.\<close>

datatype https_attempt = CAUnreadable | CARejected | ClientCertMissing | Unreachable | Reachable

function ca_loop :: "(nat \<Rightarrow> bool) \<Rightarrow> nat \<Rightarrow> nat \<Rightarrow> bool \<times> nat" where
  "ca_loop missing retries i =
     (if i > retries then (False, 0)
      else if missing i
      then if i = retries then (True, 0) else (case ca_loop missing retries (i + 1) of (r, n) \<Rightarrow> (r, n + 1))
      else (False, 0))"
  by pat_completeness auto
termination
  by (relation "measure (\<lambda>(missing, retries, i). retries + 1 - i)") auto

function ping_loop :: "(nat \<Rightarrow> https_attempt) \<Rightarrow> nat \<Rightarrow> nat \<Rightarrow> bool \<Rightarrow> bool \<times> nat" where
  "ping_loop attempt retries i removeHttps =
     (if i > retries then (removeHttps, 0)
      else (case attempt i of
          CAUnreadable \<Rightarrow> ping_loop attempt retries (i + 1) True
        | CARejected \<Rightarrow> ping_loop attempt retries (i + 1) True
        | ClientCertMissing \<Rightarrow> (True, 0)
        | Unreachable \<Rightarrow>
            if i = retries then (True, 0) else (case ping_loop attempt retries (i + 1) removeHttps of (r, n) \<Rightarrow> (r, n + 1))
        | Reachable \<Rightarrow> (False, 0)))"
  by pat_completeness auto
termination
  by (relation "measure (\<lambda>(attempt, retries, i, removeHttps). retries + 1 - i)") auto

declare ca_loop.simps [simp del] ping_loop.simps [simp del]

definition https_check :: "(nat \<Rightarrow> bool) \<Rightarrow> (nat \<Rightarrow> https_attempt) \<Rightarrow> bool \<times> nat" where
  "https_check missing attempt =
     (case ca_loop missing 2 0 of
        (True, n) \<Rightarrow> (True, n)
      | (False, n) \<Rightarrow> (case ping_loop attempt 2 0 False of (removeHttps, m) \<Rightarrow> (removeHttps, n + m)))"

definition CollectorTAHttpsCheck :: "cm_lib \<Rightarrow> (nat \<Rightarrow> bool) \<Rightarrow> (nat \<Rightarrow> https_attempt) \<Rightarrow> string \<Rightarrow> cm_state \<Rightarrow> cm_state go" where
  "CollectorTAHttpsCheck L missing attempt collectorConfig s =
     (if fst (https_check missing attempt)
      then go_bind (RemoveHTTPSSettingsInCollectorConfig L collectorConfig s) (\<lambda>(e, s'). Inr s')
      else Inr (set_var ''COLLECTOR_CONFIG_WITH_HTTPS'' ''true'' s))"

section \<open>Starting the collector\<close>

record agent_lib =
  al_cm :: cm_lib
  al_ccp_errors :: ccp_errors
  al_ccp_order :: "(string, string) gomap \<Rightarrow> string list"
  al_ccp_regexes :: ccp_regexes
  al_base64 :: "string \<Rightarrow> string option"
  al_inotify :: "string \<Rightarrow> string \<Rightarrow> string option"
  al_start :: "string list \<Rightarrow> string option"
  al_adapter :: "nat \<Rightarrow> nat option"
  al_ca_missing :: "nat \<Rightarrow> bool"
  al_attempt :: "nat \<Rightarrow> https_attempt"
  al_Unix :: int

text \<open>The agent: environment and files, and the command lines of the processes that it has started.\<close>

record agent =
  ag :: cm_state
  started :: "string list list"

definition agent_inotify :: "agent_lib \<Rightarrow> string \<Rightarrow> string \<Rightarrow> agent \<Rightarrow> exit + agent" where
  "agent_inotify A outputFile location s =
     (case WriteFile (base (al_cm A)) outputFile '''' (cm_files (ag s)) of
        None \<Rightarrow> Inl (Fatal ''Error creating output file'')
      | Some fs \<Rightarrow>
        (case al_inotify A outputFile location of
           Some e \<Rightarrow> Inl (Fatal ''Error starting inotify process'')
         | None \<Rightarrow> Inr (s\<lparr>ag := (ag s)\<lparr>cm_files := fs\<rparr>\<rparr>)))"

definition run_command :: "agent_lib \<Rightarrow> string list \<Rightarrow> agent \<Rightarrow> agent" where
  "run_command A command s = (case al_start A command of None \<Rightarrow> s\<lparr>started := started s @ [command]\<rparr> | Some e \<Rightarrow> s)"

definition must_run :: "agent_lib \<Rightarrow> string list \<Rightarrow> agent \<Rightarrow> exit + agent" where
  "must_run A command s =
     (case al_start A command of None \<Rightarrow> Inr (s\<lparr>started := started s @ [command]\<rparr>) | Some e \<Rightarrow> Inl (Fatal e))"

definition on_ag :: "(cm_state \<Rightarrow> cm_state) \<Rightarrow> agent \<Rightarrow> agent" where
  "on_ag f s = s\<lparr>ag := f (ag s)\<rparr>"

definition agent_env :: "agent \<Rightarrow> environ" where
  "agent_env s = cm_env (ag s)"

definition collector_config :: "environ \<Rightarrow> string \<Rightarrow> string \<Rightarrow> string" where
  "collector_config env controllerType ccpMetricsEnabled =
     (if controllerType = ''replicaset'' \<and> Getenv env ''AZMON_OPERATOR_ENABLED'' = ''true''
      then if ccpMetricsEnabled = ''true'' then ''/opt/microsoft/otelcollector/ccp-collector-config-replicaset.yml''
           else ''/opt/microsoft/otelcollector/collector-config-replicaset.yml''
      else if Getenv env ''AZMON_USE_DEFAULT_PROMETHEUS_CONFIG'' = ''true''
      then if ccpMetricsEnabled = ''true'' then ''/opt/microsoft/otelcollector/ccp-collector-config-default.yml''
           else ''/opt/microsoft/otelcollector/collector-config-default.yml''
      else ''/opt/microsoft/otelcollector/collector-config.yml'')"

definition otelcollector :: "string \<Rightarrow> string list" where
  "otelcollector config = [''/opt/microsoft/otelcollector/otelcollector'', ''--config'', config]"

definition agentNotice :: string where
  "agentNotice = ''/opt/inotifyoutput.txt''"

text \<open>\<open>StartCommandWithOutputFile\<close> creates the log file first; an error is only printed.\<close>

definition start_collector :: "agent_lib \<Rightarrow> string \<Rightarrow> agent \<Rightarrow> agent" where
  "start_collector A config s =
     (case WriteFile (base (al_cm A)) ''/opt/microsoft/otelcollector/collector-log.txt'' '''' (cm_files (ag s)) of
        None \<Rightarrow> s
      | Some fs \<Rightarrow> run_command A (otelcollector config) (s\<lparr>ag := (ag s)\<lparr>cm_files := fs\<rparr>\<rparr>))"

definition launch_collector :: "agent_lib \<Rightarrow> string \<Rightarrow> string \<Rightarrow> agent \<Rightarrow> exit + agent" where
  "launch_collector A controllerType ccpMetricsEnabled s =
     (let L = al_cm A;
          config = collector_config (agent_env s) controllerType ccpMetricsEnabled;
          s1 = (if controllerType = ''replicaset'' \<and> Getenv (agent_env s) ''AZMON_OPERATOR_ENABLED'' = ''true'' \<and> ccpMetricsEnabled \<noteq> ''true''
                then on_ag (SetGlobalSettingsInCollectorConfig L) s else s)
      in if controllerType = ''replicaset''
         then exit_bind (or_panic
                (if https_wanted (agent_env s1) then CollectorTAHttpsCheck L (al_ca_missing A) (al_attempt A) config (ag s1)
                 else if ccpMetricsEnabled \<noteq> ''true''
                 then go_bind (RemoveHTTPSSettingsInCollectorConfig L config (ag s1)) (\<lambda>(e, s'). Inr s')
                 else Inr (ag s1))) (\<lambda>ag2.
              let s3 = start_collector A config (s1\<lparr>ag := ag2\<rparr>)
              in if https_wanted (agent_env s3) then agent_inotify A agentNotice ''/etc/operator-targets/client/certs'' s3 else Inr s3)
         else Inr (start_collector A config s1))"

section \<open>main\<close>

definition setup_notices :: "agent_lib \<Rightarrow> string \<Rightarrow> agent \<Rightarrow> exit + agent" where
  "setup_notices A ccpMetricsEnabled s =
     (if Getenv (agent_env s) ''OS_TYPE'' = ''linux''
      then if ccpMetricsEnabled \<noteq> ''true''
           then exit_bind (agent_inotify A agentNotice ''/etc/config/settings'' s) (\<lambda>s1. agent_inotify A agentNotice ''/etc/prometheus/certs'' s1)
           else agent_inotify A agentNotice ''/etc/config/settings'' s
      else Inr s)"

definition metrics_extension :: "environ \<Rightarrow> string \<Rightarrow> string \<Rightarrow> bool \<Rightarrow> string list" where
  "metrics_extension env meConfigFile meDCRConfigDirectory meLocalControl =
     [''/usr/sbin/MetricsExtension'', ''-OperationEnvironment'', BuildOperationEnvironmentValue env, ''-Logger'', ''File'', ''-LogLevel'', ''Info''] @
     (if meLocalControl then [''-LocalControlChannel''] else []) @
     [''-TokenSource'', ''AMCS'', ''-DataDirectory'', meDCRConfigDirectory] @
     (if meLocalControl then [''-Input'', ''otlp_grpc_prom'']
      else [''-Input'', ''otlp_grpc_prom,otlp_grpc,otlp_http'', ''-OtlpHttpHost'', ''http://0.0.0.0'', ''-OtlpHttpPort'', ''56681'']) @
     [''-ConfigOverridesFilePath'', meConfigFile]"

definition start_mdsd :: "agent_lib \<Rightarrow> string \<Rightarrow> agent \<Rightarrow> agent" where
  "start_mdsd A ccpMetricsEnabled s =
     (if ccpMetricsEnabled \<noteq> ''true''
      then let mdsdLog = Getenv (agent_env s) ''MDSD_LOG'' in
           if mdsdLog = '''' then s
           else run_command A [''/usr/sbin/mdsd'', ''-a'', ''-A'', ''-e'', mdsdLog @ ''/mdsd.err'', ''-w'', mdsdLog @ ''/mdsd.warn'', ''-o'', mdsdLog @ ''/mdsd.info'',
                  ''-q'', mdsdLog @ ''/mdsd.qos''] s
      else run_command A [''/usr/sbin/mdsd'', ''-a'', ''-A'', ''-D''] s)"

definition start_metrics_extension :: "agent_lib \<Rightarrow> string \<Rightarrow> string \<Rightarrow> string \<Rightarrow> bool \<Rightarrow> agent \<Rightarrow> exit + agent" where
  "start_metrics_extension A ccpMetricsEnabled meConfigFile meDCRConfigDirectory meLocalControl s =
     (let command = metrics_extension (agent_env s) meConfigFile meDCRConfigDirectory meLocalControl in
      if ccpMetricsEnabled \<noteq> ''true'' then must_run A command s else Inr (run_command A command s))"

definition StartFluentBit :: "agent_lib \<Rightarrow> string \<Rightarrow> agent \<Rightarrow> agent" where
  "StartFluentBit A fluentBitConfigFile s =
     (let create_log = (\<lambda>x. case WriteFile (base (al_cm A)) ''/opt/microsoft/fluent-bit/fluent-bit-out-appinsights-runtime.log'' '''' (cm_files x) of
            None \<Rightarrow> x | Some fs \<Rightarrow> x\<lparr>cm_files := fs\<rparr>);
          s1 = on_ag (\<lambda>x. set_all (if https_wanted (agent_env s)
            then [(''FLUENT_BIT_OPERATOR_TARGETS_TLS_SETTING'', ''on''), (''FLUENT_BIT_OPERATOR_TARGETS_PROMETHEUS_PORT'', ''443'')]
            else [(''FLUENT_BIT_OPERATOR_TARGETS_TLS_SETTING'', ''off''), (''FLUENT_BIT_OPERATOR_TARGETS_PROMETHEUS_PORT'', ''80'')]) (create_log x)) s
      in run_command A [''fluent-bit'', ''-c'', fluentBitConfigFile, ''-e'', ''/opt/fluent-bit/bin/out_appinsights.so''] s1)"

definition mdsdNotice :: string where
  "mdsdNotice = ''/opt/inotifyoutput-mdsd-config.txt''"

definition start_time_file :: string where
  "start_time_file = ''/opt/microsoft/liveness/azmon-container-start-time''"

text \<open>Decimal digits, as \<open>%d\<close> prints them.\<close>

definition print_int :: "int \<Rightarrow> string" where
  "print_int i = (if i < 0 then ''-'' @ format_uint (nat (- i)) else format_uint (nat i))"

text \<open>The end of \<open>main\<close>: whether the probe is served, and the state. A start time that cannot be written ends \<open>main\<close>.\<close>

definition finish_main :: "agent_lib \<Rightarrow> bool \<Rightarrow> agent \<Rightarrow> exit + bool \<times> agent" where
  "finish_main A otlpEnabled s =
     exit_bind (if Getenv (agent_env s) ''OS_TYPE'' = ''linux'' \<and> \<not> otlpEnabled
                then agent_inotify A mdsdNotice ''/etc/mdsd.d/config-cache/metricsextension/TokenConfig.json'' s else Inr s) (\<lambda>s1.
     case WriteFile (base (al_cm A)) start_time_file (print_int (al_Unix A)) (cm_files (ag s1)) of
       None \<Rightarrow> Inr (False, s1)
     | Some fs \<Rightarrow> Inr (True, s1\<lparr>ag := (ag s1)\<lparr>cm_files := fs\<rparr>\<rparr>))"

definition parse_config_map :: "agent_lib \<Rightarrow> string \<Rightarrow> agent \<Rightarrow> exit + agent" where
  "parse_config_map A ccpMetricsEnabled s =
     (if ccpMetricsEnabled = ''true''
      then Inr (on_ag (Configmapparserforccp (al_cm A) (al_ccp_errors A) (al_ccp_order A) (al_ccp_regexes A)) s)
      else exit_bind (or_panic (Configmapparser (al_cm A) (ag s))) (\<lambda>ag'. Inr (s\<lparr>ag := ag'\<rparr>)))"

definition setup_environment :: "agent_lib \<Rightarrow> string \<Rightarrow> agent \<Rightarrow> exit + agent" where
  "setup_environment A ccpMetricsEnabled s =
     (if ccpMetricsEnabled \<noteq> ''true''
      then let customEnvironment = GetEnv (agent_env s) ''customEnvironment'' '''';
               s1 = (if Getenv (agent_env s) ''OS_TYPE'' = ''linux'' then on_ag (\<lambda>x. snd (SetupArcEnvironment (al_cm A) x)) s else s);
               s2 = on_ag (SetupTelemetry (al_base64 A) customEnvironment) s1
           in exit_bind (or_panic (ConfigureEnvironment (al_cm A) (ag s2))) (\<lambda>ag3. Inr (s2\<lparr>ag := ag3\<rparr>))
      else Inr s)"

definition otlp_enabled :: "environ \<Rightarrow> bool" where
  "otlp_enabled env \<longleftrightarrow> ToLower (GetEnv env ''AZMON_FULL_OTLP_ENABLED'' ''false'') = ''true''"

text \<open>
  \<open>main\<close> on Linux. \<open>None\<close> is a start that does not end, in the loop of \<open>WaitForTokenAdapter\<close>.
\<close>

definition agent_main :: "agent_lib \<Rightarrow> agent \<Rightarrow> (exit + bool \<times> agent) option" where
  "agent_main A s =
     (let env0 = agent_env s;
          controllerType = GetControllerType env0; clusterId = GetEnv env0 ''CLUSTER'' ''''; clusterOverride = GetEnv env0 ''CLUSTER_OVERRIDE'' '''';
          aksRegion = GetEnv env0 ''AKSREGION'' ''''; ccp = GetEnv env0 ''CCP_METRICS_ENABLED'' ''false''
      in case exit_bind (setup_notices A ccp s) (\<lambda>s1.
              exit_bind (setup_environment A ccp s1) (\<lambda>s2.
              exit_bind (parse_config_map A ccp s2) (\<lambda>s3.
              if ccp \<noteq> ''true'' \<and> Getenv (agent_env s3) ''OS_TYPE'' = ''linux'' then must_run A [''/usr/sbin/crond'', ''-n'', ''-s''] s3 else Inr s3))) of
           Inl e \<Rightarrow> Some (Inl e)
         | Inr s4 \<Rightarrow>
           let s5 = (if ToLower (GetEnv (agent_env s4) ''APPMONITORING_OPENTELEMETRYMETRICS_ENABLED'' ''false'') = ''true''
                     then on_ag (set_var ''AZMON_FULL_OTLP_ENABLED'' ''true'') s4 else s4);
               otlpEnabled = otlp_enabled (agent_env s5);
               (meConfigFile, fluentBitConfigFile, meDCRConfigDirectory, meLocalControl) =
                  DetermineConfigFiles (agent_env s5) controllerType clusterOverride otlpEnabled
           in case WaitForTokenAdapter ccp (al_adapter A) of
                None \<Rightarrow> None
              | Some waited \<Rightarrow>
                let s6 = on_ag (set_all [(''ME_CONFIG_FILE'', meConfigFile), (''customResourceId'', clusterId),
                            (''customRegion'', ToLower (ReplaceAll '' '' '''' aksRegion))]) s5;
                    s7 = (if otlpEnabled then s6 else start_mdsd A ccp s6)
                in Some (exit_bind (start_metrics_extension A ccp meConfigFile meDCRConfigDirectory meLocalControl s7) (\<lambda>s8.
                         exit_bind (launch_collector A controllerType ccp s8) (\<lambda>s9.
                         let s10 = (if ccp \<noteq> ''true''
                                    then StartFluentBit A fluentBitConfigFile (run_command A [''/opt/microsoft/otelcollector/prometheusui''] s9) else s9)
                         in finish_main A otlpEnabled s10))))"

section \<open>The liveness probe\<close>

text \<open>\<open>IsProcessRunning\<close>: \<open>procs\<close> is the content of \<open>/proc\<close>, the names of its directories with the command lines that can be read.\<close>

definition IsProcessRunning :: "(string \<times> string option) list option \<Rightarrow> string \<Rightarrow> string \<Rightarrow> bool" where
  "IsProcessRunning procs self processName =
     (case procs of
        None \<Rightarrow> False
      | Some ps \<Rightarrow> list_ex (\<lambda>(pid, cmdline). (case cmdline of None \<Rightarrow> False | Some c \<Rightarrow> sublist processName c \<and> pid \<noteq> self)) ps)"

text \<open>\<open>strconv.Atoi\<close>, for 64 bits.\<close>

definition Atoi :: "string \<Rightarrow> int option" where
  "Atoi s =
     (let (neg, ds) = (case s of c # cs \<Rightarrow> if c = CHR ''-'' then (True, cs) else if c = CHR ''+'' then (False, cs) else (False, s) | [] \<Rightarrow> (False, s));
          v = foldl (\<lambda>n c. 10 * n + (int (of_char c) - 48)) 0 ds;
          i = (if neg then - v else v)
      in if ds \<noteq> [] \<and> list_all is_digit ds \<and> - (2 ^ 63) \<le> i \<and> i < 2 ^ 63 then Some i else None)"

definition wrap64 :: "int \<Rightarrow> int" where
  "wrap64 i = (i + 2 ^ 63) mod 2 ^ 64 - 2 ^ 63"

definition minutes :: "int \<Rightarrow> int" where
  "minutes d = (if d \<ge> 0 then d div 60 else - ((- d) div 60))"

definition tokenConfig :: string where
  "tokenConfig = ''/etc/mdsd.d/config-cache/metricsextension/TokenConfig.json''"

definition unavailable :: "string \<Rightarrow> nat \<times> string" where
  "unavailable message = (503, message)"

text \<open>
  The answer when the token configuration is missing; nothing when the checks go on. The text of a library error, which the message repeats, is left out.
\<close>

definition missing_token :: "fsys \<Rightarrow> int \<Rightarrow> (nat \<times> string) option" where
  "missing_token fs now =
     (case fmlookup fs start_time_file of
        None \<Rightarrow> None
      | Some azmonContainerStartTimeStr \<Rightarrow>
        (case Atoi (TrimSpace azmonContainerStartTimeStr) of
           None \<Rightarrow> Some (unavailable ''Error converting azmon-container-start-time to integer'')
         | Some azmonContainerStartTime \<Rightarrow>
           if minutes (wrap64 (now - azmonContainerStartTime)) > 15 then Some (unavailable ''No configuration present for the AKS resource'') else None))"

definition check_agents :: "bool \<Rightarrow> (string \<Rightarrow> bool) \<Rightarrow> (nat \<times> string) option" where
  "check_agents otlpEnabled running =
     (if \<not> running ''/usr/sbin/MetricsExtension'' then Some (unavailable ''Metrics Extension is not running (configuration exists)'')
      else if \<not> otlpEnabled \<and> \<not> running ''/usr/sbin/mdsd'' then Some (unavailable ''mdsd not running (configuration exists)'')
      else None)"

definition check_notices :: "fsys \<Rightarrow> (nat \<times> string) option" where
  "check_notices fs =
     (if hasConfigChanged fs mdsdNotice then Some (unavailable ''inotifyoutput-mdsd-config.txt has been updated - mdsd config changed'')
      else if hasConfigChanged fs agentNotice then Some (unavailable ''inotifyoutput.txt has been updated - config changed'')
      else None)"

fun first_failure :: "(nat \<times> string) option list \<Rightarrow> nat \<times> string" where
  "first_failure [] = (200, ''prometheuscollector is running.'')"
| "first_failure (None # xs) = first_failure xs"
| "first_failure (Some answer # xs) = answer"

definition agent_answer :: "(string \<Rightarrow> bool) \<Rightarrow> int \<Rightarrow> environ \<Rightarrow> fsys \<Rightarrow> nat \<times> string" where
  "agent_answer running now env fs =
     first_failure
       [if \<not> otlp_enabled env \<and> fmlookup fs tokenConfig = None then missing_token fs now else check_agents (otlp_enabled env) running,
        check_notices fs,
        if \<not> running ''/opt/microsoft/otelcollector/otelcollector'' then Some (unavailable ''OpenTelemetryCollector is not running.'') else None]"

definition agent_healthHandler :: "cm_lib \<Rightarrow> (string \<Rightarrow> bool) \<Rightarrow> int \<Rightarrow> cm_state \<Rightarrow> (nat \<times> string) \<times> cm_state" where
  "agent_healthHandler L running now s =
     (case agent_answer running now (cm_env s) (cm_files s) of (status, message) \<Rightarrow>
        ((status, message @ newline),
         if status \<noteq> 200
         then (case WriteFile (base L) ''/dev/termination-log'' message (cm_files s) of None \<Rightarrow> s | Some fs \<Rightarrow> s\<lparr>cm_files := fs\<rparr>)
         else s))"

section \<open>filesystemwatcher\_utility.go\<close>

text \<open>
  The poll that stands for \<open>inotifywait\<close> on Windows. \<open>walk\<close> lists the files below a directory with their base names, \<open>sha256\<close> is the digest in
  hexadecimal, \<open>now\<close> the printed time.
\<close>

definition watched_files :: "(string \<Rightarrow> (string \<times> string) list) \<Rightarrow> fsys \<Rightarrow> string list" where
  "watched_files walk fs =
     (let dirs = [win_path [''C:'', ''etc'', ''config'', ''settings''], win_path [''C:'', ''etc'', ''config'', ''settings'', ''prometheus'']];
          tokenFile = win_path [''C:'', ''opt'', ''genevamonitoringagent'', ''datadirectory'', ''mcs'', ''metricsextension'', ''TokenConfig.json'']
      in map fst (filter (\<lambda>(path, name). \<not> prefix ''..'' name) (concat (map walk dirs))) @
         (if FileExists fs tokenFile then [tokenFile] else []))"

definition watched_content :: "fsys \<Rightarrow> string list \<Rightarrow> string" where
  "watched_content fs paths = concat (map (\<lambda>p. case fmlookup fs p of None \<Rightarrow> '''' | Some c \<Rightarrow> p @ c) paths)"

definition hashStore :: string where
  "hashStore = win_path [''C:'', ''last_config_hash.txt'']"

definition watcherLog :: string where
  "watcherLog = win_path [''C:'', ''filesystemwatcher.txt'']"

definition CheckForFilesystemChanges ::
    "merger_lib \<Rightarrow> (string \<Rightarrow> (string \<times> string) list) \<Rightarrow> (string \<Rightarrow> string) \<Rightarrow> string \<Rightarrow> fsys \<Rightarrow> fsys" where
  "CheckForFilesystemChanges L walk sha256 now fs =
     (let finalHash = sha256 (watched_content fs (sort (watched_files walk fs)));
          lastHash = (case fmlookup fs hashStore of None \<Rightarrow> '''' | Some h \<Rightarrow> TrimSpace h);
          write = (\<lambda>fs. case WriteFile L hashStore finalHash fs of None \<Rightarrow> fs | Some fs' \<Rightarrow> fs')
      in if lastHash = '''' then write fs
         else if finalHash \<noteq> lastHash
         then let fs1 = write fs in
              if writable L watcherLog then fmupd watcherLog (get0 '''' fs1 watcherLog @ ''Configuration changed at '' @ now @ newline) fs1 else fs1
         else fs)"

end
