(* ===== verification/ConfigReaderProps.thy ===== *)
theory ConfigReaderProps
  imports ConfigReader ValidatorProps
begin

text \<open>
  Properties of the configuration reader: the types it relies on, the round trip of the relabelling rules through the validator, the
  conditions of HTTPS, and the liveness probes.
\<close>

section \<open>Changing the rules of a configuration\<close>

text \<open>
  The validator and the reader walk through a configuration in the same way. \<open>on_config g\<close> is that walk as a map over the document: \<open>g\<close> is
  applied to the regular expressions and replacements of the rules of every job. A document is well-typed when the
  type assertions of the walk hold.
\<close>

definition on_key :: "string \<Rightarrow> (yval \<Rightarrow> yval) \<Rightarrow> ymap \<Rightarrow> ymap" where
  "on_key key f m = fmmap_keys (\<lambda>k v. if k = KStr key then f v else v) m"

fun on_seq :: "(yval \<Rightarrow> yval) \<Rightarrow> yval \<Rightarrow> yval" where
  "on_seq f (YSeq xs) = YSeq (map f xs)"
| "on_seq f v = v"

fun on_str :: "(string \<Rightarrow> string) \<Rightarrow> yval \<Rightarrow> yval" where
  "on_str g (YStr s) = YStr (g s)"
| "on_str g v = v"

fun on_map :: "(ymap \<Rightarrow> ymap) \<Rightarrow> yval \<Rightarrow> yval" where
  "on_map f (YMap m) = YMap (f m)"
| "on_map f v = v"

definition on_rule :: "(string \<Rightarrow> string) \<Rightarrow> yval \<Rightarrow> yval" where
  "on_rule g = on_map (on_key ''replacement'' (on_str g) \<circ> on_key ''regex'' (on_str g))"

definition on_job :: "(string \<Rightarrow> string) \<Rightarrow> yval \<Rightarrow> yval" where
  "on_job g = on_map (on_key ''metric_relabel_configs'' (on_seq (on_rule g)) \<circ> on_key ''relabel_configs'' (on_seq (on_rule g)))"

definition on_config :: "(string \<Rightarrow> string) \<Rightarrow> ymap \<Rightarrow> ymap" where
  "on_config g = on_key ''scrape_configs'' (on_seq (on_job g))"

fun typed_value :: "(yval \<Rightarrow> bool) \<Rightarrow> yval option \<Rightarrow> bool" where
  "typed_value P None \<longleftrightarrow> True"
| "typed_value P (Some YNil) \<longleftrightarrow> True"
| "typed_value P (Some (YSeq xs)) \<longleftrightarrow> list_all P xs"
| "typed_value P (Some v) \<longleftrightarrow> False"

fun typed_rule :: "yval \<Rightarrow> bool" where
  "typed_rule (YMap m) \<longleftrightarrow> (case fmlookup m (KStr ''replacement'') of None \<Rightarrow> True | Some YNil \<Rightarrow> True | Some (YStr s) \<Rightarrow> True | _ \<Rightarrow> False)"
| "typed_rule v \<longleftrightarrow> False"

fun typed_job :: "yval \<Rightarrow> bool" where
  "typed_job (YMap m) \<longleftrightarrow>
     typed_value typed_rule (fmlookup m (KStr ''relabel_configs'')) \<and> typed_value typed_rule (fmlookup m (KStr ''metric_relabel_configs''))"
| "typed_job v \<longleftrightarrow> False"

definition typed_config :: "ymap \<Rightarrow> bool" where
  "typed_config m \<longleftrightarrow> typed_value typed_job (fmlookup m (KStr ''scrape_configs''))"

lemma on_key_lookup: "fmlookup (on_key key f m) k = map_option (if k = KStr key then f else id) (fmlookup m k)"
  by (auto simp: on_key_def id_def)

lemma on_key_upd: "fmlookup m (KStr key) = Some v \<Longrightarrow> fmupd (KStr key) (f v) m = on_key key f m"
  by (rule fmap_ext) (auto simp: on_key_lookup option.map_id0)

lemma on_key_same: "(\<And>v. fmlookup m (KStr key) = Some v \<Longrightarrow> f v = v) \<Longrightarrow> on_key key f m = m"
  by (rule fmap_ext) (auto simp: on_key_lookup option.map_id0 intro: option.map_ident_strong)

lemma on_key_comp: "on_key key f (on_key key g m) = on_key key (f \<circ> g) m"
  by (rule fmap_ext) (auto simp: on_key_lookup option.map_comp)

lemma on_key_swap: "key \<noteq> key' \<Longrightarrow> on_key key f (on_key key' g m) = on_key key' g (on_key key f m)"
  by (rule fmap_ext) (auto simp: on_key_lookup option.map_comp)

lemma on_seq_comp: "on_seq f (on_seq g v) = on_seq (f \<circ> g) v"
  by (cases v) auto

lemma on_str_comp: "on_str f (on_str g v) = on_str (f \<circ> g) v"
  by (cases v) auto

lemma on_map_comp: "on_map f (on_map g v) = on_map (f \<circ> g) v"
  by (cases v) auto

text \<open>The list update of both programs, from a total function on the entries.\<close>

lemma update_list_spec:
  assumes "\<And>x. (\<exists>y. f x = Inr y) \<longleftrightarrow> P x" and "\<And>x y. f x = Inr y \<Longrightarrow> y = g x"
  shows "update_list key f m = Inr m' \<longleftrightarrow> typed_value P (fmlookup m (KStr key)) \<and> m' = on_key key (on_seq g) m"
proof (cases "\<exists>xs. fmlookup m (KStr key) = Some (YSeq xs)")
  case True
  then obtain xs where xs: "fmlookup m (KStr key) = Some (YSeq xs)" by blast
  have m: "mapM_go f xs = Inr ys \<longleftrightarrow> list_all P xs \<and> ys = map g xs" for ys
  proof
    assume "mapM_go f xs = Inr ys"
    then have "list_all2 (\<lambda>x y. f x = Inr y) xs ys" by (rule mapM_go_Inr)
    then show "list_all P xs \<and> ys = map g xs" using assms by (induction rule: list_all2_induct) auto
  next
    assume h: "list_all P xs \<and> ys = map g xs"
    have "f x = Inr (g x)" if "x \<in> set xs" for x using h that assms by (metis list_all_iff)
    then show "mapM_go f xs = Inr ys" using h mapM_go_all [of xs f g] by blast
  qed
  show ?thesis using xs m on_key_upd [OF xs, of "on_seq g"] by (auto simp: update_list_def)
next
  case False
  have "on_seq g v = v" if "fmlookup m (KStr key) = Some v" for v using False that by (cases v) auto
  then have same: "on_key key (on_seq g) m = m" by (rule on_key_same)
  show ?thesis
  proof (cases "fmlookup m (KStr key)")
    case None
    then show ?thesis using same by (auto simp: update_list_def)
  next
    case (Some v)
    then show ?thesis using False same by (cases v) (auto simp: update_list_def)
  qed
qed

text \<open>A rule with \<open>g\<close> applied, as both programs compute it.\<close>

fun rule_with :: "(string \<Rightarrow> string) \<Rightarrow> yval \<Rightarrow> yval go" where
  "rule_with g (YMap m) =
     (let m1 = (case fmlookup m (KStr ''regex'') of Some (YStr r) \<Rightarrow> fmupd (KStr ''regex'') (YStr (g r)) m | _ \<Rightarrow> m)
      in case fmlookup m1 (KStr ''replacement'') of
           None \<Rightarrow> Inr (YMap m1)
         | Some YNil \<Rightarrow> Inr (YMap m1)
         | Some (YStr r) \<Rightarrow> Inr (YMap (fmupd (KStr ''replacement'') (YStr (g r)) m1))
         | Some _ \<Rightarrow> Inl TypeAssertion)"
| "rule_with g v = Inl TypeAssertion"

lemma rules_with: "escape_rule = rule_with escape_dollars" "unescape_rule = rule_with unescape_dollars"
  by (rule ext, case_tac x, simp_all)+

lemma on_key_str: "on_key key (on_str g) m = (case fmlookup m (KStr key) of Some (YStr s) \<Rightarrow> fmupd (KStr key) (YStr (g s)) m | _ \<Rightarrow> m)"
proof (cases "\<exists>s. fmlookup m (KStr key) = Some (YStr s)")
  case True
  then show ?thesis using on_key_upd [of m key _ "on_str g"] by fastforce
next
  case False
  then have "on_str g v = v" if "fmlookup m (KStr key) = Some v" for v using that by (cases v) auto
  then have "on_key key (on_str g) m = m" by (rule on_key_same)
  then show ?thesis using False by (auto split: option.split yval.split)
qed

lemma rule_with_spec: "rule_with g v = Inr v' \<longleftrightarrow> typed_rule v \<and> v' = on_rule g v"
proof (cases v)
  case (YMap m)
  define m1 where "m1 = on_key ''regex'' (on_str g) m"
  have same: "fmlookup m1 (KStr ''replacement'') = fmlookup m (KStr ''replacement'')" by (simp add: m1_def on_key_lookup option.map_id0)
  have "rule_with g v = (case fmlookup m1 (KStr ''replacement'') of
      None \<Rightarrow> Inr (YMap m1) | Some YNil \<Rightarrow> Inr (YMap m1)
    | Some (YStr r) \<Rightarrow> Inr (YMap (fmupd (KStr ''replacement'') (YStr (g r)) m1)) | Some _ \<Rightarrow> Inl TypeAssertion)"
    by (simp only: YMap rule_with.simps m1_def on_key_str Let_def)
  moreover have "on_rule g v = YMap (on_key ''replacement'' (on_str g) m1)" using YMap by (simp add: on_rule_def m1_def)
  ultimately show ?thesis using YMap same by (simp add: on_key_str split: option.split yval.split) blast
qed (auto simp: on_rule_def)

lemma rules_spec:
  "update_list key (rule_with g) m = Inr m' \<longleftrightarrow>
   typed_value typed_rule (fmlookup m (KStr key)) \<and> m' = on_key key (on_seq (on_rule g)) m"
  by (rule update_list_spec) (simp_all add: rule_with_spec)

lemma unescape_job_spec: "unescape_job v = Inr v' \<longleftrightarrow> typed_job v \<and> v' = on_job unescape_dollars v"
proof (cases v)
  case (YMap m)
  have "fmlookup (on_key ''relabel_configs'' f m) (KStr ''metric_relabel_configs'') = fmlookup m (KStr ''metric_relabel_configs'')" for f
    by (simp add: on_key_lookup option.map_id0)
  then show ?thesis unfolding YMap unescape_job.simps go_bind_Inr rules_with rules_spec on_job_def typed_job.simps on_map.simps
    by (metis comp_apply sum.inject(2))
qed (simp_all add: on_job_def)

lemma unescape_config_spec:
  "unescape_config (Some c) = Inr c' \<longleftrightarrow> typed_config c \<and> c' = Some (on_config unescape_dollars c)"
proof -
  have "update_list ''scrape_configs'' unescape_job c = Inr m' \<longleftrightarrow>
      typed_config c \<and> m' = on_config unescape_dollars c" for m'
    unfolding typed_config_def on_config_def by (rule update_list_spec) (simp_all add: unescape_job_spec)
  then show ?thesis unfolding unescape_config_def option.case go_bind_Inr by auto
qed

text \<open>What the validator does besides: the targets of the static configurations.\<close>

definition on_static :: "yval \<Rightarrow> yval" where
  "on_static = on_map (on_key ''targets'' (on_seq escape_target))"

definition expand_job :: "yval \<Rightarrow> yval" where
  "expand_job = on_map (on_key ''static_configs'' (on_seq on_static))"

definition expand_targets :: "ymap \<Rightarrow> ymap" where
  "expand_targets = on_key ''scrape_configs'' (on_seq expand_job)"

lemma escape_static_spec: "escape_static v = Inr v' \<Longrightarrow> v' = on_static v"
proof (cases v)
  case (YMap m)
  have "update_list ''targets'' (\<lambda>t. Inr (escape_target t)) m = Inr m' \<longleftrightarrow>
      typed_value (\<lambda>_. True) (fmlookup m (KStr ''targets'')) \<and> m' = on_key ''targets'' (on_seq escape_target) m" for m'
    by (rule update_list_spec) simp_all
  then show "escape_static v = Inr v' \<Longrightarrow> ?thesis" using YMap by (auto simp: on_static_def)
qed auto

lemma escape_job_spec: "escape_job v = Inr v' \<Longrightarrow> typed_job v \<and> v' = expand_job (on_job escape_dollars v)"
proof (cases v)
  case (YMap m)
  have same: "fmlookup (on_key ''relabel_configs'' f m) (KStr ''metric_relabel_configs'') = fmlookup m (KStr ''metric_relabel_configs'')" for f
    by (simp add: on_key_lookup option.map_id0)
  have statics: "update_list ''static_configs'' escape_static m2 = Inr m3 \<longleftrightarrow>
      typed_value (\<lambda>x. \<exists>y. escape_static x = Inr y) (fmlookup m2 (KStr ''static_configs'')) \<and>
      m3 = on_key ''static_configs'' (on_seq on_static) m2" for m2 m3
    by (rule update_list_spec) (auto dest: escape_static_spec)
  assume "escape_job v = Inr v'"
  then show ?thesis
    unfolding YMap escape_job.simps go_bind_Inr rules_with rules_spec statics on_job_def expand_job_def typed_job.simps on_map.simps
    using same by auto
qed auto

lemma escape_config_spec:
  assumes "update_list ''scrape_configs'' escape_job c = Inr c'"
  shows "typed_config c \<and> c' = expand_targets (on_config escape_dollars c)"
proof -
  have h: "update_list ''scrape_configs'' escape_job c = Inr c' \<longleftrightarrow>
      typed_value (\<lambda>x. \<exists>y. escape_job x = Inr y) (fmlookup c (KStr ''scrape_configs'')) \<and>
      c' = on_key ''scrape_configs'' (on_seq (expand_job \<circ> on_job escape_dollars)) c"
    by (rule update_list_spec) (auto dest: escape_job_spec)
  have "typed_value (\<lambda>x. \<exists>y. escape_job x = Inr y) v \<Longrightarrow> typed_value typed_job v" for v
    by (induction "\<lambda>x. \<exists>y. escape_job x = Inr y" v rule: typed_value.induct) (auto simp: list_all_iff dest: escape_job_spec)
  moreover have "on_seq expand_job \<circ> on_seq (on_job escape_dollars) = on_seq (expand_job \<circ> on_job escape_dollars)"
    by (rule ext) (simp add: on_seq_comp)
  ultimately show ?thesis using h assms by (simp add: typed_config_def expand_targets_def on_config_def on_key_comp)
qed

section \<open>Preservation of the types\<close>

lemma typed_value_on_seq: "(\<And>x. P x \<Longrightarrow> P (f x)) \<Longrightarrow> typed_value P v \<Longrightarrow> typed_value P (map_option (on_seq f) v)"
  by (induction P v rule: typed_value.induct) (auto simp: list_all_iff)

lemma typed_on_rule: "typed_rule v \<Longrightarrow> typed_rule (on_rule g v)"
  by (cases v) (auto simp: on_rule_def on_key_lookup option.map_id0 split: option.splits yval.splits)

lemma typed_on_job: "typed_job v \<Longrightarrow> typed_job (on_job g v)"
  by (cases v) (auto simp: on_job_def on_key_lookup option.map_id0 intro!: typed_value_on_seq typed_on_rule)

lemma typed_expand_job: "typed_job v \<Longrightarrow> typed_job (expand_job v)"
  by (cases v) (auto simp: expand_job_def on_key_lookup option.map_id0)

lemma typed_on_config: "typed_config c \<Longrightarrow> typed_config (on_config g c)"
  by (simp add: typed_config_def on_config_def on_key_lookup typed_value_on_seq typed_on_job)

lemma typed_expand: "typed_config c \<Longrightarrow> typed_config (expand_targets c)"
  by (simp add: typed_config_def expand_targets_def on_key_lookup typed_value_on_seq typed_expand_job)

section \<open>The round trip of the dollar signs\<close>

text \<open>
  What the target allocator reads of a text that the user wrote: one or two dollar signs are one, and a reference to the node
  is that of the validator.
\<close>

function ta_text :: "string \<Rightarrow> string" where
  "ta_text [] = []"
| "ta_text (c # cs) =
     (if c \<noteq> CHR ''$'' then c # ta_text cs
      else
        let rest = (case cs of [] \<Rightarrow> [] | d # ds \<Rightarrow> if d = CHR ''$'' then ds else cs) in
        if prefix ''NODE_NAME'' rest then node_name_ref @ ta_text (drop 9 rest)
        else if prefix ''NODE_IP'' rest then node_ip_ref @ ta_text (drop 7 rest)
        else CHR ''$'' # ta_text rest)"
  by pat_completeness auto
termination
  by (relation "measure length") (auto split: list.splits)

lemma unescape_ref: "CHR ''$'' \<notin> set w \<Longrightarrow> w \<noteq> [] \<Longrightarrow> collapse ((CHR ''$'' # w) @ t) = (CHR ''$'' # w) @ collapse t"
  using copies_prefix(2) [OF copies(1), of "tl w" t] by (cases w) auto

lemma collapse_escape: "collapse (escape_spec s) = ta_text s"
proof (induction s rule: ta_text.induct)
  case (2 c cs)
  show ?case
  proof (cases "c = CHR ''$''")
    case True
    define rest where "rest = (case cs of [] \<Rightarrow> [] | d # ds \<Rightarrow> if d = CHR ''$'' then ds else cs)"
    have e: "escape_spec (c # cs) = (if prefix ''NODE_NAME'' rest then node_name_ref @ escape_spec (drop 9 rest)
        else if prefix ''NODE_IP'' rest then node_ip_ref @ escape_spec (drop 7 rest) else ''$$'' @ escape_spec rest)"
      using True by (simp only: escape_spec.simps Let_def flip: rest_def) simp
    have t: "ta_text (c # cs) = (if prefix ''NODE_NAME'' rest then node_name_ref @ ta_text (drop 9 rest)
        else if prefix ''NODE_IP'' rest then node_ip_ref @ ta_text (drop 7 rest) else CHR ''$'' # ta_text rest)"
      using True by (simp only: ta_text.simps Let_def flip: rest_def) simp
    have r: "collapse (node_name_ref @ t) = node_name_ref @ collapse t" "collapse (node_ip_ref @ t) = node_ip_ref @ collapse t" for t
      by (rule unescape_ref; simp)+
    note ih = 2(2-4) [OF _ rest_def]
    show ?thesis unfolding e t using True ih r by simp
  next
    case False
    then show ?thesis using 2(1) by simp
  qed
qed simp

lemma ta_text_plain: "\<not> sublist ''$$'' s \<Longrightarrow> \<not> sublist ''$NODE_NAME'' s \<Longrightarrow> \<not> sublist ''$NODE_IP'' s \<Longrightarrow> ta_text s = s"
proof (induction s rule: ta_text.induct)
  case (2 c cs)
  have cs: "\<not> sublist ''$$'' cs" "\<not> sublist ''$NODE_NAME'' cs" "\<not> sublist ''$NODE_IP'' cs" using 2(5-7) by (metis sublist_Cons_right)+
  show ?case
  proof (cases "c = CHR ''$''")
    case True
    have p: "\<not> prefix ''$$'' (c # cs)" "\<not> prefix ''$NODE_NAME'' (c # cs)" "\<not> prefix ''$NODE_IP'' (c # cs)"
      using 2(5-7) prefix_imp_sublist by blast+
    have r: "(case cs of [] \<Rightarrow> [] | d # ds \<Rightarrow> if d = CHR ''$'' then ds else cs) = cs"
      using p(1) True by (auto split: list.split)
    have n: "\<not> prefix ''NODE_NAME'' cs" "\<not> prefix ''NODE_IP'' cs" using p(2,3) True by auto
    have "ta_text cs = cs" using 2(4) [OF _ refl] True n r cs by simp
    then show ?thesis using True n r by (simp only: ta_text.simps Let_def) simp
  next
    case False
    then show ?thesis using 2(1) cs by simp
  qed
qed simp

lemma unescape_escape: "unescape_dollars (escape_dollars s) = ta_text s"
  by (simp add: unescape_dollars_def escape_eq_spec collapse_escape flip: collapse_def)

lemma on_rule_comp: "on_rule f (on_rule g v) = on_rule (f \<circ> g) v"
proof -
  have "on_str f \<circ> on_str g = on_str (f \<circ> g)" by (rule ext) (simp add: on_str_comp)
  then have "on_key ''replacement'' (on_str f) (on_key ''regex'' (on_str f) (on_key ''replacement'' (on_str g) (on_key ''regex'' (on_str g) m))) =
      on_key ''replacement'' (on_str (f \<circ> g)) (on_key ''regex'' (on_str (f \<circ> g)) m)" for m
    using on_key_swap [of "''regex''" "''replacement''" "on_str f" "on_str g"] by (simp add: on_key_comp)
  then show ?thesis by (simp add: on_rule_def on_map_comp comp_def)
qed

lemma on_job_comp: "on_job f (expand_job (on_job g v)) = expand_job (on_job (f \<circ> g) v)"
proof -
  let ?r = "''relabel_configs''" and ?m = "''metric_relabel_configs''" and ?s = "''static_configs''"
  have "on_seq (on_rule f) \<circ> on_seq (on_rule g) = on_seq (on_rule (f \<circ> g))" by (rule ext) (simp add: on_seq_comp on_rule_comp comp_def)
  then have "on_key ?m (on_seq (on_rule f)) (on_key ?r (on_seq (on_rule f)) (on_key ?s (on_seq on_static)
        (on_key ?m (on_seq (on_rule g)) (on_key ?r (on_seq (on_rule g)) m)))) =
      on_key ?s (on_seq on_static) (on_key ?m (on_seq (on_rule (f \<circ> g))) (on_key ?r (on_seq (on_rule (f \<circ> g))) m))" for m
    using on_key_swap [of ?m ?s "on_seq (on_rule f)" "on_seq on_static"] on_key_swap [of ?r ?s "on_seq (on_rule f)" "on_seq on_static"]
      on_key_swap [of ?r ?m "on_seq (on_rule f)" "on_seq (on_rule g)"]
    by (simp add: on_key_comp)
  then show ?thesis by (simp add: on_job_def expand_job_def on_map_comp comp_def)
qed

lemma on_config_comp: "on_config f (expand_targets (on_config g c)) = expand_targets (on_config (f \<circ> g) c)"
proof -
  have "on_seq (on_job f) \<circ> (on_seq expand_job \<circ> on_seq (on_job g)) = on_seq expand_job \<circ> on_seq (on_job (f \<circ> g))"
    by (rule ext) (simp add: on_seq_comp comp_def on_job_comp)
  then show ?thesis by (simp add: on_config_def expand_targets_def on_key_comp)
qed

lemma unescape_escape_config:
  assumes "update_list ''scrape_configs'' escape_job c = Inr c1"
  shows "unescape_config (Some c1) = Inr (Some (expand_targets (on_config ta_text c)))"
proof -
  have c: "typed_config c" and c1: "c1 = expand_targets (on_config escape_dollars c)" using escape_config_spec [OF assms] by auto
  have "unescape_dollars \<circ> escape_dollars = ta_text" by (rule ext) (simp add: unescape_escape)
  then show ?thesis using unescape_config_spec [of c1] typed_expand [OF typed_on_config [OF c]] c1 by (simp add: on_config_comp)
qed

section \<open>From the validator to the target allocator\<close>

lemma with_prometheus_Config [simp]: "prometheus_Config (with_prometheus env c otel) = Some c"
  by (simp add: with_prometheus_def debug_pipelines_def Let_def)

lemma generated_config:
  assumes "generateOtelConfig L env f out template fs = Inr (None, fs')"
  obtains contents config c1 otel yml where "fmlookup fs f = Some contents" "UnmarshalStr (base L) contents = Some config"
    "update_list ''scrape_configs'' escape_job config = Inr c1" "MarshalOtel L otel = Some yml" "prometheus_Config otel = Some c1"
    "fmlookup fs' out = Some yml"
proof -
  obtain contents config c1 otel0 fs1 where r: "fmlookup fs f = Some contents" "UnmarshalStr (base L) contents = Some config"
      "update_list ''scrape_configs'' escape_job config = Inr c1"
      "write_config L out (with_prometheus env c1 otel0) fs1 = (None, fs')"
    using assms by (auto simp: generateOtelConfig_def split: option.splits if_splits)
  then obtain yml where "MarshalOtel L (with_prometheus env c1 otel0) = Some yml" "fmlookup fs' out = Some yml"
    by (auto simp: write_config_def WriteFile_def split: option.splits if_splits)
  then show thesis using r that by (metis with_prometheus_Config)
qed

text \<open>The configuration of the file, when the reader gets through.\<close>

definition written :: "('w, 'key, 'c) reader_lib \<Rightarrow> ('w, 'c) reader \<Rightarrow> shared_Config \<Rightarrow> bool" where
  "written L s cfg \<longleftrightarrow> fmlookup (cm_files (rd s)) taConfigFilePath = Some (MarshalTA L cfg)"

lemma write_ta_config_Inr:
  "write_ta_config L cfg s = Inr s' \<Longrightarrow> written L s' cfg \<and> taConfigUpdated s' \<and>
     taLivenessStartTime s' = Some (instant (fst (Now (certs L) (world s)))) \<and> cluster s' = cluster s \<and> cm_env (rd s') = cm_env (rd s) \<and>
     cfgReaderContainerStartTime s' = cfgReaderContainerStartTime s \<and>
     (\<forall>f. f \<noteq> taConfigFilePath \<longrightarrow> fmlookup (cm_files (rd s')) f = fmlookup (cm_files (rd s)) f)"
  by (auto simp: write_ta_config_def written_def WriteFile_def split: option.splits if_splits prod.splits)

lemma write_ta_config_ok: "writable (base (cm L)) taConfigFilePath \<Longrightarrow> \<exists>s'. write_ta_config L cfg s = Inr s'"
  by (auto simp: write_ta_config_def WriteFile_def split: prod.splits)

text \<open>
  C32: The type assertions of the configuration reader. It gets through a configuration exactly when that is well-typed, what it then
  makes of it is well-typed again, and so is everything that the validator writes, so the reader does not panic on it.
\<close>

theorem reader_types:
  "((\<exists>c'. unescape_config (Some c) = Inr c') \<longleftrightarrow> typed_config c) \<and>
   (typed_config c \<longrightarrow> (\<exists>c'. unescape_config (Some c) = Inr (Some c') \<and> typed_config c')) \<and>
   (update_list ''scrape_configs'' escape_job p = Inr p' \<longrightarrow> typed_config p')"
proof (intro conjI impI)
  show "(\<exists>c'. unescape_config (Some c) = Inr c') \<longleftrightarrow> typed_config c" by (simp add: unescape_config_spec)
  show "\<exists>c'. unescape_config (Some c) = Inr (Some c') \<and> typed_config c'" if "typed_config c"
    using that by (simp add: unescape_config_spec typed_on_config)
  show "typed_config p'" if "update_list ''scrape_configs'' escape_job p = Inr p'"
    using escape_config_spec [OF that] by (simp add: typed_on_config typed_expand)
qed

text \<open>
  C33: The rules that a user writes reach the target allocator. When the validator has written a collector configuration and the
  reader starts from that file, the reader does not panic, and the file of the allocator holds the user's configuration: in the rules a pair of
  dollar signs is read as one, texts without pairs and without references to the node are as written, and besides them only the
  targets of static configurations have changed. The YAML codec of the collector configuration is assumed to read what it writes.
\<close>

theorem rules_reach_allocator:
  assumes codec: "\<And>otel yml. MarshalOtel (cm L) otel = Some yml \<Longrightarrow> UnmarshalOtel (cm L) yml = Some otel"
    and generated: "generateOtelConfig (cm L) env promFile out template fs = Inr (None, fs')"
    and handed: "fmlookup (cm_files (rd s)) out = fmlookup fs' out"
    and writable: "writable (base (cm L)) taConfigFilePath"
  shows "\<exists>contents config s'. fmlookup fs promFile = Some contents \<and> UnmarshalStr (base (cm L)) contents = Some config \<and>
    updateTAConfigFile L out https s = Inr s' \<and>
    written L s' (targetAllocatorConfig (cm_env (rd s)) https (secrets_namespaces L (cm_env (rd s))) (Some (expand_targets (on_config ta_text config)))) \<and>
    (\<forall>t. \<not> sublist ''$$'' t \<and> \<not> sublist ''$NODE_NAME'' t \<and> \<not> sublist ''$NODE_IP'' t \<longrightarrow> ta_text t = t)"
proof -
  obtain contents config c1 otel yml where g: "fmlookup fs promFile = Some contents" "UnmarshalStr (base (cm L)) contents = Some config"
      "update_list ''scrape_configs'' escape_job config = Inr c1" "MarshalOtel (cm L) otel = Some yml" "prometheus_Config otel = Some c1"
      "fmlookup fs' out = Some yml"
    using generated_config [OF generated] by metis
  let ?cfg = "targetAllocatorConfig (cm_env (rd s)) https (secrets_namespaces L (cm_env (rd s))) (Some (expand_targets (on_config ta_text config)))"
  have "updateTAConfigFile L out https s = write_ta_config L ?cfg s"
    using g handed codec [OF g(4)] unescape_escape_config [OF g(3)] by (simp add: updateTAConfigFile_def Let_def)
  moreover obtain s' where "write_ta_config L ?cfg s = Inr s'" using write_ta_config_ok [OF writable] by blast
  moreover have "written L s' ?cfg" using write_ta_config_Inr [OF \<open>write_ta_config L ?cfg s = Inr s'\<close>] by simp
  ultimately show ?thesis using g(1,2) ta_text_plain by (intro exI conjI allI impI) simp_all
qed

section \<open>Certificates and secrets\<close>

text \<open>What is assumed of the cluster: a secret that was created or updated without an error is the stored one, and others stay.\<close>

definition secrets_stored :: "('w, 'key, 'c) reader_lib \<Rightarrow> ('c \<Rightarrow> string \<times> string \<Rightarrow> Secret option) \<Rightarrow> bool" where
  "secrets_stored L stored \<longleftrightarrow>
     (\<forall>sec c c' e. Secrets_Create L sec c = (e, c') \<or> Secrets_Update L sec c = (e, c') \<longrightarrow>
        (e = None \<longrightarrow> stored c' (secret_Namespace sec, secret_Name sec) = Some sec) \<and>
        (\<forall>k. k \<noteq> (secret_Namespace sec, secret_Name sec) \<longrightarrow> stored c' k = stored c k))"

abbreviation server_key :: "string \<times> string" where
  "server_key \<equiv> (''kube-system'', ''ama-metrics-operator-targets-server-tls-secret'')"

abbreviation client_key :: "string \<times> string" where
  "client_key \<equiv> (''kube-system'', ''ama-metrics-operator-targets-client-tls-secret'')"

text \<open>Both secrets are there, and hold the same certificate authority.\<close>

definition tls_secrets :: "(string \<times> string \<Rightarrow> Secret option) \<Rightarrow> bool" where
  "tls_secrets at \<longleftrightarrow> (\<exists>ca scert skey ccert ckey. at server_key = Some (server_secret scert skey ca) \<and> at client_key = Some (client_secret ccert ckey ca))"

lemma put_secret_stored:
  assumes "secrets_stored L stored" and "put_secret L env sec c = (e, c')"
  shows "(e = None \<longrightarrow> stored c' (secret_Namespace sec, secret_Name sec) = Some sec) \<and>
    (\<forall>k. k \<noteq> (secret_Namespace sec, secret_Name sec) \<longrightarrow> stored c' k = stored c k)"
proof -
  define key where "key = (secret_Namespace sec, secret_Name sec)"
  define stays where "stays d d' \<longleftrightarrow> (\<forall>k. k \<noteq> key \<longrightarrow> stored d' k = stored d k)" for d d'
  have api: "Secrets_Create L sec d = (x, d') \<Longrightarrow> (x = None \<longrightarrow> stored d' key = Some sec) \<and> stays d d'"
      "Secrets_Update L sec d = (x, d') \<Longrightarrow> (x = None \<longrightarrow> stored d' key = Some sec) \<and> stays d d'" for d d' x
    using assms(1) unfolding secrets_stored_def stays_def key_def by blast+
  have [simp]: "stays d d" for d by (simp add: stays_def)
  have trans: "stays c d \<Longrightarrow> stays d d' \<Longrightarrow> stays c d'" for d d' by (simp add: stays_def)
  have "(e = None \<longrightarrow> stored c' key = Some sec) \<and> stays c c'"
    using assms(2) by (auto simp: put_secret_def split: sum.splits option.splits prod.splits api_error.splits dest!: api intro: trans)
  then show ?thesis by (simp add: key_def stays_def)
qed

lemma create_tls_steps:
  assumes "createTLSCertificatesAndSecret L env (w, c) = Inr (e, w', c')"
  obtains ca ser cli where "tls_store L env ca ser cli c = (e, c')"
  using assms unfolding createTLSCertificatesAndSecret_def by (auto simp: case_prod_unfold Let_def prod_eq_iff)

lemma tls_store_ok:
  assumes "tls_store L env ca ser cli c = (e, c')" and "tls_ok e"
  obtains caPem sc sk cc ck c1 where "put_secret L env (server_secret sc sk caPem) c = (None, c1)"
    "put_secret L env (client_secret cc ck caPem) c1 = (None, c')"
proof -
  obtain x y z where r: "ca = Inr x" "ser = Inr y" "cli = Inr z"
    using assms by (cases ca; cases ser; cases cli) (auto simp: tls_store_def tls_ok_def split: prod.splits)
  show thesis using assms that unfolding r
    by (cases x; cases y; cases z)
      (auto simp: tls_store_def tls_ok_def generateSecretWithServerCertsForTA_def generateSecretWithClientCertForRs_def split: prod.splits)
qed

lemma create_tls_secrets:
  assumes "secrets_stored L stored" and "createTLSCertificatesAndSecret L env (w, c) = Inr (e, w', c')" and "tls_ok e"
  shows "tls_secrets (stored c')"
proof -
  obtain ca scert skey ccert ckey c1 where
    s: "put_secret L env (server_secret scert skey ca) c = (None, c1)" and cl: "put_secret L env (client_secret ccert ckey ca) c1 = (None, c')"
    using create_tls_steps [OF assms(2)] tls_store_ok [OF _ assms(3)] by metis
  have "stored c1 server_key = Some (server_secret scert skey ca)"
    using put_secret_stored [OF assms(1) s] by (simp add: server_secret_def)
  then have "stored c' server_key = Some (server_secret scert skey ca)"
    using put_secret_stored [OF assms(1) cl] by (simp add: client_secret_def)
  moreover have "stored c' client_key = Some (client_secret ccert ckey ca)"
    using put_secret_stored [OF assms(1) cl] by (simp add: client_secret_def)
  ultimately show ?thesis unfolding tls_secrets_def by blast
qed

lemma tls_setup_secrets:
  assumes "secrets_stored L stored" and "tls_setup L env wc = Inr (True, w', c')" and "https_wanted env"
  shows "tls_secrets (stored c')"
  using assms create_tls_secrets [OF assms(1)] by (cases wc) (fastforce simp: tls_setup_def split: if_splits)

lemma Inotify_Inr:
  "Inotify L out loc s = Inr s' \<Longrightarrow> taConfigUpdated s' = taConfigUpdated s \<and> taLivenessStartTime s' = taLivenessStartTime s \<and>
     cfgReaderContainerStartTime s' = cfgReaderContainerStartTime s \<and> world s' = world s \<and> cluster s' = cluster s \<and>
     cm_env (rd s') = cm_env (rd s) \<and> cm_files (rd s') = fmupd out '''' (cm_files (rd s))"
  by (auto simp: Inotify_def WriteFile_def split: option.splits if_splits)

lemma updateTAConfigFile_Inr:
  "updateTAConfigFile L f https s = Inr s' \<Longrightarrow>
     \<exists>c. write_ta_config L (targetAllocatorConfig (cm_env (rd s)) https (secrets_namespaces L (cm_env (rd s))) c) s = Inr s'"
  by (auto simp: updateTAConfigFile_def Let_def split: option.splits)

lemma update_from_configs_Inr:
  "update_from_configs L https s = Inr s' \<Longrightarrow> s' = s \<or>
     (\<exists>c. write_ta_config L (targetAllocatorConfig (cm_env (rd s)) https (secrets_namespaces L (cm_env (rd s))) c) s = Inr s')"
  by (auto simp: update_from_configs_def Let_def dest: updateTAConfigFile_Inr split: if_splits)

lemma watch_certs_Inr:
  assumes "watch_certs L https s = Inr s'"
  shows "taConfigUpdated s' = taConfigUpdated s \<and> cluster s' = cluster s \<and>
    (\<forall>f. f \<notin> {taCertNotice, serverCertNotice, caCertNotice} \<longrightarrow> fmlookup (cm_files (rd s')) f = fmlookup (cm_files (rd s)) f)"
proof (cases "https_wanted (cm_env (rd s)) \<and> https")
  case True
  then obtain s1 s2 where "Inotify L taCertNotice ''/etc/operator-targets/server/certs'' s = Inr s1"
      "Inotify L serverCertNotice ''/etc/operator-targets/server/certs'' (s1\<lparr>world := Sleep (certs L) 90 (world s1)\<rparr>) = Inr s2"
      "Inotify L caCertNotice ''/etc/operator-targets/client/certs'' s2 = Inr s'"
    using assms by (auto simp: watch_certs_def)
  from this [THEN Inotify_Inr] show ?thesis by simp
next
  case False
  then show ?thesis using assms by (auto simp: watch_certs_def)
qed

text \<open>
  C34: HTTPS is switched on in the target allocator only with certificates in place. When the reader, after parsing the config map, has
  written a configuration with HTTPS, the cluster holds the secret of the server and the secret of the clients, with
  the certificate authority of the one in the other, whichever of the two attempts it took.
\<close>

theorem https_needs_secrets:
  assumes "secrets_stored L stored" and "reader_start L s = Inr s'" and "\<not> taConfigUpdated s" and "taConfigUpdated s'"
  shows "\<exists>cfg. written L s' cfg \<and> (sh_Enabled (sh_HTTPS cfg) \<longrightarrow> https_wanted (cm_env (rd s)) \<and> tls_secrets (stored (cluster s')))"
proof -
  let ?env = "cm_env (rd s)"
  obtain https w c s1 where m: "tls_setup L ?env (world s, cluster s) = Inr (https, w, c)"
      "update_from_configs L https (s\<lparr>world := w, cluster := c\<rparr>) = Inr s1" "watch_certs L https s1 = Inr s'"
    using assms(2) by (auto simp: reader_start_def split: prod.splits)
  have "s1 \<noteq> s\<lparr>world := w, cluster := c\<rparr>" using m(3) assms(3,4) by (auto dest!: watch_certs_Inr)
  then obtain p where "write_ta_config L (targetAllocatorConfig ?env https (secrets_namespaces L ?env) p) (s\<lparr>world := w, cluster := c\<rparr>) = Inr s1"
    using update_from_configs_Inr [OF m(2)] by auto
  from write_ta_config_Inr [OF this]
  have w: "written L s1 (targetAllocatorConfig ?env https (secrets_namespaces L ?env) p)" "cluster s1 = c" by auto
  have n: "taConfigFilePath \<notin> {taCertNotice, serverCertNotice, caCertNotice}"
    by (simp add: taConfigFilePath_def taCertNotice_def serverCertNotice_def caCertNotice_def)
  have "written L s' (targetAllocatorConfig ?env https (secrets_namespaces L ?env) p)" "cluster s' = c"
    using w watch_certs_Inr [OF m(3)] n by (auto simp: written_def)
  moreover have "tls_secrets (stored c)" if "https_wanted ?env \<and> https"
    using tls_setup_secrets [OF assms(1)] m(1) that by auto
  ultimately show ?thesis by (intro exI conjI impI) (auto simp: targetAllocatorConfig_def no_https_def split: if_splits)
qed

section \<open>A failing certificate authority\<close>

text \<open>
  A certificate authority that cannot be created ends the process instead of being retried: the server certificate is created
  with the nil certificate and key all the same, and signing with a nil key panics, unless the new key or serial number fails first.
\<close>

theorem ca_failure_panics:
  assumes "https_wanted env" and "createCACertificate (certs L) w = Inr (Inl e, w1)" and "Now (certs L) w1 = (now, w2)"
    and "rsa_GenerateKey (certs L) KeySize w2 = (Inr key, w3)" and "rand_Int (certs L) (2 ^ 128) w3 = (Inr sn, w4)"
  shows "tls_setup L env (w, c) = Inl NilDeref"
proof -
  have "createServerCertificate (certs L) None None w1 = Inl NilDeref"
    using assms(3-5) by (simp add: createServerCertificate_def CreateCertificateKeyPair_def gen_CreateCertificateKeyPair_def call_bind_def
        CreateCertificateWithPublicKey_def GenerateSN_def CreateCertificate_def lib_call_def)
  then show ?thesis using assms(1,2) by (simp add: tls_setup_def createTLSCertificatesAndSecret_def)
qed

section \<open>The validity of the certificates\<close>

lemma div_pred:
  fixes y k :: int
  assumes "k > 0"
  shows "y div k = (y - 1) div k + (if y mod k = 0 then 1 else 0)"
proof (cases "y mod k = 0")
  case True
  have "(y - 1) div k = y div k - 1"
    using True assms mult_div_mod_eq [of k y] by (intro int_div_pos_eq [where r = "k - 1"]) (auto simp: algebra_simps)
  then show ?thesis using True by simp
next
  case False
  have "(y - 1) div k = y div k"
    using False assms mult_div_mod_eq [of k y] pos_mod_sign [OF assms, of y] pos_mod_bound [OF assms, of y]
    by (intro int_div_pos_eq [where r = "y mod k - 1"]) auto
  then show ?thesis using False by simp
qed

lemma leap_days:
  fixes y a b c d4 d100 d400 :: int
  assumes "d4 = a + (if p then 1 else 0)" "d100 = b + (if q then 1 else 0)" "d400 = c + (if r then 1 else 0)" "r \<Longrightarrow> q" "q \<Longrightarrow> p"
  shows "365 * y + d4 - d100 + d400 = 365 * (y - 1) + a - b + c + (if p \<and> (\<not> q \<or> r) then 366 else 365)"
  unfolding assms(1-3) using assms(4,5) by (cases p; cases q; cases r; simp)

lemma year_step: "daysSinceEpoch (y + 1) = daysSinceEpoch y + (if is_leap y then 366 else 365)"
proof -
  have m: "y mod 400 = 0 \<Longrightarrow> y mod 100 = 0" "y mod 100 = 0 \<Longrightarrow> y mod 4 = 0"
    using mod_mod_cancel [of 100 400 y] mod_mod_cancel [of 4 100 y] by simp_all
  have "daysSinceEpoch (y + 1) = 365 * y + y div 4 - y div 100 + y div 400" by (simp only: daysSinceEpoch_def Let_def add_diff_cancel_right')
  moreover have "daysSinceEpoch y = 365 * (y - 1) + (y - 1) div 4 - (y - 1) div 100 + (y - 1) div 400" by (simp only: daysSinceEpoch_def Let_def)
  ultimately show ?thesis unfolding is_leap_def by (simp only: leap_days [OF div_pred div_pred div_pred m] zero_less_numeral)
qed

lemma month_cases:
  assumes "1 \<le> m" "m \<le> (12 :: int)"
  shows "m \<in> {1, 2, 3, 4, 5, 6, 7, 8, 9, 10, 11, 12}"
  using assms unfolding insert_iff empty_iff by presburger

lemma eight_months:
  assumes "1 \<le> m" and "m \<le> 12"
  shows "Date_days y (m + 8) d \<ge> Date_days y m d + 242"
  using month_cases [OF assms] by (elim insertE emptyE) (simp_all add: Date_days_def daysBefore_def year_step)

lemma two_years: "Date_days (y + 2) m d \<ge> Date_days y m d + 730"
proof -
  define z where "z = y + (m - 1) div 12"
  have "daysSinceEpoch (z + 2) \<ge> daysSinceEpoch z + 730 + (if is_leap z then 1 else 0)"
    using year_step [of z] year_step [of "z + 1"] by (simp add: add.assoc)
  moreover have "y + 2 + (m - 1) div 12 = z + 2" by (simp add: z_def)
  ultimately show ?thesis unfolding Date_days_def Let_def z_def [symmetric]
    by (cases "is_leap z"; cases "is_leap (z + 2)"; cases "2 \<le> (m - 1) mod 12"; simp only:; simp)
qed

lemma validity:
  assumes "valid_time t"
  shows "AddDate t 0 8 0 \<ge> instant t + 242 * day_ns" "AddDate t 2 0 0 \<ge> instant t + 730 * day_ns"
proof -
  have "1 \<le> t_month t" "t_month t \<le> 12" using assms by (auto simp: valid_time_def)
  then have "Date_days (t_year t) (t_month t + 8) (t_day t) \<ge> Date_days (t_year t) (t_month t) (t_day t) + 242"
      "Date_days (t_year t + 2) (t_month t) (t_day t) \<ge> Date_days (t_year t) (t_month t) (t_day t) + 730"
    by (simp_all add: eight_months two_years)
  then show "AddDate t 0 8 0 \<ge> instant t + 242 * day_ns" "AddDate t 2 0 0 \<ge> instant t + 730 * day_ns"
    by (auto simp: AddDate_def instant_def day_ns_def)
qed

lemma healthHandler_old:
  "https_wanted (cm_env (rd s)) \<Longrightarrow> now - cfgReaderContainerStartTime s > restart_limit \<Longrightarrow> status_sent (fst (healthHandler L now s)) = 503"
  by (simp add: healthHandler_def status_sent_def Let_def)

text \<open>
  C35: The certificates outlive the container. They are issued by a process after its start, and with HTTPS the probe of the
  configuration reader asks for a restart after five months of thirty days. So as long as the probe reports a healthy container, every
  certificate that it has issued is valid for ninety more days at least.
\<close>

theorem certificates_outlive_container:
  assumes "valid_time issued" and "cfgReaderContainerStartTime s \<le> instant issued" and "https_wanted (cm_env (rd s))"
    and "status_sent (fst (healthHandler L now s)) = 200"
  shows "now + 90 * day_ns < NotAfter (server_csr issued) \<and> now + 90 * day_ns < NotAfter (client_csr issued) \<and> now + 90 * day_ns < NotAfter (ca_csr issued)"
proof -
  have "now \<le> instant issued + restart_limit" using assms(2-4) healthHandler_old [of s now L] by fastforce
  moreover have "restart_limit = 150 * day_ns" by (simp add: restart_limit_def second_ns_def day_ns_def)
  ultimately show ?thesis using validity [OF assms(1)]
    by (auto simp: server_csr_def client_csr_def ca_csr_def ServerValidityMonths_def ClientValidityMonths_def CaValidityYears_def day_ns_def)
qed

section \<open>The probe of the target allocator\<close>





text \<open>An allocator that does not answer, or not with 200, is reported as healthy: the handler then writes nothing.\<close>

theorem unreachable_allocator_healthy:
  "resp \<noteq> Some 200 \<Longrightarrow> status_sent (fst (taHealthHandler L True resp now s)) = 200"
  by (simp add: taHealthHandler_def status_sent_def)

section \<open>Witnesses\<close>

definition demo_rule_doc :: ymap where
  "demo_rule_doc = fmap_of_list [(KStr ''scrape_configs'', YSeq [YMap (fmap_of_list [(KStr ''job_name'', YStr ''a''),
     (KStr ''relabel_configs'', YSeq [YMap (fmap_of_list [(KStr ''regex'', YStr ''a$$''), (KStr ''replacement'', YStr ''$1'')])])])])]"

definition demo_escaped :: OtelConfig where
  "demo_escaped = demo_otel\<lparr>prometheus_Config := Some (expand_targets (on_config escape_dollars demo_rule_doc))\<rparr>"

definition demo_reader_cm :: cm_lib where
  "demo_reader_cm = demo_cm_lib\<lparr>base := unary_lib\<lparr>UnmarshalStr := (\<lambda>t. Some demo_rule_doc)\<rparr>,
     MarshalOtel := (\<lambda>c. if c = demo_escaped then Some ''otel'' else None),
     UnmarshalOtel := (\<lambda>t. if t = ''otel'' then Some demo_escaped else Some demo_otel)\<rparr>"

definition demo_now :: Time where
  "demo_now = \<lparr>t_year = 2024, t_month = 2, t_day = 29, t_nsec = 5\<rparr>"

definition demo_certs :: "(nat, nat) cert_lib" where
  "demo_certs = \<lparr>Now = (\<lambda>w. (demo_now, w)), Sleep = (\<lambda>n w. w), rand_Int = (\<lambda>n w. (Inr 7, w + 1)),
     rsa_GenerateKey = (\<lambda>n w. (Inr w, w + 1)),
     x509_CreateCertificate = (\<lambda>csr parent pub key w. (Inr (CommonName csr), w)),
     x509_ParseCertificate = (\<lambda>der. Inr ((ca_csr demo_now)\<lparr>Raw := der\<rparr>)),
     x509_ParsePKCS1PrivateKey = (\<lambda>b. Inr (length b)), x509_MarshalPKCS1PrivateKey = (\<lambda>k. replicate k CHR ''1''),
     pem_Encode = (\<lambda>t b. Inr (t @ b)), pem_Decode = (\<lambda>s. None)\<rparr>"

type_synonym demo_cluster = "string \<times> string \<Rightarrow> Secret option"

definition demo_reader :: "(nat, nat, demo_cluster) reader_lib" where
  "demo_reader = \<lparr>cm = demo_reader_cm, certs = demo_certs, InClusterConfig = (\<lambda>env. Inr ''config''), NewForConfig = (\<lambda>c. None),
     Secrets_Create = (\<lambda>s c. let k = (secret_Namespace s, secret_Name s) in if c k = None then (None, c(k \<mapsto> s)) else (Some AlreadyExists, c)),
     Secrets_Update = (\<lambda>s c. (None, c((secret_Namespace s, secret_Name s) \<mapsto> s))),
     ParseSemantic_ok = (\<lambda>v. True), version_LessThan = (\<lambda>v w. True), MarshalTA = (\<lambda>c. if sh_Enabled (sh_HTTPS c) then ''https'' else ''http''),
     start_inotify = (\<lambda>out loc. None)\<rparr>"

definition demo_reader_state :: "(nat, demo_cluster) reader" where
  "demo_reader_state = \<lparr>taConfigUpdated = False, taLivenessStartTime = None, cfgReaderContainerStartTime = instant demo_now,
     rd = \<lparr>cm_env = [''AZMON_OPERATOR_HTTPS_ENABLED'' \<mapsto> ''true''], cm_files = fmap_of_list [(collectorConfigPath, ''otel'')]\<rparr>,
     world = 0, cluster = Map.empty\<rparr>"

lemma demo_writable: "writable (base (cm demo_reader)) f"
  by (simp add: demo_reader_def demo_reader_cm_def)

lemma demo_updated:
  "\<exists>s'. updateTAConfigFile demo_reader collectorConfigPath https (demo_reader_state\<lparr>world := w, cluster := c\<rparr>) = Inr s'"
proof -
  have "typed_config demo_rule_doc" by (simp add: typed_config_def demo_rule_doc_def)
  then have "unescape_config (prometheus_Config demo_escaped) = Inr (Some (on_config unescape_dollars (expand_targets (on_config escape_dollars demo_rule_doc))))"
    by (simp add: demo_escaped_def unescape_config_spec typed_expand typed_on_config)
  then show ?thesis using write_ta_config_ok [OF demo_writable]
    by (simp add: updateTAConfigFile_def demo_reader_state_def demo_reader_def demo_reader_cm_def Let_def)
qed

theorem reader_types_witness:
  "(\<exists>c'. unescape_config (Some demo_rule_doc) = Inr (Some c') \<and> typed_config c') \<and>
   typed_config (expand_targets (on_config escape_dollars demo_rule_doc))"
proof -
  have t: "typed_config demo_rule_doc" by (simp add: typed_config_def demo_rule_doc_def)
  have "update_list ''scrape_configs'' escape_job demo_rule_doc = Inr (expand_targets (on_config escape_dollars demo_rule_doc))"
  proof -
    have "\<exists>c. update_list ''scrape_configs'' escape_job demo_rule_doc = Inr c" by (simp add: update_list_def demo_rule_doc_def)
    then show ?thesis using escape_config_spec by metis
  qed
  then show ?thesis using reader_types [of demo_rule_doc demo_rule_doc "expand_targets (on_config escape_dollars demo_rule_doc)"] t by blast
qed

lemma demo_absent: "k \<noteq> ''scrape_configs'' \<Longrightarrow> \<not> present (expand_targets (on_config escape_dollars demo_rule_doc)) k"
  by (simp add: present_def expand_targets_def on_config_def on_key_lookup demo_rule_doc_def)

theorem rules_reach_allocator_witness:
  "\<exists>s'. updateTAConfigFile demo_reader collectorConfigPath True demo_reader_state = Inr s' \<and>
     written demo_reader s' (targetAllocatorConfig (cm_env (rd demo_reader_state)) True ['''']
       (Some (expand_targets (on_config ta_text demo_rule_doc)))) \<and> ta_text ''a$$'' = ''a$'' \<and> ta_text ''$1'' = ''$1''"
proof -
  let ?fs = "fmap_of_list [(templatePath, ''t''), (promMergedConfigPath, ''p'')]"
  have esc: "update_list ''scrape_configs'' escape_job demo_rule_doc = Inr (expand_targets (on_config escape_dollars demo_rule_doc))"
  proof -
    have "\<exists>c. update_list ''scrape_configs'' escape_job demo_rule_doc = Inr c" by (simp add: update_list_def demo_rule_doc_def)
    then show ?thesis using escape_config_spec by metis
  qed
  have "generateOtelConfig (cm demo_reader) Map.empty promMergedConfigPath collectorConfigPath templatePath ?fs =
      Inr (None, fmupd collectorConfigPath ''otel'' ?fs)"
    using esc by (simp add: generateOtelConfig_def demo_reader_def demo_reader_cm_def demo_vpaths unsupported_def demo_absent
        record_global_def write_config_def WriteFile_def with_prometheus_def Getenv_def demo_escaped_def demo_otel_def)
  note generated = this
  have codec: "UnmarshalOtel (cm demo_reader) yml = Some otel" if "MarshalOtel (cm demo_reader) otel = Some yml" for otel yml
    using that by (simp add: demo_reader_def demo_reader_cm_def split: if_splits)
  have handed: "fmlookup (cm_files (rd demo_reader_state)) collectorConfigPath = fmlookup (fmupd collectorConfigPath ''otel'' ?fs) collectorConfigPath"
    by (simp add: demo_reader_state_def)
  have ns: "secrets_namespaces demo_reader (cm_env (rd demo_reader_state)) = ['''']"
    by (simp add: secrets_namespaces_def demo_reader_state_def Getenv_def)
  have doc: "UnmarshalStr (base (cm demo_reader)) contents = Some config \<Longrightarrow> config = demo_rule_doc" for contents config
    by (simp add: demo_reader_def demo_reader_cm_def)
  have "\<exists>s'. updateTAConfigFile demo_reader collectorConfigPath True demo_reader_state = Inr s' \<and>
     written demo_reader s' (targetAllocatorConfig (cm_env (rd demo_reader_state)) True ['''']
       (Some (expand_targets (on_config ta_text demo_rule_doc))))"
    using rules_reach_allocator [OF codec generated handed demo_writable, of True] ns doc by metis
  moreover have "ta_text ''a$$'' = ''a$''" "ta_text ''$1'' = ''$1''" by simp_all
  ultimately show ?thesis by blast
qed

lemma demo_api: "secrets_stored demo_reader id"
  by (auto simp: secrets_stored_def demo_reader_def Let_def split: if_splits)


theorem certificates_outlive_container_witness:
  "instant demo_now + restart_limit + 90 * day_ns < NotAfter (server_csr demo_now)"
proof -
  have "valid_time demo_now" by (simp add: valid_time_def demo_now_def day_ns_def)
  moreover have "cfgReaderContainerStartTime demo_reader_state \<le> instant demo_now" "https_wanted (cm_env (rd demo_reader_state))"
    by (simp_all add: demo_reader_state_def https_wanted_def Getenv_def)
  moreover have "status_sent (fst (healthHandler demo_reader (instant demo_now + restart_limit) demo_reader_state)) = 200"
    by (simp add: healthHandler_def status_sent_def hasConfigChanged_def demo_reader_state_def configNotice_def serverCertNotice_def
        caCertNotice_def collectorConfigPath_def)
  ultimately show ?thesis using certificates_outlive_container by blast
qed

theorem ca_failure_panics_witness:
  "tls_setup (demo_reader\<lparr>certs := demo_certs\<lparr>x509_CreateCertificate := (\<lambda>csr parent pub key w. (Inl ''no entropy'', w))\<rparr>\<rparr>)
     [''AZMON_OPERATOR_HTTPS_ENABLED'' \<mapsto> ''true''] (0, Map.empty) = Inl NilDeref"
proof (rule ca_failure_panics)
  let ?C = "demo_certs\<lparr>x509_CreateCertificate := (\<lambda>csr parent pub key w. (Inl ''no entropy'', w))\<rparr>"
  show "https_wanted [''AZMON_OPERATOR_HTTPS_ENABLED'' \<mapsto> ''true'']" by (simp add: https_wanted_def Getenv_def)
  show "createCACertificate (certs (demo_reader\<lparr>certs := ?C\<rparr>)) 0 = Inr (Inl ''no entropy'', 2)"
    by (simp add: createCACertificate_def CreateSelfSignedCertificateKeyPair_def gen_CreateSelfSignedCertificateKeyPair_def call_bind_def
        CreateCertificateWithPublicKey_def GenerateSN_def CreateCertificate_def lib_call_def demo_certs_def Let_def)
  show "Now (certs (demo_reader\<lparr>certs := ?C\<rparr>)) 2 = (demo_now, 2)" "rsa_GenerateKey (certs (demo_reader\<lparr>certs := ?C\<rparr>)) KeySize 2 = (Inr 2, 3)"
    "rand_Int (certs (demo_reader\<lparr>certs := ?C\<rparr>)) (2 ^ 128) 3 = (Inr 7, 4)"
    by (simp_all add: demo_certs_def)
qed

lemma demo_tls: "\<exists>w c. tls_setup demo_reader (cm_env (rd demo_reader_state)) (0, Map.empty) = Inr (True, w, c)"
  by (simp add: tls_setup_def demo_reader_state_def https_wanted_def Getenv_def createTLSCertificatesAndSecret_def createCACertificate_def
      createServerCertificate_def createClientCertificate_def CreateSelfSignedCertificateKeyPair_def CreateCertificateKeyPair_def
      gen_CreateSelfSignedCertificateKeyPair_def gen_CreateCertificateKeyPair_def CreateCertificateWithPublicKey_def GenerateSN_def
      CreateCertificate_def call_bind_def lib_call_def pure_call_def getCertKeyAsPem_def certificateToPem_def privateKeyToPem_def
      demo_reader_def demo_certs_def tls_store_def generateSecretWithServerCertsForTA_def generateSecretWithClientCertForRs_def put_secret_def
      server_secret_def client_secret_def tls_ok_def Let_def)

theorem https_needs_secrets_witness:
  "\<exists>s'. reader_start demo_reader demo_reader_state = Inr s' \<and> taConfigUpdated s' \<and> (\<exists>cfg. written demo_reader s' cfg \<and>
     (sh_Enabled (sh_HTTPS cfg) \<longrightarrow> https_wanted (cm_env (rd demo_reader_state)) \<and> tls_secrets (cluster s')))"
proof -
  obtain w c where t: "tls_setup demo_reader (cm_env (rd demo_reader_state)) (0, Map.empty) = Inr (True, w, c)" using demo_tls by blast
  obtain s1 where u: "updateTAConfigFile demo_reader collectorConfigPath True (demo_reader_state\<lparr>world := w, cluster := c\<rparr>) = Inr s1"
    using demo_updated by blast
  have "update_from_configs demo_reader True (demo_reader_state\<lparr>world := w, cluster := c\<rparr>) = Inr s1"
    using u by (simp add: update_from_configs_def demo_reader_state_def Getenv_def FileExists_def)
  moreover have up: "taConfigUpdated s1"
    using updateTAConfigFile_Inr [OF u] write_ta_config_Inr by blast
  moreover have watch: "\<exists>s'. watch_certs demo_reader True s1 = Inr s'"
    by (simp add: watch_certs_def Inotify_def WriteFile_def demo_writable, simp add: demo_reader_def)
  ultimately obtain s' where s': "reader_start demo_reader demo_reader_state = Inr s'" "watch_certs demo_reader True s1 = Inr s'"
    using t by (auto simp: reader_start_def demo_reader_state_def)
  then have "taConfigUpdated s'" using up watch_certs_Inr by blast
  moreover have "\<not> taConfigUpdated demo_reader_state" by (simp add: demo_reader_state_def)
  ultimately show ?thesis using https_needs_secrets [OF demo_api s'(1)] s'(1) by auto
qed

end
