(* ===== verification/AgentProps.thy ===== *)
theory AgentProps
  imports Agent ConfigReaderProps
begin

text \<open>
  Properties of the agent's start-up and of its liveness probe.
\<close>

section \<open>The token adapter\<close>

text \<open>The requests that end the wait.\<close>

definition wait_over :: "nat \<Rightarrow> (nat \<Rightarrow> nat option) \<Rightarrow> nat \<Rightarrow> bool" where
  "wait_over limit probe i \<longleftrightarrow> (if i \<le> limit then probe i = Some 200 else probe i = None)"

lemma wait_adapter_step: "wait_adapter limit probe i = (if wait_over limit probe i then Some i else wait_adapter limit probe (i + 1))"
  by (subst wait_adapter.simps) (auto simp: wait_over_def)

lemma wait_adapter_ends:
  assumes "wait_over limit probe n" and "i \<le> n" and "\<forall>j. i \<le> j \<and> j < n \<longrightarrow> \<not> wait_over limit probe j"
  shows "wait_adapter limit probe i = Some n"
  using assms(2,3)
proof (induction "n - i" arbitrary: i)
  case 0
  then show ?case using assms(1) by (simp add: wait_adapter_step)
next
  case (Suc d)
  then have "\<not> wait_over limit probe i" by (metis less_or_eq_imp_le nat_less_le zero_less_Suc zero_less_diff)
  moreover have "wait_adapter limit probe (i + 1) = Some n" using Suc by (intro Suc.hyps(1)) auto
  ultimately show ?case by (simp add: wait_adapter_step)
qed

lemma wait_adapter_result:
  assumes "wait_adapter limit probe i = Some n"
  shows "wait_over limit probe n \<and> i \<le> n \<and> (\<forall>j. i \<le> j \<and> j < n \<longrightarrow> \<not> wait_over limit probe j)"
  using assms
proof (rule wait_adapter.raw_induct [where P = "\<lambda>l p i n. wait_over l p n \<and> i \<le> n \<and> (\<forall>j. i \<le> j \<and> j < n \<longrightarrow> \<not> wait_over l p j)", rotated])
  fix wait l p i n
  assume ih: "\<And>l p i n. wait l p i = Some n \<Longrightarrow> wait_over l p n \<and> i \<le> n \<and> (\<forall>j. i \<le> j \<and> j < n \<longrightarrow> \<not> wait_over l p j)"
    and r: "(if l < i then if p i = None then Some i else wait l p (i + 1) else if p i = Some 200 then Some i else wait l p (i + 1)) = Some n"
  show "wait_over l p n \<and> i \<le> n \<and> (\<forall>j. i \<le> j \<and> j < n \<longrightarrow> \<not> wait_over l p j)"
  proof (cases "wait_over l p i")
    case True
    then have "n = i" using r by (auto simp: wait_over_def split: if_splits)
    then show ?thesis using True by auto
  next
    case False
    then have "wait l p (i + 1) = Some n" using r by (auto simp: wait_over_def split: if_splits)
    from ih [OF this] show ?thesis using False by (metis Suc_eq_plus1 Suc_leD le_neq_implies_less Suc_leI)
  qed
qed

text \<open>
  C37: The wait for the token adapter ends exactly at the first request, one a second, that is answered with 200 within the limit of
  60 seconds, or 20 for the control plane, or that fails after it. So it never ends when the adapter answers every request, but with
  200 only after the limit.
\<close>

theorem token_adapter_wait:
  fixes ccp :: string
  defines "limit \<equiv> (if ccp = ''true'' then 20 else 60 :: nat)"
  shows "(WaitForTokenAdapter ccp probe = Some n \<longleftrightarrow> n \<ge> 1 \<and> wait_over limit probe n \<and> (\<forall>j. 1 \<le> j \<and> j < n \<longrightarrow> \<not> wait_over limit probe j)) \<and>
    (WaitForTokenAdapter ccp probe = None \<longleftrightarrow> (\<forall>i. 1 \<le> i \<and> i \<le> limit \<longrightarrow> probe i \<noteq> Some 200) \<and> (\<forall>i > limit. probe i \<noteq> None))"
proof -
  have w: "WaitForTokenAdapter ccp probe = wait_adapter limit probe 1" by (simp add: WaitForTokenAdapter_def limit_def)
  have l: "limit \<ge> 1" by (simp add: limit_def)
  have some: "wait_adapter limit probe 1 = Some m \<longleftrightarrow> m \<ge> 1 \<and> wait_over limit probe m \<and> (\<forall>j. 1 \<le> j \<and> j < m \<longrightarrow> \<not> wait_over limit probe j)" for m
    using wait_adapter_result [of limit probe 1 m] wait_adapter_ends [of limit probe m 1] by blast
  have "wait_adapter limit probe 1 = None \<longleftrightarrow> (\<forall>i \<ge> 1. \<not> wait_over limit probe i)"
  proof
    assume "wait_adapter limit probe 1 = None"
    then have no: "\<not> (m \<ge> 1 \<and> wait_over limit probe m \<and> (\<forall>j. 1 \<le> j \<and> j < m \<longrightarrow> \<not> wait_over limit probe j))" for m using some by simp
    show "\<forall>i \<ge> 1. \<not> wait_over limit probe i"
    proof (intro allI impI)
      fix i :: nat assume "i \<ge> 1"
      then show "\<not> wait_over limit probe i" using no by (induction i rule: less_induct) auto
    qed
  next
    assume "\<forall>i \<ge> 1. \<not> wait_over limit probe i"
    then show "wait_adapter limit probe 1 = None" using some by (metis not_Some_eq)
  qed
  also have "\<dots> \<longleftrightarrow> (\<forall>i. 1 \<le> i \<and> i \<le> limit \<longrightarrow> probe i \<noteq> Some 200) \<and> (\<forall>i > limit. probe i \<noteq> None)"
  proof (intro iffI conjI allI impI)
    fix i assume "\<forall>i \<ge> 1. \<not> wait_over limit probe i" and "1 \<le> i \<and> i \<le> limit"
    then show "probe i \<noteq> Some 200" by (auto simp: wait_over_def)
  next
    fix i assume "\<forall>i \<ge> 1. \<not> wait_over limit probe i" and "limit < i"
    then have "\<not> wait_over limit probe i" using l by simp
    then show "probe i \<noteq> None" using \<open>limit < i\<close> by (simp add: wait_over_def)
  next
    fix i :: nat assume "(\<forall>i. 1 \<le> i \<and> i \<le> limit \<longrightarrow> probe i \<noteq> Some 200) \<and> (\<forall>i > limit. probe i \<noteq> None)" and "1 \<le> i"
    then show "\<not> wait_over limit probe i" by (cases "i \<le> limit") (auto simp: wait_over_def)
  qed
  finally show ?thesis unfolding w using some [of n] by (rule conjI [rotated])
qed

section \<open>HTTPS between the collector and the target allocator\<close>

lemma ca_loop_spec:
  "i \<le> r \<Longrightarrow> (fst (ca_loop missing r i) \<longleftrightarrow> (\<forall>j. i \<le> j \<and> j \<le> r \<longrightarrow> missing j)) \<and> snd (ca_loop missing r i) \<le> r - i"
proof (induction missing r i rule: ca_loop.induct)
  case step: (1 missing r i)
  consider "\<not> missing i" | "missing i" "i = r" | "missing i" "i < r" using step(2) by linarith
  then show ?case
  proof cases
    case 3
    then have ih: "(fst (ca_loop missing r (i + 1)) \<longleftrightarrow> (\<forall>j. i + 1 \<le> j \<and> j \<le> r \<longrightarrow> missing j)) \<and> snd (ca_loop missing r (i + 1)) \<le> r - (i + 1)"
      using step(1) by simp
    have "ca_loop missing r i = (fst (ca_loop missing r (i + 1)), snd (ca_loop missing r (i + 1)) + 1)"
      using 3 by (subst ca_loop.simps) (simp add: split_beta)
    moreover have "(\<forall>j. i \<le> j \<and> j \<le> r \<longrightarrow> missing j) \<longleftrightarrow> (\<forall>j. i + 1 \<le> j \<and> j \<le> r \<longrightarrow> missing j)"
      using 3(1) by (metis Suc_eq_plus1 Suc_leD le_antisym not_less_eq_eq)
    moreover have "r - i = r - (i + 1) + 1" using 3(2) by simp
    ultimately show ?thesis using ih by simp
  next
    case 1
    then show ?thesis using step(2) by (auto simp: ca_loop.simps [of missing r i])
  next
    case 2
    then show ?thesis by (auto simp: ca_loop.simps [of missing r r])
  qed
qed

text \<open>The round whose answer keeps HTTPS: no earlier one lacked the client certificate.\<close>

definition reached :: "(nat \<Rightarrow> https_attempt) \<Rightarrow> nat \<Rightarrow> nat \<Rightarrow> bool" where
  "reached attempt r i \<longleftrightarrow> (\<exists>j. i \<le> j \<and> j \<le> r \<and> attempt j = Reachable \<and> (\<forall>k. i \<le> k \<and> k < j \<longrightarrow> attempt k \<noteq> ClientCertMissing))"

lemma reached_step:
  assumes "i \<le> r"
  shows "reached attempt r i \<longleftrightarrow> attempt i = Reachable \<or> attempt i \<noteq> ClientCertMissing \<and> reached attempt r (i + 1)"
proof
  assume "reached attempt r i"
  then obtain j where j: "i \<le> j" "j \<le> r" "attempt j = Reachable" "\<forall>k. i \<le> k \<and> k < j \<longrightarrow> attempt k \<noteq> ClientCertMissing"
    unfolding reached_def by blast
  show "attempt i = Reachable \<or> attempt i \<noteq> ClientCertMissing \<and> reached attempt r (i + 1)"
  proof (cases "i = j")
    case False
    then have "i + 1 \<le> j" "attempt i \<noteq> ClientCertMissing" using j by auto
    then show ?thesis using j(2-4) unfolding reached_def by auto
  qed (use j in simp)
next
  assume h: "attempt i = Reachable \<or> attempt i \<noteq> ClientCertMissing \<and> reached attempt r (i + 1)"
  show "reached attempt r i"
  proof (cases "attempt i = Reachable")
    case True
    then show ?thesis using assms unfolding reached_def by auto
  next
    case False
    then obtain j where j: "i + 1 \<le> j" "j \<le> r" "attempt j = Reachable" "\<forall>k. i + 1 \<le> k \<and> k < j \<longrightarrow> attempt k \<noteq> ClientCertMissing"
      using h unfolding reached_def by blast
    have "attempt k \<noteq> ClientCertMissing" if "i \<le> k" "k < j" for k
      using that h False j(4) by (cases "k = i") auto
    then show ?thesis using j(1-3) unfolding reached_def by (intro exI [of _ j]) auto
  qed
qed

lemma reached_end: "i > r \<Longrightarrow> \<not> reached attempt r i"
  by (auto simp: reached_def)

lemma ping_loop_spec:
  "(i \<le> r \<or> rem) \<Longrightarrow> (fst (ping_loop attempt r i rem) \<longleftrightarrow> \<not> reached attempt r i) \<and> snd (ping_loop attempt r i rem) \<le> r - i"
proof (induction attempt r i rem rule: ping_loop.induct)
  case (1 attempt r i rem)
  show ?case
  proof (cases "i > r")
    case True
    then show ?thesis using 1(4) by (simp add: ping_loop.simps reached_end)
  next
    case False
    then have le: "i \<le> r" by simp
    show ?thesis
    proof (cases "attempt i")
      case Unreachable
      show ?thesis
      proof (cases "i = r")
        case True
        then show ?thesis using Unreachable reached_end [of r "i + 1" attempt] reached_step [OF le, of attempt]
          by (simp add: ping_loop.simps [of attempt r r])
      next
        case ir: False
        have ih: "(fst (ping_loop attempt r (i + 1) rem) \<longleftrightarrow> \<not> reached attempt r (i + 1)) \<and> snd (ping_loop attempt r (i + 1) rem) \<le> r - (i + 1)"
          using 1(3) [OF False Unreachable ir] ir le by simp
        have "ping_loop attempt r i rem = (fst (ping_loop attempt r (i + 1) rem), snd (ping_loop attempt r (i + 1) rem) + 1)"
          using Unreachable ir False by (simp add: ping_loop.simps [of attempt r i] split_beta)
        moreover have "r - i = r - (i + 1) + 1" using ir le by simp
        ultimately show ?thesis using ih reached_step [OF le, of attempt] Unreachable by simp
      qed
    qed (use False le 1(1,2) reached_step [OF le, of attempt] in \<open>auto simp: ping_loop.simps [of attempt r i]\<close>)
  qed
qed

lemma https_check_spec:
  "(fst (https_check missing attempt) \<longleftrightarrow> \<not> ((\<exists>i \<le> 2. \<not> missing i) \<and> reached attempt 2 0)) \<and> snd (https_check missing attempt) \<le> 4"
  using ca_loop_spec [of 0 2 missing] ping_loop_spec [of 0 2 False attempt] by (auto simp: https_check_def split: prod.split bool.split)


section \<open>The probe before the first configuration\<close>

lemma digit_chars: "list_all (\<lambda>d. is_digit (char_of (48 + d :: nat))) [0, 1, 2, 3, 4, 5, 6, 7, 8, 9]"
  by code_simp

lemma digit_char: "d < 10 \<Longrightarrow> is_digit (char_of (48 + d)) \<and> int (of_char (char_of (48 + d) :: char)) = 48 + int d" for d :: nat
proof -
  assume "d < 10"
  then have "d \<in> set [0, 1, 2, 3, 4, 5, 6, 7, 8, 9]" by auto
  then have "is_digit (char_of (48 + d))" using digit_chars unfolding list_all_iff by (rule bspec [rotated])
  then show ?thesis using \<open>d < 10\<close> by (simp add: of_char_digit)
qed

lemma format_uint_digits:
  "list_all is_digit (format_uint n) \<and> foldl (\<lambda>n c. 10 * n + (int (of_char c) - 48)) 0 (format_uint n) = int n"
proof (induction n rule: format_uint.induct)
  case (1 n)
  show ?case
  proof (cases "n < 10")
    case True
    then show ?thesis using digit_char [OF True] by (simp add: format_uint.simps [of n])
  next
    case False
    have "10 * int (n div 10) + int (n mod 10) = int n" by (simp add: zdiv_int zmod_int)
    then show ?thesis using False 1 digit_char [of "n mod 10"] by (simp add: format_uint.simps [of n])
  qed
qed

lemma format_uint_head: "\<exists>c cs. format_uint n = c # cs \<and> is_digit c"
  using format_uint_digits [of n] format_uint_ne [of n] by (cases "format_uint n") auto

lemma digits_plain: "list_all (\<lambda>c. \<not> is_space c \<and> c \<noteq> CHR ''-'' \<and> c \<noteq> CHR ''+'') ''0123456789''"
  by code_simp

lemma digit_plain: "is_digit c \<Longrightarrow> \<not> is_space c \<and> c \<noteq> CHR ''-'' \<and> c \<noteq> CHR ''+''"
  using digits_plain unfolding list_all_iff is_digit_def by blast

lemma print_Atoi:
  assumes "0 \<le> t" and "t < 2 ^ 63"
  shows "Atoi (TrimSpace (print_int t)) = Some t"
proof -
  obtain c cs where f: "format_uint (nat t) = c # cs" "is_digit c" using format_uint_head by blast
  have "\<forall>x \<in> set (format_uint (nat t)). \<not> is_space x"
    using format_uint_digits [of "nat t"] unfolding list_all_iff using digit_plain by blast
  then have "\<not> is_space (hd (format_uint (nat t))) \<and> \<not> is_space (last (format_uint (nat t)))"
    using format_uint_ne [of "nat t"] by simp
  then have "TrimSpace (format_uint (nat t)) = format_uint (nat t)" by (simp add: TrimSpace_fixed)
  moreover have "c \<noteq> CHR ''-''" "c \<noteq> CHR ''+''" using digit_plain [OF f(2)] by blast+
  moreover from this have "Atoi ds = (if ds \<noteq> [] \<and> list_all is_digit ds \<and> - (2 ^ 63) \<le> foldl (\<lambda>n c. 10 * n + (int (of_char c) - 48)) 0 ds \<and>
      foldl (\<lambda>n c. 10 * n + (int (of_char c) - 48)) 0 ds < 2 ^ 63 then Some (foldl (\<lambda>n c. 10 * n + (int (of_char c) - 48)) 0 ds) else None)"
      if "ds = c # cs" for ds
    using that by (simp only: Atoi_def list.case Let_def prod.case if_False)
  ultimately have "Atoi (TrimSpace (format_uint (nat t))) = Some (int (nat t))"
    using assms f(1) format_uint_digits [of "nat t"] format_uint_ne [of "nat t"] by simp
  then show ?thesis using assms by (simp add: print_int_def)
qed

lemma agent_inotify_Inr:
  "agent_inotify A out loc s = Inr s' \<Longrightarrow> agent_env s' = agent_env s \<and> started s' = started s \<and> cm_files (ag s') = fmupd out '''' (cm_files (ag s))"
  by (auto simp: agent_inotify_def agent_env_def WriteFile_def split: option.splits if_splits)

lemma finish_main_Inr:
  assumes "finish_main A False s = Inr (True, s')" and "Getenv (agent_env s) ''OS_TYPE'' = ''linux''"
  shows "agent_env s' = agent_env s \<and> cm_files (ag s') = fmupd start_time_file (print_int (al_Unix A)) (fmupd mdsdNotice '''' (cm_files (ag s)))"
proof -
  obtain s1 where s1: "agent_inotify A mdsdNotice ''/etc/mdsd.d/config-cache/metricsextension/TokenConfig.json'' s = Inr s1"
      "s' = s1\<lparr>ag := (ag s1)\<lparr>cm_files := fmupd start_time_file (print_int (al_Unix A)) (cm_files (ag s1))\<rparr>\<rparr>"
    using assms by (auto simp: finish_main_def WriteFile_def split: option.splits if_splits)
  show ?thesis using agent_inotify_Inr [OF s1(1)] s1(2) by (simp add: agent_env_def)
qed

lemma wrap64_small: "0 \<le> i \<Longrightarrow> i < 2 ^ 63 \<Longrightarrow> wrap64 i = i"
  by (simp add: wrap64_def)

text \<open>
  The grace period of an agent without a configuration. The start time that \<open>main\<close> leaves in a file is read back by
  the liveness probe. While the token configuration is missing, and with nothing else amiss, the probe succeeds for sixteen minutes
  after the start, and fails from then on.
\<close>

theorem grace_period:
  assumes "finish_main A False s = Inr (True, s')" and "Getenv (agent_env s) ''OS_TYPE'' = ''linux''" and "\<not> otlp_enabled (agent_env s)"
    and "fmlookup (cm_files (ag s)) tokenConfig = None" and "\<not> hasConfigChanged (cm_files (ag s)) agentNotice"
    and "running ''/opt/microsoft/otelcollector/otelcollector''" and "0 \<le> al_Unix A" and "al_Unix A \<le> now" and "now < 2 ^ 63"
  shows "fst (fst (agent_healthHandler L running now (ag s'))) = (if now - al_Unix A < 16 * 60 then 200 else 503)"
proof -
  let ?fs = "cm_files (ag s')"
  have f: "?fs = fmupd start_time_file (print_int (al_Unix A)) (fmupd mdsdNotice '''' (cm_files (ag s)))" and e: "agent_env s' = agent_env s"
    using finish_main_Inr [OF assms(1,2)] by auto
  have n: "tokenConfig \<noteq> start_time_file" "tokenConfig \<noteq> mdsdNotice" "agentNotice \<noteq> start_time_file" "agentNotice \<noteq> mdsdNotice"
      "start_time_file \<noteq> mdsdNotice"
    by (simp_all add: tokenConfig_def start_time_file_def mdsdNotice_def agentNotice_def)
  have "Atoi (TrimSpace (print_int (al_Unix A))) = Some (al_Unix A)" using assms(7-9) by (intro print_Atoi) auto
  moreover have "wrap64 (now - al_Unix A) = now - al_Unix A" using assms(7-9) by (intro wrap64_small) auto
  moreover have "minutes d > 15 \<longleftrightarrow> \<not> d < 16 * 60" if "d \<ge> 0" for d using that by (auto simp: minutes_def)
  ultimately have token: "missing_token ?fs now = (if now - al_Unix A < 16 * 60 then None else Some (unavailable ''No configuration present for the AKS resource''))"
    using f assms(8) by (simp add: missing_token_def)
  have notices: "check_notices ?fs = None"
    using assms(5) n f by (simp add: check_notices_def hasConfigChanged_def)
  show ?thesis using assms(3,4,6) token notices e n f
    by (simp add: agent_healthHandler_def agent_answer_def unavailable_def agent_env_def split: prod.split)
qed

section \<open>Notices and proxies\<close>

lemma set_var_other: "k \<noteq> k' \<Longrightarrow> Getenv (cm_env (set_var k v s)) k' = Getenv (cm_env s) k'"
  by (simp add: Getenv_def Setenv_def)

lemma global_settings_env [simp]: "cm_env (SetGlobalSettingsInCollectorConfig L s) = cm_env s"
  by (auto simp: SetGlobalSettingsInCollectorConfig_def create_file_def WriteFile_def split: option.splits yval.splits if_splits)

lemma remove_https_env:
  "RemoveHTTPSSettingsInCollectorConfig L c s = Inr (e, s') \<Longrightarrow> Getenv (cm_env s') ''AZMON_OPERATOR_HTTPS_ENABLED'' = Getenv (cm_env s) ''AZMON_OPERATOR_HTTPS_ENABLED''"
  by (auto simp: RemoveHTTPSSettingsInCollectorConfig_def set_var_other Let_def split: option.splits simp del: set_var_simps)

lemma https_check_env:
  "CollectorTAHttpsCheck L m a c s = Inr s' \<Longrightarrow> Getenv (cm_env s') ''AZMON_OPERATOR_HTTPS_ENABLED'' = Getenv (cm_env s) ''AZMON_OPERATOR_HTTPS_ENABLED''"
  by (auto simp: CollectorTAHttpsCheck_def set_var_other dest: remove_https_env split: if_splits simp del: set_var_simps)

lemma start_collector_env [simp]: "agent_env (start_collector A c s) = agent_env s"
  by (simp add: start_collector_def run_command_def agent_env_def split: option.split)

text \<open>
  A replica set that uses HTTPS forgets the notices of its start-up. The file of notices is emptied when the client certificates
  are put under watch, after the collector is started. So a change of the settings that was noticed between the parsing
  of the config map and that point does not make the liveness probe fail.
\<close>

theorem notices_erased:
  assumes "launch_collector A ''replicaset'' ccp s = Inr s'" and "https_wanted (agent_env s)"
  shows "\<not> hasConfigChanged (cm_files (ag s')) agentNotice"
proof -
  define s1 where "s1 = (if ''replicaset'' = ''replicaset'' \<and> Getenv (agent_env s) ''AZMON_OPERATOR_ENABLED'' = ''true'' \<and> ccp \<noteq> ''true''
      then on_ag (SetGlobalSettingsInCollectorConfig (al_cm A)) s else s)"
  let ?config = "collector_config (agent_env s) ''replicaset'' ccp"
  have w: "https_wanted (agent_env s1)" using assms(2) by (simp add: s1_def on_ag_def agent_env_def)
  obtain g where g: "CollectorTAHttpsCheck (al_cm A) (al_ca_missing A) (al_attempt A) ?config (ag s1) = Inr g"
      "(let s3 = start_collector A ?config (s1\<lparr>ag := g\<rparr>)
        in if https_wanted (agent_env s3) then agent_inotify A agentNotice ''/etc/operator-targets/client/certs'' s3 else Inr s3) = Inr s'"
    using assms(1) w unfolding launch_collector_def Let_def s1_def [symmetric] by auto
  have "https_wanted (agent_env (start_collector A ?config (s1\<lparr>ag := g\<rparr>)))"
    using w https_check_env [OF g(1)] by (simp add: https_wanted_def) (simp add: agent_env_def)
  then have "agent_inotify A agentNotice ''/etc/operator-targets/client/certs'' (start_collector A ?config (s1\<lparr>ag := g\<rparr>)) = Inr s'"
    using g(2) by (simp add: Let_def)
  from agent_inotify_Inr [OF this] show ?thesis by (simp add: hasConfigChanged_def)
qed

text \<open>
  The credentials of the proxy. The start-up panics exactly when the part of \<open>HTTPS_PROXY\<close> between the scheme and an
  \<open>@\<close> has no colon, as when the variable is not set; and a proxy that is given without credentials has its host recorded as
  the user name, and its port as the password.
\<close>

theorem proxy_credentials:
  "(arc_proxy L s = Inl IndexOutOfRange \<longleftrightarrow> CHR '':'' \<notin> set (proxy_user (Getenv (cm_env s) ''HTTPS_PROXY''))) \<and>
   (Getenv (cm_env s) ''HTTPS_PROXY'' = ''http://'' @ host @ '':'' @ port \<and> host \<noteq> '''' \<and> CHR '':'' \<notin> set host \<and> CHR ''@'' \<notin> set (host @ port) \<and>
      CHR 0x00 \<notin> set host \<and> writable (base L) proxy_password_file \<longrightarrow>
    (\<exists>s'. arc_proxy L s = Inr s' \<and> Getenv (cm_env s') ''MDSD_PROXY_USERNAME'' = host \<and> fmlookup (cm_files s') proxy_password_file = Some port))"
proof (intro conjI impI)
  show "arc_proxy L s = Inl IndexOutOfRange \<longleftrightarrow> CHR '':'' \<notin> set (proxy_user (Getenv (cm_env s) ''HTTPS_PROXY''))"
    by (simp add: arc_proxy_def SplitN2_def Let_def)
  assume h: "Getenv (cm_env s) ''HTTPS_PROXY'' = ''http://'' @ host @ '':'' @ port \<and> host \<noteq> '''' \<and> CHR '':'' \<notin> set host \<and> CHR ''@'' \<notin> set (host @ port) \<and>
      CHR 0x00 \<notin> set host \<and> writable (base L) proxy_password_file"
  have "before ''://'' (''http://'' @ host @ '':'' @ port) = ''http''" by simp
  moreover have "ToLower ''http'' = ''http''" by code_simp
  ultimately have u: "proxy_user (''http://'' @ host @ '':'' @ port) = host @ '':'' @ port"
    using h by (simp add: proxy_user_def TrimPrefix_def SplitN2_def)
  have sp: "SplitN2 CHR '':'' (host @ '':'' @ port) = [host, port]"
    using h by (auto simp: SplitN2_def takeWhile_append dropWhile_append)
  show "\<exists>s'. arc_proxy L s = Inr s' \<and> Getenv (cm_env s') ''MDSD_PROXY_USERNAME'' = host \<and> fmlookup (cm_files s') proxy_password_file = Some port"
    using h u sp by (simp add: arc_proxy_def Let_def WriteFile_def set_all_def Setenv_def Getenv_def)
qed

section \<open>Witnesses\<close>

definition demo_agent_cm :: cm_lib where
  "demo_agent_cm = demo_cm_lib\<lparr>MarshalOtel := (\<lambda>c. map_option doc_text (prometheus_TargetAllocator c)),
     UnmarshalOtel := (\<lambda>t. Some (demo_otel\<lparr>prometheus_TargetAllocator := Some (doc_of t)\<rparr>))\<rparr>"

definition demo_agent_lib :: agent_lib where
  "demo_agent_lib = \<lparr>al_cm = demo_agent_cm,
     al_ccp_errors = \<lparr>version_error = id, v2_error = (\<lambda>e. FileNotExist ''''), v1_error = FileNotExist ''''\<rparr>, al_ccp_order = (\<lambda>m. []), al_ccp_regexes = ccp_no_regexes, al_base64 = (\<lambda>t. None),
     al_inotify = (\<lambda>out loc. None), al_start = (\<lambda>c. None), al_adapter = (\<lambda>i. Some 200), al_ca_missing = (\<lambda>i. i = 0),
     al_attempt = (\<lambda>i. if i < 2 then Unreachable else Reachable), al_Unix = 1700000000\<rparr>"

theorem token_adapter_wait_witness:
  "WaitForTokenAdapter '''' (\<lambda>i. if i = 3 then Some 200 else None) = Some 3 \<and>
   WaitForTokenAdapter '''' (\<lambda>i. if i \<le> 60 then Some 503 else Some 200) = None"
proof
  show "WaitForTokenAdapter '''' (\<lambda>i. if i = 3 then Some 200 else None) = Some 3"
    using token_adapter_wait [of "''''" "\<lambda>i. if i = 3 then Some 200 else None" 3] by (simp add: wait_over_def)
  show "WaitForTokenAdapter '''' (\<lambda>i. if i \<le> 60 then Some 503 else Some 200) = None"
    using token_adapter_wait [of "''''" "\<lambda>i. if i \<le> 60 then Some 503 else Some 200" 0] by simp
qed


definition demo_agent :: agent where
  "demo_agent = \<lparr>ag = \<lparr>cm_env = [''OS_TYPE'' \<mapsto> ''linux'', ''AZMON_OPERATOR_HTTPS_ENABLED'' \<mapsto> ''true''],
     cm_files = fmap_of_list [(agentNotice, '''')]\<rparr>, started = []\<rparr>"

theorem grace_period_witness:
  "\<exists>s'. finish_main demo_agent_lib False demo_agent = Inr (True, s') \<and>
     fst (fst (agent_healthHandler demo_agent_cm (\<lambda>p. True) 1700000959 (ag s'))) = 200 \<and>
     fst (fst (agent_healthHandler demo_agent_cm (\<lambda>p. True) 1700000960 (ag s'))) = 503"
proof -
  have "\<exists>s'. finish_main demo_agent_lib False demo_agent = Inr (True, s')"
    by (simp add: finish_main_def agent_inotify_def WriteFile_def demo_agent_lib_def demo_agent_cm_def demo_cm_lib_def)
  then obtain s' where s': "finish_main demo_agent_lib False demo_agent = Inr (True, s')" by blast
  have "Getenv (agent_env demo_agent) ''OS_TYPE'' = ''linux''" "\<not> otlp_enabled (agent_env demo_agent)"
      "fmlookup (cm_files (ag demo_agent)) tokenConfig = None" "\<not> hasConfigChanged (cm_files (ag demo_agent)) agentNotice" "al_Unix demo_agent_lib = 1700000000"
    by (simp_all add: demo_agent_def agent_env_def otlp_enabled_def GetEnv_def Getenv_def ToLower_def lower_char_def tokenConfig_def agentNotice_def
        hasConfigChanged_def demo_agent_lib_def)
  then show ?thesis
    using s' grace_period [OF s', of "\<lambda>p. True" 1700000959 demo_agent_cm] grace_period [OF s', of "\<lambda>p. True" 1700000960 demo_agent_cm] by auto
qed

theorem notices_erased_witness:
  "\<exists>s'. launch_collector demo_agent_lib ''replicaset'' '''' (demo_agent\<lparr>ag := (ag demo_agent)\<lparr>cm_files := fmap_of_list [(agentNotice, ''x'')]\<rparr>\<rparr>) = Inr s' \<and>
     \<not> hasConfigChanged (cm_files (ag s')) agentNotice"
proof -
  let ?s = "demo_agent\<lparr>ag := (ag demo_agent)\<lparr>cm_files := fmap_of_list [(agentNotice, ''x'')]\<rparr>\<rparr>"
  have c: "\<not> fst (https_check (al_ca_missing demo_agent_lib) (al_attempt demo_agent_lib))"
  proof -
    have "\<exists>i \<le> 2. \<not> al_ca_missing demo_agent_lib i" by (rule exI [of _ 1]) (simp add: demo_agent_lib_def)
    moreover have "reached (al_attempt demo_agent_lib) 2 0" by (auto simp: reached_def demo_agent_lib_def intro!: exI [of _ 2])
    ultimately show ?thesis using https_check_spec by blast
  qed
  have "\<exists>s'. launch_collector demo_agent_lib ''replicaset'' '''' ?s = Inr s'"
    using c by (simp add: launch_collector_def Let_def demo_agent_def agent_env_def https_wanted_def Getenv_def CollectorTAHttpsCheck_def Setenv_def
        start_collector_def run_command_def WriteFile_def agent_inotify_def) (simp add: demo_agent_lib_def demo_agent_cm_def demo_cm_lib_def)
  moreover have "https_wanted (agent_env ?s)" by (simp add: demo_agent_def agent_env_def https_wanted_def Getenv_def)
  ultimately show ?thesis using notices_erased by blast
qed

theorem proxy_credentials_witness:
  "\<exists>s'. arc_proxy demo_cm_lib \<lparr>cm_env = [''HTTPS_PROXY'' \<mapsto> ''http://proxy:3128''], cm_files = fmempty\<rparr> = Inr s' \<and>
     Getenv (cm_env s') ''MDSD_PROXY_USERNAME'' = ''proxy'' \<and> fmlookup (cm_files s') proxy_password_file = Some ''3128''"
  using proxy_credentials [of demo_cm_lib "\<lparr>cm_env = [''HTTPS_PROXY'' \<mapsto> ''http://proxy:3128''], cm_files = fmempty\<rparr>" "''proxy''" "''3128''"]
  by (simp add: Getenv_def demo_cm_lib_def)

end
