(* ===== verification/HealthMetrics.thy ===== *)
theory HealthMetrics
  imports Settings Complex_Main
begin

text \<open>
  The health metrics of the agent in control plane mode: \<open>shared/health_metrics.go\<close>, \<open>me_log_tailer.go\<close> and
  \<open>otelcol_health_scraper.go\<close>. Four goroutines share counters: the loop that exports them every minute, the tailer of the log of the
  metrics extension, the tailer of the collector's log, and the scraper of the collector's own metrics.

  The counters hold sums of counts, integers far below \<open>2 ^ 53\<close>, on which the arithmetic of \<open>float64\<close> is exact; they are rationals here.
  \<open>strconv.ParseFloat\<close> and the regular expression of the \<open>ProcessedCount\<close> lines are the record \<open>health_lib\<close>.
\<close>

record health_lib =
  ParseFloat :: "string \<Rightarrow> rat option"
  meProcessedCountRegex :: "string \<Rightarrow> string list"

section \<open>otelcol\_health\_scraper.go\<close>

definition IndexByte :: "char \<Rightarrow> string \<Rightarrow> nat option" where
  "IndexByte c s = (if c \<in> set s then Some (length (takeWhile (\<lambda>x. x \<noteq> c) s)) else None)"

definition LastIndexByte :: "char \<Rightarrow> string \<Rightarrow> nat option" where
  "LastIndexByte c s = (if c \<in> set s then Some (length s - 1 - length (takeWhile (\<lambda>x. x \<noteq> c) (rev s))) else None)"

definition parsePrometheusLine :: "health_lib \<Rightarrow> string \<Rightarrow> (string \<times> rat) option" where
  "parsePrometheusLine H line =
     (case (case IndexByte CHR ''{'' line of Some i \<Rightarrow> Some i | None \<Rightarrow> IndexByte CHR '' '' line) of
        None \<Rightarrow> None
      | Some nameEnd \<Rightarrow>
        if nameEnd = 0 then None
        else (case LastIndexByte CHR '' '' line of
            None \<Rightarrow> None
          | Some lastSpace \<Rightarrow>
            if lastSpace \<ge> length line - 1 then None
            else (case ParseFloat H (drop (lastSpace + 1) line) of None \<Rightarrow> None | Some v \<Rightarrow> Some (take nameEnd line, v))))"

definition metric_of_line :: "health_lib \<Rightarrow> string \<Rightarrow> (string \<times> rat) option" where
  "metric_of_line H line = (if line = '''' \<or> hd line = CHR ''#'' then None else parsePrometheusLine H line)"

definition add_metric :: "(string, rat) gomap \<Rightarrow> string \<times> rat \<Rightarrow> (string, rat) gomap" where
  "add_metric result = (\<lambda>(name, v). fmupd name (get0 0 result name + v) result)"

text \<open>The answer of the endpoint is a status and a body, if there is one.\<close>

definition scrapeOtelColMetrics :: "health_lib \<Rightarrow> (nat \<times> string) option \<Rightarrow> (string, rat) gomap option" where
  "scrapeOtelColMetrics H resp =
     (case resp of
        None \<Rightarrow> None
      | Some (status, body) \<Rightarrow>
        if status \<noteq> 200 then None
        else (case scan_lines body of (lines, failed) \<Rightarrow>
            if failed then None else Some (foldl add_metric fmempty (List.map_filter (metric_of_line H) lines))))"

definition otelColReceivedMetric :: string where "otelColReceivedMetric = ''otelcol_receiver_accepted_metric_points''"
definition otelColSentMetric :: string where "otelColSentMetric = ''otelcol_exporter_sent_metric_points''"
definition otelColSendFailedMetric :: string where "otelColSendFailedMetric = ''otelcol_exporter_send_failed_metric_points''"

text \<open>The local variables of \<open>ScrapeOtelCollectorHealthMetrics\<close>.\<close>

record scraper =
  prevReceived :: rat
  prevSent :: rat
  prevSendFailed :: rat
  initialized :: bool

definition new_scraper :: scraper where
  "new_scraper = \<lparr>prevReceived = 0, prevSent = 0, prevSendFailed = 0, initialized = False\<rparr>"

definition counter_delta :: "rat \<Rightarrow> rat \<Rightarrow> rat" where
  "counter_delta current prev = (if current - prev < 0 then current else current - prev)"

definition minuteScale :: rat where
  "minuteScale = 60 / 15"

section \<open>health\_metrics.go\<close>

text \<open>A gauge that is the quotient of a total and the minutes that have passed.\<close>

datatype gauge = Val rat | NotANumber | PlusInf

definition Round :: "rat \<Rightarrow> rat" where
  "Round x = (if x \<ge> 0 then of_int \<lfloor>x + 1 / 2\<rfloor> else - of_int \<lfloor>- x + 1 / 2\<rfloor>)"

text \<open>\<open>elapsed\<close> is in nanoseconds, as rational minutes of the interval of 60 seconds.\<close>

definition gauge_rate :: "rat \<Rightarrow> int \<Rightarrow> gauge" where
  "gauge_rate amount elapsed =
     (let timePassedInMinutes = (of_int elapsed / 10 ^ 9) / 60 in
      if timePassedInMinutes = 0 then (if amount = 0 then NotANumber else PlusInf) else Val (Round (amount / timePassedInMinutes)))"

text \<open>The counters that the goroutines share, each group under its mutex, and what is exported.\<close>

record health =
  TimeseriesReceivedTotal :: rat
  TimeseriesSentTotal :: rat
  BytesSentTotal :: rat
  MEDroppedCount :: rat
  OtelColExportFailureEventCount :: nat
  OtelColReceivedRate :: rat
  OtelColSentRate :: rat
  OtelColDroppedCount :: rat
  meReceivedMetric :: gauge
  meSentMetric :: gauge
  meBytesSentMetric :: gauge
  meDroppedMetric :: rat
  otelcolExportFailuresMetric :: nat
  otelcolReceivedRateMetric :: rat
  otelcolSentRateMetric :: rat
  otelcolDroppedMetric :: rat

definition new_health :: health where
  "new_health = \<lparr>TimeseriesReceivedTotal = 0, TimeseriesSentTotal = 0, BytesSentTotal = 0, MEDroppedCount = 0, OtelColExportFailureEventCount = 0,
     OtelColReceivedRate = 0, OtelColSentRate = 0, OtelColDroppedCount = 0, meReceivedMetric = Val 0, meSentMetric = Val 0, meBytesSentMetric = Val 0,
     meDroppedMetric = 0, otelcolExportFailuresMetric = 0, otelcolReceivedRateMetric = 0, otelcolSentRateMetric = 0, otelcolDroppedMetric = 0\<rparr>"

text \<open>The critical sections of one round of the exporting loop.\<close>

definition export_volume :: "int \<Rightarrow> health \<Rightarrow> health" where
  "export_volume elapsed h =
     h\<lparr>meReceivedMetric := gauge_rate (TimeseriesReceivedTotal h) elapsed, meSentMetric := gauge_rate (TimeseriesSentTotal h) elapsed,
       meBytesSentMetric := gauge_rate (BytesSentTotal h) elapsed,
       TimeseriesReceivedTotal := 0, TimeseriesSentTotal := 0, BytesSentTotal := 0\<rparr>"

definition export_me_dropped :: "health \<Rightarrow> health" where
  "export_me_dropped h = h\<lparr>meDroppedMetric := meDroppedMetric h + MEDroppedCount h, MEDroppedCount := 0\<rparr>"

definition export_failures :: "health \<Rightarrow> health" where
  "export_failures h =
     h\<lparr>otelcolExportFailuresMetric := otelcolExportFailuresMetric h + OtelColExportFailureEventCount h, OtelColExportFailureEventCount := 0\<rparr>"

definition export_diag :: "health \<Rightarrow> health" where
  "export_diag h =
     h\<lparr>otelcolReceivedRateMetric := OtelColReceivedRate h, otelcolSentRateMetric := OtelColSentRate h,
       otelcolDroppedMetric := otelcolDroppedMetric h + OtelColDroppedCount h, OtelColDroppedCount := 0\<rparr>"

text \<open>The gauge of the settings: its error label and its value.\<close>

definition invalid_settings :: "environ \<Rightarrow> string \<times> nat" where
  "invalid_settings env =
     (if Getenv env ''AZMON_INVALID_METRICS_SETTINGS_CONFIG'' = ''true'' then (Getenv env ''INVALID_SETTINGS_CONFIG_ERROR'', 1) else ('''', 0))"

section \<open>me\_log\_tailer.go\<close>

definition parse_processed_count :: "health_lib \<Rightarrow> string \<Rightarrow> (rat \<times> rat \<times> rat) option" where
  "parse_processed_count H line =
     (let matches = meProcessedCountRegex H line in
      if \<not> sublist ''ProcessedCount:'' line \<or> length matches < 8 then None
      else (case (ParseFloat H (matches ! 4), ParseFloat H (matches ! 6)) of
          (Some processedCount, Some sentCount) \<Rightarrow>
            Some (processedCount, sentCount, (case ParseFloat H (matches ! 7) of None \<Rightarrow> 0 | Some sentBytes \<Rightarrow> sentBytes))
        | _ \<Rightarrow> None))"

definition add_sent :: "rat \<Rightarrow> rat \<Rightarrow> health \<Rightarrow> health" where
  "add_sent sentCount sentBytes h =
     h\<lparr>TimeseriesSentTotal := TimeseriesSentTotal h + sentCount, BytesSentTotal := BytesSentTotal h + sentBytes\<rparr>"

definition add_me_dropped :: "rat \<Rightarrow> health \<Rightarrow> health" where
  "add_me_dropped failedCount h = h\<lparr>MEDroppedCount := MEDroppedCount h + failedCount\<rparr>"

text \<open>\<open>meEventsProcessedRegex\<close>: the digits after the leftmost occurrence of the marker that has some.\<close>

fun events_match :: "string \<Rightarrow> string option" where
  "events_match [] = None"
| "events_match (c # cs) =
     (let marker = ''EventsProcessedLastPeriod: ''; ds = takeWhile is_digit (drop (length marker) (c # cs))
      in if prefix marker (c # cs) \<and> ds \<noteq> '''' then Some ds else events_match cs)"

definition parse_events_processed :: "health_lib \<Rightarrow> string \<Rightarrow> rat option" where
  "parse_events_processed H line =
     (if \<not> sublist ''EventsProcessedLastPeriod:'' line then None else Option.bind (events_match line) (ParseFloat H))"

definition add_received :: "rat \<Rightarrow> health \<Rightarrow> health" where
  "add_received receivedCount h = h\<lparr>TimeseriesReceivedTotal := TimeseriesReceivedTotal h + receivedCount\<rparr>"

definition add_export_failure :: "health \<Rightarrow> health" where
  "add_export_failure h = h\<lparr>OtelColExportFailureEventCount := OtelColExportFailureEventCount h + 1\<rparr>"

text \<open>
  The lines that a tailer sees. It reads up to a line feed; at the end of the file \<open>ReadString\<close> returns what it has so far with an error, and
  the loop throws that away and waits. A chunk is what was appended to the file between two such waits.
\<close>

function complete_lines :: "string \<Rightarrow> string list" where
  "complete_lines s =
     (if CHR 0x0A \<in> set s then takeWhile (\<lambda>c. c \<noteq> CHR 0x0A) s # complete_lines (tl (dropWhile (\<lambda>c. c \<noteq> CHR 0x0A) s)) else [])"
  by pat_completeness auto
termination
proof (relation "measure length")
  fix s :: string
  assume "CHR 0x0A \<in> set s"
  then have "dropWhile (\<lambda>c. c \<noteq> CHR 0x0A) s \<noteq> []" by simp
  then have "length (tl (dropWhile (\<lambda>c. c \<noteq> CHR 0x0A) s)) < length (dropWhile (\<lambda>c. c \<noteq> CHR 0x0A) s)" by simp
  also have "\<dots> \<le> length s" by (rule length_dropWhile_le)
  finally show "(tl (dropWhile (\<lambda>c. c \<noteq> CHR 0x0A) s), s) \<in> measure length" by simp
qed simp

declare complete_lines.simps [simp del]

definition tailed_lines :: "string list \<Rightarrow> string list" where
  "tailed_lines chunks = filter (\<lambda>l. l \<noteq> '''') (map TrimSpace (concat (map complete_lines chunks)))"

section \<open>The goroutines\<close>

text \<open>
  Where a goroutine is between its critical sections: the exporting loop before its first to fourth section, and the tailer of the
  metrics extension with the drops it still has to add, and the received count.
\<close>

datatype export_pc = AtVolume | AtMEDropped | AtFailures | AtDiag

datatype tailer_pc = AtLine | AtDropped rat string | AtEvents string

record system =
  shared :: health
  exporter :: export_pc
  me_tailer :: tailer_pc
  otel_scraper :: scraper

datatype health_event =
    Export int
  | MELine string
  | METail
  | OtelLine string
  | Scrape "(string, rat) gomap option"

text \<open>The scraper after an answer: its variables and the shared counters.\<close>

definition scrape_round :: "(string, rat) gomap option \<Rightarrow> scraper \<Rightarrow> health \<Rightarrow> scraper \<times> health" where
  "scrape_round metrics v h =
     (case metrics of
        None \<Rightarrow> (v, h)
      | Some metrics \<Rightarrow>
        let currentReceived = get0 0 metrics otelColReceivedMetric; currentSent = get0 0 metrics otelColSentMetric;
            currentSendFailed = get0 0 metrics otelColSendFailedMetric;
            h' = (if initialized v
                  then h\<lparr>OtelColReceivedRate := counter_delta currentReceived (prevReceived v) * minuteScale,
                         OtelColSentRate := counter_delta currentSent (prevSent v) * minuteScale,
                         OtelColDroppedCount := OtelColDroppedCount h + counter_delta currentSendFailed (prevSendFailed v)\<rparr>
                  else h)
        in (\<lparr>prevReceived = currentReceived, prevSent = currentSent, prevSendFailed = currentSendFailed, initialized = True\<rparr>, h'))"

text \<open>One atomic step of one of the goroutines.\<close>

fun health_step :: "health_lib \<Rightarrow> health_event \<Rightarrow> system \<Rightarrow> system option" where
  "health_step H (Export elapsed) y =
     Some (case exporter y of
        AtVolume \<Rightarrow> y\<lparr>shared := export_volume elapsed (shared y), exporter := AtMEDropped\<rparr>
      | AtMEDropped \<Rightarrow> y\<lparr>shared := export_me_dropped (shared y), exporter := AtFailures\<rparr>
      | AtFailures \<Rightarrow> y\<lparr>shared := export_failures (shared y), exporter := AtDiag\<rparr>
      | AtDiag \<Rightarrow> y\<lparr>shared := export_diag (shared y), exporter := AtVolume\<rparr>)"
| "health_step H (MELine line) y =
     (case me_tailer y of
        AtLine \<Rightarrow>
          Some (case parse_processed_count H line of
             None \<Rightarrow> y\<lparr>me_tailer := AtEvents line\<rparr>
           | Some (processedCount, sentCount, sentBytes) \<Rightarrow>
             let failedCount = processedCount - sentCount in
             y\<lparr>shared := add_sent sentCount sentBytes (shared y),
               me_tailer := (if failedCount > 0 then AtDropped failedCount line else AtEvents line)\<rparr>)
      | _ \<Rightarrow> None)"
| "health_step H METail y =
     (case me_tailer y of
        AtLine \<Rightarrow> None
      | AtDropped failedCount line \<Rightarrow> Some (y\<lparr>shared := add_me_dropped failedCount (shared y), me_tailer := AtEvents line\<rparr>)
      | AtEvents line \<Rightarrow>
          Some (case parse_events_processed H line of
             None \<Rightarrow> y\<lparr>me_tailer := AtLine\<rparr>
           | Some receivedCount \<Rightarrow> y\<lparr>shared := add_received receivedCount (shared y), me_tailer := AtLine\<rparr>))"
| "health_step H (OtelLine line) y =
     Some (if sublist ''Exporting failed'' line then y\<lparr>shared := add_export_failure (shared y)\<rparr> else y)"
| "health_step H (Scrape metrics) y =
     (case scrape_round metrics (otel_scraper y) (shared y) of (v, h) \<Rightarrow> Some (y\<lparr>otel_scraper := v, shared := h\<rparr>))"

definition new_system :: system where
  "new_system = \<lparr>shared = new_health, exporter = AtVolume, me_tailer = AtLine, otel_scraper = new_scraper\<rparr>"

text \<open>A run of the goroutines, in any order of their steps.\<close>

fun health_run :: "health_lib \<Rightarrow> health_event list \<Rightarrow> system \<Rightarrow> system option" where
  "health_run H [] y = Some y"
| "health_run H (e # es) y = Option.bind (health_step H e y) (health_run H es)"

end
