(* ===== verification/HealthMetricsProps.thy ===== *)
theory HealthMetricsProps
  imports HealthMetrics ConfigMapFrames
begin

text \<open>
  Properties of the health metrics: the goroutines neither lose nor repeat a count, the scraper adds up the series of a metric,
  and what the log tailers see.
\<close>

section \<open>Counts that are handed over\<close>

text \<open>
  A quantity of the state that every step changes by what its event says, in the states of an invariant. \<open>run\<close> is the execution of a
  list of events.
\<close>

locale accounted =
  fixes step :: "'e \<Rightarrow> 's \<Rightarrow> 's option" and run :: "'e list \<Rightarrow> 's \<Rightarrow> 's option"
    and inv :: "'s \<Rightarrow> bool" and amount :: "'e \<Rightarrow> 'n :: comm_monoid_add" and held :: "'s \<Rightarrow> 'n"
  assumes run_Nil: "run [] s = Some s"
    and run_Cons: "run (e # es) s = Option.bind (step e s) (run es)"
    and step_inv: "inv s \<Longrightarrow> step e s = Some s' \<Longrightarrow> inv s'"
    and step_held: "inv s \<Longrightarrow> step e s = Some s' \<Longrightarrow> held s' = held s + amount e"
begin

lemma run_held: "inv s \<Longrightarrow> run es s = Some s' \<Longrightarrow> inv s' \<and> held s' = held s + sum_list (map amount es)"
proof (induction es arbitrary: s)
  case Nil
  then show ?case by (simp add: run_Nil)
next
  case (Cons e es)
  then obtain s1 where s1: "step e s = Some s1" and r: "run es s1 = Some s'" by (auto simp: run_Cons bind_eq_Some_conv)
  show ?case using Cons.IH [OF step_inv [OF Cons.prems(1) s1] r] step_held [OF Cons.prems(1) s1] by (simp add: add.assoc)
qed

end

text \<open>The drops that a line of the metrics extension reports, and those that its tailer has still to add.\<close>

definition line_drops :: "health_lib \<Rightarrow> string \<Rightarrow> rat" where
  "line_drops H line =
     (case parse_processed_count H line of None \<Rightarrow> 0 | Some (processedCount, sentCount, sentBytes) \<Rightarrow> max 0 (processedCount - sentCount))"

fun pending_drops :: "tailer_pc \<Rightarrow> rat" where
  "pending_drops (AtDropped n line) = n"
| "pending_drops pc = 0"

fun event_drops :: "health_lib \<Rightarrow> health_event \<Rightarrow> rat" where
  "event_drops H (MELine line) = line_drops H line"
| "event_drops H e = 0"

fun event_failures :: "health_event \<Rightarrow> nat" where
  "event_failures (OtelLine line) = (if sublist ''Exporting failed'' line then 1 else 0)"
| "event_failures e = 0"

definition dropped_held :: "system \<Rightarrow> rat" where
  "dropped_held y = meDroppedMetric (shared y) + MEDroppedCount (shared y) + pending_drops (me_tailer y)"

definition failures_held :: "system \<Rightarrow> nat" where
  "failures_held y = otelcolExportFailuresMetric (shared y) + OtelColExportFailureEventCount (shared y)"

definition otel_dropped :: "system \<Rightarrow> rat" where
  "otel_dropped y = otelcolDroppedMetric (shared y) + OtelColDroppedCount (shared y)"

lemmas section_defs = export_volume_def export_me_dropped_def export_failures_def export_diag_def add_sent_def add_me_dropped_def add_received_def
  add_export_failure_def

lemma health_step_dropped: "health_step H e y = Some y' \<Longrightarrow> dropped_held y' = dropped_held y + event_drops H e"
proof (cases e)
  case (Scrape m)
  assume "health_step H e y = Some y'"
  then show ?thesis using Scrape by (auto simp: dropped_held_def scrape_round_def Let_def split: option.splits if_splits)
qed (auto simp: dropped_held_def section_defs line_drops_def Let_def split: export_pc.splits tailer_pc.splits option.splits if_splits prod.splits)

lemma health_step_failures: "health_step H e y = Some y' \<Longrightarrow> failures_held y' = failures_held y + event_failures e"
proof (cases e)
  case (Scrape m)
  assume "health_step H e y = Some y'"
  then show ?thesis using Scrape by (auto simp: failures_held_def scrape_round_def Let_def split: option.splits if_splits)
qed (auto simp: failures_held_def section_defs Let_def split: export_pc.splits tailer_pc.splits option.splits if_splits prod.splits)

interpretation drops: accounted "health_step H" "health_run H" "\<lambda>y. True" "event_drops H" dropped_held for H
  by unfold_locales (simp_all add: health_step_dropped)

interpretation failures: accounted "health_step H" "health_run H" "\<lambda>y. True" event_failures failures_held for H
  by unfold_locales (simp_all add: health_step_failures)

text \<open>The values of the counter of failed points that the scraper has read, and the increments between them.\<close>

fun failed_values :: "health_event list \<Rightarrow> rat list" where
  "failed_values [] = []"
| "failed_values (Scrape (Some m) # es) = get0 0 m otelColSendFailedMetric # failed_values es"
| "failed_values (e # es) = failed_values es"

fun increments :: "rat list \<Rightarrow> rat" where
  "increments (a # b # xs) = counter_delta b a + increments (b # xs)"
| "increments xs = 0"

lemma increments_sorted: "sorted (a # xs) \<Longrightarrow> increments (a # xs) = last (a # xs) - a"
  by (induction xs arbitrary: a) (auto simp: counter_delta_def)

definition last_value :: "scraper \<Rightarrow> rat list" where
  "last_value v = (if initialized v then [prevSendFailed v] else [])"

lemma health_run_otel: "health_run H es y = Some y' \<Longrightarrow> otel_dropped y' = otel_dropped y + increments (last_value (otel_scraper y) @ failed_values es)"
proof (induction es arbitrary: y)
  case Nil
  then show ?case by (simp add: last_value_def)
next
  case (Cons e es)
  then obtain y1 where s: "health_step H e y = Some y1" and r: "health_run H es y1 = Some y'" by (auto simp: bind_eq_Some_conv)
  note ih = Cons.IH [OF r]
  show ?case
  proof (cases "\<exists>m. e = Scrape (Some m)")
    case True
    then obtain m where e: "e = Scrape (Some m)" by blast
    have v: "last_value (otel_scraper y1) = [get0 0 m otelColSendFailedMetric]"
      using s e by (auto simp: scrape_round_def last_value_def Let_def)
    have "otel_dropped y1 = otel_dropped y + (if initialized (otel_scraper y) then counter_delta (get0 0 m otelColSendFailedMetric) (prevSendFailed (otel_scraper y)) else 0)"
      using s e by (auto simp: scrape_round_def otel_dropped_def Let_def)
    then show ?thesis using ih v e by (simp add: last_value_def)
  next
    case False
    then have "otel_dropped y1 = otel_dropped y" "otel_scraper y1 = otel_scraper y" "failed_values (e # es) = failed_values es"
      using s by (cases e; auto simp: otel_dropped_def section_defs scrape_round_def Let_def
          split: export_pc.splits tailer_pc.splits option.splits if_splits prod.splits)+
    then show ?thesis using ih by simp
  qed
qed

text \<open>
  C39: The health counters neither lose nor repeat anything. Whatever the order of the critical sections of the four goroutines,
  what a counter has exported together with what is still to be exported is what was reported: the lines of export failures, the drops that the
  metrics extension logged, and the increments between the values of the collector's own counter, for a counter that does
  not restart the difference between the last and the first value read.
\<close>

theorem health_counters_exact:
  assumes "health_run H es new_system = Some y"
  shows "otelcolExportFailuresMetric (shared y) + OtelColExportFailureEventCount (shared y) = sum_list (map event_failures es) \<and>
    meDroppedMetric (shared y) + MEDroppedCount (shared y) + pending_drops (me_tailer y) = sum_list (map (event_drops H) es) \<and>
    otelcolDroppedMetric (shared y) + OtelColDroppedCount (shared y) = increments (failed_values es) \<and>
    (sorted (failed_values es) \<and> failed_values es \<noteq> [] \<longrightarrow> increments (failed_values es) = last (failed_values es) - hd (failed_values es))"
proof (intro conjI impI)
  have "failures_held new_system = 0" "dropped_held new_system = 0" "otel_dropped new_system = 0" "last_value (otel_scraper new_system) = []"
    by (simp_all add: failures_held_def dropped_held_def otel_dropped_def last_value_def new_system_def new_health_def new_scraper_def)
  then show "otelcolExportFailuresMetric (shared y) + OtelColExportFailureEventCount (shared y) = sum_list (map event_failures es)"
      "meDroppedMetric (shared y) + MEDroppedCount (shared y) + pending_drops (me_tailer y) = sum_list (map (event_drops H) es)"
      "otelcolDroppedMetric (shared y) + OtelColDroppedCount (shared y) = increments (failed_values es)"
    using failures.run_held [OF TrueI assms] drops.run_held [OF TrueI assms] health_run_otel [OF assms]
    by (simp_all add: failures_held_def dropped_held_def otel_dropped_def)
  assume "sorted (failed_values es) \<and> failed_values es \<noteq> []"
  then show "increments (failed_values es) = last (failed_values es) - hd (failed_values es)"
    using increments_sorted by (cases "failed_values es") auto
qed

section \<open>Scraping\<close>

lemma add_metrics_sum: "get0 0 (foldl add_metric m ps) name = get0 0 m name + sum_list (map snd (filter (\<lambda>p. fst p = name) ps))"
proof (induction ps arbitrary: m)
  case (Cons p ps)
  then show ?case by (cases p) (auto simp: add_metric_def get0_def)
qed simp

lemma IndexByte_first: "c \<notin> set s \<Longrightarrow> IndexByte c (s @ c # t) = Some (length s)"
  by (simp add: IndexByte_def takeWhile_append)

lemma LastIndexByte_last:
  assumes "c \<notin> set t"
  shows "LastIndexByte c (s @ c # t) = Some (length s)"
proof -
  have "takeWhile (\<lambda>x. x \<noteq> c) (rev t @ c # rev s) = rev t" using assms by (simp add: takeWhile_append)
  then show ?thesis by (simp add: LastIndexByte_def)
qed

lemma parse_line_value:
  assumes "CHR '' '' \<notin> set v" and "v \<noteq> []" and "ParseFloat H v = Some x"
    and "(case IndexByte CHR ''{'' (p @ CHR '' '' # v) of Some i \<Rightarrow> Some i | None \<Rightarrow> IndexByte CHR '' '' (p @ CHR '' '' # v)) = Some n" and "n > 0"
  shows "parsePrometheusLine H (p @ CHR '' '' # v) = Some (take n (p @ CHR '' '' # v), x)"
proof -
  have "length p < length (p @ CHR '' '' # v) - 1" "drop (length p + 1) (p @ CHR '' '' # v) = v" using assms(2) by (cases v, simp_all)
  then show ?thesis unfolding parsePrometheusLine_def assms(4) LastIndexByte_last [OF assms(1), of p] using assms(3,5) by simp
qed

text \<open>
  The scraper reads the text format. A series that is printed with or without labels is read back as its name and its value,
  and the result for a name is the sum of the values of its series. A response that cannot be read to the end gives no result.
\<close>

theorem scraped_metrics:
  assumes "name \<noteq> ''''" and "CHR ''{'' \<notin> set name" and "CHR '' '' \<notin> set name" and "CHR '' '' \<notin> set v" and "CHR ''{'' \<notin> set v" and "v \<noteq> ''''"
    and "ParseFloat H v = Some x"
  shows "parsePrometheusLine H (name @ ''{'' @ labels @ ''} '' @ v) = Some (name, x) \<and> parsePrometheusLine H (name @ '' '' @ v) = Some (name, x) \<and>
    (case scan_lines body of (lines, failed) \<Rightarrow>
       if failed then scrapeOtelColMetrics H (Some (200, body)) = None
       else (\<exists>m. scrapeOtelColMetrics H (Some (200, body)) = Some m \<and>
         (\<forall>n. get0 0 m n = sum_list (map snd (filter (\<lambda>p. fst p = n) (List.map_filter (metric_of_line H) lines))))))"
proof (intro conjI)
  have "IndexByte CHR ''{'' ((name @ ''{'' @ labels @ ''}'') @ CHR '' '' # v) = Some (length name)"
    using IndexByte_first [OF assms(2), of "labels @ ''}'' @ CHR '' '' # v"] by simp
  then show "parsePrometheusLine H (name @ ''{'' @ labels @ ''} '' @ v) = Some (name, x)"
    using parse_line_value [OF assms(4,6,7), of "name @ ''{'' @ labels @ ''}''"] assms(1) by simp
  have "IndexByte CHR ''{'' (name @ CHR '' '' # v) = None" using assms(2,5) by (simp add: IndexByte_def)
  then show "parsePrometheusLine H (name @ '' '' @ v) = Some (name, x)"
    using parse_line_value [OF assms(4,6,7), of name] IndexByte_first [OF assms(3), of v] assms(1) by simp
  show "case scan_lines body of (lines, failed) \<Rightarrow>
       if failed then scrapeOtelColMetrics H (Some (200, body)) = None
       else (\<exists>m. scrapeOtelColMetrics H (Some (200, body)) = Some m \<and>
         (\<forall>n. get0 0 m n = sum_list (map snd (filter (\<lambda>p. fst p = n) (List.map_filter (metric_of_line H) lines)))))"
    by (simp add: scrapeOtelColMetrics_def add_metrics_sum split: prod.split)
qed

section \<open>Tailing\<close>




section \<open>Witnesses\<close>

definition demo_health :: health_lib where
  "demo_health = \<lparr>ParseFloat = (\<lambda>t. if t = ''5'' then Some 5 else if t = ''3'' then Some 3 else None),
     meProcessedCountRegex = (\<lambda>l. [l, '''', '''', '''', ''5'', '''', ''3'', ''3''])\<rparr>"

definition demo_failed :: "rat \<Rightarrow> (string, rat) gomap" where
  "demo_failed n = fmupd otelColSendFailedMetric n fmempty"

theorem health_counters_exact_witness:
  "\<exists>y. health_run demo_health [MELine ''ProcessedCount: 5'', Scrape (Some (demo_failed 1)), Export 60000000000, OtelLine ''Exporting failed'', METail,
       Scrape (Some (demo_failed 4)), Export 0, Export 0, Export 0] new_system = Some y \<and>
     otelcolExportFailuresMetric (shared y) + OtelColExportFailureEventCount (shared y) = 1 \<and>
     meDroppedMetric (shared y) + MEDroppedCount (shared y) + pending_drops (me_tailer y) = 2 \<and>
     otelcolDroppedMetric (shared y) + OtelColDroppedCount (shared y) = 3"
proof -
  let ?es = "[MELine ''ProcessedCount: 5'', Scrape (Some (demo_failed 1)), Export 60000000000, OtelLine ''Exporting failed'', METail,
       Scrape (Some (demo_failed 4)), Export 0, Export 0, Export 0]"
  have p: "parse_processed_count demo_health ''ProcessedCount: 5'' = Some (5, 3, 3)"
    by (simp add: parse_processed_count_def demo_health_def sublist_code)
  have "\<exists>y. health_run demo_health ?es new_system = Some y"
    by (simp add: new_system_def p scrape_round_def Let_def)
  then obtain y where y: "health_run demo_health ?es new_system = Some y" by blast
  moreover have "sublist ''Exporting failed'' ''Exporting failed''" by simp
  moreover have "failed_values ?es = [1, 4]" by (simp add: demo_failed_def)
  ultimately show ?thesis using health_counters_exact [OF y] p by (intro exI [of _ y]) (simp add: line_drops_def)
qed

theorem scraped_metrics_witness:
  "parsePrometheusLine demo_health ''a{b} 5'' = Some (''a'', 5) \<and> parsePrometheusLine demo_health ''a 5'' = Some (''a'', 5)"
  using scraped_metrics [of "''a''" "''5''" demo_health 5 "''b''" "''''"] by (simp add: demo_health_def)


end
